(* ===== verification/Cog_Prelude.thy ===== *)
theory Cog_Prelude
  imports Complex_Main "HOL-Library.Word" "HOL-Library.List_Lexorder" "HOL-Library.Char_ord"
    "HOL-Library.Product_Lexorder"
begin

text \<open>
  Shared vocabulary of the Cognitive OS development: identifiers, timestamps, Python strings,
  JSON values, validators, fallible computations, ordered dictionaries and lifecycle tables.

  \<^item> An identifier (\<open>domain/identifiers.py\<close>, a UUID) is a 128-bit word; \<open>uuid_str\<close> is its
    canonical text.
  \<^item> A timestamp (\<open>UtcDatetime\<close>, timezone-aware and normalised to UTC) is the number of
    microseconds since the epoch, the resolution of Python's \<open>datetime\<close>.
  \<^item> A Python float is a rational: comparisons are exact, rounding of sums is not modelled.
  \<^item> A Python string is a list of characters (code points up to 255).
  \<^item> A contract class with a \<open>model_validator\<close> is a record and a list of guarded errors; the
    first guard that holds is the error raised (\<open>first_error\<close>).
\<close>

section \<open>Named collections\<close>

named_theorems validator_defs \<open>definitions of contract validators\<close>
named_theorems table_defs \<open>definitions of lifecycle tables\<close>
named_theorems frame_simps \<open>which fields an operation leaves unchanged\<close>

section \<open>Scalars\<close>

type_synonym uuid = "128 word"
type_synonym timestamp = int
type_synonym pyfloat = rat

definition seconds_to_micros :: "int \<Rightarrow> timestamp" where
  "seconds_to_micros s = s * 1000000"

subsection \<open>Canonical text of a UUID\<close>

definition hex_char :: "nat \<Rightarrow> char" where
  "hex_char d = (if d < 10 then char_of (48 + d) else char_of (87 + d))"

fun hex_digits :: "nat \<Rightarrow> nat \<Rightarrow> string" where
  "hex_digits 0 n = []"
| "hex_digits (Suc k) n = hex_digits k (n div 16) @ [hex_char (n mod 16)]"

definition uuid_str :: "uuid \<Rightarrow> string" where
  "uuid_str u = (let h = hex_digits 32 (unat u) in
     take 8 h @ ''-'' @ take 4 (drop 8 h) @ ''-'' @ take 4 (drop 12 h) @ ''-'' @
     take 4 (drop 16 h) @ ''-'' @ drop 20 h)"

lemma length_hex_digits [simp]: "length (hex_digits k n) = k"
  by (induction k n rule: hex_digits.induct) auto

lemma of_char_hex_char: "d < 16 \<Longrightarrow> of_char (hex_char d) = (if d < 10 then 48 + d else 87 + d)"
  by (simp add: hex_char_def take_bit_eq_mod)

lemma hex_char_inj:
  assumes "a < 16" "b < 16" "hex_char a = hex_char b"
  shows "a = b"
proof -
  from assms(3) have "(of_char (hex_char a) :: nat) = of_char (hex_char b)" by simp
  with assms(1,2) show ?thesis by (auto simp: of_char_hex_char split: if_splits)
qed

lemma hex_digits_inj:
  "a < 16 ^ k \<Longrightarrow> b < 16 ^ k \<Longrightarrow> hex_digits k a = hex_digits k b \<Longrightarrow> a = b"
proof (induction k arbitrary: a b)
  case 0
  then show ?case by simp
next
  case (Suc k)
  from Suc.prems have "a div 16 < 16 ^ k" "b div 16 < 16 ^ k"
    by (auto simp: less_mult_imp_div_less mult.commute)
  with Suc have "a div 16 = b div 16" by auto
  moreover from Suc.prems(3) have "a mod 16 = b mod 16"
    by (auto intro: hex_char_inj)
  ultimately show ?case by (metis div_mult_mod_eq)
qed

lemma uuid_str_inj [simp]: "uuid_str a = uuid_str b \<longleftrightarrow> a = b"
proof
  assume eq: "uuid_str a = uuid_str b"
  define ha where "ha = hex_digits 32 (unat a)"
  define hb where "hb = hex_digits 32 (unat b)"
  have len: "length ha = 32" "length hb = 32" by (simp_all add: ha_def hb_def)
  have parts: "take 8 ha = take 8 hb" "take 4 (drop 8 ha) = take 4 (drop 8 hb)"
    "take 4 (drop 12 ha) = take 4 (drop 12 hb)" "take 4 (drop 16 ha) = take 4 (drop 16 hb)"
    "drop 20 ha = drop 20 hb"
    using eq len by (auto simp: uuid_str_def Let_def ha_def [symmetric] hb_def [symmetric])
  have step: "drop i h = take 4 (drop i h) @ drop (i + 4) h" for i and h :: string
    using append_take_drop_id [of 4 "drop i h"] by (simp add: add.commute)
  have split: "h = take 8 h @ take 4 (drop 8 h) @ take 4 (drop 12 h) @ take 4 (drop 16 h) @ drop 20 h"
    for h :: string
    using append_take_drop_id [of 8 h] step [of 8 h] step [of 12 h] step [of 16 h] by simp
  have "ha = hb" by (subst split [of ha], subst split [of hb]) (simp only: parts)
  moreover have "unat a < 16 ^ 32" "unat b < 16 ^ 32"
    using unsigned_less [of a] unsigned_less [of b] by auto
  ultimately have "unat a = unat b" unfolding ha_def hb_def by (blast intro: hex_digits_inj)
  then show "a = b" by (simp add: word_unat_eq_iff)
qed simp

subsection \<open>Python strings\<close>

definition py_space :: "char \<Rightarrow> bool" where
  "py_space c \<longleftrightarrow> (let n = (of_char c :: nat) in
     (9 \<le> n \<and> n \<le> 13) \<or> (28 \<le> n \<and> n \<le> 32) \<or> n = 133 \<or> n = 160)"

definition py_strip :: "string \<Rightarrow> string" where
  "py_strip s = rev (dropWhile py_space (rev (dropWhile py_space s)))"

text \<open>\<open>NonEmptyStr\<close>: stripped of whitespace, then of length at least one.\<close>

definition non_empty_str :: "string \<Rightarrow> bool" where
  "non_empty_str s \<longleftrightarrow> py_strip s \<noteq> []"

definition opt_non_empty :: "string option \<Rightarrow> bool" where
  "opt_non_empty x = (case x of None \<Rightarrow> True | Some s \<Rightarrow> non_empty_str s)"

lemma dropWhile_hd_id: "xs = [] \<or> \<not> P (hd xs) \<Longrightarrow> dropWhile P xs = xs"
  by (cases xs) auto

lemma py_strip_idem [simp]: "py_strip (py_strip s) = py_strip s"
proof -
  let ?d = "dropWhile py_space s"
  let ?t = "rev (dropWhile py_space (rev ?d))"
  have "dropWhile py_space ?t = ?t"
  proof (rule dropWhile_hd_id)
    show "?t = [] \<or> \<not> py_space (hd ?t)"
    proof (cases "?t = []")
      case False
      have split: "?d = ?t @ rev (takeWhile py_space (rev ?d))"
        by (simp flip: rev_append)
      with False have "hd ?t = hd ?d" by (metis hd_append2)
      moreover from split False have "?d \<noteq> []" by (metis append_is_Nil_conv)
      then have "\<not> py_space (hd ?d)" by (rule hd_dropWhile)
      ultimately show ?thesis by simp
    qed simp
  qed
  then show ?thesis by (simp add: py_strip_def)
qed

definition py_endswith :: "string \<Rightarrow> string \<Rightarrow> bool" where
  "py_endswith s suffix \<longleftrightarrow>
     length suffix \<le> length s \<and> drop (length s - length suffix) s = suffix"

definition py_startswith :: "string \<Rightarrow> string \<Rightarrow> bool" where
  "py_startswith s p \<longleftrightarrow> take (length p) s = p"

lemma non_empty_str_Cons: "\<not> py_space c \<Longrightarrow> non_empty_str (c # s)"
  by (auto simp: non_empty_str_def py_strip_def)

lemma non_empty_str_not_Nil: "non_empty_str s \<Longrightarrow> s \<noteq> []"
  by (auto simp: non_empty_str_def py_strip_def)

lemma py_endswith_append [simp]: "py_endswith (s @ t) t"
  by (simp add: py_endswith_def)

text \<open>The truth value of a Python string or optional string.\<close>

definition str_truthy :: "string option \<Rightarrow> bool" where
  "str_truthy x = (case x of None \<Rightarrow> False | Some s \<Rightarrow> s \<noteq> [])"

text \<open>\<open>Sha256Hex\<close>: sixty-four lowercase hexadecimal digits.\<close>

definition sha256_hex :: "string \<Rightarrow> bool" where
  "sha256_hex s \<longleftrightarrow> length s = 64 \<and> list_all (\<lambda>c. c \<in> set ''0123456789abcdef'') s"

text \<open>\<open>str.split\<close> at a one-character separator.\<close>

fun split_on :: "char \<Rightarrow> string \<Rightarrow> string list" where
  "split_on d [] = [[]]"
| "split_on d (c # cs) =
     (if c = d then [] # split_on d cs
      else case split_on d cs of [] \<Rightarrow> [[c]] | w # ws \<Rightarrow> (c # w) # ws)"

text \<open>Slicing \<open>xs[:n]\<close>: a negative bound counts from the end.\<close>

definition py_take :: "int \<Rightarrow> 'a list \<Rightarrow> 'a list" where
  "py_take n xs = (if 0 \<le> n then take (nat n) xs else take (length xs - nat (- n)) xs)"

subsection \<open>JSON values\<close>

datatype json =
    JNull
  | JBool bool
  | JInt int
  | JFloat pyfloat
  | JStr string
  | JList "json list"
  | JObj "(string \<times> json) list"

section \<open>Validators and fallible computations\<close>

fun first_error :: "(bool \<times> 'e) list \<Rightarrow> 'e option" where
  "first_error [] = None"
| "first_error ((c, e) # cs) = (if c then Some e else first_error cs)"

lemma first_error_None_iff: "first_error cs = None \<longleftrightarrow> (\<forall>(c, e) \<in> set cs. \<not> c)"
  by (induction cs rule: first_error.induct) auto

lemma first_error_Some: "first_error cs = Some e \<Longrightarrow> (True, e) \<in> set cs"
  by (induction cs rule: first_error.induct) (auto split: if_splits)

lemma first_error_append:
  "first_error (xs @ ys) = (case first_error xs of None \<Rightarrow> first_error ys | Some e \<Rightarrow> Some e)"
  by (induction xs rule: first_error.induct) auto

text \<open>Constructing a contract object: the object itself, or the first error.\<close>

definition construct :: "('a \<Rightarrow> 'e option) \<Rightarrow> 'a \<Rightarrow> 'e + 'a" where
  "construct validate x = (case validate x of None \<Rightarrow> Inr x | Some e \<Rightarrow> Inl e)"

lemma construct_Inr [simp]: "construct v x = Inr y \<longleftrightarrow> v x = None \<and> y = x"
  by (auto simp: construct_def split: option.splits)

lemma construct_Inl [simp]: "construct v x = Inl e \<longleftrightarrow> v x = Some e"
  by (auto simp: construct_def split: option.splits)

text \<open>Sequencing: an exception (\<open>Inl\<close>) ends the computation.\<close>

definition bind_res :: "'e + 'a \<Rightarrow> ('a \<Rightarrow> 'e + 'b) \<Rightarrow> 'e + 'b" where
  "bind_res m f = (case m of Inl e \<Rightarrow> Inl e | Inr x \<Rightarrow> f x)"

lemma bind_res_simps [simp]:
  "bind_res (Inl e) f = Inl e"
  "bind_res (Inr x) f = f x"
  by (simp_all add: bind_res_def)

lemma bind_res_Inr_iff: "bind_res m f = Inr y \<longleftrightarrow> (\<exists>x. m = Inr x \<and> f x = Inr y)"
  by (cases m) auto

lemma bind_res_InrE:
  assumes "bind_res m f = Inr y"
  obtains x where "m = Inr x" "f x = Inr y"
  using assms by (auto simp: bind_res_Inr_iff)

lemma bind_res_assoc: "bind_res (bind_res m f) g = bind_res m (\<lambda>x. bind_res (f x) g)"
  by (cases m) simp_all

section \<open>Ordered dictionaries\<close>

text \<open>
  A Python \<open>dict\<close> keeps insertion order: an association list with distinct keys. Assignment to a
  key that is present keeps its place, assignment to a new key appends.
\<close>

type_synonym ('k, 'v) dict = "('k \<times> 'v) list"

fun dict_set :: "('k, 'v) dict \<Rightarrow> 'k \<Rightarrow> 'v \<Rightarrow> ('k, 'v) dict" where
  "dict_set [] k v = [(k, v)]"
| "dict_set ((k', v') # d) k v =
     (if k' = k then (k, v) # d else (k', v') # dict_set d k v)"

abbreviation dict_get :: "('k, 'v) dict \<Rightarrow> 'k \<Rightarrow> 'v option" where
  "dict_get \<equiv> map_of"

abbreviation dict_ok :: "('k, 'v) dict \<Rightarrow> bool" where
  "dict_ok d \<equiv> distinct (map fst d)"

lemma dict_get_set [simp]: "dict_get (dict_set d k v) = (dict_get d)(k \<mapsto> v)"
  by (induction d k v rule: dict_set.induct) (auto simp: fun_eq_iff)

lemma dict_set_keys [simp]: "fst ` set (dict_set d k v) = insert k (fst ` set d)"
  by (induction d k v rule: dict_set.induct) auto

lemma dict_ok_set [simp]: "dict_ok d \<Longrightarrow> dict_ok (dict_set d k v)"
proof (induction d k v rule: dict_set.induct)
  case (2 k' v' d k v)
  then show ?case
    using dict_set_keys [of d k v] by (auto simp: image_iff)
qed simp

lemma dict_set_new: "k \<notin> fst ` set d \<Longrightarrow> dict_set d k v = d @ [(k, v)]"
  by (induction d k v rule: dict_set.induct) auto

section \<open>Lifecycle tables\<close>

text \<open>
  Every lifecycle of the program is a table from a status to the statuses it may move to, with
  some statuses terminal. The interface below is what the services rely on.
\<close>

locale lifecycle_table =
  fixes allowed :: "'s \<Rightarrow> 's \<Rightarrow> bool"
    and terminal :: "'s \<Rightarrow> bool"
  assumes terminal_stuck: "terminal s \<Longrightarrow> \<not> allowed s t"
    and live_moves: "\<not> terminal s \<Longrightarrow> \<exists>t. allowed s t"
    and no_self_loop: "\<not> allowed s s"
begin

text \<open>A run is a list of statuses in which each step is allowed.\<close>

fun run_from :: "'s \<Rightarrow> 's list \<Rightarrow> bool" where
  "run_from s [] = True"
| "run_from s (t # ts) = (allowed s t \<and> run_from t ts)"

definition run_end :: "'s \<Rightarrow> 's list \<Rightarrow> 's" where
  "run_end s ts = last (s # ts)"

lemma terminal_iff_stuck: "terminal s \<longleftrightarrow> (\<forall>t. \<not> allowed s t)"
  using terminal_stuck live_moves by blast

lemma run_from_append: "run_from s (xs @ ys) \<longleftrightarrow> run_from s xs \<and> run_from (run_end s xs) ys"
  by (induction xs arbitrary: s) (auto simp: run_end_def)

lemma run_from_terminal: "terminal s \<Longrightarrow> run_from s ts \<Longrightarrow> ts = []"
  by (cases ts) (auto dest: terminal_stuck)

text \<open>A terminal status can only be the last one of a run.\<close>

lemma run_terminal_last:
  "run_from s (xs @ t # ys) \<Longrightarrow> terminal t \<Longrightarrow> ys = []"
  using run_from_terminal by (auto simp: run_from_append)

lemma reachable_from_terminal: "allowed\<^sup>*\<^sup>* s t \<Longrightarrow> terminal s \<Longrightarrow> t = s"
  by (induction rule: converse_rtranclp_induct) (auto dest: terminal_stuck)

lemma run_from_rtranclp: "run_from s ts \<Longrightarrow> allowed\<^sup>*\<^sup>* s (run_end s ts)"
proof (induction ts arbitrary: s)
  case (Cons t ts)
  then show ?case
    by (auto simp: run_end_def intro: converse_rtranclp_into_rtranclp)
qed (simp add: run_end_def)

end

end
