(* ===== verification/Run_Monad.thy ===== *)
theory Run_Monad
  imports Cog_Prelude
begin

text \<open>
  Stateful computations that may raise: the state a computation leaves behind is kept when it
  raises, as the events a service has already appended are. Triples state what holds after a normal
  return and what holds after an exception.
\<close>

type_synonym ('s, 'e, 'a) comp = "'s \<Rightarrow> 's \<times> ('e + 'a)"

definition ret :: "'a \<Rightarrow> ('s, 'e, 'a) comp" where
  "ret x = (\<lambda>s. (s, Inr x))"

definition throw :: "'e \<Rightarrow> ('s, 'e, 'a) comp" where
  "throw e = (\<lambda>s. (s, Inl e))"

definition bnd :: "('s, 'e, 'a) comp \<Rightarrow> ('a \<Rightarrow> ('s, 'e, 'b) comp) \<Rightarrow> ('s, 'e, 'b) comp" where
  "bnd m f = (\<lambda>s. case m s of (s', Inl e) \<Rightarrow> (s', Inl e) | (s', Inr x) \<Rightarrow> f x s')"

definition andthen :: "('s, 'e, 'a) comp \<Rightarrow> ('s, 'e, 'b) comp \<Rightarrow> ('s, 'e, 'b) comp" where
  "andthen m n = bnd m (\<lambda>_. n)"

definition asks :: "('s \<Rightarrow> 'a) \<Rightarrow> ('s, 'e, 'a) comp" where
  "asks f = (\<lambda>s. (s, Inr (f s)))"

definition change :: "('s \<Rightarrow> 's) \<Rightarrow> ('s, 'e, unit) comp" where
  "change f = (\<lambda>s. (f s, Inr ()))"

text \<open>A fallible pure computation, its errors embedded by \<open>k\<close>.\<close>

definition lift_res :: "('f \<Rightarrow> 'e) \<Rightarrow> 'f + 'a \<Rightarrow> ('s, 'e, 'a) comp" where
  "lift_res k r = (\<lambda>s. (s, case r of Inl f \<Rightarrow> Inl (k f) | Inr x \<Rightarrow> Inr x))"

definition triple ::
  "('s \<Rightarrow> bool) \<Rightarrow> ('s, 'e, 'a) comp \<Rightarrow> ('a \<Rightarrow> 's \<Rightarrow> bool) \<Rightarrow> ('e \<Rightarrow> 's \<Rightarrow> bool) \<Rightarrow> bool" where
  "triple P m Q E \<longleftrightarrow> (\<forall>s. P s \<longrightarrow>
     (case m s of (s', Inr x) \<Rightarrow> Q x s' | (s', Inl e) \<Rightarrow> E e s'))"

lemma tripleI: "(\<And>s. P s \<Longrightarrow> case m s of (s', Inr x) \<Rightarrow> Q x s' | (s', Inl e) \<Rightarrow> E e s') \<Longrightarrow> triple P m Q E"
  by (simp add: triple_def)

lemma triple_Inr: "triple P m Q E \<Longrightarrow> P s \<Longrightarrow> m s = (s', Inr x) \<Longrightarrow> Q x s'"
  by (auto simp: triple_def)

lemma triple_Inl: "triple P m Q E \<Longrightarrow> P s \<Longrightarrow> m s = (s', Inl e) \<Longrightarrow> E e s'"
  by (auto simp: triple_def)

lemma triple_pre: "triple P m Q E \<Longrightarrow> (\<And>s. P' s \<Longrightarrow> P s) \<Longrightarrow> triple P' m Q E"
  by (simp add: triple_def)

lemma triple_conseq:
  "triple P m Q E \<Longrightarrow> (\<And>s. P' s \<Longrightarrow> P s) \<Longrightarrow> (\<And>x s. Q x s \<Longrightarrow> Q' x s) \<Longrightarrow> (\<And>e s. E e s \<Longrightarrow> E' e s) \<Longrightarrow>
   triple P' m Q' E'"
  by (fastforce simp: triple_def split: prod.splits sum.splits)

lemma triple_post: "triple P m Q E \<Longrightarrow> (\<And>x s. Q x s \<Longrightarrow> Q' x s) \<Longrightarrow> triple P m Q' E"
  by (rule triple_conseq)

lemma triple_ret: "(\<And>s. P s \<Longrightarrow> Q x s) \<Longrightarrow> triple P (ret x) Q E"
  by (simp add: triple_def ret_def)

lemma triple_throw: "(\<And>s. P s \<Longrightarrow> E e s) \<Longrightarrow> triple P (throw e) Q E"
  by (simp add: triple_def throw_def)

lemma triple_bnd:
  "triple P m R E \<Longrightarrow> (\<And>x. triple (R x) (f x) Q E) \<Longrightarrow> triple P (bnd m f) Q E"
  by (fastforce simp: triple_def bnd_def split: prod.splits sum.splits)

lemma triple_andthen:
  "triple P m (\<lambda>_. R) E \<Longrightarrow> triple R n Q E \<Longrightarrow> triple P (andthen m n) Q E"
  unfolding andthen_def by (rule triple_bnd)

text \<open>Reading the state: the value is that of the current state.\<close>

lemma triple_asks: "(\<And>s. P s \<Longrightarrow> Q (f s) s) \<Longrightarrow> triple P (asks f) Q E"
  by (simp add: triple_def asks_def)

lemma triple_asks_keep: "triple P (asks f) (\<lambda>x s. P s \<and> x = f s) E"
  by (rule triple_asks) simp

lemma triple_change: "(\<And>s. P s \<Longrightarrow> Q () (f s)) \<Longrightarrow> triple P (change f) Q E"
  by (simp add: triple_def change_def)

lemma triple_lift_res:
  "(\<And>s x. P s \<Longrightarrow> r = Inr x \<Longrightarrow> Q x s) \<Longrightarrow> (\<And>s f. P s \<Longrightarrow> r = Inl f \<Longrightarrow> E (k f) s) \<Longrightarrow>
   triple P (lift_res k r) Q E"
  by (auto simp: triple_def lift_res_def split: sum.splits)

lemma triple_if:
  "(b \<Longrightarrow> triple P m Q E) \<Longrightarrow> (\<not> b \<Longrightarrow> triple P n Q E) \<Longrightarrow> triple P (if b then m else n) Q E"
  by simp

lemma triple_pure: "(c \<Longrightarrow> triple P m Q E) \<Longrightarrow> triple (\<lambda>s. P s \<and> c) m Q E"
  by (auto simp: triple_def)

end
