(* ===== verification/Lifecycle.thy ===== *)
theory Lifecycle
  imports Cog_Prelude
begin

text \<open>
  Task, task-run and execution-step lifecycles: \<open>domain/enums.py\<close>, the transition tables of
  \<open>domain/transitions.py\<close>, the snapshot contracts of \<open>domain/tasks.py\<close> and the value objects of
  \<open>domain/common.py\<close> they hold. Each table is an instance of the interface \<open>lifecycle_table\<close>.
\<close>

section \<open>Status vocabularies\<close>

datatype TaskStatus = TaskCreated | TaskReady | TaskRunning | TaskWaiting | TaskCompleted
  | TaskFailed | TaskCancelled

datatype TaskRunStatus = RunPending | RunRunning | RunWaitingForApproval | RunCompleted
  | RunFailed | RunCancelled

datatype StepStatus = StepPending | StepReady | StepRunning | StepCompleted | StepFailed
  | StepSkipped | StepCancelled

datatype TaskPriority = PriorityLow | PriorityNormal | PriorityHigh | PriorityCritical

datatype RiskLevel = RiskLow | RiskMedium | RiskHigh | RiskCritical

datatype PrivacyClass = PrivacyPublic | PrivacyInternal | PrivacySensitive | PrivacySecret

datatype VerifierStatus = VPassed | VFailed | VPartial | VUnverifiable | VError

datatype FindingSeverity = SevInfo | SevWarning | SevError | SevCritical

datatype ActorType = ActorUser | ActorAgent | ActorModel | ActorTool | ActorVerifier | ActorSystem

datatype StreamType = StreamTask | StreamTaskRun | StreamModelCall | StreamToolCall
  | StreamVerifier | StreamMemory | StreamSemantic | StreamSystem

section \<open>Transition tables\<close>

fun TASK_TRANSITIONS :: "TaskStatus \<Rightarrow> TaskStatus list" where
  "TASK_TRANSITIONS TaskCreated = [TaskReady, TaskCancelled]"
| "TASK_TRANSITIONS TaskReady = [TaskRunning, TaskCancelled]"
| "TASK_TRANSITIONS TaskRunning = [TaskWaiting, TaskCompleted, TaskFailed, TaskCancelled]"
| "TASK_TRANSITIONS TaskWaiting = [TaskRunning, TaskFailed, TaskCancelled]"
| "TASK_TRANSITIONS TaskCompleted = []"
| "TASK_TRANSITIONS TaskFailed = []"
| "TASK_TRANSITIONS TaskCancelled = []"

fun TASK_RUN_TRANSITIONS :: "TaskRunStatus \<Rightarrow> TaskRunStatus list" where
  "TASK_RUN_TRANSITIONS RunPending = [RunRunning, RunCancelled]"
| "TASK_RUN_TRANSITIONS RunRunning =
     [RunWaitingForApproval, RunCompleted, RunFailed, RunCancelled]"
| "TASK_RUN_TRANSITIONS RunWaitingForApproval = [RunRunning, RunFailed, RunCancelled]"
| "TASK_RUN_TRANSITIONS RunCompleted = []"
| "TASK_RUN_TRANSITIONS RunFailed = []"
| "TASK_RUN_TRANSITIONS RunCancelled = []"

fun STEP_TRANSITIONS :: "StepStatus \<Rightarrow> StepStatus list" where
  "STEP_TRANSITIONS StepPending = [StepReady, StepSkipped, StepCancelled]"
| "STEP_TRANSITIONS StepReady = [StepRunning, StepSkipped, StepCancelled]"
| "STEP_TRANSITIONS StepRunning = [StepCompleted, StepFailed, StepCancelled]"
| "STEP_TRANSITIONS StepCompleted = []"
| "STEP_TRANSITIONS StepFailed = []"
| "STEP_TRANSITIONS StepSkipped = []"
| "STEP_TRANSITIONS StepCancelled = []"

definition can_transition_task :: "TaskStatus \<Rightarrow> TaskStatus \<Rightarrow> bool" where
  "can_transition_task current target \<longleftrightarrow> target \<in> set (TASK_TRANSITIONS current)"

definition can_transition_task_run :: "TaskRunStatus \<Rightarrow> TaskRunStatus \<Rightarrow> bool" where
  "can_transition_task_run current target \<longleftrightarrow> target \<in> set (TASK_RUN_TRANSITIONS current)"

definition can_transition_step :: "StepStatus \<Rightarrow> StepStatus \<Rightarrow> bool" where
  "can_transition_step current target \<longleftrightarrow> target \<in> set (STEP_TRANSITIONS current)"

lemmas [table_defs] =
  can_transition_task_def can_transition_task_run_def can_transition_step_def

definition terminal_task :: "TaskStatus \<Rightarrow> bool" where
  "terminal_task s \<longleftrightarrow> s \<in> {TaskCompleted, TaskFailed, TaskCancelled}"

definition terminal_task_run :: "TaskRunStatus \<Rightarrow> bool" where
  "terminal_task_run s \<longleftrightarrow> s \<in> {RunCompleted, RunFailed, RunCancelled}"

definition terminal_step :: "StepStatus \<Rightarrow> bool" where
  "terminal_step s \<longleftrightarrow> s \<in> {StepCompleted, StepFailed, StepSkipped, StepCancelled}"

interpretation task_table: lifecycle_table can_transition_task terminal_task
proof unfold_locales
  show "terminal_task s \<Longrightarrow> \<not> can_transition_task s t" for s t
    by (cases s) (auto simp: table_defs terminal_task_def)
  show "\<not> terminal_task s \<Longrightarrow> \<exists>t. can_transition_task s t" for s
    by (cases s) (auto simp: table_defs terminal_task_def)
  show "\<not> can_transition_task s s" for s
    by (cases s) (auto simp: table_defs)
qed

interpretation run_table: lifecycle_table can_transition_task_run terminal_task_run
proof unfold_locales
  show "terminal_task_run s \<Longrightarrow> \<not> can_transition_task_run s t" for s t
    by (cases s) (auto simp: table_defs terminal_task_run_def)
  show "\<not> terminal_task_run s \<Longrightarrow> \<exists>t. can_transition_task_run s t" for s
    by (cases s) (auto simp: table_defs terminal_task_run_def)
  show "\<not> can_transition_task_run s s" for s
    by (cases s) (auto simp: table_defs)
qed

interpretation step_table: lifecycle_table can_transition_step terminal_step
proof unfold_locales
  show "terminal_step s \<Longrightarrow> \<not> can_transition_step s t" for s t
    by (cases s) (auto simp: table_defs terminal_step_def)
  show "\<not> terminal_step s \<Longrightarrow> \<exists>t. can_transition_step s t" for s
    by (cases s) (auto simp: table_defs terminal_step_def)
  show "\<not> can_transition_step s s" for s
    by (cases s) (auto simp: table_defs)
qed

text \<open>A step only moves forward, so it makes at most three transitions.\<close>

fun step_rank :: "StepStatus \<Rightarrow> nat" where
  "step_rank StepPending = 3"
| "step_rank StepReady = 2"
| "step_rank StepRunning = 1"
| "step_rank _ = 0"

lemma step_rank_decreases: "can_transition_step s t \<Longrightarrow> step_rank t < step_rank s"
  by (cases s) (auto simp: table_defs)

lemma step_run_length: "step_table.run_from s ts \<Longrightarrow> length ts \<le> step_rank s"
proof (induction ts arbitrary: s)
  case (Cons t ts)
  then have "length ts \<le> step_rank t" "step_rank t < step_rank s"
    by (auto dest: step_rank_decreases)
  then show ?case by simp
qed simp

lemma step_rank_le: "step_rank s \<le> 3"
  by (cases s) auto

section \<open>Value objects\<close>

record ActorRef =
  ar_actor_type :: ActorType
  ar_actor_id :: string
  ar_display_name :: "string option"

record ErrorInfo =
  ei_code :: string
  ei_message :: string
  ei_error_type :: "string option"
  ei_retryable :: bool
  ei_details :: "(string, json) dict"

definition mk_error_info :: "string \<Rightarrow> string \<Rightarrow> ErrorInfo" where
  "mk_error_info code message =
     \<lparr>ei_code = code, ei_message = message, ei_error_type = None, ei_retryable = False,
      ei_details = []\<rparr>"

record TokenUsage =
  tu_input_tokens :: "int option"
  tu_output_tokens :: "int option"
  tu_total_tokens :: "int option"
  tu_cached_input_tokens :: "int option"
  tu_reasoning_tokens :: "int option"

datatype token_fault = NegativeTokens | TotalBelowInputPlusOutput

abbreviation opt_nat_field :: "int option \<Rightarrow> bool" where
  "opt_nat_field x \<equiv> (case x of None \<Rightarrow> True | Some n \<Rightarrow> 0 \<le> n)"

definition or_zero :: "int option \<Rightarrow> int" where
  "or_zero x = (case x of None \<Rightarrow> 0 | Some n \<Rightarrow> n)"

definition token_usage_error :: "TokenUsage \<Rightarrow> token_fault option" where
  "token_usage_error u = first_error
     [(\<not> (opt_nat_field (tu_input_tokens u) \<and> opt_nat_field (tu_output_tokens u) \<and>
          opt_nat_field (tu_total_tokens u) \<and> opt_nat_field (tu_cached_input_tokens u) \<and>
          opt_nat_field (tu_reasoning_tokens u)), NegativeTokens),
      (case tu_total_tokens u of None \<Rightarrow> False
       | Some tot \<Rightarrow> tot < or_zero (tu_input_tokens u) + or_zero (tu_output_tokens u),
       TotalBelowInputPlusOutput)]"

section \<open>Task snapshots\<close>

text \<open>\<open>str.casefold\<close> on ASCII text lowers the capital letters.\<close>

definition ascii_casefold :: "string \<Rightarrow> string" where
  "ascii_casefold s = map (\<lambda>c. let n = (of_char c :: nat) in
     if 65 \<le> n \<and> n \<le> 90 then char_of (n + 32) else c) s"

record Task =
  task_task_id :: uuid
  task_title :: string
  task_raw_request :: string
  task_normalized_request :: "string option"
  task_created_at :: timestamp
  task_updated_at :: timestamp
  task_priority :: TaskPriority
  task_risk_level :: RiskLevel
  task_status :: TaskStatus
  task_tags :: "string list"
  task_requested_by :: ActorRef
  task_privacy_class :: PrivacyClass

datatype task_error = BadTaskField | UpdatedBeforeCreated | TooManyTags | DuplicateTags

definition normalize_tags :: "string list \<Rightarrow> string list" where
  "normalize_tags value = map (\<lambda>item. ascii_casefold (py_strip item)) value"

definition valid_tag :: "string \<Rightarrow> bool" where
  "valid_tag t \<longleftrightarrow> non_empty_str t \<and> length (py_strip t) \<le> 64"

definition task_snapshot_error :: "Task \<Rightarrow> task_error option" where
  "task_snapshot_error t = first_error
     [(\<not> (non_empty_str (task_title t) \<and> length (py_strip (task_title t)) \<le> 256 \<and>
          non_empty_str (task_raw_request t) \<and> list_all valid_tag (task_tags t)), BadTaskField),
      (task_updated_at t < task_created_at t, UpdatedBeforeCreated),
      (length (task_tags t) > 64, TooManyTags),
      (\<not> distinct (task_tags t), DuplicateTags)]"

definition mk_task :: "Task \<Rightarrow> task_error + Task" where
  "mk_task t = construct task_snapshot_error
     (t\<lparr>task_title := py_strip (task_title t), task_raw_request := py_strip (task_raw_request t),
        task_tags := normalize_tags (task_tags t)\<rparr>)"

record TaskRun =
  run_task_run_id :: uuid
  run_task_id :: uuid
  run_session_id :: uuid
  run_correlation_id :: uuid
  run_status :: TaskRunStatus
  run_started_at :: timestamp
  run_finished_at :: "timestamp option"
  run_active_step_id :: "uuid option"
  run_selected_provider :: "string option"
  run_selected_model :: "string option"
  run_result_summary :: "string option"
  run_error :: "ErrorInfo option"
  run_attempt :: int

datatype run_fault = BadRunField | TerminalRunNeedsFinish | LiveRunHasFinish
  | RunFinishBeforeStart | FailedRunNeedsError | CompletedRunHasError

definition task_run_error :: "TaskRun \<Rightarrow> run_fault option" where
  "task_run_error r = first_error
     [(run_attempt r < 1 \<or> \<not> opt_non_empty (run_selected_provider r) \<or>
       \<not> opt_non_empty (run_selected_model r), BadRunField),
      (terminal_task_run (run_status r) \<and> run_finished_at r = None, TerminalRunNeedsFinish),
      (\<not> terminal_task_run (run_status r) \<and> run_finished_at r \<noteq> None, LiveRunHasFinish),
      (case run_finished_at r of None \<Rightarrow> False | Some f \<Rightarrow> f < run_started_at r,
       RunFinishBeforeStart),
      (run_status r = RunFailed \<and> run_error r = None, FailedRunNeedsError),
      (run_status r = RunCompleted \<and> run_error r \<noteq> None, CompletedRunHasError)]"

lemmas [validator_defs] = token_usage_error_def task_snapshot_error_def task_run_error_def

subsection \<open>Revalidating a task changes nothing\<close>

lemma lower_idem:
  "(let n = (of_char (let n = (of_char c :: nat) in if 65 \<le> n \<and> n \<le> 90 then char_of (n + 32) else c) :: nat)
    in if 65 \<le> n \<and> n \<le> 90 then char_of (n + 32)
       else (let n = (of_char c :: nat) in if 65 \<le> n \<and> n \<le> 90 then char_of (n + 32) else c)) =
   (let n = (of_char c :: nat) in if 65 \<le> n \<and> n \<le> 90 then char_of (n + 32) else c)"
  by (simp add: Let_def take_bit_eq_mod)

lemma ascii_casefold_idem: "ascii_casefold (ascii_casefold s) = ascii_casefold s"
  unfolding ascii_casefold_def map_map comp_def lower_idem ..

lemma py_space_lower:
  "py_space (let n = (of_char c :: nat) in if 65 \<le> n \<and> n \<le> 90 then char_of (n + 32) else c) = py_space c"
  by (auto simp: Let_def py_space_def take_bit_eq_mod)

lemma py_strip_casefold: "py_strip (ascii_casefold s) = ascii_casefold (py_strip s)"
  unfolding py_strip_def ascii_casefold_def
  by (simp only: rev_map dropWhile_map comp_def py_space_lower)

lemma normalize_tags_idem: "normalize_tags (normalize_tags ts) = normalize_tags ts"
  by (simp add: normalize_tags_def comp_def py_strip_casefold ascii_casefold_idem)

lemma mk_task_Inr:
  "mk_task t = Inr u \<longleftrightarrow> task_snapshot_error u = None \<and>
     u = t\<lparr>task_title := py_strip (task_title t), task_raw_request := py_strip (task_raw_request t),
           task_tags := normalize_tags (task_tags t)\<rparr>"
  by (auto simp: mk_task_def)

section \<open>Properties\<close>

text \<open>A task that was constructed passes its own validation again unchanged: its title and
  request are stripped, its tags stripped and lowered, and normalising them twice is normalising
  them once.\<close>

theorem task_revalidation:
  assumes "mk_task t = Inr u"
  shows "mk_task u = Inr u"
proof -
  from assms have ok: "task_snapshot_error u = None"
    and u: "u = t\<lparr>task_title := py_strip (task_title t), task_raw_request := py_strip (task_raw_request t),
           task_tags := normalize_tags (task_tags t)\<rparr>"
    unfolding mk_task_Inr by blast+
  have "u = u\<lparr>task_title := py_strip (task_title u), task_raw_request := py_strip (task_raw_request u),
           task_tags := normalize_tags (task_tags u)\<rparr>"
    by (simp add: u normalize_tags_idem)
  with ok show ?thesis by (simp only: mk_task_Inr)
qed

definition sample_task :: Task where
  "sample_task = \<lparr>task_task_id = 7, task_title = '' Report '', task_raw_request = ''sum up '',
     task_normalized_request = None, task_created_at = 10, task_updated_at = 12,
     task_priority = PriorityNormal, task_risk_level = RiskLow, task_status = TaskCreated,
     task_tags = ['' Urgent'', ''docs''],
     task_requested_by = \<lparr>ar_actor_type = ActorUser, ar_actor_id = ''u1'', ar_display_name = None\<rparr>,
     task_privacy_class = PrivacyInternal\<rparr>"

lemma task_revalidation_witness:
  "\<exists>u. mk_task sample_task = Inr u \<and> task_tags u = [''urgent'', ''docs''] \<and> mk_task u = Inr u"
proof -
  have "case mk_task sample_task of Inl _ \<Rightarrow> False | Inr u \<Rightarrow> task_tags u = [''urgent'', ''docs'']"
    by code_simp
  then obtain u where u: "mk_task sample_task = Inr u" "task_tags u = [''urgent'', ''docs'']"
    by (cases "mk_task sample_task") simp_all
  with task_revalidation [OF u(1)] show ?thesis by blast
qed

text \<open>An execution step makes at most three status changes, and none after a terminal status;
  a run of a task is likewise over once its status is terminal.\<close>

theorem lifecycle_runs_end:
  "(step_table.run_from s ts \<longrightarrow> length ts \<le> 3) \<and>
   (step_table.run_from s (xs @ t # ys) \<and> terminal_step t \<longrightarrow> ys = []) \<and>
   (run_table.run_from r (us @ v # vs) \<and> terminal_task_run v \<longrightarrow> vs = [])"
  using step_run_length [of s ts] step_rank_le [of s] step_table.run_terminal_last [of s xs t ys]
    run_table.run_terminal_last [of r us v vs] by auto

lemma lifecycle_runs_end_witness:
  "length [StepReady, StepRunning, StepCompleted] \<le> 3 \<and>
   step_table.run_from StepPending [StepReady, StepRunning, StepCompleted]"
proof -
  have run: "step_table.run_from StepPending [StepReady, StepRunning, StepCompleted]"
    by (simp add: table_defs)
  with lifecycle_runs_end [of StepPending "[StepReady, StepRunning, StepCompleted]" "[]" StepReady "[]"
      RunPending "[]" RunPending "[]"]
  show ?thesis by blast
qed

end
