(* ===== verification/Event_Store.thy ===== *)
theory Event_Store
  imports Lifecycle
begin

text \<open>
  Event envelopes and the append-only store: \<open>events/base.py\<close>, \<open>events/storage.py\<close>,
  \<open>events/batches.py\<close> and \<open>events/memory_store.py\<close>. The type of payloads is a parameter: a JSON
  dictionary for the generic services, the typed payloads for a client that never looks at the
  encoding. SHA-256 of the canonical JSON is the parameter \<open>digest\<close>, the wall clock at which the
  store writes its n-th event the parameter \<open>clock\<close>.

  The interface \<open>event_store\<close> is what the services rely on: a stream is a history, an append at the
  current version extends it, an append at any other version is refused and changes nothing.
\<close>

section \<open>Envelopes\<close>

record 'p EventEnvelope =
  ev_event_id :: uuid
  ev_event_type :: string
  ev_schema_version :: int
  ev_occurred_at :: timestamp
  ev_recorded_at :: timestamp
  ev_stream_id :: uuid
  ev_stream_type :: StreamType
  ev_stream_version :: int
  ev_correlation_id :: uuid
  ev_causation_event_id :: "uuid option"
  ev_actor :: ActorRef
  ev_source_component :: string
  ev_payload :: 'p
  ev_payload_hash :: string
  ev_privacy_class :: PrivacyClass

definition lower_char :: "char \<Rightarrow> bool" where
  "lower_char c \<longleftrightarrow> (let n = (of_char c :: nat) in 97 \<le> n \<and> n \<le> 122)"

definition digit_char :: "char \<Rightarrow> bool" where
  "digit_char c \<longleftrightarrow> (let n = (of_char c :: nat) in 48 \<le> n \<and> n \<le> 57)"

text \<open>On the bits of a character, for evaluation.\<close>

lemma lower_char_bits [code]:
  "lower_char (Char b0 b1 b2 b3 b4 b5 b6 b7) \<longleftrightarrow> \<not> b7 \<and> b6 \<and> b5 \<and> (b4 \<or> b3 \<or> b2 \<or> b1 \<or> b0) \<and>
     \<not> (b4 \<and> b3 \<and> (b2 \<or> b1 \<and> b0))"
  by (cases b0; cases b1; cases b2; cases b3; cases b4; cases b5; cases b6; cases b7; simp add: lower_char_def)

lemma digit_char_bits [code]:
  "digit_char (Char b0 b1 b2 b3 b4 b5 b6 b7) \<longleftrightarrow> \<not> b7 \<and> \<not> b6 \<and> b5 \<and> b4 \<and> \<not> (b3 \<and> (b2 \<or> b1))"
  by (cases b0; cases b1; cases b2; cases b3; cases b4; cases b5; cases b6; cases b7; simp add: digit_char_def)

text \<open>\<open>EVENT_TYPE_PATTERN\<close> and \<open>COMPONENT_PATTERN\<close>, as conditions on the separated segments.\<close>

definition name_segment :: "(char \<Rightarrow> bool) \<Rightarrow> string \<Rightarrow> bool" where
  "name_segment ok w = (case w of [] \<Rightarrow> False | c # cs \<Rightarrow> lower_char c \<and> list_all ok cs)"

definition event_type_ok :: "string \<Rightarrow> bool" where
  "event_type_ok v = (let ws = split_on CHR ''.'' v in
     2 \<le> length ws \<and> list_all (name_segment (\<lambda>c. lower_char c \<or> digit_char c \<or> c = CHR ''_'')) ws)"

definition component_ok :: "string \<Rightarrow> bool" where
  "component_ok v =
     (case split_on CHR ''.'' (map (\<lambda>c. if c \<in> {CHR ''-'', CHR ''_''} then CHR ''.'' else c) v) of
        [] \<Rightarrow> False
      | w # ws \<Rightarrow> name_segment (\<lambda>c. lower_char c \<or> digit_char c) w \<and>
          list_all (\<lambda>u. u \<noteq> [] \<and> list_all (\<lambda>c. lower_char c \<or> digit_char c) u) ws)"

datatype envelope_fault = BadEnvelopeField | BadEventType | BadSourceComponent
  | RecordedBeforeOccurred | PayloadHashMismatch

definition envelope_error :: "('p \<Rightarrow> string) \<Rightarrow> 'p EventEnvelope \<Rightarrow> envelope_fault option" where
  "envelope_error digest e = first_error
     [(ev_schema_version e < 1 \<or> ev_stream_version e < 1 \<or> \<not> sha256_hex (ev_payload_hash e),
       BadEnvelopeField),
      (\<not> event_type_ok (ev_event_type e), BadEventType),
      (\<not> component_ok (ev_source_component e), BadSourceComponent),
      (ev_recorded_at e < ev_occurred_at e, RecordedBeforeOccurred),
      (digest (ev_payload e) \<noteq> ev_payload_hash e, PayloadHashMismatch)]"

text \<open>\<open>create_event_envelope\<close>: the recording time defaults to the time of occurrence, that to now.\<close>

definition create_event_envelope ::
  "('p \<Rightarrow> string) \<Rightarrow> ('p \<Rightarrow> string) \<Rightarrow> ('p \<Rightarrow> int) \<Rightarrow> uuid \<Rightarrow> timestamp \<Rightarrow> 'p \<Rightarrow> uuid \<Rightarrow> StreamType \<Rightarrow>
   int \<Rightarrow> uuid \<Rightarrow> uuid option \<Rightarrow> ActorRef \<Rightarrow> string \<Rightarrow> PrivacyClass \<Rightarrow> timestamp option \<Rightarrow>
   timestamp option \<Rightarrow> envelope_fault + 'p EventEnvelope" where
  "create_event_envelope digest type_of schema_of event_id now payload stream_id stream_type version
     correlation_id causation actor component privacy occurred_at recorded_at =
   (let occurred = (case occurred_at of None \<Rightarrow> now | Some t \<Rightarrow> t);
        recorded = (case recorded_at of None \<Rightarrow> occurred | Some t \<Rightarrow> t)
    in construct (envelope_error digest)
      \<lparr>ev_event_id = event_id, ev_event_type = type_of payload, ev_schema_version = schema_of payload,
       ev_occurred_at = occurred, ev_recorded_at = recorded, ev_stream_id = stream_id,
       ev_stream_type = stream_type, ev_stream_version = version,
       ev_correlation_id = correlation_id, ev_causation_event_id = causation, ev_actor = actor,
       ev_source_component = component, ev_payload = payload, ev_payload_hash = digest payload,
       ev_privacy_class = privacy\<rparr>)"

section \<open>Storage records\<close>

record 'p StoredEvent =
  se_global_position :: int
  se_stored_at :: timestamp
  se_envelope :: "'p EventEnvelope"
  se_trace_id :: "string option"
  se_span_id :: "string option"

datatype stored_fault = BadPosition | BadTraceId | BadSpanId | IncompleteTraceContext

definition hex_of_length :: "nat \<Rightarrow> string \<Rightarrow> bool" where
  "hex_of_length n s \<longleftrightarrow> length s = n \<and> list_all (\<lambda>c. c \<in> set ''0123456789abcdef'') s"

definition stored_event_error :: "'p StoredEvent \<Rightarrow> stored_fault option" where
  "stored_event_error s = first_error
     [(se_global_position s \<le> 0, BadPosition),
      (case se_trace_id s of None \<Rightarrow> False | Some t \<Rightarrow> \<not> hex_of_length 32 t, BadTraceId),
      (case se_span_id s of None \<Rightarrow> False | Some t \<Rightarrow> \<not> hex_of_length 16 t, BadSpanId),
      ((se_trace_id s = None) \<noteq> (se_span_id s = None), IncompleteTraceContext)]"

record AppendResult =
  ar_stream_id :: uuid
  ar_previous_stream_version :: int
  ar_current_stream_version :: int
  ar_event_ids :: "uuid list"
  ar_global_positions :: "int list"
  ar_stored_at :: timestamp

datatype append_fault = BadAppendField | AppendResultEmpty | AppendLengthsDiffer
  | AppendIdsNotUnique | AppendPositionsNotPositive | AppendPositionsNotIncreasing
  | AppendVersionMismatch

definition append_result_error :: "AppendResult \<Rightarrow> append_fault option" where
  "append_result_error r = first_error
     [(ar_previous_stream_version r < 0 \<or> ar_current_stream_version r \<le> 0, BadAppendField),
      (ar_event_ids r = [], AppendResultEmpty),
      (length (ar_event_ids r) \<noteq> length (ar_global_positions r), AppendLengthsDiffer),
      (\<not> distinct (ar_event_ids r), AppendIdsNotUnique),
      (\<exists>p \<in> set (ar_global_positions r). p \<le> 0, AppendPositionsNotPositive),
      (list_ex (\<lambda>(l, r). r \<le> l) (zip (ar_global_positions r) (tl (ar_global_positions r))),
       AppendPositionsNotIncreasing),
      (ar_current_stream_version r \<noteq>
         ar_previous_stream_version r + int (length (ar_event_ids r)), AppendVersionMismatch)]"

section \<open>The memory store\<close>

type_synonym 'p store = "'p StoredEvent list"

datatype store_error = EmptyAppend | StoreConflict int int | MixedStreams
  | BadStored stored_fault | BadAppendResult append_fault

definition stream_events :: "'p store \<Rightarrow> uuid \<Rightarrow> 'p StoredEvent list" where
  "stream_events st sid = filter (\<lambda>i. ev_stream_id (se_envelope i) = sid) st"

definition store_version :: "'p store \<Rightarrow> uuid \<Rightarrow> int" where
  "store_version st sid =
     (let versions = map (\<lambda>i. ev_stream_version (se_envelope i)) (stream_events st sid)
      in if versions = [] then 0 else Max (set versions))"

definition new_stored :: "(int \<Rightarrow> timestamp) \<Rightarrow> 'p store \<Rightarrow> 'p EventEnvelope \<Rightarrow> 'p StoredEvent" where
  "new_stored clock st e = (let position = int (length st) + 1 in
     \<lparr>se_global_position = position, se_stored_at = clock position, se_envelope = e,
      se_trace_id = None, se_span_id = None\<rparr>)"

text \<open>The loop over the events stores each one before it looks at the next.\<close>

fun append_loop ::
  "(int \<Rightarrow> timestamp) \<Rightarrow> uuid \<Rightarrow> 'p store \<Rightarrow> 'p StoredEvent list \<Rightarrow> 'p EventEnvelope list \<Rightarrow>
   'p store \<times> (store_error + 'p StoredEvent list)" where
  "append_loop clock sid st stored [] = (st, Inr stored)"
| "append_loop clock sid st stored (e # es) =
     (if ev_stream_id e \<noteq> sid then (st, Inl MixedStreams)
      else let item = new_stored clock st e in
        (case stored_event_error item of Some f \<Rightarrow> (st, Inl (BadStored f))
         | None \<Rightarrow> append_loop clock sid (st @ [item]) (stored @ [item]) es))"

definition store_append ::
  "(int \<Rightarrow> timestamp) \<Rightarrow> 'p store \<Rightarrow> 'p EventEnvelope list \<Rightarrow> int \<Rightarrow>
   'p store \<times> (store_error + AppendResult)" where
  "store_append clock st events expected_version =
     (case events of [] \<Rightarrow> (st, Inl EmptyAppend)
      | e # _ \<Rightarrow>
          (let sid = ev_stream_id e; current = store_version st sid in
           if current \<noteq> expected_version then (st, Inl (StoreConflict expected_version current))
           else case append_loop clock sid st [] events of
               (st', Inl f) \<Rightarrow> (st', Inl f)
             | (st', Inr stored) \<Rightarrow>
                 (let r = \<lparr>ar_stream_id = sid, ar_previous_stream_version = current,
                     ar_current_stream_version = ev_stream_version (se_envelope (last stored)),
                     ar_event_ids = map (\<lambda>i. ev_event_id (se_envelope i)) stored,
                     ar_global_positions = map se_global_position stored,
                     ar_stored_at = se_stored_at (last stored)\<rparr>
                  in case append_result_error r of Some f \<Rightarrow> (st', Inl (BadAppendResult f))
                     | None \<Rightarrow> (st', Inr r))))"

text \<open>A falsy limit (absent or zero) does not limit.\<close>

definition store_read_stream ::
  "'p store \<Rightarrow> uuid \<Rightarrow> int \<Rightarrow> int option \<Rightarrow> int option \<Rightarrow> 'p StoredEvent list" where
  "store_read_stream st sid from_version to_version limit =
     (let values = filter (\<lambda>i. ev_stream_id (se_envelope i) = sid \<and>
            from_version \<le> ev_stream_version (se_envelope i) \<and>
            (case to_version of None \<Rightarrow> True | Some t \<Rightarrow> ev_stream_version (se_envelope i) \<le> t)) st
      in case limit of None \<Rightarrow> values | Some n \<Rightarrow> if n = 0 then values else py_take n values)"

definition store_read_all :: "'p store \<Rightarrow> int \<Rightarrow> int \<Rightarrow> 'p StoredEvent list" where
  "store_read_all st after_global_position limit =
     py_take limit (filter (\<lambda>i. after_global_position < se_global_position i) st)"

definition store_get_event :: "'p store \<Rightarrow> uuid \<Rightarrow> 'p StoredEvent option" where
  "store_get_event st eid = find (\<lambda>i. ev_event_id (se_envelope i) = eid) st"

definition store_get_stream_version :: "'p store \<Rightarrow> uuid \<Rightarrow> int option" where
  "store_get_stream_version st sid =
     (let version = store_version st sid in if version = 0 then None else Some version)"

definition store_get_stream_type :: "'p store \<Rightarrow> uuid \<Rightarrow> StreamType option" where
  "store_get_stream_type st sid =
     map_option (\<lambda>i. ev_stream_type (se_envelope i))
       (find (\<lambda>i. ev_stream_id (se_envelope i) = sid) st)"

section \<open>Batches\<close>

datatype batch_fault = BatchEmpty | NegativeExpectedVersion | BatchTooLarge | BatchMixedStreams
  | BatchMixedTypes | BatchIdsNotUnique | BatchVersionsNotContiguous | BatchHashMismatch uuid
  | BatchUnsupportedContract

definition DEFAULT_MAXIMUM_BATCH_SIZE :: int where
  "DEFAULT_MAXIMUM_BATCH_SIZE = 256"

fun first_some_event :: "('a \<Rightarrow> 'e option) \<Rightarrow> 'a list \<Rightarrow> 'e option" where
  "first_some_event f [] = None"
| "first_some_event f (x # xs) = (case f x of Some e \<Rightarrow> Some e | None \<Rightarrow> first_some_event f xs)"

text \<open>\<open>supported\<close> is the catalog lookup of the event's type and schema version.\<close>

definition validate_event_batch ::
  "('p \<Rightarrow> string) \<Rightarrow> (string \<Rightarrow> int \<Rightarrow> bool) \<Rightarrow> int \<Rightarrow> 'p EventEnvelope list \<Rightarrow> int \<Rightarrow>
   batch_fault option" where
  "validate_event_batch digest supported maximum batch expected_version =
     (case batch of [] \<Rightarrow> Some BatchEmpty
      | e # _ \<Rightarrow>
        (case first_error
          [(expected_version < 0, NegativeExpectedVersion),
           (maximum < 1 \<or> maximum < int (length batch), BatchTooLarge),
           (\<exists>x \<in> set batch. ev_stream_id x \<noteq> ev_stream_id e, BatchMixedStreams),
           (\<exists>x \<in> set batch. ev_stream_type x \<noteq> ev_stream_type e, BatchMixedTypes),
           (card (set (map ev_event_id batch)) \<noteq> length batch, BatchIdsNotUnique),
           (map ev_stream_version batch \<noteq>
              [expected_version + 1..expected_version + int (length batch)],
            BatchVersionsNotContiguous)] of
           Some f \<Rightarrow> Some f
         | None \<Rightarrow> first_some_event (\<lambda>x. if digest (ev_payload x) \<noteq> ev_payload_hash x
              then Some (BatchHashMismatch (ev_event_id x))
              else if \<not> supported (ev_event_type x) (ev_schema_version x)
              then Some BatchUnsupportedContract else None) batch))"

section \<open>What an append does\<close>

fun store_items :: "(int \<Rightarrow> timestamp) \<Rightarrow> int \<Rightarrow> 'p EventEnvelope list \<Rightarrow> 'p StoredEvent list" where
  "store_items clock n [] = []"
| "store_items clock n (e # es) =
     \<lparr>se_global_position = n + 1, se_stored_at = clock (n + 1), se_envelope = e,
      se_trace_id = None, se_span_id = None\<rparr> # store_items clock (n + 1) es"

lemma store_items_simps [simp]:
  "map se_envelope (store_items clock n es) = es"
  "length (store_items clock n es) = length es"
  "store_items clock n es = [] \<longleftrightarrow> es = []"
  by (induction es arbitrary: n) simp_all

lemma store_items_map: "map (\<lambda>i. f (se_envelope i)) (store_items clock n es) = map f es"
  by (induction es arbitrary: n) simp_all

lemma store_items_positions:
  "map se_global_position (store_items clock n es) = [n + 1..n + int (length es)]"
proof (induction es arbitrary: n)
  case (Cons e es)
  then show ?case by (simp add: upto_rec1 add.assoc)
qed simp

lemma last_store_items:
  "es \<noteq> [] \<Longrightarrow> se_envelope (last (store_items clock n es)) = last es"
  by (metis last_map store_items_simps(1,3))

lemma append_loop_ok:
  "\<forall>e \<in> set es. ev_stream_id e = sid \<Longrightarrow>
     append_loop clock sid st acc es =
       (st @ store_items clock (int (length st)) es, Inr (acc @ store_items clock (int (length st)) es))"
proof (induction es arbitrary: st acc)
  case (Cons e es)
  have ok: "stored_event_error (new_stored clock st e) = None"
    by (simp add: stored_event_error_def new_stored_def Let_def)
  have item: "new_stored clock st e = \<lparr>se_global_position = int (length st) + 1,
      se_stored_at = clock (int (length st) + 1), se_envelope = e, se_trace_id = None, se_span_id = None\<rparr>"
    by (simp add: new_stored_def Let_def)
  from Cons.prems have tl: "\<forall>e \<in> set es. ev_stream_id e = sid" by simp
  from Cons.prems ok Cons.IH [OF tl, of "st @ [new_stored clock st e]" "acc @ [new_stored clock st e]"]
  show ?case by (simp add: item add.commute Let_def)
qed simp

text \<open>A well-formed store: positions count the events, versions count the events of a stream.\<close>

definition stream_history :: "'p store \<Rightarrow> uuid \<Rightarrow> 'p EventEnvelope list" where
  "stream_history st sid = map se_envelope (stream_events st sid)"

definition store_ok :: "'p store \<Rightarrow> bool" where
  "store_ok st \<longleftrightarrow> map se_global_position st = [1..int (length st)] \<and>
     (\<forall>sid. map ev_stream_version (stream_history st sid) = [1..int (length (stream_history st sid))])"

definition batch_ok :: "uuid \<Rightarrow> int \<Rightarrow> 'p EventEnvelope list \<Rightarrow> bool" where
  "batch_ok sid n es \<longleftrightarrow> es \<noteq> [] \<and> (\<forall>e \<in> set es. ev_stream_id e = sid) \<and>
     map ev_stream_version es = [n + 1..n + int (length es)] \<and> distinct (map ev_event_id es)"

lemma store_ok_Nil [simp]: "store_ok []"
  by (simp add: store_ok_def stream_history_def stream_events_def)

lemma Max_upto: "0 < n \<Longrightarrow> Max {1..n} = (n :: int)"
  by (rule Max_eqI) auto

lemma store_version_ok:
  assumes "store_ok st"
  shows "store_version st sid = int (length (stream_history st sid))"
proof -
  have vs: "map (\<lambda>i. ev_stream_version (se_envelope i)) (stream_events st sid) =
      [1..int (length (stream_history st sid))]"
    using assms by (simp add: store_ok_def stream_history_def comp_def)
  show ?thesis
    unfolding store_version_def vs Let_def
    by (cases "stream_history st sid") (simp_all add: Max_upto del: of_nat_Suc length_Cons)
qed

lemma upto_positions_increasing:
  "\<not> list_ex (\<lambda>(l, r). r \<le> l) (zip [m..n] (tl [m..n]))" for m n :: int
proof (induction m n rule: upto.induct)
  case (1 m n)
  show ?case
  proof (cases "m < n")
    case True
    then have "[m..n] = m # [m + 1..n]" "[m + 1..n] = (m + 1) # [m + 1 + 1..n]"
      by (simp_all add: upto_rec1)
    with 1 True show ?thesis by simp
  next
    case False
    then have "m = n \<or> n < m" by auto
    then show ?thesis by auto
  qed
qed

lemma last_version:
  assumes "batch_ok sid n es"
  shows "ev_stream_version (last es) = n + int (length es)"
proof -
  from assms have ne: "es \<noteq> []" and m: "map ev_stream_version es = [n + 1..n + int (length es)]"
    by (simp_all add: batch_ok_def)
  have "ev_stream_version (last es) = last (map ev_stream_version es)"
    using ne by (simp add: last_map)
  also have "\<dots> = n + int (length es)"
    unfolding m using ne by (subst upto_rec2) (simp_all add: Suc_le_eq)
  finally show ?thesis .
qed

lemma stream_history_append:
  assumes "\<forall>e \<in> set es. ev_stream_id e = sid"
  shows "stream_history (st @ store_items clock n es) =
    (stream_history st)(sid := stream_history st sid @ es)"
proof
  fix t
  have "map se_envelope (filter (\<lambda>i. ev_stream_id (se_envelope i) = t) (store_items clock n es)) =
      filter (\<lambda>e. ev_stream_id e = t) es" for n
    by (induction es arbitrary: n) simp_all
  moreover have "filter (\<lambda>e. ev_stream_id e = t) es = (if t = sid then es else [])"
    using assms by (auto simp: filter_id_conv filter_empty_conv)
  ultimately show "stream_history (st @ store_items clock n es) t =
      ((stream_history st)(sid := stream_history st sid @ es)) t"
    by (simp add: stream_history_def stream_events_def)
qed

lemma upto_append: "0 \<le> a \<Longrightarrow> 0 \<le> b \<Longrightarrow> [1..a] @ [a + 1..a + b] = [1..a + b]" for a b :: int
  by (cases "a = 0") (simp_all add: upto_split2 [of 1 a "a + b"])

lemma store_ok_append:
  assumes "store_ok st" "batch_ok sid (int (length (stream_history st sid))) es"
  shows "store_ok (st @ store_items clock (int (length st)) es)"
proof -
  from assms(2) have sid: "\<forall>e \<in> set es. ev_stream_id e = sid"
    and vs: "map ev_stream_version es =
      [int (length (stream_history st sid)) + 1..int (length (stream_history st sid)) + int (length es)]"
    by (simp_all add: batch_ok_def)
  from assms(1) show ?thesis
    unfolding store_ok_def stream_history_append [OF sid]
    by (auto simp: store_items_positions vs upto_append)
qed

lemma store_append_ok:
  assumes "store_ok st" "batch_ok sid n es" "n = int (length (stream_history st sid))"
  shows "\<exists>r. store_append clock st es n = (st @ store_items clock (int (length st)) es, Inr r) \<and>
    ar_current_stream_version r = n + int (length es) \<and> ar_event_ids r = map ev_event_id es"
proof -
  from assms(2) obtain e es' where es: "es = e # es'" "ev_stream_id e = sid"
    and sid: "\<forall>e \<in> set es. ev_stream_id e = sid" and ids: "distinct (map ev_event_id es)"
    by (cases es) (auto simp: batch_ok_def)
  let ?items = "store_items clock (int (length st)) es"
  let ?r = "\<lparr>ar_stream_id = sid, ar_previous_stream_version = n,
      ar_current_stream_version = ev_stream_version (se_envelope (last ?items)),
      ar_event_ids = map (\<lambda>i. ev_event_id (se_envelope i)) ?items,
      ar_global_positions = map se_global_position ?items,
      ar_stored_at = se_stored_at (last ?items)\<rparr>"
  have ne: "es \<noteq> []" by (simp add: es)
  have "append_result_error ?r = None"
    unfolding append_result_error_def
    using assms(3) ids ne last_version [OF assms(2)]
    by (simp add: store_items_map store_items_positions last_store_items upto_positions_increasing)
      (auto simp: es)
  moreover have "store_version st sid = n" using store_version_ok [OF assms(1)] assms(3) by simp
  moreover have "append_loop clock sid st [] es = (st @ ?items, Inr ?items)"
    using append_loop_ok [OF sid, of clock st "[]"] by simp
  moreover have "ar_current_stream_version ?r = n + int (length es)"
    using last_version [OF assms(2)] ne by (simp add: last_store_items)
  ultimately show ?thesis
    by (simp add: store_append_def es store_items_map Let_def)
qed

section \<open>The interface\<close>

locale event_store =
  fixes append_events :: "'s \<Rightarrow> 'p EventEnvelope list \<Rightarrow> int \<Rightarrow> 's \<times> ('e + AppendResult)"
    and history :: "'s \<Rightarrow> uuid \<Rightarrow> 'p EventEnvelope list"
    and wf_store :: "'s \<Rightarrow> bool"
  assumes append_current: "\<lbrakk>wf_store s; batch_ok sid (int (length (history s sid))) es\<rbrakk> \<Longrightarrow>
      \<exists>s' r. append_events s es (int (length (history s sid))) = (s', Inr r) \<and> wf_store s' \<and>
        ar_current_stream_version r = int (length (history s sid)) + int (length es) \<and>
        history s' = (history s)(sid := history s sid @ es)"
    and append_stale: "\<lbrakk>wf_store s; batch_ok sid n es; n \<noteq> int (length (history s sid))\<rbrakk> \<Longrightarrow>
      \<exists>e. append_events s es n = (s, Inl e)"
    and history_versions: "wf_store s \<Longrightarrow>
      map ev_stream_version (history s sid) = [1..int (length (history s sid))]"
begin

text \<open>Any append of a well-formed batch keeps the store well-formed and only extends the stream.\<close>

lemma append_extends:
  assumes "wf_store s" "batch_ok sid n es" "append_events s es n = (s', r)"
  shows "wf_store s' \<and> (history s' = history s \<or> history s' = (history s)(sid := history s sid @ es))"
proof (cases "n = int (length (history s sid))")
  case True
  with append_current [OF assms(1), of sid es] assms(2,3) show ?thesis by auto
next
  case False
  with append_stale [OF assms(1,2) False] assms(1,3) show ?thesis by auto
qed

text \<open>Optimistic concurrency: of two writers at the same version exactly the first wins.\<close>

lemma one_winner:
  assumes "wf_store s" "batch_ok sid n es" "batch_ok sid n es'"
    and "append_events s es n = (s', Inr r)"
  shows "\<exists>e. append_events s' es' n = (s', Inl e)"
proof -
  have n: "n = int (length (history s sid))"
    using append_stale [OF assms(1,2)] assms(4) by fastforce
  from append_current [OF assms(1), of sid es] assms(2,4)
  have s': "wf_store s'" "history s' sid = history s sid @ es" by (auto simp: n)
  have "es \<noteq> []" using assms(2) by (simp add: batch_ok_def)
  with n s'(2) have "n \<noteq> int (length (history s' sid))" by simp
  from append_stale [OF s'(1) assms(3) this] show ?thesis .
qed

end

interpretation memory: event_store "store_append clock" stream_history store_ok
proof unfold_locales
  fix s :: "'a store" and sid and es :: "'a EventEnvelope list"
  assume ok: "store_ok s" and b: "batch_ok sid (int (length (stream_history s sid))) es"
  from b have sid: "\<forall>e \<in> set es. ev_stream_id e = sid" by (simp add: batch_ok_def)
  from store_append_ok [OF ok b refl, of clock] store_ok_append [OF ok b, of clock]
    stream_history_append [OF sid, of s clock "int (length s)"]
  show "\<exists>s' r. store_append clock s es (int (length (stream_history s sid))) = (s', Inr r) \<and> store_ok s' \<and>
      ar_current_stream_version r = int (length (stream_history s sid)) + int (length es) \<and>
      stream_history s' = (stream_history s)(sid := stream_history s sid @ es)" by blast
next
  fix s :: "'a store" and sid n and es :: "'a EventEnvelope list"
  assume ok: "store_ok s" and b: "batch_ok sid n es" and n: "n \<noteq> int (length (stream_history s sid))"
  from b obtain e es' where "es = e # es'" "ev_stream_id e = sid" by (cases es) (auto simp: batch_ok_def)
  with n store_version_ok [OF ok, of sid] show "\<exists>f. store_append clock s es n = (s, Inl f)"
    by (simp add: store_append_def Let_def)
next
  show "store_ok s \<Longrightarrow> map ev_stream_version (stream_history s sid) = [1..int (length (stream_history s sid))]"
    for s :: "'a store" and sid by (simp add: store_ok_def)
qed

text \<open>A batch that passes the pre-transaction validation is one the store accepts at its version.\<close>

lemma first_some_event_None: "first_some_event f xs = None \<longleftrightarrow> (\<forall>x \<in> set xs. f x = None)"
  by (induction xs) (auto split: option.splits)

lemma validate_event_batch_ok:
  assumes "validate_event_batch digest supported maximum es n = None"
  shows "\<exists>e. e \<in> set es \<and> batch_ok (ev_stream_id e) n es"
proof -
  from assms obtain e es' where es: "es = e # es'" by (cases es) (auto simp: validate_event_batch_def)
  have "card (set (map ev_event_id es)) = length (map ev_event_id es)"
    using assms by (simp add: validate_event_batch_def es split: option.splits if_splits)
  then have ids: "distinct (map ev_event_id es)" by (rule card_distinct)
  have "\<forall>x \<in> set es. ev_stream_id x = ev_stream_id e"
    "map ev_stream_version es = [n + 1..n + int (length es)]"
    using assms by (simp_all add: validate_event_batch_def es split: option.splits if_splits)
  with ids show ?thesis by (auto simp: batch_ok_def es)
qed

end
