(* ===== verification/Plan_Graph.thy ===== *)
theory Plan_Graph
  imports Lifecycle
begin

text \<open>
  Execution plans: \<open>domain/execution.py\<close> (step definitions, the depth-first acyclicity check, the
  plan and step contracts) and the controller actions layered over them, \<open>domain/planning.py\<close>.
  The main result is that the depth-first search accepts exactly the acyclic dependency graphs.
\<close>

section \<open>Plan steps\<close>

record PlanStepDefinition =
  ps_step_id :: uuid
  ps_sequence :: int
  ps_step_type :: string
  ps_title :: string
  ps_description :: "string option"
  ps_depends_on :: "uuid list"
  ps_expected_output :: "string option"
  ps_required_tool_ids :: "string list"
  ps_required_verifier_ids :: "string list"

datatype plan_error =
    BadStepField
  | StepDependsOnItself
  | DependencyIdsNotUnique
  | ToolIdsNotUnique
  | VerifierIdsNotUnique
  | BadPlanField
  | PlanStepIdsNotUnique
  | PlanSequencesNotUnique
  | DependencyOutsidePlan
  | PlanCyclic
  | PlanKeyError uuid

definition plan_step_error :: "PlanStepDefinition \<Rightarrow> plan_error option" where
  "plan_step_error s = first_error
     [(ps_sequence s < 1 \<or> \<not> non_empty_str (ps_step_type s) \<or> \<not> non_empty_str (ps_title s) \<or>
       \<not> list_all non_empty_str (ps_required_tool_ids s) \<or>
       \<not> list_all non_empty_str (ps_required_verifier_ids s), BadStepField),
      (ps_step_id s \<in> set (ps_depends_on s), StepDependsOnItself),
      (\<not> distinct (ps_depends_on s), DependencyIdsNotUnique),
      (\<not> distinct (ps_required_tool_ids s), ToolIdsNotUnique),
      (\<not> distinct (ps_required_verifier_ids s), VerifierIdsNotUnique)]"

section \<open>Acyclicity by depth-first search\<close>

text \<open>
  \<open>graph = {step.step_id: step.depends_on for step in steps}\<close>; \<open>visit\<close> returns False when it
  meets a step that is being visited. The set \<open>visiting\<close> of the source is restored by every
  \<open>visit\<close> that returns True, and a False ends the whole search, so at each call it is exactly the
  chain of calls in progress: the parameter \<open>path\<close>, innermost first. The set \<open>visited\<close> is
  threaded, here in the order in which steps are added to it. A step outside the graph is the
  \<open>KeyError\<close> of \<open>graph[step_id]\<close>.
\<close>

type_synonym dep_graph = "(uuid \<times> uuid list) list"

datatype dfs = DfsCycle | DfsKeyError uuid | DfsOk "uuid list"

definition plan_graph :: "PlanStepDefinition list \<Rightarrow> dep_graph" where
  "plan_graph steps = foldl (\<lambda>g s. dict_set g (ps_step_id s) (ps_depends_on s)) [] steps"

function (sequential) visit :: "dep_graph \<Rightarrow> uuid list \<Rightarrow> uuid list \<Rightarrow> uuid \<Rightarrow> dfs"
  and visit_all :: "dep_graph \<Rightarrow> uuid list \<Rightarrow> uuid list \<Rightarrow> uuid list \<Rightarrow> dfs" where
  "visit g path visited x =
     (if x \<in> set path then DfsCycle
      else if x \<in> set visited then DfsOk visited
      else case dict_get g x of
          None \<Rightarrow> DfsKeyError x
        | Some deps \<Rightarrow>
            (case visit_all g (x # path) visited deps of
               DfsOk visited' \<Rightarrow> DfsOk (visited' @ [x])
             | r \<Rightarrow> r))"
| "visit_all g path visited [] = DfsOk visited"
| "visit_all g path visited (y # ys) =
     (case visit g path visited y of
        DfsOk visited' \<Rightarrow> visit_all g path visited' ys
      | r \<Rightarrow> r)"
  by pat_completeness auto
termination
proof (relation "measures
    [\<lambda>c. case c of Inl (g, path, vs, x) \<Rightarrow> card (fst ` set g - set path)
                 | Inr (g, path, vs, ys) \<Rightarrow> card (fst ` set g - set path),
     \<lambda>c. case c of Inl (g, path, vs, x) \<Rightarrow> 0 | Inr (g, path, vs, ys) \<Rightarrow> Suc (length ys)]")
  fix g :: dep_graph and path visited x deps
  assume "x \<notin> set path" and "dict_get g x = Some deps"
  then have "fst ` set g - set (x # path) \<subset> fst ` set g - set path"
    by (force dest: map_of_SomeD)
  then have "card (fst ` set g - set (x # path)) < card (fst ` set g - set path)"
    by (rule psubset_card_mono [rotated]) simp
  then show "(Inr (g, x # path, visited, deps), Inl (g, path, visited, x)) \<in> measures
    [\<lambda>c. case c of Inl (g, path, vs, x) \<Rightarrow> card (fst ` set g - set path)
                 | Inr (g, path, vs, ys) \<Rightarrow> card (fst ` set g - set path),
     \<lambda>c. case c of Inl (g, path, vs, x) \<Rightarrow> 0 | Inr (g, path, vs, ys) \<Rightarrow> Suc (length ys)]"
    by simp
qed auto

declare visit.simps [simp del]

definition dependency_graph_is_acyclic :: "PlanStepDefinition list \<Rightarrow> plan_error + bool" where
  "dependency_graph_is_acyclic steps =
     (let g = plan_graph steps in
      case visit_all g [] [] (map fst g) of
        DfsOk _ \<Rightarrow> Inr True
      | DfsCycle \<Rightarrow> Inr False
      | DfsKeyError x \<Rightarrow> Inl (PlanKeyError x))"

subsection \<open>Correctness of the search\<close>

definition dep_edge :: "dep_graph \<Rightarrow> uuid \<Rightarrow> uuid \<Rightarrow> bool" where
  "dep_edge g x y \<longleftrightarrow> (\<exists>ds. dict_get g x = Some ds \<and> y \<in> set ds)"

definition graph_closed :: "dep_graph \<Rightarrow> bool" where
  "graph_closed g \<longleftrightarrow> (\<forall>x y. dep_edge g x y \<longrightarrow> y \<in> fst ` set g)"

definition graph_acyclic :: "dep_graph \<Rightarrow> bool" where
  "graph_acyclic g \<longleftrightarrow> (\<forall>x. \<not> (dep_edge g)\<^sup>+\<^sup>+ x x)"

text \<open>\<open>visited\<close> is kept in dependency order: whatever a step depends on stands before it.\<close>

fun topo :: "dep_graph \<Rightarrow> uuid list \<Rightarrow> bool" where
  "topo g [] = True"
| "topo g (x # before) = ((\<forall>y. dep_edge g x y \<longrightarrow> y \<in> set before) \<and> topo g before)"

lemma visit_topo:
  "visit g path visited x = DfsOk vs \<Longrightarrow> topo g (rev visited) \<Longrightarrow>
     topo g (rev vs) \<and> insert x (set visited) \<subseteq> set vs"
  "visit_all g path visited ys = DfsOk vs \<Longrightarrow> topo g (rev visited) \<Longrightarrow>
     topo g (rev vs) \<and> set ys \<union> set visited \<subseteq> set vs"
proof (induction g path visited x and g path visited ys arbitrary: vs and vs
    rule: visit_visit_all.induct)
  case (1 g path visited x)
  show ?case
  proof (cases "x \<in> set visited")
    case True
    with 1 show ?thesis by (auto simp: visit.simps split: if_splits)
  next
    case False
    with "1.prems"(1) obtain deps us where g: "x \<notin> set path" "dict_get g x = Some deps"
        "visit_all g (x # path) visited deps = DfsOk us" "vs = us @ [x]"
      by (auto simp: visit.simps split: if_splits option.splits dfs.splits)
    from "1.IH" [OF g(1) False g(2,3) "1.prems"(2)]
    have "topo g (rev us)" "set deps \<union> set visited \<subseteq> set us" by auto
    then show ?thesis using g by (auto simp: dep_edge_def)
  qed
next
  case (3 g path visited y ys)
  then show ?case by (fastforce split: dfs.splits)
qed auto

lemma topo_mem_edge: "topo g vs \<Longrightarrow> x \<in> set vs \<Longrightarrow> dep_edge g x y \<Longrightarrow> y \<in> set vs"
  by (induction vs) auto

lemma topo_mem_trancl: "(dep_edge g)\<^sup>+\<^sup>+ x y \<Longrightarrow> topo g vs \<Longrightarrow> x \<in> set vs \<Longrightarrow> y \<in> set vs"
  by (induction rule: tranclp_induct) (auto dest: topo_mem_edge)

lemma topo_no_cycle: "topo g vs \<Longrightarrow> x \<in> set vs \<Longrightarrow> \<not> (dep_edge g)\<^sup>+\<^sup>+ x x"
proof (induction vs)
  case (Cons v vs)
  have "x \<in> set vs" if cyc: "(dep_edge g)\<^sup>+\<^sup>+ x x"
  proof (cases "x = v")
    case True
    from cyc obtain z where z: "dep_edge g x z" "(dep_edge g)\<^sup>*\<^sup>* z x"
      by (meson tranclpD)
    with True Cons.prems have "z \<in> set vs" by auto
    moreover have "z = x \<or> (dep_edge g)\<^sup>+\<^sup>+ z x" using rtranclpD [OF z(2)] by blast
    ultimately show ?thesis using Cons.prems by (auto dest: topo_mem_trancl)
  next
    case False
    with Cons.prems show ?thesis by simp
  qed
  with Cons show ?case by auto
qed simp

text \<open>The calls in progress are a chain of dependencies, so meeting one of them is a cycle.\<close>

fun dep_chain :: "dep_graph \<Rightarrow> uuid list \<Rightarrow> bool" where
  "dep_chain g (x # p # ps) = (dep_edge g p x \<and> dep_chain g (p # ps))"
| "dep_chain g _ = True"

lemma dep_chain_trancl: "dep_chain g (x # path) \<Longrightarrow> y \<in> set path \<Longrightarrow> (dep_edge g)\<^sup>+\<^sup>+ y x"
proof (induction path arbitrary: x)
  case (Cons p ps)
  then have px: "dep_edge g p x" and ch: "dep_chain g (p # ps)" by auto
  show ?case
  proof (cases "y = p")
    case True
    with px show ?thesis by (simp add: tranclp.r_into_trancl)
  next
    case False
    with Cons.prems ch have "(dep_edge g)\<^sup>+\<^sup>+ y p" by (intro Cons.IH) auto
    with px show ?thesis by (rule tranclp.trancl_into_trancl [rotated])
  qed
qed simp

lemma visit_cycle:
  "visit g path visited x = DfsCycle \<Longrightarrow> dep_chain g (x # path) \<Longrightarrow> \<exists>z. (dep_edge g)\<^sup>+\<^sup>+ z z"
  "visit_all g path visited ys = DfsCycle \<Longrightarrow> (\<And>y. y \<in> set ys \<Longrightarrow> dep_chain g (y # path)) \<Longrightarrow>
     \<exists>z. (dep_edge g)\<^sup>+\<^sup>+ z z"
proof (induction g path visited x and g path visited ys rule: visit_visit_all.induct)
  case (1 g path visited x)
  show ?case
  proof (cases "x \<in> set path")
    case True
    with "1.prems"(2) show ?thesis by (blast dest: dep_chain_trancl)
  next
    case False
    with "1.prems"(1) obtain deps where g: "x \<notin> set visited" "dict_get g x = Some deps"
        "visit_all g (x # path) visited deps = DfsCycle"
      by (auto simp: visit.simps split: if_splits option.splits dfs.splits)
    show ?thesis
      by (rule "1.IH" [OF False g]) (use g(2) "1.prems"(2) in \<open>auto simp: dep_edge_def\<close>)
  qed
next
  case (3 g path visited y ys)
  then show ?case by (fastforce split: dfs.splits)
qed auto

lemma visit_no_key_error:
  "visit g path visited x = DfsKeyError k \<Longrightarrow> graph_closed g \<Longrightarrow> x \<in> fst ` set g \<Longrightarrow> False"
  "visit_all g path visited ys = DfsKeyError k \<Longrightarrow> graph_closed g \<Longrightarrow> set ys \<subseteq> fst ` set g \<Longrightarrow> False"
proof (induction g path visited x and g path visited ys rule: visit_visit_all.induct)
  case (1 g path visited x)
  from "1.prems"(3) obtain deps where d: "dict_get g x = Some deps"
    by (metis domD dom_map_of_conv_image_fst)
  with "1.prems"(1) have g: "x \<notin> set path" "x \<notin> set visited"
      "visit_all g (x # path) visited deps = DfsKeyError k"
    by (auto simp: visit.simps split: if_splits dfs.splits)
  show ?case
    by (rule "1.IH" [OF g(1,2) d g(3) "1.prems"(2)])
      (use d "1.prems"(2) in \<open>auto simp: graph_closed_def dep_edge_def\<close>)
next
  case (3 g path visited y ys)
  then show ?case by (auto split: dfs.splits)
qed auto

lemma visit_all_decides:
  assumes "graph_closed g"
  shows "case visit_all g [] [] (map fst g) of
           DfsOk _ \<Rightarrow> graph_acyclic g
         | DfsCycle \<Rightarrow> \<not> graph_acyclic g
         | DfsKeyError _ \<Rightarrow> False"
proof (cases "visit_all g [] [] (map fst g)")
  case DfsCycle
  then have "\<exists>z. (dep_edge g)\<^sup>+\<^sup>+ z z" by (rule visit_cycle) simp
  with DfsCycle show ?thesis by (simp add: graph_acyclic_def)
next
  case (DfsKeyError k)
  then show ?thesis using visit_no_key_error(2) [OF DfsKeyError assms] by simp
next
  case (DfsOk vs)
  then have vs: "topo g (rev vs)" "fst ` set g \<subseteq> set vs"
    using visit_topo(2) [OF DfsOk] by auto
  have "\<not> (dep_edge g)\<^sup>+\<^sup>+ x x" for x
  proof
    assume cyc: "(dep_edge g)\<^sup>+\<^sup>+ x x"
    then obtain z where "dep_edge g x z" by (meson tranclpD)
    then have "x \<in> set (rev vs)" using vs(2) by (force simp: dep_edge_def dest: map_of_SomeD)
    with vs(1) cyc show False by (blast dest: topo_no_cycle)
  qed
  with DfsOk show ?thesis by (simp add: graph_acyclic_def)
qed

end
