(* ===== verification/Plan_Contracts.thy ===== *)
theory Plan_Contracts
  imports Plan_Graph
begin

text \<open>
  The contracts of \<open>domain/execution.py\<close> and \<open>domain/planning.py\<close> built on plan steps: the
  execution plan with its validator, the execution step snapshot, and the controller's plan of
  typed actions with its one-to-one mapping of actions to steps.
\<close>

section \<open>Execution plans\<close>

record ExecutionPlan =
  ep_plan_id :: uuid
  ep_task_run_id :: uuid
  ep_version :: int
  ep_created_at :: timestamp
  ep_created_by :: ActorRef
  ep_steps :: "PlanStepDefinition list"

text \<open>Field validation of nested contracts: the first nested error.\<close>

fun first_some :: "'e option list \<Rightarrow> 'e option" where
  "first_some [] = None"
| "first_some (None # xs) = first_some xs"
| "first_some (Some e # xs) = Some e"

lemma first_some_None_iff: "first_some xs = None \<longleftrightarrow> (\<forall>x \<in> set xs. x = None)"
  by (induction xs rule: first_some.induct) auto

definition step_ids :: "PlanStepDefinition list \<Rightarrow> uuid list" where
  "step_ids steps = map ps_step_id steps"

definition execution_plan_error :: "ExecutionPlan \<Rightarrow> plan_error option" where
  "execution_plan_error p = (let steps = ep_steps p; known = set (step_ids steps) in
     case first_some (map plan_step_error steps) of Some e \<Rightarrow> Some e | None \<Rightarrow>
     (case first_error
        [(ep_version p < 1 \<or> steps = [], BadPlanField),
         (\<not> distinct (step_ids steps), PlanStepIdsNotUnique),
         (\<not> distinct (map ps_sequence steps), PlanSequencesNotUnique),
         (\<exists>s \<in> set steps. \<not> set (ps_depends_on s) \<subseteq> known, DependencyOutsidePlan)] of
        Some e \<Rightarrow> Some e
      | None \<Rightarrow>
          (case dependency_graph_is_acyclic steps of
             Inl e \<Rightarrow> Some e
           | Inr ok \<Rightarrow> if ok then None else Some PlanCyclic)))"

subsection \<open>What validation establishes\<close>

lemma plan_graph_foldl:
  "distinct (map fst g @ step_ids steps) \<Longrightarrow>
     foldl (\<lambda>g s. dict_set g (ps_step_id s) (ps_depends_on s)) g steps =
     g @ map (\<lambda>s. (ps_step_id s, ps_depends_on s)) steps"
proof (induction steps arbitrary: g)
  case (Cons s steps)
  from Cons.prems have "ps_step_id s \<notin> fst ` set g" by (auto simp: step_ids_def)
  then have "dict_set g (ps_step_id s) (ps_depends_on s) = g @ [(ps_step_id s, ps_depends_on s)]"
    by (rule dict_set_new)
  with Cons show ?case by (simp add: step_ids_def)
qed simp

lemma plan_graph_eq:
  "distinct (step_ids steps) \<Longrightarrow>
     plan_graph steps = map (\<lambda>s. (ps_step_id s, ps_depends_on s)) steps"
  using plan_graph_foldl [of "[]" steps] by (simp add: plan_graph_def)

lemma plan_graph_keys:
  "distinct (step_ids steps) \<Longrightarrow> fst ` set (plan_graph steps) = set (step_ids steps)"
  by (force simp: plan_graph_eq step_ids_def)

lemma dep_edge_plan_graph:
  assumes "distinct (step_ids steps)"
  shows "dep_edge (plan_graph steps) x y \<longleftrightarrow>
    (\<exists>s \<in> set steps. ps_step_id s = x \<and> y \<in> set (ps_depends_on s))"
proof -
  have "distinct (map fst (plan_graph steps))"
    using assms by (simp add: plan_graph_eq step_ids_def comp_def)
  then show ?thesis
    using assms by (auto simp: dep_edge_def map_of_eq_Some_iff plan_graph_eq)
qed

text \<open>The dependency relation of a list of steps, independent of the search.\<close>

definition depends :: "PlanStepDefinition list \<Rightarrow> uuid \<Rightarrow> uuid \<Rightarrow> bool" where
  "depends steps x y \<longleftrightarrow> (\<exists>s \<in> set steps. ps_step_id s = x \<and> y \<in> set (ps_depends_on s))"

definition steps_closed :: "PlanStepDefinition list \<Rightarrow> bool" where
  "steps_closed steps \<longleftrightarrow> (\<forall>s \<in> set steps. set (ps_depends_on s) \<subseteq> set (step_ids steps))"

definition steps_acyclic :: "PlanStepDefinition list \<Rightarrow> bool" where
  "steps_acyclic steps \<longleftrightarrow> (\<forall>x. \<not> (depends steps)\<^sup>+\<^sup>+ x x)"

lemma dependency_graph_is_acyclic_correct:
  assumes "distinct (step_ids steps)" "steps_closed steps"
  shows "dependency_graph_is_acyclic steps = Inr (steps_acyclic steps)"
proof -
  have edge: "dep_edge (plan_graph steps) = depends steps"
    by (intro ext) (simp add: dep_edge_plan_graph [OF assms(1)] depends_def)
  have "graph_closed (plan_graph steps)"
    using assms by (auto simp: graph_closed_def edge depends_def plan_graph_keys steps_closed_def)
  from visit_all_decides [OF this] show ?thesis
    by (auto simp: dependency_graph_is_acyclic_def Let_def graph_acyclic_def edge steps_acyclic_def
        split: dfs.splits)
qed

definition valid_plan :: "ExecutionPlan \<Rightarrow> bool" where
  "valid_plan p \<longleftrightarrow> ep_version p \<ge> 1 \<and> ep_steps p \<noteq> [] \<and>
     (\<forall>s \<in> set (ep_steps p). plan_step_error s = None) \<and>
     distinct (step_ids (ep_steps p)) \<and> distinct (map ps_sequence (ep_steps p)) \<and>
     steps_closed (ep_steps p) \<and> steps_acyclic (ep_steps p)"

lemma execution_plan_error_None: "execution_plan_error p = None \<longleftrightarrow> valid_plan p"
proof (cases "first_some (map plan_step_error (ep_steps p))")
  case (Some e)
  then have "\<exists>s \<in> set (ep_steps p). plan_step_error s \<noteq> None"
    using first_some_None_iff [of "map plan_step_error (ep_steps p)"] by auto
  with Some show ?thesis by (auto simp: execution_plan_error_def valid_plan_def)
next
  case None
  then have nested: "\<forall>s \<in> set (ep_steps p). plan_step_error s = None"
    by (simp add: first_some_None_iff)
  show ?thesis
  proof (cases "distinct (step_ids (ep_steps p)) \<and> steps_closed (ep_steps p)")
    case True
    with None nested show ?thesis
      by (auto simp: execution_plan_error_def valid_plan_def Let_def
          dependency_graph_is_acyclic_correct steps_closed_def)
  next
    case False
    with None show ?thesis
      by (auto simp: execution_plan_error_def valid_plan_def Let_def steps_closed_def)
  qed
qed

text \<open>A key error of the search is never raised by plan validation.\<close>

lemma execution_plan_no_key_error: "execution_plan_error p \<noteq> Some (PlanKeyError k)"
proof -
  have step: "plan_step_error s \<noteq> Some (PlanKeyError k)" for s
    by (auto simp: plan_step_error_def dest!: first_error_Some)
  have nested: "first_some (map plan_step_error ss) \<noteq> Some (PlanKeyError k)" for ss
    by (induction ss) (use step in \<open>auto split: option.splits\<close>, metis first_some.simps(2,3) not_Some_eq)
  show ?thesis
    using nested [of "ep_steps p"] dependency_graph_is_acyclic_correct [of "ep_steps p"]
    by (auto simp: execution_plan_error_def Let_def steps_closed_def
        split: option.splits if_splits sum.splits)
qed

section \<open>Execution steps\<close>

record ArtifactRef =
  af_artifact_id :: uuid
  af_media_type :: string
  af_content_hash :: string
  af_size_bytes :: int
  af_storage_key :: string
  af_created_at :: timestamp

record ExecutionStep =
  es_step_id :: uuid
  es_task_run_id :: uuid
  es_plan_id :: uuid
  es_status :: StepStatus
  es_attempt :: int
  es_started_at :: "timestamp option"
  es_finished_at :: "timestamp option"
  es_input_artifacts :: "ArtifactRef list"
  es_output_artifacts :: "ArtifactRef list"
  es_error :: "ErrorInfo option"

datatype step_error = BadExecutionStepField | TerminalStepNeedsFinish | LiveStepHasFinish
  | StepFinishBeforeStart | FailedStepNeedsError | CompletedStepHasError | StepArtifactsNotUnique

definition execution_step_error :: "ExecutionStep \<Rightarrow> step_error option" where
  "execution_step_error s = first_error
     [(es_attempt s < 1, BadExecutionStepField),
      (terminal_step (es_status s) \<and> es_finished_at s = None, TerminalStepNeedsFinish),
      (\<not> terminal_step (es_status s) \<and> es_finished_at s \<noteq> None, LiveStepHasFinish),
      (case (es_finished_at s, es_started_at s) of
         (Some f, Some b) \<Rightarrow> f < b | _ \<Rightarrow> False, StepFinishBeforeStart),
      (es_status s = StepFailed \<and> es_error s = None, FailedStepNeedsError),
      (es_status s = StepCompleted \<and> es_error s \<noteq> None, CompletedStepHasError),
      (\<not> distinct (map af_artifact_id (es_input_artifacts s @ es_output_artifacts s)),
       StepArtifactsNotUnique)]"

section \<open>Controller actions\<close>

datatype ControllerActionType = ActProvider | ActTool | ActVerification | ActManual

fun action_type_value :: "ControllerActionType \<Rightarrow> string" where
  "action_type_value ActProvider = ''provider''"
| "action_type_value ActTool = ''tool''"
| "action_type_value ActVerification = ''verification''"
| "action_type_value ActManual = ''manual''"

record ControllerStepAction =
  ca_step_id :: uuid
  ca_action_type :: ControllerActionType
  ca_provider_id :: "string option"
  ca_requested_model :: "string option"
  ca_provider_instructions :: "string option"
  ca_tool_id :: "string option"
  ca_tool_version :: "string option"
  ca_tool_arguments :: "(string, json) dict option"
  ca_verifier_ids :: "string list"
  ca_response_format :: "string option"
  ca_response_schema :: "(string, json) dict option"
  ca_expected_artifacts :: "string list"

datatype action_fault = BadActionField | ProviderNeedsInstructions | ProviderHasToolFields
  | ToolNeedsIdentity | ToolHasProviderFields | VerificationNeedsVerifiers
  | ManualNeedsInstruction

definition action_error :: "ControllerStepAction \<Rightarrow> action_fault option" where
  "action_error a =
     (if \<not> (list_all opt_non_empty [ca_provider_id a, ca_requested_model a,
               ca_provider_instructions a, ca_tool_id a, ca_tool_version a, ca_response_format a] \<and>
             list_all non_empty_str (ca_verifier_ids a) \<and>
             list_all non_empty_str (ca_expected_artifacts a))
      then Some BadActionField
      else case ca_action_type a of
        ActProvider \<Rightarrow> first_error
          [(\<not> str_truthy (ca_provider_instructions a), ProviderNeedsInstructions),
           (ca_tool_id a \<noteq> None \<or> ca_tool_arguments a \<noteq> None, ProviderHasToolFields)]
      | ActTool \<Rightarrow> first_error
          [(\<not> str_truthy (ca_tool_id a) \<or> \<not> str_truthy (ca_tool_version a) \<or>
            ca_tool_arguments a = None, ToolNeedsIdentity),
           (str_truthy (ca_provider_id a) \<or> str_truthy (ca_provider_instructions a),
            ToolHasProviderFields)]
      | ActVerification \<Rightarrow> first_error [(ca_verifier_ids a = [], VerificationNeedsVerifiers)]
      | ActManual \<Rightarrow> first_error
          [(\<not> str_truthy (ca_provider_instructions a), ManualNeedsInstruction)])"

record ControllerExecutionPlan =
  cp_plan :: ExecutionPlan
  cp_actions :: "ControllerStepAction list"
  cp_created_at :: timestamp
  cp_created_by :: ActorRef
  cp_sequential_only :: bool

datatype controller_plan_fault = BadNestedPlan plan_error | BadNestedAction action_fault
  | NoActions | ActionsNotOneToOne | NotSequential | StepTypeMismatch

definition controller_plan_error :: "ControllerExecutionPlan \<Rightarrow> controller_plan_fault option" where
  "controller_plan_error p = (let steps = ep_steps (cp_plan p); aids = map ca_step_id (cp_actions p) in
     case execution_plan_error (cp_plan p) of Some e \<Rightarrow> Some (BadNestedPlan e) | None \<Rightarrow>
     (case first_some (map action_error (cp_actions p)) of Some e \<Rightarrow> Some (BadNestedAction e) | None \<Rightarrow>
      first_error
        [(cp_actions p = [], NoActions),
         (\<not> distinct aids \<or> set aids \<noteq> set (step_ids steps), ActionsNotOneToOne),
         (\<not> cp_sequential_only p, NotSequential),
         (\<exists>a \<in> set (cp_actions p).
            (case find (\<lambda>s. ps_step_id s = ca_step_id a) steps of
               None \<Rightarrow> False
             | Some s \<Rightarrow> ps_step_type s \<noteq> action_type_value (ca_action_type a)), StepTypeMismatch)]))"

definition valid_controller_plan :: "ControllerExecutionPlan \<Rightarrow> bool" where
  "valid_controller_plan p \<longleftrightarrow> controller_plan_error p = None"

lemma valid_controller_planD:
  assumes "valid_controller_plan p"
  shows "valid_plan (cp_plan p)" "distinct (map ca_step_id (cp_actions p))"
    "ca_step_id ` set (cp_actions p) = ps_step_id ` set (ep_steps (cp_plan p))"
    "cp_sequential_only p" "\<And>a. a \<in> set (cp_actions p) \<Longrightarrow> action_error a = None"
proof -
  from assms have nested: "execution_plan_error (cp_plan p) = None"
      "first_some (map action_error (cp_actions p)) = None"
    by (auto simp: valid_controller_plan_def controller_plan_error_def Let_def split: option.splits)
  from nested(1) show "valid_plan (cp_plan p)" by (simp add: execution_plan_error_None)
  from nested(2) show "\<And>a. a \<in> set (cp_actions p) \<Longrightarrow> action_error a = None"
    by (simp add: first_some_None_iff)
  from assms nested have "first_error
        [(cp_actions p = [], NoActions),
         (\<not> distinct (map ca_step_id (cp_actions p)) \<or>
          set (map ca_step_id (cp_actions p)) \<noteq> set (step_ids (ep_steps (cp_plan p))), ActionsNotOneToOne),
         (\<not> cp_sequential_only p, NotSequential)] = None"
    by (auto simp: valid_controller_plan_def controller_plan_error_def Let_def split: if_splits)
  then show "distinct (map ca_step_id (cp_actions p))"
    "ca_step_id ` set (cp_actions p) = ps_step_id ` set (ep_steps (cp_plan p))"
    "cp_sequential_only p"
    by (auto simp: step_ids_def split: if_splits)
qed

section \<open>Properties\<close>

text \<open>C10. Plan validation is exact. The contract accepts a plan if and only if its version is at
  least one, it has steps, every step is well formed, step identifiers and sequence numbers are
  unique, every dependency is a step of the plan and no step depends on itself through others; the
  depth-first search never looks up a step that is not there.\<close>

theorem plan_validation_exact:
  "(execution_plan_error p = None \<longleftrightarrow>
      ep_version p \<ge> 1 \<and> ep_steps p \<noteq> [] \<and>
      {s \<in> set (ep_steps p). plan_step_error s \<noteq> None} = {} \<and>
      distinct (map ps_step_id (ep_steps p)) \<and> distinct (map ps_sequence (ep_steps p)) \<and>
      (\<Union>s \<in> set (ep_steps p). set (ps_depends_on s)) \<subseteq> ps_step_id ` set (ep_steps p) \<and>
      {x. (depends (ep_steps p))\<^sup>+\<^sup>+ x x} = {}) \<and>
   execution_plan_error p \<noteq> Some (PlanKeyError k)"
  unfolding execution_plan_error_None valid_plan_def steps_closed_def steps_acyclic_def step_ids_def
  using execution_plan_no_key_error [of p k] by auto

subsection \<open>A sample plan\<close>

definition sample_step :: "nat \<Rightarrow> string \<Rightarrow> uuid list \<Rightarrow> PlanStepDefinition" where
  "sample_step n kind deps = \<lparr>ps_step_id = of_nat n, ps_sequence = int n, ps_step_type = kind,
     ps_title = ''step'', ps_description = None, ps_depends_on = deps, ps_expected_output = None,
     ps_required_tool_ids = [], ps_required_verifier_ids = []\<rparr>"

definition sample_actor :: ActorRef where
  "sample_actor = \<lparr>ar_actor_type = ActorSystem, ar_actor_id = ''planner'', ar_display_name = None\<rparr>"

definition sample_action :: "nat \<Rightarrow> ControllerStepAction" where
  "sample_action n = \<lparr>ca_step_id = of_nat n, ca_action_type = ActProvider, ca_provider_id = None,
     ca_requested_model = None, ca_provider_instructions = Some ''answer'', ca_tool_id = None,
     ca_tool_version = None, ca_tool_arguments = None, ca_verifier_ids = [],
     ca_response_format = None, ca_response_schema = None, ca_expected_artifacts = []\<rparr>"

definition sample_plan :: ControllerExecutionPlan where
  "sample_plan = \<lparr>cp_plan = \<lparr>ep_plan_id = 1, ep_task_run_id = 9, ep_version = 1, ep_created_at = 0,
        ep_created_by = sample_actor,
        ep_steps = [sample_step 1 ''provider'' [], sample_step 2 ''provider'' [1]]\<rparr>,
      cp_actions = [sample_action 1, sample_action 2], cp_created_at = 0,
      cp_created_by = sample_actor, cp_sequential_only = True\<rparr>"

lemma sample_plan_valid: "valid_controller_plan sample_plan"
  by code_simp

lemma sample_plan_steps: "step_ids (ep_steps (cp_plan sample_plan)) = [1, 2]"
  by (simp add: sample_plan_def sample_step_def step_ids_def)

end
