(* ===== verification/Plan_Schedule.thy ===== *)
theory Plan_Schedule
  imports Plan_Contracts
begin

text \<open>
  The deterministic one-step-at-a-time scheduler, \<open>controller/actions.py\<close>: which steps are ready,
  and which action runs next. In a valid plan with no failed step some step is always ready until
  every step is completed, so the scheduler cannot stall.
\<close>

datatype schedule_error = InconsistentDependencyState | ActionMissing uuid

definition ready_steps ::
  "ControllerExecutionPlan \<Rightarrow> uuid set \<Rightarrow> uuid set \<Rightarrow> schedule_error + PlanStepDefinition list" where
  "ready_steps p completed failed =
     (let steps = ep_steps (cp_plan p); known = set (step_ids steps) in
      if (completed \<union> failed) - known \<noteq> {} \<or> completed \<inter> failed \<noteq> {}
      then Inl InconsistentDependencyState
      else Inr (filter (\<lambda>s. ps_step_id s \<notin> completed \<union> failed \<and>
                            set (ps_depends_on s) \<subseteq> completed \<and>
                            set (ps_depends_on s) \<inter> failed = {}) steps))"

definition step_key :: "PlanStepDefinition \<Rightarrow> int \<times> string" where
  "step_key s = (ps_sequence s, uuid_str (ps_step_id s))"

definition select_next_action ::
  "ControllerExecutionPlan \<Rightarrow> uuid set \<Rightarrow> uuid set \<Rightarrow> schedule_error + ControllerStepAction option" where
  "select_next_action p completed failed =
     bind_res (ready_steps p completed failed)
       (\<lambda>ready. case sort_key step_key ready of
           [] \<Rightarrow> Inr None
         | s # _ \<Rightarrow> (case find (\<lambda>a. ca_step_id a = ps_step_id s) (cp_actions p) of
                      None \<Rightarrow> Inl (ActionMissing (ps_step_id s))
                    | Some a \<Rightarrow> Inr (Some a)))"

text \<open>The bookkeeping of a run: disjoint sets of completed and failed steps of the plan.\<close>

definition progress_ok :: "ControllerExecutionPlan \<Rightarrow> uuid set \<Rightarrow> uuid set \<Rightarrow> bool" where
  "progress_ok p completed failed \<longleftrightarrow>
     completed \<union> failed \<subseteq> set (step_ids (ep_steps (cp_plan p))) \<and> completed \<inter> failed = {}"

lemma progress_ok_init [simp]: "progress_ok p {} {}"
  by (simp add: progress_ok_def)

lemma progress_ok_finite: "progress_ok p completed failed \<Longrightarrow> finite (completed \<union> failed)"
  by (auto simp: progress_ok_def intro: finite_subset)

lemma ready_steps_ok:
  "progress_ok p completed failed \<Longrightarrow> ready_steps p completed failed =
     Inr (filter (\<lambda>s. ps_step_id s \<notin> completed \<union> failed \<and> set (ps_depends_on s) \<subseteq> completed \<and>
                     set (ps_depends_on s) \<inter> failed = {}) (ep_steps (cp_plan p)))"
  by (auto simp: ready_steps_def progress_ok_def Let_def)

lemma hd_sort_key_min:
  assumes "sort_key f xs = y # ys"
  shows "y \<in> set xs" "x \<in> set xs \<Longrightarrow> f y \<le> f x"
proof -
  have set: "set (y # ys) = set xs" by (simp add: assms [symmetric])
  then show "y \<in> set xs" by auto
  have "sorted (map f (sort_key f xs))" by simp
  then have "\<forall>z \<in> set (y # ys). f y \<le> f z" by (simp add: assms)
  with set show "x \<in> set xs \<Longrightarrow> f y \<le> f x" by blast
qed

lemma sort_key_Nil_iff: "sort_key f xs = [] \<longleftrightarrow> xs = []"
  by (metis length_0_conv length_sort)

text \<open>What a selected action is.\<close>

lemma select_next_action_Some:
  assumes "progress_ok p completed failed" "select_next_action p completed failed = Inr (Some a)"
  obtains s where "a \<in> set (cp_actions p)" "s \<in> set (ep_steps (cp_plan p))"
    "ca_step_id a = ps_step_id s" "ps_step_id s \<notin> completed \<union> failed"
    "set (ps_depends_on s) \<subseteq> completed"
    "\<And>r. r \<in> set (ep_steps (cp_plan p)) \<Longrightarrow> ps_step_id r \<notin> completed \<union> failed \<Longrightarrow>
         set (ps_depends_on r) \<subseteq> completed \<Longrightarrow> ps_sequence s \<le> ps_sequence r"
proof -
  let ?ready = "filter (\<lambda>s. ps_step_id s \<notin> completed \<union> failed \<and> set (ps_depends_on s) \<subseteq> completed \<and>
                     set (ps_depends_on s) \<inter> failed = {}) (ep_steps (cp_plan p))"
  from assms(2) obtain s rest where s: "sort_key step_key ?ready = s # rest"
      and a: "find (\<lambda>a. ca_step_id a = ps_step_id s) (cp_actions p) = Some a"
    by (auto simp: select_next_action_def ready_steps_ok [OF assms(1)] split: list.splits option.splits)
  have dis: "completed \<inter> failed = {}" using assms(1) by (simp add: progress_ok_def)
  have "s \<in> set ?ready" by (rule hd_sort_key_min(1) [OF s])
  moreover have "ps_sequence s \<le> ps_sequence r" if "r \<in> set (ep_steps (cp_plan p))"
      "ps_step_id r \<notin> completed \<union> failed" "set (ps_depends_on r) \<subseteq> completed" for r
  proof -
    from that dis have "r \<in> set ?ready" by auto
    from hd_sort_key_min(2) [OF s this] show ?thesis by (auto simp: step_key_def less_eq_prod_def)
  qed
  moreover have "a \<in> set (cp_actions p)" "ca_step_id a = ps_step_id s"
    using a by (auto simp: find_Some_iff)
  ultimately show thesis using that by auto
qed

text \<open>In a valid plan the selected step always has its action.\<close>

lemma select_next_action_no_error:
  assumes "valid_controller_plan p" "progress_ok p completed failed"
  shows "\<exists>r. select_next_action p completed failed = Inr r"
proof -
  let ?ready = "filter (\<lambda>s. ps_step_id s \<notin> completed \<union> failed \<and> set (ps_depends_on s) \<subseteq> completed \<and>
                     set (ps_depends_on s) \<inter> failed = {}) (ep_steps (cp_plan p))"
  show ?thesis
  proof (cases "sort_key step_key ?ready")
    case Nil
    then show ?thesis by (simp add: select_next_action_def ready_steps_ok [OF assms(2)])
  next
    case (Cons s rest)
    then have "s \<in> set (ep_steps (cp_plan p))" using hd_sort_key_min(1) [OF Cons] by simp
    with valid_controller_planD(3) [OF assms(1)] have "ps_step_id s \<in> ca_step_id ` set (cp_actions p)"
      by auto
    then have "find (\<lambda>a. ca_step_id a = ps_step_id s) (cp_actions p) \<noteq> None"
      by (auto simp: find_None_iff)
    with Cons show ?thesis by (auto simp: select_next_action_def ready_steps_ok [OF assms(2)])
  qed
qed

lemma select_next_action_None:
  assumes "progress_ok p completed failed" "select_next_action p completed failed = Inr None"
    "s \<in> set (ep_steps (cp_plan p))" "ps_step_id s \<notin> completed \<union> failed"
  shows "\<not> set (ps_depends_on s) \<subseteq> completed"
proof
  assume deps: "set (ps_depends_on s) \<subseteq> completed"
  from assms(1) have dis: "completed \<inter> failed = {}" by (simp add: progress_ok_def)
  let ?ready = "filter (\<lambda>s. ps_step_id s \<notin> completed \<union> failed \<and> set (ps_depends_on s) \<subseteq> completed \<and>
                     set (ps_depends_on s) \<inter> failed = {}) (ep_steps (cp_plan p))"
  from deps dis assms(3,4) have "s \<in> set ?ready" by auto
  moreover have "?ready = []"
    using assms(2)
    by (auto simp: select_next_action_def ready_steps_ok [OF assms(1)] sort_key_Nil_iff
        split: list.splits option.splits)
  ultimately show False by (metis empty_iff empty_set)
qed

text \<open>
  No stall: while some step is open, either a step has failed or one is ready. An open step that
  is minimal in the dependency order has all its dependencies completed.
\<close>

lemma acyclic_minimal:
  assumes "steps_acyclic steps" "finite U" "x \<in> U"
  obtains m where "m \<in> U" "\<And>y. y \<in> U \<Longrightarrow> \<not> depends steps m y"
proof -
  define r where "r = {(y, x). x \<in> U \<and> y \<in> U \<and> depends steps x y}"
  have "finite r" unfolding r_def
    by (rule finite_subset [of _ "U \<times> U"]) (use assms(2) in auto)
  moreover have "acyclic r"
  proof -
    have chain: "(depends steps)\<^sup>+\<^sup>+ a b" if "(b, a) \<in> r\<^sup>+" for a b
      using that
    proof (induction rule: trancl_induct)
      case (base c)
      then show ?case by (simp add: r_def tranclp.r_into_trancl)
    next
      case (step c d)
      then have "depends steps d c" by (simp add: r_def)
      then show ?case using step.IH by (rule tranclp_into_tranclp2)
    qed
    with assms(1) chain show ?thesis by (meson acyclicI steps_acyclic_def)
  qed
  ultimately have "wf r" by (rule finite_acyclic_wf)
  from wfE_min [OF this assms(3)] obtain m where m: "m \<in> U" "\<And>y. (y, m) \<in> r \<Longrightarrow> y \<notin> U" by blast
  show thesis
  proof (rule that [OF m(1)])
    fix y assume y: "y \<in> U"
    show "\<not> depends steps m y"
    proof
      assume "depends steps m y"
      with m(1) y have "(y, m) \<in> r" by (simp add: r_def)
      with m(2) y show False by blast
    qed
  qed
qed

lemma scheduler_progress:
  assumes "valid_controller_plan p" "progress_ok p completed {}"
    "completed \<noteq> set (step_ids (ep_steps (cp_plan p)))"
  shows "\<exists>a. select_next_action p completed {} = Inr (Some a)"
proof -
  let ?steps = "ep_steps (cp_plan p)"
  have plan: "valid_plan (cp_plan p)" by (rule valid_controller_planD [OF assms(1)])
  let ?U = "set (step_ids ?steps) - completed"
  from assms(2,3) obtain x where "x \<in> ?U" by (auto simp: progress_ok_def)
  with plan obtain m where m: "m \<in> ?U" "\<And>y. y \<in> ?U \<Longrightarrow> \<not> depends ?steps m y"
    using acyclic_minimal [of ?steps ?U x] by (auto simp: valid_plan_def)
  then obtain s where s: "s \<in> set ?steps" "ps_step_id s = m" by (auto simp: step_ids_def)
  from plan s(1) have "set (ps_depends_on s) \<subseteq> set (step_ids ?steps)"
    by (auto simp: valid_plan_def steps_closed_def)
  with m(2) s have "set (ps_depends_on s) \<subseteq> completed" by (auto simp: depends_def)
  moreover obtain r where r: "select_next_action p completed {} = Inr r"
    using select_next_action_no_error [OF assms(1,2)] by blast
  ultimately show ?thesis
    using select_next_action_None [OF assms(2) _ s(1)] s(2) m(1) by (cases r) auto
qed

section \<open>Properties\<close>

text \<open>C13. The scheduler cannot stall: for a valid plan, as long as no step has failed and some step
  is open, it selects an action of the plan. The action's step is open, everything it depends on is
  completed, and no open step whose dependencies are completed has a smaller sequence number.\<close>

theorem scheduler_selects_ready_step:
  assumes "valid_controller_plan p" "completed \<subset> set (step_ids (ep_steps (cp_plan p)))"
  shows "\<exists>a s. select_next_action p completed {} = Inr (Some a) \<and> a \<in> set (cp_actions p) \<and>
    s \<in> set (ep_steps (cp_plan p)) \<and> ca_step_id a = ps_step_id s \<and> ps_step_id s \<notin> completed \<and>
    set (ps_depends_on s) \<subseteq> completed \<and>
    (\<forall>r \<in> set (ep_steps (cp_plan p)). ps_step_id r \<notin> completed \<and> set (ps_depends_on r) \<subseteq> completed
       \<longrightarrow> ps_sequence s \<le> ps_sequence r)"
proof -
  from assms(2) have ok: "progress_ok p completed {}" by (auto simp: progress_ok_def)
  with scheduler_progress [OF assms(1)] assms(2) obtain a where
    a: "select_next_action p completed {} = Inr (Some a)" by blast
  from select_next_action_Some [OF ok a] obtain s where
    s: "a \<in> set (cp_actions p)" "s \<in> set (ep_steps (cp_plan p))" "ca_step_id a = ps_step_id s"
      "ps_step_id s \<notin> completed" "set (ps_depends_on s) \<subseteq> completed"
      "\<And>r. r \<in> set (ep_steps (cp_plan p)) \<Longrightarrow> ps_step_id r \<notin> completed \<Longrightarrow>
           set (ps_depends_on r) \<subseteq> completed \<Longrightarrow> ps_sequence s \<le> ps_sequence r"
    by auto
  with a show ?thesis by blast
qed

lemma scheduler_selects_ready_step_witness:
  "\<exists>a. select_next_action sample_plan {1} {} = Inr (Some a) \<and> ca_step_id a \<noteq> 1"
proof -
  have "{1} \<subset> set (step_ids (ep_steps (cp_plan sample_plan)))"
    unfolding sample_plan_steps by auto
  from scheduler_selects_ready_step [OF sample_plan_valid this] show ?thesis by auto
qed

end
