(* ===== verification/Ctl_Machine.thy ===== *)
theory Ctl_Machine
  imports Lifecycle
begin

text \<open>
  The controller's states, its transition table and transition machine
  (\<open>controller/transitions.py\<close>, \<open>controller/machine.py\<close>), the decision after verification
  (\<open>controller/decisions.py\<close>) and the recorded decisions of \<open>domain/controller.py\<close>.
\<close>

section \<open>States and the transition table\<close>

datatype ControllerState =
    CtlReceived
  | CtlRepresentingProblem
  | CtlWaitingForClarification
  | CtlReady
  | CtlPlanning
  | CtlExecuting
  | CtlVerifying
  | CtlRepairing
  | CtlPaused
  | CtlCompleted
  | CtlFailed
  | CtlCancelled
  | CtlBudgetExhausted

definition TERMINAL_CONTROLLER_STATES :: "ControllerState list" where
  "TERMINAL_CONTROLLER_STATES = [CtlCompleted, CtlFailed, CtlCancelled, CtlBudgetExhausted]"

fun TRANSITIONS :: "ControllerState \<Rightarrow> ControllerState list" where
  "TRANSITIONS CtlReceived = [CtlRepresentingProblem, CtlCancelled]"
| "TRANSITIONS CtlRepresentingProblem =
     [CtlWaitingForClarification, CtlReady, CtlFailed, CtlCancelled, CtlBudgetExhausted]"
| "TRANSITIONS CtlWaitingForClarification =
     [CtlRepresentingProblem, CtlCancelled, CtlBudgetExhausted]"
| "TRANSITIONS CtlReady = [CtlPlanning, CtlCancelled]"
| "TRANSITIONS CtlPlanning =
     [CtlExecuting, CtlWaitingForClarification, CtlFailed, CtlCancelled, CtlBudgetExhausted]"
| "TRANSITIONS CtlExecuting =
     [CtlVerifying, CtlPaused, CtlFailed, CtlCancelled, CtlBudgetExhausted]"
| "TRANSITIONS CtlVerifying =
     [CtlCompleted, CtlRepairing, CtlWaitingForClarification, CtlFailed, CtlCancelled,
      CtlBudgetExhausted]"
| "TRANSITIONS CtlRepairing = [CtlExecuting, CtlFailed, CtlCancelled, CtlBudgetExhausted]"
| "TRANSITIONS CtlPaused = [CtlExecuting, CtlVerifying, CtlCancelled, CtlBudgetExhausted]"
| "TRANSITIONS CtlCompleted = []"
| "TRANSITIONS CtlFailed = []"
| "TRANSITIONS CtlCancelled = []"
| "TRANSITIONS CtlBudgetExhausted = []"

section \<open>The transition machine\<close>

record StateTransition =
  tr_current :: ControllerState
  tr_target :: ControllerState
  tr_reason :: string
  tr_decision_id :: uuid
  tr_expected_stream_version :: int

datatype transition_error = EmptyTransitionReason | NegativeStreamVersion
  | IllegalTransition ControllerState ControllerState

definition can_transition :: "ControllerState \<Rightarrow> ControllerState \<Rightarrow> bool" where
  "can_transition current target \<longleftrightarrow> target \<in> set (TRANSITIONS current)"

definition require_transition :: "StateTransition \<Rightarrow> transition_error option" where
  "require_transition t = first_error
     [(py_strip (tr_reason t) = [], EmptyTransitionReason),
      (tr_expected_stream_version t < 0, NegativeStreamVersion),
      (\<not> can_transition (tr_current t) (tr_target t),
       IllegalTransition (tr_current t) (tr_target t))]"

definition transition :: "StateTransition \<Rightarrow> transition_error + ControllerState" where
  "transition t = (case require_transition t of Some e \<Rightarrow> Inl e | None \<Rightarrow> Inr (tr_target t))"

definition is_terminal :: "ControllerState \<Rightarrow> bool" where
  "is_terminal s \<longleftrightarrow> s \<in> set TERMINAL_CONTROLLER_STATES"

definition is_waiting :: "ControllerState \<Rightarrow> bool" where
  "is_waiting s \<longleftrightarrow> s \<in> {CtlWaitingForClarification, CtlPaused}"

lemmas [table_defs] = can_transition_def is_terminal_def TERMINAL_CONTROLLER_STATES_def

lemma is_terminal_simps [simp]:
  "\<not> is_terminal CtlReceived" "\<not> is_terminal CtlRepresentingProblem"
  "\<not> is_terminal CtlWaitingForClarification" "\<not> is_terminal CtlReady"
  "\<not> is_terminal CtlPlanning" "\<not> is_terminal CtlExecuting" "\<not> is_terminal CtlVerifying"
  "\<not> is_terminal CtlRepairing" "\<not> is_terminal CtlPaused"
  "is_terminal CtlCompleted" "is_terminal CtlFailed" "is_terminal CtlCancelled"
  "is_terminal CtlBudgetExhausted"
  by (simp_all add: table_defs)

interpretation ctl_table: lifecycle_table can_transition is_terminal
proof unfold_locales
  show "is_terminal s \<Longrightarrow> \<not> can_transition s t" for s t
    by (cases s) (auto simp: can_transition_def)
  show "\<not> is_terminal s \<Longrightarrow> \<exists>t. can_transition s t" for s
    by (cases s) (auto simp: can_transition_def)
  show "\<not> can_transition s s" for s
    by (cases s) (auto simp: can_transition_def)
qed

lemma require_transition_None_iff:
  "require_transition t = None \<longleftrightarrow> non_empty_str (tr_reason t) \<and>
     0 \<le> tr_expected_stream_version t \<and> can_transition (tr_current t) (tr_target t)"
  by (auto simp: require_transition_def non_empty_str_def)

text \<open>A live controller can always be cancelled, and a terminal one never.\<close>

lemma cancel_possible_iff: "can_transition s CtlCancelled \<longleftrightarrow> \<not> is_terminal s"
  by (cases s) (auto simp: can_transition_def)

section \<open>Decisions\<close>

datatype TerminalChoice = ChooseCancel | ChooseBudgetExhausted | ChoosePause | ChooseClarify
  | ChooseComplete | ChooseRepair | ChooseFail

definition choose_after_verification ::
  "bool \<Rightarrow> bool \<Rightarrow> bool \<Rightarrow> bool \<Rightarrow> bool \<Rightarrow> bool \<Rightarrow> bool \<Rightarrow> TerminalChoice" where
  "choose_after_verification cancellation_requested budget_exhausted approval_pending
     clarification_required accepted repairable repair_budget_remaining =
     (if cancellation_requested then ChooseCancel
      else if budget_exhausted then ChooseBudgetExhausted
      else if approval_pending then ChoosePause
      else if clarification_required then ChooseClarify
      else if accepted then ChooseComplete
      else if repairable \<and> repair_budget_remaining then ChooseRepair
      else ChooseFail)"

datatype ControllerDecisionType = DecRepresentProblem | DecRequestClarification | DecGeneratePlan
  | DecExecuteProvider | DecExecuteTool | DecVerify | DecRepair | DecPause | DecComplete | DecFail
  | DecCancel | DecExhaustBudget

record ControllerDecision =
  cd_decision_id :: uuid
  cd_task_run_id :: uuid
  cd_current_state :: ControllerState
  cd_decision_type :: ControllerDecisionType
  cd_reason :: string
  cd_selected_step_id :: "uuid option"
  cd_selected_provider_id :: "string option"
  cd_selected_tool_id :: "string option"
  cd_created_at :: timestamp
  cd_causation_event_id :: "uuid option"

section \<open>Properties\<close>

text \<open>A controller run, as a sequence of guarded transitions, never goes on after a terminal
  state, and cancellation is possible from a state exactly when that state is not terminal.\<close>

theorem controller_runs_end_in_terminal:
  "(transition t = Inr s' \<longrightarrow> \<not> is_terminal (tr_current t) \<and> can_transition (tr_current t) s') \<and>
   (ctl_table.run_from s (xs @ u # ys) \<and> is_terminal u \<longrightarrow> ys = []) \<and>
   (can_transition s CtlCancelled \<longleftrightarrow> \<not> is_terminal s)"
proof (intro conjI impI)
  assume "transition t = Inr s'"
  then have "can_transition (tr_current t) s'"
    by (auto simp: transition_def require_transition_None_iff split: option.splits)
  then show "\<not> is_terminal (tr_current t)" "can_transition (tr_current t) s'"
    using ctl_table.terminal_stuck by blast+
qed (use ctl_table.run_terminal_last cancel_possible_iff in blast)+

lemma controller_runs_end_in_terminal_witness:
  "\<not> is_terminal CtlVerifying \<and> can_transition CtlVerifying CtlCompleted"
proof -
  have "transition \<lparr>tr_current = CtlVerifying, tr_target = CtlCompleted, tr_reason = ''ok'',
      tr_decision_id = 0, tr_expected_stream_version = 5\<rparr> = Inr CtlCompleted"
    by code_simp
  with controller_runs_end_in_terminal [of "\<lparr>tr_current = CtlVerifying, tr_target = CtlCompleted,
      tr_reason = ''ok'', tr_decision_id = 0, tr_expected_stream_version = 5\<rparr>" CtlCompleted
      CtlReady "[]" CtlReady "[]"]
  show ?thesis by simp
qed

end
