(* ===== verification/Ctl_Budget.thy ===== *)
theory Ctl_Budget
  imports Ctl_Machine
begin

text \<open>
  The controller's budget and usage contracts (\<open>domain/controller.py\<close>), the host-enforced ledger
  (\<open>controller/budget.py\<close>), the usage merge of \<open>controller/usage.py\<close> and the state snapshot with
  its validator. Counters are integers, seconds and cost units rationals.
\<close>

section \<open>Budget and usage\<close>

record ControllerBudget =
  cb_maximum_provider_calls :: int
  cb_maximum_tool_calls :: int
  cb_maximum_plan_steps :: int
  cb_maximum_repair_cycles :: int
  cb_maximum_clarification_cycles :: int
  cb_maximum_elapsed_seconds :: pyfloat
  cb_maximum_input_tokens :: "int option"
  cb_maximum_output_tokens :: "int option"
  cb_maximum_cost_units :: "pyfloat option"
  cb_maximum_verifier_calls :: int
  cb_maximum_verification_seconds :: pyfloat

definition opt_pos :: "'a::linordered_idom option \<Rightarrow> bool" where
  "opt_pos x = (case x of None \<Rightarrow> True | Some n \<Rightarrow> 0 < n)"

definition valid_budget :: "ControllerBudget \<Rightarrow> bool" where
  "valid_budget b \<longleftrightarrow> 0 < cb_maximum_provider_calls b \<and> 0 < cb_maximum_tool_calls b \<and>
     0 < cb_maximum_plan_steps b \<and> 0 < cb_maximum_repair_cycles b \<and>
     0 < cb_maximum_clarification_cycles b \<and> 0 < cb_maximum_elapsed_seconds b \<and>
     opt_pos (cb_maximum_input_tokens b) \<and> opt_pos (cb_maximum_output_tokens b) \<and>
     opt_pos (cb_maximum_cost_units b) \<and> 0 < cb_maximum_verifier_calls b \<and>
     0 < cb_maximum_verification_seconds b"

record ControllerUsage =
  cu_provider_calls :: int
  cu_tool_calls :: int
  cu_plan_steps_started :: int
  cu_plan_steps_completed :: int
  cu_repair_cycles :: int
  cu_clarification_cycles :: int
  cu_input_tokens :: int
  cu_output_tokens :: int
  cu_cost_units :: pyfloat
  cu_verifier_calls :: int
  cu_verification_seconds :: pyfloat
  cu_started_at :: timestamp
  cu_last_updated_at :: timestamp

definition valid_usage :: "ControllerUsage \<Rightarrow> bool" where
  "valid_usage u \<longleftrightarrow> 0 \<le> cu_provider_calls u \<and> 0 \<le> cu_tool_calls u \<and>
     0 \<le> cu_plan_steps_started u \<and> 0 \<le> cu_plan_steps_completed u \<and> 0 \<le> cu_repair_cycles u \<and>
     0 \<le> cu_clarification_cycles u \<and> 0 \<le> cu_input_tokens u \<and> 0 \<le> cu_output_tokens u \<and>
     0 \<le> cu_cost_units u \<and> 0 \<le> cu_verifier_calls u \<and> 0 \<le> cu_verification_seconds u"

definition fresh_usage :: "timestamp \<Rightarrow> ControllerUsage" where
  "fresh_usage now = \<lparr>cu_provider_calls = 0, cu_tool_calls = 0, cu_plan_steps_started = 0,
     cu_plan_steps_completed = 0, cu_repair_cycles = 0, cu_clarification_cycles = 0,
     cu_input_tokens = 0, cu_output_tokens = 0, cu_cost_units = 0, cu_verifier_calls = 0,
     cu_verification_seconds = 0, cu_started_at = now, cu_last_updated_at = now\<rparr>"

lemma valid_fresh_usage [simp]: "valid_usage (fresh_usage now)"
  by (simp add: valid_usage_def fresh_usage_def)

section \<open>The budget decision\<close>

record BudgetDecision =
  bd_allowed :: bool
  bd_reason :: string
  bd_remaining_provider_calls :: int
  bd_remaining_tool_calls :: int
  bd_remaining_plan_steps :: int
  bd_remaining_repair_cycles :: int
  bd_remaining_clarification_cycles :: int
  bd_remaining_seconds :: pyfloat
  bd_remaining_input_tokens :: "int option"
  bd_remaining_output_tokens :: "int option"
  bd_remaining_cost_units :: "pyfloat option"
  bd_remaining_verifier_calls :: int
  bd_remaining_verification_seconds :: pyfloat

definition remaining_opt ::
  "'a::linordered_idom option \<Rightarrow> 'a \<Rightarrow> 'a option" where
  "remaining_opt limit used = map_option (\<lambda>m. max 0 (m - used)) limit"

definition spent :: "pyfloat option \<Rightarrow> bool" where
  "spent value = (case value of None \<Rightarrow> False | Some v \<Rightarrow> v \<le> 0)"

definition budget_evaluate :: "ControllerBudget \<Rightarrow> ControllerUsage \<Rightarrow> pyfloat \<Rightarrow> BudgetDecision" where
  "budget_evaluate b u elapsed_seconds = (let
     provider = max 0 (cb_maximum_provider_calls b - cu_provider_calls u);
     tool = max 0 (cb_maximum_tool_calls b - cu_tool_calls u);
     steps = max 0 (cb_maximum_plan_steps b - cu_plan_steps_started u);
     repair = max 0 (cb_maximum_repair_cycles b - cu_repair_cycles u);
     clarification = max 0 (cb_maximum_clarification_cycles b - cu_clarification_cycles u);
     seconds = max 0 (cb_maximum_elapsed_seconds b - elapsed_seconds);
     input_tokens = remaining_opt (cb_maximum_input_tokens b) (cu_input_tokens u);
     output_tokens = remaining_opt (cb_maximum_output_tokens b) (cu_output_tokens u);
     cost = remaining_opt (cb_maximum_cost_units b) (cu_cost_units u);
     verifier_calls = max 0 (cb_maximum_verifier_calls b - cu_verifier_calls u);
     verification_seconds = max 0 (cb_maximum_verification_seconds b - cu_verification_seconds u);
     candidates =
       [(''provider'', Some (of_int provider)), (''tool'', Some (of_int tool)),
        (''steps'', Some (of_int steps)), (''repair'', Some (of_int repair)),
        (''clarification'', Some (of_int clarification)), (''seconds'', Some seconds),
        (''input'', map_option of_int input_tokens), (''output'', map_option of_int output_tokens),
        (''cost'', cost), (''verifier'', Some (of_int verifier_calls)),
        (''verification_seconds'', Some verification_seconds)];
     exhausted = find (\<lambda>(name, value). spent value) candidates
   in \<lparr>bd_allowed = (exhausted = None),
       bd_reason = (case exhausted of None \<Rightarrow> ''within budget''
                    | Some (name, _) \<Rightarrow> name @ '' budget exhausted''),
       bd_remaining_provider_calls = provider, bd_remaining_tool_calls = tool,
       bd_remaining_plan_steps = steps, bd_remaining_repair_cycles = repair,
       bd_remaining_clarification_cycles = clarification, bd_remaining_seconds = seconds,
       bd_remaining_input_tokens = input_tokens, bd_remaining_output_tokens = output_tokens,
       bd_remaining_cost_units = cost, bd_remaining_verifier_calls = verifier_calls,
       bd_remaining_verification_seconds = verification_seconds\<rparr>)"

text \<open>The specification of the decision: every limited resource has something left.\<close>

definition below :: "'a::linorder option \<Rightarrow> 'a \<Rightarrow> bool" where
  "below limit used = (case limit of None \<Rightarrow> True | Some m \<Rightarrow> used < m)"

definition within_budget :: "ControllerBudget \<Rightarrow> ControllerUsage \<Rightarrow> pyfloat \<Rightarrow> bool" where
  "within_budget b u elapsed \<longleftrightarrow>
     cu_provider_calls u < cb_maximum_provider_calls b \<and>
     cu_tool_calls u < cb_maximum_tool_calls b \<and>
     cu_plan_steps_started u < cb_maximum_plan_steps b \<and>
     cu_repair_cycles u < cb_maximum_repair_cycles b \<and>
     cu_clarification_cycles u < cb_maximum_clarification_cycles b \<and>
     elapsed < cb_maximum_elapsed_seconds b \<and>
     below (cb_maximum_input_tokens b) (cu_input_tokens u) \<and>
     below (cb_maximum_output_tokens b) (cu_output_tokens u) \<and>
     below (cb_maximum_cost_units b) (cu_cost_units u) \<and>
     cu_verifier_calls u < cb_maximum_verifier_calls b \<and>
     cu_verification_seconds u < cb_maximum_verification_seconds b"

lemma max_0_le_0: "max 0 (m - n) \<le> (0 :: 'a::linordered_idom) \<longleftrightarrow> \<not> n < m"
  by (auto simp: max_def)

lemma find_None_list_all: "find P xs = None \<longleftrightarrow> list_all (\<lambda>x. \<not> P x) xs"
  by (induction xs) auto

lemma spent_simps:
  "spent (Some (of_int (max 0 (m - n)))) \<longleftrightarrow> \<not> n < m"
  "spent (Some (max 0 (x - y))) \<longleftrightarrow> \<not> y < x"
  "spent (map_option of_int (remaining_opt l n)) \<longleftrightarrow> \<not> below l n"
  "spent (remaining_opt k y) \<longleftrightarrow> \<not> below k y"
  by (simp_all only: spent_def remaining_opt_def below_def max_0_le_0 of_int_le_0_iff
      option.case option.map not_False_eq_True split: option.split)
    (auto simp: max_0_le_0)

lemma budget_allowed_iff: "bd_allowed (budget_evaluate b u elapsed) \<longleftrightarrow> within_budget b u elapsed"
  by (simp only: budget_evaluate_def Let_def BudgetDecision.select_convs find_None_list_all
      list.pred_inject prod.case spent_simps not_not within_budget_def conj_assoc simp_thms)

text \<open>A refusal's reason ends in a word the allowance's does not.\<close>

lemma within_not_exhausted: "name @ '' budget exhausted'' \<noteq> ''within budget''"
proof
  assume "name @ '' budget exhausted'' = ''within budget''"
  then have "length (name @ '' budget exhausted'') = length ''within budget''" by (rule arg_cong)
  then show False by simp
qed

lemma budget_reason_non_empty: "non_empty_str (bd_reason (budget_evaluate b u elapsed))"
proof -
  define cands where "cands = [''provider'', ''tool'', ''steps'', ''repair'', ''clarification'', ''seconds'',
    ''input'', ''output'', ''cost'', ''verifier'', ''verification_seconds'']"
  have names: "name \<in> set cands \<Longrightarrow> non_empty_str (name @ '' budget exhausted'')" for name
    by (auto simp: cands_def non_empty_str_Cons py_space_def)
  have "find P xs = Some (name, v) \<Longrightarrow> name \<in> fst ` set xs" for P and xs :: "(string \<times> pyfloat option) list"
    and name v by (induction xs) (auto split: if_splits)
  then show ?thesis
    unfolding budget_evaluate_def Let_def BudgetDecision.select_convs
    by (auto simp: non_empty_str_Cons py_space_def split: option.split
        intro!: names simp: cands_def)
qed

section \<open>Recording usage\<close>

text \<open>
  \<open>record\<close> takes keyword increments. A key is a field name of the usage contract or unknown; a
  value is a number. Adding a number to the timestamp \<open>last_updated_at\<close> is a \<open>TypeError\<close>, and
  the revalidation of the sum rejects a fractional counter.
\<close>

datatype usage_key = UProviderCalls | UToolCalls | UPlanStepsStarted | UPlanStepsCompleted
  | URepairCycles | UClarificationCycles | UInputTokens | UOutputTokens | UCostUnits
  | UVerifierCalls | UVerificationSeconds | UStartedAt | ULastUpdatedAt | UUnknown string

datatype usage_error = UnknownOrNegativeIncrement | TimestampIncrement | FractionalCounter
  | NegativeUsage

definition int_sum :: "int \<Rightarrow> pyfloat \<Rightarrow> usage_error + int" where
  "int_sum n v = (if of_int \<lfloor>v\<rfloor> = v then Inr (n + \<lfloor>v\<rfloor>) else Inl FractionalCounter)"

fun add_increment :: "usage_key \<times> pyfloat \<Rightarrow> ControllerUsage \<Rightarrow> usage_error + ControllerUsage" where
  "add_increment (UProviderCalls, v) u =
     bind_res (int_sum (cu_provider_calls u) v) (\<lambda>n. Inr (u\<lparr>cu_provider_calls := n\<rparr>))"
| "add_increment (UToolCalls, v) u =
     bind_res (int_sum (cu_tool_calls u) v) (\<lambda>n. Inr (u\<lparr>cu_tool_calls := n\<rparr>))"
| "add_increment (UPlanStepsStarted, v) u =
     bind_res (int_sum (cu_plan_steps_started u) v) (\<lambda>n. Inr (u\<lparr>cu_plan_steps_started := n\<rparr>))"
| "add_increment (UPlanStepsCompleted, v) u =
     bind_res (int_sum (cu_plan_steps_completed u) v) (\<lambda>n. Inr (u\<lparr>cu_plan_steps_completed := n\<rparr>))"
| "add_increment (URepairCycles, v) u =
     bind_res (int_sum (cu_repair_cycles u) v) (\<lambda>n. Inr (u\<lparr>cu_repair_cycles := n\<rparr>))"
| "add_increment (UClarificationCycles, v) u =
     bind_res (int_sum (cu_clarification_cycles u) v) (\<lambda>n. Inr (u\<lparr>cu_clarification_cycles := n\<rparr>))"
| "add_increment (UInputTokens, v) u =
     bind_res (int_sum (cu_input_tokens u) v) (\<lambda>n. Inr (u\<lparr>cu_input_tokens := n\<rparr>))"
| "add_increment (UOutputTokens, v) u =
     bind_res (int_sum (cu_output_tokens u) v) (\<lambda>n. Inr (u\<lparr>cu_output_tokens := n\<rparr>))"
| "add_increment (UCostUnits, v) u = Inr (u\<lparr>cu_cost_units := cu_cost_units u + v\<rparr>)"
| "add_increment (UVerifierCalls, v) u =
     bind_res (int_sum (cu_verifier_calls u) v) (\<lambda>n. Inr (u\<lparr>cu_verifier_calls := n\<rparr>))"
| "add_increment (UVerificationSeconds, v) u =
     Inr (u\<lparr>cu_verification_seconds := cu_verification_seconds u + v\<rparr>)"
| "add_increment (UStartedAt, v) u = Inl TimestampIncrement"
| "add_increment (ULastUpdatedAt, v) u = Inl TimestampIncrement"
| "add_increment (UUnknown s, v) u = Inl UnknownOrNegativeIncrement"

fun add_increments ::
  "(usage_key \<times> pyfloat) list \<Rightarrow> ControllerUsage \<Rightarrow> usage_error + ControllerUsage" where
  "add_increments [] u = Inr u"
| "add_increments (i # is) u = bind_res (add_increment i u) (add_increments is)"

definition revalidate_usage :: "ControllerUsage \<Rightarrow> usage_error + ControllerUsage" where
  "revalidate_usage u = (if valid_usage u then Inr u else Inl NegativeUsage)"

fun known_usage_key :: "usage_key \<Rightarrow> bool" where
  "known_usage_key (UUnknown s) = False"
| "known_usage_key UStartedAt = False"
| "known_usage_key _ = True"

definition budget_record ::
  "ControllerUsage \<Rightarrow> (usage_key \<times> pyfloat) list \<Rightarrow> usage_error + ControllerUsage" where
  "budget_record u increments =
     (if (\<exists>(k, v) \<in> set increments. \<not> known_usage_key k) \<or> (\<exists>(k, v) \<in> set increments. v < 0)
      then Inl UnknownOrNegativeIncrement
      else bind_res (add_increments increments u) revalidate_usage)"

fun merge_increments ::
  "(usage_key \<times> pyfloat) list \<Rightarrow> ControllerUsage \<Rightarrow> usage_error + ControllerUsage" where
  "merge_increments [] u = Inr u"
| "merge_increments ((k, v) # is) u =
     (if \<not> known_usage_key k \<or> k = ULastUpdatedAt \<or> v < 0 then Inl UnknownOrNegativeIncrement
      else bind_res (add_increment (k, v) u) (merge_increments is))"

definition merge_usage ::
  "ControllerUsage \<Rightarrow> (usage_key \<times> pyfloat) list \<Rightarrow> usage_error + ControllerUsage" where
  "merge_usage base increments = bind_res (merge_increments increments base) revalidate_usage"

subsection \<open>Recording is monotone\<close>

definition usage_le :: "ControllerUsage \<Rightarrow> ControllerUsage \<Rightarrow> bool" where
  "usage_le u v \<longleftrightarrow> cu_provider_calls u \<le> cu_provider_calls v \<and> cu_tool_calls u \<le> cu_tool_calls v \<and>
     cu_plan_steps_started u \<le> cu_plan_steps_started v \<and>
     cu_plan_steps_completed u \<le> cu_plan_steps_completed v \<and>
     cu_repair_cycles u \<le> cu_repair_cycles v \<and>
     cu_clarification_cycles u \<le> cu_clarification_cycles v \<and>
     cu_input_tokens u \<le> cu_input_tokens v \<and> cu_output_tokens u \<le> cu_output_tokens v \<and>
     cu_cost_units u \<le> cu_cost_units v \<and> cu_verifier_calls u \<le> cu_verifier_calls v \<and>
     cu_verification_seconds u \<le> cu_verification_seconds v \<and>
     cu_started_at u = cu_started_at v \<and> cu_last_updated_at u = cu_last_updated_at v"

lemma usage_le_refl [simp]: "usage_le u u"
  by (simp add: usage_le_def)

lemma usage_le_trans: "usage_le u v \<Longrightarrow> usage_le v w \<Longrightarrow> usage_le u w"
  by (auto simp: usage_le_def)

lemma int_sum_Inr: "int_sum n v = Inr m \<Longrightarrow> 0 \<le> v \<Longrightarrow> n \<le> m"
  by (auto simp: int_sum_def split: if_splits)

lemma add_increment_le: "add_increment i u = Inr v \<Longrightarrow> 0 \<le> snd i \<Longrightarrow> usage_le u v"
  by (cases "(i, u)" rule: add_increment.cases)
    (auto simp: usage_le_def bind_res_Inr_iff dest: int_sum_Inr)

lemma add_increments_le:
  "add_increments is u = Inr v \<Longrightarrow> \<forall>(k, x) \<in> set is. 0 \<le> x \<Longrightarrow> usage_le u v"
proof (induction "is" arbitrary: u)
  case (Cons i "is")
  from Cons.prems(1) obtain w where w: "add_increment i u = Inr w" "add_increments is w = Inr v"
    by (auto simp: bind_res_Inr_iff)
  from Cons.prems(2) have "0 \<le> snd i" "\<forall>(k, x) \<in> set is. 0 \<le> x" by auto
  with w show ?case by (blast intro: usage_le_trans Cons.IH add_increment_le)
qed simp

lemma valid_usage_mono: "valid_usage u \<Longrightarrow> usage_le u v \<Longrightarrow> valid_usage v"
  by (auto simp: valid_usage_def usage_le_def)

lemma budget_record_Inr:
  assumes "budget_record u is = Inr v"
  shows "usage_le u v" "valid_usage v"
proof -
  from assms have "add_increments is u = Inr v" "\<forall>(k, x) \<in> set is. 0 \<le> x" "valid_usage v"
    by (auto simp: budget_record_def revalidate_usage_def bind_res_Inr_iff split: if_splits)
  then show "usage_le u v" "valid_usage v" by (blast intro: add_increments_le)+
qed

text \<open>The merge helper agrees with the ledger except on \<open>last_updated_at\<close>.\<close>

lemma merge_increments_eq:
  "\<forall>(k, v) \<in> set is. known_usage_key k \<and> k \<noteq> ULastUpdatedAt \<and> 0 \<le> v \<Longrightarrow>
     merge_increments is u = add_increments is u"
proof (induction "is" arbitrary: u)
  case (Cons i "is")
  obtain k v where i: "i = (k, v)" by (cases i)
  with Cons.prems have ok: "known_usage_key k" "k \<noteq> ULastUpdatedAt" "\<not> v < 0" by auto
  from Cons.prems have tl: "\<forall>(k, v) \<in> set is. known_usage_key k \<and> k \<noteq> ULastUpdatedAt \<and> 0 \<le> v" by auto
  show ?case
    using Cons.IH [OF tl] ok by (cases "add_increment i u") (simp_all add: i)
qed simp

subsection \<open>The increments the controller records\<close>

lemma int_sum_1 [simp]: "int_sum n 1 = Inr (n + 1)"
  by (simp add: int_sum_def)

lemma int_sum_of_int [simp]: "int_sum n (of_int k) = Inr (n + k)"
  by (simp add: int_sum_def)

lemma budget_record_one:
  assumes "valid_usage u"
  shows "budget_record u [(UToolCalls, 1)] = Inr (u\<lparr>cu_tool_calls := cu_tool_calls u + 1\<rparr>)"
    "budget_record u [(UProviderCalls, 1)] = Inr (u\<lparr>cu_provider_calls := cu_provider_calls u + 1\<rparr>)"
    "budget_record u [(UPlanStepsStarted, 1)] =
       Inr (u\<lparr>cu_plan_steps_started := cu_plan_steps_started u + 1\<rparr>)"
    "budget_record u [(UPlanStepsCompleted, 1)] =
       Inr (u\<lparr>cu_plan_steps_completed := cu_plan_steps_completed u + 1\<rparr>)"
    "budget_record u [(URepairCycles, 1), (UProviderCalls, 1)] =
       Inr (u\<lparr>cu_repair_cycles := cu_repair_cycles u + 1,
              cu_provider_calls := cu_provider_calls u + 1\<rparr>)"
    "0 \<le> n \<Longrightarrow> 0 \<le> s \<Longrightarrow> budget_record u [(UVerifierCalls, of_int n), (UVerificationSeconds, s)] =
       Inr (u\<lparr>cu_verifier_calls := cu_verifier_calls u + n,
              cu_verification_seconds := cu_verification_seconds u + s\<rparr>)"
  using assms by (simp_all add: budget_record_def revalidate_usage_def valid_usage_def)

section \<open>The state snapshot\<close>

record ControllerStateSnapshot =
  ss_task_run_id :: uuid
  ss_state :: ControllerState
  ss_problem_id :: "uuid option"
  ss_problem_revision :: "int option"
  ss_plan_id :: "uuid option"
  ss_plan_version :: "int option"
  ss_current_step_id :: "uuid option"
  ss_completed_step_ids :: "uuid list"
  ss_failed_step_ids :: "uuid list"
  ss_usage :: ControllerUsage
  ss_repair_cycle :: int
  ss_clarification_cycle :: int
  ss_last_event_id :: "uuid option"
  ss_last_stream_version :: int
  ss_updated_at :: timestamp
  ss_terminal_reason :: "string option"

datatype snapshot_fault = BadSnapshotField | TerminalReasonMismatch | StepInWrongState
  | StepsNotDisjoint | TerminalWithStep

definition snapshot_error :: "ControllerStateSnapshot \<Rightarrow> snapshot_fault option" where
  "snapshot_error s = first_error
     [(\<not> valid_usage (ss_usage s) \<or> ss_repair_cycle s < 0 \<or> ss_clarification_cycle s < 0 \<or>
       ss_last_stream_version s < 0 \<or> \<not> opt_pos (ss_problem_revision s) \<or>
       \<not> opt_pos (ss_plan_version s) \<or> \<not> opt_non_empty (ss_terminal_reason s), BadSnapshotField),
      (is_terminal (ss_state s) \<noteq> (ss_terminal_reason s \<noteq> None), TerminalReasonMismatch),
      (ss_current_step_id s \<noteq> None \<and>
       ss_state s \<notin> {CtlExecuting, CtlVerifying, CtlRepairing}, StepInWrongState),
      (set (ss_completed_step_ids s) \<inter> set (ss_failed_step_ids s) \<noteq> {}, StepsNotDisjoint),
      (is_terminal (ss_state s) \<and> ss_current_step_id s \<noteq> None, TerminalWithStep)]"

definition new_snapshot ::
  "uuid \<Rightarrow> ControllerState \<Rightarrow> ControllerUsage \<Rightarrow> int \<Rightarrow> timestamp \<Rightarrow> ControllerStateSnapshot" where
  "new_snapshot task_run_id state usage version now =
     \<lparr>ss_task_run_id = task_run_id, ss_state = state, ss_problem_id = None,
      ss_problem_revision = None, ss_plan_id = None, ss_plan_version = None,
      ss_current_step_id = None, ss_completed_step_ids = [], ss_failed_step_ids = [],
      ss_usage = usage, ss_repair_cycle = 0, ss_clarification_cycle = 0,
      ss_last_event_id = None, ss_last_stream_version = version, ss_updated_at = now,
      ss_terminal_reason = None\<rparr>"

section \<open>Properties\<close>

text \<open>The ledger allows work exactly when every limited resource has something left: each
  counter strictly below its maximum, the elapsed time below its maximum, and each optional limit
  either absent or not reached. A refusal names a resource, an allowance does not.\<close>

theorem budget_decision_exact:
  "(bd_allowed (budget_evaluate b u elapsed) \<longleftrightarrow>
     cu_provider_calls u < cb_maximum_provider_calls b \<and> cu_tool_calls u < cb_maximum_tool_calls b \<and>
     cu_plan_steps_started u < cb_maximum_plan_steps b \<and>
     cu_repair_cycles u < cb_maximum_repair_cycles b \<and>
     cu_clarification_cycles u < cb_maximum_clarification_cycles b \<and>
     elapsed < cb_maximum_elapsed_seconds b \<and>
     below (cb_maximum_input_tokens b) (cu_input_tokens u) \<and>
     below (cb_maximum_output_tokens b) (cu_output_tokens u) \<and>
     below (cb_maximum_cost_units b) (cu_cost_units u) \<and>
     cu_verifier_calls u < cb_maximum_verifier_calls b \<and>
     cu_verification_seconds u < cb_maximum_verification_seconds b) \<and>
   (bd_reason (budget_evaluate b u elapsed) = ''within budget'' \<longleftrightarrow>
     bd_allowed (budget_evaluate b u elapsed))"
proof
  show "bd_reason (budget_evaluate b u elapsed) = ''within budget'' \<longleftrightarrow>
     bd_allowed (budget_evaluate b u elapsed)"
    by (simp only: budget_evaluate_def Let_def BudgetDecision.select_convs)
      (auto split: option.splits simp: within_not_exhausted)
qed (simp only: budget_allowed_iff within_budget_def)

text \<open>Recording is monotone: a recorded usage is valid, no counter went down, the times are
  untouched, and the merge helper computes the same usage when no increment names the update
  time.\<close>

theorem budget_record_monotone:
  assumes "budget_record u increments = Inr v"
  shows "usage_le u v \<and> valid_usage v \<and>
    (ULastUpdatedAt \<notin> fst ` set increments \<longrightarrow> merge_usage u increments = Inr v)"
proof (intro conjI impI)
  show "usage_le u v" "valid_usage v" by (rule budget_record_Inr [OF assms])+
  assume no: "ULastUpdatedAt \<notin> fst ` set increments"
  from assms have known: "\<forall>(k, x) \<in> set increments. known_usage_key k \<and> 0 \<le> x"
    by (auto simp: budget_record_def not_less split: if_splits)
  with no have "\<forall>(k, x) \<in> set increments. known_usage_key k \<and> k \<noteq> ULastUpdatedAt \<and> 0 \<le> x"
    by force
  with assms known show "merge_usage u increments = Inr v"
    by (auto simp: merge_usage_def merge_increments_eq budget_record_def split: if_splits)
qed

lemma budget_record_monotone_witness:
  "valid_usage ((fresh_usage 3)\<lparr>cu_repair_cycles := 1, cu_provider_calls := 1\<rparr>)"
proof -
  have "budget_record (fresh_usage 3) [(URepairCycles, 1), (UProviderCalls, 1)] =
      Inr ((fresh_usage 3)\<lparr>cu_repair_cycles := 1, cu_provider_calls := 1\<rparr>)"
    by (simp add: budget_record_one fresh_usage_def [of 3] valid_usage_def)
  from budget_record_monotone [OF this] show ?thesis by blast
qed

end
