(* ===== verification/Problem_Rep.thy ===== *)
theory Problem_Rep
  imports Plan_Contracts
begin

text \<open>
  Problem representations: the contracts of \<open>domain/problems.py\<close>, the normalisation of the raw
  request (\<open>problem/normalization.py\<close>), the merge of machine constraints and the acceptance of a
  provider's representation (\<open>problem/validation.py\<close>, \<open>problem/representation.py\<close>), and the checks
  on a revision (\<open>application/services/problem_representation.py\<close>). SHA-256 and UUID5 are
  parameters.
\<close>

section \<open>Contracts\<close>

datatype ProblemDomain = DomGeneric | DomCoding | DomMathematics | DomPhysics | DomLogic | DomSemantic

datatype ConstraintCategory = CatFunctional | CatSecurity | CatResource | CatTime | CatFormat
  | CatEnvironment | CatPolicy | CatDomain

datatype CriterionType = CritSchema | CritArtifactExists | CritStepCompleted | CritToolSucceeded
  | CritExactMatch | CritManual | CritDomainVerifier

datatype InformationStatus = InfoKnown | InfoAssumed | InfoMissing | InfoConflicting

datatype ConstraintSource = SrcUser | SrcSystem | SrcProjectPolicy | SrcToolPolicy | SrcInferred

record ProblemGoal =
  pg_goal_id :: uuid
  pg_description :: string
  pg_priority :: int
  pg_success_evidence :: "string list"

record ProblemConstraint =
  pc_constraint_id :: uuid
  pc_category :: ConstraintCategory
  pc_description :: string
  pc_hard :: bool
  pc_source :: ConstraintSource
  pc_status :: InformationStatus

record ProblemAssumption =
  pa_assumption_id :: uuid
  pa_description :: string
  pa_confidence :: pyfloat
  pa_requires_validation :: bool
  pa_source :: ConstraintSource
  pa_status :: InformationStatus

record ProblemInputReference =
  pi_reference_id :: uuid
  pi_artifact_id :: uuid
  pi_description :: string
  pi_required :: bool
  pi_media_type :: string

record ProblemOutputRequirement =
  po_requirement_id :: uuid
  po_output_type :: string
  po_description :: string
  po_schema :: "(string, json) dict option"
  po_required :: bool
  po_maximum_size_bytes :: "int option"

record AcceptanceCriterion =
  ac_criterion_id :: uuid
  ac_description :: string
  ac_criterion_type :: CriterionType
  ac_required :: bool
  ac_weight :: pyfloat
  ac_verifier_id :: "string option"
  ac_configuration :: "(string, json) dict"

record ClarificationQuestion =
  cq_question_id :: uuid
  cq_question :: string
  cq_reason :: string
  cq_required :: bool
  cq_answer_schema :: "(string, json) dict"
  cq_related_goal_ids :: "uuid list"
  cq_related_constraint_ids :: "uuid list"

record ProblemRepresentation =
  pr_problem_id :: uuid
  pr_task_id :: uuid
  pr_task_run_id :: uuid
  pr_domain :: ProblemDomain
  pr_title :: string
  pr_summary :: string
  pr_goals :: "ProblemGoal list"
  pr_constraints :: "ProblemConstraint list"
  pr_assumptions :: "ProblemAssumption list"
  pr_inputs :: "ProblemInputReference list"
  pr_output_requirements :: "ProblemOutputRequirement list"
  pr_acceptance_criteria :: "AcceptanceCriterion list"
  pr_clarification_questions :: "ClarificationQuestion list"
  pr_risk_level :: RiskLevel
  pr_confidence :: pyfloat
  pr_created_at :: timestamp
  pr_revision :: int
  pr_source_request_hash :: string

datatype problem_fault =
    BadGoal
  | BadConstraint
  | InferredWithoutValidation
  | BadAssumption
  | BadInput
  | BadOutput
  | BadCriterion
  | DomainVerifierWithoutId
  | BadQuestion
  | BadProblemField
  | CollectionIdsNotUnique
  | NoRequiredCriterion
  | UnknownRelatedGoal
  | UnknownRelatedConstraint

definition unit_interval :: "pyfloat \<Rightarrow> bool" where
  "unit_interval x \<longleftrightarrow> 0 \<le> x \<and> x \<le> 1"

definition goal_error :: "ProblemGoal \<Rightarrow> problem_fault option" where
  "goal_error g = first_error
     [(\<not> non_empty_str (pg_description g) \<or> pg_priority g \<le> 0 \<or>
       \<not> list_all non_empty_str (pg_success_evidence g) \<or> length (pg_success_evidence g) > 32 \<or>
       \<not> distinct (pg_success_evidence g), BadGoal)]"

definition constraint_error :: "ProblemConstraint \<Rightarrow> problem_fault option" where
  "constraint_error c = first_error [(\<not> non_empty_str (pc_description c), BadConstraint)]"

definition assumption_error :: "ProblemAssumption \<Rightarrow> problem_fault option" where
  "assumption_error a = first_error
     [(\<not> non_empty_str (pa_description a) \<or> \<not> unit_interval (pa_confidence a), BadAssumption),
      (pa_source a = SrcInferred \<and> \<not> pa_requires_validation a, InferredWithoutValidation)]"

definition input_error :: "ProblemInputReference \<Rightarrow> problem_fault option" where
  "input_error i = first_error
     [(\<not> non_empty_str (pi_description i) \<or> \<not> non_empty_str (pi_media_type i), BadInput)]"

definition output_error :: "ProblemOutputRequirement \<Rightarrow> problem_fault option" where
  "output_error r = first_error
     [(\<not> non_empty_str (po_output_type r) \<or> \<not> non_empty_str (po_description r) \<or>
       (case po_maximum_size_bytes r of None \<Rightarrow> False | Some n \<Rightarrow> n \<le> 0), BadOutput)]"

definition criterion_error :: "AcceptanceCriterion \<Rightarrow> problem_fault option" where
  "criterion_error c = first_error
     [(\<not> non_empty_str (ac_description c) \<or> ac_weight c \<le> 0 \<or> \<not> opt_non_empty (ac_verifier_id c),
       BadCriterion),
      (ac_criterion_type c = CritDomainVerifier \<and> \<not> str_truthy (ac_verifier_id c),
       DomainVerifierWithoutId)]"

definition question_error :: "ClarificationQuestion \<Rightarrow> problem_fault option" where
  "question_error q = first_error
     [(\<not> non_empty_str (cq_question q) \<or> \<not> non_empty_str (cq_reason q), BadQuestion)]"

definition question_refs_error ::
  "uuid set \<Rightarrow> uuid set \<Rightarrow> ClarificationQuestion \<Rightarrow> problem_fault option" where
  "question_refs_error goal_ids constraint_ids q = first_error
     [(\<not> set (cq_related_goal_ids q) \<subseteq> goal_ids, UnknownRelatedGoal),
      (\<not> set (cq_related_constraint_ids q) \<subseteq> constraint_ids, UnknownRelatedConstraint)]"

definition problem_error :: "ProblemRepresentation \<Rightarrow> problem_fault option" where
  "problem_error p =
     (case first_some (map goal_error (pr_goals p) @ map constraint_error (pr_constraints p) @
         map assumption_error (pr_assumptions p) @ map input_error (pr_inputs p) @
         map output_error (pr_output_requirements p) @
         map criterion_error (pr_acceptance_criteria p) @
         map question_error (pr_clarification_questions p)) of
       Some e \<Rightarrow> Some e
     | None \<Rightarrow>
       (case first_error
          [(\<not> non_empty_str (pr_title p) \<or> \<not> non_empty_str (pr_summary p) \<or> pr_goals p = [] \<or>
            pr_output_requirements p = [] \<or> pr_acceptance_criteria p = [] \<or>
            \<not> unit_interval (pr_confidence p) \<or> pr_revision p < 1 \<or>
            \<not> sha256_hex (pr_source_request_hash p), BadProblemField),
           (\<not> (distinct (map pg_goal_id (pr_goals p)) \<and>
               distinct (map pc_constraint_id (pr_constraints p)) \<and>
               distinct (map pa_assumption_id (pr_assumptions p)) \<and>
               distinct (map pi_reference_id (pr_inputs p)) \<and>
               distinct (map po_requirement_id (pr_output_requirements p)) \<and>
               distinct (map ac_criterion_id (pr_acceptance_criteria p)) \<and>
               distinct (map cq_question_id (pr_clarification_questions p))), CollectionIdsNotUnique),
           (\<not> (\<exists>c \<in> set (pr_acceptance_criteria p). ac_required c), NoRequiredCriterion)] of
          Some e \<Rightarrow> Some e
        | None \<Rightarrow> first_some
            (map (question_refs_error (set (map pg_goal_id (pr_goals p)))
                    (set (map pc_constraint_id (pr_constraints p))))
               (pr_clarification_questions p))))"

definition requires_clarification :: "ProblemRepresentation \<Rightarrow> bool" where
  "requires_clarification p \<longleftrightarrow> (\<exists>q \<in> set (pr_clarification_questions p). cq_required q)"

definition is_executable :: "ProblemRepresentation \<Rightarrow> bool" where
  "is_executable p \<longleftrightarrow>
     \<not> (\<exists>c \<in> set (pr_constraints p). pc_hard c \<and> pc_status c = InfoConflicting) \<and>
     \<not> requires_clarification p"

definition required_criteria :: "ProblemRepresentation \<Rightarrow> AcceptanceCriterion list" where
  "required_criteria p = filter ac_required (pr_acceptance_criteria p)"

definition hard_constraints :: "ProblemRepresentation \<Rightarrow> ProblemConstraint list" where
  "hard_constraints p = filter pc_hard (pr_constraints p)"

lemma problem_error_required: "problem_error p = None \<Longrightarrow> required_criteria p \<noteq> []"
  by (auto simp: problem_error_def required_criteria_def filter_empty_conv
      split: option.splits if_splits)

lemma problem_error_criteria_distinct:
  "problem_error p = None \<Longrightarrow> distinct (map ac_criterion_id (pr_acceptance_criteria p))"
  by (auto simp: problem_error_def split: option.splits if_splits)

section \<open>Normalising the request\<close>

text \<open>\<open>re.sub(r"\s+", " ", s)\<close>: every maximal run of whitespace becomes one blank.\<close>

fun collapse_ws :: "bool \<Rightarrow> string \<Rightarrow> string" where
  "collapse_ws in_run [] = []"
| "collapse_ws in_run (c # cs) =
     (if py_space c then (if in_run then collapse_ws True cs else CHR '' '' # collapse_ws True cs)
      else c # collapse_ws False cs)"

definition normalize_request :: "string \<Rightarrow> string" where
  "normalize_request raw = py_strip (collapse_ws False raw)"

definition MACHINE_CONSTRAINTS :: "string list" where
  "MACHINE_CONSTRAINTS =
     [''Do not disclose provider secrets.'',
      ''Do not bypass Tool Plane policy.'',
      ''Do not modify files outside approved workspaces.'',
      ''Do not execute unregistered tools.'',
      ''Do not increase controller budgets.'']"

record NormalizedProblemSeed =
  ns_task_id :: uuid
  ns_task_run_id :: uuid
  ns_title :: string
  ns_normalized_request :: string
  ns_request_hash :: string
  ns_artifact_ids :: "string list"
  ns_risk_level :: RiskLevel
  ns_domain_hint :: "ProblemDomain option"
  ns_machine_constraints :: "string list"
  ns_allowed_provider_ids :: "string list"
  ns_available_tools :: "string list"
  ns_maximum_output_bytes :: int

datatype normalize_fault = EmptyRequest | BadSeedField

text \<open>A tool descriptor enters the seed by its identifier and version only.\<close>

definition normalize_problem ::
  "(string \<Rightarrow> string) \<Rightarrow> uuid \<Rightarrow> uuid \<Rightarrow> string \<Rightarrow> string \<Rightarrow> uuid list \<Rightarrow> RiskLevel \<Rightarrow>
   (string \<times> string) list \<Rightarrow> string list \<Rightarrow> ProblemDomain option \<Rightarrow> int \<Rightarrow> bool \<Rightarrow>
   normalize_fault + NormalizedProblemSeed" where
  "normalize_problem sha256 task_id task_run_id title raw_request artifacts risk_level tools
     provider_ids domain_hint maximum_output_bytes repository_language_english =
     (let normalized = normalize_request raw_request;
          constraints = MACHINE_CONSTRAINTS @
            (if repository_language_english
             then [''All tracked repository content must be written in English.''] else [])
      in if normalized = [] then Inl EmptyRequest
         else if \<not> non_empty_str title \<or> maximum_output_bytes \<le> 0 \<or>
                 \<not> list_all non_empty_str provider_ids then Inl BadSeedField
         else Inr \<lparr>ns_task_id = task_id, ns_task_run_id = task_run_id, ns_title = py_strip title,
                 ns_normalized_request = normalized, ns_request_hash = sha256 normalized,
                 ns_artifact_ids = map uuid_str artifacts, ns_risk_level = risk_level,
                 ns_domain_hint = domain_hint, ns_machine_constraints = constraints,
                 ns_allowed_provider_ids = map py_strip (sort (remdups provider_ids)),
                 ns_available_tools = map (\<lambda>(tid, v). py_strip (tid @ ''@'' @ v)) (sort tools),
                 ns_maximum_output_bytes = maximum_output_bytes\<rparr>)"

subsection \<open>Normalisation is canonical\<close>

text \<open>No whitespace but single blanks between words.\<close>

fun single_spaced :: "string \<Rightarrow> bool" where
  "single_spaced [] = True"
| "single_spaced [c] = (py_space c \<longrightarrow> c = CHR '' '')"
| "single_spaced (c # d # cs) =
     ((py_space c \<longrightarrow> c = CHR '' '' \<and> \<not> py_space d) \<and> single_spaced (d # cs))"

lemma py_space_blank [simp]: "py_space (CHR '' '')"
  by (simp add: py_space_def)

lemma collapse_ws_single_spaced:
  "single_spaced (collapse_ws b s) \<and>
   (b \<longrightarrow> (case collapse_ws b s of [] \<Rightarrow> True | c # _ \<Rightarrow> \<not> py_space c))"
proof (induction b s rule: collapse_ws.induct)
  case (2 b c cs)
  show ?case
  proof (cases "py_space c")
    case True
    with 2 show ?thesis
      by (cases "collapse_ws True cs") auto
  next
    case False
    with 2 show ?thesis
      by (cases "collapse_ws False cs") auto
  qed
qed auto

lemma single_spaced_tl: "single_spaced (c # cs) \<Longrightarrow> single_spaced cs"
  by (cases cs) auto

lemma single_spaced_dropWhile: "single_spaced s \<Longrightarrow> single_spaced (dropWhile P s)"
  by (induction s) (auto dest: single_spaced_tl)

lemma single_spaced_append1: "single_spaced (xs @ ys) \<Longrightarrow> single_spaced xs"
proof (induction xs rule: single_spaced.induct)
  case (2 c)
  then show ?case by (cases ys) auto
qed auto

lemma single_spaced_strip: "single_spaced s \<Longrightarrow> single_spaced (py_strip s)"
proof -
  assume "single_spaced s"
  then have "single_spaced (dropWhile py_space s)" by (rule single_spaced_dropWhile)
  moreover have "dropWhile py_space s =
      py_strip s @ rev (takeWhile py_space (rev (dropWhile py_space s)))"
    by (simp add: py_strip_def flip: rev_append)
  ultimately show ?thesis by (metis single_spaced_append1)
qed

lemma collapse_ws_id: "single_spaced s \<Longrightarrow> collapse_ws False s = s"
proof (induction s rule: single_spaced.induct)
  case (3 c d cs)
  then show ?case by (cases "py_space c") auto
qed auto

lemma normalize_request_idem: "normalize_request (normalize_request raw) = normalize_request raw"
  by (simp add: normalize_request_def collapse_ws_id single_spaced_strip collapse_ws_single_spaced)

lemma normalize_request_single_spaced: "single_spaced (normalize_request raw)"
  by (simp add: normalize_request_def single_spaced_strip collapse_ws_single_spaced)

section \<open>Machine constraints\<close>

definition machine_constraint :: "(string \<Rightarrow> uuid) \<Rightarrow> string \<Rightarrow> ProblemConstraint" where
  "machine_constraint policy_uuid description =
     \<lparr>pc_constraint_id = policy_uuid (''cognitive-os-policy:'' @ description),
      pc_category = CatPolicy, pc_description = description, pc_hard = True,
      pc_source = SrcSystem, pc_status = InfoKnown\<rparr>"

definition merge_machine_constraints ::
  "(string \<Rightarrow> uuid) \<Rightarrow> ProblemRepresentation \<Rightarrow> string list \<Rightarrow> ProblemRepresentation" where
  "merge_machine_constraints policy_uuid p descriptions =
     (let existing = set (map pc_description (pr_constraints p));
          added = map (machine_constraint policy_uuid) (filter (\<lambda>d. d \<notin> existing) descriptions)
      in p\<lparr>pr_constraints := pr_constraints p @ added\<rparr>)"

datatype representation_fault = InvalidRepresentation problem_fault | WrongRequestHash
  | LowConfidenceNeedsClarification | UnexpectedToolCalls | RevisionChangedIdentity
  | ProblemNotExecutable

definition require_executable :: "ProblemRepresentation \<Rightarrow> representation_fault option" where
  "require_executable p = (if \<not> is_executable p then Some ProblemNotExecutable else None)"

definition decode_representation ::
  "(string \<Rightarrow> uuid) \<Rightarrow> ProblemRepresentation \<Rightarrow> NormalizedProblemSeed \<Rightarrow> pyfloat \<Rightarrow>
   representation_fault + ProblemRepresentation" where
  "decode_representation policy_uuid value seed confidence_threshold =
     (case problem_error value of Some e \<Rightarrow> Inl (InvalidRepresentation e) | None \<Rightarrow>
      if pr_source_request_hash value \<noteq> ns_request_hash seed then Inl WrongRequestHash
      else let merged = merge_machine_constraints policy_uuid value (ns_machine_constraints seed)
           in if pr_confidence merged < confidence_threshold \<and> \<not> requires_clarification merged
              then Inl LowConfidenceNeedsClarification
              else Inr merged)"

text \<open>
  What the service does with the provider's response: a response is its tool calls and its
  structured output.
\<close>

record structured_response =
  sr_tool_calls :: "string list"
  sr_structured_output :: ProblemRepresentation

definition accept_representation ::
  "(string \<Rightarrow> uuid) \<Rightarrow> NormalizedProblemSeed \<Rightarrow> pyfloat \<Rightarrow> structured_response \<Rightarrow>
   representation_fault + ProblemRepresentation" where
  "accept_representation policy_uuid seed confidence_threshold response =
     (if sr_tool_calls response \<noteq> [] then Inl UnexpectedToolCalls
      else decode_representation policy_uuid (sr_structured_output response) seed confidence_threshold)"

definition accept_revision ::
  "ProblemRepresentation \<Rightarrow> structured_response \<Rightarrow> representation_fault + ProblemRepresentation" where
  "accept_revision current response =
     (if sr_tool_calls response \<noteq> [] then Inl UnexpectedToolCalls
      else let revised = sr_structured_output response in
        case problem_error revised of Some e \<Rightarrow> Inl (InvalidRepresentation e) | None \<Rightarrow>
        if pr_problem_id revised \<noteq> pr_problem_id current \<or>
           pr_task_id revised \<noteq> pr_task_id current \<or>
           pr_task_run_id revised \<noteq> pr_task_run_id current \<or>
           pr_source_request_hash revised \<noteq> pr_source_request_hash current \<or>
           pr_revision revised \<noteq> pr_revision current + 1
        then Inl RevisionChangedIdentity
        else let machine = filter (\<lambda>c. pc_source c \<in> {SrcSystem, SrcProjectPolicy}) (pr_constraints current);
                 present = set (map pc_constraint_id (pr_constraints revised));
                 missing = filter (\<lambda>c. pc_constraint_id c \<notin> present) machine
             in Inr (revised\<lparr>pr_constraints := pr_constraints revised @ missing\<rparr>))"

subsection \<open>What the merge guarantees\<close>

lemma merge_keeps: "set (pr_constraints p) \<subseteq> set (pr_constraints (merge_machine_constraints u p ds))"
  by (auto simp: merge_machine_constraints_def Let_def)

lemma merge_hard_if_absent:
  assumes "d \<in> set ds" "d \<notin> pc_description ` set (pr_constraints p)"
  shows "machine_constraint u d \<in> set (pr_constraints (merge_machine_constraints u p ds))"
  using assms by (auto simp: merge_machine_constraints_def Let_def)

lemma merge_describes:
  "set ds \<subseteq> pc_description ` set (pr_constraints (merge_machine_constraints u p ds))"
proof
  fix d assume d: "d \<in> set ds"
  show "d \<in> pc_description ` set (pr_constraints (merge_machine_constraints u p ds))"
  proof (cases "d \<in> pc_description ` set (pr_constraints p)")
    case True
    then show ?thesis using merge_keeps [of p u ds] by blast
  next
    case False
    with d have "machine_constraint u d \<in> set (pr_constraints (merge_machine_constraints u p ds))"
      by (rule merge_hard_if_absent)
    then show ?thesis by (rule rev_image_eqI) (simp add: machine_constraint_def)
  qed
qed

text \<open>
  A description the provider already used is not added, whatever the provider made of it: a soft,
  inferred constraint of the same text takes the machine constraint's place.
\<close>

lemma merge_soft_preempts:
  assumes "\<forall>c \<in> set (pr_constraints p). pc_description c = d \<longrightarrow> \<not> pc_hard c"
    "d \<in> pc_description ` set (pr_constraints p)"
  shows "\<not> (\<exists>c \<in> set (pr_constraints (merge_machine_constraints u p ds)).
               pc_description c = d \<and> pc_hard c)"
  using assms by (auto simp: merge_machine_constraints_def machine_constraint_def Let_def)

section \<open>Properties\<close>

text \<open>Normalising a request is canonical: the result has no whitespace but single blanks
  between words, none at either end, and normalising it again changes nothing.\<close>

theorem normalize_request_canonical:
  "single_spaced (normalize_request raw) \<and> py_strip (normalize_request raw) = normalize_request raw \<and>
   normalize_request (normalize_request raw) = normalize_request raw"
  using normalize_request_single_spaced [of raw] normalize_request_idem [of raw]
  by (simp add: normalize_request_def)

text \<open>C15. A provider's representation that is accepted was valid, answers the request that was
  asked, mentions every machine constraint and keeps every constraint of the provider, and either
  its confidence reaches the threshold or it asks for clarification.\<close>

theorem representation_accepted:
  assumes "accept_representation policy_uuid seed threshold response = Inr p"
  shows "problem_error (sr_structured_output response) = None \<and> sr_tool_calls response = [] \<and>
    pr_source_request_hash p = ns_request_hash seed \<and>
    set (ns_machine_constraints seed) \<subseteq> pc_description ` set (pr_constraints p) \<and>
    set (pr_constraints (sr_structured_output response)) \<subseteq> set (pr_constraints p) \<and>
    (threshold \<le> pr_confidence p \<or> requires_clarification p)"
proof -
  let ?v = "sr_structured_output response"
  from assms have v: "problem_error ?v = None" "sr_tool_calls response = []"
    "pr_source_request_hash ?v = ns_request_hash seed"
    and p: "p = merge_machine_constraints policy_uuid ?v (ns_machine_constraints seed)"
    and conf: "threshold \<le> pr_confidence p \<or> requires_clarification p"
    by (auto simp: accept_representation_def decode_representation_def Let_def
        split: if_splits option.splits)
  moreover have "pr_source_request_hash p = pr_source_request_hash ?v"
    unfolding p by (simp add: merge_machine_constraints_def Let_def)
  ultimately show ?thesis
    using merge_describes [of "ns_machine_constraints seed" policy_uuid ?v]
      merge_keeps [of ?v policy_uuid "ns_machine_constraints seed"] by simp
qed

definition sample_hash :: string where
  "sample_hash = replicate 64 CHR ''a''"

definition sample_problem :: ProblemRepresentation where
  "sample_problem = \<lparr>pr_problem_id = 1, pr_task_id = 2, pr_task_run_id = 9, pr_domain = DomGeneric,
     pr_title = ''t'', pr_summary = ''s'',
     pr_goals = [\<lparr>pg_goal_id = 1, pg_description = ''g'', pg_priority = 1, pg_success_evidence = []\<rparr>],
     pr_constraints = [\<lparr>pc_constraint_id = 5, pc_category = CatPolicy,
        pc_description = ''Do not execute unregistered tools.'', pc_hard = False,
        pc_source = SrcInferred, pc_status = InfoKnown\<rparr>],
     pr_assumptions = [], pr_inputs = [],
     pr_output_requirements = [\<lparr>po_requirement_id = 1, po_output_type = ''text'',
        po_description = ''o'', po_schema = None, po_required = True, po_maximum_size_bytes = None\<rparr>],
     pr_acceptance_criteria = [\<lparr>ac_criterion_id = 1, ac_description = ''c'',
        ac_criterion_type = CritStepCompleted, ac_required = True, ac_weight = 1,
        ac_verifier_id = None, ac_configuration = []\<rparr>],
     pr_clarification_questions = [], pr_risk_level = RiskLow, pr_confidence = 1, pr_created_at = 0,
     pr_revision = 1, pr_source_request_hash = sample_hash\<rparr>"

definition sample_seed :: "normalize_fault + NormalizedProblemSeed" where
  "sample_seed = normalize_problem (\<lambda>_. sample_hash) 2 9 ''t'' ''do  it'' [] RiskLow [] [''p''] None 100 False"

lemma sample_problem_valid: "problem_error sample_problem = None"
  by code_simp

lemma representation_accepted_witness:
  "\<exists>seed p. sample_seed = Inr seed \<and>
     accept_representation (\<lambda>_. 77) seed (1/2) \<lparr>sr_tool_calls = [], sr_structured_output = sample_problem\<rparr> = Inr p \<and>
     set MACHINE_CONSTRAINTS \<subseteq> pc_description ` set (pr_constraints p)"
proof -
  obtain seed where seed: "sample_seed = Inr seed" "ns_machine_constraints seed = MACHINE_CONSTRAINTS"
    "ns_request_hash seed = sample_hash"
  proof -
    have "normalize_request ''do  it'' \<noteq> []" by code_simp
    then show ?thesis
      using that by (simp add: sample_seed_def normalize_problem_def Let_def non_empty_str_Cons py_space_def)
  qed
  have "pr_source_request_hash sample_problem = sample_hash" "pr_confidence sample_problem = 1"
    by (simp_all add: sample_problem_def)
  then have "\<exists>p. accept_representation (\<lambda>_. 77) seed (1/2)
      \<lparr>sr_tool_calls = [], sr_structured_output = sample_problem\<rparr> = Inr p"
    using seed(3) by (simp add: accept_representation_def decode_representation_def sample_problem_valid
        Let_def merge_machine_constraints_def)
  then obtain p where p: "accept_representation (\<lambda>_. 77) seed (1/2)
      \<lparr>sr_tool_calls = [], sr_structured_output = sample_problem\<rparr> = Inr p" by blast
  with seed representation_accepted [OF p] show ?thesis by auto
qed

text \<open>Which machine constraints are binding after the merge: a text is a hard constraint of the
  merged representation exactly when the provider itself made it hard or when it is a machine
  constraint whose text the provider did not use at all. A provider that repeats the text of a
  machine constraint as a soft one therefore suppresses the hard one.\<close>

theorem machine_constraint_binding_iff:
  "(\<exists>c \<in> set (pr_constraints (merge_machine_constraints u p ds)). pc_description c = d \<and> pc_hard c) \<longleftrightarrow>
     (\<exists>c \<in> set (pr_constraints p). pc_description c = d \<and> pc_hard c) \<or>
     (d \<in> set ds \<and> d \<notin> pc_description ` set (pr_constraints p))"
    (is "?L \<longleftrightarrow> ?P \<or> ?N")
proof
  assume ?L
  then show "?P \<or> ?N" by (auto simp: merge_machine_constraints_def machine_constraint_def Let_def)
next
  assume "?P \<or> ?N"
  then show ?L
  proof
    assume ?P
    then show ?L using merge_keeps [of p u ds] by blast
  next
    assume ?N
    with merge_hard_if_absent [of d ds p u] show ?L
      by (intro bexI [of _ "machine_constraint u d"]) (simp_all add: machine_constraint_def)
  qed
qed

text \<open>A revision is accepted only for the same problem, task, run and request, with the next
  revision number, and it keeps, by identifier, every system and project-policy constraint.\<close>

theorem revision_keeps_identity:
  assumes "accept_revision current response = Inr revised"
  shows "pr_problem_id revised = pr_problem_id current \<and>
    pr_task_run_id revised = pr_task_run_id current \<and>
    pr_source_request_hash revised = pr_source_request_hash current \<and>
    pr_revision revised = pr_revision current + 1 \<and>
    {c \<in> set (pr_constraints current). pc_source c \<in> {SrcSystem, SrcProjectPolicy} \<and>
       pc_constraint_id c \<notin> pc_constraint_id ` set (pr_constraints revised)} = {}"
proof -
  let ?r = "sr_structured_output response"
  let ?missing = "filter (\<lambda>c. pc_constraint_id c \<notin> set (map pc_constraint_id (pr_constraints ?r)))
      (filter (\<lambda>c. pc_source c \<in> {SrcSystem, SrcProjectPolicy}) (pr_constraints current))"
  from assms have r: "pr_problem_id ?r = pr_problem_id current"
      "pr_task_run_id ?r = pr_task_run_id current"
      "pr_source_request_hash ?r = pr_source_request_hash current"
      "pr_revision ?r = pr_revision current + 1"
    and revised: "revised = ?r\<lparr>pr_constraints := pr_constraints ?r @ ?missing\<rparr>"
    by (auto simp: accept_revision_def Let_def split: if_splits option.splits)
  have cs: "pr_constraints revised = pr_constraints ?r @ ?missing" by (simp add: revised)
  have "pc_constraint_id c \<in> pc_constraint_id ` set (pr_constraints revised)"
    if c: "c \<in> set (pr_constraints current)" "pc_source c \<in> {SrcSystem, SrcProjectPolicy}" for c
  proof (cases "pc_constraint_id c \<in> set (map pc_constraint_id (pr_constraints ?r))")
    case True
    then show ?thesis unfolding cs by auto
  next
    case False
    with c have "c \<in> set ?missing" by auto
    then show ?thesis unfolding cs by (intro imageI) simp
  qed
  with r show ?thesis by (auto simp: revised)
qed

lemma revision_keeps_identity_witness:
  "\<exists>r. accept_revision sample_problem \<lparr>sr_tool_calls = [],
      sr_structured_output = sample_problem\<lparr>pr_revision := 2\<rparr>\<rparr> = Inr r \<and> pr_revision r = 2"
proof -
  have ok: "problem_error (sample_problem\<lparr>pr_revision := 2\<rparr>) = None" by code_simp
  have "pr_revision sample_problem = 1" by (simp add: sample_problem_def)
  with ok obtain r where r: "accept_revision sample_problem \<lparr>sr_tool_calls = [],
      sr_structured_output = sample_problem\<lparr>pr_revision := 2\<rparr>\<rparr> = Inr r"
    by (simp add: accept_revision_def)
  with revision_keeps_identity [OF r] \<open>pr_revision sample_problem = 1\<close> show ?thesis by auto
qed

end
