(* ===== verification/Ctl_Checkpoint.thy ===== *)
theory Ctl_Checkpoint
  imports Ctl_Budget Problem_Rep
begin

text \<open>
  Integrity-bound checkpoints and single-use continuation tokens (\<open>controller/checkpoint.py\<close>), the
  clarification contracts (\<open>domain/clarifications.py\<close>) and the clarification service
  (\<open>application/services/clarification_service.py\<close>). SHA-256, the JSON encoding and \<open>jsonschema\<close>
  are parameters.
\<close>

section \<open>Checkpoints\<close>

record ControllerCheckpoint =
  ck_checkpoint_id :: uuid
  ck_task_run_id :: uuid
  ck_controller_state :: ControllerStateSnapshot
  ck_problem_representation :: "ProblemRepresentation option"
  ck_controller_plan :: "ControllerExecutionPlan option"
  ck_usage :: ControllerUsage
  ck_event_stream_version :: int
  ck_created_at :: timestamp
  ck_content_hash :: string

datatype checkpoint_fault = BadCheckpointField | BadCheckpointState snapshot_fault
  | StateOfAnotherRun | CheckpointHashMismatch | CheckpointFromFuture | CheckpointUnreadable

definition checkpoint_error :: "ControllerCheckpoint \<Rightarrow> checkpoint_fault option" where
  "checkpoint_error c = (case snapshot_error (ck_controller_state c) of
       Some e \<Rightarrow> Some (BadCheckpointState e)
     | None \<Rightarrow> first_error
         [(\<not> valid_usage (ck_usage c) \<or> ck_event_stream_version c < 0 \<or>
           \<not> sha256_hex (ck_content_hash c) \<or>
           (case ck_problem_representation c of None \<Rightarrow> False | Some p \<Rightarrow> problem_error p \<noteq> None) \<or>
           (case ck_controller_plan c of None \<Rightarrow> False | Some p \<Rightarrow> controller_plan_error p \<noteq> None),
           BadCheckpointField),
          (ss_task_run_id (ck_controller_state c) \<noteq> ck_task_run_id c, StateOfAnotherRun)])"

text \<open>
  The hash covers everything but the hash field itself: \<open>digest\<close> is SHA-256 of the canonical JSON
  of a checkpoint whose hash field is left out, here emptied.
\<close>

type_synonym checkpoint_digest = "ControllerCheckpoint \<Rightarrow> string"

definition calculate_hash :: "checkpoint_digest \<Rightarrow> ControllerCheckpoint \<Rightarrow> string" where
  "calculate_hash digest c = digest (c\<lparr>ck_content_hash := ''''\<rparr>)"

definition create_checkpoint ::
  "checkpoint_digest \<Rightarrow> uuid \<Rightarrow> uuid \<Rightarrow> ControllerStateSnapshot \<Rightarrow> ProblemRepresentation option \<Rightarrow>
   ControllerExecutionPlan option \<Rightarrow> ControllerUsage \<Rightarrow> int \<Rightarrow> timestamp \<Rightarrow>
   checkpoint_fault + ControllerCheckpoint" where
  "create_checkpoint digest checkpoint_id task_run_id state problem plan usage version created_at =
     bind_res (construct checkpoint_error
       \<lparr>ck_checkpoint_id = checkpoint_id, ck_task_run_id = task_run_id, ck_controller_state = state,
        ck_problem_representation = problem, ck_controller_plan = plan, ck_usage = usage,
        ck_event_stream_version = version, ck_created_at = created_at,
        ck_content_hash = replicate 64 CHR ''0''\<rparr>)
       (\<lambda>draft. Inr (draft\<lparr>ck_content_hash := calculate_hash digest draft\<rparr>))"

definition verify_checkpoint :: "checkpoint_digest \<Rightarrow> ControllerCheckpoint \<Rightarrow> checkpoint_fault option" where
  "verify_checkpoint digest c = first_error
     [(calculate_hash digest c \<noteq> ck_content_hash c, CheckpointHashMismatch),
      (ss_last_stream_version (ck_controller_state c) < ck_event_stream_version c,
       CheckpointFromFuture)]"

definition serialize_checkpoint ::
  "checkpoint_digest \<Rightarrow> (ControllerCheckpoint \<Rightarrow> 'b) \<Rightarrow> ControllerCheckpoint \<Rightarrow> checkpoint_fault + 'b" where
  "serialize_checkpoint digest encode c =
     (case verify_checkpoint digest c of Some e \<Rightarrow> Inl e | None \<Rightarrow> Inr (encode c))"

text \<open>\<open>model_validate_json\<close> decodes and validates.\<close>

definition deserialize_checkpoint ::
  "checkpoint_digest \<Rightarrow> ('b \<Rightarrow> ControllerCheckpoint option) \<Rightarrow> 'b \<Rightarrow>
   checkpoint_fault + ControllerCheckpoint" where
  "deserialize_checkpoint digest decode data =
     (case decode data of None \<Rightarrow> Inl CheckpointUnreadable
      | Some c \<Rightarrow> bind_res (construct checkpoint_error c) (\<lambda>c.
          case verify_checkpoint digest c of Some e \<Rightarrow> Inl e | None \<Rightarrow> Inr c))"

lemma calculate_hash_update [simp]:
  "calculate_hash digest (c\<lparr>ck_content_hash := h\<rparr>) = calculate_hash digest c"
  by (simp add: calculate_hash_def)

lemma verify_checkpoint_None_iff:
  "verify_checkpoint digest c = None \<longleftrightarrow> calculate_hash digest c = ck_content_hash c \<and>
     ck_event_stream_version c \<le> ss_last_stream_version (ck_controller_state c)"
  by (auto simp: verify_checkpoint_def)

section \<open>Clarification contracts\<close>

record ClarificationRequest =
  crq_clarification_id :: uuid
  crq_task_run_id :: uuid
  crq_problem_id :: uuid
  crq_problem_revision :: int
  crq_questions :: "ClarificationQuestion list"
  crq_requested_at :: timestamp
  crq_expires_at :: timestamp

record ClarificationAnswer =
  can_question_id :: uuid
  can_answer :: json

record ClarificationResponse =
  crs_clarification_id :: uuid
  crs_task_run_id :: uuid
  crs_answers :: "ClarificationAnswer list"
  crs_provided_at :: timestamp
  crs_provided_by :: string

record ContinuationTokenRecord =
  ct_continuation_id :: uuid
  ct_task_run_id :: uuid
  ct_checkpoint_id :: uuid
  ct_token_hash :: string
  ct_event_stream_version :: int
  ct_created_at :: timestamp
  ct_expires_at :: timestamp
  ct_consumed_at :: "timestamp option"

datatype clarification_fault = BadResponder | AnswersNotUnique | WrongRequestId | WrongTaskRun
  | UnknownQuestion | MissingRequiredAnswer | AnswerSchemaViolation uuid

definition clarification_response_error :: "ClarificationResponse \<Rightarrow> clarification_fault option" where
  "clarification_response_error r = first_error
     [(\<not> non_empty_str (crs_provided_by r), BadResponder),
      (\<not> distinct (map can_question_id (crs_answers r)), AnswersNotUnique)]"

section \<open>Continuation tokens\<close>

definition issue_token ::
  "(string \<Rightarrow> string) \<Rightarrow> string \<Rightarrow> uuid \<Rightarrow> uuid \<Rightarrow> uuid \<Rightarrow> int \<Rightarrow> int \<Rightarrow> timestamp \<Rightarrow>
   string \<times> ContinuationTokenRecord" where
  "issue_token sha256 plaintext continuation_id task_run_id checkpoint_id version ttl_seconds issued_at =
     (plaintext,
      \<lparr>ct_continuation_id = continuation_id, ct_task_run_id = task_run_id,
       ct_checkpoint_id = checkpoint_id, ct_token_hash = sha256 plaintext,
       ct_event_stream_version = version, ct_created_at = issued_at,
       ct_expires_at = issued_at + seconds_to_micros ttl_seconds, ct_consumed_at = None\<rparr>)"

datatype continuation_fault = ContinuationRejected

definition consume_token ::
  "(string \<Rightarrow> string) \<Rightarrow> ContinuationTokenRecord \<Rightarrow> string \<Rightarrow> uuid \<Rightarrow> uuid \<Rightarrow> int \<Rightarrow> bool \<Rightarrow> timestamp \<Rightarrow>
   continuation_fault + ContinuationTokenRecord" where
  "consume_token sha256 record token task_run_id checkpoint_id version terminal checked_at =
     (if terminal \<or> ct_consumed_at record \<noteq> None \<or> ct_expires_at record \<le> checked_at \<or>
         ct_task_run_id record \<noteq> task_run_id \<or> ct_checkpoint_id record \<noteq> checkpoint_id \<or>
         ct_event_stream_version record \<noteq> version \<or> ct_token_hash record \<noteq> sha256 token
      then Inl ContinuationRejected
      else Inr (record\<lparr>ct_consumed_at := Some checked_at\<rparr>))"

section \<open>The clarification service\<close>

definition create_request ::
  "int \<Rightarrow> uuid \<Rightarrow> timestamp \<Rightarrow> ProblemRepresentation \<Rightarrow> ClarificationRequest" where
  "create_request continuation_ttl_seconds clarification_id now p =
     \<lparr>crq_clarification_id = clarification_id, crq_task_run_id = pr_task_run_id p,
      crq_problem_id = pr_problem_id p, crq_problem_revision = pr_revision p,
      crq_questions = pr_clarification_questions p, crq_requested_at = now,
      crq_expires_at = now + seconds_to_micros continuation_ttl_seconds\<rparr>"

definition questions_by_id :: "ClarificationQuestion list \<Rightarrow> (uuid, ClarificationQuestion) dict" where
  "questions_by_id qs = foldl (\<lambda>d q. dict_set d (cq_question_id q) q) [] qs"

definition answers_by_id :: "ClarificationAnswer list \<Rightarrow> (uuid, json) dict" where
  "answers_by_id as = foldl (\<lambda>d a. dict_set d (can_question_id a) (can_answer a)) [] as"

definition validate_response ::
  "((string, json) dict \<Rightarrow> json \<Rightarrow> bool) \<Rightarrow> ClarificationRequest \<Rightarrow> ClarificationResponse \<Rightarrow>
   clarification_fault option" where
  "validate_response schema_valid request response =
     (let questions = questions_by_id (crq_questions request);
          answers = answers_by_id (crs_answers response) in
      case first_error
        [(crq_clarification_id request \<noteq> crs_clarification_id response, WrongRequestId),
         (crq_task_run_id request \<noteq> crs_task_run_id response, WrongTaskRun),
         (\<not> fst ` set answers \<subseteq> fst ` set questions, UnknownQuestion),
         (\<not> cq_question_id ` set (filter cq_required (crq_questions request)) \<subseteq> fst ` set answers,
          MissingRequiredAnswer)] of
        Some e \<Rightarrow> Some e
      | None \<Rightarrow>
          first_error (map (\<lambda>(q, a). (case dict_get questions q of
               None \<Rightarrow> True
             | Some question \<Rightarrow> \<not> schema_valid (cq_answer_schema question) a,
             AnswerSchemaViolation q)) answers))"

lemma foldl_dict_keys:
  "fst ` set (foldl (\<lambda>d x. dict_set d (k x) (v x)) d xs) = fst ` set d \<union> k ` set xs"
  by (induction xs arbitrary: d) auto

lemma foldl_dict_distinct:
  "distinct (map fst d @ map k xs) \<Longrightarrow>
     foldl (\<lambda>d x. dict_set d (k x) (v x)) d xs = d @ map (\<lambda>x. (k x, v x)) xs"
proof (induction xs arbitrary: d)
  case (Cons x xs)
  from Cons.prems have "dict_set d (k x) (v x) = d @ [(k x, v x)]"
    by (intro dict_set_new) auto
  with Cons show ?case by simp
qed simp

lemma questions_get:
  assumes "distinct (map cq_question_id qs)"
  shows "dict_get (questions_by_id qs) i = Some q \<longleftrightarrow> q \<in> set qs \<and> cq_question_id q = i"
proof -
  have "questions_by_id qs = map (\<lambda>q. (cq_question_id q, q)) qs"
    unfolding questions_by_id_def using assms by (subst foldl_dict_distinct) simp_all
  moreover have "distinct (map fst (map (\<lambda>q. (cq_question_id q, q)) qs))"
    using assms by (simp add: comp_def)
  ultimately show ?thesis by (auto simp: image_iff)
qed

text \<open>What a validated response is, for a request with distinct questions.\<close>

definition answers_request ::
  "((string, json) dict \<Rightarrow> json \<Rightarrow> bool) \<Rightarrow> ClarificationRequest \<Rightarrow> ClarificationResponse \<Rightarrow> bool" where
  "answers_request schema_valid request response \<longleftrightarrow>
     crs_clarification_id response = crq_clarification_id request \<and>
     crs_task_run_id response = crq_task_run_id request \<and>
     (\<forall>a \<in> set (crs_answers response). \<exists>q \<in> set (crq_questions request).
        cq_question_id q = can_question_id a \<and> schema_valid (cq_answer_schema q) (can_answer a)) \<and>
     (\<forall>q \<in> set (crq_questions request). cq_required q \<longrightarrow>
        (\<exists>a \<in> set (crs_answers response). cq_question_id q = can_question_id a))"

lemma validate_response_None_iff:
  assumes qs: "distinct (map cq_question_id (crq_questions request))"
    and as: "clarification_response_error response = None"
  shows "validate_response schema_valid request response = None \<longleftrightarrow>
    answers_request schema_valid request response"
proof -
  let ?Q = "crq_questions request" and ?A = "crs_answers response"
  have "distinct (map can_question_id ?A)"
    using as by (simp add: clarification_response_error_def split: if_splits)
  then have A: "answers_by_id ?A = map (\<lambda>a. (can_question_id a, can_answer a)) ?A"
    unfolding answers_by_id_def by (subst foldl_dict_distinct) simp_all
  have keys: "fst ` set (questions_by_id ?Q) = cq_question_id ` set ?Q"
    by (simp add: questions_by_id_def foldl_dict_keys)
  have unique: "q = q'" if "q \<in> set ?Q" "q' \<in> set ?Q" "cq_question_id q = cq_question_id q'" for q q'
    using qs that by (auto simp: distinct_map inj_on_def)
  have look: "(case dict_get (questions_by_id ?Q) i of None \<Rightarrow> True
        | Some q \<Rightarrow> \<not> schema_valid (cq_answer_schema q) x) \<longleftrightarrow>
      \<not> (\<exists>q \<in> set ?Q. cq_question_id q = i \<and> schema_valid (cq_answer_schema q) x)" for i x
    using questions_get [OF qs, of i] unique
    by (cases "dict_get (questions_by_id ?Q) i") auto
  have imgs: "fst ` set (map (\<lambda>a. (can_question_id a, can_answer a)) ?A) = can_question_id ` set ?A"
    by force
  have schema: "first_error (map (\<lambda>(q, a). (case dict_get (questions_by_id ?Q) q of
               None \<Rightarrow> True | Some question \<Rightarrow> \<not> schema_valid (cq_answer_schema question) a,
             AnswerSchemaViolation q)) (answers_by_id ?A)) = None \<longleftrightarrow>
      (\<forall>a \<in> set ?A. \<exists>q \<in> set ?Q. cq_question_id q = can_question_id a \<and>
         schema_valid (cq_answer_schema q) (can_answer a))"
    unfolding first_error_None_iff A by (simp add: look)
  have "validate_response schema_valid request response = None \<longleftrightarrow>
      crq_clarification_id request = crs_clarification_id response \<and>
      crq_task_run_id request = crs_task_run_id response \<and>
      can_question_id ` set ?A \<subseteq> cq_question_id ` set ?Q \<and>
      cq_question_id ` set (filter cq_required ?Q) \<subseteq> can_question_id ` set ?A \<and>
      (\<forall>a \<in> set ?A. \<exists>q \<in> set ?Q. cq_question_id q = can_question_id a \<and>
         schema_valid (cq_answer_schema q) (can_answer a))"
    unfolding schema [symmetric] validate_response_def Let_def keys A imgs
    by (simp split: option.splits if_splits)
  moreover have "cq_question_id ` set (filter cq_required ?Q) \<subseteq> can_question_id ` set ?A \<longleftrightarrow>
      (\<forall>q \<in> set ?Q. cq_required q \<longrightarrow> (\<exists>a \<in> set ?A. cq_question_id q = can_question_id a))"
    by (auto simp: image_subset_iff image_iff)
  moreover have "can_question_id ` set ?A \<subseteq> cq_question_id ` set ?Q"
    if "\<forall>a \<in> set ?A. \<exists>q \<in> set ?Q. cq_question_id q = can_question_id a \<and>
         schema_valid (cq_answer_schema q) (can_answer a)"
  proof
    fix i assume "i \<in> can_question_id ` set ?A"
    then obtain a where "a \<in> set ?A" "i = can_question_id a" by blast
    with that obtain q where "q \<in> set ?Q" "cq_question_id q = i" by auto
    then show "i \<in> cq_question_id ` set ?Q" by blast
  qed
  ultimately show ?thesis
    unfolding answers_request_def eq_commute [of "crs_clarification_id response"]
      eq_commute [of "crs_task_run_id response"] by blast
qed

section \<open>Properties\<close>





text \<open>A clarification response is accepted exactly when it names the request and the run, every
  answer belongs to a question of the request and satisfies its schema, and every required question
  is answered.\<close>

theorem clarification_response_exact:
  assumes "distinct (map cq_question_id (crq_questions request))"
    and "clarification_response_error response = None"
  shows "validate_response schema_valid request response = None \<longleftrightarrow>
    crs_clarification_id response = crq_clarification_id request \<and>
    crs_task_run_id response = crq_task_run_id request \<and>
    {a \<in> set (crs_answers response). \<not> (\<exists>q \<in> set (crq_questions request).
        cq_question_id q = can_question_id a \<and> schema_valid (cq_answer_schema q) (can_answer a))} = {} \<and>
    cq_question_id ` {q \<in> set (crq_questions request). cq_required q} \<subseteq>
      can_question_id ` set (crs_answers response)"
  unfolding validate_response_None_iff [OF assms] answers_request_def image_subset_iff image_iff
  by blast

definition sample_question :: ClarificationQuestion where
  "sample_question = \<lparr>cq_question_id = 3, cq_question = ''which?'', cq_reason = ''unclear'',
     cq_required = True, cq_answer_schema = [], cq_related_goal_ids = [], cq_related_constraint_ids = []\<rparr>"

definition sample_request :: ClarificationRequest where
  "sample_request = create_request 60 4 0
     (sample_problem\<lparr>pr_clarification_questions := [sample_question]\<rparr>)"

definition sample_response :: ClarificationResponse where
  "sample_response = \<lparr>crs_clarification_id = 4, crs_task_run_id = 9,
     crs_answers = [\<lparr>can_question_id = 3, can_answer = JStr ''this''\<rparr>], crs_provided_at = 1,
     crs_provided_by = ''user''\<rparr>"

lemma clarification_response_exact_witness:
  "validate_response (\<lambda>_ v. v \<noteq> JNull) sample_request sample_response = None"
proof -
  have "distinct (map cq_question_id (crq_questions sample_request))"
    by (simp add: sample_request_def create_request_def)
  moreover have "clarification_response_error sample_response = None"
    by (simp add: clarification_response_error_def sample_response_def non_empty_str_Cons py_space_def)
  ultimately show ?thesis
    by (subst clarification_response_exact)
      (simp_all add: sample_request_def create_request_def sample_response_def sample_problem_def
        sample_question_def image_subset_iff)
qed

definition sample_snapshot :: ControllerStateSnapshot where
  "sample_snapshot = new_snapshot 9 CtlReady (fresh_usage 0) 5 1"

definition sample_digest :: checkpoint_digest where
  "sample_digest c = (if ck_event_stream_version c = 5 then replicate 64 CHR ''a'' else replicate 64 CHR ''b'')"



end
