(* ===== verification/Acceptance.thy ===== *)
theory Acceptance
  imports Problem_Rep "HOL-Library.Multiset"
begin

text \<open>
  Acceptance: verifier results (\<open>domain/verification.py\<close>), acceptance policies and decisions
  (\<open>domain/acceptance.py\<close>) and the authoritative policy evaluation
  (\<open>application/services/acceptance_service.py\<close>). The policy digest (SHA-256 of the canonical
  JSON) is the parameter \<open>digest\<close>.
\<close>

section \<open>Verifier results\<close>

record VerificationSubjectRef =
  vs_subject_type :: string
  vs_subject_id :: "string option"
  vs_artifact_id :: "uuid option"

record VerifierFinding =
  vf_code :: string
  vf_severity :: FindingSeverity
  vf_message :: string
  vf_location :: "string option"
  vf_evidence_artifacts :: "ArtifactRef list"

record VerifierResult =
  vr_verifier_result_id :: uuid
  vr_verifier_id :: string
  vr_verifier_version :: string
  vr_subject :: VerificationSubjectRef
  vr_status :: VerifierStatus
  vr_score :: "pyfloat option"
  vr_confidence :: "pyfloat option"
  vr_findings :: "VerifierFinding list"
  vr_evidence_artifacts :: "ArtifactRef list"
  vr_started_at :: timestamp
  vr_finished_at :: timestamp
  vr_error :: "ErrorInfo option"

datatype verifier_result_fault = BadResultField | SubjectWithoutReference
  | ResultFinishBeforeStart | FailedWithoutFinding | ErrorWithoutInfo | PassedWithError
  | EvidenceNotUnique

definition opt_unit_interval :: "pyfloat option \<Rightarrow> bool" where
  "opt_unit_interval x = (case x of None \<Rightarrow> True | Some v \<Rightarrow> unit_interval v)"

definition subject_ref_error :: "VerificationSubjectRef \<Rightarrow> verifier_result_fault option" where
  "subject_ref_error s = first_error
     [(vs_subject_id s = None \<and> vs_artifact_id s = None, SubjectWithoutReference)]"

definition verifier_result_error :: "VerifierResult \<Rightarrow> verifier_result_fault option" where
  "verifier_result_error r =
     (case subject_ref_error (vr_subject r) of Some e \<Rightarrow> Some e | None \<Rightarrow>
      first_error
        [(\<not> non_empty_str (vr_verifier_id r) \<or> \<not> non_empty_str (vr_verifier_version r) \<or>
          \<not> opt_unit_interval (vr_score r) \<or> \<not> opt_unit_interval (vr_confidence r), BadResultField),
         (vr_finished_at r < vr_started_at r, ResultFinishBeforeStart),
         (vr_status r = VFailed \<and> vr_findings r = [], FailedWithoutFinding),
         (vr_status r = VError \<and> vr_error r = None, ErrorWithoutInfo),
         (vr_status r = VPassed \<and> vr_error r \<noteq> None, PassedWithError),
         (\<not> distinct (map af_artifact_id (vr_evidence_artifacts r @
             concat (map vf_evidence_artifacts (vr_findings r)))), EvidenceNotUnique)])"

section \<open>Policies and decisions\<close>

record VerifierRequirement =
  rq_requirement_id :: uuid
  rq_verifier_id :: string
  rq_minimum_version :: string
  rq_criterion_ids :: "uuid list"
  rq_required :: bool
  rq_weight :: pyfloat
  rq_minimum_score :: pyfloat
  rq_allowed_outcomes :: "VerifierStatus list"

record AcceptancePolicy =
  ap_policy_id :: uuid
  ap_version :: string
  ap_name :: string
  ap_description :: string
  ap_requirements :: "VerifierRequirement list"
  ap_minimum_optional_score :: pyfloat
  ap_allow_partial :: bool
  ap_maximum_verifier_errors :: int
  ap_maximum_unverifiable_required :: int
  ap_created_at :: timestamp
  ap_policy_hash :: string

datatype acceptance_fault = BadRequirement | BadPolicyField | PolicyMappingsNotUnique
  | PolicyHashMismatch | CriteriaNotMapped | EvaluationsNotUnique | AcceptedWithoutEvidence
  | OptionalScoreOutOfRange

definition requirement_error :: "VerifierRequirement \<Rightarrow> acceptance_fault option" where
  "requirement_error r = first_error
     [(\<not> non_empty_str (rq_verifier_id r) \<or> \<not> non_empty_str (rq_minimum_version r) \<or>
       rq_criterion_ids r = [] \<or> rq_weight r \<le> 0 \<or> \<not> unit_interval (rq_minimum_score r),
       BadRequirement)]"

text \<open>What the validator checks before the hash: it does not read the hash field.\<close>

definition policy_body_error :: "AcceptancePolicy \<Rightarrow> acceptance_fault option" where
  "policy_body_error p = first_some (map requirement_error (ap_requirements p) @
     [first_error
       [(\<not> non_empty_str (ap_version p) \<or> \<not> non_empty_str (ap_name p) \<or>
         \<not> non_empty_str (ap_description p) \<or> ap_requirements p = [] \<or>
         \<not> unit_interval (ap_minimum_optional_score p) \<or> ap_maximum_verifier_errors p < 0 \<or>
         ap_maximum_unverifiable_required p < 0, BadPolicyField),
        (\<not> distinct (map rq_requirement_id (ap_requirements p)) \<or>
         \<not> distinct (concat (map rq_criterion_ids (ap_requirements p))), PolicyMappingsNotUnique)]])"

text \<open>Construction seals the policy: an empty hash is filled in, a wrong one refused.\<close>

definition seal_policy ::
  "(AcceptancePolicy \<Rightarrow> string) \<Rightarrow> AcceptancePolicy \<Rightarrow> acceptance_fault + AcceptancePolicy" where
  "seal_policy digest p =
     (case policy_body_error p of Some e \<Rightarrow> Inl e
      | None \<Rightarrow>
        (let expected = digest (p\<lparr>ap_policy_hash := ''''\<rparr>) in
         if ap_policy_hash p \<noteq> '''' \<and> ap_policy_hash p \<noteq> expected then Inl PolicyHashMismatch
         else Inr (p\<lparr>ap_policy_hash := expected\<rparr>)))"

lemma policy_body_error_hash [simp]: "policy_body_error (p\<lparr>ap_policy_hash := h\<rparr>) = policy_body_error p"
  by (simp add: policy_body_error_def)

lemma seal_policy_Inr:
  "seal_policy digest p = Inr q \<longleftrightarrow> policy_body_error p = None \<and>
     (ap_policy_hash p = '''' \<or> ap_policy_hash p = digest (p\<lparr>ap_policy_hash := ''''\<rparr>)) \<and>
     q = p\<lparr>ap_policy_hash := digest (p\<lparr>ap_policy_hash := ''''\<rparr>)\<rparr>"
  by (cases "policy_body_error p") (auto simp: seal_policy_def Let_def)

lemma seal_policy_idem: "seal_policy digest p = Inr q \<Longrightarrow> seal_policy digest q = Inr q"
  unfolding seal_policy_Inr by simp

record CriterionEvaluation =
  ce_criterion_id :: uuid
  ce_verifier_requirement_id :: uuid
  ce_result_ids :: "uuid list"
  ce_outcome :: VerifierStatus
  ce_score :: "pyfloat option"
  ce_required :: bool
  ce_reason :: string

datatype AcceptanceDecisionType = DecisionAccepted | DecisionRejected | DecisionNeedsRepair
  | DecisionNeedsClarification | DecisionUnverifiable | DecisionVerificationError

record AcceptanceDecision =
  ad_decision_id :: uuid
  ad_task_run_id :: uuid
  ad_policy_id :: uuid
  ad_policy_version :: string
  ad_decision :: AcceptanceDecisionType
  ad_criterion_evaluations :: "CriterionEvaluation list"
  ad_required_passed :: bool
  ad_optional_score :: pyfloat
  ad_reason :: string
  ad_created_at :: timestamp

definition acceptance_decision_error :: "AcceptanceDecision \<Rightarrow> acceptance_fault option" where
  "acceptance_decision_error d = first_error
     [(\<not> unit_interval (ad_optional_score d), OptionalScoreOutOfRange),
      (\<not> distinct (map ce_criterion_id (ad_criterion_evaluations d)), EvaluationsNotUnique),
      (ad_decision d = DecisionAccepted \<and>
       (\<not> ad_required_passed d \<or>
        (\<exists>i \<in> set (ad_criterion_evaluations d). ce_required i \<and> ce_outcome i = VError)),
       AcceptedWithoutEvidence)]"

section \<open>Policy evaluation\<close>

subsection \<open>Versions\<close>

text \<open>\<open>str.split(".")\<close> and \<open>int()\<close> on ASCII text: blanks around the number, one sign, digits with
  single underscores between them.\<close>

definition is_digit :: "char \<Rightarrow> bool" where
  "is_digit c \<longleftrightarrow> c \<in> set ''0123456789''"

fun parse_digits :: "int \<Rightarrow> string \<Rightarrow> int option" where
  "parse_digits n [] = Some n"
| "parse_digits n (c # cs) =
     (if is_digit c then parse_digits (10 * n + (of_char c - 48)) cs
      else if c = CHR ''_'' then
        (case cs of [] \<Rightarrow> None
         | d # ds \<Rightarrow> if is_digit d then parse_digits (10 * n + (of_char d - 48)) ds else None)
      else None)"

definition parse_nat :: "string \<Rightarrow> int option" where
  "parse_nat s = (case s of [] \<Rightarrow> None | c # cs \<Rightarrow> if is_digit c then parse_digits 0 s else None)"

definition py_int :: "string \<Rightarrow> int option" where
  "py_int s = (case py_strip s of
      [] \<Rightarrow> None
    | c # cs \<Rightarrow> if c = CHR ''-'' then map_option uminus (parse_nat cs)
                else if c = CHR ''+'' then parse_nat cs
                else parse_nat (c # cs))"

fun opt_sequence :: "'a option list \<Rightarrow> 'a list option" where
  "opt_sequence [] = Some []"
| "opt_sequence (None # xs) = None"
| "opt_sequence (Some x # xs) = map_option ((#) x) (opt_sequence xs)"

definition version_parts :: "string \<Rightarrow> int list" where
  "version_parts value =
     (case opt_sequence (map py_int (split_on CHR ''.'' value)) of None \<Rightarrow> [] | Some ns \<Rightarrow> ns)"

definition version_at_least :: "string \<Rightarrow> string \<Rightarrow> bool" where
  "version_at_least actual minimum \<longleftrightarrow>
     version_parts actual \<noteq> [] \<and> version_parts minimum \<le> version_parts actual"

subsection \<open>Classifying one requirement\<close>

definition effective_score :: "VerifierResult \<Rightarrow> pyfloat" where
  "effective_score r = (case vr_score r of Some s \<Rightarrow> s
     | None \<Rightarrow> if vr_status r = VPassed then 1 else 0)"

definition classify ::
  "VerifierRequirement \<Rightarrow> VerifierResult list \<Rightarrow> VerifierStatus \<times> pyfloat option \<times> string" where
  "classify requirement matching =
     (if matching = [] then (VUnverifiable, None, ''required verifier result is missing'')
      else if \<exists>i \<in> set matching. vr_status i = VError
      then (VError, None, ''verifier infrastructure reported an error'')
      else if \<exists>i \<in> set matching. vr_status i = VUnverifiable
      then (VUnverifiable, None, ''verifier could not evaluate the subject'')
      else let score = Min (set (map effective_score matching)) in
        if (\<forall>i \<in> set matching. vr_status i \<in> set (rq_allowed_outcomes requirement)) \<and>
           rq_minimum_score requirement \<le> score
        then (VPassed, Some score, ''verifier requirement passed'')
        else (VFailed, Some score, ''verifier requirement did not pass''))"

definition matching_results :: "VerifierRequirement \<Rightarrow> VerifierResult list \<Rightarrow> VerifierResult list" where
  "matching_results requirement results = filter (\<lambda>i. vr_verifier_id i = rq_verifier_id requirement \<and>
     version_at_least (vr_verifier_version i) (rq_minimum_version requirement)) results"

definition evaluate_criterion ::
  "VerifierRequirement \<Rightarrow> VerifierResult list \<Rightarrow> uuid \<Rightarrow> CriterionEvaluation" where
  "evaluate_criterion requirement matching criterion_id =
     (case classify requirement matching of (outcome, score, reason) \<Rightarrow>
      \<lparr>ce_criterion_id = criterion_id, ce_verifier_requirement_id = rq_requirement_id requirement,
       ce_result_ids = map vr_verifier_result_id matching, ce_outcome = outcome, ce_score = score,
       ce_required = rq_required requirement, ce_reason = reason\<rparr>)"

subsection \<open>The whole policy\<close>

record acceptance_service =
  as_repairable :: "string set"
  as_clarification :: "string set"

text \<open>The requirements with their criteria, in the order of the two nested loops.\<close>

definition evaluation_order :: "AcceptancePolicy \<Rightarrow> (VerifierRequirement \<times> uuid) list" where
  "evaluation_order p = concat (map (\<lambda>r. map (Pair r) (sort_key uuid_str (rq_criterion_ids r)))
     (sort_key (\<lambda>r. uuid_str (rq_requirement_id r)) (ap_requirements p)))"

definition finding_codes :: "VerifierResult list \<Rightarrow> string set" where
  "finding_codes results = set (map vf_code (concat (map vr_findings results)))"

definition optional_score ::
  "(VerifierRequirement \<times> CriterionEvaluation) list \<Rightarrow> pyfloat" where
  "optional_score evals =
     (let scored = filter (\<lambda>(r, e). \<not> rq_required r \<and> ce_score e \<noteq> None) evals;
          weighted = sum_list (map (\<lambda>(r, e). rq_weight r * the (ce_score e)) scored);
          weights = sum_list (map (\<lambda>(r, e). rq_weight r) scored)
      in if weights \<noteq> 0 then weighted / weights else 1)"

definition mk_decision ::
  "AcceptancePolicy \<Rightarrow> uuid \<Rightarrow> uuid \<Rightarrow> timestamp \<Rightarrow> CriterionEvaluation list \<Rightarrow>
   AcceptanceDecisionType \<Rightarrow> bool \<Rightarrow> pyfloat \<Rightarrow> string \<Rightarrow> acceptance_fault + AcceptanceDecision" where
  "mk_decision policy decision_id task_run_id now evaluations decision required_passed score reason =
     construct acceptance_decision_error
       \<lparr>ad_decision_id = decision_id, ad_task_run_id = task_run_id,
        ad_policy_id = ap_policy_id policy, ad_policy_version = ap_version policy,
        ad_decision = decision, ad_criterion_evaluations = evaluations,
        ad_required_passed = required_passed, ad_optional_score = score, ad_reason = reason,
        ad_created_at = now\<rparr>"

definition choose_decision ::
  "AcceptancePolicy \<Rightarrow> CriterionEvaluation list \<Rightarrow> pyfloat \<Rightarrow> bool \<Rightarrow> bool \<Rightarrow> bool \<Rightarrow>
   AcceptanceDecisionType \<times> bool \<times> string" where
  "choose_decision policy evaluations score repairable_failure clarification_needed
     repair_budget_remaining =
   (let required = filter ce_required evaluations;
        errors = filter (\<lambda>i. ce_outcome i = VError) required;
        unverifiable = filter (\<lambda>i. ce_outcome i = VUnverifiable) required;
        failed = filter (\<lambda>i. ce_outcome i \<notin> {VPassed, VPartial, VError, VUnverifiable}) required;
        partial_invalid = filter (\<lambda>i. ce_outcome i = VPartial \<and> \<not> ap_allow_partial policy) required;
        required_passed = (errors = [] \<and> unverifiable = [] \<and> failed = [] \<and> partial_invalid = [])
    in if errors \<noteq> [] \<and> ap_maximum_verifier_errors policy < int (length errors)
       then (DecisionVerificationError, required_passed, ''required verifier infrastructure failed'')
       else if unverifiable \<noteq> [] \<and>
               ap_maximum_unverifiable_required policy < int (length unverifiable)
       then (if clarification_needed
             then (DecisionNeedsClarification, required_passed, ''required semantic input is missing'')
             else (DecisionUnverifiable, required_passed, ''required verifier evidence is unavailable''))
       else if failed \<noteq> [] \<or> partial_invalid \<noteq> []
       then (if repairable_failure \<and> repair_budget_remaining
             then (DecisionNeedsRepair, required_passed,
                   ''required verification failed with a repairable finding'')
             else (DecisionRejected, required_passed, ''required verification failed''))
       else if score < ap_minimum_optional_score policy
       then (DecisionRejected, required_passed, ''optional verifier score is below policy minimum'')
       else (DecisionAccepted, required_passed,
             ''all required verifier evidence satisfies policy''))"

definition evaluate_policy ::
  "(AcceptancePolicy \<Rightarrow> string) \<Rightarrow> acceptance_service \<Rightarrow> uuid \<Rightarrow> timestamp \<Rightarrow>
   AcceptancePolicy \<Rightarrow> uuid \<Rightarrow> VerifierResult list \<Rightarrow> bool \<Rightarrow>
   acceptance_fault + AcceptanceDecision" where
  "evaluate_policy digest srv decision_id now policy task_run_id results repair_budget_remaining =
     bind_res (seal_policy digest policy) (\<lambda>_.
       if \<not> distinct (map vr_verifier_result_id results)
       then mk_decision policy decision_id task_run_id now [] DecisionVerificationError False 0
              ''duplicate verifier result detected''
       else let
         order = evaluation_order policy;
         evals = map (\<lambda>(r, c). (r, evaluate_criterion r (matching_results r results) c)) order;
         repairable_failure =
           (\<exists>(r, c) \<in> set order. finding_codes (matching_results r results) \<inter> as_repairable srv \<noteq> {});
         clarification_needed =
           (\<exists>(r, c) \<in> set order. finding_codes (matching_results r results) \<inter> as_clarification srv \<noteq> {});
         score = optional_score evals;
         (decision, required_passed, reason) = choose_decision policy (map snd evals) score
           repairable_failure clarification_needed repair_budget_remaining
       in mk_decision policy decision_id task_run_id now (map snd evals) decision required_passed
            score reason)"

definition resolve_requirements ::
  "AcceptancePolicy \<Rightarrow> uuid list \<Rightarrow> acceptance_fault + VerifierRequirement list" where
  "resolve_requirements policy criterion_ids =
     (let requested = set criterion_ids;
          resolved = filter (\<lambda>i. requested \<inter> set (rq_criterion_ids i) \<noteq> {}) (ap_requirements policy);
          covered = set (concat (map rq_criterion_ids resolved))
      in if requested - covered \<noteq> {} then Inl CriteriaNotMapped else Inr resolved)"

section \<open>What a decision means\<close>

lemma seal_policy_body: "seal_policy digest p = Inr q \<Longrightarrow> policy_body_error p = None"
  by (simp add: seal_policy_Inr)

lemma policy_body_requirement:
  "policy_body_error p = None \<Longrightarrow> r \<in> set (ap_requirements p) \<Longrightarrow> requirement_error r = None"
  by (auto simp: policy_body_error_def first_some_None_iff)

lemma policy_bodyD:
  assumes "policy_body_error p = None"
  shows "distinct (map rq_requirement_id (ap_requirements p))"
    and "distinct (concat (map rq_criterion_ids (ap_requirements p)))"
    and "unit_interval (ap_minimum_optional_score p)"
  using assms
  by (simp_all add: policy_body_error_def first_some_None_iff split: if_splits)

lemma policy_weight_pos:
  "policy_body_error p = None \<Longrightarrow> r \<in> set (ap_requirements p) \<Longrightarrow> 0 < rq_weight r"
  using policy_body_requirement [of p r] by (simp add: requirement_error_def split: if_splits)

subsection \<open>Each mapped criterion is evaluated exactly once\<close>

lemma set_evaluation_order:
  "set (evaluation_order p) = {(r, c). r \<in> set (ap_requirements p) \<and> c \<in> set (rq_criterion_ids r)}"
  by (auto simp: evaluation_order_def)

lemma mset_concat_sorted:
  "mset (concat (map (\<lambda>r. sort_key k (f r)) (sort_key h rs))) = mset (concat (map f rs))"
proof -
  have "(\<Sum>x\<leftarrow>sort_key h rs. mset (f x)) = (\<Sum>x\<leftarrow>rs. mset (f x))"
    unfolding sum_mset_sum_list [symmetric] mset_map mset_sort by simp
  then show ?thesis by (simp add: mset_concat comp_def)
qed

lemma map_snd_evaluation_order:
  "map snd (evaluation_order p) =
     concat (map (\<lambda>r. sort_key uuid_str (rq_criterion_ids r))
       (sort_key (\<lambda>r. uuid_str (rq_requirement_id r)) (ap_requirements p)))"
  by (simp add: evaluation_order_def map_concat comp_def)

lemma distinct_evaluation_order:
  assumes "policy_body_error p = None"
  shows "distinct (map snd (evaluation_order p))"
  using policy_bodyD(2) [OF assms] mset_concat_sorted
  unfolding map_snd_evaluation_order by (metis mset_eq_imp_distinct_iff)

subsection \<open>Classification\<close>

lemma classify_passed_iff:
  "fst (classify r ms) = VPassed \<longleftrightarrow> ms \<noteq> [] \<and>
     (\<forall>i \<in> set ms. vr_status i \<noteq> VError \<and> vr_status i \<noteq> VUnverifiable \<and>
       vr_status i \<in> set (rq_allowed_outcomes r) \<and> rq_minimum_score r \<le> effective_score i)"
  by (cases "ms = []") (auto simp: classify_def Let_def)

lemma classify_outcomes: "fst (classify r ms) \<in> {VPassed, VFailed, VUnverifiable, VError}"
  by (simp add: classify_def Let_def)

lemma classify_score_range:
  assumes "fst (snd (classify r ms)) = Some s"
    and "\<forall>i \<in> set ms. opt_unit_interval (vr_score i)"
  shows "unit_interval s"
proof -
  from assms(1) have ne: "ms \<noteq> []" and s: "s = Min (set (map effective_score ms))"
    by (auto simp: classify_def Let_def split: if_splits)
  have "s \<in> set (map effective_score ms)"
    unfolding s using ne by (intro Min_in) auto
  then obtain i where "i \<in> set ms" "s = effective_score i" by auto
  with assms(2) show ?thesis
    by (auto simp: effective_score_def opt_unit_interval_def unit_interval_def split: option.splits)
qed

text \<open>The classification does not depend on the order in which the results arrive.\<close>

lemma classify_set: "set ms = set ms' \<Longrightarrow> classify r ms = classify r ms'"
  by (cases "ms = []"; cases "ms' = []") (auto simp: classify_def)

lemma evaluate_criterion_fields [simp]:
  "ce_criterion_id (evaluate_criterion r ms c) = c"
  "ce_required (evaluate_criterion r ms c) = rq_required r"
  "ce_outcome (evaluate_criterion r ms c) = fst (classify r ms)"
  "ce_score (evaluate_criterion r ms c) = fst (snd (classify r ms))"
  by (simp_all add: evaluate_criterion_def split: prod.splits)

subsection \<open>The optional score\<close>

lemma sum_list_pos_weights:
  "(\<forall>x \<in> set xs. 0 < w x) \<Longrightarrow> 0 \<le> sum_list (map w xs)" for w :: "'a \<Rightarrow> pyfloat"
  by (induction xs) auto

lemma weighted_bounds:
  "(\<forall>x \<in> set xs. 0 < w x \<and> 0 \<le> s x \<and> s x \<le> 1) \<Longrightarrow>
   0 \<le> sum_list (map (\<lambda>x. w x * s x) xs) \<and>
   sum_list (map (\<lambda>x. w x * s x) xs) \<le> sum_list (map w xs)" for w :: "'a \<Rightarrow> pyfloat"
proof (induction xs)
  case (Cons x xs)
  moreover from Cons.prems have "0 \<le> w x * s x" "w x * s x \<le> w x * 1"
    by (auto intro!: mult_left_mono)
  ultimately show ?case by fastforce
qed simp

lemma optional_score_range:
  assumes "\<forall>(r, e) \<in> set evals. 0 < rq_weight r \<and> opt_unit_interval (ce_score e)"
  shows "unit_interval (optional_score evals)"
proof -
  define xs where "xs = filter (\<lambda>(r, e). \<not> rq_required r \<and> ce_score e \<noteq> None) evals"
  define w where "w = (\<lambda>x :: VerifierRequirement \<times> CriterionEvaluation. rq_weight (fst x))"
  define s where "s = (\<lambda>x :: VerifierRequirement \<times> CriterionEvaluation. the (ce_score (snd x)))"
  have "\<forall>x \<in> set xs. 0 < w x \<and> 0 \<le> s x \<and> s x \<le> 1"
    using assms
    by (auto simp: xs_def w_def s_def opt_unit_interval_def unit_interval_def split: option.splits)
  from weighted_bounds [OF this]
  have b: "0 \<le> sum_list (map (\<lambda>x. w x * s x) xs)"
    "sum_list (map (\<lambda>x. w x * s x) xs) \<le> sum_list (map w xs)" by auto
  have "optional_score evals =
    (if sum_list (map w xs) \<noteq> 0 then sum_list (map (\<lambda>x. w x * s x) xs) / sum_list (map w xs) else 1)"
    by (simp add: optional_score_def Let_def xs_def w_def s_def split_def)
  with b show ?thesis
    by (auto simp: unit_interval_def divide_simps)
qed

subsection \<open>Choosing the decision\<close>

definition required_evidence_passes :: "AcceptancePolicy \<Rightarrow> VerifierResult list \<Rightarrow> bool" where
  "required_evidence_passes policy results \<longleftrightarrow>
     (\<forall>r \<in> set (ap_requirements policy). rq_required r \<and> rq_criterion_ids r \<noteq> [] \<longrightarrow>
        fst (classify r (matching_results r results)) = VPassed)"

definition policy_evaluations ::
  "AcceptancePolicy \<Rightarrow> VerifierResult list \<Rightarrow> (VerifierRequirement \<times> CriterionEvaluation) list" where
  "policy_evaluations policy results = map (\<lambda>(r, c).
     (r, evaluate_criterion r (matching_results r results) c)) (evaluation_order policy)"

lemma evaluations_criteria:
  "map ce_criterion_id (map snd (policy_evaluations p results)) = map snd (evaluation_order p)"
  by (simp add: policy_evaluations_def comp_def split_def)

text \<open>The four groups of required evaluations the decision looks at.\<close>

definition outcomes_of :: "CriterionEvaluation list \<Rightarrow> VerifierStatus set \<Rightarrow> CriterionEvaluation list" where
  "outcomes_of es S = filter (\<lambda>i. ce_outcome i \<in> S) (filter ce_required es)"

lemma choose_decision_eq:
  assumes "\<forall>i \<in> set es. ce_outcome i \<noteq> VPartial"
  shows "choose_decision p es score rf cn rb =
    (let e = outcomes_of es {VError}; u = outcomes_of es {VUnverifiable}; f = outcomes_of es {VFailed};
         ok = (e = [] \<and> u = [] \<and> f = []) in
     if e \<noteq> [] \<and> ap_maximum_verifier_errors p < int (length e)
     then (DecisionVerificationError, ok, ''required verifier infrastructure failed'')
     else if u \<noteq> [] \<and> ap_maximum_unverifiable_required p < int (length u)
     then (if cn then (DecisionNeedsClarification, ok, ''required semantic input is missing'')
           else (DecisionUnverifiable, ok, ''required verifier evidence is unavailable''))
     else if f \<noteq> []
     then (if rf \<and> rb
           then (DecisionNeedsRepair, ok, ''required verification failed with a repairable finding'')
           else (DecisionRejected, ok, ''required verification failed''))
     else if score < ap_minimum_optional_score p
     then (DecisionRejected, ok, ''optional verifier score is below policy minimum'')
     else (DecisionAccepted, ok, ''all required verifier evidence satisfies policy''))"
proof -
  have partial: "filter (\<lambda>i. ce_outcome i = VPartial \<and> \<not> ap_allow_partial p) (filter ce_required es) = []"
    using assms by (auto simp: filter_empty_conv)
  have failed: "filter (\<lambda>i. ce_outcome i \<notin> {VPassed, VPartial, VError, VUnverifiable}) (filter ce_required es)
      = outcomes_of es {VFailed}"
    unfolding outcomes_of_def
    by (rule filter_cong [OF refl], rename_tac i, case_tac "ce_outcome i") simp_all
  have err: "filter (\<lambda>i. ce_outcome i = VError) (filter ce_required es) = outcomes_of es {VError}"
    and unv: "filter (\<lambda>i. ce_outcome i = VUnverifiable) (filter ce_required es) = outcomes_of es {VUnverifiable}"
    by (simp_all add: outcomes_of_def)
  show ?thesis
    unfolding choose_decision_def Let_def partial failed err unv by simp
qed

lemma choose_accepted:
  assumes "\<forall>i \<in> set es. ce_outcome i \<noteq> VPartial"
  shows "fst (choose_decision p es score rf cn rb) = DecisionAccepted \<longleftrightarrow>
     (outcomes_of es {VError} = [] \<or> int (length (outcomes_of es {VError})) \<le> ap_maximum_verifier_errors p) \<and>
     (outcomes_of es {VUnverifiable} = [] \<or>
      int (length (outcomes_of es {VUnverifiable})) \<le> ap_maximum_unverifiable_required p) \<and>
     outcomes_of es {VFailed} = [] \<and> ap_minimum_optional_score p \<le> score"
  unfolding choose_decision_eq [OF assms] Let_def
  by (simp add: not_le [symmetric] split: if_split)

lemma choose_required_passed:
  assumes "\<forall>i \<in> set es. ce_outcome i \<noteq> VPartial"
  shows "fst (snd (choose_decision p es score rf cn rb)) \<longleftrightarrow>
     outcomes_of es {VError} = [] \<and> outcomes_of es {VUnverifiable} = [] \<and> outcomes_of es {VFailed} = []"
  unfolding choose_decision_eq [OF assms] Let_def by (simp split: if_split)

lemma outcomes_of_all_passed:
  assumes "\<forall>i \<in> set es. ce_outcome i \<noteq> VPartial"
  shows "outcomes_of es {VError} = [] \<and> outcomes_of es {VUnverifiable} = [] \<and> outcomes_of es {VFailed} = []
    \<longleftrightarrow> (\<forall>i \<in> set es. ce_required i \<longrightarrow> ce_outcome i = VPassed)"
proof -
  have "i \<in> set es \<Longrightarrow> ce_outcome i \<noteq> VPassed \<longleftrightarrow> ce_outcome i \<in> {VError, VUnverifiable, VFailed}" for i
    using assms by (cases "ce_outcome i") auto
  then show ?thesis unfolding outcomes_of_def filter_empty_conv by auto
qed

subsection \<open>The decision of a policy\<close>

lemma policy_evaluations_outcome:
  "\<forall>i \<in> set (map snd (policy_evaluations p results)). ce_outcome i \<noteq> VPartial"
proof -
  have "fst (classify r ms) \<noteq> VPartial" for r ms
    using classify_outcomes [of r ms] by auto
  then show ?thesis by (auto simp: policy_evaluations_def)
qed

lemma not_Nil_iff_member: "xs \<noteq> [] \<longleftrightarrow> (\<exists>x. x \<in> set xs)"
  by (cases xs) auto

lemma required_evidence_passes_iff:
  assumes "policy_body_error p = None"
  shows "required_evidence_passes p results \<longleftrightarrow>
    (\<forall>i \<in> set (map snd (policy_evaluations p results)). ce_required i \<longrightarrow> ce_outcome i = VPassed)"
    (is "_ \<longleftrightarrow> ?rhs")
proof -
  have "?rhs \<longleftrightarrow> (\<forall>(r, c) \<in> set (evaluation_order p).
      rq_required r \<longrightarrow> fst (classify r (matching_results r results)) = VPassed)"
    by (auto simp: policy_evaluations_def)
  also have "\<dots> \<longleftrightarrow> required_evidence_passes p results"
    unfolding required_evidence_passes_def set_evaluation_order
    by (simp add: not_Nil_iff_member) blast
  finally show ?thesis ..
qed

definition policy_choice ::
  "acceptance_service \<Rightarrow> AcceptancePolicy \<Rightarrow> VerifierResult list \<Rightarrow> bool \<Rightarrow>
   AcceptanceDecisionType \<times> bool \<times> string" where
  "policy_choice srv policy results budget =
     choose_decision policy (map snd (policy_evaluations policy results))
       (optional_score (policy_evaluations policy results))
       (\<exists>(r, c) \<in> set (evaluation_order policy).
          finding_codes (matching_results r results) \<inter> as_repairable srv \<noteq> {})
       (\<exists>(r, c) \<in> set (evaluation_order policy).
          finding_codes (matching_results r results) \<inter> as_clarification srv \<noteq> {}) budget"

lemma evaluate_policy_eq:
  assumes "seal_policy digest p = Inr q" "distinct (map vr_verifier_result_id results)"
  shows "evaluate_policy digest srv did now p run results budget =
    mk_decision p did run now (map snd (policy_evaluations p results))
      (fst (policy_choice srv p results budget)) (fst (snd (policy_choice srv p results budget)))
      (optional_score (policy_evaluations p results))
      (snd (snd (policy_choice srv p results budget)))"
  using assms
  by (simp add: evaluate_policy_def Let_def policy_choice_def policy_evaluations_def split_def)

lemma verifier_result_score: "verifier_result_error r = None \<Longrightarrow> opt_unit_interval (vr_score r)"
  by (simp add: verifier_result_error_def split: option.splits if_splits)

lemma optional_score_policy:
  assumes "policy_body_error p = None" "\<forall>r \<in> set results. verifier_result_error r = None"
  shows "unit_interval (optional_score (policy_evaluations p results))"
proof (rule optional_score_range, clarify)
  fix r e assume "(r, e) \<in> set (policy_evaluations p results)"
  then obtain c where r: "r \<in> set (ap_requirements p)"
    and e: "e = evaluate_criterion r (matching_results r results) c"
    by (auto simp: policy_evaluations_def set_evaluation_order)
  have scores: "\<forall>i \<in> set (matching_results r results). opt_unit_interval (vr_score i)"
    using assms(2) verifier_result_score by (simp add: matching_results_def)
  have "opt_unit_interval (ce_score e)"
    using classify_score_range [OF _ scores, of r]
    unfolding e evaluate_criterion_fields opt_unit_interval_def by (simp split: option.split)
  with policy_weight_pos [OF assms(1) r]
  show "0 < rq_weight r \<and> opt_unit_interval (ce_score e)" ..
qed

text \<open>With valid results, the only exception the evaluation can end in is the decision contract's
  refusal of an acceptance whose evidence is incomplete.\<close>

lemma evaluate_policy_outcome:
  assumes seal: "seal_policy digest p = Inr q"
    and ids: "distinct (map vr_verifier_result_id results)"
    and valid: "\<forall>r \<in> set results. verifier_result_error r = None"
  shows "(\<exists>d. evaluate_policy digest srv did now p run results budget = Inr d \<and>
      ad_decision d = fst (policy_choice srv p results budget)) \<or>
    evaluate_policy digest srv did now p run results budget = Inl AcceptedWithoutEvidence \<and>
      fst (policy_choice srv p results budget) = DecisionAccepted \<and>
      \<not> required_evidence_passes p results"
proof -
  note body = seal_policy_body [OF seal]
  note np = policy_evaluations_outcome [of p results]
  have dist: "distinct (map ce_criterion_id (map snd (policy_evaluations p results)))"
    unfolding evaluations_criteria by (rule distinct_evaluation_order [OF body])
  have passed: "fst (snd (policy_choice srv p results budget)) \<longleftrightarrow> required_evidence_passes p results"
    unfolding policy_choice_def choose_required_passed [OF np] outcomes_of_all_passed [OF np]
      required_evidence_passes_iff [OF body] ..
  have no_err: "required_evidence_passes p results \<Longrightarrow>
      \<not> (\<exists>i \<in> set (map snd (policy_evaluations p results)). ce_required i \<and> ce_outcome i = VError)"
    unfolding required_evidence_passes_iff [OF body] by auto
  show ?thesis
    unfolding evaluate_policy_eq [OF seal ids] mk_decision_def construct_def acceptance_decision_error_def
    using optional_score_policy [OF body valid] dist passed no_err
    by (cases "required_evidence_passes p results") (simp_all del: map_map)
qed

lemma evaluate_policy_Inr_choice:
  assumes "evaluate_policy digest srv did now p run results budget = Inr d"
    and "ad_decision d = DecisionAccepted"
  shows "distinct (map vr_verifier_result_id results)"
    and "policy_body_error p = None"
    and "fst (policy_choice srv p results budget) = DecisionAccepted"
    and "fst (snd (policy_choice srv p results budget))"
    and "ad_criterion_evaluations d = map snd (policy_evaluations p results)"
proof -
  obtain q where seal: "seal_policy digest p = Inr q"
    using assms(1) by (cases "seal_policy digest p") (simp_all add: evaluate_policy_def)
  show ids: "distinct (map vr_verifier_result_id results)"
    using assms seal by (rule_tac ccontr) (auto simp: evaluate_policy_def mk_decision_def)
  show "policy_body_error p = None" by (rule seal_policy_body [OF seal])
  show "fst (policy_choice srv p results budget) = DecisionAccepted"
    and "fst (snd (policy_choice srv p results budget))"
    and "ad_criterion_evaluations d = map snd (policy_evaluations p results)"
    using assms unfolding evaluate_policy_eq [OF seal ids] mk_decision_def
    by (auto simp: acceptance_decision_error_def split: if_splits)
qed

lemma zero_tolerance_accepted:
  assumes "policy_body_error p = None"
    and "ap_maximum_verifier_errors p = 0" "ap_maximum_unverifiable_required p = 0"
  shows "fst (policy_choice srv p results budget) = DecisionAccepted \<longleftrightarrow>
    required_evidence_passes p results \<and>
    ap_minimum_optional_score p \<le> optional_score (policy_evaluations p results)"
proof -
  note np = policy_evaluations_outcome [of p results]
  show ?thesis
    unfolding policy_choice_def choose_accepted [OF np] assms(2,3)
      required_evidence_passes_iff [OF assms(1)] outcomes_of_all_passed [OF np, symmetric]
    by auto
qed

subsection \<open>The order of the results does not matter\<close>

lemma matching_results_set:
  "set results = set results' \<Longrightarrow> set (matching_results r results) = set (matching_results r results')"
  by (auto simp: matching_results_def)

lemma finding_codes_set: "set ms = set ms' \<Longrightarrow> finding_codes ms = finding_codes ms'"
  by (simp add: finding_codes_def)

subsection \<open>Evidence behind an acceptance\<close>

lemma accepted_evidence:
  assumes accepted: "evaluate_policy digest srv did now p run results budget = Inr d"
      "ad_decision d = DecisionAccepted"
    and r: "r \<in> set (ap_requirements p)" "rq_required r"
  shows "matching_results r results \<noteq> [] \<and>
    {i \<in> set (matching_results r results). vr_status i \<in> {VError, VUnverifiable} \<or>
       vr_status i \<notin> set (rq_allowed_outcomes r) \<or> effective_score i < rq_minimum_score r} = {}"
proof -
  note choice = evaluate_policy_Inr_choice [OF accepted]
  note np = policy_evaluations_outcome [of p results]
  from choice(4) have "required_evidence_passes p results"
    unfolding policy_choice_def choose_required_passed [OF np] outcomes_of_all_passed [OF np]
      required_evidence_passes_iff [OF choice(2)] .
  moreover have "rq_criterion_ids r \<noteq> []"
    using policy_body_requirement [OF choice(2) r(1)] by (auto simp: requirement_error_def split: if_splits)
  ultimately have "fst (classify r (matching_results r results)) = VPassed"
    using r by (auto simp: required_evidence_passes_def)
  then show ?thesis unfolding classify_passed_iff by (auto simp: not_le)
qed

section \<open>Properties\<close>

text \<open>C14. Acceptance is sound, whatever tolerances the policy sets: if the evaluation returns an
  accepting decision, every required verifier requirement has evidence, and all of that evidence is
  conclusive, of an allowed outcome and of at least the minimum score.\<close>

theorem accepted_means_evidence:
  assumes accepted: "evaluate_policy digest srv did now p run results budget = Inr d"
      "ad_decision d = DecisionAccepted"
    and r: "r \<in> set (ap_requirements p)" "rq_required r"
  shows "matching_results r results \<noteq> [] \<and>
    {i \<in> set (matching_results r results). vr_status i \<in> {VError, VUnverifiable} \<or>
       vr_status i \<notin> set (rq_allowed_outcomes r) \<or> effective_score i < rq_minimum_score r} = {}"
  by (rule accepted_evidence [OF assms])

text \<open>With the default tolerances of zero the evaluation never raises on valid results, and it
  accepts exactly when all required evidence passes and the optional score reaches the minimum.\<close>

theorem zero_tolerance_evaluation_exact:
  assumes "seal_policy digest p = Inr q" "distinct (map vr_verifier_result_id results)"
    and "\<forall>r \<in> set results. verifier_result_error r = None"
    and "ap_maximum_verifier_errors p = 0" "ap_maximum_unverifiable_required p = 0"
  shows "\<exists>d. evaluate_policy digest srv did now p run results budget = Inr d \<and>
    (ad_decision d = DecisionAccepted \<longleftrightarrow> required_evidence_passes p results \<and>
       ap_minimum_optional_score p \<le> optional_score (policy_evaluations p results))"
proof -
  note acc = zero_tolerance_accepted [OF seal_policy_body [OF assms(1)] assms(4,5), of srv results budget]
  from evaluate_policy_outcome [OF assms(1-3), of srv did now run budget] acc
  obtain d where "evaluate_policy digest srv did now p run results budget = Inr d"
    "ad_decision d = fst (policy_choice srv p results budget)" by blast
  with acc show ?thesis by auto
qed

text \<open>Each mapped criterion is evaluated exactly once: the decision's evaluations, when the
  verifier results are distinct, are a permutation of the policy's criteria.\<close>

theorem evaluations_cover_criteria:
  assumes "evaluate_policy digest srv did now p run results budget = Inr d"
    and "distinct (map vr_verifier_result_id results)"
  shows "mset (map ce_criterion_id (ad_criterion_evaluations d)) =
      mset (concat (map rq_criterion_ids (ap_requirements p))) \<and>
    distinct (map ce_criterion_id (ad_criterion_evaluations d))"
proof -
  obtain q where seal: "seal_policy digest p = Inr q"
    using assms(1) by (cases "seal_policy digest p") (simp_all add: evaluate_policy_def)
  have ev: "ad_criterion_evaluations d = map snd (policy_evaluations p results)"
    using assms(1) unfolding evaluate_policy_eq [OF seal assms(2)] mk_decision_def by auto
  show ?thesis
    unfolding ev evaluations_criteria using distinct_evaluation_order [OF seal_policy_body [OF seal]]
    by (simp add: map_snd_evaluation_order mset_concat_sorted)
qed

subsection \<open>Sample evidence\<close>

definition sample_requirement :: VerifierRequirement where
  "sample_requirement = \<lparr>rq_requirement_id = 1, rq_verifier_id = ''schema'',
     rq_minimum_version = ''1.2'', rq_criterion_ids = [11], rq_required = True, rq_weight = 1,
     rq_minimum_score = 1, rq_allowed_outcomes = [VPassed]\<rparr>"

definition sample_policy :: "int \<Rightarrow> AcceptancePolicy" where
  "sample_policy tolerance = \<lparr>ap_policy_id = 3, ap_version = ''1'', ap_name = ''p'',
     ap_description = ''d'', ap_requirements = [sample_requirement], ap_minimum_optional_score = 0,
     ap_allow_partial = False, ap_maximum_verifier_errors = tolerance,
     ap_maximum_unverifiable_required = 0, ap_created_at = 0, ap_policy_hash = ''''\<rparr>"

definition sample_result :: "VerifierStatus \<Rightarrow> VerifierResult" where
  "sample_result status = \<lparr>vr_verifier_result_id = 21, vr_verifier_id = ''schema'',
     vr_verifier_version = ''1.10'',
     vr_subject = \<lparr>vs_subject_type = ''step'', vs_subject_id = Some ''s'', vs_artifact_id = None\<rparr>,
     vr_status = status, vr_score = None, vr_confidence = None, vr_findings = [],
     vr_evidence_artifacts = [], vr_started_at = 0, vr_finished_at = 1,
     vr_error = (if status = VError then Some (mk_error_info ''e'' ''m'') else None)\<rparr>"

definition sample_service :: acceptance_service where
  "sample_service = \<lparr>as_repairable = {}, as_clarification = {}\<rparr>"

lemma sample_policy_sealed: "seal_policy (\<lambda>_. ''h'') (sample_policy 2) = Inr (sample_policy 2\<lparr>ap_policy_hash := ''h''\<rparr>)"
    "seal_policy (\<lambda>_. ''h'') (sample_policy 0) = Inr (sample_policy 0\<lparr>ap_policy_hash := ''h''\<rparr>)"
  unfolding seal_policy_Inr by (simp_all, (code_simp | simp add: sample_policy_def)+)

lemma sample_result_valid: "verifier_result_error (sample_result VPassed) = None"
    "verifier_result_error (sample_result VError) = None"
  by code_simp+

lemma sample_matching: "matching_results sample_requirement [sample_result s] = [sample_result s]"
proof -
  have "version_at_least ''1.10'' ''1.2''" by code_simp
  then show ?thesis by (simp add: matching_results_def sample_result_def sample_requirement_def)
qed

lemma sample_policy_fields [simp]: "ap_requirements (sample_policy n) = [sample_requirement]"
    "rq_required sample_requirement" "rq_criterion_ids sample_requirement = [11]"
    "ap_maximum_verifier_errors (sample_policy n) = n"
    "ap_maximum_unverifiable_required (sample_policy n) = 0"
    "ap_minimum_optional_score (sample_policy n) = 0"
  by (simp_all add: sample_policy_def sample_requirement_def)

lemma sample_evidence_passes: "required_evidence_passes (sample_policy n) [sample_result VPassed]"
  by (simp add: required_evidence_passes_def sample_matching classify_passed_iff)
    (simp add: sample_result_def sample_requirement_def effective_score_def)

lemma sample_score_ok:
  "verifier_result_error r = None \<Longrightarrow> 0 \<le> optional_score (policy_evaluations (sample_policy 0) [r])"
  using optional_score_policy [OF seal_policy_body [OF sample_policy_sealed(2)], of "[r]"]
  by (simp add: unit_interval_def)

lemma zero_tolerance_evaluation_exact_witness:
  "\<exists>d. evaluate_policy (\<lambda>_. ''h'') sample_service 1 0 (sample_policy 0) 9 [sample_result VPassed] False = Inr d \<and>
     ad_decision d = DecisionAccepted"
  using zero_tolerance_evaluation_exact [OF sample_policy_sealed(2), of "[sample_result VPassed]"
      sample_service 1 0 9 False]
    sample_result_valid sample_evidence_passes [of 0] sample_score_ok [OF sample_result_valid(1)]
  by simp

lemma sample_accepted:
  "\<exists>d. evaluate_policy (\<lambda>_. ''h'') sample_service 1 0 (sample_policy 0) 9 [sample_result VPassed] False = Inr d \<and>
     ad_decision d = DecisionAccepted"
  using evaluate_policy_outcome [OF sample_policy_sealed(2), of "[sample_result VPassed]" sample_service 1 0 9 False]
    zero_tolerance_accepted [OF seal_policy_body [OF sample_policy_sealed(2)], of sample_service "[sample_result VPassed]" False]
    sample_result_valid sample_evidence_passes [of 0] sample_score_ok [OF sample_result_valid(1)]
  by auto

lemma accepted_means_evidence_witness:
  "matching_results sample_requirement [sample_result VPassed] \<noteq> []"
proof -
  from sample_accepted obtain d where
    "evaluate_policy (\<lambda>_. ''h'') sample_service 1 0 (sample_policy 0) 9 [sample_result VPassed] False = Inr d"
    "ad_decision d = DecisionAccepted" by blast
  from accepted_means_evidence [OF this, of sample_requirement] show ?thesis by simp
qed

lemma evaluations_cover_criteria_witness:
  "\<exists>d. evaluate_policy (\<lambda>_. ''h'') sample_service 1 0 (sample_policy 0) 9 [sample_result VPassed] False = Inr d \<and>
     length (ad_criterion_evaluations d) = 1"
proof -
  from sample_accepted obtain d where
    d: "evaluate_policy (\<lambda>_. ''h'') sample_service 1 0 (sample_policy 0) 9 [sample_result VPassed] False = Inr d"
    by blast
  from evaluations_cover_criteria [OF d] have "mset (map ce_criterion_id (ad_criterion_evaluations d)) = {#11#}"
    by simp
  then have "length (ad_criterion_evaluations d) = 1" by (metis length_map size_mset size_single)
  with d show ?thesis by blast
qed

text \<open>A tolerated verifier error cannot be accepted: when the policy's tolerances would accept
  although required evidence does not pass, the decision contract refuses the decision and the
  evaluation raises.\<close>

theorem tolerated_failure_raises:
  assumes "seal_policy digest p = Inr q" "distinct (map vr_verifier_result_id results)"
    and "\<forall>r \<in> set results. verifier_result_error r = None"
  shows "evaluate_policy digest srv did now p run results budget = Inl AcceptedWithoutEvidence \<longleftrightarrow>
    fst (policy_choice srv p results budget) = DecisionAccepted \<and> \<not> required_evidence_passes p results"
proof -
  note np = policy_evaluations_outcome [of p results]
  have passed: "fst (snd (policy_choice srv p results budget)) \<longleftrightarrow> required_evidence_passes p results"
    unfolding policy_choice_def choose_required_passed [OF np] outcomes_of_all_passed [OF np]
      required_evidence_passes_iff [OF seal_policy_body [OF assms(1)]] ..
  {
    fix d assume d: "evaluate_policy digest srv did now p run results budget = Inr d"
      "ad_decision d = fst (policy_choice srv p results budget)"
      "fst (policy_choice srv p results budget) = DecisionAccepted"
    then have "required_evidence_passes p results"
      using evaluate_policy_Inr_choice(4) [OF d(1)] passed by simp
  }
  then show ?thesis
    using evaluate_policy_outcome [OF assms, of srv did now run budget] by force
qed

lemma sample_error_tolerated:
  "fst (policy_choice sample_service (sample_policy 2) [sample_result VError] False) = DecisionAccepted \<and>
   \<not> required_evidence_passes (sample_policy 2) [sample_result VError]"
proof
  have bad: "fst (classify sample_requirement [sample_result VError]) = VError"
    by (simp add: classify_def sample_result_def)
  show "\<not> required_evidence_passes (sample_policy 2) [sample_result VError]"
    by (simp add: required_evidence_passes_def sample_matching bad)
  have order: "evaluation_order (sample_policy 2) = [(sample_requirement, 11)]"
    by (simp add: evaluation_order_def)
  have evs: "map snd (policy_evaluations (sample_policy 2) [sample_result VError]) =
      map (evaluate_criterion sample_requirement [sample_result VError]) [11]"
    by (simp add: policy_evaluations_def order sample_matching)
  have score: "0 \<le> optional_score (policy_evaluations (sample_policy 2) [sample_result VError])"
    using optional_score_policy [OF seal_policy_body [OF sample_policy_sealed(1)], of "[sample_result VError]"]
      sample_result_valid(2) by (simp add: unit_interval_def)
  show "fst (policy_choice sample_service (sample_policy 2) [sample_result VError] False) = DecisionAccepted"
    unfolding policy_choice_def choose_accepted [OF policy_evaluations_outcome]
    unfolding evs using score by (simp add: outcomes_of_def bad)
qed

lemma tolerated_failure_raises_witness:
  "evaluate_policy (\<lambda>_. ''h'') sample_service 1 0 (sample_policy 2) 9 [sample_result VError] False =
     Inl AcceptedWithoutEvidence"
  using tolerated_failure_raises [OF sample_policy_sealed(1), of "[sample_result VError]"
      sample_service 1 0 9 False] sample_result_valid(2) sample_error_tolerated
  by simp

end
