(* ===== verification/Verification_Run.thy ===== *)
theory Verification_Run
  imports Acceptance
begin

text \<open>
  Verification of a controller run: the structural acceptance check (\<open>verification/minimal.py\<close>,
  \<open>application/services/minimal_acceptance.py\<close>), the verification contracts of
  \<open>domain/verifiers.py\<close>, and the registry-backed verification of the acceptance criteria
  (\<open>application/services/controller_verification.py\<close>). \<open>jsonschema\<close>, Python's \<open>str\<close> of a JSON value
  and the verifier registry are parameters.
\<close>

section \<open>The structural check\<close>

datatype CriterionOutcome = OutPassed | OutFailed | OutUnverifiable

record MinimalCriterionResult =
  mr_criterion_id :: uuid
  mr_outcome :: CriterionOutcome
  mr_reason :: string
  mr_required :: bool

record MinimalAcceptanceDecision =
  md_accepted :: bool
  md_results :: "MinimalCriterionResult list"
  md_required_passed :: "uuid list"
  md_failed_criteria :: "uuid list"
  md_unverifiable_criteria :: "uuid list"
  md_decision_reason :: string
  md_created_at :: timestamp

datatype minimal_fault = BadMinimalField | AcceptanceNotEvidenceBased

definition required_failure :: "MinimalCriterionResult \<Rightarrow> bool" where
  "required_failure r \<longleftrightarrow> mr_required r \<and> mr_outcome r \<noteq> OutPassed"

definition minimal_decision_error :: "MinimalAcceptanceDecision \<Rightarrow> minimal_fault option" where
  "minimal_decision_error d = first_error
     [(\<not> non_empty_str (md_decision_reason d) \<or> \<not> list_all (\<lambda>r. non_empty_str (mr_reason r)) (md_results d),
       BadMinimalField),
      (md_accepted d = list_ex required_failure (md_results d), AcceptanceNotEvidenceBased)]"

text \<open>
  \<open>validate_schema\<close>: what \<open>jsonschema\<close> says of the schema and of the instance is the parameter; an
  invalid instance is found first only if the schema is valid.
\<close>

record schema_checker =
  sc_schema_ok :: "json \<Rightarrow> bool"
  sc_instance_ok :: "json \<Rightarrow> json \<Rightarrow> bool"

definition validate_schema :: "schema_checker \<Rightarrow> json \<Rightarrow> json \<Rightarrow> bool \<times> string" where
  "validate_schema sc instance schema =
     (if \<not> sc_schema_ok sc schema then (False, ''acceptance criterion contains an invalid JSON schema'')
      else if \<not> sc_instance_ok sc schema instance
      then (False, ''result does not satisfy the required JSON schema'')
      else (True, ''result satisfies the required JSON schema''))"

text \<open>What a run has produced: completed steps, successful tool calls, artifacts and outputs.\<close>

record run_evidence =
  re_completed :: "string set"
  re_tools :: "string set"
  re_artifacts :: "(string, bool) dict"
  re_outputs :: "(string, json) dict"

definition config_str :: "(json \<Rightarrow> string) \<Rightarrow> (string, json) dict \<Rightarrow> string \<Rightarrow> string" where
  "config_str py_str configuration key =
     (case dict_get configuration key of None \<Rightarrow> '''' | Some v \<Rightarrow> py_str v)"

definition dict_get_or :: "(string, 'v) dict \<Rightarrow> string \<Rightarrow> 'v \<Rightarrow> 'v" where
  "dict_get_or d k v = (case dict_get d k of None \<Rightarrow> v | Some x \<Rightarrow> x)"

definition evaluate_one ::
  "schema_checker \<Rightarrow> (json \<Rightarrow> string) \<Rightarrow> run_evidence \<Rightarrow> AcceptanceCriterion \<Rightarrow> MinimalCriterionResult" where
  "evaluate_one sc py_str ev c =
     (let configuration = ac_configuration c;
          present = (\<lambda>passed. (if passed then OutPassed else OutFailed,
             if passed then ''criterion evidence is present'' else ''criterion evidence is missing''));
          (outcome, reason) =
            (case ac_criterion_type c of
               CritStepCompleted \<Rightarrow> present (config_str py_str configuration ''step_id'' \<in> re_completed ev)
             | CritToolSucceeded \<Rightarrow> present (config_str py_str configuration ''tool_call_id'' \<in> re_tools ev)
             | CritArtifactExists \<Rightarrow> present
                 (dict_get_or (re_artifacts ev) (config_str py_str configuration ''artifact_id'') False)
             | CritSchema \<Rightarrow>
                 (case validate_schema sc
                    (dict_get_or (re_outputs ev) (config_str py_str configuration ''output_id'') JNull)
                    (dict_get_or configuration ''schema'' (JObj [])) of
                    (passed, why) \<Rightarrow> (if passed then OutPassed else OutFailed, why))
             | _ \<Rightarrow> (OutUnverifiable, ''criterion requires Sprint 7 verification or manual review''))
      in \<lparr>mr_criterion_id = ac_criterion_id c, mr_outcome = outcome, mr_reason = reason,
          mr_required = ac_required c\<rparr>)"

definition outcome_ids :: "(MinimalCriterionResult \<Rightarrow> bool) \<Rightarrow> MinimalCriterionResult list \<Rightarrow> uuid list" where
  "outcome_ids sel rs = map mr_criterion_id (filter sel rs)"

definition mk_minimal_decision ::
  "bool \<Rightarrow> MinimalCriterionResult list \<Rightarrow> string \<Rightarrow> timestamp \<Rightarrow> minimal_fault + MinimalAcceptanceDecision" where
  "mk_minimal_decision accepted results reason created_at =
     construct minimal_decision_error
       \<lparr>md_accepted = accepted, md_results = results,
        md_required_passed = outcome_ids (\<lambda>r. mr_required r \<and> mr_outcome r = OutPassed) results,
        md_failed_criteria = outcome_ids (\<lambda>r. mr_outcome r = OutFailed) results,
        md_unverifiable_criteria = outcome_ids (\<lambda>r. mr_outcome r = OutUnverifiable) results,
        md_decision_reason = reason, md_created_at = created_at\<rparr>"

definition minimal_evaluate ::
  "schema_checker \<Rightarrow> (json \<Rightarrow> string) \<Rightarrow> timestamp \<Rightarrow> AcceptanceCriterion list \<Rightarrow> run_evidence \<Rightarrow>
   minimal_fault + MinimalAcceptanceDecision" where
  "minimal_evaluate sc py_str now criteria ev =
     (let results = map (evaluate_one sc py_str ev) criteria;
          accepted = list_all (\<lambda>r. \<not> mr_required r \<or> mr_outcome r = OutPassed) results
      in mk_minimal_decision accepted results
           (if accepted then ''all required structural criteria passed''
            else ''one or more required structural criteria did not pass'') now)"

section \<open>Verification contracts\<close>

datatype VerificationExecutionStatus = VxPending | VxRunning | VxCompleted | VxFailed | VxTimedOut
  | VxCancelled | VxUnsupported | VxConfigurationError

definition verification_subject_types :: "string list" where
  "verification_subject_types =
     [''structured_value'', ''artifact'', ''workspace'', ''execution_plan'', ''execution_step'',
      ''model_response'', ''tool_result'', ''mathematical_expression'', ''logical_problem'',
      ''physical_quantity'', ''semantic_snapshot'', ''context_bundle'', ''skill_package'',
      ''skill_revision'', ''skill_execution'', ''skill_regression'', ''strategy_revision'',
      ''strategy_graph'', ''strategy_plan'', ''strategy_outcome'', ''strategy_statistics'']"

record VerificationSubject =
  vsub_subject_type :: string
  vsub_inline_value :: json
  vsub_artifact_refs :: "ArtifactRef list"
  vsub_workspace_path :: "string option"
  vsub_source_event_ids :: "uuid list"

datatype subject_fault = UnknownSubjectType | UnsafeWorkspacePath | NoSubjectSource
  | WorkspacePathOnOtherSubject | SubjectArtifactsNotUnique | SourceEventsNotUnique

text \<open>\<open>unsafe_path\<close> is the verdict of \<open>pathlib\<close>: absolute, or with a parent segment, on either system.\<close>

definition subject_error :: "(string \<Rightarrow> bool) \<Rightarrow> VerificationSubject \<Rightarrow> subject_fault option" where
  "subject_error unsafe_path s = first_error
     [(vsub_subject_type s \<notin> set verification_subject_types, UnknownSubjectType),
      (case vsub_workspace_path s of None \<Rightarrow> False | Some p \<Rightarrow> unsafe_path p, UnsafeWorkspacePath),
      (vsub_inline_value s = JNull \<and> vsub_artifact_refs s = [] \<and> vsub_workspace_path s = None,
       NoSubjectSource),
      (vsub_workspace_path s \<noteq> None \<and> vsub_subject_type s \<noteq> ''workspace'', WorkspacePathOnOtherSubject),
      (\<not> distinct (map af_artifact_id (vsub_artifact_refs s)), SubjectArtifactsNotUnique),
      (\<not> distinct (vsub_source_event_ids s), SourceEventsNotUnique)]"

record VerificationRequest =
  vq_verification_id :: uuid
  vq_task_run_id :: uuid
  vq_step_id :: "uuid option"
  vq_criterion_id :: uuid
  vq_verifier_id :: string
  vq_verifier_version :: string
  vq_subject :: VerificationSubject
  vq_configuration :: "(string, json) dict"
  vq_requested_at :: timestamp
  vq_correlation_id :: uuid
  vq_causation_event_id :: "uuid option"

record VerificationExecution =
  vx_verification_id :: uuid
  vx_verifier_id :: string
  vx_verifier_version :: string
  vx_status :: VerificationExecutionStatus
  vx_started_at :: "timestamp option"
  vx_finished_at :: "timestamp option"
  vx_result :: "VerifierResult option"
  vx_evidence_artifacts :: "ArtifactRef list"
  vx_configuration_hash :: string
  vx_error :: "ErrorInfo option"

datatype execution_fault = BadExecutionField | ExecutionFinishMismatch | CompletedWithoutResult
  | FailedWithoutError | TimedOutButPassed

definition execution_terminal :: "VerificationExecutionStatus \<Rightarrow> bool" where
  "execution_terminal s \<longleftrightarrow> s \<notin> {VxPending, VxRunning}"

definition execution_error :: "VerificationExecution \<Rightarrow> execution_fault option" where
  "execution_error x = first_error
     [(\<not> non_empty_str (vx_verifier_id x) \<or> \<not> non_empty_str (vx_verifier_version x) \<or>
       \<not> sha256_hex (vx_configuration_hash x), BadExecutionField),
      (execution_terminal (vx_status x) \<noteq> (vx_finished_at x \<noteq> None), ExecutionFinishMismatch),
      (vx_status x = VxCompleted \<and> vx_result x = None, CompletedWithoutResult),
      (vx_status x \<in> {VxFailed, VxConfigurationError} \<and> vx_error x = None, FailedWithoutError),
      (vx_status x = VxTimedOut \<and> (case vx_result x of None \<Rightarrow> False | Some r \<Rightarrow> vr_status r = VPassed),
       TimedOutButPassed)]"

section \<open>Verifying the criteria of a run\<close>

fun default_verifier :: "CriterionType \<Rightarrow> string option" where
  "default_verifier CritSchema = Some ''generic.json_schema''"
| "default_verifier CritExactMatch = Some ''generic.exact''"
| "default_verifier CritStepCompleted = Some ''generic.step_completed''"
| "default_verifier CritToolSucceeded = Some ''generic.tool_succeeded''"
| "default_verifier CritArtifactExists = Some ''generic.artifact_integrity''"
| "default_verifier _ = None"

definition criterion_verifier :: "AcceptanceCriterion \<Rightarrow> string" where
  "criterion_verifier c =
     (if str_truthy (ac_verifier_id c) then the (ac_verifier_id c)
      else case default_verifier (ac_criterion_type c) of
          None \<Rightarrow> ''generic.manual_unavailable'' | Some v \<Rightarrow> v)"

definition requirement_for :: "uuid \<Rightarrow> AcceptanceCriterion \<Rightarrow> VerifierRequirement" where
  "requirement_for requirement_id c =
     \<lparr>rq_requirement_id = requirement_id, rq_verifier_id = criterion_verifier c,
      rq_minimum_version = ''1'', rq_criterion_ids = [ac_criterion_id c],
      rq_required = ac_required c, rq_weight = ac_weight c, rq_minimum_score = 1,
      rq_allowed_outcomes = [VPassed]\<rparr>"

text \<open>An inline subject; constructing it validates it.\<close>

definition inline_subject :: "string \<Rightarrow> json \<Rightarrow> subject_fault + VerificationSubject" where
  "inline_subject subject_type v = construct (subject_error (\<lambda>_. False))
     \<lparr>vsub_subject_type = subject_type, vsub_inline_value = v, vsub_artifact_refs = [],
      vsub_workspace_path = None, vsub_source_event_ids = []\<rparr>"

definition subject_for ::
  "(json \<Rightarrow> string) \<Rightarrow> run_evidence \<Rightarrow> AcceptanceCriterion \<Rightarrow> subject_fault + VerificationSubject" where
  "subject_for py_str ev c =
     (let configuration = ac_configuration c in
      case ac_criterion_type c of
        CritStepCompleted \<Rightarrow> inline_subject ''execution_step''
          (JObj [(''completed'', JBool (config_str py_str configuration ''step_id'' \<in> re_completed ev))])
      | CritToolSucceeded \<Rightarrow> inline_subject ''tool_result''
          (JObj [(''succeeded'', JBool (config_str py_str configuration ''tool_call_id'' \<in> re_tools ev))])
      | CritArtifactExists \<Rightarrow> inline_subject ''structured_value''
          (JObj [(''exists'', JBool (dict_get_or (re_artifacts ev)
             (config_str py_str configuration ''artifact_id'') False))])
      | _ \<Rightarrow>
          (let subject_type = py_str (dict_get_or configuration ''subject_type'' (JStr ''structured_value''));
               output_id = config_str py_str configuration ''output_id'';
               value = dict_get_or (re_outputs ev) output_id
                 (dict_get_or configuration ''actual'' JNull)
           in inline_subject subject_type
                (if value = JNull
                 then JObj [(''subject_absent'', JBool True), (''output_id'', JStr output_id)]
                 else value)))"

text \<open>
  The verification service answers a request with an execution or raises: a verification error
  becomes an unverifiable result, any other exception (a subject over the input limit, a configuration
  that does not satisfy the verifier's schema) ends the verification. New identifiers and the clock are streams indexed by the position
  of the criterion.
\<close>

datatype verifier_reply = ReplyExecution VerificationExecution | ReplyError | ReplyRaises string

record verify_env =
  ve_requirement_id :: "nat \<Rightarrow> uuid"
  ve_verification_id :: "nat \<Rightarrow> uuid"
  ve_result_id :: "nat \<Rightarrow> uuid"
  ve_now :: "nat \<Rightarrow> timestamp"
  ve_policy_id :: uuid
  ve_decision_id :: uuid
  ve_execute :: "nat \<Rightarrow> VerificationRequest \<Rightarrow> verifier_reply"
  ve_digest :: "AcceptancePolicy \<Rightarrow> string"
  ve_service :: acceptance_service
  ve_py_str :: "json \<Rightarrow> string"
  ve_elapsed :: pyfloat

datatype verify_fault = BadSubject subject_fault | BadResult verifier_result_fault
  | AcceptanceFault acceptance_fault | CriterionKeyError uuid | BadMinimal minimal_fault
  | ServiceRaises string

definition unverifiable_result ::
  "verify_env \<Rightarrow> nat \<Rightarrow> VerifierRequirement \<Rightarrow> VerificationRequest \<Rightarrow> VerifierResult" where
  "unverifiable_result env n requirement request =
     \<lparr>vr_verifier_result_id = ve_result_id env n, vr_verifier_id = rq_verifier_id requirement,
      vr_verifier_version = rq_minimum_version requirement,
      vr_subject = \<lparr>vs_subject_type = vsub_subject_type (vq_subject request),
        vs_subject_id = Some (uuid_str (vq_verification_id request)), vs_artifact_id = None\<rparr>,
      vr_status = VUnverifiable, vr_score = None, vr_confidence = None, vr_findings = [],
      vr_evidence_artifacts = [], vr_started_at = ve_now env n, vr_finished_at = ve_now env n,
      vr_error = None\<rparr>"

definition verification_request ::
  "verify_env \<Rightarrow> nat \<Rightarrow> uuid \<Rightarrow> AcceptanceCriterion \<Rightarrow> VerifierRequirement \<Rightarrow> VerificationSubject \<Rightarrow>
   VerificationRequest" where
  "verification_request env n task_run_id c requirement subject =
     \<lparr>vq_verification_id = ve_verification_id env n, vq_task_run_id = task_run_id, vq_step_id = None,
      vq_criterion_id = ac_criterion_id c, vq_verifier_id = rq_verifier_id requirement,
      vq_verifier_version = rq_minimum_version requirement, vq_subject = subject,
      vq_configuration = ac_configuration c, vq_requested_at = ve_now env n,
      vq_correlation_id = task_run_id, vq_causation_event_id = None\<rparr>"

fun verify_loop ::
  "verify_env \<Rightarrow> uuid \<Rightarrow> run_evidence \<Rightarrow> int \<Rightarrow> nat \<Rightarrow> (AcceptanceCriterion \<times> VerifierRequirement) list \<Rightarrow>
   VerifierResult list \<Rightarrow> verify_fault + VerifierResult list" where
  "verify_loop env run ev maximum n [] results = Inr results"
| "verify_loop env run ev maximum n ((c, requirement) # todo) results =
     (if maximum \<le> int (length results) then Inr results
      else case subject_for (ve_py_str env) ev c of
          Inl e \<Rightarrow> Inl (BadSubject e)
        | Inr subject \<Rightarrow>
            (let request = verification_request env n run c requirement subject in
             case ve_execute env n request of
               ReplyExecution x \<Rightarrow>
                 verify_loop env run ev maximum (Suc n) todo
                   (case vx_result x of None \<Rightarrow> results | Some r \<Rightarrow> results @ [r])
             | ReplyRaises m \<Rightarrow> Inl (ServiceRaises m)
             | ReplyError \<Rightarrow>
                 (let r = unverifiable_result env n requirement request in
                  case verifier_result_error r of Some e \<Rightarrow> Inl (BadResult e)
                  | None \<Rightarrow> verify_loop env run ev maximum (Suc n) todo (results @ [r]))))"

fun minimal_outcome :: "VerifierStatus \<Rightarrow> CriterionOutcome" where
  "minimal_outcome VPassed = OutPassed"
| "minimal_outcome VFailed = OutFailed"
| "minimal_outcome _ = OutUnverifiable"

fun minimal_results ::
  "CriterionEvaluation list \<Rightarrow> AcceptanceCriterion list \<Rightarrow> verify_fault + MinimalCriterionResult list" where
  "minimal_results es [] = Inr []"
| "minimal_results es (c # cs) =
     (case find (\<lambda>e. ce_criterion_id e = ac_criterion_id c) (rev es) of
        None \<Rightarrow> Inl (CriterionKeyError (ac_criterion_id c))
      | Some e \<Rightarrow> bind_res (minimal_results es cs) (\<lambda>rs.
          Inr (\<lparr>mr_criterion_id = ac_criterion_id c, mr_outcome = minimal_outcome (ce_outcome e),
                mr_reason = ce_reason e, mr_required = ac_required c\<rparr> # rs)))"

definition run_policy :: "verify_env \<Rightarrow> VerifierRequirement list \<Rightarrow> AcceptancePolicy" where
  "run_policy env requirements =
     \<lparr>ap_policy_id = ve_policy_id env, ap_version = ''1'', ap_name = ''Controller task acceptance'',
      ap_description = ''Generated deterministic policy from the active problem representation.'',
      ap_requirements = requirements, ap_minimum_optional_score = 0, ap_allow_partial = False,
      ap_maximum_verifier_errors = 0, ap_maximum_unverifiable_required = 0,
      ap_created_at = ve_now env 0, ap_policy_hash = ''''\<rparr>"

definition run_requirements :: "verify_env \<Rightarrow> AcceptanceCriterion list \<Rightarrow> VerifierRequirement list" where
  "run_requirements env criteria =
     map (\<lambda>(n, c). requirement_for (ve_requirement_id env n) c) (zip [0..<length criteria] criteria)"

record ControllerVerificationOutcome =
  co_minimal :: MinimalAcceptanceDecision
  co_decision :: AcceptanceDecision
  co_verifier_calls :: int
  co_elapsed_seconds :: pyfloat

definition lift_fault :: "('a \<Rightarrow> 'b) \<Rightarrow> 'a + 'c \<Rightarrow> 'b + 'c" where
  "lift_fault f r = (case r of Inl e \<Rightarrow> Inl (f e) | Inr x \<Rightarrow> Inr x)"

lemma lift_fault_Inr [simp]: "lift_fault f r = Inr x \<longleftrightarrow> r = Inr x"
  by (simp add: lift_fault_def split: sum.split)

definition verify_run ::
  "verify_env \<Rightarrow> ProblemRepresentation \<Rightarrow> run_evidence \<Rightarrow> bool \<Rightarrow> int \<Rightarrow>
   verify_fault + ControllerVerificationOutcome" where
  "verify_run env problem ev repair_budget_remaining maximum_calls =
     (let criteria = pr_acceptance_criteria problem;
          requirements = run_requirements env criteria in
      bind_res (lift_fault AcceptanceFault (seal_policy (ve_digest env) (run_policy env requirements)))
        (\<lambda>policy. bind_res (verify_loop env (pr_task_run_id problem) ev maximum_calls 0
             (zip criteria requirements) [])
        (\<lambda>results. bind_res (lift_fault AcceptanceFault
            (evaluate_policy (ve_digest env) (ve_service env) (ve_decision_id env) (ve_now env 0)
               policy (pr_task_run_id problem) results repair_budget_remaining))
        (\<lambda>decision. bind_res (minimal_results (ad_criterion_evaluations decision) criteria)
        (\<lambda>rs. bind_res (lift_fault BadMinimal
            (mk_minimal_decision (ad_decision decision = DecisionAccepted) rs (ad_reason decision)
               (ad_created_at decision)))
        (\<lambda>minimal. Inr \<lparr>co_minimal = minimal, co_decision = decision,
            co_verifier_calls = int (length results), co_elapsed_seconds = ve_elapsed env\<rparr>))))))"

section \<open>What the structural check establishes\<close>

lemma literal_reasons:
  "non_empty_str ''criterion evidence is present''" "non_empty_str ''criterion evidence is missing''"
  "non_empty_str ''criterion requires Sprint 7 verification or manual review''"
  "non_empty_str ''all required structural criteria passed''"
  "non_empty_str ''one or more required structural criteria did not pass''"
  "non_empty_str ''acceptance criterion contains an invalid JSON schema''"
  "non_empty_str ''result does not satisfy the required JSON schema''"
  "non_empty_str ''result satisfies the required JSON schema''"
  by (simp_all add: non_empty_str_Cons py_space_def)

lemma evaluate_one_fields [simp]:
  "mr_criterion_id (evaluate_one sc py_str ev c) = ac_criterion_id c"
  "mr_required (evaluate_one sc py_str ev c) = ac_required c"
  by (simp_all add: evaluate_one_def Let_def split: CriterionType.split prod.split)

lemma evaluate_one_reason: "non_empty_str (mr_reason (evaluate_one sc py_str ev c))"
  by (simp add: evaluate_one_def Let_def literal_reasons validate_schema_def
      split: CriterionType.split)

lemma list_all_not_ex: "list_all (\<lambda>r. \<not> mr_required r \<or> mr_outcome r = OutPassed) rs \<longleftrightarrow>
    \<not> list_ex required_failure rs"
  by (induction rs) (auto simp: required_failure_def)

lemma minimal_evaluate_total:
  "\<exists>d. minimal_evaluate sc py_str now criteria ev = Inr d \<and>
     md_results d = map (evaluate_one sc py_str ev) criteria \<and>
     (md_accepted d \<longleftrightarrow> (\<forall>c \<in> set criteria. ac_required c \<longrightarrow>
        mr_outcome (evaluate_one sc py_str ev c) = OutPassed)) \<and>
     non_empty_str (md_decision_reason d)"
proof -
  have "list_all (\<lambda>r. non_empty_str (mr_reason r)) (map (evaluate_one sc py_str ev) criteria)"
    by (simp add: list_all_iff evaluate_one_reason)
  then show ?thesis
    by (auto simp: minimal_evaluate_def mk_minimal_decision_def Let_def minimal_decision_error_def
        literal_reasons list_all_not_ex construct_def) (auto simp: list_all_iff list_ex_iff required_failure_def)
qed

section \<open>What verifying a run establishes\<close>

lemma run_requirements_map:
  "run_requirements env cs = map (\<lambda>n. requirement_for (ve_requirement_id env n) (cs ! n)) [0..<length cs]"
  by (rule nth_equalityI) (simp_all add: run_requirements_def)

lemma minimal_results_spec:
  "minimal_results es cs = Inr rs \<Longrightarrow>
     length rs = length cs \<and> map mr_criterion_id rs = map ac_criterion_id cs \<and>
     map mr_required rs = map ac_required cs \<and>
     (\<forall>r \<in> set rs. \<exists>e \<in> set es. ce_criterion_id e = mr_criterion_id r \<and>
        mr_outcome r = minimal_outcome (ce_outcome e))"
proof (induction cs arbitrary: rs)
  case (Cons c cs)
  from Cons.prems obtain e where
    e: "find (\<lambda>e. ce_criterion_id e = ac_criterion_id c) (rev es) = Some e"
    by (auto split: option.splits)
  with Cons.prems obtain rs' where rs: "minimal_results es cs = Inr rs'"
    "rs = \<lparr>mr_criterion_id = ac_criterion_id c, mr_outcome = minimal_outcome (ce_outcome e),
           mr_reason = ce_reason e, mr_required = ac_required c\<rparr> # rs'"
    by (auto simp: bind_res_Inr_iff)
  from e have "e \<in> set es" "ce_criterion_id e = ac_criterion_id c"
    by (auto simp: find_Some_iff) (metis length_rev nth_mem set_rev)
  with Cons.IH [OF rs(1)] show ?case by (auto simp: rs(2))
qed simp

lemma verify_run_Inr:
  assumes "verify_run env problem ev budget maximum = Inr out"
  obtains policy results where
    "seal_policy (ve_digest env) (run_policy env (run_requirements env (pr_acceptance_criteria problem))) = Inr policy"
    "verify_loop env (pr_task_run_id problem) ev maximum 0
       (zip (pr_acceptance_criteria problem) (run_requirements env (pr_acceptance_criteria problem))) [] = Inr results"
    "evaluate_policy (ve_digest env) (ve_service env) (ve_decision_id env) (ve_now env 0) policy
       (pr_task_run_id problem) results budget = Inr (co_decision out)"
    "minimal_results (ad_criterion_evaluations (co_decision out)) (pr_acceptance_criteria problem)
       = Inr (md_results (co_minimal out))"
    "md_accepted (co_minimal out) \<longleftrightarrow> ad_decision (co_decision out) = DecisionAccepted"
    "minimal_decision_error (co_minimal out) = None"
    "co_verifier_calls out = int (length results)" "co_elapsed_seconds out = ve_elapsed env"
  using assms
  by (auto simp: verify_run_def Let_def bind_res_Inr_iff mk_minimal_decision_def)

lemma verify_loop_length:
  "verify_loop env run ev maximum n todo results = Inr rs \<Longrightarrow>
     int (length results) \<le> max 0 maximum \<Longrightarrow> int (length rs) \<le> max 0 maximum"
proof (induction env run ev maximum n todo results arbitrary: rs rule: verify_loop.induct)
  case (2 env run ev maximum n c requirement todo results)
  show ?case
  proof (cases "maximum \<le> int (length results)")
    case True
    with 2 show ?thesis by auto
  next
    case False
    with "2.prems"(1) obtain subject where s: "subject_for (ve_py_str env) ev c = Inr subject"
      by (auto split: sum.splits)
    let ?q = "verification_request env n run c requirement subject"
    show ?thesis
    proof (cases "ve_execute env n ?q")
      case (ReplyExecution x)
      show ?thesis
        by (rule "2.IH"(1) [OF False s refl ReplyExecution])
          (use "2.prems" False s ReplyExecution in \<open>auto simp: Let_def split: option.splits\<close>)
    next
      case ReplyError
      with "2.prems"(1) False s have none: "verifier_result_error (unverifiable_result env n requirement ?q) = None"
        by (auto simp: Let_def split: option.splits)
      show ?thesis
        by (rule "2.IH"(2) [OF False s refl ReplyError refl none])
          (use "2.prems" False s ReplyError none in \<open>auto simp: Let_def\<close>)
    next
      case (ReplyRaises m)
      with "2.prems"(1) False s show ?thesis by (simp add: Let_def)
    qed
  qed
qed auto

text \<open>Two criteria that share a verifier share its evidence, so they get the same outcome.\<close>

lemma matching_results_same_verifier:
  "rq_verifier_id r = rq_verifier_id r' \<Longrightarrow> rq_minimum_version r = rq_minimum_version r' \<Longrightarrow>
     matching_results r results = matching_results r' results"
  by (simp add: matching_results_def)

lemma requirement_in_policy:
  assumes "c \<in> set cs"
  shows "\<exists>i. requirement_for i c \<in> set (run_requirements env cs)"
proof -
  from assms obtain n where "n < length cs" "cs ! n = c" by (auto simp: in_set_conv_nth)
  then show ?thesis
    by (intro exI [of _ "ve_requirement_id env n"]) (auto simp: run_requirements_map image_iff)
qed

lemma run_requirement_form: "r \<in> set (run_requirements env cs) \<Longrightarrow> \<exists>i. \<exists>c \<in> set cs. r = requirement_for i c"
  by (auto simp: run_requirements_map) (metis nth_mem)

lemma policy_of_seal: "seal_policy digest p = Inr q \<Longrightarrow> ap_requirements q = ap_requirements p"
  unfolding seal_policy_Inr by auto

text \<open>The results that count for a criterion.\<close>

definition criterion_results :: "AcceptanceCriterion \<Rightarrow> VerifierResult list \<Rightarrow> VerifierResult list" where
  "criterion_results c results = matching_results (requirement_for 0 c) results"

lemma criterion_results_eq: "matching_results (requirement_for i c) results = criterion_results c results"
  by (simp add: criterion_results_def matching_results_def requirement_for_def)

lemma evaluation_of_criterion:
  assumes "e \<in> set (ad_criterion_evaluations d)"
    and "seal_policy digest (run_policy env (run_requirements env cs)) = Inr policy"
    and "evaluate_policy digest srv did now policy run results budget = Inr d"
  shows "\<exists>c i. c \<in> set cs \<and> ce_criterion_id e = ac_criterion_id c \<and>
    ce_outcome e = fst (classify (requirement_for i c) (criterion_results c results))"
proof -
  note sealed = seal_policy_idem [OF assms(2)]
  have ids: "distinct (map vr_verifier_result_id results)"
    using assms(1,3) sealed by (rule_tac ccontr) (auto simp: evaluate_policy_def mk_decision_def)
  have "ad_criterion_evaluations d = map snd (policy_evaluations policy results)"
    using assms(3) unfolding evaluate_policy_eq [OF sealed ids] mk_decision_def by auto
  with assms(1) obtain r cid where r: "r \<in> set (ap_requirements policy)" "cid \<in> set (rq_criterion_ids r)"
    and e: "e = evaluate_criterion r (matching_results r results) cid"
    by (auto simp: policy_evaluations_def set_evaluation_order)
  have "ap_requirements policy = run_requirements env cs"
    using policy_of_seal [OF assms(2)] by (simp add: run_policy_def)
  with r(1) run_requirement_form obtain i c where c: "c \<in> set cs" "r = requirement_for i c" by metis
  have "cid = ac_criterion_id c" using r(2) c(2) by (simp add: requirement_for_def)
  with c e show ?thesis
    by (intro exI [of _ c] exI [of _ i]) (simp add: criterion_results_eq)
qed

subsection \<open>Verification returns\<close>

lemma classify_cong:
  "rq_allowed_outcomes r = rq_allowed_outcomes r' \<Longrightarrow> rq_minimum_score r = rq_minimum_score r' \<Longrightarrow>
     classify r ms = classify r' ms"
  by (simp add: classify_def)

lemma classify_same_verifier:
  assumes "criterion_verifier c = criterion_verifier c'"
  shows "classify (requirement_for i c) (criterion_results c results) =
     classify (requirement_for j c') (criterion_results c' results)"
proof -
  have "criterion_results c results = criterion_results c' results"
    using assms by (simp add: criterion_results_def matching_results_def requirement_for_def)
  then show ?thesis by (simp add: classify_cong requirement_for_def)
qed

lemma classify_reason: "non_empty_str (snd (snd (classify r ms)))"
proof -
  have "non_empty_str ''required verifier result is missing''"
    "non_empty_str ''verifier infrastructure reported an error''"
    "non_empty_str ''verifier could not evaluate the subject''"
    "non_empty_str ''verifier requirement passed''" "non_empty_str ''verifier requirement did not pass''"
    by (simp_all add: non_empty_str_Cons py_space_def)
  then show ?thesis by (simp add: classify_def Let_def)
qed

lemma minimal_results_total:
  assumes "ac_criterion_id ` set cs \<subseteq> ce_criterion_id ` set es"
  shows "\<exists>rs. minimal_results es cs = Inr rs"
  using assms
proof (induction cs)
  case (Cons c cs)
  then obtain rs where rs: "minimal_results es cs = Inr rs" by auto
  from Cons.prems have "find (\<lambda>e. ce_criterion_id e = ac_criterion_id c) (rev es) \<noteq> None"
    by (auto simp: find_None_iff image_iff)
  with rs show ?case by auto
qed simp

lemma policy_choice_reason: "non_empty_str (snd (snd (policy_choice srv p results budget)))"
proof -
  have "non_empty_str ''required verifier infrastructure failed''"
    "non_empty_str ''required semantic input is missing''"
    "non_empty_str ''required verifier evidence is unavailable''"
    "non_empty_str ''required verification failed with a repairable finding''"
    "non_empty_str ''required verification failed''"
    "non_empty_str ''optional verifier score is below policy minimum''"
    "non_empty_str ''all required verifier evidence satisfies policy''"
    by (simp_all add: non_empty_str_Cons py_space_def)
  then show ?thesis
    unfolding policy_choice_def choose_decision_eq [OF policy_evaluations_outcome] Let_def by simp
qed

lemma ce_reason_evaluate [simp]: "ce_reason (evaluate_criterion r ms c) = snd (snd (classify r ms))"
  by (simp add: evaluate_criterion_def split: prod.splits)

lemma minimal_results_reason:
  "minimal_results es cs = Inr rs \<Longrightarrow> r \<in> set rs \<Longrightarrow> \<exists>e \<in> set es. mr_reason r = ce_reason e"
proof (induction cs arbitrary: rs)
  case (Cons c cs)
  from Cons.prems(1) obtain e where
    e: "find (\<lambda>e. ce_criterion_id e = ac_criterion_id c) (rev es) = Some e"
    by (auto split: option.splits)
  with Cons.prems(1) obtain rs' where rs: "minimal_results es cs = Inr rs'"
    "rs = \<lparr>mr_criterion_id = ac_criterion_id c, mr_outcome = minimal_outcome (ce_outcome e),
           mr_reason = ce_reason e, mr_required = ac_required c\<rparr> # rs'"
    by (auto simp: bind_res_Inr_iff)
  from e have "e \<in> set es" by (auto simp: find_Some_iff) (metis length_rev nth_mem set_rev)
  with Cons.IH [OF rs(1)] Cons.prems(2) show ?case by (auto simp: rs(2))
qed simp

lemma list_all2_left: "list_all2 P xs ys \<Longrightarrow> x \<in> set xs \<Longrightarrow> \<exists>y \<in> set ys. P x y"
  by (induction rule: list_all2_induct) auto

lemma list_all2_right: "list_all2 P xs ys \<Longrightarrow> y \<in> set ys \<Longrightarrow> \<exists>x \<in> set xs. P x y"
  by (induction rule: list_all2_induct) auto

lemma minimal_results_pointwise:
  "minimal_results es cs = Inr rs \<Longrightarrow>
     list_all2 (\<lambda>c r. mr_required r = ac_required c \<and> (\<exists>e \<in> set es.
        ce_criterion_id e = ac_criterion_id c \<and> mr_outcome r = minimal_outcome (ce_outcome e))) cs rs"
proof (induction cs arbitrary: rs)
  case (Cons c cs)
  from Cons.prems obtain e where
    e: "find (\<lambda>e. ce_criterion_id e = ac_criterion_id c) (rev es) = Some e"
    by (auto split: option.splits)
  with Cons.prems obtain rs' where rs: "minimal_results es cs = Inr rs'"
    "rs = \<lparr>mr_criterion_id = ac_criterion_id c, mr_outcome = minimal_outcome (ce_outcome e),
           mr_reason = ce_reason e, mr_required = ac_required c\<rparr> # rs'"
    by (auto simp: bind_res_Inr_iff)
  from e have "e \<in> set es" "ce_criterion_id e = ac_criterion_id c"
    by (auto simp: find_Some_iff) (metis length_rev nth_mem set_rev)
  with Cons.IH [OF rs(1)] show ?case by (auto simp: rs(2))
qed simp

lemma minimal_outcome_passed [simp]: "minimal_outcome v = OutPassed \<longleftrightarrow> v = VPassed"
  by (cases v) simp_all

lemma run_requirements_criteria:
  "concat (map rq_criterion_ids (run_requirements env cs)) = map ac_criterion_id cs"
proof -
  have "concat (map rq_criterion_ids (run_requirements env cs)) =
      map (\<lambda>n. ac_criterion_id (cs ! n)) [0..<length cs]"
    by (simp add: run_requirements_map requirement_for_def comp_def concat_map_singleton)
  also have "\<dots> = map ac_criterion_id cs" by (rule nth_equalityI) simp_all
  finally show ?thesis .
qed

lemma evaluation_from_criterion:
  assumes "e \<in> set (map snd (policy_evaluations policy results))"
    and "ap_requirements policy = run_requirements env cs"
  shows "\<exists>c \<in> set cs. ce_criterion_id e = ac_criterion_id c \<and> ce_required e = ac_required c"
proof -
  from assms(1) obtain r cid where r: "r \<in> set (ap_requirements policy)" "cid \<in> set (rq_criterion_ids r)"
    and e: "e = evaluate_criterion r (matching_results r results) cid"
    by (auto simp: policy_evaluations_def set_evaluation_order)
  from r(1) assms(2) obtain i c where "c \<in> set cs" "r = requirement_for i c"
    using run_requirement_form by metis
  with r(2) show ?thesis by (intro bexI [of _ c]) (simp_all add: e requirement_for_def)
qed

lemma minimal_consistent:
  assumes rs: "minimal_results (map snd (policy_evaluations policy results)) cs = Inr rs"
    and body: "policy_body_error policy = None"
    and reqs: "ap_requirements policy = run_requirements env cs"
  shows "\<not> list_ex required_failure rs \<longleftrightarrow>
    (\<forall>e \<in> set (map snd (policy_evaluations policy results)). ce_required e \<longrightarrow> ce_outcome e = VPassed)"
    (is "?L \<longleftrightarrow> ?R")
proof -
  let ?es = "map snd (policy_evaluations policy results)"
  have "distinct (map ce_criterion_id ?es)"
    unfolding evaluations_criteria by (rule distinct_evaluation_order [OF body])
  then have es: "e = e'" if "e \<in> set ?es" "e' \<in> set ?es" "ce_criterion_id e = ce_criterion_id e'" for e e'
    using that unfolding distinct_map inj_on_def by blast
  have "distinct (map ac_criterion_id cs)"
    using policy_bodyD(2) [OF body] unfolding reqs run_requirements_criteria .
  then have cs: "c = c'" if "c \<in> set cs" "c' \<in> set cs" "ac_criterion_id c = ac_criterion_id c'" for c c'
    using that unfolding distinct_map inj_on_def by blast
  note pw = minimal_results_pointwise [OF rs]
  show ?thesis
  proof
    assume no: ?L
    show ?R
    proof (intro ballI impI)
      fix e assume e: "e \<in> set ?es" "ce_required e"
      from evaluation_from_criterion [OF e(1) reqs] e(2) obtain c where
        c: "c \<in> set cs" "ce_criterion_id e = ac_criterion_id c" "ac_required c" by auto
      from list_all2_left [OF pw c(1)] obtain r e' where r: "r \<in> set rs" "mr_required r = ac_required c"
        and e': "e' \<in> set ?es" "ce_criterion_id e' = ac_criterion_id c" "mr_outcome r = minimal_outcome (ce_outcome e')"
        by blast
      have "e' = e" using es e(1) e'(1,2) c(2) by metis
      from no r c(3) have "mr_outcome r = OutPassed" by (auto simp: list_ex_iff required_failure_def)
      with \<open>e' = e\<close> e'(3) have "minimal_outcome (ce_outcome e) = OutPassed" by (simp only:)
      then show "ce_outcome e = VPassed" by simp
    qed
  next
    assume all: ?R
    have "\<not> required_failure r" if r: "r \<in> set rs" for r
    proof -
      from list_all2_right [OF pw r] obtain c e where c: "c \<in> set cs" "mr_required r = ac_required c"
        and e: "e \<in> set ?es" "ce_criterion_id e = ac_criterion_id c" "mr_outcome r = minimal_outcome (ce_outcome e)"
        by blast
      from evaluation_from_criterion [OF e(1) reqs] obtain c' where
        c': "c' \<in> set cs" "ce_criterion_id e = ac_criterion_id c'" "ce_required e = ac_required c'" by auto
      have "c' = c" using cs c'(1,2) c(1) e(2) by metis
      with all e c c'(3) show ?thesis by (auto simp: required_failure_def)
    qed
    then show ?L by (simp add: list_ex_iff)
  qed
qed

lemma verify_run_returns:
  assumes seal: "seal_policy (ve_digest env) (run_policy env (run_requirements env (pr_acceptance_criteria problem))) = Inr policy"
    and loop: "verify_loop env (pr_task_run_id problem) ev maximum 0
       (zip (pr_acceptance_criteria problem) (run_requirements env (pr_acceptance_criteria problem))) [] = Inr results"
    and ids: "distinct (map vr_verifier_result_id results)"
    and valid: "\<forall>r \<in> set results. verifier_result_error r = None"
  shows "\<exists>out. verify_run env problem ev budget maximum = Inr out"
proof -
  let ?cs = "pr_acceptance_criteria problem" and ?es = "map snd (policy_evaluations policy results)"
  have reqs: "ap_requirements policy = run_requirements env ?cs"
    and tol: "ap_maximum_verifier_errors policy = 0" "ap_maximum_unverifiable_required policy = 0"
      "ap_minimum_optional_score policy = 0"
    using seal by (auto simp: seal_policy_Inr run_policy_def)
  note sealed = seal_policy_idem [OF seal]
  note body = seal_policy_body [OF sealed]
  note zero = zero_tolerance_accepted [OF body tol(1,2), of "ve_service env" results budget]
  have score: "0 \<le> optional_score (policy_evaluations policy results)"
    using optional_score_policy [OF body valid] by (simp add: unit_interval_def)
  from evaluate_policy_outcome [OF sealed ids valid, of "ve_service env" "ve_decision_id env" "ve_now env 0"
      "pr_task_run_id problem" budget] zero
  obtain d where d: "evaluate_policy (ve_digest env) (ve_service env) (ve_decision_id env) (ve_now env 0) policy
       (pr_task_run_id problem) results budget = Inr d"
    "ad_decision d = fst (policy_choice (ve_service env) policy results budget)" by blast
  have de: "ad_criterion_evaluations d = ?es"
    "ad_reason d = snd (snd (policy_choice (ve_service env) policy results budget))"
    using d(1) unfolding evaluate_policy_eq [OF sealed ids] mk_decision_def by auto
  have cover: "ac_criterion_id ` set ?cs \<subseteq> ce_criterion_id ` set ?es"
  proof
    fix x assume "x \<in> ac_criterion_id ` set ?cs"
    then obtain c where c: "c \<in> set ?cs" "x = ac_criterion_id c" by blast
    then obtain i where "requirement_for i c \<in> set (ap_requirements policy)"
      using requirement_in_policy [OF c(1), of env] reqs by auto
    then have "x \<in> set (map snd (evaluation_order policy))"
      using c(2) by (force simp: set_evaluation_order requirement_for_def image_iff)
    then have "x \<in> set (map ce_criterion_id ?es)" unfolding evaluations_criteria .
    then show "x \<in> ce_criterion_id ` set ?es" by (simp only: set_map)
  qed
  then obtain rs where rs: "minimal_results ?es ?cs = Inr rs" using minimal_results_total by blast
  have "ad_decision d = DecisionAccepted \<longleftrightarrow> required_evidence_passes policy results"
    using d(2) zero score tol(3) by simp
  also have "\<dots> \<longleftrightarrow> \<not> list_ex required_failure rs"
    using minimal_consistent [OF rs body reqs]
      required_evidence_passes_iff [OF body, of results] by simp
  finally have acc: "ad_decision d = DecisionAccepted \<longleftrightarrow> \<not> list_ex required_failure rs" .
  have reasons: "list_all (\<lambda>r. non_empty_str (mr_reason r)) rs"
    using minimal_results_reason [OF rs] classify_reason
    by (force simp: list_all_iff policy_evaluations_def)
  have "mk_minimal_decision (ad_decision d = DecisionAccepted) rs (ad_reason d) (ad_created_at d) \<noteq> Inl e" for e
    using acc reasons policy_choice_reason [of "ve_service env" policy results budget]
    by (simp add: mk_minimal_decision_def minimal_decision_error_def de(2))
  then obtain m where "mk_minimal_decision (ad_decision d = DecisionAccepted) rs (ad_reason d) (ad_created_at d) = Inr m"
    by (cases "mk_minimal_decision (ad_decision d = DecisionAccepted) rs (ad_reason d) (ad_created_at d)") auto
  then show ?thesis
    using seal loop d(1) rs by (simp add: verify_run_def Let_def lift_fault_def de(1) del: lift_fault_Inr)
qed

section \<open>Properties\<close>

text \<open>The structural check never raises, accepts exactly when every required criterion passes,
  and so never accepts while a required criterion is one that only a verifier or a person can
  decide.\<close>

theorem minimal_acceptance_exact:
  "\<exists>d. minimal_evaluate sc py_str now criteria ev = Inr d \<and>
     (md_accepted d \<longleftrightarrow> {c \<in> set criteria. ac_required c \<and>
        mr_outcome (evaluate_one sc py_str ev c) \<noteq> OutPassed} = {}) \<and>
     (\<forall>c \<in> set criteria. ac_required c \<and>
        ac_criterion_type c \<in> {CritManual, CritDomainVerifier, CritExactMatch} \<longrightarrow> \<not> md_accepted d)"
proof -
  obtain d where d: "minimal_evaluate sc py_str now criteria ev = Inr d"
    "md_accepted d \<longleftrightarrow> (\<forall>c \<in> set criteria. ac_required c \<longrightarrow>
        mr_outcome (evaluate_one sc py_str ev c) = OutPassed)"
    using minimal_evaluate_total by blast
  have undecided: "mr_outcome (evaluate_one sc py_str ev c) = OutUnverifiable"
    if "ac_criterion_type c \<in> {CritManual, CritDomainVerifier, CritExactMatch}" for c
    using that by (auto simp: evaluate_one_def Let_def)
  have "\<not> md_accepted d" if "c \<in> set criteria" "ac_required c"
    "ac_criterion_type c \<in> {CritManual, CritDomainVerifier, CritExactMatch}" for c
    using that undecided [of c] d(2) by fastforce
  with d show ?thesis by blast
qed

lemma minimal_acceptance_exact_witness:
  "\<exists>d. minimal_evaluate \<lparr>sc_schema_ok = \<lambda>_. True, sc_instance_ok = \<lambda>_ _. True\<rparr> (\<lambda>_. '''') 0
       [\<lparr>ac_criterion_id = 1, ac_description = ''c'', ac_criterion_type = CritManual, ac_required = True,
         ac_weight = 1, ac_verifier_id = None, ac_configuration = []\<rparr>]
       \<lparr>re_completed = {}, re_tools = {}, re_artifacts = [], re_outputs = []\<rparr> = Inr d \<and> \<not> md_accepted d"
  using minimal_acceptance_exact [of "\<lparr>sc_schema_ok = \<lambda>_. True, sc_instance_ok = \<lambda>_ _. True\<rparr>" "\<lambda>_. ''''" 0
       "[\<lparr>ac_criterion_id = 1, ac_description = ''c'', ac_criterion_type = CritManual, ac_required = True,
         ac_weight = 1, ac_verifier_id = None, ac_configuration = []\<rparr>]"
       "\<lparr>re_completed = {}, re_tools = {}, re_artifacts = [], re_outputs = []\<rparr>"]
  by auto


text \<open>Criteria that share a verifier are not told apart: in one verification they always get the
  same outcome, because results are matched by verifier and version, not by criterion.\<close>

theorem shared_verifier_same_outcome:
  assumes "verify_run env problem ev budget maximum = Inr out"
    and "distinct (map ac_criterion_id (pr_acceptance_criteria problem))"
    and "c \<in> set (pr_acceptance_criteria problem)" "c' \<in> set (pr_acceptance_criteria problem)"
    and "criterion_verifier c = criterion_verifier c'"
    and "e \<in> set (ad_criterion_evaluations (co_decision out))" "ce_criterion_id e = ac_criterion_id c"
    and "e' \<in> set (ad_criterion_evaluations (co_decision out))" "ce_criterion_id e' = ac_criterion_id c'"
  shows "ce_outcome e = ce_outcome e'"
proof -
  let ?cs = "pr_acceptance_criteria problem"
  from verify_run_Inr [OF assms(1)] obtain policy results where
    seal: "seal_policy (ve_digest env) (run_policy env (run_requirements env ?cs)) = Inr policy"
    and ev: "evaluate_policy (ve_digest env) (ve_service env) (ve_decision_id env) (ve_now env 0) policy
       (pr_task_run_id problem) results budget = Inr (co_decision out)" by metis
  have same: "a = b" if "a \<in> set ?cs" "b \<in> set ?cs" "ac_criterion_id a = ac_criterion_id b" for a b
    using assms(2) that by (auto simp: distinct_map inj_on_def)
  obtain d i where d: "d \<in> set ?cs" "ce_criterion_id e = ac_criterion_id d"
    "ce_outcome e = fst (classify (requirement_for i d) (criterion_results d results))"
    using evaluation_of_criterion [OF assms(6) seal ev] by blast
  obtain d' j where d': "d' \<in> set ?cs" "ce_criterion_id e' = ac_criterion_id d'"
    "ce_outcome e' = fst (classify (requirement_for j d') (criterion_results d' results))"
    using evaluation_of_criterion [OF assms(8) seal ev] by blast
  have "d = c" "d' = c'" using same assms(3,4,7,9) d d' by metis+
  then show ?thesis using classify_same_verifier [OF assms(5), of i results j] d(3) d'(3) by simp
qed

text \<open>C9. Verification returns: when the generated policy is well formed, every subject can be built and
  the verifiers return valid results with distinct identifiers, \<open>verify\<close> returns a decision, whatever
  the results say; in particular the two acceptance contracts it builds never contradict each
  other.\<close>

theorem verification_never_raises:
  assumes "seal_policy (ve_digest env) (run_policy env (run_requirements env (pr_acceptance_criteria problem))) = Inr policy"
    and "verify_loop env (pr_task_run_id problem) ev maximum 0
       (zip (pr_acceptance_criteria problem) (run_requirements env (pr_acceptance_criteria problem))) [] = Inr results"
    and "distinct (map vr_verifier_result_id results)"
    and "\<forall>r \<in> set results. verifier_result_error r = None"
  shows "\<exists>out. verify_run env problem ev budget maximum = Inr out"
  by (rule verify_run_returns [OF assms])

subsection \<open>A sample verification\<close>

definition shared_criteria :: "AcceptanceCriterion list" where
  "shared_criteria = map (\<lambda>n. \<lparr>ac_criterion_id = of_nat n, ac_description = ''c'',
     ac_criterion_type = CritStepCompleted, ac_required = True, ac_weight = 1,
     ac_verifier_id = None, ac_configuration = [(''step_id'', JStr ''s'')]\<rparr>) [1, 2]"

definition shared_problem :: ProblemRepresentation where
  "shared_problem = sample_problem\<lparr>pr_acceptance_criteria := shared_criteria\<rparr>"

definition step_result :: "nat \<Rightarrow> VerifierResult" where
  "step_result n = (sample_result VPassed)\<lparr>vr_verifier_result_id := of_nat n,
     vr_verifier_id := ''generic.step_completed'', vr_verifier_version := ''1''\<rparr>"

definition sample_env :: verify_env where
  "sample_env = \<lparr>ve_requirement_id = of_nat, ve_verification_id = of_nat, ve_result_id = of_nat,
     ve_now = int, ve_policy_id = 5, ve_decision_id = 6,
     ve_execute = (\<lambda>n q. ReplyExecution \<lparr>vx_verification_id = vq_verification_id q,
        vx_verifier_id = vq_verifier_id q, vx_verifier_version = vq_verifier_version q,
        vx_status = VxCompleted, vx_started_at = Some 0, vx_finished_at = Some 1,
        vx_result = Some (step_result n), vx_evidence_artifacts = [],
        vx_configuration_hash = sample_hash, vx_error = None\<rparr>),
     ve_digest = (\<lambda>_. ''h''), ve_service = sample_service,
     ve_py_str = (\<lambda>j. case j of JStr s \<Rightarrow> s | _ \<Rightarrow> ''''), ve_elapsed = 1\<rparr>"

definition sample_evidence :: run_evidence where
  "sample_evidence = \<lparr>re_completed = {''s''}, re_tools = {}, re_artifacts = [], re_outputs = []\<rparr>"

lemma sample_run_sealed:
  "\<exists>policy. seal_policy (ve_digest sample_env)
     (run_policy sample_env (run_requirements sample_env (pr_acceptance_criteria shared_problem))) = Inr policy"
proof -
  have "policy_body_error (run_policy sample_env (run_requirements sample_env shared_criteria)) = None"
    by code_simp
  then show ?thesis
    by (simp add: seal_policy_Inr shared_problem_def run_policy_def)
qed

lemma sample_run_loop:
  "verify_loop sample_env (pr_task_run_id shared_problem) sample_evidence 5 0
     (zip (pr_acceptance_criteria shared_problem)
        (run_requirements sample_env (pr_acceptance_criteria shared_problem))) [] =
   Inr [step_result 0, step_result 1]"
  by code_simp

lemma sample_run_results:
  "distinct (map vr_verifier_result_id [step_result 0, step_result 1])"
  "\<forall>r \<in> set [step_result 0, step_result 1]. verifier_result_error r = None"
proof -
  show "distinct (map vr_verifier_result_id [step_result 0, step_result 1])" by code_simp
  have "list_all (\<lambda>r. verifier_result_error r = None) [step_result 0, step_result 1]" by code_simp
  then show "\<forall>r \<in> set [step_result 0, step_result 1]. verifier_result_error r = None"
    by (simp only: list_all_iff)
qed

lemma verification_never_raises_witness:
  "\<exists>out. verify_run sample_env shared_problem sample_evidence True 5 = Inr out"
  using sample_run_sealed verification_never_raises [OF _ sample_run_loop sample_run_results] by blast

lemma sample_run_returns:
  "\<exists>out. verify_run sample_env shared_problem sample_evidence True 5 = Inr out"
  using sample_run_sealed verify_run_returns [OF _ sample_run_loop sample_run_results] by blast


lemma shared_verifier_same_outcome_witness:
  "\<exists>out (e :: CriterionEvaluation) (e' :: CriterionEvaluation). verify_run sample_env shared_problem sample_evidence True 5 = Inr out \<and>
     ce_criterion_id e = 1 \<and> ce_criterion_id e' = 2 \<and> ce_outcome e = ce_outcome e'"
proof -
  from sample_run_returns obtain out where
    out: "verify_run sample_env shared_problem sample_evidence True 5 = Inr out" by blast
  have cs: "pr_acceptance_criteria shared_problem = shared_criteria" by (simp add: shared_problem_def)
  from verify_run_Inr [OF out] have
    rs: "minimal_results (ad_criterion_evaluations (co_decision out)) shared_criteria
       = Inr (md_results (co_minimal out))" unfolding cs by metis
  define c where "c = (\<lambda>n :: nat. \<lparr>ac_criterion_id = of_nat n :: uuid, ac_description = ''c'',
     ac_criterion_type = CritStepCompleted, ac_required = True, ac_weight = 1,
     ac_verifier_id = None, ac_configuration = [(''step_id'', JStr ''s'')]\<rparr>)"
  have mem: "c 1 \<in> set shared_criteria" "c 2 \<in> set shared_criteria"
    by (simp_all add: shared_criteria_def c_def)
  from list_all2_left [OF minimal_results_pointwise [OF rs] mem(1)] obtain e where
    e: "e \<in> set (ad_criterion_evaluations (co_decision out))" "ce_criterion_id e = ac_criterion_id (c 1)" by blast
  from list_all2_left [OF minimal_results_pointwise [OF rs] mem(2)] obtain e' where
    e': "e' \<in> set (ad_criterion_evaluations (co_decision out))" "ce_criterion_id e' = ac_criterion_id (c 2)" by blast
  have "distinct (map ac_criterion_id (pr_acceptance_criteria shared_problem))"
    by (simp add: cs shared_criteria_def)
  moreover have "criterion_verifier (c 1) = criterion_verifier (c 2)"
    by (simp add: criterion_verifier_def c_def)
  ultimately have "ce_outcome e = ce_outcome e'"
    using shared_verifier_same_outcome [OF out _ _ _ _ e e'] mem cs by simp
  moreover have "ce_criterion_id e = 1" "ce_criterion_id e' = 2" using e(2) e'(2) by (simp_all add: c_def)
  ultimately show ?thesis using out by blast
qed

end
