(* ===== verification/Ctl_Run.thy ===== *)
theory Ctl_Run
  imports Run_Monad Event_Store Plan_Schedule Ctl_Checkpoint Verification_Run
begin

text \<open>
  The bounded cognitive controller, \<open>application/services/cognitive_controller.py\<close>: the events it
  writes (\<open>events/controller_events.py\<close>, \<open>events/execution_events.py\<close>), the event service it writes
  them through (\<open>events/controller_event_service.py\<close>) and the run itself, from the request to a
  result, with its execution loop, its verification and its repair loop.

  Everything the controller reaches through a port is part of the environment \<open>ctl_env\<close>: the event
  store, the problem engine, the planner, the action executor, the artifact store, clocks and
  identifiers. An answer may differ from call to call, so it is a function of the number of answers
  drawn before (\<open>rn_tick\<close>). The two dictionaries in which the controller remembers problems and
  plans are written and never read; they are left out.
\<close>

section \<open>Events of a controller run\<close>

datatype ctl_payload =
    PProblemCreated ProblemRepresentation
  | PProblemRevised uuid int ProblemRepresentation
  | PStateChanged ControllerState ControllerState string uuid timestamp
  | PDecisionRecorded ControllerDecision
  | PAcceptanceRecorded AcceptanceDecision
  | PClarificationRequested ClarificationRequest
  | PClarificationProvided ClarificationResponse
  | PCheckpointCreated uuid ArtifactRef int string
  | PContinuationIssued ContinuationTokenRecord
  | PContinuationConsumed uuid timestamp
  | PBudgetExhausted uuid string ControllerUsage timestamp
  | PPaused uuid string timestamp
  | PCancelled uuid string timestamp
  | PPlanCreated ExecutionPlan
  | PPlanRevised ExecutionPlan int
  | PStepCreated ExecutionStep
  | PStepStarted uuid timestamp int
  | PStepCompleted uuid timestamp "ArtifactRef list"
  | PStepFailed uuid timestamp ErrorInfo

fun ctl_event_type :: "ctl_payload \<Rightarrow> string" where
  "ctl_event_type (PProblemCreated _) = ''problem.representation_created''"
| "ctl_event_type (PProblemRevised _ _ _) = ''problem.representation_revised''"
| "ctl_event_type (PStateChanged _ _ _ _ _) = ''controller.state_changed''"
| "ctl_event_type (PDecisionRecorded _) = ''controller.decision_recorded''"
| "ctl_event_type (PAcceptanceRecorded _) = ''controller.acceptance_decision_recorded''"
| "ctl_event_type (PClarificationRequested _) = ''controller.clarification_requested''"
| "ctl_event_type (PClarificationProvided _) = ''controller.clarification_provided''"
| "ctl_event_type (PCheckpointCreated _ _ _ _) = ''controller.checkpoint_created''"
| "ctl_event_type (PContinuationIssued _) = ''controller.continuation_issued''"
| "ctl_event_type (PContinuationConsumed _ _) = ''controller.continuation_consumed''"
| "ctl_event_type (PBudgetExhausted _ _ _ _) = ''controller.budget_exhausted''"
| "ctl_event_type (PPaused _ _ _) = ''controller.paused''"
| "ctl_event_type (PCancelled _ _ _) = ''controller.cancelled''"
| "ctl_event_type (PPlanCreated _) = ''plan.created''"
| "ctl_event_type (PPlanRevised _ _) = ''plan.revised''"
| "ctl_event_type (PStepCreated _) = ''execution_step.created''"
| "ctl_event_type (PStepStarted _ _ _) = ''execution_step.started''"
| "ctl_event_type (PStepCompleted _ _ _) = ''execution_step.completed''"
| "ctl_event_type (PStepFailed _ _ _) = ''execution_step.failed''"

lemma ctl_event_type_ok: "event_type_ok (ctl_event_type p)"
  by (cases p) (simp_all, code_simp+)

section \<open>The environment and the state of a run\<close>

record ActionOutcome =
  ao_succeeded :: bool
  ao_output :: json
  ao_tool_call_id :: "uuid option"
  ao_warning :: "string option"

record StartControllerRequest =
  st_task_id :: uuid
  st_task_run_id :: uuid
  st_correlation_id :: uuid
  st_title :: string
  st_raw_request :: string

record ControllerConfiguration =
  cc_budgets :: ControllerBudget
  cc_continuation_ttl_seconds :: int
  cc_maximum_controller_iterations :: int

definition valid_configuration :: "ControllerConfiguration \<Rightarrow> bool" where
  "valid_configuration c \<longleftrightarrow> valid_budget (cc_budgets c) \<and> 0 < cc_continuation_ttl_seconds c \<and>
     1 \<le> cc_maximum_controller_iterations c \<and> cc_maximum_controller_iterations c \<le> 256"

record 's ctl_env =
  en_append :: "'s \<Rightarrow> ctl_payload EventEnvelope list \<Rightarrow> int \<Rightarrow> 's \<times> (store_error + AppendResult)"
  en_now :: "nat \<Rightarrow> timestamp"
  en_elapsed :: "nat \<Rightarrow> pyfloat"
  en_new_id :: "nat \<Rightarrow> uuid"
  en_digest :: "ctl_payload \<Rightarrow> string"
  en_sha256 :: "string \<Rightarrow> string"
  en_ck_digest :: checkpoint_digest
  en_represent :: "nat \<Rightarrow> NormalizedProblemSeed \<Rightarrow> string + ProblemRepresentation"
  en_create_plan :: "nat \<Rightarrow> ProblemRepresentation \<Rightarrow> string + ControllerExecutionPlan"
  en_revise_plan :: "nat \<Rightarrow> ControllerExecutionPlan \<Rightarrow> string \<Rightarrow> string + ControllerExecutionPlan"
  en_execute :: "nat \<Rightarrow> ControllerStepAction \<Rightarrow> string + ActionOutcome"
  en_verify :: "(nat \<Rightarrow> verify_env) option"
  en_schema :: schema_checker
  en_py_str :: "json \<Rightarrow> string"
  en_artifacts :: "(nat \<Rightarrow> ControllerCheckpoint \<Rightarrow> string + ArtifactRef) option"
  en_clarification :: bool
  en_token :: "nat \<Rightarrow> string"
  en_tools :: "(string \<times> string) list"
  en_provider_ids :: "string list"
  en_config :: ControllerConfiguration

record 's run_state =
  rn_store :: 's
  rn_version :: int
  rn_state :: ControllerState
  rn_usage :: ControllerUsage
  rn_tick :: nat
  rn_completed :: "uuid set"
  rn_failed :: "uuid set"
  rn_tools :: "string set"
  rn_outputs :: "(string, json) dict"
  rn_warnings :: "string list"

datatype ctl_error =
    TransitionFault transition_error
  | EnvelopeFault envelope_fault
  | StoreFault store_error
  | NormalizeFault normalize_fault
  | PortFault string
  | UsageFault usage_error
  | SnapshotFault snapshot_fault
  | CheckpointFault checkpoint_fault
  | ScheduleFault schedule_error
  | VerifyFault verify_fault
  | MinimalFault minimal_fault
  | ClarificationServicesMissing
  | RepairFuelExhausted

type_synonym ('s, 'a) ctl = "('s run_state, ctl_error, 'a) comp"

section \<open>The steps of a run\<close>

text \<open>An answer of the environment.\<close>

definition draw :: "(nat \<Rightarrow> 'a) \<Rightarrow> ('s, 'a) ctl" where
  "draw f = (\<lambda>s. (s\<lparr>rn_tick := Suc (rn_tick s)\<rparr>, Inr (f (rn_tick s))))"

definition controller_actor :: ActorRef where
  "controller_actor = \<lparr>ar_actor_type = ActorSystem, ar_actor_id = ''cognitive-controller'',
     ar_display_name = None\<rparr>"

text \<open>\<open>ControllerEventService.append\<close> and the version bookkeeping around it.\<close>

definition controller_envelope ::
  "'s ctl_env \<Rightarrow> uuid \<Rightarrow> uuid \<Rightarrow> uuid \<Rightarrow> timestamp \<Rightarrow> int \<Rightarrow> ctl_payload \<Rightarrow>
   envelope_fault + ctl_payload EventEnvelope" where
  "controller_envelope env run correlation event_id now expected_version payload =
     create_event_envelope (en_digest env) ctl_event_type (\<lambda>_. 1) event_id now payload run
       StreamTaskRun (expected_version + 1) correlation None controller_actor
       ''cognitive-controller'' PrivacySensitive None None"

definition emit :: "'s ctl_env \<Rightarrow> uuid \<Rightarrow> uuid \<Rightarrow> ctl_payload \<Rightarrow> ('s, unit) ctl" where
  "emit env run correlation payload =
     bnd (draw (\<lambda>t. (en_new_id env t, en_now env t))) (\<lambda>(event_id, now) s.
       case controller_envelope env run correlation event_id now (rn_version s) payload of
         Inl e \<Rightarrow> (s, Inl (EnvelopeFault e))
       | Inr e \<Rightarrow>
           (case en_append env (rn_store s) [e] (rn_version s) of
              (st, Inl f) \<Rightarrow> (s\<lparr>rn_store := st\<rparr>, Inl (StoreFault f))
            | (st, Inr r) \<Rightarrow>
                (s\<lparr>rn_store := st, rn_version := ar_current_stream_version r\<rparr>, Inr ())))"

definition transition_to ::
  "'s ctl_env \<Rightarrow> uuid \<Rightarrow> uuid \<Rightarrow> ControllerState \<Rightarrow> string \<Rightarrow> ('s, unit) ctl" where
  "transition_to env run correlation target reason =
     bnd (draw (en_new_id env)) (\<lambda>decision_id.
     bnd (asks (\<lambda>s. \<lparr>tr_current = rn_state s, tr_target = target, tr_reason = reason,
        tr_decision_id = decision_id, tr_expected_stream_version = rn_version s\<rparr>)) (\<lambda>step.
     case require_transition step of
       Some e \<Rightarrow> throw (TransitionFault e)
     | None \<Rightarrow>
         bnd (draw (en_now env)) (\<lambda>now.
         andthen (emit env run correlation
           (PStateChanged (tr_current step) target (py_strip reason) decision_id now))
         (change (\<lambda>s. s\<lparr>rn_state := target\<rparr>)))))"

definition record_usage :: "(usage_key \<times> pyfloat) list \<Rightarrow> ('s, unit) ctl" where
  "record_usage increments =
     bnd (asks rn_usage) (\<lambda>u. bnd (lift_res UsageFault (budget_record u increments))
       (\<lambda>v. change (\<lambda>s. s\<lparr>rn_usage := v\<rparr>)))"

definition check_budget :: "'s ctl_env \<Rightarrow> ('s, BudgetDecision) ctl" where
  "check_budget env = bnd (draw (en_elapsed env)) (\<lambda>elapsed.
     asks (\<lambda>s. budget_evaluate (cc_budgets (en_config env)) (rn_usage s) elapsed))"

text \<open>A checkpoint: snapshot, content hash, the artifact store, and the event that records it.\<close>

definition store_checkpoint ::
  "'s ctl_env \<Rightarrow> uuid \<Rightarrow> uuid \<Rightarrow> (nat \<Rightarrow> ControllerCheckpoint \<Rightarrow> string + ArtifactRef) \<Rightarrow>
   ControllerStateSnapshot \<Rightarrow> ProblemRepresentation \<Rightarrow> ControllerExecutionPlan option \<Rightarrow>
   ('s, ControllerCheckpoint) ctl" where
  "store_checkpoint env run correlation put_bytes snapshot problem plan =
     bnd (lift_res SnapshotFault (construct snapshot_error snapshot)) (\<lambda>snap.
     bnd (draw (\<lambda>t. (en_new_id env t, en_now env t))) (\<lambda>(checkpoint_id, now).
     bnd (asks (\<lambda>s. create_checkpoint (en_ck_digest env) checkpoint_id run snap (Some problem) plan
        (rn_usage s) (rn_version s) now)) (\<lambda>created.
     bnd (lift_res CheckpointFault created) (\<lambda>checkpoint.
     bnd (lift_res CheckpointFault (serialize_checkpoint (en_ck_digest env) (\<lambda>c. c) checkpoint)) (\<lambda>bytes.
     bnd (draw (\<lambda>t. put_bytes t bytes)) (\<lambda>stored.
     bnd (lift_res PortFault stored) (\<lambda>artifact.
     bnd (asks rn_version) (\<lambda>version.
     andthen (emit env run correlation (PCheckpointCreated (ck_checkpoint_id checkpoint) artifact
        version (ck_content_hash checkpoint)))
     (ret checkpoint)))))))))"

definition run_snapshot ::
  "'s run_state \<Rightarrow> uuid \<Rightarrow> ProblemRepresentation \<Rightarrow> ControllerExecutionPlan option \<Rightarrow> int \<Rightarrow> int \<Rightarrow>
   timestamp \<Rightarrow> ControllerStateSnapshot" where
  "run_snapshot s run problem plan repair_cycle clarification_cycle now =
     (new_snapshot run (rn_state s) (rn_usage s) (rn_version s) now)
       \<lparr>ss_problem_id := Some (pr_problem_id problem),
        ss_problem_revision := Some (pr_revision problem),
        ss_plan_id := map_option (\<lambda>p. ep_plan_id (cp_plan p)) plan,
        ss_plan_version := map_option (\<lambda>p. ep_version (cp_plan p)) plan,
        ss_repair_cycle := repair_cycle, ss_clarification_cycle := clarification_cycle\<rparr>"

definition save_checkpoint ::
  "'s ctl_env \<Rightarrow> uuid \<Rightarrow> uuid \<Rightarrow> ProblemRepresentation \<Rightarrow> ControllerExecutionPlan option \<Rightarrow> ('s, unit) ctl" where
  "save_checkpoint env run correlation problem plan =
     (case en_artifacts env of None \<Rightarrow> ret ()
      | Some put_bytes \<Rightarrow>
          bnd (draw (en_now env)) (\<lambda>now.
          bnd (asks (\<lambda>s. run_snapshot s run problem plan (cu_repair_cycles (rn_usage s))
             (cu_clarification_cycles (rn_usage s)) now)) (\<lambda>snapshot.
          andthen (store_checkpoint env run correlation put_bytes snapshot problem plan) (ret ()))))"

section \<open>Executing one action\<close>

definition action_is :: "ControllerStepAction \<Rightarrow> ControllerActionType \<Rightarrow> bool" where
  "action_is a t \<longleftrightarrow> action_type_value (ca_action_type a) = action_type_value t"

text \<open>
  The main loop and the repair loop run an action in the same way; they differ in the recorded
  state, the texts and the attempt number.
\<close>

record action_mode =
  am_repair :: bool
  am_reason :: string
  am_error :: ErrorInfo

definition main_mode :: action_mode where
  "main_mode = \<lparr>am_repair = False,
     am_reason = ''deterministic scheduler selected the next ready step'',
     am_error = mk_error_info ''controller_action_failed'' ''planned controller action failed''\<rparr>"

definition repair_mode :: action_mode where
  "repair_mode = \<lparr>am_repair = True,
     am_reason = ''repair scheduler selected the next ready step'',
     am_error = mk_error_info ''controller_repair_action_failed'' ''planned repair action failed''\<rparr>"

definition action_decision ::
  "action_mode \<Rightarrow> uuid \<Rightarrow> uuid \<Rightarrow> timestamp \<Rightarrow> ControllerState \<Rightarrow> ControllerStepAction \<Rightarrow> ControllerDecision" where
  "action_decision mode decision_id run now state a =
     \<lparr>cd_decision_id = decision_id, cd_task_run_id = run,
      cd_current_state = (if am_repair mode then CtlExecuting else state),
      cd_decision_type = (if action_is a ActTool then DecExecuteTool else DecExecuteProvider),
      cd_reason = am_reason mode, cd_selected_step_id = Some (ca_step_id a),
      cd_selected_provider_id = ca_provider_id a, cd_selected_tool_id = ca_tool_id a,
      cd_created_at = now, cd_causation_event_id = None\<rparr>"

definition succeed_step :: "action_mode \<Rightarrow> ControllerStepAction \<Rightarrow> 's run_state \<Rightarrow> 's run_state" where
  "succeed_step mode a s = s\<lparr>rn_completed := insert (ca_step_id a) (rn_completed s),
     rn_failed := (if am_repair mode then rn_failed s - {ca_step_id a} else rn_failed s)\<rparr>"

definition keep_output :: "ControllerStepAction \<Rightarrow> ActionOutcome \<Rightarrow> 's run_state \<Rightarrow> 's run_state" where
  "keep_output a out s = s\<lparr>
     rn_outputs := dict_set (rn_outputs s) (uuid_str (ca_step_id a)) (ao_output out),
     rn_tools := (case ao_tool_call_id out of None \<Rightarrow> rn_tools s
                  | Some t \<Rightarrow> insert (uuid_str t) (rn_tools s))\<rparr>"

definition count_call :: "ControllerStepAction \<Rightarrow> ('s, unit) ctl" where
  "count_call a =
     (if action_is a ActTool then record_usage [(UToolCalls, 1)]
      else if action_is a ActProvider then record_usage [(UProviderCalls, 1)]
      else ret ())"

definition finish_action ::
  "'s ctl_env \<Rightarrow> uuid \<Rightarrow> uuid \<Rightarrow> action_mode \<Rightarrow> ControllerStepAction \<Rightarrow> ActionOutcome \<Rightarrow> ('s, unit) ctl" where
  "finish_action env run correlation mode a out =
     (if ao_succeeded out
      then andthen (change (succeed_step mode a))
          (andthen (record_usage [(UPlanStepsCompleted, 1)])
          (andthen (change (keep_output a out))
          (bnd (draw (en_now env)) (\<lambda>now.
             emit env run correlation (PStepCompleted (ca_step_id a) now [])))))
      else andthen (change (\<lambda>s. s\<lparr>rn_failed := insert (ca_step_id a) (rn_failed s)\<rparr>))
          (bnd (draw (en_now env)) (\<lambda>now.
             emit env run correlation (PStepFailed (ca_step_id a) now (am_error mode)))))"

definition run_action ::
  "'s ctl_env \<Rightarrow> uuid \<Rightarrow> uuid \<Rightarrow> ProblemRepresentation \<Rightarrow> ControllerExecutionPlan \<Rightarrow> action_mode \<Rightarrow>
   ControllerStepAction \<Rightarrow> ('s, unit) ctl" where
  "run_action env run correlation problem plan mode a =
     bnd (draw (\<lambda>t. (en_new_id env t, en_now env t))) (\<lambda>(decision_id, now).
     bnd (asks rn_state) (\<lambda>state.
     andthen (emit env run correlation
       (PDecisionRecorded (action_decision mode decision_id run now state a)))
     (bnd (draw (en_now env)) (\<lambda>started.
     bnd (asks (\<lambda>s. if am_repair mode then cu_repair_cycles (rn_usage s) + 1 else 1)) (\<lambda>attempt.
     andthen (emit env run correlation (PStepStarted (ca_step_id a) started attempt))
     (bnd (draw (\<lambda>t. en_execute env t a)) (\<lambda>answer.
     bnd (lift_res PortFault answer) (\<lambda>out.
     andthen (record_usage [(UPlanStepsStarted, 1)])
     (andthen (count_call a)
     (andthen (finish_action env run correlation mode a out)
     (andthen (save_checkpoint env run correlation problem (Some plan))
     (change (\<lambda>s. s\<lparr>rn_warnings := rn_warnings s @
        (case ao_warning out of None \<Rightarrow> [] | Some w \<Rightarrow> if w = [] then [] else [w])\<rparr>)))))))))))))"

section \<open>The execution loop\<close>

datatype loop_end = LoopDone | LoopStopped "string option"

definition steps_open :: "ControllerExecutionPlan \<Rightarrow> 's run_state \<Rightarrow> bool" where
  "steps_open plan s \<longleftrightarrow> card (rn_completed s \<union> rn_failed s) < length (ep_steps (cp_plan plan))"

definition next_action ::
  "ControllerExecutionPlan \<Rightarrow> ('s, ControllerStepAction option) ctl" where
  "next_action plan = bnd (asks (\<lambda>s. select_next_action plan (rn_completed s) (rn_failed s)))
     (lift_res ScheduleFault)"

text \<open>The argument counts the iterations left under \<open>maximum_controller_iterations\<close>.\<close>

primrec exec_loop ::
  "'s ctl_env \<Rightarrow> uuid \<Rightarrow> uuid \<Rightarrow> ProblemRepresentation \<Rightarrow> ControllerExecutionPlan \<Rightarrow> nat \<Rightarrow>
   ('s, loop_end) ctl" where
  "exec_loop env run correlation problem plan 0 =
     bnd (asks (steps_open plan)) (\<lambda>left.
       if left
       then andthen (transition_to env run correlation CtlBudgetExhausted ''controller iteration ceiling'')
              (ret (LoopStopped None))
       else ret LoopDone)"
| "exec_loop env run correlation problem plan (Suc n) =
     bnd (asks (steps_open plan)) (\<lambda>left.
       if \<not> left then ret LoopDone
       else bnd (check_budget env) (\<lambda>decision.
         if \<not> bd_allowed decision
         then andthen (transition_to env run correlation CtlBudgetExhausted (bd_reason decision))
                (ret (LoopStopped None))
         else bnd (next_action plan) (\<lambda>selected.
           case selected of
             None \<Rightarrow> andthen (transition_to env run correlation CtlFailed ''plan made no progress'')
                       (ret (LoopStopped (Some ''plan made no progress'')))
           | Some a \<Rightarrow> andthen (run_action env run correlation problem plan main_mode a)
                         (exec_loop env run correlation problem plan n))))"

section \<open>Verification and repair\<close>

definition run_evidence_of :: "'s run_state \<Rightarrow> run_evidence" where
  "run_evidence_of s = \<lparr>re_completed = uuid_str ` rn_completed s, re_tools = rn_tools s,
     re_artifacts = [], re_outputs = rn_outputs s\<rparr>"

definition verify_phase ::
  "'s ctl_env \<Rightarrow> uuid \<Rightarrow> uuid \<Rightarrow> ProblemRepresentation \<Rightarrow> ('s, MinimalAcceptanceDecision) ctl" where
  "verify_phase env run correlation problem =
     (case en_verify env of
        Some verification \<Rightarrow>
          bnd (draw verification) (\<lambda>venv.
          bnd (asks (\<lambda>s. verify_run venv problem (run_evidence_of s)
             (cu_repair_cycles (rn_usage s) < cb_maximum_repair_cycles (cc_budgets (en_config env)))
             (max 0 (cb_maximum_verifier_calls (cc_budgets (en_config env))
                     - cu_verifier_calls (rn_usage s))))) (\<lambda>verified.
          bnd (lift_res VerifyFault verified) (\<lambda>outcome.
          andthen (record_usage [(UVerifierCalls, of_int (co_verifier_calls outcome)),
             (UVerificationSeconds, co_elapsed_seconds outcome)])
          (andthen (emit env run correlation (PAcceptanceRecorded (co_decision outcome)))
          (ret (co_minimal outcome))))))
      | None \<Rightarrow>
          bnd (draw (en_now env)) (\<lambda>now.
          bnd (asks (\<lambda>s. minimal_evaluate (en_schema env) (en_py_str env) now
             (pr_acceptance_criteria problem) (run_evidence_of s))) (lift_res MinimalFault)))"

primrec repair_actions ::
  "'s ctl_env \<Rightarrow> uuid \<Rightarrow> uuid \<Rightarrow> ProblemRepresentation \<Rightarrow> ControllerExecutionPlan \<Rightarrow> nat \<Rightarrow>
   ('s, bool) ctl" where
  "repair_actions env run correlation problem plan 0 =
     bnd (asks (\<lambda>s. card ((rn_completed s \<union> rn_failed s) \<inter> set (step_ids (ep_steps (cp_plan plan))))
           < length (ep_steps (cp_plan plan)))) (\<lambda>left. ret (\<not> left))"
| "repair_actions env run correlation problem plan (Suc n) =
     bnd (asks (\<lambda>s. card ((rn_completed s \<union> rn_failed s) \<inter> set (step_ids (ep_steps (cp_plan plan))))
           < length (ep_steps (cp_plan plan)))) (\<lambda>left.
       if \<not> left then ret True
       else bnd (check_budget env) (\<lambda>decision.
         if \<not> bd_allowed decision then ret False
         else bnd (next_action plan) (\<lambda>selected.
           case selected of
             None \<Rightarrow> ret False
           | Some a \<Rightarrow> andthen (run_action env run correlation problem plan repair_mode a)
                         (repair_actions env run correlation problem plan n))))"

definition pending_step :: "uuid \<Rightarrow> ControllerExecutionPlan \<Rightarrow> int \<Rightarrow> uuid \<Rightarrow> ExecutionStep" where
  "pending_step run plan attempt step_id =
     \<lparr>es_step_id = step_id, es_task_run_id = run, es_plan_id = ep_plan_id (cp_plan plan),
      es_status = StepPending, es_attempt = attempt, es_started_at = None, es_finished_at = None,
      es_input_artifacts = [], es_output_artifacts = [], es_error = None\<rparr>"

primrec emit_all :: "'s ctl_env \<Rightarrow> uuid \<Rightarrow> uuid \<Rightarrow> ctl_payload list \<Rightarrow> ('s, unit) ctl" where
  "emit_all env run correlation [] = ret ()"
| "emit_all env run correlation (p # ps) =
     andthen (emit env run correlation p) (emit_all env run correlation ps)"

definition max_iterations :: "'s ctl_env \<Rightarrow> nat" where
  "max_iterations env = nat (cc_maximum_controller_iterations (en_config env))"

text \<open>One pass of the repair loop up to the new plan being in force.\<close>

definition revise_and_restart ::
  "'s ctl_env \<Rightarrow> uuid \<Rightarrow> uuid \<Rightarrow> ControllerExecutionPlan \<Rightarrow> string \<Rightarrow> ('s, ControllerExecutionPlan) ctl" where
  "revise_and_restart env run correlation plan reason =
     andthen (transition_to env run correlation CtlRepairing reason)
     (bnd (draw (\<lambda>t. en_revise_plan env t plan reason)) (\<lambda>answer.
     bnd (lift_res PortFault answer) (\<lambda>revised.
     andthen (record_usage [(URepairCycles, 1), (UProviderCalls, 1)])
     (andthen (emit env run correlation (PPlanRevised (cp_plan revised) (ep_version (cp_plan plan))))
     (andthen (change (\<lambda>s. s\<lparr>rn_completed := rn_completed s \<inter> set (step_ids (ep_steps (cp_plan revised))),
         rn_failed := {}\<rparr>))
     (bnd (asks (\<lambda>s. map (\<lambda>i. PStepCreated (pending_step run revised (cu_repair_cycles (rn_usage s) + 1) i))
         (filter (\<lambda>i. i \<notin> rn_completed s) (step_ids (ep_steps (cp_plan revised)))))) (\<lambda>created.
     andthen (emit_all env run correlation created)
     (andthen (transition_to env run correlation CtlExecuting ''execute bounded repair plan'')
     (ret revised)))))))))"

text \<open>Every pass uses a repair cycle, so \<open>maximum_repair_cycles\<close> passes are enough fuel.\<close>

primrec repair_loop ::
  "'s ctl_env \<Rightarrow> uuid \<Rightarrow> uuid \<Rightarrow> ProblemRepresentation \<Rightarrow> nat \<Rightarrow> ControllerExecutionPlan \<Rightarrow>
   MinimalAcceptanceDecision \<Rightarrow> ('s, ControllerExecutionPlan \<times> MinimalAcceptanceDecision) ctl" where
  "repair_loop env run correlation problem 0 plan acceptance =
     bnd (asks (\<lambda>s. cu_repair_cycles (rn_usage s) < cb_maximum_repair_cycles (cc_budgets (en_config env))))
       (\<lambda>left. if \<not> md_accepted acceptance \<and> left then throw RepairFuelExhausted
               else ret (plan, acceptance))"
| "repair_loop env run correlation problem (Suc n) plan acceptance =
     bnd (asks (\<lambda>s. cu_repair_cycles (rn_usage s) < cb_maximum_repair_cycles (cc_budgets (en_config env))))
       (\<lambda>left. if \<not> (\<not> md_accepted acceptance \<and> left) then ret (plan, acceptance)
        else bnd (check_budget env) (\<lambda>decision.
          if \<not> bd_allowed decision
          then andthen (transition_to env run correlation CtlBudgetExhausted (bd_reason decision))
                 (ret (plan, acceptance))
          else bnd (revise_and_restart env run correlation plan (md_decision_reason acceptance)) (\<lambda>revised.
            bnd (repair_actions env run correlation problem revised (max_iterations env)) (\<lambda>progressed.
            if \<not> progressed
            then andthen (transition_to env run correlation CtlFailed ''repair plan made no progress'')
                   (ret (revised, acceptance))
            else andthen (transition_to env run correlation CtlVerifying ''verify repaired structural evidence'')
              (bnd (verify_phase env run correlation problem) (\<lambda>again.
               if md_accepted again
               then andthen (transition_to env run correlation CtlCompleted (md_decision_reason again))
                      (ret (revised, again))
               else repair_loop env run correlation problem n revised again))))))"

section \<open>A run from request to result\<close>

record ControllerRunResult =
  cr_task_run_id :: uuid
  cr_state :: ControllerState
  cr_problem_representation :: "ProblemRepresentation option"
  cr_plan :: "ControllerExecutionPlan option"
  cr_current_step_id :: "uuid option"
  cr_acceptance_decision :: "MinimalAcceptanceDecision option"
  cr_continuation_token :: "string option"
  cr_usage :: ControllerUsage
  cr_result_artifacts :: "ArtifactRef list"
  cr_warnings :: "string list"
  cr_error :: "string option"
  cr_last_stream_version :: int

definition run_result ::
  "uuid \<Rightarrow> ProblemRepresentation option \<Rightarrow> ControllerExecutionPlan option \<Rightarrow>
   MinimalAcceptanceDecision option \<Rightarrow> string option \<Rightarrow> bool \<Rightarrow> string option \<Rightarrow>
   ('s, ControllerRunResult) ctl" where
  "run_result run problem plan acceptance token with_warnings err = asks (\<lambda>s.
     \<lparr>cr_task_run_id = run, cr_state = rn_state s, cr_problem_representation = problem,
      cr_plan = plan, cr_current_step_id = None, cr_acceptance_decision = acceptance,
      cr_continuation_token = token, cr_usage = rn_usage s, cr_result_artifacts = [],
      cr_warnings = (if with_warnings then rn_warnings s else []), cr_error = err,
      cr_last_stream_version = rn_version s\<rparr>)"

text \<open>Normalise the request and have it represented; None when the budget does not allow it.\<close>

definition represent_phase ::
  "'s ctl_env \<Rightarrow> StartControllerRequest \<Rightarrow> ('s, ProblemRepresentation option) ctl" where
  "represent_phase env req = (let run = st_task_run_id req; correlation = st_correlation_id req in
     andthen (transition_to env run correlation CtlRepresentingProblem ''normalize and represent task'')
     (bnd (lift_res NormalizeFault (normalize_problem (en_sha256 env) (st_task_id req) run (st_title req)
        (st_raw_request req) [] RiskLow (en_tools env) (en_provider_ids env) None 1048576 False)) (\<lambda>seed.
     bnd (check_budget env) (\<lambda>decision.
     if \<not> bd_allowed decision
     then andthen (transition_to env run correlation CtlBudgetExhausted ''budget exhausted'') (ret None)
     else bnd (draw (\<lambda>t. en_represent env t seed)) (\<lambda>answer.
       bnd (lift_res PortFault answer) (\<lambda>problem.
       andthen (record_usage [(UProviderCalls, 1)])
       (andthen (emit env run correlation (PProblemCreated problem))
       (andthen (save_checkpoint env run correlation problem None)
       (ret (Some problem))))))))))"

text \<open>Wait for clarification: the request, the state, a checkpoint, and the continuation token.\<close>

definition clarification_phase ::
  "'s ctl_env \<Rightarrow> StartControllerRequest \<Rightarrow> ProblemRepresentation \<Rightarrow> ('s, string) ctl" where
  "clarification_phase env req problem = (let run = st_task_run_id req; correlation = st_correlation_id req;
       ttl = cc_continuation_ttl_seconds (en_config env) in
     case (en_clarification env, en_artifacts env) of
       (True, Some put_bytes) \<Rightarrow>
         bnd (draw (\<lambda>t. create_request ttl (en_new_id env t) (en_now env t) problem)) (\<lambda>request.
         andthen (emit env run correlation (PClarificationRequested request))
         (andthen (transition_to env run correlation CtlWaitingForClarification
            ''problem representation requires clarification'')
         (bnd (draw (en_now env)) (\<lambda>now.
         bnd (asks (\<lambda>s. run_snapshot s run problem None 0 1 now)) (\<lambda>snapshot.
         bnd (store_checkpoint env run correlation put_bytes snapshot problem None) (\<lambda>checkpoint.
         bnd (draw (\<lambda>t. (en_token env t, en_new_id env t, en_now env t))) (\<lambda>(token, cid, issued).
         bnd (asks (\<lambda>s. issue_token (en_sha256 env) token cid run (ck_checkpoint_id checkpoint)
            (rn_version s + 1) ttl issued)) (\<lambda>(plaintext, record).
         andthen (emit env run correlation (PContinuationIssued record))
         (ret plaintext)))))))))
     | _ \<Rightarrow> throw ClarificationServicesMissing)"

definition plan_phase ::
  "'s ctl_env \<Rightarrow> StartControllerRequest \<Rightarrow> ProblemRepresentation \<Rightarrow> ('s, ControllerExecutionPlan option) ctl" where
  "plan_phase env req problem = (let run = st_task_run_id req; correlation = st_correlation_id req in
     andthen (transition_to env run correlation CtlReady ''problem representation is executable'')
     (andthen (transition_to env run correlation CtlPlanning ''create bounded execution plan'')
     (bnd (draw (\<lambda>t. en_create_plan env t problem)) (\<lambda>answer.
     bnd (lift_res PortFault answer) (\<lambda>plan.
     if cb_maximum_plan_steps (cc_budgets (en_config env)) < int (length (ep_steps (cp_plan plan)))
     then andthen (transition_to env run correlation CtlBudgetExhausted ''plan-step budget exhausted'') (ret None)
     else andthen (emit env run correlation (PPlanCreated (cp_plan plan)))
       (andthen (emit_all env run correlation
          (map (\<lambda>i. PStepCreated (pending_step run plan 1 i)) (step_ids (ep_steps (cp_plan plan)))))
       (andthen (save_checkpoint env run correlation problem (Some plan))
       (andthen (transition_to env run correlation CtlExecuting ''execute one ready step at a time'')
       (andthen (change (\<lambda>s. s\<lparr>rn_completed := {}, rn_failed := {}, rn_tools := {}, rn_outputs := []\<rparr>))
       (ret (Some plan)))))))))))"

text \<open>After the execution loop: verify, complete, or repair within the budget.\<close>

definition accept_phase ::
  "'s ctl_env \<Rightarrow> StartControllerRequest \<Rightarrow> ProblemRepresentation \<Rightarrow> ControllerExecutionPlan \<Rightarrow>
   ('s, ControllerExecutionPlan \<times> MinimalAcceptanceDecision) ctl" where
  "accept_phase env req problem plan = (let run = st_task_run_id req; correlation = st_correlation_id req in
     andthen (transition_to env run correlation CtlVerifying ''run deterministic minimal acceptance'')
     (bnd (verify_phase env run correlation problem) (\<lambda>acceptance.
     if md_accepted acceptance
     then andthen (transition_to env run correlation CtlCompleted (md_decision_reason acceptance))
            (ret (plan, acceptance))
     else bnd (repair_loop env run correlation problem
                 (nat (cb_maximum_repair_cycles (cc_budgets (en_config env)))) plan acceptance) (\<lambda>repaired.
       bnd (asks rn_state) (\<lambda>state.
       if state = CtlVerifying
       then andthen (transition_to env run correlation CtlFailed ''repair budget exhausted'') (ret repaired)
       else ret repaired)))))"

definition start_body :: "'s ctl_env \<Rightarrow> StartControllerRequest \<Rightarrow> ('s, ControllerRunResult) ctl" where
  "start_body env req = (let run = st_task_run_id req; correlation = st_correlation_id req in
     bnd (represent_phase env req) (\<lambda>represented.
     case represented of
       None \<Rightarrow> run_result run None None None None False None
     | Some problem \<Rightarrow>
         if requires_clarification problem
         then bnd (clarification_phase env req problem) (\<lambda>token.
                run_result run (Some problem) None None (Some token) False None)
         else bnd (plan_phase env req problem) (\<lambda>planned.
           case planned of
             None \<Rightarrow> run_result run (Some problem) None None None False None
           | Some plan \<Rightarrow>
               bnd (exec_loop env run correlation problem plan (max_iterations env)) (\<lambda>ended.
               case ended of
                 LoopStopped err \<Rightarrow> run_result run (Some problem) (Some plan) None None (err = None) err
               | LoopDone \<Rightarrow>
                   bnd (accept_phase env req problem plan) (\<lambda>(final_plan, acceptance).
                   run_result run (Some problem) (Some final_plan) (Some acceptance) None True None)))))"

definition initial_run :: "'s ctl_env \<Rightarrow> 's \<Rightarrow> 's run_state" where
  "initial_run env store = \<lparr>rn_store = store, rn_version = 0, rn_state = CtlReceived,
     rn_usage = fresh_usage (en_now env 0), rn_tick = 1, rn_completed = {}, rn_failed = {},
     rn_tools = {}, rn_outputs = [], rn_warnings = []\<rparr>"

definition start ::
  "'s ctl_env \<Rightarrow> StartControllerRequest \<Rightarrow> 's \<Rightarrow> 's run_state \<times> (ctl_error + ControllerRunResult)" where
  "start env req store = start_body env req (initial_run env store)"

end
