(* ===== verification/Ctl_Run_Inv.thy ===== *)
theory Ctl_Run_Inv
  imports Ctl_Run
begin

text \<open>
  What every run of the controller keeps, whatever the ports answer and whether it returns or
  raises: the stream of the run is a legal history of state changes that ends in the current state,
  and the version the controller expects is the stream's. The event store is any port with the laws
  of \<open>event_store\<close>.
\<close>

section \<open>Legal histories\<close>

fun legal_states :: "ControllerState \<Rightarrow> ctl_payload list \<Rightarrow> ControllerState option" where
  "legal_states st [] = Some st"
| "legal_states st (PStateChanged previous current reason did changed # ps) =
     (if previous = st \<and> can_transition st current then legal_states current ps else None)"
| "legal_states st (_ # ps) = legal_states st ps"

fun is_state_change :: "ctl_payload \<Rightarrow> bool" where
  "is_state_change (PStateChanged _ _ _ _ _) = True"
| "is_state_change _ = False"

lemma legal_states_append:
  "legal_states st (xs @ ys) = (case legal_states st xs of None \<Rightarrow> None | Some t \<Rightarrow> legal_states t ys)"
  by (induction st xs rule: legal_states.induct) auto

lemma legal_states_skip: "\<not> is_state_change p \<Longrightarrow> legal_states st [p] = Some st"
  by (cases p) simp_all

section \<open>The invariant\<close>

text \<open>An event as the controller writes it: a valid envelope with its payload's type.\<close>

definition sound_event :: "(ctl_payload \<Rightarrow> string) \<Rightarrow> ctl_payload EventEnvelope \<Rightarrow> bool" where
  "sound_event dg e \<longleftrightarrow> envelope_error dg e = None \<and> ev_event_type e = ctl_event_type (ev_payload e) \<and>
     ev_schema_version e = 1"

type_synonym 's history = "'s \<Rightarrow> uuid \<Rightarrow> ctl_payload EventEnvelope list"

definition run_inv :: "(ctl_payload \<Rightarrow> string) \<Rightarrow> 's history \<Rightarrow> ('s \<Rightarrow> bool) \<Rightarrow> uuid \<Rightarrow> 's run_state \<Rightarrow> bool" where
  "run_inv dg history ok run s \<longleftrightarrow> ok (rn_store s) \<and>
     rn_version s = int (length (history (rn_store s) run)) \<and>
     list_all (sound_event dg) (history (rn_store s) run) \<and>
     legal_states CtlReceived (map ev_payload (history (rn_store s) run)) = Some (rn_state s)"

text \<open>The invariant in a given state, with a condition on the usage.\<close>

definition run_at ::
  "(ctl_payload \<Rightarrow> string) \<Rightarrow> 's history \<Rightarrow> ('s \<Rightarrow> bool) \<Rightarrow> uuid \<Rightarrow> ControllerState \<Rightarrow> (ControllerUsage \<Rightarrow> bool) \<Rightarrow> 's run_state \<Rightarrow> bool" where
  "run_at dg history ok run X U s \<longleftrightarrow> run_inv dg history ok run s \<and> rn_state s = X \<and> U (rn_usage s)"

text \<open>The exceptions a run may end in: never an illegal transition, a version conflict or a repair loop
  out of fuel. The stream is still a legal history.\<close>

definition run_raised :: "(ctl_payload \<Rightarrow> string) \<Rightarrow> 's history \<Rightarrow> ('s \<Rightarrow> bool) \<Rightarrow> uuid \<Rightarrow> ctl_error \<Rightarrow> 's run_state \<Rightarrow> bool" where
  "run_raised dg history ok run e s \<longleftrightarrow> run_inv dg history ok run s \<and>
     (case e of TransitionFault _ \<Rightarrow> False | StoreFault _ \<Rightarrow> False | RepairFuelExhausted \<Rightarrow> False
      | _ \<Rightarrow> True)"

lemma run_inv_store:
  assumes "run_inv dg history ok run s"
  shows "ok (rn_store s)" "rn_version s = int (length (history (rn_store s) run))"
  using assms by (simp_all add: run_inv_def)

definition stream_holds ::
  "(ctl_payload \<Rightarrow> string) \<Rightarrow> 's history \<Rightarrow> ('s \<Rightarrow> bool) \<Rightarrow> uuid \<Rightarrow> ctl_payload list \<Rightarrow> 's run_state \<Rightarrow> bool" where
  "stream_holds dg history ok run ps s \<longleftrightarrow> ok (rn_store s) \<and>
     rn_version s = int (length (history (rn_store s) run)) \<and>
     list_all (sound_event dg) (history (rn_store s) run) \<and>
     map ev_payload (history (rn_store s) run) = ps"

lemma run_inv_holds:
  "run_inv dg history ok run s \<longleftrightarrow>
     (\<exists>ps. stream_holds dg history ok run ps s \<and> legal_states CtlReceived ps = Some (rn_state s))"
  by (auto simp: run_inv_def stream_holds_def)

lemma run_inv_frame:
  "rn_store s' = rn_store s \<Longrightarrow> rn_version s' = rn_version s \<Longrightarrow> rn_state s' = rn_state s \<Longrightarrow>
     run_inv dg history ok run s' = run_inv dg history ok run s"
  by (simp add: run_inv_def)

lemma run_at_frame:
  "rn_store s' = rn_store s \<Longrightarrow> rn_version s' = rn_version s \<Longrightarrow> rn_state s' = rn_state s \<Longrightarrow>
     rn_usage s' = rn_usage s \<Longrightarrow> run_at dg history ok run X U s' = run_at dg history ok run X U s"
  by (simp add: run_at_def run_inv_def)

lemma run_at_mono: "run_at dg history ok run X U s \<Longrightarrow> (\<And>u. U u \<Longrightarrow> V u) \<Longrightarrow> run_at dg history ok run X V s"
  by (simp add: run_at_def)

lemma draw_at: "triple (run_at dg history ok run X U) (draw f) (\<lambda>_. run_at dg history ok run X U) E"
  by (simp add: triple_def draw_def run_at_def run_inv_def)

lemma asks_keep: "triple P (asks f) (\<lambda>_. P) E"
  by (simp add: triple_def asks_def)

lemma ret_keep: "triple P (ret x) (\<lambda>_. P) E"
  by (simp add: triple_def ret_def)

lemma change_at:
  "(\<And>s. rn_store (f s) = rn_store s \<and> rn_version (f s) = rn_version s \<and> rn_state (f s) = rn_state s \<and>
      rn_usage (f s) = rn_usage s) \<Longrightarrow>
   triple (run_at dg history ok run X U) (change f) (\<lambda>_. run_at dg history ok run X U) E"
  by (simp add: triple_def change_def run_at_def run_inv_def)

text \<open>A fallible result embedded with an admissible fault.\<close>

definition admissible :: "('f \<Rightarrow> ctl_error) \<Rightarrow> bool" where
  "admissible k \<longleftrightarrow> (\<forall>f. case k f of TransitionFault _ \<Rightarrow> False | StoreFault _ \<Rightarrow> False
     | RepairFuelExhausted \<Rightarrow> False | _ \<Rightarrow> True)"

lemma lift_at:
  "admissible k \<Longrightarrow> triple (run_at dg history ok run X U) (lift_res k r) (\<lambda>_. run_at dg history ok run X U)
     (run_raised dg history ok run)"
  by (rule triple_lift_res) (auto simp: run_raised_def run_at_def admissible_def)

lemma admissible_simps [simp]:
  "admissible NormalizeFault" "admissible PortFault" "admissible UsageFault" "admissible SnapshotFault"
  "admissible CheckpointFault" "admissible ScheduleFault" "admissible VerifyFault" "admissible MinimalFault"
  by (simp_all add: admissible_def)

lemma record_usage_at:
  assumes "\<And>u v. U u \<Longrightarrow> budget_record u incs = Inr v \<Longrightarrow> V v"
  shows "triple (run_at dg history ok run X U) (record_usage incs) (\<lambda>_. run_at dg history ok run X V)
    (run_raised dg history ok run)"
  using assms
  by (auto simp: triple_def record_usage_def bnd_def asks_def lift_res_def change_def run_at_def run_inv_def
      run_raised_def split: sum.splits)

lemma split_tripleI: "(\<And>x y. triple P (f x y) Q E) \<Longrightarrow> triple P (case z of (x, y) \<Rightarrow> f x y) Q E"
  by (cases z) simp

lemma split3_tripleI:
  "(\<And>x y w. triple P (f x y w) Q E) \<Longrightarrow> triple P (case z of (x, y, w) \<Rightarrow> f x y w) Q E"
  by (cases z) simp

section \<open>The steps keep the invariant\<close>

locale controller_run = event_store "en_append env" history wf_store
  for env :: "'s ctl_env" and history :: "'s history" and wf_store :: "'s \<Rightarrow> bool"
begin

text \<open>An emitted event is appended, unless the envelope is refused; the version follows the stream.\<close>

lemma emit_step:
  assumes wf: "wf_store (rn_store s)" and v: "rn_version s = int (length (history (rn_store s) run))"
    and run: "emit env run correlation p s = (s', r)"
  shows "(\<exists>e. r = Inl (EnvelopeFault e) \<and> s' = s\<lparr>rn_tick := Suc (rn_tick s)\<rparr>) \<or>
    (\<exists>st e. r = Inr () \<and> ev_payload e = p \<and> sound_event (en_digest env) e \<and> wf_store st \<and>
       s' = s\<lparr>rn_tick := Suc (rn_tick s), rn_store := st, rn_version := rn_version s + 1\<rparr> \<and>
       history st = (history (rn_store s))(run := history (rn_store s) run @ [e]))"
proof -
  let ?t = "rn_tick s" and ?s = "s\<lparr>rn_tick := Suc (rn_tick s)\<rparr>" and ?H = "history (rn_store s) run"
  let ?made = "controller_envelope env run correlation (en_new_id env ?t) (en_now env ?t) (rn_version s) p"
  show ?thesis
  proof (cases ?made)
    case (Inl f)
    then show ?thesis using run by (auto simp: emit_def bnd_def draw_def)
  next
    case (Inr e)
    then have e: "ev_stream_id e = run" "ev_stream_version e = int (length ?H) + 1" "ev_payload e = p"
      "sound_event (en_digest env) e"
      by (auto simp: controller_envelope_def create_event_envelope_def v Let_def sound_event_def)
    have "batch_ok run (int (length ?H)) [e]"
      by (simp add: batch_ok_def e)
    from append_current [OF wf this] obtain st res where
      "en_append env (rn_store s) [e] (int (length ?H)) = (st, Inr res)" "wf_store st"
      "ar_current_stream_version res = int (length ?H) + 1"
      "history st = (history (rn_store s))(run := ?H @ [e])" by auto
    with Inr e(3,4) show ?thesis
      using run by (auto simp: emit_def bnd_def draw_def v)
  qed
qed

text \<open>The payloads on the stream, exactly.\<close>

lemma emit_holds:
  "triple (stream_holds (en_digest env) history wf_store run ps) (emit env run correlation p)
    (\<lambda>_. stream_holds (en_digest env) history wf_store run (ps @ [p]))
    (\<lambda>_. stream_holds (en_digest env) history wf_store run ps)"
proof (rule tripleI)
  fix s assume here: "stream_holds (en_digest env) history wf_store run ps s"
  obtain s' r where run: "emit env run correlation p s = (s', r)" by fastforce
  have "wf_store (rn_store s)" "rn_version s = int (length (history (rn_store s) run))"
    using here by (simp_all add: stream_holds_def)
  from emit_step [OF this run] here
  show "case emit env run correlation p s of
      (s', Inr x) \<Rightarrow> stream_holds (en_digest env) history wf_store run (ps @ [p]) s'
    | (s', Inl e) \<Rightarrow> stream_holds (en_digest env) history wf_store run ps s'"
    by (auto simp: run stream_holds_def)
qed

lemma emit_at:
  assumes "\<not> is_state_change p"
  shows "triple (run_at (en_digest env) history wf_store run X U) (emit env run correlation p)
    (\<lambda>_. run_at (en_digest env) history wf_store run X U) (run_raised (en_digest env) history wf_store run)"
proof (rule tripleI)
  fix s assume here: "run_at (en_digest env) history wf_store run X U s"
  then have inv: "run_inv (en_digest env) history wf_store run s" by (simp add: run_at_def)
  obtain s' r where run: "emit env run correlation p s = (s', r)" by fastforce
  from emit_step [OF run_inv_store [OF inv] run]
  show "case emit env run correlation p s of (s', Inr x) \<Rightarrow> run_at (en_digest env) history wf_store run X U s'
      | (s', Inl e) \<Rightarrow> run_raised (en_digest env) history wf_store run e s'"
  proof (elim disjE exE conjE)
    fix e assume "r = Inl (EnvelopeFault e)" "s' = s\<lparr>rn_tick := Suc (rn_tick s)\<rparr>"
    then show ?thesis using inv by (simp add: run run_raised_def run_inv_def)
  next
    fix st e
    assume "r = Inr ()" "ev_payload e = p" "sound_event (en_digest env) e" "wf_store st"
      "s' = s\<lparr>rn_tick := Suc (rn_tick s), rn_store := st, rn_version := rn_version s + 1\<rparr>"
      "history st = (history (rn_store s))(run := history (rn_store s) run @ [e])"
    then show ?thesis
      using here assms by (auto simp: run run_at_def run_inv_def legal_states_append legal_states_skip)
  qed
qed

lemma transition_at:
  assumes legal: "can_transition X Y" and reason: "non_empty_str reason"
  shows "triple (run_at (en_digest env) history wf_store run X U) (transition_to env run correlation Y reason)
    (\<lambda>_. run_at (en_digest env) history wf_store run Y U) (run_raised (en_digest env) history wf_store run)"
proof (rule tripleI)
  fix s assume here: "run_at (en_digest env) history wf_store run X U s"
  then have X: "rn_state s = X" and U: "U (rn_usage s)" and v: "0 \<le> rn_version s"
    by (simp_all add: run_at_def run_inv_def)
  let ?did = "en_new_id env (rn_tick s)" and ?now = "en_now env (Suc (rn_tick s))"
  let ?s2 = "s\<lparr>rn_tick := Suc (Suc (rn_tick s))\<rparr>"
  have ok: "require_transition \<lparr>tr_current = X, tr_target = Y, tr_reason = reason,
      tr_decision_id = ?did, tr_expected_stream_version = rn_version s\<rparr> = None"
    using legal reason v by (simp add: require_transition_None_iff)
  let ?p = "PStateChanged X Y (py_strip reason) ?did ?now"
  obtain s' r where run: "emit env run correlation ?p ?s2 = (s', r)" by fastforce
  have inv: "run_inv (en_digest env) history wf_store run ?s2" using here by (simp add: run_at_def run_inv_def)
  have body: "transition_to env run correlation Y reason s =
      (case r of Inl e \<Rightarrow> (s', Inl e) | Inr _ \<Rightarrow> (s'\<lparr>rn_state := Y\<rparr>, Inr ()))"
    using ok run by (simp add: transition_to_def bnd_def draw_def asks_def X andthen_def change_def
        split: sum.split)
  from emit_step [OF run_inv_store [OF inv] run]
  show "case transition_to env run correlation Y reason s of
      (s', Inr x) \<Rightarrow> run_at (en_digest env) history wf_store run Y U s' | (s', Inl e) \<Rightarrow> run_raised (en_digest env) history wf_store run e s'"
  proof (elim disjE exE conjE)
    fix e assume "r = Inl (EnvelopeFault e)" "s' = ?s2\<lparr>rn_tick := Suc (rn_tick ?s2)\<rparr>"
    then show ?thesis using inv by (simp add: body run_raised_def run_inv_def)
  next
    fix st e
    assume "r = Inr ()" "ev_payload e = ?p" "sound_event (en_digest env) e" "wf_store st"
      "s' = ?s2\<lparr>rn_tick := Suc (rn_tick ?s2), rn_store := st, rn_version := rn_version ?s2 + 1\<rparr>"
      "history st = (history (rn_store ?s2))(run := history (rn_store ?s2) run @ [e])"
    then show ?thesis
      using here legal U by (auto simp: body run_at_def run_inv_def legal_states_append)
  qed
qed

end

section \<open>Usage within the budget\<close>

text \<open>Usage within the limits, after \<open>R\<close> repair cycles; and with something left to spend.\<close>

definition within_limits :: "ControllerBudget \<Rightarrow> int \<Rightarrow> ControllerUsage \<Rightarrow> bool" where
  "within_limits b R u \<longleftrightarrow> valid_usage u \<and> cu_provider_calls u \<le> cb_maximum_provider_calls b \<and>
     cu_tool_calls u \<le> cb_maximum_tool_calls b \<and>
     cu_plan_steps_started u \<le> cb_maximum_plan_steps b \<and>
     cu_verifier_calls u \<le> cb_maximum_verifier_calls b \<and> cu_repair_cycles u = R \<and>
     R \<le> cb_maximum_repair_cycles b"

definition room_left :: "ControllerBudget \<Rightarrow> int \<Rightarrow> ControllerUsage \<Rightarrow> bool" where
  "room_left b R u \<longleftrightarrow> within_limits b R u \<and> cu_provider_calls u < cb_maximum_provider_calls b \<and>
     cu_tool_calls u < cb_maximum_tool_calls b \<and>
     cu_plan_steps_started u < cb_maximum_plan_steps b \<and> R < cb_maximum_repair_cycles b"

text \<open>A step has been counted, its call not yet.\<close>

definition call_left :: "ControllerBudget \<Rightarrow> int \<Rightarrow> ControllerUsage \<Rightarrow> bool" where
  "call_left b R u \<longleftrightarrow> within_limits b R u \<and> cu_provider_calls u < cb_maximum_provider_calls b \<and>
     cu_tool_calls u < cb_maximum_tool_calls b"

lemma room_within: "room_left b R u \<Longrightarrow> within_limits b R u"
  by (simp add: room_left_def)

lemma call_within: "call_left b R u \<Longrightarrow> within_limits b R u"
  by (simp add: call_left_def)

lemma within_valid: "within_limits b R u \<Longrightarrow> valid_usage u"
  by (simp add: within_limits_def)

lemmas usage_conds = room_left_def call_left_def within_limits_def valid_usage_def

lemma record_started:
  "room_left b R u \<Longrightarrow> budget_record u [(UPlanStepsStarted, 1)] = Inr v \<Longrightarrow> call_left b R v"
  by (auto simp: budget_record_one usage_conds)

lemma record_tool:
  "call_left b R u \<Longrightarrow> budget_record u [(UToolCalls, 1)] = Inr v \<Longrightarrow> within_limits b R v"
  by (auto simp: budget_record_one usage_conds)

lemma record_provider:
  "call_left b R u \<Longrightarrow> budget_record u [(UProviderCalls, 1)] = Inr v \<Longrightarrow> within_limits b R v"
  by (auto simp: budget_record_one usage_conds)

lemma record_completed:
  "within_limits b R u \<Longrightarrow> budget_record u [(UPlanStepsCompleted, 1)] = Inr v \<Longrightarrow> within_limits b R v"
  by (auto simp: budget_record_one usage_conds)

lemma record_repair:
  "room_left b R u \<Longrightarrow> budget_record u [(URepairCycles, 1), (UProviderCalls, 1)] = Inr v \<Longrightarrow>
     within_limits b (R + 1) v"
  by (auto simp: budget_record_one usage_conds)

lemma budget_room: "within_limits b R u \<Longrightarrow> within_budget b u elapsed \<Longrightarrow> room_left b R u"
  by (auto simp: room_left_def within_budget_def within_limits_def)

lemma budget_repair_left:
  "within_limits b R u \<Longrightarrow> within_budget b u elapsed \<Longrightarrow> R < cb_maximum_repair_cycles b"
  by (simp add: within_limits_def within_budget_def)

lemmas record_started_at = record_usage_at [where U = "room_left b R" and V = "call_left b R"
    and incs = "[(UPlanStepsStarted, 1)]" for b R, OF record_started, simplified]

lemmas record_completed_at = record_usage_at [where U = "within_limits b R" and V = "within_limits b R"
    and incs = "[(UPlanStepsCompleted, 1)]" for b R, OF record_completed, simplified]

lemmas record_repair_at = record_usage_at [where U = "room_left b R" and V = "within_limits b (R + 1)"
    and incs = "[(URepairCycles, 1), (UProviderCalls, 1)]" for b R, OF record_repair, simplified]

context controller_run
begin

lemma check_budget_at:
  assumes "\<And>u. U u \<Longrightarrow> within_limits (cc_budgets (en_config env)) R u"
  shows "triple (run_at (en_digest env) history wf_store run X U) (check_budget env)
    (\<lambda>d. if bd_allowed d then run_at (en_digest env) history wf_store run X (\<lambda>u. U u \<and> room_left (cc_budgets (en_config env)) R u)
         else (\<lambda>s. run_at (en_digest env) history wf_store run X U s \<and> non_empty_str (bd_reason d)))
    (run_raised (en_digest env) history wf_store run)"
  using assms budget_reason_non_empty
  by (auto simp: triple_def check_budget_def bnd_def draw_def asks_def run_at_def run_inv_def
      budget_allowed_iff intro: budget_room)

text \<open>The steps without a decision keep the state and the condition on the usage.\<close>

lemma store_checkpoint_at:
  "triple (run_at (en_digest env) history wf_store run X U)
     (store_checkpoint env run correlation put_bytes snapshot problem plan)
     (\<lambda>_. run_at (en_digest env) history wf_store run X U) (run_raised (en_digest env) history wf_store run)"
  unfolding store_checkpoint_def
  by (intro triple_bnd [OF lift_at] triple_bnd [OF draw_at] triple_bnd [OF asks_keep]
      triple_andthen [OF emit_at] ret_keep split_tripleI) simp_all

lemma save_checkpoint_at:
  "triple (run_at (en_digest env) history wf_store run X U) (save_checkpoint env run correlation problem plan)
     (\<lambda>_. run_at (en_digest env) history wf_store run X U) (run_raised (en_digest env) history wf_store run)"
  unfolding save_checkpoint_def
  by (cases "en_artifacts env")
    (auto intro!: triple_bnd [OF draw_at] triple_bnd [OF asks_keep] triple_andthen [OF store_checkpoint_at] ret_keep)

lemma emit_all_at:
  "list_all (\<lambda>p. \<not> is_state_change p) ps \<Longrightarrow>
   triple (run_at (en_digest env) history wf_store run X U) (emit_all env run correlation ps)
     (\<lambda>_. run_at (en_digest env) history wf_store run X U) (run_raised (en_digest env) history wf_store run)"
  by (induction ps) (auto intro!: ret_keep triple_andthen [OF emit_at])

lemma count_call_at:
  "triple (run_at (en_digest env) history wf_store run X (call_left b R)) (count_call a)
     (\<lambda>_. run_at (en_digest env) history wf_store run X (within_limits b R)) (run_raised (en_digest env) history wf_store run)"
  unfolding count_call_def
  by (intro triple_if record_usage_at triple_ret)
    (simp_all add: record_tool record_provider run_at_def call_within)

lemma finish_action_at:
  "triple (run_at (en_digest env) history wf_store run X (within_limits b R)) (finish_action env run correlation mode a out)
     (\<lambda>_. run_at (en_digest env) history wf_store run X (within_limits b R)) (run_raised (en_digest env) history wf_store run)"
  unfolding finish_action_def
  by (intro triple_if triple_andthen [OF change_at] triple_andthen [OF record_completed_at]
      triple_bnd [OF draw_at] emit_at) (simp_all add: succeed_step_def keep_output_def)

lemma run_action_at:
  "triple (run_at (en_digest env) history wf_store run X (room_left b R)) (run_action env run correlation problem plan mode a)
     (\<lambda>_. run_at (en_digest env) history wf_store run X (within_limits b R)) (run_raised (en_digest env) history wf_store run)"
  unfolding run_action_def
  by (intro triple_bnd [OF draw_at] triple_bnd [OF asks_keep] triple_bnd [OF lift_at]
      triple_andthen [OF emit_at] triple_andthen [OF record_started_at]
      triple_andthen [OF count_call_at] triple_andthen [OF finish_action_at]
      triple_andthen [OF save_checkpoint_at] change_at split_tripleI) simp_all

lemma next_action_at:
  "triple (run_at (en_digest env) history wf_store run X U) (next_action plan) (\<lambda>_. run_at (en_digest env) history wf_store run X U)
     (run_raised (en_digest env) history wf_store run)"
  unfolding next_action_def by (intro triple_bnd [OF asks_keep] lift_at) simp

end

section \<open>The loops and phases\<close>

abbreviation env_budget :: "'s ctl_env \<Rightarrow> ControllerBudget" where
  "env_budget env \<equiv> cc_budgets (en_config env)"

text \<open>The run is in one of several states, within its limits.\<close>

definition run_in ::
  "(ctl_payload \<Rightarrow> string) \<Rightarrow> 's history \<Rightarrow> ('s \<Rightarrow> bool) \<Rightarrow> uuid \<Rightarrow> ControllerBudget \<Rightarrow> ControllerState set \<Rightarrow> 's run_state \<Rightarrow> bool" where
  "run_in dg history ok run b Xs s \<longleftrightarrow> (\<exists>X \<in> Xs. \<exists>R. run_at dg history ok run X (within_limits b R) s)"

lemma run_inI: "run_at dg history ok run X (within_limits b R) s \<Longrightarrow> X \<in> Xs \<Longrightarrow> run_in dg history ok run b Xs s"
  by (auto simp: run_in_def)

lemma run_inD:
  assumes "run_in dg history ok run b Xs s"
  shows "run_inv dg history ok run s" "rn_state s \<in> Xs" "\<exists>R. within_limits b R (rn_usage s)"
  using assms by (auto simp: run_in_def run_at_def)

lemma verify_run_calls:
  assumes "verify_run venv problem ev rb maximum = Inr out"
  shows "0 \<le> co_verifier_calls out" "co_verifier_calls out \<le> max 0 maximum"
    "non_empty_str (md_decision_reason (co_minimal out))"
proof -
  from verify_run_Inr [OF assms] obtain results where
    r: "verify_loop venv (pr_task_run_id problem) ev maximum 0
       (zip (pr_acceptance_criteria problem) (run_requirements venv (pr_acceptance_criteria problem))) [] = Inr results"
    "co_verifier_calls out = int (length results)" "minimal_decision_error (co_minimal out) = None" by metis
  from verify_loop_length [OF r(1)] r(2) show "0 \<le> co_verifier_calls out" "co_verifier_calls out \<le> max 0 maximum"
    by auto
  from r(3) show "non_empty_str (md_decision_reason (co_minimal out))"
    by (simp add: minimal_decision_error_def split: if_splits)
qed

lemma record_verifier:
  assumes "within_limits b R u" "0 \<le> n" "cu_verifier_calls u + n \<le> cb_maximum_verifier_calls b"
    and "budget_record u [(UVerifierCalls, of_int n), (UVerificationSeconds, x)] = Inr v"
  shows "within_limits b R v"
proof -
  have "0 \<le> x"
  proof (rule ccontr)
    assume "\<not> 0 \<le> x"
    then have "budget_record u [(UVerifierCalls, of_int n), (UVerificationSeconds, x)] = Inl UnknownOrNegativeIncrement"
      by (auto simp: budget_record_def)
    with assms(4) show False by simp
  qed
  with assms show ?thesis by (auto simp: budget_record_one within_valid usage_conds)
qed

context controller_run
begin

lemma exec_loop_at:
  "triple (run_at (en_digest env) history wf_store run CtlExecuting (within_limits (env_budget env) R))
     (exec_loop env run correlation problem plan n)
     (\<lambda>e. case e of LoopDone \<Rightarrow> run_at (en_digest env) history wf_store run CtlExecuting (within_limits (env_budget env) R)
        | LoopStopped _ \<Rightarrow> run_in (en_digest env) history wf_store run (env_budget env) {CtlBudgetExhausted, CtlFailed})
     (run_raised (en_digest env) history wf_store run)"
proof (induction n)
  case 0
  have "triple (run_at (en_digest env) history wf_store run CtlExecuting (within_limits (env_budget env) R))
    (andthen (transition_to env run correlation CtlBudgetExhausted ''controller iteration ceiling'') (ret (LoopStopped None)))
    (\<lambda>e. case e of LoopDone \<Rightarrow> run_at (en_digest env) history wf_store run CtlExecuting (within_limits (env_budget env) R)
        | LoopStopped _ \<Rightarrow> run_in (en_digest env) history wf_store run (env_budget env) {CtlBudgetExhausted, CtlFailed})
    (run_raised (en_digest env) history wf_store run)"
    by (rule triple_andthen [OF transition_at], simp add: can_transition_def,
        simp add: non_empty_str_Cons py_space_def, rule triple_ret) (auto intro: run_inI)
  then show ?case
    by (auto intro!: triple_bnd [OF asks_keep] triple_ret)
next
  case (Suc n)
  let ?b = "env_budget env" and ?at = "run_at (en_digest env) history wf_store run"
  let ?post = "\<lambda>e. case e of LoopDone \<Rightarrow> ?at CtlExecuting (within_limits ?b R)
        | LoopStopped _ \<Rightarrow> run_in (en_digest env) history wf_store run ?b {CtlBudgetExhausted, CtlFailed}"
  have stop: "triple (?at CtlExecuting (within_limits ?b R))
      (andthen (transition_to env run correlation Y reason) (ret (LoopStopped err))) ?post
      (run_raised (en_digest env) history wf_store run)"
    if "Y \<in> {CtlBudgetExhausted, CtlFailed}" "non_empty_str reason" for Y reason err
    using that by (intro triple_andthen [OF transition_at] triple_ret)
      (auto simp: can_transition_def intro: run_inI)
  have act: "triple (?at CtlExecuting (\<lambda>u. within_limits ?b R u \<and> room_left ?b R u))
     (bnd (next_action plan) (\<lambda>selected. case selected of
        None \<Rightarrow> andthen (transition_to env run correlation CtlFailed ''plan made no progress'')
                  (ret (LoopStopped (Some ''plan made no progress'')))
      | Some a \<Rightarrow> andthen (run_action env run correlation problem plan main_mode a)
                    (exec_loop env run correlation problem plan n))) ?post (run_raised (en_digest env) history wf_store run)"
  proof (rule triple_bnd [OF next_action_at])
    fix selected
    show "triple (?at CtlExecuting (\<lambda>u. within_limits ?b R u \<and> room_left ?b R u))
      (case selected of
        None \<Rightarrow> andthen (transition_to env run correlation CtlFailed ''plan made no progress'')
                  (ret (LoopStopped (Some ''plan made no progress'')))
      | Some a \<Rightarrow> andthen (run_action env run correlation problem plan main_mode a)
                    (exec_loop env run correlation problem plan n)) ?post (run_raised (en_digest env) history wf_store run)"
    proof (cases selected)
      case None
      show ?thesis
        unfolding None option.case
        by (rule triple_pre [OF stop]) (auto simp: non_empty_str_Cons py_space_def elim: run_at_mono)
    next
      case (Some a)
      show ?thesis
        unfolding Some option.case
        by (rule triple_andthen [OF triple_pre [OF run_action_at] Suc]) (auto elim: run_at_mono)
    qed
  qed
  have checked: "triple (?at CtlExecuting (within_limits ?b R))
     (bnd (check_budget env) (\<lambda>decision. if \<not> bd_allowed decision
         then andthen (transition_to env run correlation CtlBudgetExhausted (bd_reason decision)) (ret (LoopStopped None))
         else bnd (next_action plan) (\<lambda>selected. case selected of
             None \<Rightarrow> andthen (transition_to env run correlation CtlFailed ''plan made no progress'')
                       (ret (LoopStopped (Some ''plan made no progress'')))
           | Some a \<Rightarrow> andthen (run_action env run correlation problem plan main_mode a)
                         (exec_loop env run correlation problem plan n))))
     ?post (run_raised (en_digest env) history wf_store run)"
  proof (rule triple_bnd [OF check_budget_at])
    fix d
    show "triple (if bd_allowed d then ?at CtlExecuting (\<lambda>u. within_limits ?b R u \<and> room_left ?b R u)
         else (\<lambda>s. ?at CtlExecuting (within_limits ?b R) s \<and> non_empty_str (bd_reason d)))
       (if \<not> bd_allowed d
         then andthen (transition_to env run correlation CtlBudgetExhausted (bd_reason d)) (ret (LoopStopped None))
         else bnd (next_action plan) (\<lambda>selected. case selected of
             None \<Rightarrow> andthen (transition_to env run correlation CtlFailed ''plan made no progress'')
                       (ret (LoopStopped (Some ''plan made no progress'')))
           | Some a \<Rightarrow> andthen (run_action env run correlation problem plan main_mode a)
                         (exec_loop env run correlation problem plan n))) ?post (run_raised (en_digest env) history wf_store run)"
      using act by (cases "bd_allowed d") (auto intro!: triple_pure stop)
  qed assumption
  show ?case
    unfolding exec_loop.simps
    by (rule triple_bnd [OF asks_keep], rule triple_if [OF triple_ret checked]) simp
qed

lemma repair_actions_at:
  "triple (run_at (en_digest env) history wf_store run CtlExecuting (within_limits (env_budget env) R))
     (repair_actions env run correlation problem plan n)
     (\<lambda>_. run_at (en_digest env) history wf_store run CtlExecuting (within_limits (env_budget env) R))
     (run_raised (en_digest env) history wf_store run)"
proof (induction n)
  case 0
  show ?case unfolding repair_actions.simps by (intro triple_bnd [OF asks_keep] ret_keep)
next
  case (Suc n)
  let ?b = "env_budget env" and ?at = "run_at (en_digest env) history wf_store run"
  show ?case
    unfolding repair_actions.simps
  proof (rule triple_bnd [OF asks_keep], rule triple_if [OF ret_keep], rule triple_bnd [OF check_budget_at], assumption)
    fix d
    have "triple (?at CtlExecuting (\<lambda>u. within_limits ?b R u \<and> room_left ?b R u))
       (case sel of None \<Rightarrow> ret False
        | Some a \<Rightarrow> andthen (run_action env run correlation problem plan repair_mode a)
                      (repair_actions env run correlation problem plan n))
       (\<lambda>_. ?at CtlExecuting (within_limits ?b R)) (run_raised (en_digest env) history wf_store run)" for sel
      by (cases sel) (auto intro!: triple_ret triple_andthen [OF triple_pre [OF run_action_at] Suc] elim: run_at_mono)
    then show "triple (if bd_allowed d then ?at CtlExecuting (\<lambda>u. within_limits ?b R u \<and> room_left ?b R u)
         else (\<lambda>s. ?at CtlExecuting (within_limits ?b R) s \<and> non_empty_str (bd_reason d)))
       (if \<not> bd_allowed d then ret False
        else bnd (next_action plan) (\<lambda>selected. case selected of
             None \<Rightarrow> ret False
           | Some a \<Rightarrow> andthen (run_action env run correlation problem plan repair_mode a)
                         (repair_actions env run correlation problem plan n)))
       (\<lambda>_. ?at CtlExecuting (within_limits ?b R)) (run_raised (en_digest env) history wf_store run)"
      by (cases "bd_allowed d") (auto intro!: triple_bnd [OF next_action_at] triple_ret)
  qed
qed

lemma verify_phase_at:
  "triple (run_at (en_digest env) history wf_store run X (within_limits (env_budget env) R)) (verify_phase env run correlation problem)
     (\<lambda>m s. run_at (en_digest env) history wf_store run X (within_limits (env_budget env) R) s \<and> non_empty_str (md_decision_reason m))
     (run_raised (en_digest env) history wf_store run)"
proof (cases "en_verify env")
  case None
  show ?thesis
    unfolding verify_phase_def None option.case
  proof (rule triple_bnd [OF draw_at], rule triple_bnd [OF triple_asks_keep], rule triple_lift_res)
    fix now x s m
    assume "run_at (en_digest env) history wf_store run X (within_limits (env_budget env) R) s \<and>
      x = minimal_evaluate (en_schema env) (en_py_str env) now (pr_acceptance_criteria problem) (run_evidence_of s)"
      "x = Inr m"
    then show "run_at (en_digest env) history wf_store run X (within_limits (env_budget env) R) s \<and> non_empty_str (md_decision_reason m)"
      using minimal_evaluate_total [of "en_schema env" "en_py_str env" now "pr_acceptance_criteria problem" "run_evidence_of s"]
      by auto
  qed (auto simp: run_raised_def run_at_def)
next
  case (Some verification)
  let ?b = "env_budget env" and ?at = "run_at (en_digest env) history wf_store run"
  let ?U = "\<lambda>out u. within_limits ?b R u \<and> 0 \<le> co_verifier_calls out \<and>
      cu_verifier_calls u + co_verifier_calls out \<le> cb_maximum_verifier_calls ?b"
  show ?thesis
    unfolding verify_phase_def Some option.case
  proof (rule triple_bnd [OF draw_at], rule triple_bnd [OF triple_asks_keep], rule triple_bnd)
    fix venv x
    show "triple (\<lambda>s. ?at X (within_limits ?b R) s \<and> x = verify_run venv problem (run_evidence_of s)
             (cu_repair_cycles (rn_usage s) < cb_maximum_repair_cycles ?b)
             (max 0 (cb_maximum_verifier_calls ?b - cu_verifier_calls (rn_usage s))))
      (lift_res VerifyFault x)
      (\<lambda>out s. ?at X (?U out) s \<and> non_empty_str (md_decision_reason (co_minimal out))) (run_raised (en_digest env) history wf_store run)"
    proof (rule triple_lift_res)
      fix s out
      assume s: "?at X (within_limits ?b R) s \<and> x = verify_run venv problem (run_evidence_of s)
             (cu_repair_cycles (rn_usage s) < cb_maximum_repair_cycles ?b)
             (max 0 (cb_maximum_verifier_calls ?b - cu_verifier_calls (rn_usage s)))" and "x = Inr out"
      then have v: "verify_run venv problem (run_evidence_of s)
             (cu_repair_cycles (rn_usage s) < cb_maximum_repair_cycles ?b)
             (max 0 (cb_maximum_verifier_calls ?b - cu_verifier_calls (rn_usage s))) = Inr out" by simp
      show "?at X (?U out) s \<and> non_empty_str (md_decision_reason (co_minimal out))"
        using s verify_run_calls [OF v] by (auto simp: run_at_def within_limits_def)
    qed (auto simp: run_raised_def run_at_def)
  next
    fix out
    show "triple (\<lambda>s. ?at X (?U out) s \<and> non_empty_str (md_decision_reason (co_minimal out)))
      (andthen (record_usage [(UVerifierCalls, of_int (co_verifier_calls out)),
             (UVerificationSeconds, co_elapsed_seconds out)])
          (andthen (emit env run correlation (PAcceptanceRecorded (co_decision out)))
          (ret (co_minimal out))))
      (\<lambda>m s. ?at X (within_limits ?b R) s \<and> non_empty_str (md_decision_reason m)) (run_raised (en_digest env) history wf_store run)"
      by (rule triple_pure, rule triple_andthen [OF record_usage_at [where V = "within_limits ?b R"]])
        (auto intro!: triple_andthen [OF emit_at] triple_ret elim: record_verifier)
  qed
qed

text \<open>Stopping: a transition and the answer that goes with it.\<close>

lemma stop_at:
  assumes "can_transition X Y" "non_empty_str reason" "Y \<in> Ys"
  shows "triple (run_at (en_digest env) history wf_store run X (within_limits b R))
     (andthen (transition_to env run correlation Y reason) (ret x))
     (\<lambda>y s. run_in (en_digest env) history wf_store run b Ys s \<and> rn_state s = Y \<and> y = x) (run_raised (en_digest env) history wf_store run)"
  by (rule triple_andthen [OF transition_at triple_ret])
    (use assms in \<open>auto intro: run_inI simp: run_at_def\<close>)

lemma revise_and_restart_at:
  assumes "non_empty_str reason"
  shows "triple (run_at (en_digest env) history wf_store run CtlVerifying (room_left b R))
     (revise_and_restart env run correlation plan reason)
     (\<lambda>_. run_at (en_digest env) history wf_store run CtlExecuting (within_limits b (R + 1))) (run_raised (en_digest env) history wf_store run)"
proof -
  have tail: "triple (run_at (en_digest env) history wf_store run CtlRepairing (within_limits b (R + 1)))
    (bnd (asks (\<lambda>s. map (\<lambda>i. PStepCreated (pending_step run revised (cu_repair_cycles (rn_usage s) + 1) i))
         (filter (\<lambda>i. i \<notin> rn_completed s) (step_ids (ep_steps (cp_plan revised)))))) (\<lambda>created.
     andthen (emit_all env run correlation created)
     (andthen (transition_to env run correlation CtlExecuting ''execute bounded repair plan'') (ret revised))))
    (\<lambda>_. run_at (en_digest env) history wf_store run CtlExecuting (within_limits b (R + 1))) (run_raised (en_digest env) history wf_store run)"
    for revised
    by (rule triple_bnd, rule triple_asks [where Q = "\<lambda>ps s. run_at (en_digest env) history wf_store run CtlRepairing (within_limits b (R + 1)) s \<and>
          list_all (\<lambda>p. \<not> is_state_change p) ps"])
      (auto simp: list_all_iff can_transition_def non_empty_str_Cons py_space_def
        intro!: triple_pure triple_andthen [OF emit_all_at] triple_andthen [OF transition_at] ret_keep)
  show ?thesis
    unfolding revise_and_restart_def
    by (rule triple_andthen [OF transition_at], simp add: can_transition_def, rule assms)
      (intro triple_bnd [OF draw_at] triple_bnd [OF lift_at] triple_andthen [OF record_repair_at]
        triple_andthen [OF emit_at] triple_andthen [OF change_at] tail, simp_all)
qed

definition repair_post ::
  "uuid \<Rightarrow> ControllerState set \<Rightarrow> ControllerExecutionPlan \<times> MinimalAcceptanceDecision \<Rightarrow> 's run_state \<Rightarrow> bool" where
  "repair_post run Ys y s \<longleftrightarrow> run_in (en_digest env) history wf_store run (env_budget env) Ys s \<and>
     (rn_state s = CtlCompleted \<longleftrightarrow> md_accepted (snd y))"

lemma stop_repair_at:
  assumes "can_transition X Y" "non_empty_str reason" "Y \<in> Ys" "Y = CtlCompleted \<longleftrightarrow> md_accepted (snd y)"
  shows "triple (run_at (en_digest env) history wf_store run X (within_limits (env_budget env) R))
     (andthen (transition_to env run correlation Y reason) (ret y)) (repair_post run Ys)
     (run_raised (en_digest env) history wf_store run)"
  by (rule triple_post [OF stop_at [OF assms(1,2,3)]]) (use assms(4) in \<open>auto simp: repair_post_def\<close>)

lemma verify_again_at:
  assumes again: "\<And>m. \<not> md_accepted m \<Longrightarrow> non_empty_str (md_decision_reason m) \<Longrightarrow>
     triple (run_at (en_digest env) history wf_store run CtlVerifying (within_limits (env_budget env) R)) (f m)
       (repair_post run Ys) (run_raised (en_digest env) history wf_store run)"
    and "CtlCompleted \<in> Ys" "non_empty_str reason"
  shows "triple (run_at (en_digest env) history wf_store run CtlExecuting (within_limits (env_budget env) R))
     (andthen (transition_to env run correlation CtlVerifying reason)
        (bnd (verify_phase env run correlation problem) (\<lambda>m.
           if md_accepted m
           then andthen (transition_to env run correlation CtlCompleted (md_decision_reason m)) (ret (plan, m))
           else f m)))
     (repair_post run Ys) (run_raised (en_digest env) history wf_store run)"
proof (rule triple_andthen [OF transition_at triple_bnd [OF verify_phase_at]])
  fix m
  show "triple (\<lambda>s. run_at (en_digest env) history wf_store run CtlVerifying (within_limits (env_budget env) R) s \<and>
      non_empty_str (md_decision_reason m))
    (if md_accepted m
     then andthen (transition_to env run correlation CtlCompleted (md_decision_reason m)) (ret (plan, m)) else f m)
    (repair_post run Ys) (run_raised (en_digest env) history wf_store run)"
    by (rule triple_pure, rule triple_if)
      (use assms(2) in \<open>auto intro!: stop_repair_at again simp: can_transition_def\<close>)
qed (use assms(3) in \<open>simp_all add: can_transition_def\<close>)

lemma repair_loop_at:
  assumes "\<not> md_accepted m" "non_empty_str (md_decision_reason m)"
    and "cb_maximum_repair_cycles (env_budget env) \<le> int n + R"
  shows "triple (run_at (en_digest env) history wf_store run CtlVerifying (within_limits (env_budget env) R))
     (repair_loop env run correlation problem n plan m)
     (repair_post run {CtlVerifying, CtlBudgetExhausted, CtlFailed, CtlCompleted}) (run_raised (en_digest env) history wf_store run)"
  using assms
proof (induction n arbitrary: R plan m)
  case 0
  show ?case
    unfolding repair_loop.simps
    by (rule triple_bnd [OF triple_asks_keep], rule triple_if)
      (use 0 in \<open>auto simp: triple_def throw_def ret_def run_at_def within_limits_def repair_post_def run_in_def\<close>)
next
  case (Suc n)
  let ?b = "env_budget env" and ?at = "run_at (en_digest env) history wf_store run"
  let ?post = "repair_post run {CtlVerifying, CtlBudgetExhausted, CtlFailed, CtlCompleted}"
  have open_ret: "triple (?at CtlVerifying (within_limits ?b R)) (ret (plan, m)) ?post (run_raised (en_digest env) history wf_store run)"
    by (rule triple_ret) (use Suc.prems(1) in \<open>auto simp: repair_post_def run_at_def run_in_def\<close>)
  have executed: "triple (?at CtlExecuting (within_limits ?b (R + 1)))
     (bnd (repair_actions env run correlation problem revised (max_iterations env)) (\<lambda>progressed.
        if \<not> progressed
        then andthen (transition_to env run correlation CtlFailed ''repair plan made no progress'') (ret (revised, m))
        else andthen (transition_to env run correlation CtlVerifying ''verify repaired structural evidence'')
          (bnd (verify_phase env run correlation problem) (\<lambda>again.
             if md_accepted again
             then andthen (transition_to env run correlation CtlCompleted (md_decision_reason again)) (ret (revised, again))
             else repair_loop env run correlation problem n revised again))))
     ?post (run_raised (en_digest env) history wf_store run)" for revised
    by (rule triple_bnd [OF repair_actions_at], rule triple_if,
        rule stop_repair_at, simp_all add: can_transition_def non_empty_str_Cons py_space_def Suc.prems,
        rule verify_again_at, rule Suc.IH)
      (use Suc.prems in \<open>simp_all add: non_empty_str_Cons py_space_def\<close>)
  show ?case
    unfolding repair_loop.simps
  proof (rule triple_bnd [OF asks_keep], rule triple_if [OF open_ret], rule triple_bnd [OF check_budget_at], assumption)
    fix d
    show "triple (if bd_allowed d then ?at CtlVerifying (\<lambda>u. within_limits ?b R u \<and> room_left ?b R u)
         else (\<lambda>s. ?at CtlVerifying (within_limits ?b R) s \<and> non_empty_str (bd_reason d)))
       (if \<not> bd_allowed d
        then andthen (transition_to env run correlation CtlBudgetExhausted (bd_reason d)) (ret (plan, m))
        else bnd (revise_and_restart env run correlation plan (md_decision_reason m)) (\<lambda>revised.
          bnd (repair_actions env run correlation problem revised (max_iterations env)) (\<lambda>progressed.
          if \<not> progressed
          then andthen (transition_to env run correlation CtlFailed ''repair plan made no progress'') (ret (revised, m))
          else andthen (transition_to env run correlation CtlVerifying ''verify repaired structural evidence'')
            (bnd (verify_phase env run correlation problem) (\<lambda>again.
               if md_accepted again
               then andthen (transition_to env run correlation CtlCompleted (md_decision_reason again)) (ret (revised, again))
               else repair_loop env run correlation problem n revised again)))))
       ?post (run_raised (en_digest env) history wf_store run)"
    proof (cases "bd_allowed d")
      case True
      show ?thesis
        using True Suc.prems(2)
        by (auto intro!: triple_bnd [OF triple_pre [OF revise_and_restart_at] executed] elim: run_at_mono)
    next
      case False
      then show ?thesis
        using Suc.prems(1)
        by (auto intro!: triple_pure stop_repair_at simp: can_transition_def)
    qed
  qed
qed

end

section \<open>Phases and the whole run\<close>

lemma triple_ex: "(\<And>R. triple (P R) m Q E) \<Longrightarrow> triple (\<lambda>s. \<exists>R. P R s) m Q E"
  unfolding triple_def by (intro allI impI, elim exE) simp

text \<open>What a returned result says of the state the run was left in.\<close>

definition result_ok ::
  "(ctl_payload \<Rightarrow> string) \<Rightarrow> 's history \<Rightarrow> ('s \<Rightarrow> bool) \<Rightarrow> uuid \<Rightarrow> ControllerBudget \<Rightarrow> ControllerRunResult \<Rightarrow> 's run_state \<Rightarrow> bool" where
  "result_ok dg history ok run b r s \<longleftrightarrow>
     run_in dg history ok run b {CtlCompleted, CtlFailed, CtlBudgetExhausted, CtlWaitingForClarification} s \<and>
     cr_task_run_id r = run \<and> cr_state r = rn_state s \<and> cr_usage r = rn_usage s \<and>
     cr_last_stream_version r = rn_version s \<and>
     (cr_state r = CtlCompleted \<longleftrightarrow> (\<exists>m. cr_acceptance_decision r = Some m \<and> md_accepted m)) \<and>
     (cr_state r = CtlWaitingForClarification \<longleftrightarrow> cr_continuation_token r \<noteq> None)"

lemma run_result_at:
  assumes "\<And>s. P s \<Longrightarrow> run_in dg history ok run b Xs s \<and> Xs \<subseteq> {CtlCompleted, CtlFailed, CtlBudgetExhausted, CtlWaitingForClarification} \<and>
      (rn_state s = CtlCompleted \<longleftrightarrow> (\<exists>m. acceptance = Some m \<and> md_accepted m)) \<and>
      (rn_state s = CtlWaitingForClarification \<longleftrightarrow> token \<noteq> None)"
  shows "triple P (run_result run problem plan acceptance token ww err) (result_ok dg history ok run b) E"
  unfolding run_result_def
proof (rule triple_asks)
  fix s assume "P s"
  from assms [OF this] show "result_ok dg history ok run b
      \<lparr>cr_task_run_id = run, cr_state = rn_state s, cr_problem_representation = problem,
      cr_plan = plan, cr_current_step_id = None, cr_acceptance_decision = acceptance,
      cr_continuation_token = token, cr_usage = rn_usage s, cr_result_artifacts = [],
      cr_warnings = (if ww then rn_warnings s else []), cr_error = err,
      cr_last_stream_version = rn_version s\<rparr> s"
    by (auto simp: result_ok_def run_in_def)
qed

lemma run_in_state: "run_in dg history ok run b {X} s \<Longrightarrow> rn_state s = X"
  by (auto simp: run_in_def run_at_def)

context controller_run
begin

lemma represent_phase_at:
  "triple (run_at (en_digest env) history wf_store (st_task_run_id req) CtlReceived (within_limits (env_budget env) 0))
     (represent_phase env req)
     (\<lambda>p. case p of None \<Rightarrow> run_in (en_digest env) history wf_store (st_task_run_id req) (env_budget env) {CtlBudgetExhausted}
        | Some _ \<Rightarrow> run_at (en_digest env) history wf_store (st_task_run_id req) CtlRepresentingProblem (within_limits (env_budget env) 0))
     (run_raised (en_digest env) history wf_store (st_task_run_id req))"
proof -
  let ?run = "st_task_run_id req" and ?b = "env_budget env"
  let ?at = "run_at (en_digest env) history wf_store ?run"
  let ?post = "\<lambda>p :: ProblemRepresentation option. case p of
      None \<Rightarrow> run_in (en_digest env) history wf_store ?run ?b {CtlBudgetExhausted}
    | Some _ \<Rightarrow> ?at CtlRepresentingProblem (within_limits ?b 0)"
  have asked: "triple (?at CtlRepresentingProblem (\<lambda>u. within_limits ?b 0 u \<and> room_left ?b 0 u))
     (bnd (draw (\<lambda>t. en_represent env t seed)) (\<lambda>answer.
       bnd (lift_res PortFault answer) (\<lambda>problem.
       andthen (record_usage [(UProviderCalls, 1)])
       (andthen (emit env ?run (st_correlation_id req) (PProblemCreated problem))
       (andthen (save_checkpoint env ?run (st_correlation_id req) problem None)
       (ret (Some problem))))))) ?post (run_raised (en_digest env) history wf_store ?run)" for seed
    by (intro triple_bnd [OF draw_at] triple_bnd [OF lift_at]
        triple_andthen [OF record_usage_at [where V = "within_limits ?b 0"]]
        triple_andthen [OF emit_at] triple_andthen [OF save_checkpoint_at] triple_ret)
      (auto intro: record_provider simp: room_left_def call_left_def)
  have decided: "triple (if bd_allowed d then ?at CtlRepresentingProblem (\<lambda>u. within_limits ?b 0 u \<and> room_left ?b 0 u)
         else (\<lambda>s. ?at CtlRepresentingProblem (within_limits ?b 0) s \<and> non_empty_str (bd_reason d)))
     (if \<not> bd_allowed d
      then andthen (transition_to env ?run (st_correlation_id req) CtlBudgetExhausted ''budget exhausted'') (ret None)
      else bnd (draw (\<lambda>t. en_represent env t seed)) (\<lambda>answer.
       bnd (lift_res PortFault answer) (\<lambda>problem.
       andthen (record_usage [(UProviderCalls, 1)])
       (andthen (emit env ?run (st_correlation_id req) (PProblemCreated problem))
       (andthen (save_checkpoint env ?run (st_correlation_id req) problem None)
       (ret (Some problem))))))) ?post (run_raised (en_digest env) history wf_store ?run)" for d seed
  proof (cases "bd_allowed d")
    case True
    with asked show ?thesis by simp
  next
    case False
    then show ?thesis
      by (auto intro!: triple_pure triple_post [OF stop_at [where Ys = "{CtlBudgetExhausted}"]]
          simp: can_transition_def non_empty_str_Cons py_space_def)
  qed
  show ?thesis
    unfolding represent_phase_def Let_def
    by (rule triple_andthen [OF transition_at], simp add: can_transition_def,
        simp add: non_empty_str_Cons py_space_def, rule triple_bnd [OF lift_at], simp,
        rule triple_bnd [OF check_budget_at], assumption, rule decided)
qed

lemma clarification_phase_at:
  "triple (run_at (en_digest env) history wf_store (st_task_run_id req) CtlRepresentingProblem U)
     (clarification_phase env req problem)
     (\<lambda>_. run_at (en_digest env) history wf_store (st_task_run_id req) CtlWaitingForClarification U)
     (run_raised (en_digest env) history wf_store (st_task_run_id req))"
proof (cases "en_clarification env")
  case False
  then show ?thesis
    by (cases "en_clarification env") (auto simp: clarification_phase_def run_raised_def run_at_def intro!: triple_throw)
next
  case True
  show ?thesis
  proof (cases "en_artifacts env")
    case None
    then show ?thesis
      by (cases "en_clarification env") (auto simp: clarification_phase_def run_raised_def run_at_def intro!: triple_throw)
  next
    case (Some put)
    show ?thesis
      by (simp only: clarification_phase_def Let_def True Some prod.case bool.case option.case)
        (intro triple_bnd [OF draw_at] triple_andthen [OF emit_at] triple_andthen [OF transition_at]
          triple_bnd [OF asks_keep] triple_bnd [OF store_checkpoint_at] split3_tripleI split_tripleI ret_keep,
          simp_all add: can_transition_def non_empty_str_Cons py_space_def)
  qed
qed

lemma plan_phase_at:
  "triple (run_at (en_digest env) history wf_store (st_task_run_id req) CtlRepresentingProblem (within_limits (env_budget env) 0))
     (plan_phase env req problem)
     (\<lambda>p. case p of None \<Rightarrow> run_in (en_digest env) history wf_store (st_task_run_id req) (env_budget env) {CtlBudgetExhausted}
        | Some _ \<Rightarrow> run_at (en_digest env) history wf_store (st_task_run_id req) CtlExecuting (within_limits (env_budget env) 0))
     (run_raised (en_digest env) history wf_store (st_task_run_id req))"
proof -
  let ?run = "st_task_run_id req" and ?b = "env_budget env" and ?cor = "st_correlation_id req"
  let ?at = "run_at (en_digest env) history wf_store ?run"
  let ?post = "\<lambda>p :: ControllerExecutionPlan option. case p of
      None \<Rightarrow> run_in (en_digest env) history wf_store ?run ?b {CtlBudgetExhausted}
    | Some _ \<Rightarrow> ?at CtlExecuting (within_limits ?b 0)"
  have too_long: "triple (?at CtlPlanning (within_limits ?b 0))
     (andthen (transition_to env ?run ?cor CtlBudgetExhausted ''plan-step budget exhausted'') (ret None))
     ?post (run_raised (en_digest env) history wf_store ?run)"
    by (rule triple_post [OF stop_at [where Ys = "{CtlBudgetExhausted}"]])
      (auto simp: can_transition_def non_empty_str_Cons py_space_def)
  have fits: "triple (?at CtlPlanning (within_limits ?b 0))
     (andthen (emit env ?run ?cor (PPlanCreated (cp_plan plan)))
       (andthen (emit_all env ?run ?cor
          (map (\<lambda>i. PStepCreated (pending_step ?run plan 1 i)) (step_ids (ep_steps (cp_plan plan)))))
       (andthen (save_checkpoint env ?run ?cor problem (Some plan))
       (andthen (transition_to env ?run ?cor CtlExecuting ''execute one ready step at a time'')
       (andthen (change (\<lambda>s. s\<lparr>rn_completed := {}, rn_failed := {}, rn_tools := {}, rn_outputs := []\<rparr>))
       (ret (Some plan)))))))
     ?post (run_raised (en_digest env) history wf_store ?run)" for plan
    by (intro triple_andthen [OF emit_at] triple_andthen [OF emit_all_at] triple_andthen [OF save_checkpoint_at]
        triple_andthen [OF transition_at] triple_andthen [OF change_at] triple_ret)
      (simp_all add: can_transition_def non_empty_str_Cons py_space_def list_all_iff)
  show ?thesis
    unfolding plan_phase_def Let_def
    by (intro triple_andthen [OF transition_at] triple_bnd [OF draw_at] triple_bnd [OF lift_at]
        triple_if too_long fits)
      (simp_all add: can_transition_def non_empty_str_Cons py_space_def)
qed

lemma accept_phase_at:
  "triple (run_at (en_digest env) history wf_store (st_task_run_id req) CtlExecuting (within_limits (env_budget env) 0))
     (accept_phase env req problem plan)
     (repair_post (st_task_run_id req) {CtlCompleted, CtlFailed, CtlBudgetExhausted})
     (run_raised (en_digest env) history wf_store (st_task_run_id req))"
  unfolding accept_phase_def Let_def
proof (rule verify_again_at)
  fix m :: MinimalAcceptanceDecision assume m: "\<not> md_accepted m" "non_empty_str (md_decision_reason m)"
  let ?run = "st_task_run_id req" and ?b = "env_budget env"
  let ?Ys = "{CtlCompleted, CtlFailed, CtlBudgetExhausted}"
  have out: "triple (repair_post ?run {CtlVerifying, CtlBudgetExhausted, CtlFailed, CtlCompleted} y)
     (bnd (asks rn_state) (\<lambda>state.
       if state = CtlVerifying
       then andthen (transition_to env ?run (st_correlation_id req) CtlFailed ''repair budget exhausted'') (ret y)
       else ret y)) (repair_post ?run ?Ys) (run_raised (en_digest env) history wf_store ?run)" for y
  proof (rule triple_bnd [OF triple_asks_keep], rule triple_if)
    fix state assume verifying: "state = CtlVerifying"
    have "triple (\<lambda>s. (\<exists>R. run_at (en_digest env) history wf_store ?run CtlVerifying (within_limits ?b R) s) \<and> \<not> md_accepted (snd y))
       (andthen (transition_to env ?run (st_correlation_id req) CtlFailed ''repair budget exhausted'') (ret y))
       (repair_post ?run ?Ys) (run_raised (en_digest env) history wf_store ?run)"
      by (intro triple_pure triple_ex stop_repair_at)
        (simp_all add: can_transition_def non_empty_str_Cons py_space_def)
    then show "triple (\<lambda>s. repair_post ?run {CtlVerifying, CtlBudgetExhausted, CtlFailed, CtlCompleted} y s \<and> state = rn_state s)
       (andthen (transition_to env ?run (st_correlation_id req) CtlFailed ''repair budget exhausted'') (ret y))
       (repair_post ?run ?Ys) (run_raised (en_digest env) history wf_store ?run)"
      by (rule triple_pre) (auto simp: repair_post_def run_in_def run_at_def verifying)
  next
    fix state assume "state \<noteq> CtlVerifying"
    then show "triple (\<lambda>s. repair_post ?run {CtlVerifying, CtlBudgetExhausted, CtlFailed, CtlCompleted} y s \<and> state = rn_state s)
       (ret y) (repair_post ?run ?Ys) (run_raised (en_digest env) history wf_store ?run)"
      by (intro triple_ret) (auto simp: repair_post_def run_in_def run_at_def)
  qed
  show "triple (run_at (en_digest env) history wf_store ?run CtlVerifying (within_limits ?b 0))
     (bnd (repair_loop env ?run (st_correlation_id req) problem (nat (cb_maximum_repair_cycles ?b)) plan m) (\<lambda>repaired.
       bnd (asks rn_state) (\<lambda>state.
       if state = CtlVerifying
       then andthen (transition_to env ?run (st_correlation_id req) CtlFailed ''repair budget exhausted'') (ret repaired)
       else ret repaired)))
     (repair_post ?run ?Ys) (run_raised (en_digest env) history wf_store ?run)"
    by (rule triple_bnd [OF repair_loop_at out]) (use m in auto)
qed (simp_all add: non_empty_str_Cons py_space_def)

lemma start_body_at:
  "triple (run_at (en_digest env) history wf_store (st_task_run_id req) CtlReceived (within_limits (env_budget env) 0))
     (start_body env req) (result_ok (en_digest env) history wf_store (st_task_run_id req) (env_budget env))
     (run_raised (en_digest env) history wf_store (st_task_run_id req))"
  unfolding start_body_def Let_def
proof (rule triple_bnd [OF represent_phase_at])
  let ?run = "st_task_run_id req" and ?b = "env_budget env"
  let ?at = "run_at (en_digest env) history wf_store ?run" and ?post = "result_ok (en_digest env) history wf_store ?run ?b"
    and ?raised = "run_raised (en_digest env) history wf_store ?run"
  have none: "triple (run_in (en_digest env) history wf_store ?run ?b {CtlBudgetExhausted})
      (run_result ?run problem None None None False None) ?post ?raised" for problem
    by (rule run_result_at) (auto dest: run_in_state)
  have waiting: "triple (?at CtlRepresentingProblem (within_limits ?b 0))
      (bnd (clarification_phase env req p) (\<lambda>token. run_result ?run (Some p) None None (Some token) False None))
      ?post ?raised" for p
    by (rule triple_bnd [OF clarification_phase_at], rule run_result_at [where Xs = "{CtlWaitingForClarification}"])
      (auto intro: run_inI simp: run_at_def)
  have final: "triple (repair_post ?run {CtlCompleted, CtlFailed, CtlBudgetExhausted} y)
      (case y of (final_plan, acceptance) \<Rightarrow>
         run_result ?run (Some p) (Some final_plan) (Some acceptance) None True None) ?post ?raised" for p y
    by (cases y) (fastforce simp: repair_post_def dest: run_inD(2)
        intro: run_result_at [where Xs = "{CtlCompleted, CtlFailed, CtlBudgetExhausted}"])
  have accepted: "triple (?at CtlExecuting (within_limits ?b 0))
      (bnd (accept_phase env req p plan) (\<lambda>(final_plan, acceptance).
         run_result ?run (Some p) (Some final_plan) (Some acceptance) None True None)) ?post ?raised" for p plan
    by (rule triple_bnd [OF accept_phase_at final])
  have looped: "triple (case e of LoopDone \<Rightarrow> ?at CtlExecuting (within_limits ?b 0)
        | LoopStopped _ \<Rightarrow> run_in (en_digest env) history wf_store ?run ?b {CtlBudgetExhausted, CtlFailed})
      (case e of
         LoopStopped err \<Rightarrow> run_result ?run (Some p) (Some plan) None None (err = None) err
       | LoopDone \<Rightarrow> bnd (accept_phase env req p plan) (\<lambda>(final_plan, acceptance).
         run_result ?run (Some p) (Some final_plan) (Some acceptance) None True None)) ?post ?raised" for e p plan
    by (cases e) (auto intro!: accepted run_result_at [where Xs = "{CtlBudgetExhausted, CtlFailed}"] dest: run_inD(2))
  have planned: "triple (case q of None \<Rightarrow> run_in (en_digest env) history wf_store ?run ?b {CtlBudgetExhausted}
        | Some _ \<Rightarrow> ?at CtlExecuting (within_limits ?b 0))
      (case q of
         None \<Rightarrow> run_result ?run (Some p) None None None False None
       | Some plan \<Rightarrow>
           bnd (exec_loop env ?run (st_correlation_id req) p plan (max_iterations env)) (\<lambda>ended.
           case ended of
             LoopStopped err \<Rightarrow> run_result ?run (Some p) (Some plan) None None (err = None) err
           | LoopDone \<Rightarrow>
               bnd (accept_phase env req p plan) (\<lambda>(final_plan, acceptance).
               run_result ?run (Some p) (Some final_plan) (Some acceptance) None True None))) ?post ?raised" for q p
    by (cases q) (auto intro!: none triple_bnd [OF exec_loop_at looped])
  show "triple (case r of None \<Rightarrow> run_in (en_digest env) history wf_store ?run ?b {CtlBudgetExhausted}
        | Some _ \<Rightarrow> ?at CtlRepresentingProblem (within_limits ?b 0))
     (case r of
       None \<Rightarrow> run_result ?run None None None None False None
     | Some problem \<Rightarrow>
         if requires_clarification problem
         then bnd (clarification_phase env req problem) (\<lambda>token.
                run_result ?run (Some problem) None None (Some token) False None)
         else bnd (plan_phase env req problem) (\<lambda>planned.
           case planned of
             None \<Rightarrow> run_result ?run (Some problem) None None None False None
           | Some plan \<Rightarrow>
               bnd (exec_loop env ?run (st_correlation_id req) problem plan (max_iterations env)) (\<lambda>ended.
               case ended of
                 LoopStopped err \<Rightarrow> run_result ?run (Some problem) (Some plan) None None (err = None) err
               | LoopDone \<Rightarrow>
                   bnd (accept_phase env req problem plan) (\<lambda>(final_plan, acceptance).
                   run_result ?run (Some problem) (Some final_plan) (Some acceptance) None True None))))
     ?post ?raised" for r
    by (cases r) (auto intro!: none waiting triple_bnd [OF plan_phase_at planned])
qed

lemma initial_run_at:
  assumes "wf_store store" "history store run = []" "valid_configuration (en_config env)"
  shows "run_at (en_digest env) history wf_store run CtlReceived (within_limits (env_budget env) 0) (initial_run env store)"
  using assms
  by (auto simp: run_at_def run_inv_def initial_run_def within_limits_def valid_configuration_def
      valid_budget_def fresh_usage_def valid_usage_def)

text \<open>Every run: a result that tells the state, or an exception that leaves a legal stream behind.\<close>

lemma start_cases:
  assumes "wf_store store" "history store (st_task_run_id req) = []" "valid_configuration (en_config env)"
    and "start env req store = (s, r)"
  shows "run_inv (en_digest env) history wf_store (st_task_run_id req) s"
    and "r = Inr result \<Longrightarrow> result_ok (en_digest env) history wf_store (st_task_run_id req) (env_budget env) result s"
    and "r = Inl e \<Longrightarrow> run_raised (en_digest env) history wf_store (st_task_run_id req) e s"
proof -
  let ?run = "st_task_run_id req"
  have at: "run_at (en_digest env) history wf_store ?run CtlReceived (within_limits (env_budget env) 0) (initial_run env store)"
    by (rule initial_run_at [OF assms(1,2,3)])
  have go: "start_body env req (initial_run env store) = (s, r)"
    using assms(4) by (simp add: start_def)
  show ok: "result_ok (en_digest env) history wf_store ?run (env_budget env) result s" if "r = Inr result" for result
    using triple_Inr [OF start_body_at at] go that by simp
  show raised: "run_raised (en_digest env) history wf_store ?run e s" if "r = Inl e" for e
    using triple_Inl [OF start_body_at at] go that by simp
  show "run_inv (en_digest env) history wf_store ?run s"
    by (cases r) (auto dest!: raised ok simp: run_raised_def result_ok_def dest: run_inD(1))
qed

end

end
