(* ===== verification/Ctl_Memory.thy ===== *)
theory Ctl_Memory
  imports Ctl_Run_Inv
begin

text \<open>
  Controller runs over the in-memory event store, the store of \<open>events/memory_store.py\<close>: the interface
  of a run interpreted on it, and a sample environment for evaluation.
\<close>

definition memory_env ::
  "(int \<Rightarrow> timestamp) \<Rightarrow> ctl_payload store ctl_env \<Rightarrow> ctl_payload store ctl_env" where
  "memory_env clock env = env\<lparr>en_append := store_append clock\<rparr>"

lemma memory_env_simps [simp]:
  "en_append (memory_env clock env) = store_append clock"
  "en_config (memory_env clock env) = en_config env"
  "en_digest (memory_env clock env) = en_digest env"
  by (simp_all add: memory_env_def)

interpretation memory_run: controller_run "memory_env clock env" stream_history store_ok
  by (simp add: controller_run_def memory.event_store_axioms)

section \<open>A sample environment\<close>

definition sample_budget :: ControllerBudget where
  "sample_budget = \<lparr>cb_maximum_provider_calls = 4, cb_maximum_tool_calls = 4, cb_maximum_plan_steps = 4,
     cb_maximum_repair_cycles = 1, cb_maximum_clarification_cycles = 1, cb_maximum_elapsed_seconds = 60,
     cb_maximum_input_tokens = None, cb_maximum_output_tokens = None, cb_maximum_cost_units = None,
     cb_maximum_verifier_calls = 4, cb_maximum_verification_seconds = 60\<rparr>"

definition sample_config :: ControllerConfiguration where
  "sample_config = \<lparr>cc_budgets = sample_budget, cc_continuation_ttl_seconds = 60,
     cc_maximum_controller_iterations = 4\<rparr>"

text \<open>The ports of the sample: a provider whose answers take \<open>elapsed\<close> seconds.\<close>

definition sample_ctl_env :: "pyfloat \<Rightarrow> ProblemRepresentation \<Rightarrow> ctl_payload store ctl_env" where
  "sample_ctl_env elapsed problem = memory_env (\<lambda>n. n)
     \<lparr>en_append = store_append (\<lambda>n. n), en_now = int, en_elapsed = (\<lambda>_. elapsed), en_new_id = of_nat,
      en_digest = (\<lambda>_. sample_hash), en_sha256 = (\<lambda>_. sample_hash), en_ck_digest = (\<lambda>_. sample_hash),
      en_represent = (\<lambda>_ _. Inr problem), en_create_plan = (\<lambda>_ _. Inr sample_plan),
      en_revise_plan = (\<lambda>_ p _. Inr p),
      en_execute = (\<lambda>_ _. Inr \<lparr>ao_succeeded = True, ao_output = JStr ''done'', ao_tool_call_id = None,
         ao_warning = None\<rparr>),
      en_verify = None, en_schema = \<lparr>sc_schema_ok = (\<lambda>_. True), sc_instance_ok = (\<lambda>_ _. True)\<rparr>, en_py_str = (\<lambda>_. ''done''),
      en_artifacts = None, en_clarification = True, en_token = (\<lambda>_. ''token''), en_tools = [],
      en_provider_ids = [''p''], en_config = sample_config\<rparr>"

definition sample_start :: StartControllerRequest where
  "sample_start = \<lparr>st_task_id = 2, st_task_run_id = 9, st_correlation_id = 3, st_title = ''t'',
     st_raw_request = ''do it''\<rparr>"

text \<open>A problem whose only criterion is a schema, which the sample's outputs satisfy.\<close>

definition schema_problem :: ProblemRepresentation where
  "schema_problem = sample_problem\<lparr>pr_acceptance_criteria := [\<lparr>ac_criterion_id = 1,
     ac_description = ''c'', ac_criterion_type = CritSchema, ac_required = True, ac_weight = 1,
     ac_verifier_id = None, ac_configuration = []\<rparr>]\<rparr>"

lemma sample_config_valid: "valid_configuration sample_config"
  by (simp add: valid_configuration_def sample_config_def sample_budget_def valid_budget_def opt_pos_def)

lemma sample_ctl_env_simps [simp]:
  "en_config (sample_ctl_env elapsed problem) = sample_config"
  by (simp add: sample_ctl_env_def)

lemma memory_empty_history [simp]: "stream_history [] sid = []"
  by (simp add: stream_history_def stream_events_def)

lemma memory_start:
  assumes "store_ok store" "stream_history store (st_task_run_id req) = []" "valid_configuration (en_config env)"
    and "start (memory_env clock env) req store = (s, r)"
  shows "run_inv (en_digest env) stream_history store_ok (st_task_run_id req) s"
    and "r = Inr result \<Longrightarrow> result_ok (en_digest env) stream_history store_ok (st_task_run_id req) (env_budget env) result s"
    and "r = Inl e \<Longrightarrow> run_raised (en_digest env) stream_history store_ok (st_task_run_id req) e s"
  using memory_run.start_cases [where env = env, OF assms(1,2) _ assms(4)] assms(3) by simp_all

section \<open>Evaluating runs\<close>

text \<open>While the version follows the stream, an emission succeeds, and changes the store, the version and the
  tick only. The state it leaves stays folded, so that evaluating a run never looks into the store.\<close>

lemma controller_envelope_total:
  assumes "sha256_hex (en_digest env p)" "0 \<le> v"
  shows "\<exists>e. controller_envelope env run cor eid now v p = Inr e"
proof -
  have "component_ok ''cognitive-controller''" by code_simp
  then show ?thesis
    using assms ctl_event_type_ok [of p]
    by (simp add: controller_envelope_def create_event_envelope_def envelope_error_def Let_def construct_def)
qed

definition in_sync :: "uuid \<Rightarrow> ctl_payload store run_state \<Rightarrow> bool" where
  "in_sync run s \<longleftrightarrow> store_ok (rn_store s) \<and> rn_version s = int (length (stream_history (rn_store s) run))"

definition emit_after ::
  "ctl_payload store ctl_env \<Rightarrow> uuid \<Rightarrow> uuid \<Rightarrow> ctl_payload \<Rightarrow> ctl_payload store run_state \<Rightarrow> ctl_payload store run_state" where
  "emit_after env run cor p s = fst (emit env run cor p s)"

definition payloads :: "uuid \<Rightarrow> ctl_payload store run_state \<Rightarrow> ctl_payload list" where
  "payloads run s = map ev_payload (stream_history (rn_store s) run)"

lemma emit_synced:
  assumes "in_sync run s" "sha256_hex (en_digest env p)" "memory_env clock env = env"
  shows "emit env run cor p s = (emit_after env run cor p s, Inr ()) \<and> in_sync run (emit_after env run cor p s) \<and>
    payloads run (emit_after env run cor p s) = payloads run s @ [p] \<and>
    (\<exists>st. emit_after env run cor p s =
      s\<lparr>rn_tick := Suc (rn_tick s), rn_store := st, rn_version := rn_version s + 1\<rparr>)"
proof -
  have s: "store_ok (rn_store s)" "rn_version s = int (length (stream_history (rn_store s) run))"
    using assms(1) by (simp_all add: in_sync_def)
  obtain s' r where run: "emit env run cor p s = (s', r)" by fastforce
  obtain e where "controller_envelope env run cor (en_new_id env (rn_tick s)) (en_now env (rn_tick s)) (rn_version s) p = Inr e"
    using controller_envelope_total [of env p "rn_version s"] assms(2) s(2) by fastforce
  with run have ok: "\<nexists>f. r = Inl (EnvelopeFault f)"
    by (auto simp: emit_def bnd_def draw_def split: prod.splits sum.splits)
  have "emit (memory_env clock env) run cor p s = (s', r)" using run by (simp only: assms(3))
  from memory_run.emit_step [OF s this] ok obtain st e where
    "r = Inr ()" "store_ok st" "ev_payload e = p" "s' = s\<lparr>rn_tick := Suc (rn_tick s), rn_store := st, rn_version := rn_version s + 1\<rparr>"
    "stream_history st = (stream_history (rn_store s))(run := stream_history (rn_store s) run @ [e])" by blast
  with run s(2) show ?thesis by (auto simp: emit_after_def in_sync_def payloads_def)
qed

lemma in_sync_frame [simp]:
  "in_sync run (s\<lparr>rn_tick := n\<rparr>) = in_sync run s" "in_sync run (s\<lparr>rn_state := q\<rparr>) = in_sync run s"
  "in_sync run (s\<lparr>rn_usage := u\<rparr>) = in_sync run s"
  "payloads run (s\<lparr>rn_tick := n\<rparr>) = payloads run s" "payloads run (s\<lparr>rn_state := q\<rparr>) = payloads run s"
  "payloads run (s\<lparr>rn_usage := u\<rparr>) = payloads run s"
  by (simp_all add: in_sync_def payloads_def)

lemma emit_after_fields:
  assumes "in_sync run s" "sha256_hex (en_digest env p)" "memory_env clock env = env"
  shows "rn_state (emit_after env run cor p s) = rn_state s" "rn_usage (emit_after env run cor p s) = rn_usage s"
    "rn_tick (emit_after env run cor p s) = Suc (rn_tick s)" "rn_version (emit_after env run cor p s) = rn_version s + 1"
  using emit_synced [OF assms, of cor] by auto

definition moved ::
  "ctl_payload store ctl_env \<Rightarrow> uuid \<Rightarrow> uuid \<Rightarrow> ControllerState \<Rightarrow> string \<Rightarrow> ctl_payload store run_state \<Rightarrow>
   ctl_payload store run_state" where
  "moved env run cor target reason s = fst (transition_to env run cor target reason s)"

lemma transition_synced:
  assumes "in_sync run s" "\<And>p. sha256_hex (en_digest env p)" "memory_env clock env = env"
    and "can_transition (rn_state s) target" "non_empty_str reason"
  shows "transition_to env run cor target reason s = (moved env run cor target reason s, Inr ())"
    "in_sync run (moved env run cor target reason s)" "rn_state (moved env run cor target reason s) = target"
    "rn_usage (moved env run cor target reason s) = rn_usage s" "rn_tick (moved env run cor target reason s) = rn_tick s + 3"
    "rn_version (moved env run cor target reason s) = rn_version s + 1"
    "payloads run (moved env run cor target reason s) = payloads run s @
      [PStateChanged (rn_state s) target (py_strip reason) (en_new_id env (rn_tick s)) (en_now env (Suc (rn_tick s)))]"
proof -
  have "0 \<le> rn_version s" using assms(1) by (simp add: in_sync_def)
  with assms(4,5) have ok: "require_transition \<lparr>tr_current = rn_state s, tr_target = target, tr_reason = reason,
      tr_decision_id = d, tr_expected_stream_version = rn_version s\<rparr> = None" for d
    by (simp add: require_transition_None_iff)
  let ?s = "s\<lparr>rn_tick := Suc (Suc (rn_tick s))\<rparr>"
  have sync: "in_sync run ?s" using assms(1) by simp
  note emits = emit_synced [OF sync assms(2,3)] emit_after_fields [OF sync assms(2,3)]
  have run: "transition_to env run cor target reason s =
      ((emit_after env run cor (PStateChanged (rn_state s) target (py_strip reason) (en_new_id env (rn_tick s))
        (en_now env (Suc (rn_tick s)))) ?s)\<lparr>rn_state := target\<rparr>, Inr ())"
    by (simp add: transition_to_def bnd_def draw_def asks_def andthen_def change_def ok emits)
  show "transition_to env run cor target reason s = (moved env run cor target reason s, Inr ())"
    "in_sync run (moved env run cor target reason s)" "rn_state (moved env run cor target reason s) = target"
    "rn_usage (moved env run cor target reason s) = rn_usage s" "rn_tick (moved env run cor target reason s) = rn_tick s + 3"
    "rn_version (moved env run cor target reason s) = rn_version s + 1"
    "payloads run (moved env run cor target reason s) = payloads run s @
      [PStateChanged (rn_state s) target (py_strip reason) (en_new_id env (rn_tick s)) (en_now env (Suc (rn_tick s)))]"
    by (simp_all add: moved_def run emits)
qed

text \<open>So does a checkpoint of a valid snapshot, whatever artifact the store answers with.\<close>

lemma run_snapshot_ok:
  assumes "in_sync run s" "valid_usage (rn_usage s)" "\<not> is_terminal (rn_state s)" "1 \<le> pr_revision problem"
    and "0 \<le> repairs" "0 \<le> clarifications"
  shows "snapshot_error (run_snapshot s run problem None repairs clarifications now) = None"
    "ss_task_run_id (run_snapshot s run problem None repairs clarifications now) = run"
    "ss_last_stream_version (run_snapshot s run problem None repairs clarifications now) = rn_version s"
  using assms by (simp_all add: snapshot_error_def first_error_None_iff run_snapshot_def new_snapshot_def in_sync_def
      opt_pos_def opt_non_empty_def)

definition checkpoint_made ::
  "'s ctl_env \<Rightarrow> uuid \<Rightarrow> ControllerStateSnapshot \<Rightarrow> ProblemRepresentation \<Rightarrow> 's run_state \<Rightarrow> ControllerCheckpoint" where
  "checkpoint_made env run sn problem s =
     (let draft = \<lparr>ck_checkpoint_id = en_new_id env (rn_tick s), ck_task_run_id = run, ck_controller_state = sn,
        ck_problem_representation = Some problem, ck_controller_plan = None, ck_usage = rn_usage s,
        ck_event_stream_version = rn_version s, ck_created_at = en_now env (rn_tick s),
        ck_content_hash = replicate 64 CHR ''0''\<rparr>
      in draft\<lparr>ck_content_hash := calculate_hash (en_ck_digest env) draft\<rparr>)"

lemma checkpoint_made_fields:
  "ck_checkpoint_id (checkpoint_made env run sn problem s) = en_new_id env (rn_tick s)"
  by (simp add: checkpoint_made_def Let_def)

definition checkpointed ::
  "ctl_payload store ctl_env \<Rightarrow> uuid \<Rightarrow> uuid \<Rightarrow> ArtifactRef \<Rightarrow> ControllerStateSnapshot \<Rightarrow> ProblemRepresentation \<Rightarrow>
   ctl_payload store run_state \<Rightarrow> ctl_payload store run_state" where
  "checkpointed env run cor a sn problem s = fst (store_checkpoint env run cor (\<lambda>_ _. Inr a) sn problem None s)"

lemma checkpoint_synced:
  assumes "in_sync run s" "\<And>p. sha256_hex (en_digest env p)" "memory_env clock env = env"
    and "snapshot_error sn = None" "ss_task_run_id sn = run" "ss_last_stream_version sn = rn_version s"
    and "valid_usage (rn_usage s)" "problem_error problem = None"
  shows "store_checkpoint env run cor (\<lambda>_ _. Inr a) sn problem None s =
      (checkpointed env run cor a sn problem s, Inr (checkpoint_made env run sn problem s))"
    "in_sync run (checkpointed env run cor a sn problem s)"
    "rn_state (checkpointed env run cor a sn problem s) = rn_state s"
    "rn_usage (checkpointed env run cor a sn problem s) = rn_usage s"
    "rn_tick (checkpointed env run cor a sn problem s) = rn_tick s + 3"
    "rn_version (checkpointed env run cor a sn problem s) = rn_version s + 1"
    "payloads run (checkpointed env run cor a sn problem s) = payloads run s @
      [PCheckpointCreated (en_new_id env (rn_tick s)) a (rn_version s) (ck_content_hash (checkpoint_made env run sn problem s))]"
proof -
  let ?t = "rn_tick s" and ?c = "checkpoint_made env run sn problem s"
  have v: "0 \<le> rn_version s" using assms(1) by (simp add: in_sync_def)
  have "sha256_hex (replicate 64 CHR ''0'')" by code_simp
  then have made: "create_checkpoint (en_ck_digest env) (en_new_id env ?t) run sn (Some problem) None (rn_usage s)
      (rn_version s) (en_now env ?t) = Inr ?c"
    using v assms(4,5,7,8)
    by (simp add: create_checkpoint_def construct_def checkpoint_error_def first_error_None_iff checkpoint_made_def Let_def)
  have kept: "serialize_checkpoint (en_ck_digest env) (\<lambda>c. c) ?c = Inr ?c"
    using assms(6)
    by (simp add: serialize_checkpoint_def verify_checkpoint_def first_error_None_iff calculate_hash_def
        checkpoint_made_def Let_def)
  let ?s = "s\<lparr>rn_tick := Suc (Suc ?t)\<rparr>"
  let ?p = "PCheckpointCreated (en_new_id env ?t) a (rn_version s) (ck_content_hash ?c)"
  have sync: "in_sync run ?s" using assms(1) by simp
  note emits = emit_synced [OF sync assms(2,3)] emit_after_fields [OF sync assms(2,3)]
  have run: "store_checkpoint env run cor (\<lambda>_ _. Inr a) sn problem None s = (emit_after env run cor ?p ?s, Inr ?c)"
    using assms(4) made kept
    by (simp add: store_checkpoint_def bnd_def draw_def asks_def lift_res_def andthen_def ret_def construct_def
        emits checkpoint_made_fields)
  then show "store_checkpoint env run cor (\<lambda>_ _. Inr a) sn problem None s = (checkpointed env run cor a sn problem s, Inr ?c)"
    by (simp add: checkpointed_def)
  show "in_sync run (checkpointed env run cor a sn problem s)"
    "rn_state (checkpointed env run cor a sn problem s) = rn_state s"
    "rn_usage (checkpointed env run cor a sn problem s) = rn_usage s"
    "rn_tick (checkpointed env run cor a sn problem s) = rn_tick s + 3"
    "rn_version (checkpointed env run cor a sn problem s) = rn_version s + 1"
    "payloads run (checkpointed env run cor a sn problem s) = payloads run s @ [?p]"
    by (simp_all add: checkpointed_def run emits)
qed

lemmas run_steps = start_def start_body_def represent_phase_def check_budget_def record_usage_def
  run_result_def bnd_def andthen_def asks_def change_def draw_def ret_def lift_res_def throw_def Let_def

lemma sample_start_fields [simp]:
  "st_task_id sample_start = 2" "st_task_run_id sample_start = 9" "st_correlation_id sample_start = 3"
  "st_title sample_start = ''t''" "st_raw_request sample_start = ''do it''"
  by (simp_all add: sample_start_def)

lemma sample_ctl_env_fields:
  "en_sha256 (sample_ctl_env elapsed problem) = (\<lambda>_. sample_hash)" "en_tools (sample_ctl_env elapsed problem) = []"
  "en_provider_ids (sample_ctl_env elapsed problem) = [''p'']" "en_elapsed (sample_ctl_env elapsed problem) = (\<lambda>_. elapsed)"
  "en_digest (sample_ctl_env elapsed problem) = (\<lambda>_. sample_hash)" "en_now (sample_ctl_env elapsed problem) = int"
  "en_represent (sample_ctl_env elapsed problem) = (\<lambda>_ _. Inr problem)"
  "memory_env (\<lambda>n. n) (sample_ctl_env elapsed problem) = sample_ctl_env elapsed problem"
  by (simp_all add: sample_ctl_env_def memory_env_def)

lemma sample_seed:
  "\<exists>seed. normalize_problem (\<lambda>_. sample_hash) 2 9 ''t'' ''do it'' [] RiskLow [] [''p''] None 1048576 False = Inr seed"
  by (simp add: normalize_problem_def Let_def non_empty_str_def py_strip_def py_space_def normalize_request_def)

lemma sample_hash_hex: "sha256_hex sample_hash"
  by code_simp

end
