(* ===== verification/Ctl_Run_Props.thy ===== *)
theory Ctl_Run_Props
  imports Ctl_Memory
begin

text \<open>
  The properties of a controller run over the in-memory event store: every port but the store
  answers what it likes.
\<close>

section \<open>Safety of a run\<close>

text \<open>C1. Whatever the engine, the planner, the executor, the verifiers and the artifact store answer,
  and whether the run returns or raises: the state changes on the run's stream are legal steps of
  the state machine that start in RECEIVED and end in the state the controller is in, the
  controller's version is the stream's, every event on it is a valid envelope of its payload, and no run ends in an illegal transition, in a version
  conflict, or in a repair loop that its budget does not end.\<close>

theorem run_leaves_legal_stream:
  assumes "store_ok store" "stream_history store (st_task_run_id req) = []"
    and "valid_configuration (en_config env)"
    and "start (memory_env clock env) req store = (s, r)"
  shows "legal_states CtlReceived (map ev_payload (stream_history (rn_store s) (st_task_run_id req)))
      = Some (rn_state s) \<and>
    rn_version s = int (length (stream_history (rn_store s) (st_task_run_id req))) \<and>
    list_all (sound_event (en_digest env)) (stream_history (rn_store s) (st_task_run_id req)) \<and>
    (case r of Inl (TransitionFault _) \<Rightarrow> False | Inl (StoreFault _) \<Rightarrow> False
      | Inl RepairFuelExhausted \<Rightarrow> False | _ \<Rightarrow> True)"
proof -
  note cases = memory_start [OF assms]
  have "case r of Inl (TransitionFault _) \<Rightarrow> False | Inl (StoreFault _) \<Rightarrow> False
      | Inl RepairFuelExhausted \<Rightarrow> False | _ \<Rightarrow> True"
  proof (cases r)
    case (Inl e)
    from cases(3) [OF this] Inl show ?thesis by (simp add: run_raised_def split: ctl_error.splits)
  qed simp
  with cases(1) show ?thesis by (simp add: run_inv_def)
qed

lemma run_leaves_legal_stream_witness:
  "let (s, r) = start (memory_env (\<lambda>n. n) (sample_ctl_env 1 sample_problem)) sample_start [] in
     legal_states CtlReceived (map ev_payload (stream_history (rn_store s) (st_task_run_id sample_start)))
       = Some (rn_state s)"
proof (cases "start (memory_env (\<lambda>n. n) (sample_ctl_env 1 sample_problem)) sample_start []")
  case (Pair s r)
  with run_leaves_legal_stream [OF _ _ _ Pair] sample_config_valid show ?thesis by simp
qed

text \<open>C2. A run that returns is in one of four states, the result reports that state and the stream's
  version, it is COMPLETED exactly when the result carries an accepting decision, and it waits for
  clarification exactly when the result carries a continuation token.\<close>

theorem run_result_faithful:
  assumes "store_ok store" "stream_history store (st_task_run_id req) = []"
    and "valid_configuration (en_config env)"
    and "start (memory_env clock env) req store = (s, Inr result)"
  shows "cr_state result = rn_state s \<and>
    cr_state result \<in> {CtlCompleted, CtlFailed, CtlBudgetExhausted, CtlWaitingForClarification} \<and>
    cr_last_stream_version result = int (length (stream_history (rn_store s) (st_task_run_id req))) \<and>
    (cr_state result = CtlCompleted \<longleftrightarrow>
       (\<exists>d. cr_acceptance_decision result = Some d \<and> md_accepted d)) \<and>
    (cr_state result = CtlWaitingForClarification \<longleftrightarrow> cr_continuation_token result \<noteq> None)"
proof -
  note cases = memory_start [OF assms]
  from cases(1) cases(2) [OF refl] show ?thesis
    by (auto simp: result_ok_def run_inv_def dest: run_inD(2))
qed

lemma sample_run_exhausted:
  "map_sum id cr_state (snd (start (sample_ctl_env 100 sample_problem) sample_start [])) =
     Inr CtlBudgetExhausted"
proof -
  let ?env = "sample_ctl_env 100 sample_problem"
  have hex: "sha256_hex (en_digest ?env p)" for p by (simp add: sample_ctl_env_fields sample_hash_hex)
  have sync: "in_sync 9 (initial_run ?env [])" "rn_state (initial_run ?env []) = CtlReceived"
    by (simp_all add: in_sync_def initial_run_def)
  obtain seed where seed: "normalize_problem (\<lambda>_. sample_hash) 2 9 ''t'' ''do it'' [] RiskLow [] [''p''] None 1048576 False =
    Inr seed" using sample_seed by blast
  have exhausted: "\<not> bd_allowed (budget_evaluate (cc_budgets sample_config) u 100)" for u
    by (simp add: budget_allowed_iff within_budget_def sample_config_def sample_budget_def)
  have reasons: "non_empty_str ''normalize and represent task''" "non_empty_str ''budget exhausted''" by code_simp+
  show ?thesis
    by (simp add: run_steps sync seed exhausted transition_synced [OF _ hex sample_ctl_env_fields(8)] reasons
        sample_ctl_env_fields can_transition_def)
qed

lemma run_result_faithful_witness:
  "\<exists>s result. start (memory_env (\<lambda>n. n) (sample_ctl_env 100 sample_problem)) sample_start [] = (s, Inr result) \<and>
     cr_state result = CtlBudgetExhausted \<and> rn_state s = CtlBudgetExhausted \<and>
     cr_continuation_token result = None"
proof -
  let ?env = "sample_ctl_env 100 sample_problem"
  have env: "memory_env (\<lambda>n. n) ?env = ?env" by (simp add: sample_ctl_env_def memory_env_def)
  obtain s r where run: "start ?env sample_start [] = (s, r)" by fastforce
  with sample_run_exhausted obtain result where result: "r = Inr result" "cr_state result = CtlBudgetExhausted"
    by (cases r) auto
  have "start (memory_env (\<lambda>n. n) ?env) sample_start [] = (s, Inr result)"
    by (simp only: env run result)
  with run_result_faithful [OF _ _ _ this] result sample_config_valid show ?thesis by (simp add: env)
qed

text \<open>C3. The usage a run ends with is within every limit the budget sets on provider calls, tool
  calls, started steps, verifier calls and repair cycles.\<close>

theorem run_usage_within_budget:
  assumes "store_ok store" "stream_history store (st_task_run_id req) = []"
    and "valid_configuration (en_config env)"
    and "start (memory_env clock env) req store = (s, Inr result)"
  shows "let b = cc_budgets (en_config env); u = cr_usage result in
    cu_provider_calls u \<le> cb_maximum_provider_calls b \<and> cu_tool_calls u \<le> cb_maximum_tool_calls b \<and>
    cu_plan_steps_started u \<le> cb_maximum_plan_steps b \<and>
    cu_verifier_calls u \<le> cb_maximum_verifier_calls b \<and>
    cu_repair_cycles u \<le> cb_maximum_repair_cycles b"
proof -
  note cases = memory_start [OF assms]
  from cases(2) [OF refl] show ?thesis
    by (auto simp: result_ok_def Let_def within_limits_def dest!: run_inD(3))
qed

lemma run_usage_within_budget_witness:
  "\<exists>s result. start (memory_env (\<lambda>n. n) (sample_ctl_env 100 sample_problem)) sample_start [] = (s, Inr result) \<and>
     cu_provider_calls (cr_usage result) \<le> 4"
proof -
  let ?env = "sample_ctl_env 100 sample_problem"
  have env: "memory_env (\<lambda>n. n) ?env = ?env" by (simp add: sample_ctl_env_def memory_env_def)
  obtain s r where run: "start ?env sample_start [] = (s, r)" by fastforce
  with sample_run_exhausted obtain result where result: "r = Inr result" by (cases r) auto
  have "start (memory_env (\<lambda>n. n) ?env) sample_start [] = (s, Inr result)"
    by (simp only: env run result)
  with run_usage_within_budget [OF _ _ _ this] sample_config_valid show ?thesis
    by (simp add: env Let_def sample_config_def sample_budget_def)
qed

section \<open>A run is started once\<close>

lemma emit_stale:
  assumes "store_ok (rn_store s)" "rn_version s \<noteq> int (length (stream_history (rn_store s) run))"
    and "emit (memory_env clock env) run correlation p s = (s', r)"
  shows "rn_store s' = rn_store s \<and> (\<exists>e. r = Inl e)"
proof (cases "controller_envelope (memory_env clock env) run correlation (en_new_id env (rn_tick s))
    (en_now env (rn_tick s)) (rn_version s) p")
  case (Inl f)
  then show ?thesis using assms(3) by (auto simp: emit_def bnd_def draw_def memory_env_def)
next
  case (Inr e)
  then have "batch_ok run (rn_version s) [e]"
    by (auto simp: controller_envelope_def create_event_envelope_def Let_def batch_ok_def)
  from memory.append_stale [OF assms(1) this assms(2), of clock] Inr show ?thesis
    using assms(3) by (auto simp: emit_def bnd_def draw_def memory_env_def)
qed

text \<open>A task run whose stream already has events is not started again: the call raises before
  anything is written, and the store is the one it was given.\<close>

theorem second_start_refused:
  assumes "store_ok store" "stream_history store (st_task_run_id req) \<noteq> []"
    and "start (memory_env clock env) req store = (s, r)"
  shows "rn_store s = store \<and> (\<exists>e. r = Inl e)"
proof -
  let ?env = "memory_env clock env" and ?run = "st_task_run_id req" and ?cor = "st_correlation_id req"
  let ?s0 = "initial_run ?env store"
  obtain s1 r1 where t: "transition_to ?env ?run ?cor CtlRepresentingProblem ''normalize and represent task'' ?s0 = (s1, r1)"
    by fastforce
  let ?s2 = "?s0\<lparr>rn_tick := Suc (Suc (rn_tick ?s0))\<rparr>"
  have ok: "require_transition \<lparr>tr_current = CtlReceived, tr_target = CtlRepresentingProblem,
      tr_reason = ''normalize and represent task'', tr_decision_id = d, tr_expected_stream_version = 0\<rparr> = None" for d
    by (simp add: require_transition_None_iff can_transition_def non_empty_str_Cons py_space_def)
  have "rn_store s1 = store \<and> (\<exists>e. r1 = Inl e)"
  proof -
    have stale: "rn_store s' = store \<and> (\<exists>e. r' = Inl e)"
      if "emit ?env ?run ?cor p (?s0\<lparr>rn_tick := k\<rparr>) = (s', r')" for p k s' r'
      using emit_stale [OF _ _ that] assms(1,2) by (simp add: initial_run_def)
    from t show ?thesis
      by (auto simp: transition_to_def bnd_def draw_def asks_def initial_run_def ok andthen_def
          split: prod.splits sum.splits dest!: stale [simplified initial_run_def, simplified])
  qed
  then show ?thesis
    using assms(3) t by (auto simp: start_def start_body_def represent_phase_def Let_def bnd_def andthen_def)
qed

lemma second_start_refused_witness:
  "let st = rn_store (fst (start (sample_ctl_env 100 sample_problem) sample_start [])) in
     rn_store (fst (start (memory_env (\<lambda>n. n) (sample_ctl_env 1 sample_problem)) sample_start st)) = st"
proof -
  let ?env = "sample_ctl_env 100 sample_problem" and ?run = "st_task_run_id sample_start"
  have env: "memory_env (\<lambda>n. n) ?env = ?env" by (simp add: sample_ctl_env_def memory_env_def)
  obtain s r where run: "start (memory_env (\<lambda>n. n) ?env) sample_start [] = (s, r)" by fastforce
  from memory_start(1) [OF _ _ _ run] sample_config_valid
  have inv: "run_inv (en_digest ?env) stream_history store_ok ?run s" by simp
  have "rn_state s = CtlBudgetExhausted"
  proof -
    from sample_run_exhausted obtain result where "r = Inr result" "cr_state result = CtlBudgetExhausted"
      using run by (cases r) (auto simp: env)
    with memory_start(2) [OF _ _ _ run] sample_config_valid show ?thesis by (simp add: result_ok_def)
  qed
  with inv have ok: "store_ok (rn_store s)" "stream_history (rn_store s) ?run \<noteq> []"
    by (auto simp: run_inv_def)
  obtain s' r' where again: "start (memory_env (\<lambda>n. n) (sample_ctl_env 1 sample_problem)) sample_start (rn_store s) = (s', r')"
    by fastforce
  from second_start_refused [OF ok again] show ?thesis
    using run again by (simp add: env Let_def)
qed

section \<open>The last repair cycle\<close>

text \<open>C4. A repair cycle that uses up the repair budget executes nothing. The cycle is counted before
  its steps run, and the budget check in front of every step refuses as soon as the count has
  reached \<open>maximum_repair_cycles\<close>: with a step of the plan still open, the repair makes no progress,
  writes no event and calls nothing. With \<open>maximum_repair_cycles = 1\<close> no repair step is ever run.\<close>

theorem last_repair_cycle_executes_nothing:
  assumes "cb_maximum_repair_cycles (cc_budgets (en_config env)) \<le> cu_repair_cycles (rn_usage s)"
    and "card ((rn_completed s \<union> rn_failed s) \<inter> set (step_ids (ep_steps (cp_plan plan))))
         < length (ep_steps (cp_plan plan))"
    and "0 < n"
  shows "repair_actions env run correlation problem plan n s = (s\<lparr>rn_tick := Suc (rn_tick s)\<rparr>, Inr False)"
proof -
  obtain m where n: "n = Suc m" using assms(3) by (cases n) auto
  have "\<not> bd_allowed (budget_evaluate (cc_budgets (en_config env)) (rn_usage s) elapsed)" for elapsed
    using assms(1) by (auto simp: budget_allowed_iff within_budget_def)
  then show ?thesis
    using assms(2) by (simp add: n bnd_def asks_def check_budget_def draw_def ret_def)
qed

lemma last_repair_cycle_executes_nothing_witness:
  "let s = (initial_run (sample_ctl_env 1 sample_problem) [])
         \<lparr>rn_usage := (fresh_usage 0)\<lparr>cu_repair_cycles := 1\<rparr>\<rparr> in
   repair_actions (sample_ctl_env 1 sample_problem) 9 3 sample_problem sample_plan 4 s =
     (s\<lparr>rn_tick := Suc (rn_tick s)\<rparr>, Inr False)"
  unfolding Let_def
  by (rule last_repair_cycle_executes_nothing)
    (simp_all add: sample_config_def sample_budget_def initial_run_def sample_plan_def)

end
