(* ===== verification/Registry.thy ===== *)
theory Registry
  imports Cog_Prelude
begin

text \<open>
  The explicit registries of the program (event catalog, migrations, tools, verifiers) share one
  contract: a value is registered under the key it carries, a key is taken once, and nothing that
  was registered is ever replaced. The interface states it, and its clients' lemmas are proved here
  once.
\<close>

locale keyed_registry =
  fixes register :: "'r \<Rightarrow> 'v \<Rightarrow> 'e + 'r"
    and find_key :: "'r \<Rightarrow> 'k \<Rightarrow> 'v option"
    and key_of :: "'v \<Rightarrow> 'k"
  assumes register_find: "register r v = Inr r' \<Longrightarrow> find_key r' = (find_key r)(key_of v \<mapsto> v)"
    and register_fresh: "register r v = Inr r' \<Longrightarrow> find_key r (key_of v) = None"
begin

fun register_all :: "'r \<Rightarrow> 'v list \<Rightarrow> 'e + 'r" where
  "register_all r [] = Inr r"
| "register_all r (v # vs) = bind_res (register r v) (\<lambda>r'. register_all r' vs)"

lemma register_keeps: "register r v = Inr r' \<Longrightarrow> find_key r k = Some w \<Longrightarrow> find_key r' k = Some w"
  using register_find register_fresh by fastforce

lemma register_twice: "register r v = Inr r' \<Longrightarrow> key_of w = key_of v \<Longrightarrow> \<exists>e. register r' w = Inl e"
proof (cases "register r' w")
  case (Inr r'')
  assume "register r v = Inr r'" "key_of w = key_of v"
  with register_find [of r v r'] register_fresh [OF Inr] show ?thesis by simp
qed simp

text \<open>What is found after registering a list: the list's own values, and what was there before.\<close>

lemma register_all_find:
  assumes "register_all r vs = Inr r'"
  shows "distinct (map key_of vs)" and "\<forall>v \<in> set vs. find_key r (key_of v) = None"
    and "find_key r' = find_key r ++ map_of (map (\<lambda>v. (key_of v, v)) vs)"
proof -
  have "distinct (map key_of vs) \<and> (\<forall>v \<in> set vs. find_key r (key_of v) = None) \<and>
      find_key r' = find_key r ++ map_of (map (\<lambda>v. (key_of v, v)) vs)"
    using assms
  proof (induction vs arbitrary: r)
    case (Cons v vs)
    from Cons.prems obtain r1 where r1: "register r v = Inr r1" "register_all r1 vs = Inr r'"
      by (auto simp: bind_res_Inr_iff)
    note ih = Cons.IH [OF r1(2)]
    have new: "find_key r1 = (find_key r)(key_of v \<mapsto> v)" by (rule register_find [OF r1(1)])
    have fresh: "\<forall>w \<in> set vs. key_of w \<noteq> key_of v \<and> find_key r (key_of w) = None"
      using ih by (auto simp: new split: if_splits)
    have "find_key r' k = (find_key r ++ map_of (map (\<lambda>v. (key_of v, v)) (v # vs))) k" for k
    proof (cases "k = key_of v")
      case True
      have "map_of (map (\<lambda>v. (key_of v, v)) vs) k = None"
        using fresh True by (auto simp: map_of_eq_None_iff)
      then show ?thesis using ih True by (simp add: new map_add_def)
    next
      case False
      then show ?thesis using ih by (simp add: new map_add_def)
    qed
    moreover have "distinct (map key_of (v # vs))"
      using ih fresh by auto
    ultimately show ?case using fresh register_fresh [OF r1(1)] by (auto simp: fun_eq_iff map_add_def)
  qed simp
  then show "distinct (map key_of vs)" "\<forall>v \<in> set vs. find_key r (key_of v) = None"
    "find_key r' = find_key r ++ map_of (map (\<lambda>v. (key_of v, v)) vs)" by blast+
qed

lemma register_all_keeps:
  "register_all r vs = Inr r' \<Longrightarrow> find_key r k = Some v \<Longrightarrow> find_key r' k = Some v"
  by (induction vs arbitrary: r) (auto simp: bind_res_Inr_iff dest: register_keeps)

end

text \<open>A dictionary that refuses a second value for a key.\<close>

definition dict_add :: "'e \<Rightarrow> ('k, 'v) dict \<Rightarrow> 'k \<Rightarrow> 'v \<Rightarrow> 'e + ('k, 'v) dict" where
  "dict_add e d k v = (if k \<in> fst ` set d then Inl e else Inr (d @ [(k, v)]))"

lemma dict_add_Inr:
  "dict_add e d k v = Inr d' \<longleftrightarrow> k \<notin> fst ` set d \<and> d' = d @ [(k, v)]"
  by (auto simp: dict_add_def)

lemma dict_add_get: "dict_add e d k v = Inr d' \<Longrightarrow> dict_get d' = (dict_get d)(k \<mapsto> v)"
  using dict_get_set [of d k v] by (auto simp: dict_add_Inr dict_set_new)

lemma dict_add_fresh: "dict_add e d k v = Inr d' \<Longrightarrow> dict_get d k = None"
  by (auto simp: dict_add_Inr map_of_eq_None_iff)

lemma dict_add_ok: "dict_add e d k v = Inr d' \<Longrightarrow> dict_ok d \<Longrightarrow> dict_ok d'"
  by (auto simp: dict_add_Inr)

end
