(* ===== verification/Event_Catalog.thy ===== *)
theory Event_Catalog
  imports Event_Store Registry
begin

text \<open>
  The event catalog (\<open>events/catalog.py\<close>), payload migrations (\<open>events/migrations.py\<close>), the decoder of
  stored events (\<open>events/storage.py\<close>) and the paged replay of a stream (\<open>events/replay.py\<close>).

  Encoded payloads have type \<open>'j\<close>, decoded ones \<open>'p\<close>. A payload model is its key and its validator
  \<open>model_validate\<close>, which answers with the payload or with None where Pydantic raises. The
  reducer of a replay is a parameter; telemetry is not modelled.
\<close>

section \<open>The catalog\<close>

record ('j, 'p) payload_model =
  pm_event_type :: string
  pm_schema_version :: int
  pm_validate :: "'j \<Rightarrow> 'p option"

type_synonym ('j, 'p) event_catalog = "(string \<times> int, ('j, 'p) payload_model) dict"

datatype catalog_error = DuplicateEventRegistration string int | UnknownEventType string
  | UnsupportedSchemaVersion string int | WrongPayloadClass

definition model_key :: "('j, 'p) payload_model \<Rightarrow> string \<times> int" where
  "model_key m = (pm_event_type m, pm_schema_version m)"

definition catalog_register ::
  "('j, 'p) event_catalog \<Rightarrow> ('j, 'p) payload_model \<Rightarrow> catalog_error + ('j, 'p) event_catalog" where
  "catalog_register c m =
     dict_add (DuplicateEventRegistration (pm_event_type m) (pm_schema_version m)) c (model_key m) m"

definition get_payload_model ::
  "('j, 'p) event_catalog \<Rightarrow> string \<Rightarrow> int \<Rightarrow> catalog_error + ('j, 'p) payload_model" where
  "get_payload_model c event_type schema_version =
     (case dict_get c (event_type, schema_version) of
        Some m \<Rightarrow> Inr m
      | None \<Rightarrow> if list_ex (\<lambda>(k, _). fst k = event_type) c
               then Inl (UnsupportedSchemaVersion event_type schema_version)
               else Inl (UnknownEventType event_type))"

definition list_event_types :: "('j, 'p) event_catalog \<Rightarrow> (string \<times> int) list" where
  "list_event_types c = sort_key fst (sort_key snd (map fst c))"

text \<open>\<open>is_instance\<close> says whether the payload is an instance of the registered class.\<close>

definition encode_payload ::
  "('j, 'p) event_catalog \<Rightarrow> (('j, 'p) payload_model \<Rightarrow> 'p \<Rightarrow> bool) \<Rightarrow> ('p \<Rightarrow> string) \<Rightarrow> ('p \<Rightarrow> int) \<Rightarrow>
   ('p \<Rightarrow> 'j) \<Rightarrow> 'p \<Rightarrow> catalog_error + 'j" where
  "encode_payload c is_instance type_of schema_of to_payload p =
     bind_res (get_payload_model c (type_of p) (schema_of p))
       (\<lambda>expected. if \<not> is_instance expected p then Inl WrongPayloadClass else Inr (to_payload p))"

definition build_catalog :: "('j, 'p) payload_model list \<Rightarrow> catalog_error + ('j, 'p) event_catalog" where
  "build_catalog models = foldl (\<lambda>c m. bind_res c (\<lambda>d. catalog_register d m)) (Inr []) models"

interpretation catalog: keyed_registry catalog_register dict_get model_key
  by unfold_locales (auto simp: catalog_register_def dest: dict_add_get dict_add_fresh)

section \<open>Migrations\<close>

type_synonym 'j migrations = "(string \<times> int \<times> int, 'j \<Rightarrow> 'j) dict"

datatype migration_error = VersionsDoNotIncrease | DuplicateMigration string int int
  | MissingMigrationPath string int int

definition register_migration ::
  "'j migrations \<Rightarrow> string \<Rightarrow> int \<Rightarrow> int \<Rightarrow> ('j \<Rightarrow> 'j) \<Rightarrow> migration_error + 'j migrations" where
  "register_migration ms event_type from_version to_version f =
     (if from_version < 1 \<or> to_version \<le> from_version then Inl VersionsDoNotIncrease
      else dict_add (DuplicateMigration event_type from_version to_version) ms
             (event_type, from_version, to_version) f)"

definition migration_candidates ::
  "'j migrations \<Rightarrow> string \<Rightarrow> int \<Rightarrow> int \<Rightarrow> (int \<times> ('j \<Rightarrow> 'j)) list" where
  "migration_candidates ms event_type current target = sort_key fst
     (map (\<lambda>((_, _, to_version), f). (to_version, f))
       (filter (\<lambda>((registered_type, registered_from, to_version), _). registered_type = event_type \<and>
          registered_from = current \<and> to_version \<le> target) ms))"

text \<open>
  The loop of \<open>migrate\<close>; every step raises the version, so the distance to the target is enough
  fuel (\<open>migrate_enough\<close>). None is a loop that has not ended.
\<close>

primrec migrate_loop ::
  "nat \<Rightarrow> 'j migrations \<Rightarrow> string \<Rightarrow> int \<Rightarrow> int \<Rightarrow> 'j \<Rightarrow> (migration_error + int \<times> 'j) option" where
  "migrate_loop 0 ms event_type current target payload =
     (if current < target then None else Some (Inr (current, payload)))"
| "migrate_loop (Suc n) ms event_type current target payload =
     (if current < target
      then case migration_candidates ms event_type current target of
             [] \<Rightarrow> Some (Inl (MissingMigrationPath event_type current target))
           | (next_version, f) # _ \<Rightarrow> migrate_loop n ms event_type next_version target (f payload)
      else Some (Inr (current, payload)))"

definition migrate ::
  "'j migrations \<Rightarrow> string \<Rightarrow> int \<Rightarrow> int \<Rightarrow> 'j \<Rightarrow> (migration_error + 'j) option" where
  "migrate ms event_type from_version target payload =
     map_option (\<lambda>r. bind_res r (\<lambda>(current, result).
         if current \<noteq> target then Inl (MissingMigrationPath event_type current target) else Inr result))
       (migrate_loop (nat (target - from_version)) ms event_type from_version target payload)"

text \<open>A registry built by \<open>register_migration\<close>.\<close>

definition migrations_ok :: "'j migrations \<Rightarrow> bool" where
  "migrations_ok ms \<longleftrightarrow> dict_ok ms \<and> list_all (\<lambda>((_, a, b), _). 1 \<le> a \<and> a < b) ms"

lemma migrations_ok_Nil [simp]: "migrations_ok []"
  by (simp add: migrations_ok_def)

lemma register_migration_ok:
  "migrations_ok ms \<Longrightarrow> register_migration ms t a b f = Inr ms' \<Longrightarrow> migrations_ok ms'"
  by (auto simp: migrations_ok_def register_migration_def dict_add_Inr split: if_splits)

lemma candidates_increase:
  assumes "migrations_ok ms" "migration_candidates ms t current target = (v, f) # rest"
  shows "current < v \<and> v \<le> target"
proof -
  have "(v, f) \<in> set (migration_candidates ms t current target)" using assms(2) by simp
  then show ?thesis
    using assms(1) by (auto simp: migration_candidates_def migrations_ok_def list_all_iff)
qed

lemma migrate_loop_enough:
  "migrations_ok ms \<Longrightarrow> current \<le> target \<Longrightarrow> nat (target - current) \<le> n \<Longrightarrow>
     \<exists>r. migrate_loop n ms t current target payload = Some r \<and>
       (\<forall>v p. r = Inr (v, p) \<longrightarrow> v = target)"
proof (induction n arbitrary: current payload)
  case (Suc n)
  show ?case
  proof (cases "current < target \<and> migration_candidates ms t current target \<noteq> []")
    case True
    then obtain v f rest where c: "migration_candidates ms t current target = (v, f) # rest"
      by (cases "migration_candidates ms t current target") auto
    from candidates_increase [OF Suc.prems(1) c] have v: "current < v" "v \<le> target" by auto
    with Suc.prems(3) have "nat (target - v) \<le> n" by linarith
    from Suc.IH [OF Suc.prems(1) v(2) this] c True show ?thesis by auto
  next
    case False
    with Suc.prems(2) show ?thesis by auto
  qed
qed simp

text \<open>Migration always ends; a downward migration has no path.\<close>

lemma migrate_enough:
  assumes "migrations_ok ms"
  shows "\<exists>r. migrate ms t from target payload = Some r"
    and "target < from \<Longrightarrow> migrate ms t from target payload = Some (Inl (MissingMigrationPath t from target))"
    and "migrate ms t from from payload = Some (Inr payload)"
proof -
  show "\<exists>r. migrate ms t from target payload = Some r"
    using migrate_loop_enough [OF assms, of "from" target "nat (target - from)" t payload]
    by (cases "from \<le> target") (auto simp: migrate_def)
qed (auto simp: migrate_def)

section \<open>Decoding stored events\<close>

datatype decode_error = EventIntegrity uuid | StoredEventUndecodable uuid string int

text \<open>\<open>decode_stored_event\<close>; None only where a migration does not end.\<close>

definition decode_stored_event ::
  "('j \<Rightarrow> string) \<Rightarrow> ('j, 'p) event_catalog \<Rightarrow> 'j migrations \<Rightarrow> int option \<Rightarrow> 'j StoredEvent \<Rightarrow>
   (decode_error + 'p) option" where
  "decode_stored_event digest c ms target stored =
     (let e = se_envelope stored; version = ev_schema_version e;
          undecodable = (\<lambda>v. StoredEventUndecodable (ev_event_id e) (ev_event_type e) v);
          validated = (\<lambda>v payload. case get_payload_model c (ev_event_type e) v of
             Inl _ \<Rightarrow> Inl (undecodable v)
           | Inr m \<Rightarrow> (case pm_validate m payload of None \<Rightarrow> Inl (undecodable v) | Some p \<Rightarrow> Inr p))
      in if digest (ev_payload e) \<noteq> ev_payload_hash e then Some (Inl (EventIntegrity (ev_event_id e)))
         else case target of
           Some t \<Rightarrow>
             if t \<noteq> version
             then map_option (\<lambda>r. case r of Inl _ \<Rightarrow> Inl (undecodable version) | Inr payload \<Rightarrow> validated t payload)
                    (migrate ms (ev_event_type e) version t (ev_payload e))
             else Some (validated version (ev_payload e))
         | None \<Rightarrow> Some (validated version (ev_payload e)))"

lemma decode_ends: "migrations_ok ms \<Longrightarrow> \<exists>r. decode_stored_event digest c ms target stored = Some r"
  using migrate_enough(1) by (auto simp: decode_stored_event_def Let_def split: option.splits)

text \<open>Without a target version, decoding needs no migrations.\<close>

definition decode_current :: "('j \<Rightarrow> string) \<Rightarrow> ('j, 'p) event_catalog \<Rightarrow> 'j StoredEvent \<Rightarrow> decode_error + 'p" where
  "decode_current digest c stored = the (decode_stored_event digest c [] None stored)"

lemma decode_current_eq: "decode_stored_event digest c ms None stored = Some (decode_current digest c stored)"
  by (simp add: decode_current_def decode_stored_event_def Let_def)

primrec decode_all :: "('a \<Rightarrow> 'e + 'p) \<Rightarrow> 'a list \<Rightarrow> 'e + 'p list" where
  "decode_all decode [] = Inr []"
| "decode_all decode (s # ss) =
     bind_res (decode s) (\<lambda>p. bind_res (decode_all decode ss) (\<lambda>ps. Inr (p # ps)))"

definition decode_stream ::
  "('j \<Rightarrow> string) \<Rightarrow> ('j, 'p) event_catalog \<Rightarrow> 'j StoredEvent list \<Rightarrow> decode_error + 'p list" where
  "decode_stream digest c = decode_all (decode_current digest c)"

section \<open>Replaying a stream\<close>

record 's replay_state =
  rp_state :: 's
  rp_expected :: int
  rp_count :: nat
  rp_first :: "int option"
  rp_last :: "int option"
  rp_position :: "int option"

datatype replay_error = BadPageSize | BadVersionBounds | StreamGap int int | ReplayDecode decode_error

primrec replay_page ::
  "('j StoredEvent \<Rightarrow> decode_error + 'p) \<Rightarrow> ('s \<Rightarrow> 'p \<Rightarrow> 's) \<Rightarrow> 'j StoredEvent list \<Rightarrow>
   's replay_state \<Rightarrow> replay_error + 's replay_state" where
  "replay_page decode reducer [] r = Inr r"
| "replay_page decode reducer (stored # page) r =
     (let version = ev_stream_version (se_envelope stored) in
      if version \<noteq> rp_expected r then Inl (StreamGap (rp_expected r) version)
      else case decode stored of
        Inl e \<Rightarrow> Inl (ReplayDecode e)
      | Inr p \<Rightarrow> replay_page decode reducer page
          \<lparr>rp_state = reducer (rp_state r) p, rp_expected = rp_expected r + 1,
           rp_count = rp_count r + 1,
           rp_first = (case rp_first r of Some v \<Rightarrow> Some v | None \<Rightarrow> Some version),
           rp_last = Some version, rp_position = Some (se_global_position stored)\<rparr>)"

text \<open>The paging loop; \<open>read\<close> is the store's \<open>read_stream\<close> on the replayed stream. None: out of fuel.\<close>

primrec replay_loop ::
  "nat \<Rightarrow> (int \<Rightarrow> int option \<Rightarrow> int option \<Rightarrow> 'j StoredEvent list) \<Rightarrow> ('j StoredEvent \<Rightarrow> decode_error + 'p) \<Rightarrow>
   ('s \<Rightarrow> 'p \<Rightarrow> 's) \<Rightarrow> int \<Rightarrow> int option \<Rightarrow> 's replay_state \<Rightarrow> (replay_error + 's replay_state) option" where
  "replay_loop 0 read decode reducer page_size target r = None"
| "replay_loop (Suc n) read decode reducer page_size target r =
     (if \<not> (case target of None \<Rightarrow> True | Some t \<Rightarrow> rp_expected r \<le> t) then Some (Inr r)
      else let page = read (rp_expected r) target (Some page_size) in
        if page = [] then Some (Inr r)
        else case replay_page decode reducer page r of
          Inl e \<Rightarrow> Some (Inl e)
        | Inr r' \<Rightarrow> if int (length page) < page_size then Some (Inr r')
                   else replay_loop n read decode reducer page_size target r')"

definition replay_start :: "'s \<Rightarrow> int \<Rightarrow> 's replay_state" where
  "replay_start initial from_version = \<lparr>rp_state = initial, rp_expected = from_version, rp_count = 0,
     rp_first = None, rp_last = None, rp_position = None\<rparr>"

definition replay_stream ::
  "nat \<Rightarrow> (int \<Rightarrow> int option \<Rightarrow> int option \<Rightarrow> 'j StoredEvent list) \<Rightarrow> ('j StoredEvent \<Rightarrow> decode_error + 'p) \<Rightarrow>
   ('s \<Rightarrow> 'p \<Rightarrow> 's) \<Rightarrow> int \<Rightarrow> 's \<Rightarrow> int \<Rightarrow> int option \<Rightarrow> (replay_error + 's replay_state) option" where
  "replay_stream fuel read decode reducer page_size initial from_version target =
     (if page_size < 1 then Some (Inl BadPageSize)
      else if from_version < 1 \<or> (case target of None \<Rightarrow> False | Some t \<Rightarrow> t < from_version)
      then Some (Inl BadVersionBounds)
      else replay_loop fuel read decode reducer page_size target (replay_start initial from_version))"

section \<open>Stores that can be read\<close>

text \<open>The part of a stream between two versions.\<close>

definition window :: "int \<Rightarrow> int option \<Rightarrow> 'a list \<Rightarrow> 'a list" where
  "window from_version to_version xs = drop (nat (from_version - 1))
     (case to_version of None \<Rightarrow> xs | Some t \<Rightarrow> take (nat t) xs)"

text \<open>
  A readable store: reading with a positive limit gives the first events of the window. The stored
  records carry the events of the history, in order.
\<close>

locale readable_store = event_store append_events history wf_store
  for append_events :: "'s \<Rightarrow> 'p EventEnvelope list \<Rightarrow> int \<Rightarrow> 's \<times> ('e + AppendResult)"
    and history :: "'s \<Rightarrow> uuid \<Rightarrow> 'p EventEnvelope list"
    and wf_store :: "'s \<Rightarrow> bool" +
  fixes read_events :: "'s \<Rightarrow> uuid \<Rightarrow> int \<Rightarrow> int option \<Rightarrow> int option \<Rightarrow> 'p StoredEvent list"
    and records :: "'s \<Rightarrow> uuid \<Rightarrow> 'p StoredEvent list"
  assumes records_history: "map se_envelope (records s sid) = history s sid"
    and read_window: "\<lbrakk>wf_store s; 1 \<le> from_version; 0 < limit\<rbrakk> \<Longrightarrow>
      read_events s sid from_version to_version (Some limit) =
        take (nat limit) (window from_version to_version (records s sid))"
begin

lemma records_versions:
  assumes "wf_store s"
  shows "map (\<lambda>i. ev_stream_version (se_envelope i)) (records s sid) = [1..int (length (records s sid))]"
proof -
  have len: "length (records s sid) = length (history s sid)"
    using records_history [of s sid] by (metis length_map)
  have "map (\<lambda>i. ev_stream_version (se_envelope i)) (records s sid) = map ev_stream_version (history s sid)"
    using records_history [of s sid] by (metis (no_types) list.map_comp comp_def map_eq_conv)
  with history_versions [OF assms] len show ?thesis by simp
qed

end

lemma upto_drop: "drop n [a..b] = [a + int n..b]"
proof (induction n arbitrary: a)
  case (Suc n)
  show ?case by (cases "a \<le> b") (use Suc [of "a + 1"] in \<open>simp_all add: upto_rec1 add.assoc algebra_simps\<close>)
qed simp

lemma take_upto: "take m [1..int n] = [1..int (min m n)]"
proof (induction n)
  case (Suc n)
  then show ?case by (cases m "Suc n" rule: linorder_cases) (auto simp: upto_rec2 min_def)
qed simp

lemma filter_upto_ge:
  assumes "map f xs = [1..int (length xs)]" "1 \<le> a"
  shows "filter (\<lambda>x. a \<le> f x) xs = drop (nat (a - 1)) xs"
  using assms
proof (induction xs rule: rev_induct)
  case (snoc x xs)
  have "map f xs @ [f x] = [1..int (length xs)] @ [int (length xs) + 1]"
    using snoc.prems(1) by (simp add: upto_rec2 add.commute)
  then have "map f xs = [1..int (length xs)]" "f x = int (length xs) + 1" by simp_all
  with snoc.IH snoc.prems(2) show ?case by (auto simp: nat_le_iff)
qed simp

lemma filter_upto_le:
  assumes "map f xs = [1..int (length xs)]" "0 \<le> b"
  shows "filter (\<lambda>x. f x \<le> b) xs = take (nat b) xs"
  using assms
proof (induction xs rule: rev_induct)
  case (snoc x xs)
  have "map f xs @ [f x] = [1..int (length xs)] @ [int (length xs) + 1]"
    using snoc.prems(1) by (simp add: upto_rec2 add.commute)
  then have "map f xs = [1..int (length xs)]" "f x = int (length xs) + 1" by simp_all
  with snoc.IH snoc.prems(2) show ?case by (auto simp: nat_le_iff)
qed simp

section \<open>Paging makes no difference\<close>

lemma replay_page_append:
  "replay_page decode reducer (xs @ ys) r =
     bind_res (replay_page decode reducer xs r) (replay_page decode reducer ys)"
  by (induction xs arbitrary: r) (auto simp: Let_def split: sum.split)

lemma replay_page_expected:
  "replay_page decode reducer page r = Inr r' \<Longrightarrow> rp_expected r' = rp_expected r + int (length page)"
  by (induction page arbitrary: r) (auto simp: Let_def split: if_splits sum.splits)

lemma length_window: "length (window a t xs) \<le> length xs"
  by (auto simp: window_def split: option.split)

lemma window_empty: "t < a \<Longrightarrow> window a (Some t) xs = []"
  by (simp add: window_def)

lemma window_drop: "1 \<le> a \<Longrightarrow> window (a + int n) t xs = drop n (window a t xs)"
  by (simp add: window_def nat_add_distrib nat_diff_distrib add.commute split: option.split)

text \<open>One page that holds everything.\<close>

lemma replay_loop_one_page:
  assumes "\<And>e. 1 \<le> e \<Longrightarrow> read e target (Some page_size) = take (nat page_size) (window e target xs)"
    and "1 \<le> page_size" "1 \<le> rp_expected r" "length (window (rp_expected r) target xs) < n"
  shows "replay_loop n read decode reducer page_size target r =
    Some (replay_page decode reducer (window (rp_expected r) target xs) r)"
  using assms(3,4)
proof (induction n arbitrary: r)
  case (Suc n)
  let ?W = "window (rp_expected r) target xs" and ?k = "nat page_size"
  have page: "read (rp_expected r) target (Some page_size) = take ?k ?W"
    by (rule assms(1) [OF Suc.prems(1)])
  show ?case
  proof (cases "?W = []")
    case True
    then show ?thesis by (simp add: page Let_def)
  next
    case False
    then have open_target: "case target of None \<Rightarrow> True | Some t \<Rightarrow> rp_expected r \<le> t"
      by (cases target) (simp, metis leI option.case(2) window_empty)
    have k: "0 < ?k" using assms(2) by simp
    have whole: "replay_page decode reducer ?W r =
        bind_res (replay_page decode reducer (take ?k ?W) r) (replay_page decode reducer (drop ?k ?W))"
      by (metis append_take_drop_id replay_page_append)
    show ?thesis
    proof (cases "replay_page decode reducer (take ?k ?W) r")
      case (Inl e)
      then show ?thesis using False open_target k by (simp add: page Let_def whole)
    next
      case (Inr r')
      have e: "rp_expected r' = rp_expected r + int (length (take ?k ?W))"
        by (rule replay_page_expected [OF Inr])
      show ?thesis
      proof (cases "int (length (take ?k ?W)) < page_size")
        case True
        then have all: "take ?k ?W = ?W" by (auto simp: min_def split: if_splits)
        show ?thesis
          using False open_target True Inr unfolding all by (simp add: page all Let_def)
      next
        case full: False
        then have len: "length (take ?k ?W) = ?k" by (auto simp: min_def split: if_splits)
        have rest: "window (rp_expected r') target xs = drop ?k ?W"
          unfolding e len by (rule window_drop [OF Suc.prems(1)])
        have "replay_loop n read decode reducer page_size target r' =
            Some (replay_page decode reducer (drop ?k ?W) r')"
        proof -
          have "1 \<le> rp_expected r'" using Suc.prems(1) by (simp only: e)
          moreover have "length (window (rp_expected r') target xs) < n"
            unfolding rest using Suc.prems(2) False k by (cases ?W) auto
          ultimately show ?thesis unfolding rest [symmetric] by (rule Suc.IH)
        qed
        then show ?thesis using False open_target k full Inr by (simp add: page Let_def whole)
      qed
    qed
  qed
qed simp

text \<open>A page whose versions follow on: the reducer folded over the decoded payloads.\<close>

definition replayed ::
  "('j StoredEvent \<Rightarrow> decode_error + 'p) \<Rightarrow> ('s \<Rightarrow> 'p \<Rightarrow> 's) \<Rightarrow> 'j StoredEvent list \<Rightarrow> 's replay_state \<Rightarrow>
   replay_error + 's replay_state" where
  "replayed decode reducer page r =
     (case decode_all decode page of Inl e \<Rightarrow> Inl (ReplayDecode e)
      | Inr ps \<Rightarrow> Inr \<lparr>rp_state = foldl reducer (rp_state r) ps,
          rp_expected = rp_expected r + int (length page), rp_count = rp_count r + length page,
          rp_first = (if rp_first r = None \<and> page \<noteq> [] then Some (rp_expected r) else rp_first r),
          rp_last = (if page = [] then rp_last r else Some (rp_expected r + int (length page) - 1)),
          rp_position = (if page = [] then rp_position r else Some (se_global_position (last page)))\<rparr>)"

lemma replay_page_contiguous:
  "map (\<lambda>i. ev_stream_version (se_envelope i)) page = [rp_expected r..rp_expected r + int (length page) - 1] \<Longrightarrow>
     replay_page decode reducer page r = replayed decode reducer page r"
proof (induction page arbitrary: r)
  case (Cons x page)
  have v: "ev_stream_version (se_envelope x) = rp_expected r"
    "map (\<lambda>i. ev_stream_version (se_envelope i)) page = [rp_expected r + 1..rp_expected r + int (length page)]"
    using Cons.prems by (simp_all add: upto_rec1 add.commute)
  show ?case
    using Cons.IH v
    by (cases "decode x"; cases "decode_all decode page")
      (auto simp: replayed_def Let_def fun_eq_iff split: option.splits)
qed (simp add: replayed_def)

context readable_store
begin

lemma window_versions:
  assumes "wf_store s" "1 \<le> a"
  shows "map (\<lambda>i. ev_stream_version (se_envelope i)) (window a t (records s sid)) =
    [a..a + int (length (window a t (records s sid))) - 1]"
proof -
  let ?v = "\<lambda>i. ev_stream_version (se_envelope i)" and ?xs = "records s sid"
  define ys where "ys = (case t of None \<Rightarrow> ?xs | Some n \<Rightarrow> take (nat n) ?xs)"
  have all: "map ?v ?xs = [1..int (length ?xs)]" by (rule records_versions [OF assms(1)])
  have "map ?v (take m ?xs) = [1..int (length (take m ?xs))]" for m
    by (simp add: take_map [symmetric] all take_upto min.commute)
  then have "map ?v ys = [1..int (length ys)]"
    using all by (simp add: ys_def split: option.split)
  then have "map ?v (drop (nat (a - 1)) ys) = [a..int (length ys)]"
    using assms(2) by (simp add: drop_map [symmetric] upto_drop)
  moreover have "window a t ?xs = drop (nat (a - 1)) ys" by (simp add: window_def ys_def)
  moreover have "[a..int (length ys)] = [a..a + int (length (drop (nat (a - 1)) ys)) - 1]"
    using assms(2) by (cases "nat (a - 1) \<le> length ys") (auto simp: of_nat_diff)
  ultimately show ?thesis by simp
qed

lemma replay_exact:
  assumes "wf_store s" "1 \<le> page_size" "1 \<le> from_version"
    and "case target of None \<Rightarrow> True | Some t \<Rightarrow> from_version \<le> t" "length (records s sid) < fuel"
  shows "replay_stream fuel (read_events s sid) decode reducer page_size initial from_version target =
    Some (replayed decode reducer (window from_version target (records s sid)) (replay_start initial from_version))"
proof -
  let ?r = "replay_start initial from_version" and ?W = "window from_version target (records s sid)"
  have e: "rp_expected ?r = from_version" by (simp add: replay_start_def)
  have "length ?W < fuel" using assms(5) length_window [of from_version target "records s sid"] by simp
  then have "replay_loop fuel (read_events s sid) decode reducer page_size target ?r =
      Some (replay_page decode reducer ?W ?r)"
    using replay_loop_one_page [of "read_events s sid" target page_size "records s sid" ?r fuel decode reducer]
      read_window [OF assms(1)] assms(2,3) by (simp add: e)
  moreover have "replay_page decode reducer ?W ?r = replayed decode reducer ?W ?r"
    by (rule replay_page_contiguous) (simp add: e window_versions [OF assms(1,3)])
  ultimately show ?thesis
    using assms(2-4) by (auto simp: replay_stream_def split: option.splits)
qed

end

end
