(* ===== verification/Event_Props.thy ===== *)
theory Event_Props
  imports Event_Catalog
begin

text \<open>
  The memory store as a readable store, and the properties of the event layer: optimistic
  concurrency, replay independent of paging, the catalog, and what a refused append leaves behind.
\<close>

section \<open>Reading the memory store\<close>

lemma stream_history_Nil: "stream_history [] sid = []"
  by (simp add: stream_history_def stream_events_def)

lemma read_stream_window:
  assumes "store_ok st" "1 \<le> from_version" "0 < limit"
  shows "store_read_stream st sid from_version to_version (Some limit) =
    take (nat limit) (window from_version to_version (stream_events st sid))"
proof -
  let ?v = "\<lambda>i. ev_stream_version (se_envelope i)" and ?xs = "stream_events st sid"
  have len: "length (stream_history st sid) = length ?xs" by (simp add: stream_history_def)
  have all: "map ?v ?xs = [1..int (length ?xs)]"
    using assms(1) len by (simp add: store_ok_def stream_history_def comp_def)
  define upper where "upper = (case to_version of None \<Rightarrow> ?xs | Some t \<Rightarrow> take (nat t) ?xs)"
  have upper: "upper = filter (\<lambda>i. case to_version of None \<Rightarrow> True | Some t \<Rightarrow> ?v i \<le> t) ?xs"
  proof (cases to_version)
    case (Some t)
    show ?thesis
    proof (cases "0 \<le> t")
      case True
      with filter_upto_le [OF all] Some show ?thesis by (simp add: upper_def)
    next
      case False
      have "?v i \<in> {1..int (length ?xs)}" if "i \<in> set ?xs" for i
        using that all by (metis (no_types, lifting) image_eqI list.set_map set_upto)
      then have "\<not> ?v i \<le> t" if "i \<in> set ?xs" for i using that False by force
      then show ?thesis using Some False by (simp add: upper_def filter_empty_conv)
    qed
  qed (simp add: upper_def)
  have "map ?v upper = [1..int (length upper)]"
    using all by (cases to_version) (simp_all add: upper_def take_map [symmetric] take_upto min.commute)
  from filter_upto_ge [OF this assms(2)]
  have "window from_version to_version ?xs = filter (\<lambda>i. from_version \<le> ?v i) upper"
    by (simp add: window_def upper_def)
  moreover have "filter (\<lambda>i. ev_stream_id (se_envelope i) = sid \<and> from_version \<le> ?v i \<and>
      (case to_version of None \<Rightarrow> True | Some t \<Rightarrow> ?v i \<le> t)) st = filter (\<lambda>i. from_version \<le> ?v i) upper"
    by (simp add: upper stream_events_def conj_ac)
  ultimately show ?thesis
    using assms(3) by (simp add: store_read_stream_def py_take_def)
qed

interpretation memory_read: readable_store "store_append clock" stream_history store_ok
    store_read_stream stream_events
  by unfold_locales (simp_all add: stream_history_def read_stream_window)

section \<open>Properties\<close>

text \<open>C19. Optimistic concurrency: of two writers that prepared well-formed batches at the same version
  of a stream, the first one appends and the second one is refused with the two versions; the refused
  append changes nothing.\<close>

theorem concurrent_append_one_winner:
  assumes "store_ok st" "batch_ok sid n es" "batch_ok sid n es'" "n = store_version st sid"
  shows "\<exists>st' r. store_append clock st es n = (st', Inr r) \<and>
    stream_history st' = (stream_history st)(sid := stream_history st sid @ es) \<and>
    store_append clock st' es' n = (st', Inl (StoreConflict n (n + int (length es))))"
proof -
  have n: "n = int (length (stream_history st sid))"
    using assms(4) store_version_ok [OF assms(1)] by simp
  obtain st' r where st': "store_append clock st es n = (st', Inr r)" "store_ok st'"
      "stream_history st' = (stream_history st)(sid := stream_history st sid @ es)"
    using memory.append_current [OF assms(1) assms(2) [unfolded n], of clock] n by auto
  have v: "store_version st' sid = n + int (length es)"
    using store_version_ok [OF st'(2)] st'(3) n by simp
  from assms(2,3) obtain e rest where "es' = e # rest" "ev_stream_id e = sid" "es \<noteq> []"
    by (cases es') (auto simp: batch_ok_def)
  then have "store_append clock st' es' n = (st', Inl (StoreConflict n (n + int (length es))))"
    using v by (simp add: store_append_def Let_def)
  with st' show ?thesis by blast
qed

definition sample_envelope :: "uuid \<Rightarrow> int \<Rightarrow> string EventEnvelope" where
  "sample_envelope i version = \<lparr>ev_event_id = i, ev_event_type = ''task.created'', ev_schema_version = 1,
     ev_occurred_at = 0, ev_recorded_at = 0, ev_stream_id = 9, ev_stream_type = StreamTaskRun,
     ev_stream_version = version, ev_correlation_id = 3, ev_causation_event_id = None,
     ev_actor = \<lparr>ar_actor_type = ActorSystem, ar_actor_id = ''a'', ar_display_name = None\<rparr>,
     ev_source_component = ''core'', ev_payload = ''p'', ev_payload_hash = ''h'',
     ev_privacy_class = PrivacySensitive\<rparr>"

lemma sample_batch_ok: "batch_ok 9 n [sample_envelope i (n + 1)]"
  by (simp add: batch_ok_def sample_envelope_def)

lemma concurrent_append_one_winner_witness:
  "\<exists>st' r. store_append (\<lambda>n. n) [] [sample_envelope 1 1] 0 = (st', Inr r) \<and>
     store_append (\<lambda>n. n) st' [sample_envelope 2 1] 0 = (st', Inl (StoreConflict 0 1))"
proof -
  have "(0 :: int) = store_version ([] :: string store) 9"
    by (simp add: store_version_def stream_events_def)
  from concurrent_append_one_winner [OF store_ok_Nil _ _ this]
    sample_batch_ok [of 0 1] sample_batch_ok [of 0 2]
  show ?thesis by fastforce
qed

text \<open>C20. Paging makes no difference: for every page size and every version range, replaying a stream
  of a well-formed store is one fold of the reducer over the decoded events of the range. It stops at
  the first event that does not decode, never reports a gap, and the store's length is enough fuel.\<close>

theorem replay_independent_of_paging:
  assumes "store_ok st" "1 \<le> page_size" "1 \<le> from_version"
    and "case target of None \<Rightarrow> True | Some t \<Rightarrow> from_version \<le> t" "length (stream_events st sid) < fuel"
  shows "replay_stream fuel (store_read_stream st sid) decode reducer page_size initial from_version target =
    Some (case decode_all decode (window from_version target (stream_events st sid)) of
        Inl e \<Rightarrow> Inl (ReplayDecode e)
      | Inr payloads \<Rightarrow> (let count = length (window from_version target (stream_events st sid)) in
          Inr \<lparr>rp_state = foldl reducer initial payloads,
            rp_expected = from_version + int count, rp_count = count,
            rp_first = (if count = 0 then None else Some from_version),
            rp_last = (if count = 0 then None else Some (from_version + int count - 1)),
            rp_position = (if count = 0 then None
              else Some (se_global_position (last (window from_version target (stream_events st sid)))))\<rparr>))"
  unfolding memory_read.replay_exact [OF assms]
  by (simp add: replayed_def replay_start_def Let_def split: sum.split)

lemma replay_independent_of_paging_witness:
  "\<exists>st r. store_append (\<lambda>n. n) [] [sample_envelope 1 1, sample_envelope 2 2] 0 = (st, r) \<and>
     map_option (map_sum id rp_state) (replay_stream 3 (store_read_stream st 9)
       (\<lambda>s. Inr (ev_payload (se_envelope s))) (\<lambda>n _. n + 1) 1 (0 :: nat) 1 None) = Some (Inr 2)"
proof -
  let ?es = "[sample_envelope 1 1, sample_envelope 2 2]"
  have b: "batch_ok 9 0 ?es" by (simp add: batch_ok_def sample_envelope_def upto_rec1)
  obtain st r where st: "store_append (\<lambda>n. n) ([] :: string store) ?es 0 = (st, Inr r)" "store_ok st"
      "stream_history st 9 = ?es"
    using memory.append_current [OF store_ok_Nil, of 9 ?es "\<lambda>n. n"] b by (auto simp: stream_history_Nil)
  then have len: "length (stream_events st 9) = 2" by (simp add: stream_history_def map_eq_conv) (metis length_map length_Cons list.size(3) numeral_2_eq_2)
  have dec: "decode_all (\<lambda>s. Inr (f s)) xs = Inr (map f xs)" for f :: "string StoredEvent \<Rightarrow> string" and xs
    by (induction xs) simp_all
  have count: "foldl (\<lambda>n _. Suc n) k (xs :: string list) = k + length xs" for k xs
    by (induction xs arbitrary: k) simp_all
  have "replay_stream 3 (store_read_stream st 9) (\<lambda>s. Inr (ev_payload (se_envelope s)))
      (\<lambda>n _. n + 1) 1 (0 :: nat) 1 None \<noteq> None"
    and "map_option (map_sum id rp_state) (replay_stream 3 (store_read_stream st 9)
       (\<lambda>s. Inr (ev_payload (se_envelope s))) (\<lambda>n _. n + 1) 1 (0 :: nat) 1 None) = Some (Inr 2)"
    by (subst replay_independent_of_paging [OF st(2)];
        simp add: len dec count Let_def window_def)+
  with st(1) show ?thesis by blast
qed

lemma build_catalog_eq: "build_catalog models = catalog.register_all [] models"
proof -
  have stuck: "foldl (\<lambda>c m. bind_res c (\<lambda>d. catalog_register d m)) (Inl e) ms = Inl e" for e and ms :: "('a, 'b) payload_model list"
    by (induction ms) simp_all
  have "foldl (\<lambda>c m. bind_res c (\<lambda>d. catalog_register d m)) (Inr c) ms = catalog.register_all c ms"
    for c and ms :: "('a, 'b) payload_model list"
  proof (induction ms arbitrary: c)
    case (Cons m ms)
    then show ?case by (cases "catalog_register c m") (simp_all add: stuck)
  qed simp
  then show ?thesis by (simp add: build_catalog_def)
qed

lemma register_all_catalog:
  "distinct (map model_key ms) \<Longrightarrow> \<forall>m \<in> set ms. model_key m \<notin> fst ` set c \<Longrightarrow>
     \<exists>c'. catalog.register_all c ms = Inr c'"
proof (induction ms arbitrary: c)
  case (Cons m ms)
  then have "\<exists>c'. catalog.register_all (c @ [(model_key m, m)]) ms = Inr c'"
    by (intro Cons.IH) (auto, metis image_eqI)
  moreover have "catalog_register c m = Inr (c @ [(model_key m, m)])"
    using Cons.prems(2) by (simp add: catalog_register_def dict_add_def)
  ultimately show ?case by simp
qed simp

text \<open>The catalog: it is built exactly when no event type is registered twice in a version, and then
  a lookup finds the one model with that type and version, and nothing else.\<close>

theorem catalog_lookup_exact:
  "(distinct (map model_key models) \<longleftrightarrow> (\<exists>c. build_catalog models = Inr c)) \<and>
   {m. \<exists>c. build_catalog models = Inr c \<and> get_payload_model c t v = Inr m} =
     (if distinct (map model_key models) then {m \<in> set models. model_key m = (t, v)} else {})"
proof (cases "build_catalog models")
  case (Inl e)
  then have "\<not> distinct (map model_key models)"
    using register_all_catalog [of models "[]"] by (auto simp: build_catalog_eq)
  with Inl show ?thesis by simp
next
  case (Inr c)
  note all = catalog.register_all_find [OF Inr [unfolded build_catalog_eq]]
  have "dict_get c (t, v) = map_of (map (\<lambda>m. (model_key m, m)) models) (t, v)"
    using all(3) by (simp add: map_add_def)
  then have "dict_get c (t, v) = Some m \<longleftrightarrow> m \<in> set models \<and> model_key m = (t, v)" for m
    using all(1) by (auto simp: map_of_eq_Some_iff comp_def image_iff)
  moreover have "get_payload_model c t v = Inr m \<longleftrightarrow> dict_get c (t, v) = Some m" for m
    by (auto simp: get_payload_model_def split: option.splits)
  ultimately show ?thesis using Inr all(1) by auto
qed

text \<open>A batch that passes the pre-transaction validation is accepted by the store at its expected
  version, extends exactly its own stream, and advances it by the length of the batch.\<close>

theorem validated_batch_is_appended:
  assumes "store_ok st" "validate_event_batch digest supported maximum es n = None"
    and "n = store_version st (ev_stream_id (hd es))"
  shows "\<exists>st' r. store_append clock st es n = (st', Inr r) \<and> store_ok st' \<and>
    ar_current_stream_version r = n + int (length es) \<and>
    stream_history st' = (stream_history st)(ev_stream_id (hd es) := stream_history st (ev_stream_id (hd es)) @ es)"
proof -
  from validate_event_batch_ok [OF assms(2)] obtain sid where b: "batch_ok sid n es" by blast
  then have "ev_stream_id (hd es) = sid" by (cases es) (auto simp: batch_ok_def)
  with b have b: "batch_ok (ev_stream_id (hd es)) n es" by simp
  have n: "n = int (length (stream_history st (ev_stream_id (hd es))))"
    using assms(3) store_version_ok [OF assms(1)] by simp
  from memory.append_current [OF assms(1) b [unfolded n], of clock] show ?thesis
    using n by auto
qed

lemma validated_batch_is_appended_witness:
  "\<exists>st' r. store_append (\<lambda>n. n) [] [sample_envelope 1 1] 0 = (st', Inr r) \<and> ar_current_stream_version r = 1"
proof -
  have ok: "validate_event_batch (\<lambda>_. ''h'') (\<lambda>_ _. True) 10 [sample_envelope 1 1] 0 = None"
    by (simp add: validate_event_batch_def sample_envelope_def)
  have "(0 :: int) = store_version ([] :: string store) (ev_stream_id (hd [sample_envelope 1 1]))"
    by (simp add: store_version_def stream_events_def)
  from validated_batch_is_appended [OF store_ok_Nil ok this, of "\<lambda>n. n"] show ?thesis by auto
qed

text \<open>The store's own append is not atomic: an event at the current version with a wrong stream
  version is stored first and reported afterwards, so the append raises and the event stays.\<close>

theorem refused_append_leaves_event:
  assumes "store_version st (ev_stream_id e) = n" "ev_stream_version e \<noteq> n + 1" "0 \<le> n"
    and "0 < ev_stream_version e"
  shows "\<exists>item. store_append clock st [e] n = (st @ [item], Inl (BadAppendResult AppendVersionMismatch)) \<and>
    se_envelope item = e"
  using assms
  by (simp add: store_append_def Let_def new_stored_def stored_event_error_def append_result_error_def)

lemma refused_append_leaves_event_witness:
  "\<exists>item. store_append (\<lambda>n. n) [] [sample_envelope 1 7] 0 =
     ([item], Inl (BadAppendResult AppendVersionMismatch)) \<and> se_envelope item = sample_envelope 1 7"
proof -
  have "store_version ([] :: string store) (ev_stream_id (sample_envelope 1 7)) = 0"
    by (simp add: store_version_def stream_events_def)
  from refused_append_leaves_event [OF this, of "\<lambda>n. n"] show ?thesis
    by (simp add: sample_envelope_def)
qed

end
