(* ===== verification/Ctl_Recovery.thy ===== *)
theory Ctl_Recovery
  imports Ctl_Run_Inv Event_Props
begin

text \<open>
  Recovery of a controller from its event stream (\<open>application/services/controller_recovery.py\<close>), and
  the two operations of \<open>application/services/cognitive_controller.py\<close> that work on a recovered run:
  \<open>continue_run\<close> and \<open>cancel\<close>.

  The payloads are the typed ones of \<open>ctl_payload\<close>, so \<open>model_validate\<close> of the catalog's models only
  tells whether the payload has the model's type. \<open>UUID(key)\<close> and \<open>jsonschema\<close> are parameters.
\<close>

section \<open>Decoding the controller's events\<close>

definition controller_event_types :: "string list" where
  "controller_event_types =
     [''problem.representation_created'', ''problem.representation_revised'', ''controller.state_changed'',
      ''controller.decision_recorded'', ''controller.acceptance_decision_recorded'',
      ''controller.clarification_requested'', ''controller.clarification_provided'',
      ''controller.checkpoint_created'', ''controller.continuation_issued'',
      ''controller.continuation_consumed'', ''controller.budget_exhausted'', ''controller.paused'',
      ''controller.cancelled'', ''plan.created'', ''plan.revised'', ''execution_step.created'',
      ''execution_step.started'', ''execution_step.completed'', ''execution_step.failed'']"

definition controller_model :: "string \<Rightarrow> (ctl_payload, ctl_payload) payload_model" where
  "controller_model t = \<lparr>pm_event_type = t, pm_schema_version = 1,
     pm_validate = (\<lambda>p. if ctl_event_type p = t then Some p else None)\<rparr>"

definition controller_catalog :: "(ctl_payload, ctl_payload) event_catalog" where
  "controller_catalog = map (\<lambda>t. ((t, 1), controller_model t)) controller_event_types"

definition decode_controller ::
  "(ctl_payload \<Rightarrow> string) \<Rightarrow> ctl_payload StoredEvent \<Rightarrow> decode_error + ctl_payload" where
  "decode_controller digest = decode_current digest controller_catalog"

section \<open>Replay\<close>

datatype recovery_error = StreamMissing | RecoveryDecode decode_error | InvalidStateSequence
  | NoClarificationContext | ContinuationUsed | RecoverySnapshot snapshot_fault

fun replay_states ::
  "(ctl_payload StoredEvent \<Rightarrow> decode_error + ctl_payload) \<Rightarrow> ControllerState \<Rightarrow> uuid option \<Rightarrow>
   ctl_payload StoredEvent list \<Rightarrow> recovery_error + ControllerState \<times> uuid option" where
  "replay_states decode state latest [] = Inr (state, latest)"
| "replay_states decode state latest (e # es) =
     (case decode e of Inl f \<Rightarrow> Inl (RecoveryDecode f)
      | Inr p \<Rightarrow>
          (let seen = Some (ev_event_id (se_envelope e)) in
           case p of
             PStateChanged previous current _ _ _ \<Rightarrow>
               if previous \<noteq> state then Inl InvalidStateSequence
               else replay_states decode current seen es
           | _ \<Rightarrow> replay_states decode state seen es))"

definition replay_run ::
  "(ctl_payload \<Rightarrow> string) \<Rightarrow> uuid \<Rightarrow> timestamp \<Rightarrow> ctl_payload StoredEvent list \<Rightarrow>
   recovery_error + ControllerStateSnapshot" where
  "replay_run digest run now stored =
     (if stored = [] then Inl StreamMissing
      else bind_res (replay_states (decode_controller digest) CtlReceived None stored)
        (\<lambda>(state, latest).
          case construct snapshot_error
            ((new_snapshot run state (fresh_usage now)
               (ev_stream_version (se_envelope (last stored))) (ev_occurred_at (se_envelope (last stored))))
             \<lparr>ss_last_event_id := latest,
              ss_terminal_reason := (if state \<in> {CtlCompleted, CtlFailed, CtlCancelled, CtlBudgetExhausted}
                then Some ''replayed terminal state'' else None)\<rparr>) of
            Inl f \<Rightarrow> Inl (RecoverySnapshot f) | Inr s \<Rightarrow> Inr s))"

datatype ActiveChildClassification = ChildNotStarted | ChildSafeToReevaluate | ChildUncertain | ChildTerminal

definition classify_child_call :: "string list \<Rightarrow> ActiveChildClassification" where
  "classify_child_call event_types =
     (if list_ex (\<lambda>t. list_ex (py_endswith t)
           [''.completed'', ''.failed'', ''.denied'', ''.timed_out'', ''.cancelled'']) event_types
      then ChildTerminal
      else if list_ex (\<lambda>t. py_endswith t ''.started'') event_types then ChildUncertain
      else if list_ex (\<lambda>t. py_endswith t ''.requested'') event_types then ChildSafeToReevaluate
      else ChildNotStarted)"

section \<open>The context of a continuation\<close>

record ContinuationContext =
  cx_request :: ClarificationRequest
  cx_token_record :: ContinuationTokenRecord
  cx_problem :: ProblemRepresentation
  cx_usage :: ControllerUsage
  cx_stream_version :: int

record context_scan =
  sc_problem :: "ProblemRepresentation option"
  sc_request :: "ClarificationRequest option"
  sc_record :: "ContinuationTokenRecord option"
  sc_consumed :: "uuid set"

fun scan_payload :: "context_scan \<Rightarrow> ctl_payload \<Rightarrow> context_scan" where
  "scan_payload c (PProblemCreated p) = c\<lparr>sc_problem := Some p\<rparr>"
| "scan_payload c (PProblemRevised _ _ p) = c\<lparr>sc_problem := Some p\<rparr>"
| "scan_payload c (PClarificationRequested q) = c\<lparr>sc_request := Some q\<rparr>"
| "scan_payload c (PContinuationIssued r) = c\<lparr>sc_record := Some r\<rparr>"
| "scan_payload c (PContinuationConsumed i _) = c\<lparr>sc_consumed := insert i (sc_consumed c)\<rparr>"
| "scan_payload c _ = c"

definition empty_scan :: context_scan where
  "empty_scan = \<lparr>sc_problem = None, sc_request = None, sc_record = None, sc_consumed = {}\<rparr>"

definition recovered_usage :: "ctl_payload StoredEvent list \<Rightarrow> ControllerUsage" where
  "recovered_usage stored = (fresh_usage (ev_occurred_at (se_envelope (hd stored))))
     \<lparr>cu_last_updated_at := ev_occurred_at (se_envelope (last stored))\<rparr>"

definition continuation_context ::
  "(ctl_payload \<Rightarrow> string) \<Rightarrow> ctl_payload StoredEvent list \<Rightarrow> recovery_error + ContinuationContext" where
  "continuation_context digest stored =
     (if stored = [] then Inl StreamMissing
      else case decode_all (decode_controller digest) stored of
        Inl f \<Rightarrow> Inl (RecoveryDecode f)
      | Inr payloads \<Rightarrow>
          (let c = foldl scan_payload empty_scan payloads in
           case (sc_problem c, sc_request c, sc_record c) of
             (Some problem, Some request, Some record) \<Rightarrow>
               if ct_continuation_id record \<in> sc_consumed c then Inl ContinuationUsed
               else Inr \<lparr>cx_request = request, cx_token_record = record, cx_problem = problem,
                 cx_usage = recovered_usage stored,
                 cx_stream_version = ev_stream_version (se_envelope (last stored))\<rparr>
           | _ \<Rightarrow> Inl NoClarificationContext))"

section \<open>Continuing a run\<close>

datatype continue_error = CtlFault ctl_error | RecoveryFault recovery_error | BadAnswerKey string
  | ClarificationFault clarification_fault | ContinuationFault continuation_fault
  | RevisionNotNext | ClarificationStillRequired | NoClarificationService

record ContinueControllerRequest =
  cn_task_run_id :: uuid
  cn_continuation_token :: string
  cn_answers :: "(string, json) dict"

record continue_env =
  ce_parse_uuid :: "string \<Rightarrow> uuid option"
  ce_schema_valid :: "(string, json) dict \<Rightarrow> json \<Rightarrow> bool"
  ce_revise :: "nat \<Rightarrow> ProblemRepresentation \<Rightarrow> ClarificationResponse \<Rightarrow> string + ProblemRepresentation"

text \<open>The exceptions of a computation, embedded.\<close>

definition embed :: "('e \<Rightarrow> 'f) \<Rightarrow> ('s, 'e, 'a) comp \<Rightarrow> ('s, 'f, 'a) comp" where
  "embed k m = (\<lambda>s. case m s of (s', Inl e) \<Rightarrow> (s', Inl (k e)) | (s', Inr x) \<Rightarrow> (s', Inr x))"

primrec parse_answers ::
  "(string \<Rightarrow> uuid option) \<Rightarrow> (string \<times> json) list \<Rightarrow> continue_error + ClarificationAnswer list" where
  "parse_answers parse [] = Inr []"
| "parse_answers parse (a # as) =
     (case parse (fst a) of None \<Rightarrow> Inl (BadAnswerKey (fst a))
      | Some q \<Rightarrow> bind_res (parse_answers parse as)
          (\<lambda>rest. Inr (\<lparr>can_question_id = q, can_answer = snd a\<rparr> # rest)))"

definition response_from_answers ::
  "(string \<Rightarrow> uuid option) \<Rightarrow> ContinuationContext \<Rightarrow> (string, json) dict \<Rightarrow> timestamp \<Rightarrow>
   continue_error + ClarificationResponse" where
  "response_from_answers parse ctx answers now =
     bind_res (parse_answers parse (sort_key fst answers)) (\<lambda>parsed.
     case construct clarification_response_error
       \<lparr>crs_clarification_id = crq_clarification_id (cx_request ctx),
        crs_task_run_id = crq_task_run_id (cx_request ctx), crs_answers = parsed,
        crs_provided_at = now, crs_provided_by = ''controller-owner''\<rparr> of
       Inl f \<Rightarrow> Inl (ClarificationFault f) | Inr r \<Rightarrow> Inr r)"

text \<open>
  The guards in front of the first event: the context, the answers, the token. Reading and the
  checks change nothing.
\<close>

definition continue_guards ::
  "'s ctl_env \<Rightarrow> continue_env \<Rightarrow> ContinueControllerRequest \<Rightarrow> ctl_payload StoredEvent list \<Rightarrow> nat \<Rightarrow>
   continue_error + ContinuationContext \<times> ClarificationResponse \<times> ContinuationTokenRecord" where
  "continue_guards env cenv req stored t =
     (if \<not> en_clarification env then Inl NoClarificationService
      else case continuation_context (en_digest env) stored of
        Inl f \<Rightarrow> Inl (RecoveryFault f)
      | Inr ctx \<Rightarrow>
          bind_res (response_from_answers (ce_parse_uuid cenv) ctx (cn_answers req) (en_now env t)) (\<lambda>response.
          case validate_response (ce_schema_valid cenv) (cx_request ctx) response of
            Some f \<Rightarrow> Inl (ClarificationFault f)
          | None \<Rightarrow>
              (case consume_token (en_sha256 env) (cx_token_record ctx) (cn_continuation_token req)
                 (cn_task_run_id req) (ct_checkpoint_id (cx_token_record ctx)) (cx_stream_version ctx)
                 False (en_now env (Suc t)) of
                 Inl f \<Rightarrow> Inl (ContinuationFault f)
               | Inr consumed \<Rightarrow> Inr (ctx, response, consumed))))"

definition continue_start :: "'s \<Rightarrow> int \<Rightarrow> ControllerUsage \<Rightarrow> nat \<Rightarrow> 's run_state" where
  "continue_start store version usage t = \<lparr>rn_store = store, rn_version = version,
     rn_state = CtlWaitingForClarification, rn_usage = usage, rn_tick = t, rn_completed = {},
     rn_failed = {}, rn_tools = {}, rn_outputs = [], rn_warnings = []\<rparr>"

text \<open>The events of a continuation. \<open>rn_state\<close> follows the state the events announce.\<close>

definition continue_revised ::
  "'s ctl_env \<Rightarrow> uuid \<Rightarrow> ContinuationContext \<Rightarrow> ProblemRepresentation \<Rightarrow>
   ('s run_state, continue_error, ControllerRunResult) comp" where
  "continue_revised env run ctx revised =
     (if pr_revision revised \<noteq> pr_revision (cx_problem ctx) + 1 then throw RevisionNotNext
      else andthen (embed CtlFault (emit env run run
         (PProblemRevised (pr_problem_id revised) (pr_revision (cx_problem ctx)) revised)))
     (andthen (embed CtlFault (transition_to env run run CtlRepresentingProblem
         ''validated clarification response''))
     (if requires_clarification revised then throw ClarificationStillRequired
      else bnd (embed CtlFault (draw (\<lambda>t. (en_new_id env t, en_now env t)))) (\<lambda>(decision_id, changed).
        andthen (embed CtlFault (emit env run run (PStateChanged CtlRepresentingProblem CtlReady
           ''clarification produced an executable representation'' decision_id changed)))
        (andthen (change (\<lambda>s. s\<lparr>rn_state := CtlReady\<rparr>))
        (bnd (embed CtlFault (draw (en_now env))) (\<lambda>updated.
        andthen (change (\<lambda>s. s\<lparr>rn_usage := (cx_usage ctx)
            \<lparr>cu_clarification_cycles := cu_clarification_cycles (cx_usage ctx) + 1,
             cu_last_updated_at := updated\<rparr>\<rparr>))
        (embed CtlFault (run_result run (Some revised) None None None False None)))))))))"

definition continue_steps ::
  "'s ctl_env \<Rightarrow> continue_env \<Rightarrow> uuid \<Rightarrow> ContinuationContext \<Rightarrow> ClarificationResponse \<Rightarrow>
   ContinuationTokenRecord \<Rightarrow> ('s run_state, continue_error, ControllerRunResult) comp" where
  "continue_steps env cenv run ctx response consumed =
     andthen (embed CtlFault (emit env run run (PClarificationProvided response)))
     (bnd (embed CtlFault (draw (en_now env))) (\<lambda>now.
     andthen (embed CtlFault (emit env run run (PContinuationConsumed (ct_continuation_id consumed)
        (case ct_consumed_at consumed of Some t \<Rightarrow> t | None \<Rightarrow> now))))
     (bnd (embed CtlFault (draw (\<lambda>t. ce_revise cenv t (cx_problem ctx) response))) (\<lambda>answer.
     bnd (lift_res (\<lambda>e. CtlFault (PortFault e)) answer) (continue_revised env run ctx)))))"

definition continue_run ::
  "'s ctl_env \<Rightarrow> ('s \<Rightarrow> uuid \<Rightarrow> ctl_payload StoredEvent list) \<Rightarrow> continue_env \<Rightarrow>
   ContinueControllerRequest \<Rightarrow> 's \<Rightarrow> 's run_state \<times> (continue_error + ControllerRunResult)" where
  "continue_run env read cenv req store =
     (let run = cn_task_run_id req; idle = continue_start store 0 (fresh_usage 0) 0 in
      case continue_guards env cenv req (read store run) 0 of
        Inl e \<Rightarrow> (idle, Inl e)
      | Inr (ctx, response, consumed) \<Rightarrow>
          continue_steps env cenv run ctx response consumed
            (continue_start store (cx_stream_version ctx) (cx_usage ctx) 2))"

section \<open>Cancelling a run\<close>

definition cancel_start :: "'s \<Rightarrow> ControllerStateSnapshot \<Rightarrow> nat \<Rightarrow> 's run_state" where
  "cancel_start store snapshot t = (continue_start store (ss_last_stream_version snapshot)
     (ss_usage snapshot) t)\<lparr>rn_state := ss_state snapshot\<rparr>"

definition cancel_run ::
  "'s ctl_env \<Rightarrow> ('s \<Rightarrow> uuid \<Rightarrow> ctl_payload StoredEvent list) \<Rightarrow> uuid \<Rightarrow> string \<Rightarrow> 's \<Rightarrow>
   's run_state \<times> (continue_error + ControllerRunResult)" where
  "cancel_run env read run reason store =
     (case replay_run (en_digest env) run (en_now env 0) (read store run) of
        Inl f \<Rightarrow> (continue_start store 0 (fresh_usage 0) 1, Inl (RecoveryFault f))
      | Inr snapshot \<Rightarrow>
          (andthen (embed CtlFault (transition_to env run run CtlCancelled reason))
          (bnd (embed CtlFault (draw (en_now env))) (\<lambda>now.
          andthen (embed CtlFault (emit env run run (PCancelled run (py_strip reason) now)))
          (embed CtlFault (run_result run None None None None False (Some reason))))))
          (cancel_start store snapshot 1))"

end
