(* ===== verification/Ctl_Continue_Props.thy ===== *)
theory Ctl_Continue_Props
  imports Ctl_Recovery_Props
begin

text \<open>
  Continuations end to end, over the memory store: the token of a run that waits is accepted, every
  continuation that gets past its guards uses the token up, and what each outcome leaves behind.
\<close>

section \<open>Streams with known payloads\<close>

definition stands ::
  "(ctl_payload \<Rightarrow> string) \<Rightarrow> uuid \<Rightarrow> ControllerState \<Rightarrow> ctl_payload list \<Rightarrow> ctl_payload store run_state \<Rightarrow> bool" where
  "stands dg run X ps s \<longleftrightarrow> stream_holds dg stream_history store_ok run ps s \<and> rn_state s = X"

lemma run_inv_stands:
  "run_inv dg stream_history store_ok run s \<longleftrightarrow>
     (\<exists>ps. stands dg run (rn_state s) ps s \<and> legal_states CtlReceived ps = Some (rn_state s))"
  by (simp add: run_inv_holds stands_def)

lemma stands_frame:
  "rn_store s' = rn_store s \<Longrightarrow> rn_version s' = rn_version s \<Longrightarrow>
     stands dg run X ps s \<Longrightarrow> stands dg run (rn_state s') ps s'"
  by (simp add: stands_def stream_holds_def)

text \<open>With hexadecimal digests every emission succeeds.\<close>

lemma emit_ok:
  assumes "stands (en_digest env) run X ps s" "sha256_hex (en_digest env p)"
  shows "\<exists>st. emit (memory_env clock env) run cor p s =
      (s\<lparr>rn_tick := Suc (rn_tick s), rn_store := st, rn_version := rn_version s + 1\<rparr>, Inr ()) \<and>
    stands (en_digest env) run X (ps @ [p])
      (s\<lparr>rn_tick := Suc (rn_tick s), rn_store := st, rn_version := rn_version s + 1\<rparr>)"
proof -
  let ?env = "memory_env clock env"
  have s: "store_ok (rn_store s)" "rn_version s = int (length (stream_history (rn_store s) run))"
    using assms(1) by (simp_all add: stands_def stream_holds_def)
  obtain s' r where run: "emit ?env run cor p s = (s', r)" by fastforce
  have no_fault: "\<nexists>f. r = Inl (EnvelopeFault f)"
  proof -
    obtain e where "controller_envelope ?env run cor (en_new_id ?env (rn_tick s)) (en_now ?env (rn_tick s)) (rn_version s) p = Inr e"
      using controller_envelope_total [of ?env p "rn_version s"] assms(2) s(2) by fastforce
    with run show ?thesis by (auto simp: emit_def bnd_def draw_def split: prod.splits sum.splits)
  qed
  from memory_run.emit_step [OF s run] no_fault obtain st e where
    "r = Inr ()" "ev_payload e = p" "sound_event (en_digest env) e" "store_ok st"
    "s' = s\<lparr>rn_tick := Suc (rn_tick s), rn_store := st, rn_version := rn_version s + 1\<rparr>"
    "stream_history st = (stream_history (rn_store s))(run := stream_history (rn_store s) run @ [e])"
    by auto
  then show ?thesis
    using assms(1) run by (intro exI [of _ st]) (auto simp: stands_def stream_holds_def)
qed

lemma transition_ok:
  assumes "stands (en_digest env) run X ps s" "\<forall>p. sha256_hex (en_digest env p)"
    and "can_transition X Y" "non_empty_str reason"
  shows "\<exists>st d t. transition_to (memory_env clock env) run cor Y reason s =
      (s\<lparr>rn_tick := rn_tick s + 3, rn_store := st, rn_version := rn_version s + 1, rn_state := Y\<rparr>, Inr ()) \<and>
    stands (en_digest env) run Y (ps @ [PStateChanged X Y (py_strip reason) d t])
      (s\<lparr>rn_tick := rn_tick s + 3, rn_store := st, rn_version := rn_version s + 1, rn_state := Y\<rparr>)"
proof -
  let ?env = "memory_env clock env"
  let ?d = "en_new_id ?env (rn_tick s)" and ?t = "en_now ?env (Suc (rn_tick s))"
  let ?s2 = "s\<lparr>rn_tick := Suc (Suc (rn_tick s))\<rparr>" and ?p = "PStateChanged X Y (py_strip reason)"
  have X: "rn_state s = X" and v: "0 \<le> rn_version s"
    using assms(1) by (simp_all add: stands_def stream_holds_def)
  have ok: "require_transition \<lparr>tr_current = X, tr_target = Y, tr_reason = reason,
      tr_decision_id = d, tr_expected_stream_version = rn_version s\<rparr> = None" for d
    using assms(3,4) v by (simp add: require_transition_None_iff)
  have "stands (en_digest env) run X ps ?s2"
    using stands_frame [OF _ _ assms(1), of ?s2] X by simp
  from emit_ok [OF this, of "?p ?d ?t" clock cor] assms(2) obtain st where st:
    "emit ?env run cor (?p ?d ?t) ?s2 =
      (s\<lparr>rn_tick := rn_tick s + 3, rn_store := st, rn_version := rn_version s + 1\<rparr>, Inr ())"
    "stands (en_digest env) run X (ps @ [?p ?d ?t])
      (s\<lparr>rn_tick := rn_tick s + 3, rn_store := st, rn_version := rn_version s + 1\<rparr>)"
    by (auto simp: eval_nat_numeral)
  have "transition_to ?env run cor Y reason s =
      (s\<lparr>rn_tick := rn_tick s + 3, rn_store := st, rn_version := rn_version s + 1, rn_state := Y\<rparr>, Inr ())"
    using st(1) by (simp add: transition_to_def bnd_def draw_def asks_def X ok andthen_def change_def)
  with st(2) show ?thesis by (intro exI [of _ st] exI) (auto simp: stands_def stream_holds_def)
qed

section \<open>What the context of a stream is\<close>

definition issues_token :: "ctl_payload \<Rightarrow> bool" where
  "issues_token p = (case p of PContinuationIssued _ \<Rightarrow> True | _ \<Rightarrow> False)"

lemma scan_keeps:
  "\<not> issues_token p \<Longrightarrow> sc_record (scan_payload c p) = sc_record c"
  "sc_consumed c \<subseteq> sc_consumed (scan_payload c p)"
  "sc_problem c \<noteq> None \<Longrightarrow> sc_problem (scan_payload c p) \<noteq> None"
  "sc_request c \<noteq> None \<Longrightarrow> sc_request (scan_payload c p) \<noteq> None"
  by (cases p; auto simp: issues_token_def)+

lemma scan_all_keeps:
  "list_all (\<lambda>p. \<not> issues_token p) ps \<Longrightarrow> sc_record (foldl scan_payload c ps) = sc_record c"
  "sc_consumed c \<subseteq> sc_consumed (foldl scan_payload c ps)"
  "sc_problem c \<noteq> None \<Longrightarrow> sc_problem (foldl scan_payload c ps) \<noteq> None"
  "sc_request c \<noteq> None \<Longrightarrow> sc_request (foldl scan_payload c ps) \<noteq> None"
proof (induction ps arbitrary: c)
  case (Cons p ps)
  { case 1 then show ?case using Cons.IH(1) [of "scan_payload c p"] by (simp add: scan_keeps(1)) }
  { case 2 show ?case using scan_keeps(2) [of c p] Cons.IH(2) [of "scan_payload c p"] by auto }
  { case 3 then show ?case using Cons.IH(3) [of "scan_payload c p"] scan_keeps(3) [of c p] by simp }
  { case 4 then show ?case using Cons.IH(4) [of "scan_payload c p"] scan_keeps(4) [of c p] by simp }
qed simp_all

lemma scan_consumed: "PContinuationConsumed i t \<in> set ps \<Longrightarrow> i \<in> sc_consumed (foldl scan_payload c ps)"
proof (induction ps arbitrary: c)
  case (Cons p ps)
  show ?case
  proof (cases "p = PContinuationConsumed i t")
    case True
    then show ?thesis using scan_all_keeps(2) [of "scan_payload c p" ps] by auto
  next
    case False
    with Cons show ?thesis by simp
  qed
qed simp

lemma context_of_stands:
  assumes "stands dg run X ps s" "ps \<noteq> []"
  shows "continuation_context dg (read_whole (rn_store s) run) =
    (let c = foldl scan_payload empty_scan ps in
     case (sc_problem c, sc_request c, sc_record c) of
       (Some problem, Some request, Some record) \<Rightarrow>
         if ct_continuation_id record \<in> sc_consumed c then Inl ContinuationUsed
         else Inr \<lparr>cx_request = request, cx_token_record = record, cx_problem = problem,
           cx_usage = recovered_usage (stream_events (rn_store s) run), cx_stream_version = rn_version s\<rparr>
     | _ \<Rightarrow> Inl NoClarificationContext)"
proof -
  let ?es = "stream_events (rn_store s) run"
  have ok: "store_ok (rn_store s)" and v: "rn_version s = int (length (stream_history (rn_store s) run))"
    and sound: "list_all (sound_event dg) (map se_envelope ?es)"
    and ps: "map (\<lambda>e. ev_payload (se_envelope e)) ?es = ps"
    using assms(1) by (simp_all add: stands_def stream_holds_def stream_history_def comp_def)
  have ne: "?es \<noteq> []" using ps assms(2) by auto
  have lv: "ev_stream_version (se_envelope (last ?es)) = rn_version s"
    using stream_last_version [OF ok ne] v by simp
  show ?thesis
    unfolding continuation_context_def read_whole_eq [OF ok] decode_all_sound [OF sound] ps lv
    using ne by simp
qed

text \<open>A stream on which the record's token has been consumed has no context any more.\<close>

lemma context_used:
  assumes "stands dg run X ps s" "continuation_context dg (read_whole (rn_store s) run) = Inr ctx"
    and "stands dg run Y (ps @ qs) s'" "list_all (\<lambda>p. \<not> issues_token p) qs"
    and "PContinuationConsumed (ct_continuation_id (cx_token_record ctx)) t \<in> set qs"
  shows "continuation_context dg (read_whole (rn_store s') run) = Inl ContinuationUsed"
proof -
  let ?c = "foldl scan_payload empty_scan ps"
  have ne: "ps \<noteq> []"
  proof
    assume "ps = []"
    then have "stream_events (rn_store s) run = []" "store_ok (rn_store s)"
      using assms(1) by (simp_all add: stands_def stream_holds_def stream_history_def)
    then show False using assms(2) by (simp add: continuation_context_def read_whole_eq)
  qed
  from assms(2) context_of_stands [OF assms(1) ne] have c:
    "sc_problem ?c \<noteq> None" "sc_request ?c \<noteq> None" "sc_record ?c = Some (cx_token_record ctx)"
    by (auto simp: Let_def split: option.splits if_splits)
  let ?d = "foldl scan_payload ?c qs"
  have d: "sc_problem ?d \<noteq> None" "sc_request ?d \<noteq> None" "sc_record ?d = Some (cx_token_record ctx)"
    "ct_continuation_id (cx_token_record ctx) \<in> sc_consumed ?d"
    using scan_all_keeps(3,4) [of ?c qs] scan_all_keeps(1) [OF assms(4), of ?c] c scan_consumed [OF assms(5)]
    by simp_all
  show ?thesis
    using context_of_stands [OF assms(3)] ne d by (auto simp: Let_def split: option.splits)
qed

section \<open>What a continuation does\<close>

lemma guards_context:
  assumes "continue_guards env cenv req stored t = Inr (ctx, response, consumed)"
  shows "continuation_context (en_digest env) stored = Inr ctx" "en_clarification env"
    "ct_continuation_id consumed = ct_continuation_id (cx_token_record ctx)" "ct_consumed_at consumed \<noteq> None"
  using assms
  by (auto simp: continue_guards_def bind_res_Inr_iff consume_token_def split: if_splits sum.splits option.splits)

lemma stands_nonempty:
  assumes "stands dg run X ps s" "continuation_context dg (read_whole (rn_store s) run) = Inr ctx"
  shows "ps \<noteq> []" "cx_stream_version ctx = rn_version s"
proof -
  show ne: "ps \<noteq> []"
  proof
    assume "ps = []"
    then have "stream_events (rn_store s) run = []" "store_ok (rn_store s)"
      using assms(1) by (simp_all add: stands_def stream_holds_def stream_history_def)
    then show False using assms(2) by (simp add: continuation_context_def read_whole_eq)
  qed
  from assms(2) context_of_stands [OF assms(1) ne] show "cx_stream_version ctx = rn_version s"
    by (auto simp: Let_def split: option.splits if_splits)
qed

text \<open>What is left behind on each outcome of the engine's revision.\<close>

definition continued ::
  "string + ProblemRepresentation \<Rightarrow> ContinuationContext \<Rightarrow> 's run_state \<Rightarrow>
   continue_error + ControllerRunResult \<Rightarrow> bool" where
  "continued answer ctx s r \<longleftrightarrow> (case answer of
     Inl m \<Rightarrow> r = Inl (CtlFault (PortFault m)) \<and> rn_state s = CtlWaitingForClarification
   | Inr revised \<Rightarrow>
       if pr_revision revised \<noteq> pr_revision (cx_problem ctx) + 1
       then r = Inl RevisionNotNext \<and> rn_state s = CtlWaitingForClarification
       else if requires_clarification revised
       then r = Inl ClarificationStillRequired \<and> rn_state s = CtlRepresentingProblem
       else rn_state s = CtlReady \<and> (\<exists>result. r = Inr result \<and> cr_state result = CtlReady \<and>
         cr_problem_representation result = Some revised \<and> cr_last_stream_version result = rn_version s))"

lemma bnd_Inr: "m s = (s', Inr x) \<Longrightarrow> bnd m f s = f x s'"
  by (simp add: bnd_def)

lemma andthen_Inr: "m s = (s', Inr x) \<Longrightarrow> andthen m n s = n s'"
  by (simp add: andthen_def bnd_def)

lemma embed_Inr: "m s = (s', Inr x) \<Longrightarrow> embed k m s = (s', Inr x)"
  by (simp add: embed_def)

lemma embed_draw: "embed k (draw f) s = (s\<lparr>rn_tick := Suc (rn_tick s)\<rparr>, Inr (f (rn_tick s)))"
  by (simp add: embed_def draw_def)

lemma lift_Inl: "bnd (lift_res k (Inl e)) f s = (s, Inl (k e))"
  by (simp add: bnd_def lift_res_def)

lemma lift_Inr: "bnd (lift_res k (Inr x)) f s = f x s"
  by (simp add: bnd_def lift_res_def)

text \<open>The events in front of the revision.\<close>

lemma continue_first_steps:
  assumes "stands (en_digest env) run CtlWaitingForClarification ps s"
    and "\<forall>p. sha256_hex (en_digest env p)" "ct_consumed_at consumed = Some at_time"
  shows "\<exists>s2. continue_steps (memory_env clock env) cenv run ctx response consumed s =
     bnd (lift_res (\<lambda>e. CtlFault (PortFault e)) (ce_revise cenv (rn_tick s + 3) (cx_problem ctx) response))
       (continue_revised (memory_env clock env) run ctx) s2 \<and>
     stands (en_digest env) run CtlWaitingForClarification
       (ps @ [PClarificationProvided response, PContinuationConsumed (ct_continuation_id consumed) at_time]) s2"
proof -
  let ?env = "memory_env clock env"
  obtain s1 where s1: "emit ?env run run (PClarificationProvided response) s = (s1, Inr ())"
    "stands (en_digest env) run CtlWaitingForClarification (ps @ [PClarificationProvided response]) s1"
    "rn_tick s1 = rn_tick s + 1"
    using emit_ok [OF assms(1), of "PClarificationProvided response" clock run] assms(2) by auto
  let ?s1 = "s1\<lparr>rn_tick := Suc (rn_tick s1)\<rparr>"
  have "stands (en_digest env) run CtlWaitingForClarification (ps @ [PClarificationProvided response]) ?s1"
    using s1(2) by (simp add: stands_def stream_holds_def)
  from emit_ok [OF this, of "PContinuationConsumed (ct_continuation_id consumed) at_time" clock run] assms(2)
  obtain s2 where s2: "emit ?env run run (PContinuationConsumed (ct_continuation_id consumed) at_time) ?s1 = (s2, Inr ())"
    "stands (en_digest env) run CtlWaitingForClarification
       ((ps @ [PClarificationProvided response]) @ [PContinuationConsumed (ct_continuation_id consumed) at_time]) s2"
    "rn_tick s2 = rn_tick s + 3"
    using s1(3) by auto
  have "continue_steps ?env cenv run ctx response consumed s =
     bnd (lift_res (\<lambda>e. CtlFault (PortFault e)) (ce_revise cenv (rn_tick s + 3) (cx_problem ctx) response))
       (continue_revised ?env run ctx) (s2\<lparr>rn_tick := Suc (rn_tick s2)\<rparr>)"
    using s1(1) s2(1,3)
    by (simp add: continue_steps_def andthen_Inr bnd_Inr embed_Inr embed_draw assms(3))
  moreover have "stands (en_digest env) run CtlWaitingForClarification
       (ps @ [PClarificationProvided response, PContinuationConsumed (ct_continuation_id consumed) at_time])
       (s2\<lparr>rn_tick := Suc (rn_tick s2)\<rparr>)"
    using s2(2) by (simp add: stands_def stream_holds_def)
  ultimately show ?thesis by blast
qed

text \<open>The events after it.\<close>

definition revised_events ::
  "uuid \<Rightarrow> ContinuationContext \<Rightarrow> ProblemRepresentation \<Rightarrow> ctl_payload list \<Rightarrow> ControllerState \<Rightarrow> bool" where
  "revised_events run ctx revised qs X \<longleftrightarrow> list_all (\<lambda>p. \<not> issues_token p) qs \<and>
     legal_states CtlWaitingForClarification qs = Some X"

lemma continue_revised_ok:
  assumes "stands (en_digest env) run CtlWaitingForClarification ps s" "\<forall>p. sha256_hex (en_digest env p)"
  shows "\<exists>s' r qs. continue_revised (memory_env clock env) run ctx revised s = (s', r) \<and>
    stands (en_digest env) run (rn_state s') (ps @ qs) s' \<and>
    revised_events run ctx revised qs (rn_state s') \<and> continued (Inr revised) ctx s' r"
proof (cases "pr_revision revised = pr_revision (cx_problem ctx) + 1")
  case False
  then show ?thesis
    using assms(1)
    by (intro exI [of _ s] exI [of _ "Inl RevisionNotNext"] exI [of _ "[]"])
      (simp add: continue_revised_def throw_def continued_def revised_events_def stands_def)
next
  case next_revision: True
  let ?env = "memory_env clock env"
  let ?p = "PProblemRevised (pr_problem_id revised) (pr_revision (cx_problem ctx)) revised"
  obtain s3 where s3: "emit ?env run run ?p s = (s3, Inr ())"
    "stands (en_digest env) run CtlWaitingForClarification (ps @ [?p]) s3"
    using emit_ok [OF assms(1), of ?p clock run] assms(2) by blast
  have reason: "non_empty_str ''validated clarification response''"
    by (simp add: non_empty_str_Cons py_space_def)
  obtain s4 d t where s4: "transition_to ?env run run CtlRepresentingProblem ''validated clarification response'' s3 = (s4, Inr ())"
    "stands (en_digest env) run CtlRepresentingProblem ((ps @ [?p]) @
       [PStateChanged CtlWaitingForClarification CtlRepresentingProblem (py_strip ''validated clarification response'') d t]) s4"
    using transition_ok [OF s3(2) assms(2) _ reason, of CtlRepresentingProblem clock run]
    by (auto simp: can_transition_def)
  let ?c1 = "PStateChanged CtlWaitingForClarification CtlRepresentingProblem (py_strip ''validated clarification response'') d t"
  have RP: "rn_state s4 = CtlRepresentingProblem" using s4(2) by (simp add: stands_def)
  show ?thesis
  proof (cases "requires_clarification revised")
    case True
    have "continue_revised ?env run ctx revised s = (s4, Inl ClarificationStillRequired)"
      using s3(1) s4(1) next_revision True by (simp add: continue_revised_def andthen_Inr embed_Inr throw_def)
    then show ?thesis
      using s4(2) RP next_revision True
      by (intro exI [of _ s4] exI [of _ "Inl ClarificationStillRequired"] exI [of _ "[?p, ?c1]"])
        (simp add: issues_token_def continued_def can_transition_def revised_events_def)
  next
    case False
    let ?s4 = "s4\<lparr>rn_tick := Suc (rn_tick s4)\<rparr>"
    let ?c2 = "PStateChanged CtlRepresentingProblem CtlReady ''clarification produced an executable representation''
        (en_new_id ?env (rn_tick s4)) (en_now ?env (rn_tick s4))"
    have "stands (en_digest env) run CtlRepresentingProblem ((ps @ [?p]) @ [?c1]) ?s4"
      using s4(2) by (simp add: stands_def stream_holds_def)
    then obtain s5 where s5: "emit ?env run run ?c2 ?s4 = (s5, Inr ())"
      "stands (en_digest env) run CtlRepresentingProblem (((ps @ [?p]) @ [?c1]) @ [?c2]) s5"
      using emit_ok [of env run CtlRepresentingProblem _ ?s4 ?c2 clock run] assms(2) by blast
    let ?finish = "s5\<lparr>rn_state := CtlReady, rn_tick := Suc (rn_tick s5), rn_usage := (cx_usage ctx)
        \<lparr>cu_clarification_cycles := cu_clarification_cycles (cx_usage ctx) + 1,
         cu_last_updated_at := en_now ?env (rn_tick s5)\<rparr>\<rparr>"
    have "\<exists>result. continue_revised ?env run ctx revised s = (?finish, Inr result) \<and> cr_state result = CtlReady \<and>
         cr_problem_representation result = Some revised \<and> cr_last_stream_version result = rn_version ?finish"
      using s3(1) s4(1) s5(1) next_revision False
      by (simp add: continue_revised_def andthen_Inr bnd_Inr embed_Inr embed_draw change_def run_result_def asks_def)
    then obtain result where "continue_revised ?env run ctx revised s = (?finish, Inr result)"
      "cr_state result = CtlReady" "cr_problem_representation result = Some revised"
      "cr_last_stream_version result = rn_version ?finish" by blast
    then show ?thesis
      using s5(2) next_revision False
      by (intro exI [of _ ?finish] exI [of _ "Inr result"] exI [of _ "[?p, ?c1, ?c2]"])
        (simp add: issues_token_def continued_def can_transition_def revised_events_def stands_def stream_holds_def)
  qed
qed

lemma continue_steps_ok:
  assumes "stands (en_digest env) run CtlWaitingForClarification ps s"
    and hex: "\<forall>p. sha256_hex (en_digest env p)" and at_time: "ct_consumed_at consumed = Some at_time"
  shows "\<exists>s' r qs. continue_steps (memory_env clock env) cenv run ctx response consumed s = (s', r) \<and>
    stands (en_digest env) run (rn_state s') (ps @ qs) s' \<and>
    list_all (\<lambda>p. \<not> issues_token p) qs \<and>
    PContinuationConsumed (ct_continuation_id consumed) at_time \<in> set qs \<and>
    legal_states CtlWaitingForClarification qs = Some (rn_state s') \<and>
    continued (ce_revise cenv (rn_tick s + 3) (cx_problem ctx) response) ctx s' r"
proof -
  let ?answer = "ce_revise cenv (rn_tick s + 3) (cx_problem ctx) response"
  let ?used = "[PClarificationProvided response, PContinuationConsumed (ct_continuation_id consumed) at_time]"
  from continue_first_steps [OF assms, of clock cenv ctx response] obtain s2 where
    go: "continue_steps (memory_env clock env) cenv run ctx response consumed s =
      bnd (lift_res (\<lambda>e. CtlFault (PortFault e)) ?answer) (continue_revised (memory_env clock env) run ctx) s2"
    and s2: "stands (en_digest env) run CtlWaitingForClarification (ps @ ?used) s2" by blast
  show ?thesis
  proof (cases ?answer)
    case (Inl m)
    have "rn_state s2 = CtlWaitingForClarification" using s2 by (simp add: stands_def)
    then show ?thesis
      using go s2 Inl
      by (intro exI [of _ s2] exI [of _ "Inl (CtlFault (PortFault m))"] exI [of _ ?used])
        (simp add: lift_Inl issues_token_def continued_def)
  next
    case (Inr revised)
    from continue_revised_ok [OF s2 hex, of clock ctx revised] obtain s' r qs where
      "continue_revised (memory_env clock env) run ctx revised s2 = (s', r)"
      "stands (en_digest env) run (rn_state s') ((ps @ ?used) @ qs) s'"
      "revised_events run ctx revised qs (rn_state s')" "continued (Inr revised) ctx s' r" by blast
    then show ?thesis
      using go Inr
      by (intro exI [of _ s'] exI [of _ r] exI [of _ "?used @ qs"])
        (simp add: lift_Inr issues_token_def revised_events_def)
  qed
qed

section \<open>Properties of continuations\<close>

lemma continue_guards_start:
  assumes "run_inv (en_digest env) stream_history store_ok run s" "rn_state s = CtlWaitingForClarification"
    and "continue_guards (memory_env clock env) cenv req (read_whole (rn_store s) run) 0 = Inr (ctx, response, consumed)"
  shows "\<exists>ps. stands (en_digest env) run CtlWaitingForClarification ps s \<and>
    legal_states CtlReceived ps = Some CtlWaitingForClarification \<and>
    stands (en_digest env) run CtlWaitingForClarification ps (continue_start (rn_store s) (cx_stream_version ctx) u t)"
proof -
  obtain ps where ps: "stands (en_digest env) run CtlWaitingForClarification ps s"
    "legal_states CtlReceived ps = Some CtlWaitingForClarification"
    using assms(1,2) by (auto simp: run_inv_stands)
  have "continuation_context (en_digest env) (read_whole (rn_store s) run) = Inr ctx"
    using guards_context(1) [OF assms(3)] by simp
  from stands_nonempty(2) [OF ps(1) this] ps show ?thesis
    by (intro exI [of _ ps]) (simp add: stands_def stream_holds_def continue_start_def)
qed

text \<open>C17. A continuation, on every branch. Guards that fail write nothing. Guards that pass use the token
  up, whatever comes next: the engine may fail, its revision may be out of order or still need
  clarification, or the run becomes READY with the revised problem. In each case the stream stays a
  legal history of the state named here, and every further continuation of the run is refused because
  its token has been consumed. So a continuation whose revision fails leaves a run that waits for ever.\<close>

theorem continuation_exact:
  assumes "run_inv (en_digest env) stream_history store_ok run s" "rn_state s = CtlWaitingForClarification"
    and "\<forall>p. sha256_hex (en_digest env p)" "cn_task_run_id req = run" "cn_task_run_id req' = run"
    and "continue_run (memory_env clock env) read_whole cenv req (rn_store s) = (s', r)"
  shows "case continue_guards (memory_env clock env) cenv req (read_whole (rn_store s) run) 0 of
      Inl e \<Rightarrow> r = Inl e \<and> rn_store s' = rn_store s
    | Inr (ctx, response, consumed) \<Rightarrow>
        run_inv (en_digest env) stream_history store_ok run s' \<and>
        continued (ce_revise cenv 5 (cx_problem ctx) response) ctx s' r \<and>
        snd (continue_run (memory_env clock env) read_whole cenv' req' (rn_store s')) =
          Inl (RecoveryFault ContinuationUsed)"
proof (cases "continue_guards (memory_env clock env) cenv req (read_whole (rn_store s) run) 0")
  case (Inl e)
  then show ?thesis
    using assms(6) by (auto simp: continue_run_def assms(4) continue_start_def)
next
  case (Inr g)
  obtain ctx response consumed where g: "g = (ctx, response, consumed)" by (cases g)
  note guards = Inr [unfolded g]
  let ?s0 = "continue_start (rn_store s) (cx_stream_version ctx) (cx_usage ctx) 2"
  obtain ps where ps: "stands (en_digest env) run CtlWaitingForClarification ps s"
    "legal_states CtlReceived ps = Some CtlWaitingForClarification"
    "stands (en_digest env) run CtlWaitingForClarification ps ?s0"
    using continue_guards_start [OF assms(1,2) guards] by blast
  from guards_context [OF guards] obtain at_time where ctx:
    "continuation_context (en_digest env) (read_whole (rn_store s) run) = Inr ctx" "en_clarification env"
    "ct_continuation_id consumed = ct_continuation_id (cx_token_record ctx)" "ct_consumed_at consumed = Some at_time"
    by (auto simp: memory_env_def)
  from continue_steps_ok [OF ps(3) assms(3) ctx(4), of clock cenv ctx response] obtain qs where
    steps: "continue_steps (memory_env clock env) cenv run ctx response consumed ?s0 = (s', r)"
    "stands (en_digest env) run (rn_state s') (ps @ qs) s'" "list_all (\<lambda>p. \<not> issues_token p) qs"
    "PContinuationConsumed (ct_continuation_id consumed) at_time \<in> set qs"
    "legal_states CtlWaitingForClarification qs = Some (rn_state s')"
    "continued (ce_revise cenv (rn_tick ?s0 + 3) (cx_problem ctx) response) ctx s' r"
    using assms(6) guards by (auto simp: continue_run_def assms(4))
  have "run_inv (en_digest env) stream_history store_ok run s'"
    using steps(2,5) ps(2) by (auto simp: run_inv_stands legal_states_append)
  moreover have "continuation_context (en_digest env) (read_whole (rn_store s') run) = Inl ContinuationUsed"
    by (rule context_used [OF ps(1) ctx(1) steps(2,3)]) (use steps(4) ctx(3) in simp)
  then have "snd (continue_run (memory_env clock env) read_whole cenv' req' (rn_store s')) =
      Inl (RecoveryFault ContinuationUsed)"
    using ctx(2) by (simp add: continue_run_def continue_guards_def assms(5) memory_env_def)
  ultimately show ?thesis
    using steps(6) guards by (simp add: continue_start_def)
qed

section \<open>A waiting run can be continued\<close>

definition scan_is ::
  "(ctl_payload \<Rightarrow> string) \<Rightarrow> uuid \<Rightarrow> context_scan \<Rightarrow> int \<Rightarrow> ctl_payload store run_state \<Rightarrow> bool" where
  "scan_is dg run c n s \<longleftrightarrow> (\<exists>ps. stream_holds dg stream_history store_ok run ps s \<and>
     foldl scan_payload empty_scan ps = c \<and> int (length ps) = n)"

definition scanned :: "(ctl_payload \<Rightarrow> string) \<Rightarrow> uuid \<Rightarrow> context_scan \<Rightarrow> ctl_payload store run_state \<Rightarrow> bool" where
  "scanned dg run c s \<longleftrightarrow> scan_is dg run c (rn_version s) s"

lemma scan_is_version: "scan_is dg run c n s \<Longrightarrow> rn_version s = n"
  by (auto simp: scan_is_def stream_holds_def)

abbreviation anything :: "ctl_error \<Rightarrow> ctl_payload store run_state \<Rightarrow> bool" where
  "anything \<equiv> \<lambda>_ _. True"

lemma emit_scan:
  "triple (scan_is (en_digest env) run c n) (emit (memory_env clock env) run cor p)
     (\<lambda>_. scan_is (en_digest env) run (scan_payload c p) (n + 1)) anything"
proof (rule tripleI)
  fix s assume "scan_is (en_digest env) run c n s"
  then obtain ps where ps: "stream_holds (en_digest env) stream_history store_ok run ps s"
    "foldl scan_payload empty_scan ps = c" "int (length ps) = n" by (auto simp: scan_is_def)
  obtain s' r where run: "emit (memory_env clock env) run cor p s = (s', r)" by fastforce
  show "case emit (memory_env clock env) run cor p s of
      (s', Inr x) \<Rightarrow> scan_is (en_digest env) run (scan_payload c p) (n + 1) s' | (s', Inl e) \<Rightarrow> anything e s'"
  proof (cases r)
    case (Inr u)
    from triple_Inr [OF memory_run.emit_holds [of clock env run ps cor p, simplified] ps(1) run [unfolded Inr]] ps(2,3)
    show ?thesis by (auto simp: run Inr scan_is_def intro!: exI [of _ "ps @ [p]"])
  qed (simp add: run)
qed

lemma emit_scanned:
  "triple (scanned (en_digest env) run c) (emit (memory_env clock env) run cor p)
     (\<lambda>_. scanned (en_digest env) run (scan_payload c p)) anything"
proof (rule tripleI)
  fix s assume "scanned (en_digest env) run c s"
  then have s: "scan_is (en_digest env) run c (rn_version s) s" by (simp add: scanned_def)
  obtain s' r where run: "emit (memory_env clock env) run cor p s = (s', r)" by fastforce
  show "case emit (memory_env clock env) run cor p s of
      (s', Inr x) \<Rightarrow> scanned (en_digest env) run (scan_payload c p) s' | (s', Inl e) \<Rightarrow> anything e s'"
  proof (cases r)
    case (Inr u)
    from triple_Inr [OF emit_scan s run [unfolded Inr]]
    have "scan_is (en_digest env) run (scan_payload c p) (rn_version s + 1) s'" .
    with scan_is_version [OF this] show ?thesis by (simp add: run Inr scanned_def)
  qed (simp add: run)
qed

lemma scanned_eq:
  "scanned dg run c s \<longleftrightarrow> store_ok (rn_store s) \<and>
     rn_version s = int (length (stream_history (rn_store s) run)) \<and>
     list_all (sound_event dg) (stream_history (rn_store s) run) \<and>
     foldl scan_payload empty_scan (map ev_payload (stream_history (rn_store s) run)) = c"
  (is "?l = ?r")
proof
  assume ?r
  then show ?l
    unfolding scanned_def scan_is_def stream_holds_def
    by (intro exI [of _ "map ev_payload (stream_history (rn_store s) run)"]) simp
next
  assume ?l
  then obtain ps where "stream_holds dg stream_history store_ok run ps s" "foldl scan_payload empty_scan ps = c"
    unfolding scanned_def scan_is_def by blast
  then show ?r by (simp add: stream_holds_def)
qed

lemma scanned_frame:
  "rn_store s' = rn_store s \<Longrightarrow> rn_version s' = rn_version s \<Longrightarrow> scanned dg run c s \<Longrightarrow> scanned dg run c s'"
  unfolding scanned_eq by simp

lemma draw_scanned: "triple (scanned dg run c) (draw f) (\<lambda>_. scanned dg run c) E"
  by (rule tripleI) (simp add: draw_def scanned_frame [rotated 2])

lemma lift_scanned: "triple (scanned dg run c) (lift_res k r) (\<lambda>_. scanned dg run c) anything"
  by (rule triple_lift_res) auto

lemma change_scanned:
  "(\<And>s. rn_store (f s) = rn_store s \<and> rn_version (f s) = rn_version s) \<Longrightarrow>
     triple (scanned dg run c) (change f) (\<lambda>_. scanned dg run c) E"
  by (rule tripleI) (simp add: change_def scanned_frame [rotated 2])

lemma record_usage_scanned: "triple (scanned dg run c) (record_usage incs) (\<lambda>_. scanned dg run c) anything"
  unfolding record_usage_def
  by (intro triple_bnd [OF asks_keep] triple_bnd [OF lift_scanned] change_scanned) simp

lemma transition_scanned:
  "triple (scanned (en_digest env) run c) (transition_to (memory_env clock env) run cor Y reason)
     (\<lambda>_. scanned (en_digest env) run c) anything"
  unfolding transition_to_def
proof (rule triple_bnd [OF draw_scanned], rule triple_bnd [OF asks_keep])
  fix step :: StateTransition and d
  have changed: "triple (scanned (en_digest env) run c)
      (bnd (draw (en_now (memory_env clock env))) (\<lambda>now. andthen (emit (memory_env clock env) run cor
         (PStateChanged (tr_current step) Y (py_strip reason) d now)) (change (\<lambda>s. s\<lparr>rn_state := Y\<rparr>))))
      (\<lambda>_. scanned (en_digest env) run c) anything"
    by (rule triple_bnd [OF draw_scanned], rule triple_andthen [OF emit_scanned]) (simp add: change_scanned)
  show "triple (scanned (en_digest env) run c)
      (case require_transition step of None \<Rightarrow>
         bnd (draw (en_now (memory_env clock env))) (\<lambda>now. andthen (emit (memory_env clock env) run cor
           (PStateChanged (tr_current step) Y (py_strip reason) d now)) (change (\<lambda>s. s\<lparr>rn_state := Y\<rparr>)))
       | Some e \<Rightarrow> throw (TransitionFault e)) (\<lambda>_. scanned (en_digest env) run c) anything"
    using changed by (cases "require_transition step") (simp_all add: triple_throw)
qed

lemma store_checkpoint_scanned:
  "triple (scanned (en_digest env) run c)
     (store_checkpoint (memory_env clock env) run cor put_bytes snapshot problem plan)
     (\<lambda>_. scanned (en_digest env) run c) anything"
proof -
  have emitted: "triple (scanned (en_digest env) run c)
      (emit (memory_env clock env) run cor (PCheckpointCreated i a v h)) (\<lambda>_. scanned (en_digest env) run c) anything"
    for i a v h using emit_scanned [of env run c clock cor "PCheckpointCreated i a v h"] by simp
  show ?thesis
    unfolding store_checkpoint_def
    by (intro triple_bnd [OF lift_scanned] triple_bnd [OF draw_scanned] triple_bnd [OF asks_keep]
        triple_andthen [OF emitted] ret_keep split_tripleI)
qed

lemma save_checkpoint_scanned:
  "triple (scanned (en_digest env) run c) (save_checkpoint (memory_env clock env) run cor problem plan)
     (\<lambda>_. scanned (en_digest env) run c) anything"
  unfolding save_checkpoint_def
  by (cases "en_artifacts (memory_env clock env)")
    (auto intro!: triple_bnd [OF draw_scanned] triple_bnd [OF asks_keep]
      triple_andthen [OF store_checkpoint_scanned] ret_keep)

lemma represent_phase_scanned:
  "triple (scanned (en_digest env) (st_task_run_id req) empty_scan)
     (represent_phase (memory_env clock env) req)
     (\<lambda>answer s. \<forall>p. answer = Some p \<longrightarrow>
        scanned (en_digest env) (st_task_run_id req) (empty_scan\<lparr>sc_problem := Some p\<rparr>) s) anything"
proof -
  have created: "triple (scanned (en_digest env) run empty_scan)
      (emit (memory_env clock env) run cor (PProblemCreated p))
      (\<lambda>_. scanned (en_digest env) run (empty_scan\<lparr>sc_problem := Some p\<rparr>)) anything" for run cor p
    using emit_scanned [of env run empty_scan clock cor "PProblemCreated p"] by simp
  have gone: "triple P (andthen m (ret None)) (\<lambda>answer s. \<forall>p. answer = Some p \<longrightarrow> R p s) anything"
    for P R and m :: "(ctl_payload store, unit) ctl"
    by (auto simp: triple_def andthen_def bnd_def ret_def split: prod.splits sum.splits)
  have budget: "triple (scanned (en_digest env) run c) (check_budget (memory_env clock env)) (\<lambda>_. scanned (en_digest env) run c) anything"
    for run c unfolding check_budget_def by (intro triple_bnd [OF draw_scanned] asks_keep)
  show ?thesis
    unfolding represent_phase_def Let_def
    by (rule triple_andthen [OF transition_scanned], rule triple_bnd [OF lift_scanned],
        rule triple_bnd [OF budget], rule triple_if [OF gone],
        rule triple_bnd [OF draw_scanned], rule triple_bnd [OF lift_scanned],
        rule triple_andthen [OF record_usage_scanned], rule triple_andthen [OF created],
        rule triple_andthen [OF save_checkpoint_scanned], rule triple_ret) simp
qed

text \<open>What a run that waits with token \<open>tok\<close> has written.\<close>

definition handed ::
  "ctl_payload store ctl_env \<Rightarrow> uuid \<Rightarrow> ProblemRepresentation \<Rightarrow> string \<Rightarrow> ctl_payload store run_state \<Rightarrow> bool" where
  "handed env run p tok s \<longleftrightarrow> (\<exists>i now cid ck issued.
     scanned (en_digest env) run
       \<lparr>sc_problem = Some p,
        sc_request = Some (create_request (cc_continuation_ttl_seconds (en_config env)) i now p),
        sc_record = Some (snd (issue_token (en_sha256 env) tok cid run ck (rn_version s)
          (cc_continuation_ttl_seconds (en_config env)) issued)),
        sc_consumed = {}\<rparr> s)"

lemma issued_handed:
  assumes "c = \<lparr>sc_problem = Some p,
      sc_request = Some (create_request (cc_continuation_ttl_seconds (en_config env)) i now p),
      sc_record = None, sc_consumed = {}\<rparr>"
    and "issue_token (en_sha256 env) token cid run ck (v + 1) (cc_continuation_ttl_seconds (en_config env)) issued =
      (tok, record)"
  shows "triple (scan_is (en_digest env) run c v) (andthen (emit (memory_env clock env) run cor (PContinuationIssued record)) (ret tok))
    (\<lambda>tok s. handed env run p tok s) anything"
proof -
  have "triple (scan_is (en_digest env) run c v) (emit (memory_env clock env) run cor (PContinuationIssued record))
      (\<lambda>_. scan_is (en_digest env) run (c\<lparr>sc_record := Some record\<rparr>) (v + 1)) anything"
    using emit_scan [of env run c v clock cor "PContinuationIssued record"] by simp
  then show ?thesis
  proof (rule triple_andthen, intro triple_ret)
    fix s :: "ctl_payload store run_state"
    assume scan: "scan_is (en_digest env) run (c\<lparr>sc_record := Some record\<rparr>) (v + 1) s"
    note v = scan_is_version [OF scan]
    have "tok = token" "record = snd (issue_token (en_sha256 env) tok cid run ck (v + 1)
        (cc_continuation_ttl_seconds (en_config env)) issued)"
      using assms(2) by (auto simp: issue_token_def)
    with scan v show "handed env run p tok s"
      unfolding handed_def scanned_def assms(1)
      by (intro exI [of _ i] exI [of _ now] exI [of _ cid] exI [of _ ck] exI [of _ issued]) simp
  qed
qed

lemma draw_bnd_scanned:
  "(\<And>t. triple (scanned dg run c) (g (f t)) Q E) \<Longrightarrow> triple (scanned dg run c) (bnd (draw f) g) Q E"
  by (simp add: triple_def bnd_def draw_def scanned_frame [rotated 2])

lemma token_handed:
  assumes "c = empty_scan\<lparr>sc_problem := Some p,
      sc_request := Some (create_request (cc_continuation_ttl_seconds (en_config env)) i now p)\<rparr>"
  shows "triple (scanned (en_digest env) run c)
     (bnd (asks (\<lambda>s. issue_token (en_sha256 env) token cid run ck (rn_version s + 1)
         (cc_continuation_ttl_seconds (en_config env)) at_time))
       (\<lambda>(plaintext, record). andthen (emit (memory_env clock env) run cor (PContinuationIssued record)) (ret plaintext)))
     (\<lambda>tok s. handed env run p tok s) anything"
proof (rule tripleI)
  fix s :: "ctl_payload store run_state"
  let ?issue = "\<lambda>v. issue_token (en_sha256 env) token cid run ck (v + 1) (cc_continuation_ttl_seconds (en_config env)) at_time"
  assume s: "scanned (en_digest env) run c s"
  obtain tok rec where issued: "?issue (rn_version s) = (tok, rec)" by fastforce
  let ?m = "andthen (emit (memory_env clock env) run cor (PContinuationIssued rec)) (ret tok)"
  have "triple (scan_is (en_digest env) run c (rn_version s)) ?m (\<lambda>tok s. handed env run p tok s) anything"
    by (rule issued_handed [OF _ issued]) (simp add: assms empty_scan_def)
  from this [unfolded triple_def, THEN spec, THEN mp, OF s [unfolded scanned_def]]
  have "case ?m s of (s', Inr x) \<Rightarrow> handed env run p x s' | (s', Inl e) \<Rightarrow> anything e s'" .
  then show "case bnd (asks (\<lambda>s. ?issue (rn_version s)))
       (\<lambda>(plaintext, record). andthen (emit (memory_env clock env) run cor (PContinuationIssued record)) (ret plaintext)) s of
       (s', Inr x) \<Rightarrow> handed env run p x s' | (s', Inl e) \<Rightarrow> anything e s'"
    by (simp only: bnd_def asks_def issued prod.case sum.case)
qed

lemma memory_env_more [simp]:
  "en_clarification (memory_env clock env) = en_clarification env"
  "en_artifacts (memory_env clock env) = en_artifacts env"
  "en_sha256 (memory_env clock env) = en_sha256 env"
  "en_now (memory_env clock env) = en_now env"
  "en_new_id (memory_env clock env) = en_new_id env"
  by (simp_all add: memory_env_def)

lemma clarification_phase_handed:
  "triple (scanned (en_digest env) (st_task_run_id req) (empty_scan\<lparr>sc_problem := Some p\<rparr>))
     (clarification_phase (memory_env clock env) req p)
     (\<lambda>tok s. handed env (st_task_run_id req) p tok s) anything"
proof -
  let ?env = "memory_env clock env" and ?run = "st_task_run_id req"
  let ?dg = "en_digest env" and ?ttl = "cc_continuation_ttl_seconds (en_config env)"
  have requested: "triple (scanned ?dg ?run (empty_scan\<lparr>sc_problem := Some p\<rparr>))
      (emit ?env ?run cor (PClarificationRequested q))
      (\<lambda>_. scanned ?dg ?run (empty_scan\<lparr>sc_problem := Some p, sc_request := Some q\<rparr>)) anything" for q cor
    using emit_scanned [of env ?run "empty_scan\<lparr>sc_problem := Some p\<rparr>" clock cor "PClarificationRequested q"] by simp
  show ?thesis
  proof (cases "en_clarification env \<and> en_artifacts env \<noteq> None")
    case False
    then show ?thesis
      by (cases "en_clarification env"; cases "en_artifacts env")
        (auto simp: clarification_phase_def Let_def intro!: triple_throw)
  next
    case True
    then obtain put where on: "en_clarification env = True" "en_artifacts env = Some put" by auto
    show ?thesis
      unfolding clarification_phase_def Let_def memory_env_more on prod.case bool.case option.case memory_env_simps
      by (rule draw_bnd_scanned, rule triple_andthen [OF requested], rule triple_andthen [OF transition_scanned],
          rule draw_bnd_scanned, rule triple_bnd [OF asks_keep], rule triple_bnd [OF store_checkpoint_scanned],
          rule draw_bnd_scanned, simp only: prod.case, rule token_handed [OF refl])
  qed
qed

lemma triple_anything: "triple P m (\<lambda>_ _. True) anything"
  by (simp add: triple_def split: prod.splits sum.splits)

lemma result_without_token:
  "triple P (run_result run problem plan acceptance None b err) (\<lambda>r s. \<forall>tok. cr_continuation_token r = Some tok \<longrightarrow> R tok r s) E"
  by (simp add: run_result_def triple_def asks_def)

lemma start_body_handed:
  "triple (scanned (en_digest env) (st_task_run_id req) empty_scan) (start_body (memory_env clock env) req)
     (\<lambda>result s. \<forall>tok. cr_continuation_token result = Some tok \<longrightarrow> (\<exists>p.
        cr_problem_representation result = Some p \<and> cr_last_stream_version result = rn_version s \<and>
        handed env (st_task_run_id req) p tok s)) anything"
proof -
  let ?run = "st_task_run_id req" and ?env = "memory_env clock env"
  let ?Q = "\<lambda>result s. \<forall>tok. cr_continuation_token result = Some tok \<longrightarrow> (\<exists>p.
        cr_problem_representation result = Some p \<and> cr_last_stream_version result = rn_version s \<and>
        handed env ?run p tok s)"
  have waiting: "triple (scanned (en_digest env) ?run (empty_scan\<lparr>sc_problem := Some p\<rparr>))
      (bnd (clarification_phase ?env req p) (\<lambda>token. run_result ?run (Some p) None None (Some token) False None)) ?Q anything" for p
    by (rule triple_bnd [OF clarification_phase_handed]) (simp add: run_result_def triple_def asks_def)
  have planned: "triple P (bnd (plan_phase ?env req p) f) ?Q anything"
    if "\<And>x. triple (\<lambda>_. True) (f x) ?Q anything" for P p f
    by (rule triple_bnd [OF triple_anything that])
  show ?thesis
    unfolding start_body_def Let_def
  proof (rule triple_bnd [OF represent_phase_scanned])
    fix represented :: "ProblemRepresentation option"
    let ?executed = "\<lambda>problem plan. bnd (exec_loop ?env ?run (st_correlation_id req) problem plan (max_iterations ?env)) (\<lambda>ended.
       case ended of
         LoopStopped err \<Rightarrow> run_result ?run (Some problem) (Some plan) None None (err = None) err
       | LoopDone \<Rightarrow>
           bnd (accept_phase ?env req problem plan) (\<lambda>(final_plan, acceptance).
           run_result ?run (Some problem) (Some final_plan) (Some acceptance) None True None))"
    have executed: "triple (\<lambda>_. True) (?executed problem plan) ?Q anything" for problem plan
    proof (rule triple_bnd [OF triple_anything])
      fix ended :: loop_end
      show "triple (\<lambda>_. True) (case ended of
         LoopStopped err \<Rightarrow> run_result ?run (Some problem) (Some plan) None None (err = None) err
       | LoopDone \<Rightarrow>
           bnd (accept_phase ?env req problem plan) (\<lambda>(final_plan, acceptance).
           run_result ?run (Some problem) (Some final_plan) (Some acceptance) None True None)) ?Q anything"
        by (cases ended) (auto intro!: result_without_token triple_bnd [OF triple_anything])
    qed
    show "triple (\<lambda>s. \<forall>p. represented = Some p \<longrightarrow> scanned (en_digest env) ?run (empty_scan\<lparr>sc_problem := Some p\<rparr>) s)
      (case represented of
         None \<Rightarrow> run_result ?run None None None None False None
       | Some problem \<Rightarrow>
         if requires_clarification problem
         then bnd (clarification_phase ?env req problem) (\<lambda>token.
                run_result ?run (Some problem) None None (Some token) False None)
         else bnd (plan_phase ?env req problem) (\<lambda>planned.
           case planned of
             None \<Rightarrow> run_result ?run (Some problem) None None None False None
           | Some plan \<Rightarrow> ?executed problem plan)) ?Q anything"
    proof (cases represented)
      case None
      then show ?thesis by (simp add: result_without_token)
    next
      case (Some p)
      have rest: "triple (\<lambda>_. True) (case planned of
             None \<Rightarrow> run_result ?run (Some p) None None None False None
           | Some plan \<Rightarrow> ?executed p plan) ?Q anything" for planned
        by (cases planned) (simp_all only: option.case result_without_token executed)
      show ?thesis
        unfolding Some option.case
        by (rule triple_if [OF triple_pre [OF waiting] planned [OF rest]]) simp
    qed
  qed
qed

text \<open>C16. The handshake. A run that returns a continuation token has left a stream from which a fresh
  process recovers everything a continuation needs: the problem the result reports, a request with
  exactly its questions, the version the result reports, and a token record that accepts this token
  until it expires and no token with another digest.\<close>

theorem waiting_run_can_continue:
  assumes "store_ok store" "stream_history store (st_task_run_id req) = []"
    and "start (memory_env clock env) req store = (s, Inr result)"
    and "cr_continuation_token result = Some tok"
  shows "\<exists>ctx. continuation_context (en_digest env) (read_whole (rn_store s) (st_task_run_id req)) = Inr ctx \<and>
    cr_problem_representation result = Some (cx_problem ctx) \<and>
    crq_questions (cx_request ctx) = pr_clarification_questions (cx_problem ctx) \<and>
    cx_stream_version ctx = cr_last_stream_version result \<and>
    (\<forall>tok' checked. consume_token (en_sha256 env) (cx_token_record ctx) tok' (st_task_run_id req)
       (ct_checkpoint_id (cx_token_record ctx)) (cx_stream_version ctx) False checked =
       (if checked < ct_expires_at (cx_token_record ctx) \<and> en_sha256 env tok' = en_sha256 env tok
        then Inr (cx_token_record ctx\<lparr>ct_consumed_at := Some checked\<rparr>) else Inl ContinuationRejected))"
proof -
  let ?run = "st_task_run_id req"
  have "scanned (en_digest env) ?run empty_scan (initial_run (memory_env clock env) store)"
    using assms(1,2) by (simp add: scanned_eq initial_run_def)
  from triple_Inr [OF start_body_handed this assms(3) [unfolded start_def]] assms(4) obtain p where
    p: "cr_problem_representation result = Some p" "cr_last_stream_version result = rn_version s"
    "handed env ?run p tok s" by blast
  then obtain i now cid ck issued ps where
    ps: "stream_holds (en_digest env) stream_history store_ok ?run ps s"
      "foldl scan_payload empty_scan ps = \<lparr>sc_problem = Some p,
        sc_request = Some (create_request (cc_continuation_ttl_seconds (en_config env)) i now p),
        sc_record = Some (snd (issue_token (en_sha256 env) tok cid ?run ck (rn_version s)
          (cc_continuation_ttl_seconds (en_config env)) issued)),
        sc_consumed = {}\<rparr>"
    unfolding handed_def scanned_def scan_is_def by blast
  have ne: "ps \<noteq> []" using ps(2) by (auto simp: empty_scan_def)
  have "stands (en_digest env) ?run (rn_state s) ps s" using ps(1) by (simp add: stands_def)
  from context_of_stands [OF this ne, unfolded ps(2)] show ?thesis
    using p(1,2) by (auto simp: Let_def issue_token_def create_request_def consume_token_def)
qed

definition asking_problem :: ProblemRepresentation where
  "asking_problem = sample_problem\<lparr>pr_clarification_questions := [\<lparr>cq_question_id = 4,
     cq_question = ''which one'', cq_reason = ''ambiguous'', cq_required = True, cq_answer_schema = [],
     cq_related_goal_ids = [], cq_related_constraint_ids = []\<rparr>]\<rparr>"

definition asking_env :: "ctl_payload store ctl_env" where
  "asking_env = (sample_ctl_env 1 asking_problem)
     \<lparr>en_artifacts := Some (\<lambda>_ _. Inr \<lparr>af_artifact_id = 1, af_media_type = ''application/json'',
       af_content_hash = sample_hash, af_size_bytes = 1, af_storage_key = ''k'', af_created_at = 0\<rparr>)\<rparr>"

definition asking_run :: "ctl_payload store run_state \<times> (ctl_error + ControllerRunResult)" where
  "asking_run = start asking_env sample_start []"

definition asking_answers :: continue_env where
  "asking_answers = \<lparr>ce_parse_uuid = (\<lambda>_. Some 4), ce_schema_valid = (\<lambda>_ _. True),
     ce_revise = (\<lambda>_ p _. Inr (p\<lparr>pr_revision := 2, pr_clarification_questions := []\<rparr>))\<rparr>"

definition asking_request :: ContinueControllerRequest where
  "asking_request = \<lparr>cn_task_run_id = 9, cn_continuation_token = ''token'',
     cn_answers = [(''4'', JStr ''it'')]\<rparr>"

lemma asking_run_waits:
  "case asking_run of (s, r) \<Rightarrow> map_sum id cr_continuation_token r = Inr (Some ''token'') \<and>
     rn_state s = CtlWaitingForClarification \<and>
     \<not> isl (continue_guards asking_env asking_answers asking_request (read_whole (rn_store s) 9) 0)"
  by code_simp

lemma asking_env_memory: "memory_env (\<lambda>n. n) asking_env = asking_env"
  by (simp add: asking_env_def sample_ctl_env_def memory_env_def)

lemma asking_env_simps [simp]: "en_digest asking_env = (\<lambda>_. sample_hash)" "en_config asking_env = sample_config"
  by (simp_all add: asking_env_def sample_ctl_env_def)

lemma asking_run_result:
  obtains s result where "start (memory_env (\<lambda>n. n) asking_env) sample_start [] = (s, Inr result)"
    "fst asking_run = s" "cr_continuation_token result = Some ''token''" "rn_state s = CtlWaitingForClarification"
    "\<not> isl (continue_guards asking_env asking_answers asking_request (read_whole (rn_store s) 9) 0)"
proof -
  obtain s r where run: "asking_run = (s, r)" by (cases asking_run)
  note waits = asking_run_waits [unfolded run prod.case]
  then obtain result where r: "r = Inr result" by (cases r) auto
  have "start (memory_env (\<lambda>n. n) asking_env) sample_start [] = (s, Inr result)"
    using run by (simp add: asking_env_memory asking_run_def r)
  moreover have "fst asking_run = s" by (simp only: run fst_conv)
  ultimately show thesis using that waits r by simp
qed

lemma sample_start_run [simp]: "st_task_run_id sample_start = 9"
  by (simp add: sample_start_def)

lemma waiting_run_can_continue_witness:
  "\<exists>ctx. continuation_context (\<lambda>_. sample_hash) (read_whole (rn_store (fst asking_run)) 9) = Inr ctx"
proof -
  obtain s result where run: "start (memory_env (\<lambda>n. n) asking_env) sample_start [] = (s, Inr result)"
    "fst asking_run = s" "cr_continuation_token result = Some ''token''"
    using asking_run_result by metis
  from waiting_run_can_continue [OF _ _ run(1,3)] run(2) show ?thesis by auto
qed

lemma continuation_exact_witness:
  "let (s', r) = continue_run asking_env read_whole asking_answers asking_request (rn_store (fst asking_run)) in
     run_inv (\<lambda>_. sample_hash) stream_history store_ok 9 s' \<and>
     snd (continue_run asking_env read_whole asking_answers asking_request (rn_store s')) =
       Inl (RecoveryFault ContinuationUsed)"
proof -
  obtain s result where run: "start (memory_env (\<lambda>n. n) asking_env) sample_start [] = (s, Inr result)"
    "fst asking_run = s" "rn_state s = CtlWaitingForClarification"
    "\<not> isl (continue_guards asking_env asking_answers asking_request (read_whole (rn_store s) 9) 0)"
    using asking_run_result by metis
  have inv: "run_inv (en_digest asking_env) stream_history store_ok 9 s"
    using memory_start(1) [OF _ _ _ run(1)] sample_config_valid by simp
  obtain s' r where go: "continue_run (memory_env (\<lambda>n. n) asking_env) read_whole asking_answers asking_request (rn_store s) = (s', r)"
    by fastforce
  obtain ctx response consumed where guards: "continue_guards asking_env asking_answers asking_request
      (read_whole (rn_store s) 9) 0 = Inr (ctx, response, consumed)"
    using run(4) by (cases "continue_guards asking_env asking_answers asking_request (read_whole (rn_store s) 9) 0") auto
  have hex: "\<forall>p. sha256_hex (en_digest asking_env p)" by simp code_simp
  have req: "cn_task_run_id asking_request = 9" by (simp add: asking_request_def)
  from continuation_exact [OF inv run(3) hex req req go, of asking_answers] guards go run(2) show ?thesis
    by (simp add: asking_env_memory)
qed

end
