(* ===== verification/Service_Log.thy ===== *)
theory Service_Log
  imports Run_Monad Event_Store
begin

text \<open>
  What the event services of the program share (\<open>events/tool_event_service.py\<close>,
  \<open>events/verifier_event_service.py\<close>, \<open>events/provider_event_service.py\<close>): every call of a tool, a
  verifier or a model has a stream of its own, to which the service appends one envelope at a time at
  the version it has just read; and the lifecycle a stream follows.
\<close>

section \<open>Appending one event\<close>

record ('s, 'p) log_env =
  lg_append :: "'s \<Rightarrow> 'p EventEnvelope list \<Rightarrow> int \<Rightarrow> 's \<times> (store_error + AppendResult)"
  lg_version :: "'s \<Rightarrow> uuid \<Rightarrow> int option"
  lg_now :: "nat \<Rightarrow> timestamp"
  lg_new_id :: "nat \<Rightarrow> uuid"
  lg_digest :: "'p \<Rightarrow> string"

record 's log_state =
  sv_store :: 's
  sv_tick :: nat

text \<open>The fixed parts of a service's envelopes.\<close>

record 'p log_source =
  so_type :: "'p \<Rightarrow> string"
  so_stream_type :: StreamType
  so_actor :: ActorRef
  so_component :: string

text \<open>
  Every exception of the envelope or of the store becomes the service's own fault, as
  \<open>except Exception\<close> does. The value is the identifier of the event.
\<close>

definition log_emit ::
  "('s, 'p, 'x) log_env_scheme \<Rightarrow> 'p log_source \<Rightarrow> 'e \<Rightarrow> uuid \<Rightarrow> uuid \<Rightarrow> uuid option \<Rightarrow> 'p \<Rightarrow>
   (('s, 'm) log_state_scheme, 'e, uuid) comp" where
  "log_emit env src fault sid correlation causation p = (\<lambda>s.
     let t = sv_tick s; s' = s\<lparr>sv_tick := Suc t\<rparr>;
         expected = (case lg_version env (sv_store s) sid of None \<Rightarrow> 0 | Some v \<Rightarrow> v) in
     case create_event_envelope (lg_digest env) (so_type src) (\<lambda>_. 1) (lg_new_id env t) (lg_now env t) p
        sid (so_stream_type src) (expected + 1) correlation causation (so_actor src) (so_component src)
        PrivacySensitive None None of
       Inl _ \<Rightarrow> (s', Inl fault)
     | Inr e \<Rightarrow>
         (case lg_append env (sv_store s) [e] expected of
            (st, Inl _) \<Rightarrow> (s'\<lparr>sv_store := st\<rparr>, Inl fault)
          | (st, Inr _) \<Rightarrow> (s'\<lparr>sv_store := st\<rparr>, Inr (ev_event_id e))))"

text \<open>An answer of the environment of a service.\<close>

definition ask_env :: "(nat \<Rightarrow> 'a) \<Rightarrow> (('s, 'm) log_state_scheme, 'e, 'a) comp" where
  "ask_env f = (\<lambda>s. (s\<lparr>sv_tick := Suc (sv_tick s)\<rparr>, Inr (f (sv_tick s))))"

text \<open>Handling an exception: the handler runs in the state the exception left.\<close>

definition handle :: "('s, 'e, 'a) comp \<Rightarrow> ('e \<Rightarrow> ('s, 'f, 'a) comp) \<Rightarrow> ('s, 'f, 'a) comp" where
  "handle m h = (\<lambda>s. case m s of (s', Inl e) \<Rightarrow> h e s' | (s', Inr x) \<Rightarrow> (s', Inr x))"

lemma triple_handle:
  "triple P m Q F \<Longrightarrow> (\<And>e. triple (F e) (h e) Q E) \<Longrightarrow> triple P (handle m h) Q E"
  by (fastforce simp: triple_def handle_def split: prod.splits sum.splits)

section \<open>Lifecycles of streams\<close>

text \<open>The status a stream's payloads lead to, if each of them is a step of the lifecycle.\<close>

fun follow :: "('q \<Rightarrow> 'p \<Rightarrow> 'q option) \<Rightarrow> 'q \<Rightarrow> 'p list \<Rightarrow> 'q option" where
  "follow step q [] = Some q"
| "follow step q (p # ps) = (case step q p of None \<Rightarrow> None | Some q' \<Rightarrow> follow step q' ps)"

lemma follow_append:
  "follow step q (ps @ qs) = (case follow step q ps of None \<Rightarrow> None | Some q' \<Rightarrow> follow step q' qs)"
  by (induction ps arbitrary: q) (simp_all split: option.split)

text \<open>
  A store whose streams can be appended to at the version read from them. Under this contract a
  service that emits only steps of a lifecycle keeps every stream a run of it.
\<close>

locale versioned_log = event_store append_events history wf_store
  for append_events :: "'s \<Rightarrow> 'p EventEnvelope list \<Rightarrow> int \<Rightarrow> 's \<times> (store_error + AppendResult)"
    and history :: "'s \<Rightarrow> uuid \<Rightarrow> 'p EventEnvelope list"
    and wf_store :: "'s \<Rightarrow> bool" +
  fixes version_of :: "'s \<Rightarrow> uuid \<Rightarrow> int option"
  assumes version_history: "wf_store s \<Longrightarrow>
      (case version_of s sid of None \<Rightarrow> 0 | Some v \<Rightarrow> v) = int (length (history s sid))"
begin

definition log_of :: "uuid \<Rightarrow> ('s, 'm) log_state_scheme \<Rightarrow> 'p list" where
  "log_of sid s = map ev_payload (history (sv_store s) sid)"

text \<open>The stream \<open>sid\<close> is in status \<open>q\<close>, its last payloads being given, and all others are \<open>others\<close>.\<close>

definition in_log ::
  "('q \<Rightarrow> 'p \<Rightarrow> 'q option) \<Rightarrow> 'q \<Rightarrow> uuid \<Rightarrow> (uuid \<Rightarrow> 'p EventEnvelope list) \<Rightarrow> 'q \<Rightarrow>
   ('s, 'm) log_state_scheme \<Rightarrow> bool" where
  "in_log step start sid others q s \<longleftrightarrow> wf_store (sv_store s) \<and>
     follow step start (log_of sid s) = Some q \<and> (\<forall>i. i \<noteq> sid \<longrightarrow> history (sv_store s) i = others i)"

lemma in_log_frame: "sv_store s' = sv_store s \<Longrightarrow> in_log step start sid others q s \<Longrightarrow> in_log step start sid others q s'"
  by (simp add: in_log_def log_of_def)

lemma log_emit_cases:
  assumes wf: "wf_store (sv_store s)"
    and env: "lg_append env = append_events" "lg_version env = version_of"
    and run: "log_emit env src fault sid cor cause p s = (s', r)"
  shows "(r = Inl fault \<and> s' = s\<lparr>sv_tick := Suc (sv_tick s)\<rparr>) \<or>
    (\<exists>st e. r = Inr (ev_event_id e) \<and> ev_payload e = p \<and> wf_store st \<and>
       s' = s\<lparr>sv_tick := Suc (sv_tick s), sv_store := st\<rparr> \<and>
       history st = (history (sv_store s))(sid := history (sv_store s) sid @ [e]))"
proof -
  let ?n = "int (length (history (sv_store s) sid))"
  let ?made = "create_event_envelope (lg_digest env) (so_type src) (\<lambda>_. 1) (lg_new_id env (sv_tick s))
      (lg_now env (sv_tick s)) p sid (so_stream_type src) (?n + 1) cor cause (so_actor src)
      (so_component src) PrivacySensitive None None"
  note v = version_history [OF wf, of sid]
  show ?thesis
  proof (cases ?made)
    case (Inl f)
    then show ?thesis using run by (simp add: log_emit_def Let_def env v)
  next
    case (Inr e)
    then have e: "ev_stream_id e = sid" "ev_stream_version e = ?n + 1" "ev_payload e = p"
      by (auto simp: create_event_envelope_def Let_def)
    have "batch_ok sid ?n [e]" by (simp add: batch_ok_def e)
    from append_current [OF wf this] obtain st res where
      "append_events (sv_store s) [e] ?n = (st, Inr res)" "wf_store st"
      "history st = (history (sv_store s))(sid := history (sv_store s) sid @ [e])" by auto
    with Inr e(3) run show ?thesis by (auto simp: log_emit_def Let_def env v)
  qed
qed

text \<open>An emission is a step of the lifecycle, or the service's fault with nothing written.\<close>

lemma log_emit_in:
  assumes "lg_append env = append_events" "lg_version env = version_of" "step q p = Some q'"
  shows "triple (in_log step start sid others q) (log_emit env src fault sid cor cause p)
    (\<lambda>_. in_log step start sid others q') (\<lambda>e s. e = fault \<and> in_log step start sid others q s)"
proof (rule tripleI)
  fix s :: "('s, 'm) log_state_scheme" assume here: "in_log step start sid others q s"
  obtain s' r where run: "log_emit env src fault sid cor cause p s = (s', r)" by fastforce
  have "wf_store (sv_store s)" using here by (simp add: in_log_def)
  from log_emit_cases [OF this assms(1,2) run] here assms(3)
  show "case log_emit env src fault sid cor cause p s of
      (s', Inr x) \<Rightarrow> in_log step start sid others q' s'
    | (s', Inl e) \<Rightarrow> e = fault \<and> in_log step start sid others q s'"
    by (auto simp: run in_log_def log_of_def follow_append)
qed

lemma ask_env_in: "triple (in_log step start sid others q) (ask_env f) (\<lambda>_. in_log step start sid others q) E"
  by (rule tripleI) (simp add: ask_env_def in_log_def log_of_def)

end

text \<open>The in-memory store is such a store.\<close>

interpretation memory_log: versioned_log "store_append clock" stream_history store_ok store_get_stream_version
proof (rule versioned_log.intro [OF memory.event_store_axioms], rule versioned_log_axioms.intro)
  fix s :: "'a store" and sid
  assume "store_ok s"
  from store_version_ok [OF this, of sid]
  show "(case store_get_stream_version s sid of None \<Rightarrow> 0 | Some v \<Rightarrow> v) = int (length (stream_history s sid))"
    by (cases "store_version s sid = 0") (simp_all add: store_get_stream_version_def Let_def)
qed

end
