(* ===== verification/Tool_Plane.thy ===== *)
theory Tool_Plane
  imports Service_Log Registry Verification_Run
begin

text \<open>
  The tool plane: contracts (\<open>domain/tools.py\<close>, \<open>domain/approvals.py\<close>, \<open>domain/tool_calls.py\<close>), the
  registry (\<open>tools/registry.py\<close>), bounded schema validation (\<open>tools/validation.py\<close>), the deny-first policy
  (\<open>tools/policy.py\<close>), the approval providers (\<open>application/services/approval_service.py\<close>), and the one
  lifecycle every tool call goes through (\<open>application/services/tool_execution.py\<close> with
  \<open>events/tool_event_service.py\<close>).

  Parameters: \<open>Path.resolve\<close> (the file system), \<open>jsonschema\<close>, the digests, the length of a float's
  text, and the tools.
\<close>

section \<open>Contracts\<close>

datatype ToolSource = ToolBuiltIn | ToolMcp

datatype ToolRiskLevel = ToolR0 | ToolR1 | ToolR2 | ToolR3

datatype ToolSideEffect = EffNone | EffLocalRead | EffLocalWrite | EffNetworkRead | EffNetworkWrite
  | EffExternalWrite | EffDestructive | EffPrivileged

datatype ToolExecutionMode = ModeHostReadOnly | ModeSandbox | ModeMcp

datatype ToolExecutionStatus = TxCompleted | TxFailed | TxDenied | TxTimedOut | TxCancelled

record ToolDescriptor =
  td_tool_id :: string
  td_version :: string
  td_display_name :: string
  td_description :: string
  td_source :: ToolSource
  td_input_schema :: "(string, json) dict"
  td_output_schema :: "(string, json) dict"
  td_risk_level :: ToolRiskLevel
  td_side_effects :: "ToolSideEffect list"
  td_execution_mode :: ToolExecutionMode
  td_provider_visible :: bool
  td_idempotent :: bool
  td_deterministic :: bool
  td_default_timeout_seconds :: pyfloat
  td_required_permissions :: "string list"
  td_tags :: "string list"
  td_descriptor_hash :: string

text \<open>The pattern of a tool identifier: a name, then at least one separated part.\<close>

fun tool_id_rest :: "bool \<Rightarrow> bool \<Rightarrow> string \<Rightarrow> bool" where
  "tool_id_rest parts filled [] = (parts \<and> filled)"
| "tool_id_rest parts filled (c # cs) =
     (if lower_char c \<or> digit_char c then tool_id_rest parts True cs
      else if c \<in> {CHR ''.'', CHR ''_'', CHR ''-''} \<and> filled then tool_id_rest True False cs
      else False)"

definition tool_id_ok :: "string \<Rightarrow> bool" where
  "tool_id_ok s = (case s of [] \<Rightarrow> False | c # cs \<Rightarrow> lower_char c \<and> tool_id_rest False True cs)"

datatype descriptor_fault = BadDescriptorField | DescriptorHashMismatch

definition computed_hash :: "(ToolDescriptor \<Rightarrow> string) \<Rightarrow> ToolDescriptor \<Rightarrow> string" where
  "computed_hash digest d = digest (d\<lparr>td_descriptor_hash := []\<rparr>)"

definition seal_descriptor :: "(ToolDescriptor \<Rightarrow> string) \<Rightarrow> ToolDescriptor \<Rightarrow> descriptor_fault + ToolDescriptor" where
  "seal_descriptor digest d =
     (case first_error
        [(\<not> tool_id_ok (td_tool_id d) \<or> length (td_version d) \<notin> {1..64} \<or>
          length (td_display_name d) \<notin> {1..120} \<or> length (td_description d) \<notin> {1..4000} \<or>
          td_default_timeout_seconds d \<le> 0 \<or> 3600 < td_default_timeout_seconds d, BadDescriptorField),
         (td_descriptor_hash d \<noteq> [] \<and> td_descriptor_hash d \<noteq> computed_hash digest d,
          DescriptorHashMismatch)] of
        Some e \<Rightarrow> Inl e
      | None \<Rightarrow> Inr (d\<lparr>td_descriptor_hash := computed_hash digest d\<rparr>))"

record ToolInvocation =
  ti_tool_call_id :: uuid
  ti_task_run_id :: uuid
  ti_step_id :: "uuid option"
  ti_correlation_id :: uuid
  ti_tool_id :: string
  ti_tool_version :: string
  ti_arguments :: "(string, json) dict"
  ti_requested_at :: timestamp
  ti_requested_by :: string

record ToolExecutionResult =
  tr_tool_call_id :: uuid
  tr_tool_id :: string
  tr_tool_version :: string
  tr_status :: ToolExecutionStatus
  tr_started_at :: timestamp
  tr_finished_at :: timestamp
  tr_exit_code :: "int option"
  tr_result :: json
  tr_result_artifacts :: "ArtifactRef list"
  tr_stdout_artifact :: "ArtifactRef option"
  tr_stderr_artifact :: "ArtifactRef option"
  tr_warnings :: "string list"
  tr_errors :: "ErrorInfo list"
  tr_sandbox_id :: "string option"

record ToolExecutionContext =
  tc_workspace :: string
  tc_timeout_seconds :: pyfloat
  tc_maximum_stdout_bytes :: int
  tc_maximum_stderr_bytes :: int
  tc_maximum_artifact_bytes :: int

datatype PolicyAction = PolAllow | PolRequireApproval | PolDeny

record ToolPolicyDecision =
  tp_action :: PolicyAction
  tp_rule_id :: string
  tp_reason :: string
  tp_risk_level :: ToolRiskLevel
  tp_evaluated_at :: timestamp
  tp_required_approval :: bool

datatype ApprovalDecisionType = AllowOnce | AllowForTask | ApprovalDeny | DenyAndBlockRule

record ApprovalRequest =
  aq_approval_id :: uuid
  aq_tool_call_id :: uuid
  aq_task_run_id :: uuid
  aq_tool_id :: string
  aq_tool_version :: string
  aq_arguments_summary :: "(string, json) dict"
  aq_risk_level :: ToolRiskLevel
  aq_side_effects :: "ToolSideEffect list"
  aq_reason :: string
  aq_requested_at :: timestamp

record ApprovalDecision =
  ad_approval_id :: uuid
  ad_decision :: ApprovalDecisionType
  ad_decided_at :: timestamp
  ad_decided_by :: string
  ad_reason :: string
  ad_task_run_id :: uuid
  ad_tool_id :: string
  ad_tool_version :: string
  ad_argument_hash :: "string option"
  ad_expires_at :: "timestamp option"

section \<open>Validation of values\<close>

definition MAX_SCHEMA_BYTES :: int where "MAX_SCHEMA_BYTES = 65536"
definition MAX_SCHEMA_DEPTH :: nat where "MAX_SCHEMA_DEPTH = 24"

text \<open>The length of the compact ASCII text \<open>json.dumps\<close> gives.\<close>

definition escaped_length :: "char \<Rightarrow> int" where
  "escaped_length c = (let n = (of_char c :: nat) in
     if n \<in> {34, 92, 8, 9, 10, 12, 13} then 2 else if 32 \<le> n \<and> n \<le> 126 then 1 else 6)"

definition string_length :: "string \<Rightarrow> int" where
  "string_length s = 2 + (\<Sum>c\<leftarrow>s. escaped_length c)"

fun digit_count :: "nat \<Rightarrow> int" where
  "digit_count n = (if n < 10 then 1 else 1 + digit_count (n div 10))"

definition joined_length :: "int list \<Rightarrow> int" where
  "joined_length ns = 2 + sum_list ns + max 0 (int (length ns) - 1)"

fun json_length :: "(pyfloat \<Rightarrow> int) \<Rightarrow> json \<Rightarrow> int" where
  "json_length fl JNull = 4"
| "json_length fl (JBool b) = (if b then 4 else 5)"
| "json_length fl (JInt i) = (if i < 0 then 1 else 0) + digit_count (nat \<bar>i\<bar>)"
| "json_length fl (JFloat x) = fl x"
| "json_length fl (JStr s) = string_length s"
| "json_length fl (JList vs) = joined_length (map (json_length fl) vs)"
| "json_length fl (JObj kvs) = joined_length (map (\<lambda>(k, v). string_length k + 1 + json_length fl v) kvs)"

fun json_depth :: "nat \<Rightarrow> json \<Rightarrow> nat" where
  "json_depth n (JObj kvs) = (if kvs = [] then n else Max (set (map (\<lambda>(k, v). json_depth (n + 1) v) kvs)))"
| "json_depth n (JList vs) = (if vs = [] then n else Max (set (map (json_depth (n + 1)) vs)))"
| "json_depth n _ = n"

fun remote_reference :: "json \<Rightarrow> bool" where
  "remote_reference (JObj kvs) = list_ex (\<lambda>(k, v).
     (k = ''$ref'' \<and> (case v of JStr s \<Rightarrow> \<not> py_startswith s ''#'' | _ \<Rightarrow> False)) \<or> remote_reference v) kvs"
| "remote_reference (JList vs) = list_ex remote_reference vs"
| "remote_reference _ = False"

datatype validation_fault = SchemaTooLarge | SchemaTooDeep | SchemaNotObject | SchemaRemote
  | SchemaInvalid | ValueInvalid

record validation_env =
  vn_float_length :: "pyfloat \<Rightarrow> int"
  vn_checker :: schema_checker

definition schema_fault :: "validation_env \<Rightarrow> (string, json) dict \<Rightarrow> validation_fault option" where
  "schema_fault vn schema = first_error
     [(MAX_SCHEMA_BYTES < json_length (vn_float_length vn) (JObj schema), SchemaTooLarge),
      (MAX_SCHEMA_DEPTH < json_depth 0 (JObj schema), SchemaTooDeep),
      (dict_get schema ''type'' \<noteq> Some (JStr ''object''), SchemaNotObject),
      (remote_reference (JObj schema), SchemaRemote),
      (\<not> sc_schema_ok (vn_checker vn) (JObj schema), SchemaInvalid)]"

definition validate_value :: "validation_env \<Rightarrow> json \<Rightarrow> (string, json) dict \<Rightarrow> validation_fault + json" where
  "validate_value vn v schema =
     (case schema_fault vn schema of Some e \<Rightarrow> Inl e
      | None \<Rightarrow> if sc_instance_ok (vn_checker vn) (JObj schema) v then Inr v else Inl ValueInvalid)"

section \<open>The registry\<close>

datatype tool_reply = ToolReturns ToolExecutionResult | ToolTimesOut | ToolIsCancelled
  | ToolRaisesPlane string | ToolRaisesOther string

record tool_port =
  to_descriptor :: ToolDescriptor
  to_execute :: "nat \<Rightarrow> ToolInvocation \<Rightarrow> ToolExecutionContext \<Rightarrow> tool_reply"

record ToolRegistry =
  rg_tools :: "(string \<times> string, tool_port) dict"
  rg_frozen :: bool

datatype registry_fault = RegistryFrozen | DuplicateTool string | BadDescriptorHash | ToolUnavailable string string

definition empty_registry :: ToolRegistry where
  "empty_registry = \<lparr>rg_tools = [], rg_frozen = False\<rparr>"

definition tool_key :: "tool_port \<Rightarrow> string \<times> string" where
  "tool_key t = (td_tool_id (to_descriptor t), td_version (to_descriptor t))"

definition tool_register ::
  "(ToolDescriptor \<Rightarrow> string) \<Rightarrow> ToolRegistry \<Rightarrow> tool_port \<Rightarrow> registry_fault + ToolRegistry" where
  "tool_register digest r t =
     (if rg_frozen r then Inl RegistryFrozen
      else bind_res (dict_add (DuplicateTool (td_tool_id (to_descriptor t))) (rg_tools r) (tool_key t) t)
        (\<lambda>tools. if td_descriptor_hash (to_descriptor t) \<noteq> computed_hash digest (to_descriptor t)
          then Inl BadDescriptorHash else Inr (r\<lparr>rg_tools := tools\<rparr>)))"

fun tool_register_many ::
  "(ToolDescriptor \<Rightarrow> string) \<Rightarrow> ToolRegistry \<Rightarrow> tool_port list \<Rightarrow> registry_fault + ToolRegistry" where
  "tool_register_many digest r [] = Inr r"
| "tool_register_many digest r (t # ts) =
     bind_res (tool_register digest r t) (\<lambda>r'. tool_register_many digest r' ts)"

definition tool_get :: "ToolRegistry \<Rightarrow> string \<times> string \<Rightarrow> tool_port option" where
  "tool_get r k = dict_get (rg_tools r) k"

definition tool_require :: "ToolRegistry \<Rightarrow> string \<Rightarrow> string \<Rightarrow> registry_fault + tool_port" where
  "tool_require r tool_id version =
     (case tool_get r (tool_id, version) of None \<Rightarrow> Inl (ToolUnavailable tool_id version) | Some t \<Rightarrow> Inr t)"

definition tool_list_all :: "ToolRegistry \<Rightarrow> ToolDescriptor list" where
  "tool_list_all r = map (\<lambda>(k, t). to_descriptor t) (sort_key fst (rg_tools r))"

definition tool_list_visible :: "ToolRegistry \<Rightarrow> ToolDescriptor list" where
  "tool_list_visible r = filter td_provider_visible (tool_list_all r)"

definition tool_list_by_risk :: "ToolRegistry \<Rightarrow> ToolRiskLevel \<Rightarrow> ToolDescriptor list" where
  "tool_list_by_risk r risk = filter (\<lambda>d. td_risk_level d = risk) (tool_list_all r)"

definition tool_freeze :: "ToolRegistry \<Rightarrow> ToolRegistry" where
  "tool_freeze r = r\<lparr>rg_frozen := True\<rparr>"

interpretation tools: keyed_registry "tool_register digest" tool_get tool_key
  by unfold_locales
    (auto simp: tool_register_def tool_get_def bind_res_Inr_iff fun_eq_iff
      dest: dict_add_get dict_add_fresh split: if_splits)

section \<open>Policy\<close>

record tool_policy =
  pl_roots :: "string list list"
  pl_enabled :: "string list"
  pl_resolve :: "string \<Rightarrow> string list"

text \<open>A path is its parts; \<open>is_relative_to\<close> is being below.\<close>

definition path_is_allowed :: "tool_policy \<Rightarrow> string \<Rightarrow> bool" where
  "path_is_allowed pol v = (let candidate = pl_resolve pol v in
     list_ex (\<lambda>root. take (length root) candidate = root) (pl_roots pol))"

definition policy_decision :: "PolicyAction \<Rightarrow> string \<Rightarrow> string \<Rightarrow> ToolDescriptor \<Rightarrow> timestamp \<Rightarrow> ToolPolicyDecision" where
  "policy_decision action rule reason d now = \<lparr>tp_action = action, tp_rule_id = rule, tp_reason = reason,
     tp_risk_level = td_risk_level d, tp_evaluated_at = now, tp_required_approval = (action = PolRequireApproval)\<rparr>"

definition policy_evaluate ::
  "tool_policy \<Rightarrow> ToolInvocation \<Rightarrow> ToolDescriptor \<Rightarrow> timestamp \<Rightarrow> ToolPolicyDecision" where
  "policy_evaluate pol call d now =
     (if td_tool_id d \<notin> set (pl_enabled pol)
      then policy_decision PolDeny ''tool.disabled'' ''tool is disabled'' d now
      else if ti_tool_version call \<noteq> td_version d
      then policy_decision PolDeny ''tool.version'' ''tool version mismatch'' d now
      else if td_risk_level d = ToolR3
      then policy_decision PolDeny ''risk.r3'' ''R3 tools are denied'' d now
      else if td_risk_level d = ToolR1 \<and> td_execution_mode d \<noteq> ModeSandbox
      then policy_decision PolDeny ''risk.r1.host'' ''R1 tools require sandbox execution'' d now
      else if (case dict_get (ti_arguments call) ''path'' of
          Some (JStr path) \<Rightarrow> \<not> path_is_allowed pol path | _ \<Rightarrow> False)
      then policy_decision PolDeny ''path.scope'' ''path is outside configured roots'' d now
      else if td_risk_level d = ToolR2
      then policy_decision PolRequireApproval ''risk.r2'' ''R2 requires approval'' d now
      else policy_decision PolAllow ''risk.default'' ''tool is allowed by default policy'' d now)"

end
