(* ===== verification/Tool_Calls.thy ===== *)
theory Tool_Calls
  imports Tool_Plane
begin

text \<open>
  Approvals and the execution of a tool call: the providers of approvals
  (\<open>application/services/approval_service.py\<close>), the lifecycle events
  (\<open>events/tool_event_service.py\<close>, \<open>domain/tool_calls.py\<close>) and
  \<open>ToolExecutionService.execute\<close>.
\<close>

section \<open>Approval providers\<close>

text \<open>The decisions a provider remembers, by approval identifier.\<close>

type_synonym approvals = "(uuid, ApprovalDecision) dict"

definition denied_approval :: "ApprovalRequest \<Rightarrow> timestamp \<Rightarrow> ApprovalDecision" where
  "denied_approval q now = \<lparr>ad_approval_id = aq_approval_id q, ad_decision = ApprovalDeny,
     ad_decided_at = now, ad_decided_by = ''deny-all'', ad_reason = ''approval is unavailable'',
     ad_task_run_id = aq_task_run_id q, ad_tool_id = aq_tool_id q, ad_tool_version = aq_tool_version q,
     ad_argument_hash = None, ad_expires_at = None\<rparr>"

definition task_approval_holds ::
  "uuid \<Rightarrow> string \<Rightarrow> string \<Rightarrow> string \<Rightarrow> timestamp \<Rightarrow> ApprovalDecision \<Rightarrow> bool" where
  "task_approval_holds run tool_id version argument_hash now d \<longleftrightarrow>
     ad_decision d = AllowForTask \<and> ad_task_run_id d = run \<and> ad_tool_id d = tool_id \<and>
     ad_tool_version d = version \<and> ad_argument_hash d \<in> {None, Some argument_hash} \<and>
     (case ad_expires_at d of None \<Rightarrow> True | Some t \<Rightarrow> now < t)"

definition existing_task_approval ::
  "approvals \<Rightarrow> timestamp \<Rightarrow> uuid \<Rightarrow> string \<Rightarrow> string \<Rightarrow> string \<Rightarrow> ApprovalDecision option" where
  "existing_task_approval ds now run tool_id version argument_hash =
     find (task_approval_holds run tool_id version argument_hash now) (map snd ds)"

definition preconfigured_request :: "approvals \<Rightarrow> timestamp \<Rightarrow> ApprovalRequest \<Rightarrow> ApprovalDecision" where
  "preconfigured_request ds now q =
     (case dict_get ds (aq_approval_id q) of Some d \<Rightarrow> d | None \<Rightarrow> denied_approval q now)"

definition console_request :: "string \<Rightarrow> timestamp \<Rightarrow> ApprovalRequest \<Rightarrow> ApprovalDecision" where
  "console_request answer now q = (denied_approval q now)
     \<lparr>ad_decision := (if py_strip answer \<in> {''y'', ''Y''} then AllowOnce else ApprovalDeny),
      ad_decided_by := ''console-operator'', ad_reason := ''explicit console decision''\<rparr>"

definition record_approval :: "approvals \<Rightarrow> ApprovalDecision \<Rightarrow> approvals" where
  "record_approval ds d = dict_set ds (ad_approval_id d) d"

datatype approval_provider = DenyAllApprovals | PreconfiguredApprovals | ConsoleApprovals "nat \<Rightarrow> string"

definition provider_existing ::
  "approval_provider \<Rightarrow> approvals \<Rightarrow> timestamp \<Rightarrow> uuid \<Rightarrow> string \<Rightarrow> string \<Rightarrow> string \<Rightarrow> ApprovalDecision option" where
  "provider_existing p ds now run tool_id version argument_hash = (case p of DenyAllApprovals \<Rightarrow> None
     | _ \<Rightarrow> existing_task_approval ds now run tool_id version argument_hash)"

definition provider_request :: "approval_provider \<Rightarrow> approvals \<Rightarrow> nat \<Rightarrow> timestamp \<Rightarrow> ApprovalRequest \<Rightarrow> ApprovalDecision" where
  "provider_request p ds t now q = (case p of DenyAllApprovals \<Rightarrow> denied_approval q now
     | PreconfiguredApprovals \<Rightarrow> preconfigured_request ds now q
     | ConsoleApprovals answer \<Rightarrow> console_request (answer t) now q)"

definition provider_record :: "approval_provider \<Rightarrow> approvals \<Rightarrow> ApprovalDecision \<Rightarrow> approvals" where
  "provider_record p ds d = (case p of DenyAllApprovals \<Rightarrow> ds | _ \<Rightarrow> record_approval ds d)"

section \<open>Events of a tool call\<close>

datatype CallStatus = CallPending | CallRunning | CallCompleted | CallFailed | CallCancelled | CallTimedOut

record ToolCallRequestRecord =
  tq_tool_call_id :: uuid
  tq_task_run_id :: uuid
  tq_step_id :: "uuid option"
  tq_tool_id :: string
  tq_tool_version :: string
  tq_arguments :: "(string, json) dict"
  tq_requested_at :: timestamp
  tq_risk_level :: RiskLevel

record ToolCallResultRecord =
  tz_tool_call_id :: uuid
  tz_status :: CallStatus
  tz_started_at :: "timestamp option"
  tz_finished_at :: "timestamp option"
  tz_exit_code :: "int option"
  tz_stdout_artifact :: "ArtifactRef option"
  tz_stderr_artifact :: "ArtifactRef option"
  tz_result_artifacts :: "ArtifactRef list"
  tz_sandbox_id :: "string option"
  tz_error :: "ErrorInfo option"
  tz_warnings :: "string list"

datatype tool_record_fault = BadRecordField | TerminalWithoutFinish | FinishedBeforeStarted
  | FailureWithoutCause | ArtifactsNotUnique

definition result_artifact_ids :: "ToolCallResultRecord \<Rightarrow> uuid list" where
  "result_artifact_ids r = map af_artifact_id
     (case_option [] (\<lambda>a. [a]) (tz_stdout_artifact r) @ case_option [] (\<lambda>a. [a]) (tz_stderr_artifact r) @
      tz_result_artifacts r)"

definition tool_result_error :: "ToolCallResultRecord \<Rightarrow> tool_record_fault option" where
  "tool_result_error r = first_error
     [(\<not> opt_non_empty (tz_sandbox_id r), BadRecordField),
      (tz_status r \<in> {CallCompleted, CallFailed, CallCancelled, CallTimedOut} \<and> tz_finished_at r = None,
       TerminalWithoutFinish),
      (case (tz_finished_at r, tz_started_at r) of (Some f, Some s) \<Rightarrow> f < s | _ \<Rightarrow> False, FinishedBeforeStarted),
      (tz_status r = CallFailed \<and> tz_error r = None \<and> tz_exit_code r \<in> {None, Some 0}, FailureWithoutCause),
      (\<not> distinct (result_artifact_ids r), ArtifactsNotUnique)]"

datatype tool_payload =
    TCRequested ToolCallRequestRecord
  | TCAuthorized uuid timestamp string
  | TCDenied uuid timestamp string string
  | TCStarted uuid timestamp
  | TCCompleted ToolCallResultRecord
  | TCFailed uuid timestamp ErrorInfo
  | TCTimedOut uuid timestamp pyfloat

fun tool_event_type :: "tool_payload \<Rightarrow> string" where
  "tool_event_type (TCRequested _) = ''tool_call.requested''"
| "tool_event_type (TCAuthorized _ _ _) = ''tool_call.authorized''"
| "tool_event_type (TCDenied _ _ _ _) = ''tool_call.denied''"
| "tool_event_type (TCStarted _ _) = ''tool_call.started''"
| "tool_event_type (TCCompleted _) = ''tool_call.completed''"
| "tool_event_type (TCFailed _ _ _) = ''tool_call.failed''"
| "tool_event_type (TCTimedOut _ _ _) = ''tool_call.timed_out''"

definition tool_source :: "tool_payload log_source" where
  "tool_source = \<lparr>so_type = tool_event_type, so_stream_type = StreamToolCall,
     so_actor = \<lparr>ar_actor_type = ActorSystem, ar_actor_id = ''tool-execution'', ar_display_name = None\<rparr>,
     so_component = ''tool-execution''\<rparr>"

record 's tool_env = "('s, tool_payload) log_env" +
  te_descriptor_digest :: "ToolDescriptor \<Rightarrow> string"
  te_argument_digest :: "json \<Rightarrow> string"
  te_registry :: ToolRegistry
  te_policy :: tool_policy
  te_validation :: validation_env
  te_approvals :: approval_provider

record 's tool_state = "'s log_state" +
  tx_approvals :: approvals

datatype tool_error = ToolRegistryFault registry_fault | ToolValidationFault validation_fault
  | ToolApprovalRefused | ToolPersistenceFault | ToolPlaneFault string
  | ToolTimeout | ToolCancellation | ToolRecordFault tool_record_fault | ToolOtherFault string

text \<open>The exceptions that are a \<open>ToolPlaneError\<close>.\<close>

fun is_plane_error :: "tool_error \<Rightarrow> bool" where
  "is_plane_error ToolTimeout = False"
| "is_plane_error ToolCancellation = False"
| "is_plane_error (ToolRecordFault _) = False"
| "is_plane_error (ToolOtherFault _) = False"
| "is_plane_error _ = True"

type_synonym ('s, 'a) tool_comp = "('s tool_state, tool_error, 'a) comp"

definition tool_emit :: "'s tool_env \<Rightarrow> ToolInvocation \<Rightarrow> tool_payload \<Rightarrow> ('s, uuid) tool_comp" where
  "tool_emit env call p = log_emit env tool_source ToolPersistenceFault
     (ti_tool_call_id call) (ti_correlation_id call) None p"

fun risk_of :: "ToolRiskLevel \<Rightarrow> RiskLevel" where
  "risk_of ToolR0 = RiskLow"
| "risk_of ToolR1 = RiskMedium"
| "risk_of ToolR2 = RiskHigh"
| "risk_of ToolR3 = RiskCritical"

text \<open>The request record strips its texts, and refuses blank ones.\<close>

definition request_record :: "ToolInvocation \<Rightarrow> ToolRiskLevel \<Rightarrow> tool_record_fault + ToolCallRequestRecord" where
  "request_record call risk =
     (if \<not> non_empty_str (ti_tool_id call) \<or> \<not> non_empty_str (ti_tool_version call) then Inl BadRecordField
      else Inr \<lparr>tq_tool_call_id = ti_tool_call_id call, tq_task_run_id = ti_task_run_id call,
        tq_step_id = ti_step_id call, tq_tool_id = py_strip (ti_tool_id call),
        tq_tool_version = py_strip (ti_tool_version call), tq_arguments = ti_arguments call,
        tq_requested_at = ti_requested_at call, tq_risk_level = risk_of risk\<rparr>)"

definition tool_requested :: "'s tool_env \<Rightarrow> ToolInvocation \<Rightarrow> ToolRiskLevel \<Rightarrow> ('s, uuid) tool_comp" where
  "tool_requested env call risk =
     bnd (lift_res ToolRecordFault (request_record call risk)) (\<lambda>r. tool_emit env call (TCRequested r))"

definition tool_authorized :: "'s tool_env \<Rightarrow> ToolInvocation \<Rightarrow> string \<Rightarrow> ('s, uuid) tool_comp" where
  "tool_authorized env call actor = bnd (ask_env (lg_now env)) (\<lambda>now.
     tool_emit env call (TCAuthorized (ti_tool_call_id call) now actor))"

definition tool_denied :: "'s tool_env \<Rightarrow> ToolInvocation \<Rightarrow> string \<Rightarrow> ('s, uuid) tool_comp" where
  "tool_denied env call reason = bnd (ask_env (lg_now env)) (\<lambda>now.
     tool_emit env call (TCDenied (ti_tool_call_id call) now ''tool-policy'' reason))"

definition tool_started :: "'s tool_env \<Rightarrow> ToolInvocation \<Rightarrow> ('s, uuid) tool_comp" where
  "tool_started env call = bnd (ask_env (lg_now env)) (\<lambda>now.
     tool_emit env call (TCStarted (ti_tool_call_id call) now))"

text \<open>The record of a completed call says COMPLETED, whatever the status of the result.\<close>

definition completed_record :: "ToolInvocation \<Rightarrow> ToolExecutionResult \<Rightarrow> tool_record_fault + ToolCallResultRecord" where
  "completed_record call r = construct tool_result_error
     \<lparr>tz_tool_call_id = ti_tool_call_id call, tz_status = CallCompleted,
      tz_started_at = Some (tr_started_at r), tz_finished_at = Some (tr_finished_at r),
      tz_exit_code = tr_exit_code r, tz_stdout_artifact = tr_stdout_artifact r,
      tz_stderr_artifact = tr_stderr_artifact r, tz_result_artifacts = tr_result_artifacts r,
      tz_sandbox_id = map_option py_strip (tr_sandbox_id r), tz_error = None, tz_warnings = tr_warnings r\<rparr>"

definition tool_completed :: "'s tool_env \<Rightarrow> ToolInvocation \<Rightarrow> ToolExecutionResult \<Rightarrow> ('s, uuid) tool_comp" where
  "tool_completed env call r =
     bnd (lift_res ToolRecordFault (completed_record call r)) (\<lambda>z. tool_emit env call (TCCompleted z))"

definition tool_failed :: "'s tool_env \<Rightarrow> ToolInvocation \<Rightarrow> string \<Rightarrow> ('s, uuid) tool_comp" where
  "tool_failed env call message = bnd (ask_env (lg_now env)) (\<lambda>now.
     tool_emit env call (TCFailed (ti_tool_call_id call) now (mk_error_info ''tool_execution_failed'' message)))"

definition tool_timed_out :: "'s tool_env \<Rightarrow> ToolInvocation \<Rightarrow> pyfloat \<Rightarrow> ('s, uuid) tool_comp" where
  "tool_timed_out env call seconds = bnd (ask_env (lg_now env)) (\<lambda>now.
     tool_emit env call (TCTimedOut (ti_tool_call_id call) now seconds))"

section \<open>Executing a tool call\<close>

definition approval_request ::
  "uuid \<Rightarrow> timestamp \<Rightarrow> ToolInvocation \<Rightarrow> ToolDescriptor \<Rightarrow> string \<Rightarrow> ApprovalRequest" where
  "approval_request approval_id now call d reason = \<lparr>aq_approval_id = approval_id,
     aq_tool_call_id = ti_tool_call_id call, aq_task_run_id = ti_task_run_id call,
     aq_tool_id = td_tool_id d, aq_tool_version = td_version d, aq_arguments_summary = ti_arguments call,
     aq_risk_level = td_risk_level d, aq_side_effects = td_side_effects d, aq_reason = reason,
     aq_requested_at = now\<rparr>"

text \<open>The approval in force: a remembered one for the task, or the provider's answer to a new request.\<close>

definition obtain_approval ::
  "'s tool_env \<Rightarrow> ToolInvocation \<Rightarrow> ToolDescriptor \<Rightarrow> json \<Rightarrow> string \<Rightarrow> ('s, ApprovalDecision) tool_comp" where
  "obtain_approval env call d arguments reason =
     bnd (ask_env (\<lambda>t. (lg_new_id env t, lg_now env t))) (\<lambda>(approval_id, requested_at).
     bnd (ask_env (lg_now env)) (\<lambda>checked.
     bnd (asks (\<lambda>s. provider_existing (te_approvals env) (tx_approvals s) checked (ti_task_run_id call)
        (td_tool_id d) (td_version d) (te_argument_digest env arguments))) (\<lambda>existing.
     case existing of
       Some a \<Rightarrow> ret a
     | None \<Rightarrow> bnd (ask_env (\<lambda>t. (t, lg_now env t))) (\<lambda>(t, decided).
         asks (\<lambda>s. provider_request (te_approvals env) (tx_approvals s) t decided
           (approval_request approval_id requested_at call d reason))))))"

definition approve_call ::
  "'s tool_env \<Rightarrow> ToolInvocation \<Rightarrow> ToolDescriptor \<Rightarrow> json \<Rightarrow> string \<Rightarrow> ('s, string) tool_comp" where
  "approve_call env call d arguments reason =
     bnd (obtain_approval env call d arguments reason) (\<lambda>approval.
     andthen (change (\<lambda>s. s\<lparr>tx_approvals := provider_record (te_approvals env) (tx_approvals s) approval\<rparr>))
     (if ad_decision approval \<notin> {AllowOnce, AllowForTask}
      then andthen (tool_denied env call ''approval denied'') (throw ToolApprovalRefused)
      else ret (ad_decided_by approval)))"

definition attempt_tool ::
  "'s tool_env \<Rightarrow> ToolInvocation \<Rightarrow> ToolExecutionContext \<Rightarrow> tool_port \<Rightarrow> ('s, ToolExecutionResult) tool_comp" where
  "attempt_tool env call ctx tool =
     bnd (ask_env (\<lambda>t. to_execute tool t call ctx)) (\<lambda>reply. case reply of
       ToolReturns r \<Rightarrow>
         bnd (lift_res ToolValidationFault (validate_value (te_validation env) (tr_result r)
           (td_output_schema (to_descriptor tool)))) (\<lambda>_.
         andthen (tool_completed env call r) (ret r))
     | ToolTimesOut \<Rightarrow> throw ToolTimeout
     | ToolIsCancelled \<Rightarrow> throw ToolCancellation
     | ToolRaisesPlane m \<Rightarrow> throw (ToolPlaneFault m)
     | ToolRaisesOther m \<Rightarrow> throw (ToolOtherFault m))"

definition report_failure ::
  "'s tool_env \<Rightarrow> ToolInvocation \<Rightarrow> ToolExecutionContext \<Rightarrow> tool_error \<Rightarrow> ('s, ToolExecutionResult) tool_comp" where
  "report_failure env call ctx e =
     (if e = ToolTimeout then andthen (tool_timed_out env call (tc_timeout_seconds ctx)) (throw e)
      else if e = ToolCancellation then andthen (tool_failed env call ''tool execution was cancelled'') (throw e)
      else if is_plane_error e then andthen (tool_failed env call ''tool execution failed'') (throw e)
      else throw e)"

definition denied_result :: "ToolInvocation \<Rightarrow> string \<Rightarrow> timestamp \<Rightarrow> ToolExecutionResult" where
  "denied_result call reason now = \<lparr>tr_tool_call_id = ti_tool_call_id call, tr_tool_id = ti_tool_id call,
     tr_tool_version = ti_tool_version call, tr_status = TxDenied, tr_started_at = now,
     tr_finished_at = now, tr_exit_code = None, tr_result = JNull, tr_result_artifacts = [],
     tr_stdout_artifact = None, tr_stderr_artifact = None, tr_warnings = [reason], tr_errors = [],
     tr_sandbox_id = None\<rparr>"

definition run_approved ::
  "'s tool_env \<Rightarrow> ToolInvocation \<Rightarrow> ToolExecutionContext \<Rightarrow> tool_port \<Rightarrow> string \<Rightarrow> ('s, ToolExecutionResult) tool_comp" where
  "run_approved env call ctx tool actor =
     andthen (tool_authorized env call actor)
     (andthen (tool_started env call)
     (handle (attempt_tool env call ctx tool) (report_failure env call ctx)))"

definition execute_with ::
  "'s tool_env \<Rightarrow> ToolInvocation \<Rightarrow> ToolExecutionContext \<Rightarrow> tool_port \<Rightarrow> ('s, ToolExecutionResult) tool_comp" where
  "execute_with env call ctx tool = (let d = to_descriptor tool in
     bnd (lift_res ToolValidationFault (validate_value (te_validation env) (JObj (ti_arguments call))
       (td_input_schema d))) (\<lambda>arguments.
     bnd (ask_env (\<lambda>t. policy_evaluate (te_policy env) call d (lg_now env t))) (\<lambda>decision.
     andthen (tool_requested env call (td_risk_level d))
     (case tp_action decision of
        PolDeny \<Rightarrow> andthen (tool_denied env call (tp_reason decision))
          (bnd (ask_env (lg_now env)) (\<lambda>now. ret (denied_result call (tp_reason decision) now)))
      | PolRequireApproval \<Rightarrow> bnd (approve_call env call d arguments (tp_reason decision))
          (run_approved env call ctx tool)
      | PolAllow \<Rightarrow> run_approved env call ctx tool ''tool-policy''))))"

definition execute_tool ::
  "'s tool_env \<Rightarrow> ToolInvocation \<Rightarrow> ToolExecutionContext \<Rightarrow> ('s, ToolExecutionResult) tool_comp" where
  "execute_tool env call ctx =
     bnd (lift_res ToolRegistryFault (tool_require (te_registry env) (ti_tool_id call) (ti_tool_version call)))
       (execute_with env call ctx)"

end
