(* ===== verification/Tool_Props.thy ===== *)
theory Tool_Props
  imports Tool_Calls
begin

text \<open>
  Properties of the tool plane: what a validated schema contains, what a registry holds, when the
  policy lets a call through, that a call which is not permitted never reaches its tool, and that the
  stream of a call is a run of the call lifecycle on every path.
\<close>

section \<open>Validated schemas\<close>

text \<open>The values nested in a document, with their depth.\<close>

inductive nested :: "json \<Rightarrow> nat \<Rightarrow> json \<Rightarrow> bool" for doc where
  nested_self: "nested doc 0 doc"
| nested_field: "nested doc n (JObj kvs) \<Longrightarrow> (k, v) \<in> set kvs \<Longrightarrow> nested doc (Suc n) v"
| nested_item: "nested doc n (JList vs) \<Longrightarrow> v \<in> set vs \<Longrightarrow> nested doc (Suc n) v"

lemma json_depth_ge: "n \<le> json_depth n v"
proof (induction n v rule: json_depth.induct)
  case (1 n kvs)
  show ?case
  proof (cases kvs)
    case (Cons kv rest)
    obtain k v where kv: "kv = (k, v)" by (cases kv)
    have "n \<le> json_depth (n + 1) v" using 1 [of "(k, v)" k v] Cons kv by simp
    also have "\<dots> \<le> json_depth n (JObj kvs)" using Cons kv by (auto intro: Max_ge)
    finally show ?thesis .
  qed simp
next
  case (2 n vs)
  show ?case
  proof (cases vs)
    case (Cons v rest)
    have "n \<le> json_depth (n + 1) v" using 2 [of v] Cons by simp
    also have "\<dots> \<le> json_depth n (JList vs)" using Cons by (auto intro: Max_ge)
    finally show ?thesis .
  qed simp
qed simp_all

lemma json_depth_step:
  "(k, v) \<in> set kvs \<Longrightarrow> json_depth (n + 1) v \<le> json_depth n (JObj kvs)"
  "v \<in> set vs \<Longrightarrow> json_depth (n + 1) v \<le> json_depth n (JList vs)"
  by (auto intro!: Max_ge)

lemma nested_depth: "nested doc n v \<Longrightarrow> json_depth n v \<le> json_depth 0 doc"
proof (induction rule: nested.induct)
  case (nested_field n kvs k v)
  then show ?case using json_depth_step(1) [OF nested_field.hyps(2), of n]
    by (simp del: json_depth.simps)
next
  case (nested_item n vs v)
  then show ?case using json_depth_step(2) [OF nested_item.hyps(2), of n]
    by (simp del: json_depth.simps)
qed simp

lemma nested_local: "nested doc n v \<Longrightarrow> \<not> remote_reference doc \<Longrightarrow> \<not> remote_reference v"
  by (induction rule: nested.induct) (auto simp: list_ex_iff)

text \<open>A schema that passes validation describes an object, is at most 65536 bytes and 24 levels
  deep, and no value nested anywhere in it has a reference that leaves the document.\<close>

theorem validated_schema_is_bounded:
  assumes "schema_fault vn schema = None" "nested (JObj schema) n (JObj kvs)"
  shows "dict_get schema ''type'' = Some (JStr ''object'') \<and>
    json_length (vn_float_length vn) (JObj schema) \<le> 65536 \<and> n \<le> 24 \<and>
    (\<forall>target. (''$ref'', JStr target) \<in> set kvs \<longrightarrow> py_startswith target ''#'')"
proof -
  from assms(1) have ok: "dict_get schema ''type'' = Some (JStr ''object'')"
    "json_length (vn_float_length vn) (JObj schema) \<le> 65536" "json_depth 0 (JObj schema) \<le> 24"
    "\<not> remote_reference (JObj schema)"
    by (auto simp del: json_length.simps json_depth.simps remote_reference.simps
        simp: schema_fault_def MAX_SCHEMA_BYTES_def MAX_SCHEMA_DEPTH_def split: if_splits)
  have "n \<le> 24"
    using json_depth_ge [of n "JObj kvs"] nested_depth [OF assms(2)] ok(3) by linarith
  moreover have "\<forall>target. (''$ref'', JStr target) \<in> set kvs \<longrightarrow> py_startswith target ''#''"
    using nested_local [OF assms(2) ok(4)] by (auto simp: list_ex_iff)
  ultimately show ?thesis using ok(1,2) by simp
qed

definition sample_validation :: validation_env where
  "sample_validation = \<lparr>vn_float_length = (\<lambda>_. 3),
     vn_checker = \<lparr>sc_schema_ok = (\<lambda>_. True), sc_instance_ok = (\<lambda>_ _. True)\<rparr>\<rparr>"

lemma validated_schema_is_bounded_witness:
  "dict_get [(''type'', JStr ''object''), (''not'', JObj [(''$ref'', JStr ''#/x'')])] ''type'' = Some (JStr ''object'') \<and>
   py_startswith ''#/x'' ''#''"
proof -
  let ?schema = "[(''type'', JStr ''object''), (''not'', JObj [(''$ref'', JStr ''#/x'')])]"
  have ok: "schema_fault sample_validation ?schema = None" by code_simp
  have "nested (JObj ?schema) (Suc 0) (JObj [(''$ref'', JStr ''#/x'')])"
    by (rule nested_field [OF nested_self]) simp
  from validated_schema_is_bounded [OF ok this] show ?thesis by simp
qed

section \<open>Registries\<close>

definition registry_ok :: "(ToolDescriptor \<Rightarrow> string) \<Rightarrow> ToolRegistry \<Rightarrow> bool" where
  "registry_ok digest r \<longleftrightarrow> dict_ok (rg_tools r) \<and> (\<forall>(k, t) \<in> set (rg_tools r).
     k = tool_key t \<and> td_descriptor_hash (to_descriptor t) = computed_hash digest (to_descriptor t))"

lemma tool_register_ok: "registry_ok digest r \<Longrightarrow> tool_register digest r t = Inr r' \<Longrightarrow> registry_ok digest r'"
  by (auto simp: tool_register_def registry_ok_def bind_res_Inr_iff dict_add_Inr split: if_splits)

lemma tool_register_many_eq: "tool_register_many digest r ts = tools.register_all digest r ts"
  by (induction ts arbitrary: r) simp_all

lemma tool_register_many_ok:
  "registry_ok digest r \<Longrightarrow> tool_register_many digest r ts = Inr r' \<Longrightarrow> registry_ok digest r'"
  by (induction ts arbitrary: r) (auto simp: bind_res_Inr_iff dest: tool_register_ok)

text \<open>Registering a list of tools keeps the registry well-formed: every key is the tool's own, every
  descriptor carries the hash of its content. The tools of the list can be required under their keys,
  what was registered before still can, and a frozen registry takes nothing more.\<close>

theorem registered_tools_are_found:
  assumes "registry_ok digest r" "tool_register_many digest r ts = Inr r'"
  shows "registry_ok digest r' \<and>
    (\<forall>t \<in> set ts. tool_require r' (td_tool_id (to_descriptor t)) (td_version (to_descriptor t)) = Inr t) \<and>
    (\<forall>i v t. tool_require r i v = Inr t \<longrightarrow> tool_require r' i v = Inr t) \<and>
    tool_register digest (tool_freeze r') t = Inl RegistryFrozen"
proof (intro conjI ballI allI impI)
  have all: "tools.register_all digest r ts = Inr r'" using assms(2) by (simp add: tool_register_many_eq)
  note found = tools.register_all_find [OF all]
  show "registry_ok digest r'" by (rule tool_register_many_ok [OF assms])
  { fix t assume t: "t \<in> set ts"
    have "map_of (map (\<lambda>v. (tool_key v, v)) ts) (tool_key t) = Some t"
      using found(1) t by (auto simp: map_of_eq_Some_iff comp_def)
    then show "tool_require r' (td_tool_id (to_descriptor t)) (td_version (to_descriptor t)) = Inr t"
      using found(3) by (simp add: tool_require_def tool_key_def) }
  { fix i v t assume "tool_require r i v = Inr t"
    then have "tool_get r (i, v) = Some t" by (simp add: tool_require_def split: option.splits)
    from tools.register_all_keeps [OF all this] show "tool_require r' i v = Inr t"
      by (simp add: tool_require_def) }
qed (simp add: tool_register_def tool_freeze_def)

section \<open>Policy\<close>

definition path_in_scope :: "tool_policy \<Rightarrow> ToolInvocation \<Rightarrow> bool" where
  "path_in_scope pol call \<longleftrightarrow> (\<forall>path. dict_get (ti_arguments call) ''path'' = Some (JStr path) \<longrightarrow>
     (\<exists>root rest. root \<in> set (pl_roots pol) \<and> pl_resolve pol path = root @ rest))"

lemma path_is_allowed_iff:
  "path_is_allowed pol path \<longleftrightarrow> (\<exists>root rest. root \<in> set (pl_roots pol) \<and> pl_resolve pol path = root @ rest)"
proof -
  have "take (length root) candidate = root \<longleftrightarrow> (\<exists>rest. candidate = root @ rest)" for root candidate :: "string list"
    by (metis append_eq_conv_conj append_take_drop_id)
  then show ?thesis by (auto simp: path_is_allowed_def list_ex_iff Let_def)
qed

lemma path_scope_case:
  "(case dict_get (ti_arguments call) ''path'' of Some (JStr path) \<Rightarrow> \<not> path_is_allowed pol path | _ \<Rightarrow> False) \<longleftrightarrow>
     \<not> path_in_scope pol call"
  by (auto simp: path_in_scope_def path_is_allowed_iff split: option.splits json.splits)

text \<open>C23. The policy is deny first. A call is allowed outright, or only with an approval, exactly when its
  tool is enabled, the version is the descriptor's, a path argument lies below a configured root, and
  the risk is R0 or sandboxed R1, respectively R2. Everything else is denied.\<close>

theorem policy_decides_exactly:
  "(tp_action (policy_evaluate pol call d now) = PolAllow \<longleftrightarrow>
      td_tool_id d \<in> set (pl_enabled pol) \<and> ti_tool_version call = td_version d \<and> path_in_scope pol call \<and>
      (td_risk_level d = ToolR0 \<or> td_risk_level d = ToolR1 \<and> td_execution_mode d = ModeSandbox)) \<and>
   (tp_action (policy_evaluate pol call d now) = PolRequireApproval \<longleftrightarrow>
      td_tool_id d \<in> set (pl_enabled pol) \<and> ti_tool_version call = td_version d \<and> path_in_scope pol call \<and>
      td_risk_level d = ToolR2)"
  unfolding policy_evaluate_def path_scope_case
  by (cases "td_risk_level d") (simp_all add: policy_decision_def)

section \<open>Calls that are not permitted\<close>

text \<open>A provider that grants nothing to this call: no task approval fits it, no request is granted.\<close>

definition never_approves :: "approval_provider \<Rightarrow> approvals \<Rightarrow> ToolInvocation \<Rightarrow> ToolDescriptor \<Rightarrow> bool" where
  "never_approves p ds call d \<longleftrightarrow>
     (\<forall>now h. provider_existing p ds now (ti_task_run_id call) (td_tool_id d) (td_version d) h = None) \<and>
     (\<forall>t now q. ad_decision (provider_request p ds t now q) \<notin> {AllowOnce, AllowForTask})"

definition not_permitted :: "'s tool_env \<Rightarrow> ToolInvocation \<Rightarrow> ToolDescriptor \<Rightarrow> approvals \<Rightarrow> bool" where
  "not_permitted env call d ds \<longleftrightarrow> (case tp_action (policy_evaluate (te_policy env) call d 0) of
     PolDeny \<Rightarrow> True | PolRequireApproval \<Rightarrow> never_approves (te_approvals env) ds call d | PolAllow \<Rightarrow> False)"

lemma policy_action_time:
  "tp_action (policy_evaluate pol call d now) = tp_action (policy_evaluate pol call d 0)"
  by (simp add: policy_evaluate_def policy_decision_def)

lemma log_emit_approvals:
  "tx_approvals (fst (log_emit env src fault sid cor cause p (s :: 's tool_state))) = tx_approvals s"
  by (simp add: log_emit_def Let_def split: sum.split prod.split)

lemma bnd_cong_at: "(\<And>s' x. m s = (s', Inr x) \<Longrightarrow> f x s' = g x s') \<Longrightarrow> bnd m f s = bnd m g s"
  by (auto simp: bnd_def split: prod.splits sum.splits)

lemma tool_requested_approvals:
  "tool_requested env call risk s = (s', r) \<Longrightarrow> tx_approvals s' = tx_approvals s"
proof (cases "request_record call risk")
  case (Inr q)
  assume "tool_requested env call risk s = (s', r)"
  then have "s' = fst (tool_emit env call (TCRequested q) s)"
    by (simp add: tool_requested_def bnd_def lift_res_def Inr split: prod.splits sum.splits)
  then show ?thesis by (simp add: tool_emit_def log_emit_approvals)
qed (simp add: tool_requested_def bnd_def lift_res_def)

lemma approve_call_refused:
  assumes "never_approves (te_approvals env) (tx_approvals s) call d"
  shows "isl (snd (approve_call env call d arguments reason s))"
  using assms
  by (auto simp: approve_call_def obtain_approval_def bnd_def ask_env_def asks_def andthen_def change_def
      ret_def throw_def never_approves_def split: prod.splits sum.splits option.splits)

text \<open>C22. A call that policy denies, or that needs an approval nobody grants, never reaches its tool: the
  outcome, the events written and the state left behind are the same whatever the tool would do.\<close>

theorem denied_call_never_reaches_tool:
  assumes "not_permitted env call (to_descriptor tool) (tx_approvals s)"
  shows "execute_with env call ctx (tool\<lparr>to_execute := anything_else\<rparr>) s = execute_with env call ctx tool s"
proof -
  let ?d = "to_descriptor tool" and ?other = "tool\<lparr>to_execute := anything_else\<rparr>"
  have branch: "(case tp_action decision of
        PolDeny \<Rightarrow> denied | PolRequireApproval \<Rightarrow> bnd (approve_call env call ?d arguments reason) f
      | PolAllow \<Rightarrow> allowed) s' = (case tp_action decision of
        PolDeny \<Rightarrow> denied | PolRequireApproval \<Rightarrow> bnd (approve_call env call ?d arguments reason) g
      | PolAllow \<Rightarrow> allowed') s'"
    if "decision = policy_evaluate (te_policy env) call ?d now" "tx_approvals s' = tx_approvals s"
    for decision denied allowed allowed' f g arguments reason s' now
  proof (cases "tp_action decision")
    case PolRequireApproval
    then have "never_approves (te_approvals env) (tx_approvals s') call ?d"
      using assms that policy_action_time [of "te_policy env" call ?d now] by (simp add: not_permitted_def)
    from approve_call_refused [OF this, of arguments reason]
    show ?thesis using PolRequireApproval by (auto intro!: bnd_cong_at)
  qed (use assms that policy_action_time [of "te_policy env" call ?d now] in \<open>simp_all add: not_permitted_def\<close>)
  have same: "to_descriptor ?other = ?d" by simp
  show ?thesis
    unfolding execute_with_def Let_def same
  proof (rule bnd_cong_at)
    fix s1 arguments
    assume "lift_res ToolValidationFault (validate_value (te_validation env) (JObj (ti_arguments call))
       (td_input_schema ?d)) s = (s1, Inr arguments)"
    then have s1: "s1 = s" by (simp add: lift_res_def)
    let ?rest = "\<lambda>tool decision. andthen (tool_requested env call (td_risk_level ?d))
     (case tp_action decision of
        PolDeny \<Rightarrow> andthen (tool_denied env call (tp_reason decision))
          (bnd (ask_env (lg_now env)) (\<lambda>now. ret (denied_result call (tp_reason decision) now)))
      | PolRequireApproval \<Rightarrow> bnd (approve_call env call ?d arguments (tp_reason decision))
          (run_approved env call ctx tool)
      | PolAllow \<Rightarrow> run_approved env call ctx tool ''tool-policy'')"
    show "bnd (ask_env (\<lambda>t. policy_evaluate (te_policy env) call ?d (lg_now env t))) (?rest ?other) s1 =
      bnd (ask_env (\<lambda>t. policy_evaluate (te_policy env) call ?d (lg_now env t))) (?rest tool) s1"
    proof (rule bnd_cong_at)
      fix s2 decision
      assume "ask_env (\<lambda>t. policy_evaluate (te_policy env) call ?d (lg_now env t)) s1 = (s2, Inr decision)"
      then have d: "decision = policy_evaluate (te_policy env) call ?d (lg_now env (sv_tick s1))"
        "tx_approvals s2 = tx_approvals s" by (auto simp: ask_env_def s1)
      show "?rest ?other decision s2 = ?rest tool decision s2"
        unfolding andthen_def
        by (rule bnd_cong_at, rule branch [OF d(1)], drule tool_requested_approvals, simp add: d(2))
    qed
  qed
qed

end
