(* ===== verification/Tool_Lifecycle.thy ===== *)
theory Tool_Lifecycle
  imports Tool_Props
begin

text \<open>
  The abstract lifecycle of a tool call and its refinement: whatever the registry, the policy, the
  approvals and the tool answer, the events \<open>ToolExecutionService.execute\<close> writes are a run of it, and
  the outcome tells the phase it ends in.
\<close>

section \<open>The lifecycle\<close>

datatype call_phase = PhNew | PhRequested | PhAuthorized | PhRunning | PhCompleted | PhFailed
  | PhDenied | PhTimedOut

fun phase_allowed :: "call_phase \<Rightarrow> call_phase \<Rightarrow> bool" where
  "phase_allowed PhNew r = (r = PhRequested)"
| "phase_allowed PhRequested r = (r = PhDenied \<or> r = PhAuthorized)"
| "phase_allowed PhAuthorized r = (r = PhRunning)"
| "phase_allowed PhRunning r = (r = PhCompleted \<or> r = PhFailed \<or> r = PhTimedOut)"
| "phase_allowed _ r = False"

definition phase_terminal :: "call_phase \<Rightarrow> bool" where
  "phase_terminal q \<longleftrightarrow> q \<in> {PhCompleted, PhFailed, PhDenied, PhTimedOut}"

interpretation call_lifecycle: lifecycle_table phase_allowed phase_terminal
proof
  fix q r show "phase_terminal q \<Longrightarrow> \<not> phase_allowed q r" by (cases q; cases r) (simp_all add: phase_terminal_def)
  show "\<not> phase_allowed q q" by (cases q) simp_all
  show "\<not> phase_terminal q \<Longrightarrow> \<exists>r. phase_allowed q r"
    by (cases q; force simp: phase_terminal_def
        intro: exI [of _ PhRequested] exI [of _ PhDenied] exI [of _ PhRunning] exI [of _ PhCompleted])
qed

fun phase_of :: "tool_payload \<Rightarrow> call_phase" where
  "phase_of (TCRequested _) = PhRequested"
| "phase_of (TCAuthorized _ _ _) = PhAuthorized"
| "phase_of (TCDenied _ _ _ _) = PhDenied"
| "phase_of (TCStarted _ _) = PhRunning"
| "phase_of (TCCompleted _) = PhCompleted"
| "phase_of (TCFailed _ _ _) = PhFailed"
| "phase_of (TCTimedOut _ _ _) = PhTimedOut"

definition call_step :: "call_phase \<Rightarrow> tool_payload \<Rightarrow> call_phase option" where
  "call_step q p = (if phase_allowed q (phase_of p) then Some (phase_of p) else None)"

lemma follow_call_run:
  "follow call_step q ps = Some q' \<longleftrightarrow> call_lifecycle.run_from q (map phase_of ps) \<and>
     q' = call_lifecycle.run_end q (map phase_of ps)"
  by (induction ps arbitrary: q) (auto simp: call_step_def call_lifecycle.run_end_def)

text \<open>The phases in which an exception may leave the stream.\<close>

fun error_phases :: "tool_error \<Rightarrow> call_phase set" where
  "error_phases (ToolRegistryFault _) = {PhNew}"
| "error_phases (ToolValidationFault _) = {PhNew, PhFailed}"
| "error_phases ToolApprovalRefused = {PhDenied}"
| "error_phases ToolPersistenceFault = {PhNew, PhRequested, PhAuthorized, PhRunning, PhFailed}"
| "error_phases (ToolPlaneFault _) = {PhFailed}"
| "error_phases ToolTimeout = {PhTimedOut}"
| "error_phases ToolCancellation = {PhFailed}"
| "error_phases (ToolRecordFault _) = {PhNew, PhRunning}"
| "error_phases (ToolOtherFault _) = {PhRunning}"

section \<open>Refinement\<close>

locale tool_runs = versioned_log append_events history wf_store version_of
  for append_events :: "'s \<Rightarrow> tool_payload EventEnvelope list \<Rightarrow> int \<Rightarrow> 's \<times> (store_error + AppendResult)"
    and history :: "'s \<Rightarrow> uuid \<Rightarrow> tool_payload EventEnvelope list"
    and wf_store :: "'s \<Rightarrow> bool" and version_of :: "'s \<Rightarrow> uuid \<Rightarrow> int option" +
  fixes env :: "'s tool_env"
  assumes env_append: "lg_append env = append_events" and env_version: "lg_version env = version_of"
begin

definition in_phase ::
  "ToolInvocation \<Rightarrow> (uuid \<Rightarrow> tool_payload EventEnvelope list) \<Rightarrow> call_phase \<Rightarrow> 's tool_state \<Rightarrow> bool" where
  "in_phase call others q s \<longleftrightarrow> in_log call_step PhNew (ti_tool_call_id call) others q s"

definition raised_in ::
  "ToolInvocation \<Rightarrow> (uuid \<Rightarrow> tool_payload EventEnvelope list) \<Rightarrow> tool_error \<Rightarrow> 's tool_state \<Rightarrow> bool" where
  "raised_in call others e s \<longleftrightarrow> (\<exists>q \<in> error_phases e. in_phase call others q s)"

lemma ask_in: "triple (in_phase call others q) (ask_env f) (\<lambda>_. in_phase call others q) E"
  unfolding in_phase_def by (rule ask_env_in)

lemma emit_in:
  assumes "phase_allowed q (phase_of p)"
  shows "triple (in_phase call others q) (tool_emit env call p) (\<lambda>_. in_phase call others (phase_of p))
    (\<lambda>e s. e = ToolPersistenceFault \<and> in_phase call others q s)"
  unfolding in_phase_def tool_emit_def
  by (rule log_emit_in [OF env_append env_version]) (simp add: call_step_def assms)

text \<open>Before the tool runs, a failing emission leaves a phase a persistence fault may leave.\<close>

lemma emit_raised:
  assumes "phase_allowed q (phase_of p)" "q \<in> error_phases ToolPersistenceFault"
  shows "triple (in_phase call others q) (tool_emit env call p) (\<lambda>_. in_phase call others (phase_of p))
    (raised_in call others)"
  by (rule triple_conseq [OF emit_in [OF assms(1)]]) (use assms(2) in \<open>auto simp: raised_in_def\<close>)

lemma requested_in:
  "triple (in_phase call others PhNew) (tool_requested env call risk) (\<lambda>_. in_phase call others PhRequested)
     (raised_in call others)"
  unfolding tool_requested_def
  by (rule triple_bnd [where R = "\<lambda>_. in_phase call others PhNew"])
    (auto intro!: triple_lift_res triple_conseq [OF emit_raised] simp: raised_in_def)

lemma authorized_in:
  "triple (in_phase call others PhRequested) (tool_authorized env call actor) (\<lambda>_. in_phase call others PhAuthorized)
     (raised_in call others)"
  unfolding tool_authorized_def
  by (rule triple_bnd [OF ask_in]) (rule triple_conseq [OF emit_raised]; simp)

lemma denied_in:
  "triple (in_phase call others PhRequested) (tool_denied env call reason) (\<lambda>_. in_phase call others PhDenied)
     (raised_in call others)"
  unfolding tool_denied_def
  by (rule triple_bnd [OF ask_in]) (rule triple_conseq [OF emit_raised]; simp)

lemma started_in:
  "triple (in_phase call others PhAuthorized) (tool_started env call) (\<lambda>_. in_phase call others PhRunning)
     (raised_in call others)"
  unfolding tool_started_def
  by (rule triple_bnd [OF ask_in]) (rule triple_conseq [OF emit_raised]; simp)

lemma failed_in:
  "triple (in_phase call others PhRunning) (tool_failed env call m) (\<lambda>_. in_phase call others PhFailed)
     (raised_in call others)"
  unfolding tool_failed_def
  by (rule triple_bnd [OF ask_in]) (rule triple_conseq [OF emit_raised]; simp)

lemma timed_out_in:
  "triple (in_phase call others PhRunning) (tool_timed_out env call t) (\<lambda>_. in_phase call others PhTimedOut)
     (raised_in call others)"
  unfolding tool_timed_out_def
  by (rule triple_bnd [OF ask_in]) (rule triple_conseq [OF emit_raised]; simp)

text \<open>The attempt: it completes the call, or raises with the call still running.\<close>

definition still_running ::
  "ToolInvocation \<Rightarrow> (uuid \<Rightarrow> tool_payload EventEnvelope list) \<Rightarrow> tool_error \<Rightarrow> 's tool_state \<Rightarrow> bool" where
  "still_running call others e s \<longleftrightarrow> in_phase call others PhRunning s \<and> e \<noteq> ToolApprovalRefused \<and>
     (\<nexists>f. e = ToolRegistryFault f)"

lemma throw_in: "q \<in> error_phases e \<Longrightarrow> triple (in_phase call others q) (throw e) Q (raised_in call others)"
  by (rule triple_throw) (auto simp: raised_in_def)

lemma attempt_in:
  "triple (in_phase call others PhRunning) (attempt_tool env call ctx tool)
     (\<lambda>_. in_phase call others PhCompleted) (still_running call others)"
  unfolding attempt_tool_def
proof (rule triple_bnd [OF ask_in])
  fix reply
  let ?run = "in_phase call others PhRunning"
  have completed: "triple ?run (tool_completed env call r) (\<lambda>_. in_phase call others PhCompleted) (still_running call others)" for r
    unfolding tool_completed_def
    by (rule triple_bnd [where R = "\<lambda>_. ?run"])
      (auto intro!: triple_lift_res triple_conseq [OF emit_in] simp: still_running_def)
  have returned: "triple ?run (bnd (lift_res ToolValidationFault v) (\<lambda>_. andthen (tool_completed env call r) (ret r)))
      (\<lambda>_. in_phase call others PhCompleted) (still_running call others)" for v :: "validation_fault + json" and r
    by (rule triple_bnd [where R = "\<lambda>_. ?run"], rule triple_lift_res, simp, simp add: still_running_def,
        rule triple_andthen [OF completed], rule triple_ret, simp)
  show "triple ?run (case reply of
       ToolReturns r \<Rightarrow>
         bnd (lift_res ToolValidationFault (validate_value (te_validation env) (tr_result r)
           (td_output_schema (to_descriptor tool)))) (\<lambda>_.
         andthen (tool_completed env call r) (ret r))
     | ToolTimesOut \<Rightarrow> throw ToolTimeout
     | ToolIsCancelled \<Rightarrow> throw ToolCancellation
     | ToolRaisesPlane m \<Rightarrow> throw (ToolPlaneFault m)
     | ToolRaisesOther m \<Rightarrow> throw (ToolOtherFault m)) (\<lambda>_. in_phase call others PhCompleted) (still_running call others)"
    by (cases reply) (auto intro!: returned triple_throw simp: still_running_def)
qed

lemma report_in:
  "triple (still_running call others e) (report_failure env call ctx e) (\<lambda>_ _. False) (raised_in call others)"
proof (cases "e = ToolApprovalRefused \<or> (\<exists>f. e = ToolRegistryFault f)")
  case True
  then show ?thesis by (auto simp: triple_def still_running_def)
next
  case False
  then have "triple (in_phase call others PhRunning) (report_failure env call ctx e) (\<lambda>_ _. False) (raised_in call others)"
    unfolding report_failure_def
    by (cases e) (auto intro!: triple_andthen [OF timed_out_in] triple_andthen [OF failed_in] throw_in)
  then show ?thesis by (rule triple_pre) (simp add: still_running_def)
qed

lemma run_approved_in:
  "triple (in_phase call others PhRequested) (run_approved env call ctx tool actor)
     (\<lambda>_. in_phase call others PhCompleted) (raised_in call others)"
  unfolding run_approved_def
  by (rule triple_andthen [OF authorized_in], rule triple_andthen [OF started_in],
      rule triple_handle [OF attempt_in], rule triple_post [OF report_in], simp)

lemma approve_call_in:
  "triple (in_phase call others PhRequested) (approve_call env call d arguments reason)
     (\<lambda>_. in_phase call others PhRequested) (raised_in call others)"
proof -
  have asked: "triple (in_phase call others PhRequested) (obtain_approval env call d arguments reason)
      (\<lambda>_. in_phase call others PhRequested) (raised_in call others)"
    unfolding obtain_approval_def
    by (rule triple_bnd [OF ask_in], simp only: split_beta,
        rule triple_bnd [OF ask_in], rule triple_bnd [where R = "\<lambda>_. in_phase call others PhRequested"],
        rule triple_asks, simp)
      (auto intro!: triple_ret triple_bnd [OF ask_in] triple_asks split: option.split)
  have refused: "triple (in_phase call others PhRequested)
      (andthen (tool_denied env call ''approval denied'') (throw ToolApprovalRefused)) Q (raised_in call others)" for Q
    by (rule triple_andthen [OF denied_in], rule triple_throw) (auto simp: raised_in_def)
  show ?thesis
    unfolding approve_call_def
    by (rule triple_bnd [OF asked], rule triple_andthen [where R = "in_phase call others PhRequested"],
        rule triple_change, simp add: in_phase_def in_log_def log_of_def,
        rule triple_if [OF refused triple_ret], simp)
qed

definition call_result :: "ToolInvocation \<Rightarrow> (uuid \<Rightarrow> tool_payload EventEnvelope list) \<Rightarrow> ToolExecutionResult \<Rightarrow> 's tool_state \<Rightarrow> bool" where
  "call_result call others r s \<longleftrightarrow> in_phase call others PhCompleted s \<or>
     in_phase call others PhDenied s \<and> (\<exists>reason now. r = denied_result call reason now)"

lemma execute_with_in:
  "triple (in_phase call others PhNew) (execute_with env call ctx tool)
     (call_result call others) (raised_in call others)"
proof -
  have denied: "triple (in_phase call others PhRequested) (andthen (tool_denied env call reason)
      (bnd (ask_env (lg_now env)) (\<lambda>now. ret (denied_result call reason now)))) (call_result call others) (raised_in call others)" for reason
    by (rule triple_andthen [OF denied_in], rule triple_bnd [OF ask_in], rule triple_ret) (auto simp: call_result_def)
  have approved: "triple (in_phase call others PhRequested) (run_approved env call ctx tool actor)
      (call_result call others) (raised_in call others)" for actor
    by (rule triple_post [OF run_approved_in]) (simp add: call_result_def)
  show ?thesis
    unfolding execute_with_def Let_def
    by (rule triple_bnd [where R = "\<lambda>_. in_phase call others PhNew"], rule triple_lift_res, simp,
        simp add: raised_in_def, rule triple_bnd [OF ask_in], rule triple_andthen [OF requested_in])
      (auto intro!: denied approved triple_bnd [OF approve_call_in] split: PolicyAction.split)
qed

lemma execute_tool_in:
  "triple (in_phase call others PhNew) (execute_tool env call ctx) (call_result call others) (raised_in call others)"
  unfolding execute_tool_def
  by (rule triple_bnd [where R = "\<lambda>_. in_phase call others PhNew"], rule triple_lift_res, simp,
      simp add: raised_in_def, rule execute_with_in)

end

definition memory_tool_env :: "(int \<Rightarrow> timestamp) \<Rightarrow> tool_payload store tool_env \<Rightarrow> tool_payload store tool_env" where
  "memory_tool_env clock env = env\<lparr>lg_append := store_append clock, lg_version := store_get_stream_version\<rparr>"

interpretation memory_tools: tool_runs "store_append clock" stream_history store_ok store_get_stream_version
  "memory_tool_env clock env"
  by (rule tool_runs.intro [OF memory_log.versioned_log_axioms], rule tool_runs_axioms.intro)
    (simp_all add: memory_tool_env_def)

definition call_history :: "ToolInvocation \<Rightarrow> tool_payload store tool_state \<Rightarrow> tool_payload list" where
  "call_history call s = map ev_payload (stream_history (sv_store s) (ti_tool_call_id call))"

text \<open>What a call leaves on the streams.\<close>

lemma tool_call_record:
  assumes "store_ok (sv_store s)" "call_history call s = []"
    and "execute_tool (memory_tool_env clock env) call ctx s = (s', r)"
  shows "\<exists>q. follow call_step PhNew (call_history call s') = Some q \<and>
    (\<forall>i. i \<noteq> ti_tool_call_id call \<longrightarrow> stream_history (sv_store s') i = stream_history (sv_store s) i) \<and>
    (case r of Inr result \<Rightarrow> q = PhCompleted \<or> q = PhDenied \<and> tr_status result = TxDenied
     | Inl e \<Rightarrow> q \<in> error_phases e)"
proof -
  let ?others = "stream_history (sv_store s)"
  have new: "memory_tools.in_phase call ?others PhNew s"
    using assms(1,2) by (simp add: memory_tools.in_phase_def memory_log.in_log_def memory_log.log_of_def call_history_def)
  note t = memory_tools.execute_tool_in [of call ?others clock env ctx]
  show ?thesis
  proof (cases r)
    case (Inl e)
    with triple_Inl [OF t new] assms(3) show ?thesis
      by (auto simp: memory_tools.raised_in_def memory_tools.in_phase_def memory_log.in_log_def
          memory_log.log_of_def call_history_def)
  next
    case (Inr result)
    with triple_Inr [OF t new] assms(3) show ?thesis
      by (auto simp: memory_tools.call_result_def memory_tools.in_phase_def memory_log.in_log_def
          memory_log.log_of_def call_history_def denied_result_def)
  qed
qed

text \<open>C21. Refinement of the call lifecycle. Whatever the registry, the policy, the approvals, the tool and
  the clocks answer, the events of a new call are a run of the lifecycle (requested, then denied, or
  authorized and started before anything else), every other stream is untouched, and the outcome tells
  the phase: a result means completed or denied, and each exception its own phases. An exception that is
  no Tool Plane error leaves the call running for ever.\<close>

theorem tool_call_refines_lifecycle:
  assumes "store_ok (sv_store s)" "call_history call s = []"
    and "execute_tool (memory_tool_env clock env) call ctx s = (s', r)"
  shows "\<exists>q. follow call_step PhNew (call_history call s') = Some q \<and>
    (\<forall>i. i \<noteq> ti_tool_call_id call \<longrightarrow> stream_history (sv_store s') i = stream_history (sv_store s) i) \<and>
    (case r of Inr result \<Rightarrow> q = PhCompleted \<or> q = PhDenied \<and> tr_status result = TxDenied
     | Inl e \<Rightarrow> q \<in> error_phases e)"
  by (rule tool_call_record [OF assms])

section \<open>A sample tool plane\<close>

definition object_schema :: "(string, json) dict" where
  "object_schema = [(''type'', JStr ''object'')]"

definition sample_descriptor :: "ToolRiskLevel \<Rightarrow> ToolDescriptor" where
  "sample_descriptor risk = \<lparr>td_tool_id = ''repo.read'', td_version = ''1'', td_display_name = ''Read'',
     td_description = ''Read a file'', td_source = ToolBuiltIn, td_input_schema = object_schema,
     td_output_schema = object_schema, td_risk_level = risk, td_side_effects = [EffNone],
     td_execution_mode = ModeSandbox, td_provider_visible = True, td_idempotent = True,
     td_deterministic = True, td_default_timeout_seconds = 30, td_required_permissions = [],
     td_tags = [], td_descriptor_hash = sample_hash\<rparr>"

definition sample_call :: ToolInvocation where
  "sample_call = \<lparr>ti_tool_call_id = 5, ti_task_run_id = 9, ti_step_id = None, ti_correlation_id = 3,
     ti_tool_id = ''repo.read'', ti_tool_version = ''1'', ti_arguments = [], ti_requested_at = 0,
     ti_requested_by = ''cognitive-controller''\<rparr>"

definition sample_tool :: "ToolRiskLevel \<Rightarrow> tool_reply \<Rightarrow> tool_port" where
  "sample_tool risk reply = \<lparr>to_descriptor = sample_descriptor risk, to_execute = (\<lambda>_ _ _. reply)\<rparr>"

definition sample_context :: ToolExecutionContext where
  "sample_context = \<lparr>tc_workspace = ''w'', tc_timeout_seconds = 120, tc_maximum_stdout_bytes = 1,
     tc_maximum_stderr_bytes = 1, tc_maximum_artifact_bytes = 1\<rparr>"

definition sample_tool_env :: "tool_port \<Rightarrow> tool_payload store tool_env" where
  "sample_tool_env tool = \<lparr>lg_append = store_append (\<lambda>n. n), lg_version = store_get_stream_version,
     lg_now = int, lg_new_id = of_nat, lg_digest = (\<lambda>_. sample_hash),
     te_descriptor_digest = (\<lambda>_. sample_hash), te_argument_digest = (\<lambda>_. sample_hash),
     te_registry = \<lparr>rg_tools = [(tool_key tool, tool)], rg_frozen = True\<rparr>,
     te_policy = \<lparr>pl_roots = [], pl_enabled = [''repo.read''], pl_resolve = (\<lambda>_. [])\<rparr>,
     te_validation = sample_validation, te_approvals = DenyAllApprovals\<rparr>"

definition idle_tools :: "tool_payload store tool_state" where
  "idle_tools = \<lparr>sv_store = [], sv_tick = 0, tx_approvals = []\<rparr>"

lemma memory_sample_env: "memory_tool_env (\<lambda>n. n) (sample_tool_env tool) = sample_tool_env tool"
  by (simp add: memory_tool_env_def sample_tool_env_def)

lemma sample_call_times_out:
  "snd (execute_tool (sample_tool_env (sample_tool ToolR0 ToolTimesOut)) sample_call sample_context idle_tools) =
     Inl ToolTimeout"
  by code_simp

lemma tool_call_refines_lifecycle_witness:
  "follow call_step PhNew (call_history sample_call (fst (execute_tool
     (sample_tool_env (sample_tool ToolR0 ToolTimesOut)) sample_call sample_context idle_tools))) = Some PhTimedOut"
proof -
  let ?run = "execute_tool (sample_tool_env (sample_tool ToolR0 ToolTimesOut)) sample_call sample_context idle_tools"
  have run: "execute_tool (memory_tool_env (\<lambda>n. n) (sample_tool_env (sample_tool ToolR0 ToolTimesOut)))
      sample_call sample_context idle_tools = (fst ?run, Inl ToolTimeout)"
    using sample_call_times_out by (metis memory_sample_env prod.collapse)
  have "store_ok (sv_store idle_tools)" "call_history sample_call idle_tools = []"
    by (simp_all add: idle_tools_def call_history_def stream_history_def stream_events_def)
  from tool_call_refines_lifecycle [OF this run] show ?thesis by auto
qed

lemma registered_tools_are_found_witness:
  "\<exists>r'. tool_register_many (\<lambda>_. sample_hash) empty_registry [sample_tool ToolR0 ToolTimesOut] = Inr r' \<and>
     tool_require r' ''repo.read'' ''1'' = Inr (sample_tool ToolR0 ToolTimesOut)"
proof -
  let ?tool = "sample_tool ToolR0 ToolTimesOut"
  obtain r' where r': "tool_register_many (\<lambda>_. sample_hash) empty_registry [?tool] = Inr r'"
    by (simp add: tool_register_def empty_registry_def dict_add_def sample_tool_def sample_descriptor_def
        computed_hash_def)
  have "registry_ok (\<lambda>_. sample_hash) empty_registry" by (simp add: registry_ok_def empty_registry_def)
  from registered_tools_are_found [OF this r', of ?tool] r' show ?thesis
    by (simp add: sample_tool_def sample_descriptor_def)
qed

lemma denied_call_never_reaches_tool_witness:
  "let env = sample_tool_env (sample_tool ToolR2 ToolTimesOut) in
   execute_with env sample_call sample_context (sample_tool ToolR2 ToolTimesOut) idle_tools =
   execute_with env sample_call sample_context (sample_tool ToolR2 ToolIsCancelled) idle_tools"
proof -
  let ?env = "sample_tool_env (sample_tool ToolR2 ToolTimesOut)"
  have "not_permitted ?env sample_call (to_descriptor (sample_tool ToolR2 ToolIsCancelled))
      (tx_approvals idle_tools)"
    by (simp add: not_permitted_def policy_evaluate_def policy_decision_def sample_tool_env_def sample_call_def
        sample_tool_def sample_descriptor_def never_approves_def provider_existing_def provider_request_def
        denied_approval_def)
  from denied_call_never_reaches_tool [OF this, of sample_context "\<lambda>_ _ _. ToolTimesOut"]
  show ?thesis by (simp add: sample_tool_def Let_def)
qed

end
