(* ===== verification/Model_Calls.thy ===== *)
theory Model_Calls
  imports Tool_Calls
begin

text \<open>
  Model calls: the request and response contracts (\<open>domain/model_requests.py\<close>, \<open>domain/model_calls.py\<close>),
  the provider registry (\<open>providers/registry.py\<close>), bounded retries (\<open>providers/retry.py\<close>), the events of a
  call (\<open>events/provider_event_service.py\<close>) and \<open>ModelExecutionService.execute\<close>
  (\<open>application/services/model_execution.py\<close>).

  The answers of a provider, of the clocks, of the artifact store and of the context validator are
  parameters. References to a context bundle and to a routing decision are passed through unread,
  so their types are parameters too. The regular expression that finds secret-like keys is a parameter.
\<close>

section \<open>Contracts\<close>

datatype ProviderMessageRole = RoleSystem | RoleUser | RoleAssistant | RoleTool

record ProviderMessage =
  pm_role :: ProviderMessageRole
  pm_content :: string
  pm_name :: "string option"
  pm_tool_call_id :: "string option"

definition message_ok :: "ProviderMessage \<Rightarrow> bool" where
  "message_ok m \<longleftrightarrow> opt_non_empty (pm_name m) \<and> opt_non_empty (pm_tool_call_id m) \<and>
     (pm_role m = RoleTool \<longleftrightarrow> pm_tool_call_id m \<noteq> None)"

record ProviderToolDefinition =
  pt_name :: string
  pt_description :: string
  pt_input_schema :: "(string, json) dict"

datatype ResponseFormat = FormatText | FormatJsonObject | FormatJsonSchema

datatype ToolChoiceMode = ChoiceNone | ChoiceAuto | ChoiceRequired | ChoiceSpecific

datatype ModelFinishReason = FinishCompleted | FinishToolCall | FinishLength | FinishContentFilter
  | FinishCancelled | FinishError | FinishUnknown

record ('c, 'r) ModelProviderRequest =
  mq_model_call_id :: uuid
  mq_task_run_id :: uuid
  mq_step_id :: "uuid option"
  mq_correlation_id :: uuid
  mq_requested_model :: string
  mq_messages :: "ProviderMessage list"
  mq_system_instructions :: "string option"
  mq_tools :: "ProviderToolDefinition list"
  mq_tool_choice :: ToolChoiceMode
  mq_selected_tool_name :: "string option"
  mq_response_format :: ResponseFormat
  mq_response_schema :: "(string, json) dict option"
  mq_temperature :: "pyfloat option"
  mq_max_output_tokens :: "int option"
  mq_context_budget :: int
  mq_timeout_seconds :: pyfloat
  mq_context_bundle_reference :: "'c option"
  mq_routing_reference :: "'r option"
  mq_metadata :: "(string, json) dict"

datatype request_fault = BadRequestField | SecretLikeKey | NoMessage | ToolChoiceWithoutTools
  | NoSelectedTool | SelectedToolUndefined | SelectedWithoutSpecific | SchemaMissing
  | SchemaUnexpected | ToolNamesNotUnique

fun secret_keys :: "(string \<Rightarrow> bool) \<Rightarrow> json \<Rightarrow> bool" where
  "secret_keys secret (JObj kvs) = list_ex (\<lambda>(k, v). secret k \<or> secret_keys secret v) kvs"
| "secret_keys secret (JList vs) = list_ex (secret_keys secret) vs"
| "secret_keys secret _ = False"

definition request_error :: "(string \<Rightarrow> bool) \<Rightarrow> ('c, 'r) ModelProviderRequest \<Rightarrow> request_fault option" where
  "request_error secret q = (let names = map pt_name (mq_tools q) in first_error
     [(\<not> non_empty_str (mq_requested_model q) \<or> \<not> opt_non_empty (mq_selected_tool_name q) \<or>
       (case mq_temperature q of None \<Rightarrow> False | Some x \<Rightarrow> x < 0 \<or> 2 < x) \<or>
       (case mq_max_output_tokens q of None \<Rightarrow> False | Some n \<Rightarrow> n \<le> 0) \<or>
       mq_context_budget q \<le> 0 \<or> 131072 < mq_context_budget q \<or> mq_timeout_seconds q \<le> 0 \<or>
       \<not> list_all message_ok (mq_messages q) \<or>
       \<not> list_all (\<lambda>t. non_empty_str (pt_name t) \<and> non_empty_str (pt_description t)) (mq_tools q), BadRequestField),
      (secret_keys secret (JObj (mq_metadata q)), SecretLikeKey),
      (mq_messages q = [] \<and> (case mq_system_instructions q of None \<Rightarrow> True | Some s \<Rightarrow> \<not> non_empty_str s), NoMessage),
      (mq_tool_choice q \<in> {ChoiceRequired, ChoiceSpecific} \<and> mq_tools q = [], ToolChoiceWithoutTools),
      (mq_tool_choice q = ChoiceSpecific \<and> mq_selected_tool_name q = None, NoSelectedTool),
      (mq_tool_choice q = ChoiceSpecific \<and>
        (case mq_selected_tool_name q of None \<Rightarrow> False | Some n \<Rightarrow> n \<notin> set names), SelectedToolUndefined),
      (mq_tool_choice q \<noteq> ChoiceSpecific \<and> mq_selected_tool_name q \<noteq> None, SelectedWithoutSpecific),
      (mq_response_format q = FormatJsonSchema \<and> mq_response_schema q = None, SchemaMissing),
      (mq_response_format q \<noteq> FormatJsonSchema \<and> mq_response_schema q \<noteq> None, SchemaUnexpected),
      (\<not> distinct names, ToolNamesNotUnique)])"

record NormalizedToolCall =
  nt_tool_call_id :: string
  nt_name :: string
  nt_arguments :: "(string, json) dict"

record ModelProviderResponse =
  mp_model_call_id :: uuid
  mp_provider_id :: string
  mp_requested_model :: string
  mp_resolved_model :: string
  mp_content :: "string option"
  mp_structured_output :: "json option"
  mp_tool_calls :: "NormalizedToolCall list"
  mp_finish_reason :: ModelFinishReason
  mp_usage :: "TokenUsage option"
  mp_latency_ms :: pyfloat
  mp_provider_request_id :: "string option"
  mp_warnings :: "string list"

record ModelCapabilities =
  mc_model_id :: string
  mc_provider_id :: string
  mc_supports_streaming :: bool
  mc_supports_tool_calls :: bool
  mc_supports_parallel_tool_calls :: bool
  mc_supports_structured_output :: bool
  mc_supports_system_messages :: bool
  mc_supports_seed :: bool
  mc_maximum_context_tokens :: "int option"
  mc_maximum_output_tokens :: "int option"
  mc_supported_input_modalities :: "string list"
  mc_supported_output_modalities :: "string list"

section \<open>Provider errors and retries\<close>

datatype provider_error_kind = ErrConfiguration | ErrAuthentication | ErrAuthorization | ErrUnavailable
  | ErrConnection | ErrTimeout | ErrRateLimit | ErrInvalidRequest | ErrInvalidResponse
  | ErrUnsupportedCapability | ErrContentPolicy | ErrContextValidation | ErrCancelled | ErrProcess
  | ErrBudgetExceeded | ErrPersistence | ErrModelUnavailable | ErrOutputLimit | ErrMutationDetected

record ProviderError =
  px_kind :: provider_error_kind
  px_provider_id :: string
  px_error_code :: string
  px_message :: string
  px_retryable :: bool
  px_attempt :: "int option"
  px_provider_request_id :: "string option"

fun default_retryable :: "provider_error_kind \<Rightarrow> bool" where
  "default_retryable ErrUnavailable = True"
| "default_retryable ErrConnection = True"
| "default_retryable ErrTimeout = True"
| "default_retryable ErrRateLimit = True"
| "default_retryable _ = False"

definition with_attempt :: "ProviderError \<Rightarrow> int \<Rightarrow> ProviderError" where
  "with_attempt e n = e\<lparr>px_attempt := Some n\<rparr>"

definition provider_error :: "provider_error_kind \<Rightarrow> string \<Rightarrow> string \<Rightarrow> string \<Rightarrow> int option \<Rightarrow> ProviderError" where
  "provider_error kind provider code message n = \<lparr>px_kind = kind, px_provider_id = provider,
     px_error_code = code, px_message = message, px_retryable = default_retryable kind,
     px_attempt = n, px_provider_request_id = None\<rparr>"

record RetryPolicy =
  ry_maximum_attempts :: int
  ry_initial_delay_seconds :: pyfloat
  ry_maximum_delay_seconds :: pyfloat
  ry_backoff_multiplier :: pyfloat
  ry_jitter_ratio :: pyfloat
  ry_retryable_kinds :: "provider_error_kind list"

definition valid_retry_policy :: "RetryPolicy \<Rightarrow> bool" where
  "valid_retry_policy p \<longleftrightarrow> 1 \<le> ry_maximum_attempts p \<and> ry_maximum_attempts p \<le> 10 \<and>
     0 \<le> ry_initial_delay_seconds p \<and> 0 \<le> ry_maximum_delay_seconds p \<and>
     1 \<le> ry_backoff_multiplier p \<and> 0 \<le> ry_jitter_ratio p \<and> ry_jitter_ratio p \<le> 1"

definition is_retryable :: "RetryPolicy \<Rightarrow> ProviderError \<Rightarrow> bool" where
  "is_retryable p e \<longleftrightarrow> px_retryable e \<and> px_kind e \<in> set (ry_retryable_kinds p)"

definition delay_for_attempt :: "RetryPolicy \<Rightarrow> nat \<Rightarrow> pyfloat \<Rightarrow> pyfloat" where
  "delay_for_attempt p failed_attempt random_value =
     (let base = min (ry_maximum_delay_seconds p)
            (ry_initial_delay_seconds p * ry_backoff_multiplier p ^ (failed_attempt - 1));
          jitter = base * ry_jitter_ratio p * (2 * random_value - 1)
      in max 0 (min (ry_maximum_delay_seconds p) (base + jitter)))"

section \<open>The provider registry\<close>

text \<open>What an execution may raise: a provider error, a cancellation, an invalid record, anything else.\<close>

datatype model_record_fault = BadCallField | CallFinishedBeforeStarted

datatype model_error = MProvider ProviderError | MCancelled | MRecord model_record_fault | MOther string

datatype provider_reply = ProviderReturns ModelProviderResponse | ProviderRaises ProviderError
  | ProviderTimesOut | ProviderIsCancelled | ProviderRaisesOther string

record ('c, 'r) provider_port =
  po_provider_id :: string
  po_enabled :: bool
  po_capabilities :: "nat \<Rightarrow> string \<Rightarrow> model_error + ModelCapabilities"
  po_complete :: "nat \<Rightarrow> ('c, 'r) ModelProviderRequest \<Rightarrow> provider_reply"

type_synonym ('c, 'r) provider_registry = "(string, ('c, 'r) provider_port) dict"

definition configuration_error :: "string \<Rightarrow> string \<Rightarrow> string \<Rightarrow> ProviderError" where
  "configuration_error provider code message = provider_error ErrConfiguration provider code message None"

definition provider_register ::
  "('c, 'r) provider_registry \<Rightarrow> ('c, 'r) provider_port \<Rightarrow> ProviderError + ('c, 'r) provider_registry" where
  "provider_register r p =
     (if \<not> po_enabled p
      then Inl (configuration_error (po_provider_id p) ''disabled_provider''
        ''disabled provider cannot be registered for selection'')
      else dict_add (configuration_error (po_provider_id p) ''duplicate_provider''
        ''provider ID is already registered'') r (po_provider_id p) p)"

definition provider_require ::
  "('c, 'r) provider_registry \<Rightarrow> string \<Rightarrow> ProviderError + ('c, 'r) provider_port" where
  "provider_require r i = (case dict_get r i of None \<Rightarrow>
       Inl (configuration_error i ''unknown_provider'' ''provider is not registered'')
     | Some p \<Rightarrow> Inr p)"

definition list_provider_ids :: "('c, 'r) provider_registry \<Rightarrow> string list" where
  "list_provider_ids r = sort (map fst r)"

definition select_provider ::
  "('c, 'r) provider_registry \<Rightarrow> string option \<Rightarrow> string \<Rightarrow> ProviderError + ('c, 'r) provider_port" where
  "select_provider r provider_id default_id =
     provider_require r (if str_truthy provider_id then the provider_id else default_id)"

interpretation providers: keyed_registry provider_register dict_get po_provider_id
  by unfold_locales
    (auto simp: provider_register_def fun_eq_iff dest: dict_add_get dict_add_fresh split: if_splits)

end
