(* ===== verification/Model_Execution.thy ===== *)
theory Model_Execution
  imports Model_Calls
begin

text \<open>
  The execution of a model call: capability checks, the events of the call, bounded retries and the
  result (\<open>application/services/model_execution.py\<close>, \<open>events/provider_event_service.py\<close>,
  \<open>providers/retry.py\<close>).
\<close>

section \<open>Events of a model call\<close>

record ModelCallRequestRecord =
  mr_model_call_id :: uuid
  mr_task_run_id :: uuid
  mr_step_id :: "uuid option"
  mr_provider :: string
  mr_requested_model :: string
  mr_input_artifacts :: "ArtifactRef list"
  mr_temperature :: "pyfloat option"
  mr_max_output_tokens :: "int option"
  mr_context_budget :: int
  mr_timeout_seconds :: pyfloat
  mr_tool_choice :: ToolChoiceMode
  mr_requested_at :: timestamp

record ModelCallResultRecord =
  mz_model_call_id :: uuid
  mz_resolved_model :: string
  mz_status :: CallStatus
  mz_started_at :: timestamp
  mz_finished_at :: timestamp
  mz_content_artifact :: "ArtifactRef option"
  mz_usage :: "TokenUsage option"
  mz_finish_reason :: ModelFinishReason
  mz_latency_ms :: pyfloat
  mz_warnings :: "string list"

record call_failure =
  cf_code :: string
  cf_message :: string
  cf_error_type :: provider_error_kind
  cf_retryable :: bool
  cf_attempt :: "int option"
  cf_provider_request_id :: "string option"

datatype model_payload =
    MCRequested ModelCallRequestRecord
  | MCStarted uuid timestamp
  | MCCompleted ModelCallResultRecord
  | MCFailed uuid timestamp call_failure
  | MCTimedOut uuid timestamp pyfloat
  | MCRetried uuid int int

fun model_event_type :: "model_payload \<Rightarrow> string" where
  "model_event_type (MCRequested _) = ''model_call.requested''"
| "model_event_type (MCStarted _ _) = ''model_call.started''"
| "model_event_type (MCCompleted _) = ''model_call.completed''"
| "model_event_type (MCFailed _ _ _) = ''model_call.failed''"
| "model_event_type (MCTimedOut _ _ _) = ''model_call.timed_out''"
| "model_event_type (MCRetried _ _ _) = ''model_call.retried''"

definition model_source :: "model_payload log_source" where
  "model_source = \<lparr>so_type = model_event_type, so_stream_type = StreamModelCall,
     so_actor = \<lparr>ar_actor_type = ActorSystem, ar_actor_id = ''provider-execution'', ar_display_name = None\<rparr>,
     so_component = ''provider-execution''\<rparr>"

text \<open>
  The environment: optional event and artifact services, an optional validator of context bundles
  (which may raise: None), clocks, the random source and the sleeper (True: the wait was cancelled).
\<close>

record ('s, 'c, 'r) model_env = "('s, model_payload) log_env" +
  me_providers :: "('c, 'r) provider_registry"
  me_default_provider_id :: string
  me_retry_policy :: RetryPolicy
  me_events :: bool
  me_store_request :: "(nat \<Rightarrow> ('c, 'r) ModelProviderRequest \<Rightarrow> (ArtifactRef option) option) option"
  me_store_response :: "nat \<Rightarrow> ModelProviderResponse \<Rightarrow> (ArtifactRef option) option"
  me_validate_context :: "(nat \<Rightarrow> 'c \<Rightarrow> bool option) option"
  me_monotonic :: "nat \<Rightarrow> pyfloat"
  me_random :: "nat \<Rightarrow> pyfloat"
  me_sleep_cancelled :: "nat \<Rightarrow> pyfloat \<Rightarrow> bool"

type_synonym ('s, 'a) model_comp = "('s log_state, model_error, 'a) comp"

definition event_persistence :: model_error where
  "event_persistence = MProvider (provider_error ErrPersistence ''event-store''
     ''provider_event_persistence'' ''provider lifecycle event persistence failed'' None)"

definition artifact_persistence :: model_error where
  "artifact_persistence = MProvider (provider_error ErrPersistence ''artifact-store''
     ''provider_artifact_persistence'' ''provider artifact persistence failed'' None)"

definition model_emit ::
  "('s, 'c, 'r) model_env \<Rightarrow> ('c, 'r) ModelProviderRequest \<Rightarrow> model_payload \<Rightarrow> ('s, uuid option) model_comp" where
  "model_emit env q p = (if \<not> me_events env then ret None
     else bnd (log_emit env model_source event_persistence (mq_model_call_id q) (mq_correlation_id q) None p)
       (\<lambda>i. ret (Some i)))"

definition request_call_record ::
  "('c, 'r) ModelProviderRequest \<Rightarrow> string \<Rightarrow> ArtifactRef option \<Rightarrow> timestamp \<Rightarrow>
   model_record_fault + ModelCallRequestRecord" where
  "request_call_record q provider artifact now =
     (if \<not> non_empty_str provider \<or> \<not> non_empty_str (mq_requested_model q) then Inl BadCallField
      else Inr \<lparr>mr_model_call_id = mq_model_call_id q, mr_task_run_id = mq_task_run_id q,
        mr_step_id = mq_step_id q, mr_provider = py_strip provider,
        mr_requested_model = py_strip (mq_requested_model q),
        mr_input_artifacts = case_option [] (\<lambda>a. [a]) artifact, mr_temperature = mq_temperature q,
        mr_max_output_tokens = mq_max_output_tokens q, mr_context_budget = mq_context_budget q,
        mr_timeout_seconds = mq_timeout_seconds q, mr_tool_choice = mq_tool_choice q, mr_requested_at = now\<rparr>)"

definition model_requested ::
  "('s, 'c, 'r) model_env \<Rightarrow> ('c, 'r) ModelProviderRequest \<Rightarrow> string \<Rightarrow> ArtifactRef option \<Rightarrow>
   ('s, uuid option) model_comp" where
  "model_requested env q provider artifact = (if \<not> me_events env then ret None
     else bnd (ask_env (lg_now env)) (\<lambda>now.
       bnd (lift_res MRecord (request_call_record q provider artifact now)) (\<lambda>r.
       model_emit env q (MCRequested r))))"

definition model_started ::
  "('s, 'c, 'r) model_env \<Rightarrow> ('c, 'r) ModelProviderRequest \<Rightarrow> ('s, uuid option) model_comp" where
  "model_started env q = bnd (ask_env (lg_now env)) (\<lambda>now. model_emit env q (MCStarted (mq_model_call_id q) now))"

definition model_retried ::
  "('s, 'c, 'r) model_env \<Rightarrow> ('c, 'r) ModelProviderRequest \<Rightarrow> nat \<Rightarrow> ('s, uuid option) model_comp" where
  "model_retried env q n = model_emit env q (MCRetried (mq_model_call_id q) (int n) (int n + 1))"

definition failure_record :: "ProviderError \<Rightarrow> model_record_fault + call_failure" where
  "failure_record e = (if \<not> non_empty_str (px_error_code e) \<or> \<not> non_empty_str (px_message e) then Inl BadCallField
     else Inr \<lparr>cf_code = py_strip (px_error_code e), cf_message = py_strip (px_message e),
       cf_error_type = px_kind e, cf_retryable = px_retryable e, cf_attempt = px_attempt e,
       cf_provider_request_id = px_provider_request_id e\<rparr>)"

definition model_failed ::
  "('s, 'c, 'r) model_env \<Rightarrow> ('c, 'r) ModelProviderRequest \<Rightarrow> ProviderError \<Rightarrow> ('s, uuid option) model_comp" where
  "model_failed env q e = bnd (lift_res MRecord (failure_record e)) (\<lambda>f.
     bnd (ask_env (lg_now env)) (\<lambda>now. model_emit env q (MCFailed (mq_model_call_id q) now f)))"

definition model_timed_out ::
  "('s, 'c, 'r) model_env \<Rightarrow> ('c, 'r) ModelProviderRequest \<Rightarrow> ('s, uuid option) model_comp" where
  "model_timed_out env q = bnd (ask_env (lg_now env)) (\<lambda>now.
     model_emit env q (MCTimedOut (mq_model_call_id q) now (mq_timeout_seconds q)))"

text \<open>The record of a completed call: the finish may not precede the start.\<close>

definition result_call_record ::
  "('c, 'r) ModelProviderRequest \<Rightarrow> ModelProviderResponse \<Rightarrow> timestamp \<Rightarrow> ArtifactRef option \<Rightarrow> timestamp \<Rightarrow>
   model_record_fault + ModelCallResultRecord" where
  "result_call_record q r started artifact now =
     (if now < started then Inl CallFinishedBeforeStarted
      else Inr \<lparr>mz_model_call_id = mq_model_call_id q, mz_resolved_model = mp_resolved_model r,
        mz_status = CallCompleted, mz_started_at = started, mz_finished_at = now,
        mz_content_artifact = artifact, mz_usage = mp_usage r, mz_finish_reason = mp_finish_reason r,
        mz_latency_ms = mp_latency_ms r, mz_warnings = mp_warnings r\<rparr>)"

definition model_completed ::
  "('s, 'c, 'r) model_env \<Rightarrow> ('c, 'r) ModelProviderRequest \<Rightarrow> ModelProviderResponse \<Rightarrow> timestamp \<Rightarrow>
   ArtifactRef option \<Rightarrow> ('s, uuid option) model_comp" where
  "model_completed env q r started artifact = (if \<not> me_events env then ret None
     else bnd (ask_env (lg_now env)) (\<lambda>now.
       bnd (lift_res MRecord (result_call_record q r started artifact now)) (\<lambda>z.
       model_emit env q (MCCompleted z))))"

section \<open>Checks before a call\<close>

definition unsupported_capability :: "('c, 'r) ModelProviderRequest \<Rightarrow> ModelCapabilities \<Rightarrow> string option" where
  "unsupported_capability q c =
     (if mq_tools q \<noteq> [] \<and> \<not> mc_supports_tool_calls c then Some ''tool calls''
      else if mq_response_format q \<noteq> FormatText \<and> \<not> mc_supports_structured_output c then Some ''structured output''
      else if (case mc_maximum_context_tokens c of None \<Rightarrow> False | Some n \<Rightarrow> n < mq_context_budget q)
      then Some ''context budget''
      else case (mq_max_output_tokens q, mc_maximum_output_tokens c) of
        (Some n, Some m) \<Rightarrow> if m < n then Some ''output token limit'' else None
      | _ \<Rightarrow> None)"

definition validate_capabilities :: "('c, 'r) ModelProviderRequest \<Rightarrow> ModelCapabilities \<Rightarrow> model_error + unit" where
  "validate_capabilities q c = (case unsupported_capability q c of None \<Rightarrow> Inr ()
     | Some u \<Rightarrow> Inl (MProvider (provider_error ErrUnsupportedCapability (mc_provider_id c)
         ''provider_unsupported_capability'' (''provider does not support requested '' @ u) None)))"

definition context_error :: "string \<Rightarrow> model_error" where
  "context_error message = MProvider (provider_error ErrContextValidation ''context-builder''
     ''provider_context_validation'' message None)"

definition validate_context_reference ::
  "('s, 'c, 'r) model_env \<Rightarrow> ('c, 'r) ModelProviderRequest \<Rightarrow> ('s, unit) model_comp" where
  "validate_context_reference env q = (case mq_context_bundle_reference q of None \<Rightarrow> ret ()
     | Some reference \<Rightarrow> (case me_validate_context env of
         None \<Rightarrow> throw (context_error ''Context Bundle validation is unavailable'')
       | Some validator \<Rightarrow> bnd (ask_env (\<lambda>t. validator t reference)) (\<lambda>answer. case answer of
           None \<Rightarrow> throw (context_error ''Context Bundle validation failed'')
         | Some ok \<Rightarrow> if ok then ret () else throw (context_error ''Context Bundle is invalid or stale''))))"

section \<open>Attempts and retries\<close>

definition timeout_error :: "string \<Rightarrow> nat \<Rightarrow> model_error" where
  "timeout_error provider n = MProvider (provider_error ErrTimeout provider ''provider_timeout''
     ''provider request exceeded its timeout'' (Some (int n)))"

definition cancelled_error :: "string \<Rightarrow> string \<Rightarrow> nat \<Rightarrow> model_error" where
  "cancelled_error provider message n = MProvider (provider_error ErrCancelled provider
     ''provider_cancelled'' message (Some (int n)))"

definition run_attempt ::
  "('s, 'c, 'r) model_env \<Rightarrow> ('c, 'r) ModelProviderRequest \<Rightarrow> ('c, 'r) provider_port \<Rightarrow> nat \<Rightarrow>
   ('s, ModelProviderResponse) model_comp" where
  "run_attempt env q provider n =
     andthen (if me_events env then model_started env q else ret None)
     (bnd (ask_env (\<lambda>t. po_complete provider t q)) (\<lambda>reply. case reply of
        ProviderReturns r \<Rightarrow> ret r
      | ProviderRaises e \<Rightarrow> throw (MProvider e)
      | ProviderTimesOut \<Rightarrow> throw (timeout_error (po_provider_id provider) n)
      | ProviderIsCancelled \<Rightarrow> throw MCancelled
      | ProviderRaisesOther m \<Rightarrow> throw (MOther m)))"

text \<open>\<open>execute_with_retry\<close>: attempt \<open>n\<close> with \<open>left\<close> more attempts allowed after it.\<close>

primrec retry_loop ::
  "('s, 'c, 'r) model_env \<Rightarrow> ('c, 'r) ModelProviderRequest \<Rightarrow> ('c, 'r) provider_port \<Rightarrow> nat \<Rightarrow> nat \<Rightarrow>
   ('s, ModelProviderResponse) model_comp" where
  "retry_loop env q provider 0 n = handle (run_attempt env q provider n) (\<lambda>e. case e of
     MCancelled \<Rightarrow> throw (cancelled_error (po_provider_id provider) ''provider execution was cancelled'' n)
   | MProvider x \<Rightarrow> throw (MProvider (with_attempt x (int n)))
   | _ \<Rightarrow> throw e)"
| "retry_loop env q provider (Suc left) n = handle (run_attempt env q provider n) (\<lambda>e. case e of
     MCancelled \<Rightarrow> throw (cancelled_error (po_provider_id provider) ''provider execution was cancelled'' n)
   | MProvider x \<Rightarrow>
       if \<not> is_retryable (me_retry_policy env) (with_attempt x (int n))
       then throw (MProvider (with_attempt x (int n)))
       else andthen (model_retried env q n)
         (bnd (ask_env (\<lambda>t. me_sleep_cancelled env t
            (delay_for_attempt (me_retry_policy env) n (me_random env t)))) (\<lambda>cancelled.
          if cancelled
          then throw (cancelled_error (po_provider_id provider) ''provider retry wait was cancelled'' n)
          else retry_loop env q provider left (Suc n)))
   | _ \<Rightarrow> throw e)"

definition report_model_failure ::
  "('s, 'c, 'r) model_env \<Rightarrow> ('c, 'r) ModelProviderRequest \<Rightarrow> model_error \<Rightarrow> ('s, ModelProviderResponse) model_comp" where
  "report_model_failure env q e = (case e of
     MProvider x \<Rightarrow>
       if px_kind x = ErrTimeout
       then andthen (if me_events env then model_timed_out env q else ret None) (throw e)
       else andthen (if me_events env then model_failed env q x else ret None) (throw e)
   | _ \<Rightarrow> throw e)"

definition store_request_artifact ::
  "('s, 'c, 'r) model_env \<Rightarrow> ('c, 'r) ModelProviderRequest \<Rightarrow> ('s, ArtifactRef option) model_comp" where
  "store_request_artifact env q = (case me_store_request env of None \<Rightarrow> ret None
     | Some put \<Rightarrow> bnd (ask_env (\<lambda>t. put t q)) (\<lambda>answer.
         case answer of None \<Rightarrow> throw artifact_persistence | Some a \<Rightarrow> ret a))"

definition store_response_artifact ::
  "('s, 'c, 'r) model_env \<Rightarrow> ModelProviderResponse \<Rightarrow> ('s, ArtifactRef option) model_comp" where
  "store_response_artifact env r = (case me_store_request env of None \<Rightarrow> ret None
     | Some _ \<Rightarrow> bnd (ask_env (\<lambda>t. me_store_response env t r)) (\<lambda>answer.
         case answer of None \<Rightarrow> throw artifact_persistence | Some a \<Rightarrow> ret a))"

text \<open>The call after its request is recorded.\<close>

definition perform_call ::
  "('s, 'c, 'r) model_env \<Rightarrow> ('c, 'r) ModelProviderRequest \<Rightarrow> ('c, 'r) provider_port \<Rightarrow>
   ('s, ModelProviderResponse) model_comp" where
  "perform_call env q provider =
     bnd (ask_env (\<lambda>t. (lg_now env t, me_monotonic env t))) (\<lambda>(started_at, started).
     bnd (handle (retry_loop env q provider (nat (ry_maximum_attempts (me_retry_policy env)) - 1) 1)
       (report_model_failure env q)) (\<lambda>response.
     bnd (ask_env (me_monotonic env)) (\<lambda>finished. let measured = response\<lparr>mp_latency_ms := max 0 ((finished - started) * 1000)\<rparr> in
     bnd (store_response_artifact env measured) (\<lambda>artifact.
     andthen (model_completed env q measured started_at artifact) (ret measured)))))"

definition execute_model ::
  "('s, 'c, 'r) model_env \<Rightarrow> ('c, 'r) ModelProviderRequest \<Rightarrow> string option \<Rightarrow>
   ('s, ModelProviderResponse) model_comp" where
  "execute_model env q provider_id =
     andthen (validate_context_reference env q)
     (bnd (lift_res MProvider (select_provider (me_providers env) provider_id (me_default_provider_id env))) (\<lambda>provider.
     bnd (ask_env (\<lambda>t. po_capabilities provider t (mq_requested_model q))) (\<lambda>answer.
     bnd (lift_res (\<lambda>e. e) answer) (\<lambda>capabilities.
     bnd (lift_res (\<lambda>e. e) (validate_capabilities q capabilities)) (\<lambda>_.
     bnd (store_request_artifact env q) (\<lambda>artifact.
     andthen (model_requested env q (po_provider_id provider) artifact)
     (perform_call env q provider)))))))"

end
