(* ===== verification/Model_Props.thy ===== *)
theory Model_Props
  imports Model_Execution
begin

text \<open>
  Properties of model calls: the waits between attempts are bounded, and the stream of a call is a run
  of the call lifecycle in which the attempts are counted, at most as many as the policy allows.
\<close>

section \<open>Waits between attempts\<close>

lemma triple_case:
  "triple P m Q E \<Longrightarrow> P s \<Longrightarrow> case m s of (s', Inr x) \<Rightarrow> Q x s' | (s', Inl e) \<Rightarrow> E e s'"
  by (simp add: triple_def)

lemma clamp_bounds:
  fixes b m x d :: pyfloat
  assumes "0 \<le> b" "b \<le> m" "- d \<le> x" "x \<le> d" "d \<le> b"
  shows "0 \<le> max 0 (min m (b + x)) \<and> max 0 (min m (b + x)) \<le> m \<and>
    b - d \<le> max 0 (min m (b + x)) \<and> max 0 (min m (b + x)) \<le> b + d"
  using assms unfolding max_def min_def by auto

text \<open>The wait before a retry is never negative and never above the maximum delay; it lies within the
  jitter ratio of the exponential backoff, itself capped by the maximum delay; and without jitter the
  waits do not decrease from one attempt to the next.\<close>

theorem retry_delay_bounds:
  fixes r :: pyfloat
  assumes "valid_retry_policy p" "0 \<le> r" "r \<le> 1"
  shows "let base = min (ry_maximum_delay_seconds p)
            (ry_initial_delay_seconds p * ry_backoff_multiplier p ^ (n - 1)) in
      0 \<le> delay_for_attempt p n r \<and> delay_for_attempt p n r \<le> ry_maximum_delay_seconds p \<and>
      base * (1 - ry_jitter_ratio p) \<le> delay_for_attempt p n r \<and>
      delay_for_attempt p n r \<le> base * (1 + ry_jitter_ratio p) \<and>
      delay_for_attempt p n (1/2) \<le> delay_for_attempt p (Suc n) (1/2)"
proof -
  let ?m = "ry_maximum_delay_seconds p" and ?j = "ry_jitter_ratio p"
  let ?grown = "\<lambda>n. ry_initial_delay_seconds p * ry_backoff_multiplier p ^ (n - 1)"
  let ?base = "\<lambda>n. min ?m (?grown n)"
  have v: "0 \<le> ?m" "0 \<le> ?j" "?j \<le> 1" "0 \<le> ry_initial_delay_seconds p" "1 \<le> ry_backoff_multiplier p"
    using assms(1) by (simp_all add: valid_retry_policy_def)
  have base: "0 \<le> ?base n" "?base n \<le> ?m" for n using v by (simp_all add: zero_le_mult_iff)
  have "- 1 \<le> 2 * r - 1" "2 * r - 1 \<le> 1" using assms(2,3) by simp_all
  then have jitter: "- (?base n * ?j) \<le> ?base n * ?j * (2 * r - 1)" "?base n * ?j * (2 * r - 1) \<le> ?base n * ?j"
    using mult_left_mono [of "- 1" "2 * r - 1" "?base n * ?j"] mult_left_mono [of "2 * r - 1" 1 "?base n * ?j"]
      base(1) [of n] v(2) by simp_all
  have "?base n * ?j \<le> ?base n" using mult_left_mono [OF v(3) base(1) [of n]] by simp
  from clamp_bounds [OF base(1) base(2) jitter this]
  have "0 \<le> delay_for_attempt p n r" "delay_for_attempt p n r \<le> ?m"
    "?base n * (1 - ?j) \<le> delay_for_attempt p n r" "delay_for_attempt p n r \<le> ?base n * (1 + ?j)"
    unfolding delay_for_attempt_def Let_def by (simp_all add: algebra_simps)
  moreover have "?grown n \<le> ?grown (Suc n)"
  proof (cases n)
    case (Suc k)
    have "?grown n * 1 \<le> ?grown n * ry_backoff_multiplier p"
      using v by (intro mult_left_mono) (simp_all add: zero_le_mult_iff)
    then show ?thesis by (simp add: Suc ac_simps)
  qed simp
  then have "delay_for_attempt p n (1/2) \<le> delay_for_attempt p (Suc n) (1/2)"
    by (auto simp: delay_for_attempt_def Let_def max_def min_def)
  ultimately show ?thesis by (simp only: Let_def simp_thms)
qed

definition default_retry_policy :: RetryPolicy where
  "default_retry_policy = \<lparr>ry_maximum_attempts = 3, ry_initial_delay_seconds = 1,
     ry_maximum_delay_seconds = 10, ry_backoff_multiplier = 2, ry_jitter_ratio = 1/5,
     ry_retryable_kinds = [ErrTimeout, ErrConnection, ErrRateLimit, ErrUnavailable]\<rparr>"

lemma default_retry_policy_valid: "valid_retry_policy default_retry_policy"
  by (simp add: valid_retry_policy_def default_retry_policy_def)

lemma retry_delay_bounds_witness: "delay_for_attempt default_retry_policy 3 1 \<le> 24/5"
  using retry_delay_bounds [OF default_retry_policy_valid, of 1 3]
  by (simp add: Let_def default_retry_policy_def)

section \<open>The lifecycle of a model call\<close>

text \<open>The number counts the attempts started.\<close>

datatype model_status = MsNew | MsRequested | MsRunning nat | MsWaiting nat | MsCompleted nat
  | MsFailed nat | MsTimedOut nat

fun model_step :: "model_status \<Rightarrow> model_payload \<Rightarrow> model_status option" where
  "model_step MsNew (MCRequested _) = Some MsRequested"
| "model_step MsRequested (MCStarted _ _) = Some (MsRunning 1)"
| "model_step MsRequested (MCFailed _ _ _) = Some (MsFailed 0)"
| "model_step (MsRunning k) (MCRetried _ a b) = (if a = int k \<and> b = a + 1 then Some (MsWaiting k) else None)"
| "model_step (MsRunning k) (MCCompleted _) = Some (MsCompleted k)"
| "model_step (MsRunning k) (MCFailed _ _ _) = Some (MsFailed k)"
| "model_step (MsRunning k) (MCTimedOut _ _ _) = Some (MsTimedOut k)"
| "model_step (MsWaiting k) (MCStarted _ _) = Some (MsRunning (Suc k))"
| "model_step (MsWaiting k) (MCFailed _ _ _) = Some (MsFailed k)"
| "model_step _ _ = None"

fun attempts :: "model_status \<Rightarrow> nat" where
  "attempts (MsRunning k) = k"
| "attempts (MsWaiting k) = k"
| "attempts (MsCompleted k) = k"
| "attempts (MsFailed k) = k"
| "attempts (MsTimedOut k) = k"
| "attempts _ = 0"

definition is_start :: "model_payload \<Rightarrow> bool" where
  "is_start p \<longleftrightarrow> (case p of MCStarted _ _ \<Rightarrow> True | _ \<Rightarrow> False)"

lemma model_step_attempts:
  "model_step q p = Some q' \<Longrightarrow> attempts q' = attempts q + (if is_start p then 1 else 0)"
  by (induction q p rule: model_step.induct) (auto simp: is_start_def split: if_splits)

text \<open>The attempts of a status are the starts on the stream.\<close>

lemma follow_attempts:
  "follow model_step q ps = Some q' \<Longrightarrow> attempts q' = attempts q + length (filter is_start ps)"
  by (induction ps arbitrary: q) (auto split: option.splits dest: model_step_attempts)

text \<open>The statuses an exception may leave, with at most \<open>m\<close> attempts.\<close>

fun error_status :: "nat \<Rightarrow> model_error \<Rightarrow> model_status \<Rightarrow> bool" where
  "error_status m (MProvider x) q \<longleftrightarrow> attempts q \<le> m \<and>
     (px_kind x = ErrPersistence \<or> q = MsNew \<or> (\<exists>k. q = (if px_kind x = ErrTimeout then MsTimedOut k else MsFailed k)))"
| "error_status m MCancelled q \<longleftrightarrow> q = MsNew"
| "error_status m (MRecord _) q \<longleftrightarrow> attempts q \<le> m \<and> (\<forall>k. q \<noteq> MsCompleted k \<and> q \<noteq> MsFailed k \<and> q \<noteq> MsTimedOut k)"
| "error_status m (MOther _) q \<longleftrightarrow> q = MsNew \<or> (\<exists>k \<le> m. q = MsRunning k)"

section \<open>Refinement of the lifecycle\<close>

locale model_runs = versioned_log append_events history wf_store version_of
  for append_events :: "'s \<Rightarrow> model_payload EventEnvelope list \<Rightarrow> int \<Rightarrow> 's \<times> (store_error + AppendResult)"
    and history :: "'s \<Rightarrow> uuid \<Rightarrow> model_payload EventEnvelope list"
    and wf_store :: "'s \<Rightarrow> bool" and version_of :: "'s \<Rightarrow> uuid \<Rightarrow> int option" +
  fixes env :: "('s, 'c, 'r) model_env"
  assumes env_append: "lg_append env = append_events" and env_version: "lg_version env = version_of"
    and env_events: "me_events env"
begin

definition in_status ::
  "('c, 'r) ModelProviderRequest \<Rightarrow> (uuid \<Rightarrow> model_payload EventEnvelope list) \<Rightarrow> model_status \<Rightarrow> 's log_state \<Rightarrow> bool" where
  "in_status q others st s \<longleftrightarrow> in_log model_step MsNew (mq_model_call_id q) others st s"

lemma ask_status: "triple (in_status q others st) (ask_env f) (\<lambda>_. in_status q others st) E"
  unfolding in_status_def by (rule ask_env_in)

lemma emit_status:
  assumes "model_step st p = Some st'"
  shows "triple (in_status q others st) (model_emit env q p) (\<lambda>_. in_status q others st')
    (\<lambda>e s. e = event_persistence \<and> in_status q others st s)"
proof -
  note step = log_emit_in [where step = model_step and q = st and p = p and q' = st', OF env_append env_version assms]
  show ?thesis
    unfolding in_status_def model_emit_def
    by (simp add: env_events, rule triple_bnd [OF step], rule triple_ret)
qed

text \<open>What an exception of a call leaves behind.\<close>

definition raised_status ::
  "('c, 'r) ModelProviderRequest \<Rightarrow> (uuid \<Rightarrow> model_payload EventEnvelope list) \<Rightarrow> nat \<Rightarrow> model_error \<Rightarrow> 's log_state \<Rightarrow> bool" where
  "raised_status q others m e s \<longleftrightarrow> (\<exists>st. error_status m e st \<and> in_status q others st s)"

lemma persistence_status: "attempts st \<le> m \<Longrightarrow> error_status m event_persistence st"
  "attempts st \<le> m \<Longrightarrow> error_status m artifact_persistence st"
  by (simp_all add: event_persistence_def artifact_persistence_def provider_error_def)

text \<open>Inside the loop: the status before the attempt and the statuses an exception leaves.\<close>

definition before_attempt :: "nat \<Rightarrow> model_status" where
  "before_attempt n = (if n = 1 then MsRequested else MsWaiting (n - 1))"

definition open_status :: "nat \<Rightarrow> model_error \<Rightarrow> model_status \<Rightarrow> bool" where
  "open_status m e st \<longleftrightarrow> e \<noteq> MCancelled \<and> attempts st \<le> m \<and>
     (st = MsRequested \<or> (\<exists>k. st = MsRunning k \<or> st = MsWaiting k)) \<and>
     ((\<exists>k. st = MsRunning k) \<or> (\<exists>x. e = MProvider x \<and> px_kind x \<in> {ErrPersistence, ErrCancelled}))"

definition raised_open ::
  "('c, 'r) ModelProviderRequest \<Rightarrow> (uuid \<Rightarrow> model_payload EventEnvelope list) \<Rightarrow> nat \<Rightarrow> model_error \<Rightarrow> 's log_state \<Rightarrow> bool" where
  "raised_open q others m e s \<longleftrightarrow> (\<exists>st. open_status m e st \<and> in_status q others st s)"

lemma started_status:
  assumes "1 \<le> n"
  shows "triple (in_status q others (before_attempt n)) (model_started env q) (\<lambda>_. in_status q others (MsRunning n))
    (\<lambda>e s. e = event_persistence \<and> in_status q others (before_attempt n) s)"
  unfolding model_started_def
  by (rule triple_bnd [OF ask_status], rule emit_status)
    (use assms in \<open>cases "n = 1"; simp add: before_attempt_def\<close>)

lemma run_attempt_status:
  assumes "1 \<le> n"
  shows "triple (in_status q others (before_attempt n)) (run_attempt env q provider n)
    (\<lambda>_. in_status q others (MsRunning n))
    (\<lambda>e s. e = event_persistence \<and> in_status q others (before_attempt n) s \<or> in_status q others (MsRunning n) s)"
proof -
  have called: "triple (in_status q others (MsRunning n)) (case reply of
        ProviderReturns r \<Rightarrow> ret r
      | ProviderRaises e \<Rightarrow> throw (MProvider e)
      | ProviderTimesOut \<Rightarrow> throw (timeout_error (po_provider_id provider) n)
      | ProviderIsCancelled \<Rightarrow> throw MCancelled
      | ProviderRaisesOther m \<Rightarrow> throw (MOther m)) (\<lambda>_. in_status q others (MsRunning n))
      (\<lambda>e s. e = event_persistence \<and> in_status q others (before_attempt n) s \<or> in_status q others (MsRunning n) s)" for reply
    by (cases reply) (simp_all add: triple_ret triple_throw)
  show ?thesis
    unfolding run_attempt_def
    by (simp only: env_events if_True, rule triple_andthen [where R = "in_status q others (MsRunning n)"],
        rule triple_conseq [OF started_status [OF assms]])
      (auto intro!: triple_bnd [OF ask_status] called)
qed

lemma retried_status:
  "triple (in_status q others (MsRunning n)) (model_retried env q n) (\<lambda>_. in_status q others (MsWaiting n))
     (\<lambda>e s. e = event_persistence \<and> in_status q others (MsRunning n) s)"
  unfolding model_retried_def by (rule emit_status) simp

text \<open>The exceptions of one attempt, as the loop raises them.\<close>

lemma attempt_open:
  assumes "e = event_persistence \<and> in_status q others (before_attempt n) s \<or> in_status q others (MsRunning n) s"
    and "1 \<le> n" "n \<le> m"
  shows "raised_open q others m (case e of
     MCancelled \<Rightarrow> cancelled_error provider message n
   | MProvider x \<Rightarrow> MProvider (with_attempt x (int n))
   | _ \<Rightarrow> e) s"
  using assms(1)
proof (elim disjE conjE)
  assume "e = event_persistence" "in_status q others (before_attempt n) s"
  then show ?thesis
    using assms(2,3) unfolding raised_open_def
    by (intro exI [of _ "before_attempt n"])
      (auto simp: open_status_def event_persistence_def provider_error_def with_attempt_def before_attempt_def)
next
  assume "in_status q others (MsRunning n) s"
  then show ?thesis
    using assms(3) unfolding raised_open_def
    by (intro exI [of _ "MsRunning n"]) (simp add: open_status_def cancelled_error_def split: model_error.split)
qed

lemma throw_if: "triple P (case e of
     MCancelled \<Rightarrow> throw a | MProvider x \<Rightarrow> throw (b x) | _ \<Rightarrow> throw e) Q E \<longleftrightarrow>
   triple P (throw (case e of MCancelled \<Rightarrow> a | MProvider x \<Rightarrow> b x | _ \<Rightarrow> e)) Q E"
  by (cases e) simp_all

lemma retry_loop_status:
  "1 \<le> n \<Longrightarrow> n + left \<le> m \<Longrightarrow> triple (in_status q others (before_attempt n)) (retry_loop env q provider left n)
     (\<lambda>_ s. \<exists>k \<le> m. in_status q others (MsRunning k) s) (raised_open q others m)"
proof (induction left arbitrary: n)
  case 0
  then have "n \<le> m" by simp
  show ?case
    unfolding retry_loop.simps
  proof (rule triple_handle [OF triple_post [OF run_attempt_status [OF 0(1)]]])
    show "in_status q others (MsRunning n) s \<Longrightarrow> \<exists>k \<le> m. in_status q others (MsRunning k) s" for x s
      using \<open>n \<le> m\<close> by blast
    show "triple (\<lambda>s. e = event_persistence \<and> in_status q others (before_attempt n) s \<or> in_status q others (MsRunning n) s)
       (case e of MCancelled \<Rightarrow> throw (cancelled_error (po_provider_id provider) ''provider execution was cancelled'' n)
        | MProvider x \<Rightarrow> throw (MProvider (with_attempt x (int n))) | _ \<Rightarrow> throw e)
       (\<lambda>_ s. \<exists>k \<le> m. in_status q others (MsRunning k) s) (raised_open q others m)" for e
      unfolding throw_if by (rule triple_throw) (rule attempt_open [OF _ 0(1) \<open>n \<le> m\<close>])
  qed
next
  case (Suc left)
  then have n: "1 \<le> n" "n \<le> m" "1 \<le> Suc n" "Suc n + left \<le> m" by simp_all
  note ih = Suc.IH [OF n(3,4)]
  let ?P = "\<lambda>e s. e = event_persistence \<and> in_status q others (before_attempt n) s \<or> in_status q others (MsRunning n) s"
  let ?Q = "\<lambda>_ s. \<exists>k \<le> m. in_status q others (MsRunning k) s"
  let ?again = "andthen (model_retried env q n)
         (bnd (ask_env (\<lambda>t. me_sleep_cancelled env t
            (delay_for_attempt (me_retry_policy env) n (me_random env t)))) (\<lambda>cancelled.
          if cancelled
          then throw (cancelled_error (po_provider_id provider) ''provider retry wait was cancelled'' n)
          else retry_loop env q provider left (Suc n)))"
  have wait: "before_attempt (Suc n) = MsWaiting n" using n(1) by (simp add: before_attempt_def)
  have stop: "triple (in_status q others (MsWaiting n))
      (throw (cancelled_error (po_provider_id provider) ''provider retry wait was cancelled'' n)) ?Q (raised_open q others m)"
    using n(2) unfolding raised_open_def
    by (intro triple_throw exI [of _ "MsWaiting n"]) (simp add: open_status_def cancelled_error_def provider_error_def)
  have persist: "raised_open q others m event_persistence s" if "in_status q others (MsRunning n) s" for s
    using that n(2) unfolding raised_open_def
    by (intro exI [of _ "MsRunning n"]) (simp add: open_status_def event_persistence_def)
  have again: "triple (in_status q others (MsRunning n)) ?again ?Q (raised_open q others m)"
    by (rule triple_andthen, rule triple_conseq [OF retried_status], assumption, assumption, use persist in blast)
      (auto intro!: triple_bnd [OF ask_status] stop ih [unfolded wait])
  show ?case
    unfolding retry_loop.simps
  proof (rule triple_handle [OF triple_post [OF run_attempt_status [OF n(1)]]])
    show "in_status q others (MsRunning n) s \<Longrightarrow> \<exists>k \<le> m. in_status q others (MsRunning k) s" for x s
      using n(2) by blast
    show "triple (?P e)
       (case e of MCancelled \<Rightarrow> throw (cancelled_error (po_provider_id provider) ''provider execution was cancelled'' n)
        | MProvider x \<Rightarrow> if \<not> is_retryable (me_retry_policy env) (with_attempt x (int n))
            then throw (MProvider (with_attempt x (int n))) else ?again
        | _ \<Rightarrow> throw e) ?Q (raised_open q others m)" for e
    proof (cases "\<exists>x. e = MProvider x \<and> is_retryable (me_retry_policy env) (with_attempt x (int n))")
      case True
      then obtain x where x: "e = MProvider x" "is_retryable (me_retry_policy env) (with_attempt x (int n))" by blast
      then have "e \<noteq> event_persistence"
        by (auto simp: is_retryable_def with_attempt_def event_persistence_def provider_error_def)
      then show ?thesis using x again by simp
    next
      case False
      have "triple (?P e) (throw (case e of
           MCancelled \<Rightarrow> cancelled_error (po_provider_id provider) ''provider execution was cancelled'' n
         | MProvider x \<Rightarrow> MProvider (with_attempt x (int n)) | _ \<Rightarrow> e)) ?Q (raised_open q others m)"
        by (rule triple_throw) (rule attempt_open [OF _ n(1,2)])
      with False show ?thesis by (cases e) simp_all
    qed
  qed
qed

lemma failed_status:
  assumes "st = MsRequested \<or> (\<exists>k. st = MsRunning k \<or> st = MsWaiting k)" "attempts st \<le> m"
  shows "triple (in_status q others st) (model_failed env q x) (\<lambda>_. in_status q others (MsFailed (attempts st)))
    (raised_status q others m)"
proof -
  have step: "model_step st (MCFailed i t f) = Some (MsFailed (attempts st))" for i t f
    using assms(1) by auto
  have bad: "raised_status q others m (MRecord f) s" if "in_status q others st s" for f s
    using that assms unfolding raised_status_def by (intro exI [of _ st]) auto
  have persist: "raised_status q others m event_persistence s" if "in_status q others st s" for s
    using that persistence_status(1) [OF assms(2)] unfolding raised_status_def by blast
  show ?thesis
    unfolding model_failed_def
    by (rule triple_bnd [where R = "\<lambda>_. in_status q others st"], rule triple_lift_res, assumption, erule bad,
        rule triple_bnd [OF ask_status], rule triple_conseq [OF emit_status [OF step]])
      (auto intro: persist)
qed

lemma timed_out_status:
  assumes "k \<le> m"
  shows "triple (in_status q others (MsRunning k)) (model_timed_out env q) (\<lambda>_. in_status q others (MsTimedOut k))
    (raised_status q others m)"
proof -
  have persist: "raised_status q others m event_persistence s" if "in_status q others (MsRunning k) s" for s
    using that persistence_status(1) [of "MsRunning k" m] assms unfolding raised_status_def by auto
  show ?thesis
    unfolding model_timed_out_def
    by (rule triple_bnd [OF ask_status], rule triple_conseq [OF emit_status]) (auto intro: persist)
qed

lemma report_status:
  "triple (raised_open q others m e) (report_model_failure env q e) (\<lambda>_ _. False) (raised_status q others m)"
proof (rule tripleI)
  fix s assume "raised_open q others m e s"
  then obtain st where st: "open_status m e st" "in_status q others st s" by (auto simp: raised_open_def)
  have thrown: "triple (in_status q others st') (throw e) (\<lambda>_ _. False) (raised_status q others m)"
    if "error_status m e st'" for st'
    by (rule triple_throw) (use that in \<open>auto simp: raised_status_def\<close>)
  have "triple (in_status q others st) (report_model_failure env q e) (\<lambda>_ _. False) (raised_status q others m)"
  proof (cases e)
    case (MProvider x)
    show ?thesis
    proof (cases "px_kind x = ErrTimeout")
      case True
      with st(1) MProvider obtain k where k: "st = MsRunning k" "k \<le> m" by (auto simp: open_status_def)
      then have "error_status m e (MsTimedOut k)" using MProvider True by simp
      from triple_andthen [OF timed_out_status [OF k(2)] thrown [OF this]] show ?thesis
        using MProvider True k by (simp add: report_model_failure_def env_events)
    next
      case False
      have open_st: "st = MsRequested \<or> (\<exists>k. st = MsRunning k \<or> st = MsWaiting k)" "attempts st \<le> m"
        using st(1) by (auto simp: open_status_def)
      then have "error_status m e (MsFailed (attempts st))" using MProvider False by simp
      from triple_andthen [OF failed_status [OF open_st] thrown [OF this]] show ?thesis
        using MProvider False by (simp add: report_model_failure_def env_events)
    qed
  next
    case (MRecord f)
    have "error_status m e st" using st(1) MRecord by (auto simp: open_status_def)
    then show ?thesis using MRecord thrown by (simp add: report_model_failure_def)
  next
    case (MOther msg)
    have "error_status m e st" using st(1) MOther by (auto simp: open_status_def)
    then show ?thesis using MOther thrown by (simp add: report_model_failure_def)
  qed (use st(1) in \<open>simp add: open_status_def\<close>)
  from triple_case [OF this st(2)]
  show "case report_model_failure env q e s of (s', Inr x) \<Rightarrow> False | (s', Inl e) \<Rightarrow> raised_status q others m e s'" .
qed

lemma completed_status:
  assumes "k \<le> m"
  shows "triple (in_status q others (MsRunning k)) (model_completed env q r started artifact)
    (\<lambda>_. in_status q others (MsCompleted k)) (raised_status q others m)"
proof -
  have raised: "raised_status q others m e s"
    if "in_status q others (MsRunning k) s" "e = event_persistence \<or> (\<exists>f. e = MRecord f)" for e s
    using that assms persistence_status(1) [of "MsRunning k" m] unfolding raised_status_def
    by (intro exI [of _ "MsRunning k"]) auto
  show ?thesis
    unfolding model_completed_def
    by (simp add: env_events, rule triple_bnd [OF ask_status],
        rule triple_bnd [where R = "\<lambda>_. in_status q others (MsRunning k)"], rule triple_lift_res, assumption,
        rule raised, assumption, simp, rule triple_conseq [OF emit_status]) (auto intro: raised)
qed

lemma artifact_status:
  assumes "attempts st \<le> m"
  shows "triple (in_status q others st) (store_response_artifact env r) (\<lambda>_. in_status q others st) (raised_status q others m)"
    and "triple (in_status q others st) (store_request_artifact env q) (\<lambda>_. in_status q others st) (raised_status q others m)"
proof -
  have raised: "raised_status q others m artifact_persistence s" if "in_status q others st s" for s
    using that persistence_status(2) [OF assms] unfolding raised_status_def by blast
  have answered: "triple (in_status q others st) (case answer of None \<Rightarrow> throw artifact_persistence | Some a \<Rightarrow> ret a)
      (\<lambda>_. in_status q others st) (raised_status q others m)" for answer :: "ArtifactRef option option"
    by (cases answer) (simp_all add: triple_ret triple_throw raised)
  show "triple (in_status q others st) (store_response_artifact env r) (\<lambda>_. in_status q others st) (raised_status q others m)"
    unfolding store_response_artifact_def
    by (cases "me_store_request env") (simp_all add: triple_ret triple_bnd [OF ask_status answered])
  show "triple (in_status q others st) (store_request_artifact env q) (\<lambda>_. in_status q others st) (raised_status q others m)"
    unfolding store_request_artifact_def
    by (cases "me_store_request env") (simp_all add: triple_ret triple_bnd [OF ask_status answered])
qed

definition call_completed ::
  "('c, 'r) ModelProviderRequest \<Rightarrow> (uuid \<Rightarrow> model_payload EventEnvelope list) \<Rightarrow> nat \<Rightarrow> 's log_state \<Rightarrow> bool" where
  "call_completed q others m s \<longleftrightarrow> (\<exists>k \<le> m. in_status q others (MsCompleted k) s)"

lemma perform_status:
  assumes "valid_retry_policy (me_retry_policy env)" "m = nat (ry_maximum_attempts (me_retry_policy env))"
  shows "triple (in_status q others MsRequested) (perform_call env q provider)
    (\<lambda>_. call_completed q others m) (raised_status q others m)"
proof -
  have "1 \<le> m" using assms by (simp add: valid_retry_policy_def) linarith
  then have looped: "triple (in_status q others MsRequested)
      (handle (retry_loop env q provider (nat (ry_maximum_attempts (me_retry_policy env)) - 1) 1) (report_model_failure env q))
      (\<lambda>_ s. \<exists>k \<le> m. in_status q others (MsRunning k) s) (raised_status q others m)"
    using retry_loop_status [of 1 "nat (ry_maximum_attempts (me_retry_policy env)) - 1" m q others provider] assms(2)
    by (intro triple_handle [where F = "raised_open q others m"] triple_post [OF report_status])
      (simp_all add: before_attempt_def)
  have finished: "triple (\<lambda>s. \<exists>k \<le> m. in_status q others (MsRunning k) s)
      (bnd (ask_env (me_monotonic env)) (\<lambda>finished. let measured = response\<lparr>mp_latency_ms := max 0 ((finished - started) * 1000)\<rparr> in
        bnd (store_response_artifact env measured) (\<lambda>artifact.
        andthen (model_completed env q measured started_at artifact) (ret measured))))
      (\<lambda>_. call_completed q others m) (raised_status q others m)" (is "triple ?P ?m ?Q ?E") for response started started_at
  proof (rule tripleI)
    fix s assume "?P s"
    then obtain k where k: "k \<le> m" "in_status q others (MsRunning k) s" by blast
    have "triple (in_status q others (MsRunning k)) ?m ?Q ?E"
      unfolding Let_def
      by (rule triple_bnd [OF ask_status], rule triple_bnd [OF artifact_status(1)], simp add: k(1),
          rule triple_andthen [OF completed_status [OF k(1)]], rule triple_ret)
        (use k(1) in \<open>auto simp: call_completed_def\<close>)
    from triple_case [OF this k(2)]
    show "case ?m s of (s', Inr x) \<Rightarrow> ?Q x s' | (s', Inl e) \<Rightarrow> ?E e s'" .
  qed
  show ?thesis
    unfolding perform_call_def
    by (rule triple_bnd [OF ask_status], simp only: split_beta, rule triple_bnd [OF looped finished])
qed

lemma requested_status:
  "triple (in_status q others MsNew) (model_requested env q provider artifact) (\<lambda>_. in_status q others MsRequested)
     (raised_status q others m)"
proof -
  have raised: "raised_status q others m e s"
    if "in_status q others MsNew s" "e = event_persistence \<or> (\<exists>f. e = MRecord f)" for e s
    using that persistence_status(1) [of MsNew m] unfolding raised_status_def by (intro exI [of _ MsNew]) auto
  show ?thesis
    unfolding model_requested_def
    by (simp add: env_events, rule triple_bnd [OF ask_status],
        rule triple_bnd [where R = "\<lambda>_. in_status q others MsNew"], rule triple_lift_res, assumption,
        rule raised, assumption, simp, rule triple_conseq [OF emit_status]) (auto intro: raised)
qed

lemma execute_status:
  assumes "valid_retry_policy (me_retry_policy env)" "m = nat (ry_maximum_attempts (me_retry_policy env))"
  shows "triple (in_status q others MsNew) (execute_model env q provider_id)
    (\<lambda>_. call_completed q others m) (raised_status q others m)"
proof -
  let ?new = "in_status q others MsNew"
  have "error_status m e MsNew" for e by (cases e) simp_all
  then have early_any: "raised_status q others m e s" if "?new s" for e s
    using that unfolding raised_status_def by (intro exI [of _ MsNew] conjI) simp_all
  have refused: "triple ?new (throw e) (\<lambda>_. ?new) (raised_status q others m)" for e
    by (rule triple_throw) (rule early_any)
  have answered: "triple ?new (case answer of None \<Rightarrow> throw a | Some ok \<Rightarrow> if ok then ret () else throw b)
      (\<lambda>_. ?new) (raised_status q others m)" for answer a b
    by (cases answer) (simp_all add: triple_ret refused)
  have checked: "triple ?new (validate_context_reference env q) (\<lambda>_. ?new) (raised_status q others m)"
    unfolding validate_context_reference_def
    by (cases "mq_context_bundle_reference q"; cases "me_validate_context env"; simp only: option.case)
      (rule triple_ret refused triple_bnd [OF ask_status answered]; assumption?)+
  have lift: "triple ?new (lift_res k r) (\<lambda>_. ?new) (raised_status q others m)" for k and r :: "'e + 'b"
    by (rule triple_lift_res) (auto intro: early_any)
  show ?thesis
    unfolding execute_model_def
    by (rule triple_andthen [OF checked], rule triple_bnd [OF lift], rule triple_bnd [OF ask_status],
        rule triple_bnd [OF lift], rule triple_bnd [OF lift], rule triple_bnd [OF artifact_status(2)], simp,
        rule triple_andthen [OF requested_status], rule perform_status [OF assms])
qed

end

definition memory_model_env ::
  "(int \<Rightarrow> timestamp) \<Rightarrow> (model_payload store, 'c, 'r) model_env \<Rightarrow> (model_payload store, 'c, 'r) model_env" where
  "memory_model_env clock env = env\<lparr>lg_append := store_append clock, lg_version := store_get_stream_version,
     me_events := True\<rparr>"

interpretation memory_models: model_runs "store_append clock" stream_history store_ok store_get_stream_version
  "memory_model_env clock env"
  by (rule model_runs.intro [OF memory_log.versioned_log_axioms], rule model_runs_axioms.intro)
    (simp_all add: memory_model_env_def)

definition model_history :: "('c, 'r) ModelProviderRequest \<Rightarrow> model_payload store log_state \<Rightarrow> model_payload list" where
  "model_history q s = map ev_payload (stream_history (sv_store s) (mq_model_call_id q))"

lemma error_status_attempts: "error_status m e st \<Longrightarrow> attempts st \<le> m"
  by (cases e) auto

text \<open>What a call leaves on the streams.\<close>

lemma model_call_record:
  assumes "store_ok (sv_store s)" "model_history q s = []" "valid_retry_policy (me_retry_policy env)"
    and "execute_model (memory_model_env clock env) q provider_id s = (s', r)"
  shows "\<exists>st. follow model_step MsNew (model_history q s') = Some st \<and>
    int (length (filter is_start (model_history q s'))) \<le> ry_maximum_attempts (me_retry_policy env) \<and>
    (\<forall>i. i \<noteq> mq_model_call_id q \<longrightarrow> stream_history (sv_store s') i = stream_history (sv_store s) i) \<and>
    (case r of Inr response \<Rightarrow> \<exists>k. st = MsCompleted k
     | Inl e \<Rightarrow> error_status (nat (ry_maximum_attempts (me_retry_policy env))) e st)"
proof -
  let ?others = "stream_history (sv_store s)" and ?m = "nat (ry_maximum_attempts (me_retry_policy env))"
  have pol: "me_retry_policy (memory_model_env clock env) = me_retry_policy env" by (simp add: memory_model_env_def)
  have new: "memory_models.in_status q ?others MsNew s"
    using assms(1,2) by (simp add: memory_models.in_status_def memory_log.in_log_def memory_log.log_of_def model_history_def)
  note t = memory_models.execute_status [where q = q and others = ?others and env = env and clock = clock
      and m = ?m and provider_id = provider_id, unfolded pol, OF assms(3) refl]
  have status: "follow model_step MsNew (model_history q s') = Some st \<and>
      (\<forall>i. i \<noteq> mq_model_call_id q \<longrightarrow> stream_history (sv_store s') i = ?others i) \<and>
      int (length (filter is_start (model_history q s'))) \<le> ry_maximum_attempts (me_retry_policy env)"
    if "memory_models.in_status q ?others st s'" "attempts st \<le> ?m" for st
  proof -
    have "follow model_step MsNew (model_history q s') = Some st"
      using that(1) by (simp add: memory_models.in_status_def memory_log.in_log_def memory_log.log_of_def model_history_def)
    moreover have "int (length (filter is_start (model_history q s'))) \<le> ry_maximum_attempts (me_retry_policy env)"
      using follow_attempts [OF calculation] that(2) assms(3) by (simp add: valid_retry_policy_def le_nat_iff)
    ultimately show ?thesis
      using that(1) by (simp add: memory_models.in_status_def memory_log.in_log_def)
  qed
  show ?thesis
  proof (cases r)
    case (Inl e)
    from triple_Inl [OF t new assms(4) [unfolded Inl]] obtain st where
      st: "error_status ?m e st" "memory_models.in_status q ?others st s'"
      by (auto simp: memory_models.raised_status_def)
    from status [OF st(2) error_status_attempts [OF st(1)]] st(1) show ?thesis
      unfolding Inl sum.case by blast
  next
    case (Inr response)
    from triple_Inr [OF t new assms(4) [unfolded Inr]] obtain k where
      k: "k \<le> ?m" "memory_models.in_status q ?others (MsCompleted k) s'"
      by (auto simp: memory_models.call_completed_def)
    from status [OF k(2)] k(1) show ?thesis unfolding Inr sum.case by auto
  qed
qed

text \<open>C24. Model calls are bounded. Whatever the provider, the artifact store and the clocks answer, the
  events of a new call are a run of the call lifecycle: attempts are started and retried in turn with
  consecutive numbers, never more of them than the policy's maximum; a response means a completed
  call; a provider error means a failed call, a timeout a timed-out one, unless persistence itself
  failed; an exception that is no provider error leaves the call running.\<close>

theorem model_call_is_bounded:
  assumes "store_ok (sv_store s)" "model_history q s = []" "valid_retry_policy (me_retry_policy env)"
    and "execute_model (memory_model_env clock env) q provider_id s = (s', r)"
  shows "\<exists>st. follow model_step MsNew (model_history q s') = Some st \<and>
    int (length (filter is_start (model_history q s'))) \<le> ry_maximum_attempts (me_retry_policy env) \<and>
    (\<forall>i. i \<noteq> mq_model_call_id q \<longrightarrow> stream_history (sv_store s') i = stream_history (sv_store s) i) \<and>
    (case r of Inr response \<Rightarrow> \<exists>k. st = MsCompleted k
     | Inl e \<Rightarrow> error_status (nat (ry_maximum_attempts (me_retry_policy env))) e st)"
  by (rule model_call_record [OF assms])

section \<open>A sample call\<close>

definition sample_provider :: "provider_reply \<Rightarrow> (unit, unit) provider_port" where
  "sample_provider reply = \<lparr>po_provider_id = ''p'', po_enabled = True,
     po_capabilities = (\<lambda>_ m. Inr \<lparr>mc_model_id = m, mc_provider_id = ''p'', mc_supports_streaming = False,
       mc_supports_tool_calls = False, mc_supports_parallel_tool_calls = False,
       mc_supports_structured_output = True, mc_supports_system_messages = True, mc_supports_seed = False,
       mc_maximum_context_tokens = None, mc_maximum_output_tokens = None,
       mc_supported_input_modalities = [''text''], mc_supported_output_modalities = [''text'']\<rparr>),
     po_complete = (\<lambda>_ _. reply)\<rparr>"

definition sample_model_env :: "provider_reply \<Rightarrow> (model_payload store, unit, unit) model_env" where
  "sample_model_env reply = \<lparr>lg_append = store_append (\<lambda>n. n), lg_version = store_get_stream_version,
     lg_now = int, lg_new_id = of_nat, lg_digest = (\<lambda>_. sample_hash),
     me_providers = [(''p'', sample_provider reply)], me_default_provider_id = ''p'',
     me_retry_policy = default_retry_policy, me_events = True, me_store_request = None,
     me_store_response = (\<lambda>_ _. None), me_validate_context = None, me_monotonic = of_nat,
     me_random = (\<lambda>_. 1/2), me_sleep_cancelled = (\<lambda>_ _. False)\<rparr>"

definition sample_model_request :: "(unit, unit) ModelProviderRequest" where
  "sample_model_request = \<lparr>mq_model_call_id = 6, mq_task_run_id = 9, mq_step_id = None, mq_correlation_id = 3,
     mq_requested_model = ''m'', mq_messages = [\<lparr>pm_role = RoleUser, pm_content = ''hi'', pm_name = None,
       pm_tool_call_id = None\<rparr>], mq_system_instructions = None, mq_tools = [], mq_tool_choice = ChoiceNone,
     mq_selected_tool_name = None, mq_response_format = FormatText, mq_response_schema = None,
     mq_temperature = None, mq_max_output_tokens = None, mq_context_budget = 32768,
     mq_timeout_seconds = 120, mq_context_bundle_reference = None, mq_routing_reference = None,
     mq_metadata = []\<rparr>"

definition idle_models :: "model_payload store log_state" where
  "idle_models = \<lparr>sv_store = [], sv_tick = 0\<rparr>"

lemma memory_sample_model_env: "memory_model_env (\<lambda>n. n) (sample_model_env reply) = sample_model_env reply"
  by (simp add: memory_model_env_def sample_model_env_def)

lemma sample_call_exhausts:
  "case execute_model (sample_model_env ProviderTimesOut) sample_model_request None idle_models of
     (s, r) \<Rightarrow> isl r \<and> length (filter is_start (model_history sample_model_request s)) = 3"
  by code_simp

lemma model_call_is_bounded_witness:
  "\<exists>s' e st. execute_model (sample_model_env ProviderTimesOut) sample_model_request None idle_models = (s', Inl e) \<and>
     follow model_step MsNew (model_history sample_model_request s') = Some st \<and> attempts st = 3"
proof -
  let ?q = "sample_model_request"
  obtain s' r where run: "execute_model (sample_model_env ProviderTimesOut) ?q None idle_models = (s', r)"
    by fastforce
  with sample_call_exhausts obtain e where e: "r = Inl e" "length (filter is_start (model_history ?q s')) = 3"
    by (auto simp: isl_def)
  have "store_ok (sv_store idle_models)" "model_history ?q idle_models = []"
    by (simp_all add: idle_models_def model_history_def stream_history_def stream_events_def)
  moreover have "valid_retry_policy (me_retry_policy (sample_model_env ProviderTimesOut))"
    using default_retry_policy_valid by (simp add: sample_model_env_def)
  ultimately obtain st where "follow model_step MsNew (model_history ?q s') = Some st"
    using model_call_is_bounded [of idle_models ?q "sample_model_env ProviderTimesOut" "\<lambda>n. n" None s' r,
        unfolded memory_sample_model_env] run by blast
  with follow_attempts [OF this] e run show ?thesis by auto
qed

end
