(* ===== verification/Verifier_Plane.thy ===== *)
theory Verifier_Plane
  imports Tool_Plane
begin

text \<open>
  The verifier plane: descriptors (\<open>domain/verifiers.py\<close>), the registry with its unavailable entries
  (\<open>verification/registry.py\<close>), the selection of a verifier by capability
  (\<open>verification/selection.py\<close>), and the bounded execution of a verification with its lifecycle events
  (\<open>application/services/verification_service.py\<close>, \<open>events/verifier_event_service.py\<close>,
  \<open>events/verification_events.py\<close>).

  Parameters: \<open>jsonschema\<close>, the JSON dump of a subject, the digests, and the verifiers.
\<close>

section \<open>Descriptors\<close>

datatype VerifierKind = KindGeneric | KindCoding | KindMathematics | KindLogic | KindPhysics
  | KindPolicy | KindAdvisory | KindSemantic | KindContext | KindSkill | KindStrategy

datatype VerifierDeterminism = DetDeterministic | DetSeeded | DetNonDeterministic

record VerifierCapability =
  vcap_capability_id :: string
  vcap_subject_type :: string
  vcap_problem_domains :: "ProblemDomain list"
  vcap_criterion_types :: "CriterionType list"
  vcap_supported_media_types :: "string list"
  vcap_requires_sandbox :: bool
  vcap_requires_network :: bool
  vcap_supports_batch :: bool

record VerifierDescriptor =
  vd_verifier_id :: string
  vd_version :: string
  vd_display_name :: string
  vd_description :: string
  vd_kind :: VerifierKind
  vd_capabilities :: "VerifierCapability list"
  vd_determinism :: VerifierDeterminism
  vd_requires_sandbox :: bool
  vd_requires_network :: bool
  vd_risk_level :: RiskLevel
  vd_default_timeout_seconds :: pyfloat
  vd_maximum_input_bytes :: int
  vd_configuration_schema :: "(string, json) dict"
  vd_descriptor_hash :: string

datatype verifier_descriptor_fault = BadVerifierField | CapabilityIncomplete | BatchUnsupported
  | VerifierHashMismatch

definition capability_error :: "VerifierCapability \<Rightarrow> verifier_descriptor_fault option" where
  "capability_error c = first_error
     [(\<not> non_empty_str (vcap_capability_id c) \<or>
       vcap_subject_type c \<notin> set verification_subject_types \<or>
       \<not> list_all non_empty_str (vcap_supported_media_types c), BadVerifierField),
      (vcap_problem_domains c = [] \<or> vcap_criterion_types c = [], CapabilityIncomplete),
      (vcap_supports_batch c, BatchUnsupported)]"

definition verifier_hash :: "(VerifierDescriptor \<Rightarrow> string) \<Rightarrow> VerifierDescriptor \<Rightarrow> string" where
  "verifier_hash digest d = digest (d\<lparr>vd_descriptor_hash := []\<rparr>)"

text \<open>The identifier of a verifier has the same pattern as that of a tool.\<close>

definition seal_verifier ::
  "(VerifierDescriptor \<Rightarrow> string) \<Rightarrow> VerifierDescriptor \<Rightarrow> verifier_descriptor_fault + VerifierDescriptor" where
  "seal_verifier digest d =
     (case first_some (map capability_error (vd_capabilities d)) of Some e \<Rightarrow> Inl e | None \<Rightarrow>
      (case first_error
         [(\<not> tool_id_ok (vd_verifier_id d) \<or> \<not> non_empty_str (vd_version d) \<or>
           \<not> non_empty_str (vd_display_name d) \<or> \<not> non_empty_str (vd_description d) \<or>
           vd_capabilities d = [] \<or> vd_default_timeout_seconds d \<le> 0 \<or>
           3600 < vd_default_timeout_seconds d \<or> vd_maximum_input_bytes d \<le> 0, BadVerifierField),
          (vd_descriptor_hash d \<noteq> [] \<and> vd_descriptor_hash d \<noteq> verifier_hash digest d,
           VerifierHashMismatch)] of
         Some e \<Rightarrow> Inl e
       | None \<Rightarrow> Inr (d\<lparr>vd_descriptor_hash := verifier_hash digest d\<rparr>)))"

section \<open>The registry\<close>

datatype verify_reply = VerifierReturns VerifierResult | VerifierTimesOut | VerifierRaises string
  | VerifierCancelled

record verifier_port =
  vp_descriptor :: VerifierDescriptor
  vp_verify :: "nat \<Rightarrow> VerificationRequest \<Rightarrow> verify_reply"

record VerifierRegistry =
  vg_verifiers :: "(string \<times> string, verifier_port) dict"
  vg_unavailable :: "(string \<times> string, VerifierDescriptor \<times> string) dict"
  vg_frozen :: bool

datatype verifier_registry_fault = VerifiersFrozen | DuplicateVerifier string string
  | BadVerifierHash | BadConfigurationSchema | VerifierNotFound string string
  | VerifierUnavailable string string

definition empty_verifiers :: VerifierRegistry where
  "empty_verifiers = \<lparr>vg_verifiers = [], vg_unavailable = [], vg_frozen = False\<rparr>"

definition descriptor_key :: "VerifierDescriptor \<Rightarrow> string \<times> string" where
  "descriptor_key d = (vd_verifier_id d, vd_version d)"

definition verifier_key :: "verifier_port \<Rightarrow> string \<times> string" where
  "verifier_key v = descriptor_key (vp_descriptor v)"

definition verifier_taken :: "VerifierRegistry \<Rightarrow> string \<times> string \<Rightarrow> bool" where
  "verifier_taken r k \<longleftrightarrow> k \<in> fst ` set (vg_verifiers r) \<or> k \<in> fst ` set (vg_unavailable r)"

definition verifier_register ::
  "(VerifierDescriptor \<Rightarrow> string) \<Rightarrow> (json \<Rightarrow> bool) \<Rightarrow> VerifierRegistry \<Rightarrow> verifier_port \<Rightarrow>
   verifier_registry_fault + VerifierRegistry" where
  "verifier_register digest schema_ok r v =
     (let d = vp_descriptor v; k = descriptor_key d in
      if vg_frozen r then Inl VerifiersFrozen
      else if verifier_taken r k then Inl (DuplicateVerifier (vd_verifier_id d) (vd_version d))
      else if vd_descriptor_hash d \<noteq> verifier_hash digest d then Inl BadVerifierHash
      else if \<not> schema_ok (JObj (vd_configuration_schema d)) then Inl BadConfigurationSchema
      else Inr (r\<lparr>vg_verifiers := dict_set (vg_verifiers r) k v\<rparr>))"

definition register_unavailable ::
  "VerifierRegistry \<Rightarrow> VerifierDescriptor \<times> string \<Rightarrow> verifier_registry_fault + VerifierRegistry" where
  "register_unavailable r u =
     (let d = fst u; k = descriptor_key d in
      if vg_frozen r then Inl VerifiersFrozen
      else if verifier_taken r k then Inl (DuplicateVerifier (vd_verifier_id d) (vd_version d))
      else Inr (r\<lparr>vg_unavailable := dict_set (vg_unavailable r) k u\<rparr>))"

fun verifier_register_many ::
  "(VerifierDescriptor \<Rightarrow> string) \<Rightarrow> (json \<Rightarrow> bool) \<Rightarrow> VerifierRegistry \<Rightarrow> verifier_port list \<Rightarrow>
   verifier_registry_fault + VerifierRegistry" where
  "verifier_register_many digest schema_ok r [] = Inr r"
| "verifier_register_many digest schema_ok r (v # vs) =
     bind_res (verifier_register digest schema_ok r v) (\<lambda>r'. verifier_register_many digest schema_ok r' vs)"

definition verifier_get :: "VerifierRegistry \<Rightarrow> string \<times> string \<Rightarrow> verifier_port option" where
  "verifier_get r k = dict_get (vg_verifiers r) k"

definition verifier_require ::
  "VerifierRegistry \<Rightarrow> string \<Rightarrow> string \<Rightarrow> verifier_registry_fault + verifier_port" where
  "verifier_require r verifier_id version =
     (if (verifier_id, version) \<in> fst ` set (vg_unavailable r)
      then Inl (VerifierUnavailable verifier_id version)
      else case verifier_get r (verifier_id, version) of
          None \<Rightarrow> Inl (VerifierNotFound verifier_id version)
        | Some v \<Rightarrow> Inr v)"

definition verifier_list_all :: "VerifierRegistry \<Rightarrow> VerifierDescriptor list" where
  "verifier_list_all r = sort_key descriptor_key
     (map (vp_descriptor \<circ> snd) (vg_verifiers r) @ map (fst \<circ> snd) (vg_unavailable r))"

definition list_available :: "VerifierRegistry \<Rightarrow> VerifierDescriptor list" where
  "list_available r = sort_key descriptor_key (map (vp_descriptor \<circ> snd) (vg_verifiers r))"

definition list_by_kind :: "VerifierRegistry \<Rightarrow> VerifierKind \<Rightarrow> VerifierDescriptor list" where
  "list_by_kind r kind = filter (\<lambda>d. vd_kind d = kind) (verifier_list_all r)"

definition list_by_domain :: "VerifierRegistry \<Rightarrow> ProblemDomain \<Rightarrow> VerifierDescriptor list" where
  "list_by_domain r dm = filter (\<lambda>d. list_ex (\<lambda>c. dm \<in> set (vcap_problem_domains c)) (vd_capabilities d))
     (verifier_list_all r)"

definition capable :: "string \<Rightarrow> ProblemDomain \<Rightarrow> CriterionType \<Rightarrow> VerifierDescriptor \<Rightarrow> bool" where
  "capable subject_type dm crit d \<longleftrightarrow> list_ex (\<lambda>c. vcap_subject_type c = subject_type \<and>
     dm \<in> set (vcap_problem_domains c) \<and> crit \<in> set (vcap_criterion_types c)) (vd_capabilities d)"

definition list_capable ::
  "VerifierRegistry \<Rightarrow> string \<Rightarrow> ProblemDomain \<Rightarrow> CriterionType \<Rightarrow> VerifierDescriptor list" where
  "list_capable r subject_type dm crit = filter (capable subject_type dm crit) (list_available r)"

definition verifier_freeze :: "VerifierRegistry \<Rightarrow> VerifierRegistry" where
  "verifier_freeze r = r\<lparr>vg_frozen := True\<rparr>"

text \<open>The records whose hash identifies the contents of the registry.\<close>

record verifier_snapshot_entry =
  vse_verifier_id :: string
  vse_version :: string
  vse_descriptor_hash :: string
  vse_available :: bool
  vse_capabilities :: "VerifierCapability list"
  vse_determinism :: VerifierDeterminism

definition verifier_snapshot :: "(verifier_snapshot_entry list \<Rightarrow> string) \<Rightarrow> VerifierRegistry \<Rightarrow> string" where
  "verifier_snapshot digest r = digest (map (\<lambda>d.
     \<lparr>vse_verifier_id = vd_verifier_id d, vse_version = vd_version d,
      vse_descriptor_hash = vd_descriptor_hash d,
      vse_available = (descriptor_key d \<in> fst ` set (vg_verifiers r)),
      vse_capabilities = vd_capabilities d, vse_determinism = vd_determinism d\<rparr>) (verifier_list_all r))"

interpretation verifiers: keyed_registry "verifier_register digest schema_ok" verifier_get verifier_key
  by unfold_locales
    (auto simp: verifier_register_def verifier_get_def verifier_key_def verifier_taken_def Let_def
      fun_eq_iff dict_get_set map_of_eq_None_iff split: if_splits)

interpretation missing_verifiers: keyed_registry register_unavailable
  "\<lambda>r. dict_get (vg_unavailable r)" "\<lambda>u. descriptor_key (fst u)"
  by unfold_locales
    (auto simp: register_unavailable_def verifier_taken_def Let_def fun_eq_iff dict_get_set
      map_of_eq_None_iff split: if_splits)

section \<open>Selection\<close>

datatype selection_fault = SelectionRegistry verifier_registry_fault | NoCapableVerifier
  | AmbiguousVerifier

definition verifier_permitted :: "bool \<Rightarrow> bool \<Rightarrow> VerifierDescriptor \<Rightarrow> bool" where
  "verifier_permitted allow_network sandbox_available d \<longleftrightarrow>
     (allow_network \<or> \<not> vd_requires_network d) \<and> (sandbox_available \<or> \<not> vd_requires_sandbox d)"

definition ranked_candidates :: "string list \<Rightarrow> VerifierDescriptor list \<Rightarrow> VerifierDescriptor list" where
  "ranked_candidates priority candidates =
     concat (map (\<lambda>i. filter (\<lambda>d. vd_verifier_id d = i) candidates) priority)"

definition selection_candidates ::
  "VerifierRegistry \<Rightarrow> AcceptanceCriterion \<Rightarrow> ProblemDomain \<Rightarrow> string \<Rightarrow> string \<Rightarrow>
   selection_fault + VerifierDescriptor list" where
  "selection_candidates r c dm subject_type version =
     (if str_truthy (ac_verifier_id c)
      then case verifier_require r (the (ac_verifier_id c)) version of
          Inl e \<Rightarrow> Inl (SelectionRegistry e) | Inr v \<Rightarrow> Inr [vp_descriptor v]
      else Inr (list_capable r subject_type dm (ac_criterion_type c)))"

definition select_verifier ::
  "VerifierRegistry \<Rightarrow> AcceptanceCriterion \<Rightarrow> ProblemDomain \<Rightarrow> string \<Rightarrow> string \<Rightarrow> string list \<Rightarrow> bool \<Rightarrow> bool \<Rightarrow>
   selection_fault + VerifierDescriptor" where
  "select_verifier r c dm subject_type version priority allow_network sandbox_available =
     bind_res (selection_candidates r c dm subject_type version) (\<lambda>found.
       case filter (verifier_permitted allow_network sandbox_available) found of
         [] \<Rightarrow> Inl NoCapableVerifier
       | [d] \<Rightarrow> Inr d
       | candidates \<Rightarrow>
           (case ranked_candidates priority candidates of
              [] \<Rightarrow> Inl AmbiguousVerifier
            | d # _ \<Rightarrow> Inr d))"

section \<open>Lifecycle events\<close>

datatype verifier_payload =
    VfStarted uuid string string VerificationSubjectRef timestamp string
  | VfCompleted VerifierResult
  | VfFailed uuid timestamp ErrorInfo

fun verifier_event_type :: "verifier_payload \<Rightarrow> string" where
  "verifier_event_type (VfStarted _ _ _ _ _ _) = ''verifier.started''"
| "verifier_event_type (VfCompleted _) = ''verifier.completed''"
| "verifier_event_type (VfFailed _ _ _) = ''verifier.failed''"

definition verifier_source :: "verifier_payload log_source" where
  "verifier_source = \<lparr>so_type = verifier_event_type, so_stream_type = StreamVerifier,
     so_actor = \<lparr>ar_actor_type = ActorVerifier, ar_actor_id = ''verifier-service'', ar_display_name = None\<rparr>,
     so_component = ''verifier-service''\<rparr>"

record 's verifier_env = "('s, verifier_payload) log_env" +
  vf_registry :: VerifierRegistry
  vf_checker :: schema_checker
  vf_float_length :: "pyfloat \<Rightarrow> int"
  vf_subject_json :: "VerificationSubject \<Rightarrow> json"
  vf_configuration_hash :: "(string, json) dict \<Rightarrow> string"

datatype verifier_error = VfRegistryFault verifier_registry_fault | VfInputTooLarge
  | VfConfigurationInvalid | VfPersistence | VfCancelled | VfContract verifier_result_fault
  | VfExecutionFault execution_fault

type_synonym ('s, 'a) verifier_comp = "('s log_state, verifier_error, 'a) comp"

definition verifier_emit ::
  "'s verifier_env \<Rightarrow> VerificationRequest \<Rightarrow> uuid option \<Rightarrow> verifier_payload \<Rightarrow> ('s, uuid) verifier_comp" where
  "verifier_emit env q causation p =
     log_emit env verifier_source VfPersistence (vq_verification_id q) (vq_correlation_id q) causation p"

section \<open>Executing a verification\<close>

text \<open>The length of \<open>json.dumps\<close> with its default separators, a comma or a colon and a blank.\<close>

definition spaced_length :: "int list \<Rightarrow> int" where
  "spaced_length ns = 2 + sum_list ns + 2 * max 0 (int (length ns) - 1)"

fun dumps_length :: "(pyfloat \<Rightarrow> int) \<Rightarrow> json \<Rightarrow> int" where
  "dumps_length fl (JList vs) = spaced_length (map (dumps_length fl) vs)"
| "dumps_length fl (JObj kvs) = spaced_length (map (\<lambda>(k, v). string_length k + 2 + dumps_length fl v) kvs)"
| "dumps_length fl v = json_length fl v"

definition request_subject_ref :: "VerificationRequest \<Rightarrow> VerificationSubjectRef" where
  "request_subject_ref q = \<lparr>vs_subject_type = vsub_subject_type (vq_subject q),
     vs_subject_id = Some (uuid_str (vq_verification_id q)), vs_artifact_id = None\<rparr>"

datatype verify_attempt = AttemptPassed VerifierResult | AttemptTimedOut | AttemptFailed string
  | AttemptCancelled

text \<open>A result is taken only from the verifier asked, about the kind of subject given.\<close>

fun judge_reply :: "VerifierDescriptor \<Rightarrow> VerificationRequest \<Rightarrow> verify_reply \<Rightarrow> verify_attempt" where
  "judge_reply d q (VerifierReturns r) =
     (if vr_verifier_id r \<noteq> vd_verifier_id d \<or> vr_verifier_version r \<noteq> vd_version d
      then AttemptFailed ''ValueError''
      else if vs_subject_type (vr_subject r) \<noteq> vsub_subject_type (vq_subject q)
      then AttemptFailed ''ValueError''
      else AttemptPassed r)"
| "judge_reply d q VerifierTimesOut = AttemptTimedOut"
| "judge_reply d q (VerifierRaises name) = AttemptFailed name"
| "judge_reply d q VerifierCancelled = AttemptCancelled"

definition verification_execution ::
  "'s verifier_env \<Rightarrow> VerificationRequest \<Rightarrow> VerifierDescriptor \<Rightarrow> VerificationExecutionStatus \<Rightarrow> timestamp \<Rightarrow> timestamp \<Rightarrow>
   VerifierResult option \<Rightarrow> ArtifactRef list \<Rightarrow> ErrorInfo option \<Rightarrow> execution_fault + VerificationExecution" where
  "verification_execution env q d status started finished result evidence err =
     construct execution_error
       \<lparr>vx_verification_id = vq_verification_id q, vx_verifier_id = vd_verifier_id d,
        vx_verifier_version = vd_version d, vx_status = status, vx_started_at = Some started,
        vx_finished_at = Some finished, vx_result = result, vx_evidence_artifacts = evidence,
        vx_configuration_hash = vf_configuration_hash env (vq_configuration q), vx_error = err\<rparr>"

definition timeout_info :: ErrorInfo where
  "timeout_info = mk_error_info ''verifier_timeout'' ''verifier exceeded its configured timeout''"

definition broken_info :: "string \<Rightarrow> ErrorInfo" where
  "broken_info name = (mk_error_info ''verifier_execution_error'' ''verifier infrastructure failed'')
     \<lparr>ei_error_type := Some name\<rparr>"

definition timeout_result ::
  "VerificationRequest \<Rightarrow> VerifierDescriptor \<Rightarrow> uuid \<Rightarrow> timestamp \<Rightarrow> timestamp \<Rightarrow> verifier_result_fault + VerifierResult" where
  "timeout_result q d result_id started now = construct verifier_result_error
     \<lparr>vr_verifier_result_id = result_id, vr_verifier_id = vd_verifier_id d,
      vr_verifier_version = vd_version d, vr_subject = request_subject_ref q, vr_status = VError,
      vr_score = None, vr_confidence = None, vr_findings = [], vr_evidence_artifacts = [],
      vr_started_at = started, vr_finished_at = now, vr_error = Some timeout_info\<rparr>"

definition persist_failed ::
  "'s verifier_env \<Rightarrow> VerificationRequest \<Rightarrow> VerifierResult option \<Rightarrow> ErrorInfo \<Rightarrow> uuid \<Rightarrow> ('s, uuid) verifier_comp" where
  "persist_failed env q result err causation = bnd (ask_env (lg_now env)) (\<lambda>now.
     verifier_emit env q (Some causation) (VfFailed
       (case result of None \<Rightarrow> vq_verification_id q | Some r \<Rightarrow> vr_verifier_result_id r) now err))"

definition report_timeout ::
  "'s verifier_env \<Rightarrow> VerificationRequest \<Rightarrow> VerifierDescriptor \<Rightarrow> timestamp \<Rightarrow> uuid \<Rightarrow>
   ('s, VerificationExecution) verifier_comp" where
  "report_timeout env q d started start_event =
     bnd (ask_env (\<lambda>t. (lg_now env t, lg_new_id env t))) (\<lambda>(now, result_id).
     bnd (lift_res VfContract (timeout_result q d result_id started now)) (\<lambda>r.
     andthen (persist_failed env q (Some r) timeout_info start_event)
     (lift_res VfExecutionFault
        (verification_execution env q d VxTimedOut started now (Some r) [] (Some timeout_info)))))"

definition report_broken ::
  "'s verifier_env \<Rightarrow> VerificationRequest \<Rightarrow> VerifierDescriptor \<Rightarrow> timestamp \<Rightarrow> uuid \<Rightarrow> string \<Rightarrow>
   ('s, VerificationExecution) verifier_comp" where
  "report_broken env q d started start_event name =
     bnd (ask_env (lg_now env)) (\<lambda>now.
     andthen (persist_failed env q None (broken_info name) start_event)
     (lift_res VfExecutionFault
        (verification_execution env q d VxFailed started now None [] (Some (broken_info name)))))"

definition report_completed ::
  "'s verifier_env \<Rightarrow> VerificationRequest \<Rightarrow> VerifierDescriptor \<Rightarrow> timestamp \<Rightarrow> uuid \<Rightarrow> VerifierResult \<Rightarrow>
   ('s, VerificationExecution) verifier_comp" where
  "report_completed env q d started start_event r =
     andthen (verifier_emit env q (Some start_event) (VfCompleted r))
     (lift_res VfExecutionFault
        (verification_execution env q d VxCompleted started (vr_finished_at r) (Some r)
           (vr_evidence_artifacts r) None))"

text \<open>The start is announced; a payload without a proper hash is a persistence fault as well.\<close>

definition announce_start ::
  "'s verifier_env \<Rightarrow> VerificationRequest \<Rightarrow> timestamp \<Rightarrow> ('s, uuid) verifier_comp" where
  "announce_start env q started =
     (let hash = vf_configuration_hash env (vq_configuration q) in
      if \<not> sha256_hex hash then throw VfPersistence
      else verifier_emit env q (vq_causation_event_id q)
        (VfStarted (vq_verification_id q) (vq_verifier_id q) (vq_verifier_version q)
           (request_subject_ref q) started hash))"

definition run_verifier ::
  "'s verifier_env \<Rightarrow> VerificationRequest \<Rightarrow> verifier_port \<Rightarrow> ('s, VerificationExecution) verifier_comp" where
  "run_verifier env q v = (let d = vp_descriptor v in
     bnd (ask_env (lg_now env)) (\<lambda>started.
     bnd (announce_start env q started) (\<lambda>start_event.
     bnd (ask_env (\<lambda>t. judge_reply d q (vp_verify v t q))) (\<lambda>attempt. case attempt of
         AttemptPassed r \<Rightarrow> report_completed env q d started start_event r
       | AttemptTimedOut \<Rightarrow> report_timeout env q d started start_event
       | AttemptFailed name \<Rightarrow> report_broken env q d started start_event name
       | AttemptCancelled \<Rightarrow> throw VfCancelled))))"

definition verification_refused ::
  "'s verifier_env \<Rightarrow> VerificationRequest \<Rightarrow> VerifierDescriptor \<Rightarrow> verifier_error option" where
  "verification_refused env q d = first_error
     [(vd_maximum_input_bytes d < dumps_length (vf_float_length env) (vf_subject_json env (vq_subject q)),
       VfInputTooLarge),
      (\<not> sc_schema_ok (vf_checker env) (JObj (vd_configuration_schema d)) \<or>
       \<not> sc_instance_ok (vf_checker env) (JObj (vd_configuration_schema d)) (JObj (vq_configuration q)),
       VfConfigurationInvalid)]"

definition execute_verification ::
  "'s verifier_env \<Rightarrow> VerificationRequest \<Rightarrow> ('s, VerificationExecution) verifier_comp" where
  "execute_verification env q =
     bnd (lift_res VfRegistryFault (verifier_require (vf_registry env) (vq_verifier_id q) (vq_verifier_version q)))
       (\<lambda>v. case verification_refused env q (vp_descriptor v) of
          Some e \<Rightarrow> throw e
        | None \<Rightarrow> run_verifier env q v)"

end
