(* ===== verification/Verifier_Props.thy ===== *)
theory Verifier_Props
  imports Verifier_Plane
begin

text \<open>
  Properties of the verifier plane: the registry and what selection depends on, the lifecycle every
  verification stream follows, and what an execution says of it.
\<close>

section \<open>Well-formed registries\<close>

text \<open>A verifier's descriptor is a sealed contract; the keys are the descriptors' own, and no key is both
  available and unavailable.\<close>

definition sealed_verifier :: "(VerifierDescriptor \<Rightarrow> string) \<Rightarrow> verifier_port \<Rightarrow> bool" where
  "sealed_verifier digest v \<longleftrightarrow> seal_verifier digest (vp_descriptor v) = Inr (vp_descriptor v)"

definition verifiers_ok :: "(VerifierDescriptor \<Rightarrow> string) \<Rightarrow> VerifierRegistry \<Rightarrow> bool" where
  "verifiers_ok digest r \<longleftrightarrow> dict_ok (vg_verifiers r) \<and> dict_ok (vg_unavailable r) \<and>
     fst ` set (vg_verifiers r) \<inter> fst ` set (vg_unavailable r) = {} \<and>
     (\<forall>(k, v) \<in> set (vg_verifiers r). k = verifier_key v \<and> sealed_verifier digest v) \<and>
     (\<forall>(k, u) \<in> set (vg_unavailable r). k = descriptor_key (fst u))"

lemma verifiers_ok_empty: "verifiers_ok digest empty_verifiers"
  by (simp add: verifiers_ok_def empty_verifiers_def)

lemma verifier_register_ok:
  assumes "verifiers_ok digest r" "sealed_verifier digest v" "verifier_register digest schema_ok r v = Inr r'"
  shows "verifiers_ok digest r'"
proof -
  let ?k = "descriptor_key (vp_descriptor v)"
  from assms(3) have free: "\<not> verifier_taken r ?k"
    and r': "r' = r\<lparr>vg_verifiers := dict_set (vg_verifiers r) ?k v\<rparr>"
    by (auto simp: verifier_register_def Let_def split: if_splits)
  from free have "dict_set (vg_verifiers r) ?k v = vg_verifiers r @ [(?k, v)]"
    by (intro dict_set_new) (simp add: verifier_taken_def)
  with free assms(1,2) show ?thesis
    by (auto simp: verifiers_ok_def verifier_taken_def r' verifier_key_def)
qed

lemma register_unavailable_ok:
  assumes "verifiers_ok digest r" "register_unavailable r u = Inr r'"
  shows "verifiers_ok digest r'"
proof -
  let ?k = "descriptor_key (fst u)"
  from assms(2) have free: "\<not> verifier_taken r ?k"
    and r': "r' = r\<lparr>vg_unavailable := dict_set (vg_unavailable r) ?k u\<rparr>"
    by (auto simp: register_unavailable_def Let_def split: if_splits)
  from free have "dict_set (vg_unavailable r) ?k u = vg_unavailable r @ [(?k, u)]"
    by (intro dict_set_new) (simp add: verifier_taken_def)
  with free assms(1) show ?thesis
    by (auto simp: verifiers_ok_def verifier_taken_def r')
qed

lemma dict_items_get: "dict_ok d \<Longrightarrow> set d = {(k, v). dict_get d k = Some v}"
  by (auto simp: map_of_eq_Some_iff)

lemma same_items: "dict_ok d \<Longrightarrow> dict_ok d' \<Longrightarrow> dict_get d = dict_get d' \<Longrightarrow> set d = set d'"
  by (simp only: dict_items_get)

lemma set_list_available:
  assumes "verifiers_ok digest r"
  shows "set (list_available r) = {d. \<exists>v. verifier_get r (descriptor_key d) = Some v \<and> vp_descriptor v = d}"
proof -
  have "dict_ok (vg_verifiers r)" and keys: "\<forall>(k, v) \<in> set (vg_verifiers r). k = verifier_key v"
    using assms by (auto simp: verifiers_ok_def)
  then show ?thesis
    by (force simp: list_available_def verifier_get_def verifier_key_def map_of_eq_Some_iff image_iff)
qed

lemma distinct_map_sort_key: "distinct (map f (sort_key f xs)) \<longleftrightarrow> distinct (map f xs)"
  by (simp add: distinct_map)

text \<open>Two lists with the same elements and distinct keys are sorted by key into the same list.\<close>

lemma sort_key_unique:
  fixes f :: "'a \<Rightarrow> 'k::linorder"
  assumes "set xs = set ys" "distinct (map f xs)" "distinct (map f ys)"
  shows "sort_key f xs = sort_key f ys"
proof -
  have "map f (sort_key f xs) = map f (sort_key f ys)"
    by (rule sorted_distinct_set_unique) (use assms in \<open>simp_all add: distinct_map_sort_key\<close>)
  moreover have "inj_on f (set (sort_key f xs) \<union> set (sort_key f ys))"
    using assms(1,2) by (simp add: distinct_map)
  ultimately show ?thesis by (rule map_inj_on)
qed

lemma distinct_descriptor_keys:
  assumes "verifiers_ok digest r"
  shows "distinct (map descriptor_key (map (vp_descriptor \<circ> snd) (vg_verifiers r) @
    map (fst \<circ> snd) (vg_unavailable r)))"
proof -
  have "map descriptor_key (map (vp_descriptor \<circ> snd) (vg_verifiers r)) = map fst (vg_verifiers r)"
    using assms by (auto simp: verifiers_ok_def verifier_key_def)
  moreover have "map descriptor_key (map (fst \<circ> snd) (vg_unavailable r)) = map fst (vg_unavailable r)"
    using assms by (auto simp: verifiers_ok_def)
  ultimately show ?thesis using assms by (simp only: map_append) (auto simp: verifiers_ok_def)
qed

lemma distinct_available_keys:
  assumes "verifiers_ok digest r"
  shows "distinct (map descriptor_key (map (vp_descriptor \<circ> snd) (vg_verifiers r)))"
  using distinct_descriptor_keys [OF assms] unfolding map_append distinct_append by blast

text \<open>The registries that hold the same verifiers, whatever the order of registration.\<close>

definition same_verifiers :: "VerifierRegistry \<Rightarrow> VerifierRegistry \<Rightarrow> bool" where
  "same_verifiers r r' \<longleftrightarrow> verifier_get r = verifier_get r' \<and>
     dict_get (vg_unavailable r) = dict_get (vg_unavailable r')"

lemma same_verifiers_items:
  assumes "verifiers_ok digest r" "verifiers_ok digest r'" "same_verifiers r r'"
  shows "set (vg_verifiers r) = set (vg_verifiers r')" "set (vg_unavailable r) = set (vg_unavailable r')"
proof -
  have "dict_get (vg_verifiers r) = dict_get (vg_verifiers r')"
    using assms(3) by (simp add: same_verifiers_def verifier_get_def fun_eq_iff)
  then show "set (vg_verifiers r) = set (vg_verifiers r')"
    using assms(1,2) by (intro same_items) (simp_all add: verifiers_ok_def)
  show "set (vg_unavailable r) = set (vg_unavailable r')"
    using assms by (intro same_items) (simp_all add: verifiers_ok_def same_verifiers_def)
qed

lemma same_verifiers_lists:
  assumes "verifiers_ok digest r" "verifiers_ok digest r'" "same_verifiers r r'"
  shows "verifier_list_all r = verifier_list_all r'" "list_available r = list_available r'"
proof -
  note items = same_verifiers_items [OF assms]
  show "verifier_list_all r = verifier_list_all r'"
    unfolding verifier_list_all_def
    by (rule sort_key_unique [OF _ distinct_descriptor_keys [OF assms(1)] distinct_descriptor_keys [OF assms(2)]])
      (simp add: items)
  show "list_available r = list_available r'"
    unfolding list_available_def
    by (rule sort_key_unique [OF _ distinct_available_keys [OF assms(1)] distinct_available_keys [OF assms(2)]])
      (simp add: items)
qed

text \<open>Neither the listing of the registry, nor its snapshot hash, nor the verifier selected for a
  criterion depends on the order in which the verifiers were registered.\<close>

theorem selection_ignores_registration_order:
  assumes "verifiers_ok digest r" "verifiers_ok digest r'" "same_verifiers r r'"
  shows "verifier_list_all r = verifier_list_all r' \<and>
    verifier_snapshot snapshot_digest r = verifier_snapshot snapshot_digest r' \<and>
    select_verifier r c dm subject_type version priority net box =
    select_verifier r' c dm subject_type version priority net box"
proof -
  note items = same_verifiers_items [OF assms] and lists = same_verifiers_lists [OF assms]
  have "verifier_require r i v = verifier_require r' i v" for i v
    using assms(3) items(2) by (simp add: verifier_require_def same_verifiers_def)
  then show ?thesis
    by (simp add: lists items(1) verifier_snapshot_def select_verifier_def selection_candidates_def
        list_capable_def)
qed

section \<open>Selection\<close>

definition eligible ::
  "VerifierRegistry \<Rightarrow> AcceptanceCriterion \<Rightarrow> ProblemDomain \<Rightarrow> string \<Rightarrow> string \<Rightarrow> bool \<Rightarrow> bool \<Rightarrow> VerifierDescriptor \<Rightarrow> bool" where
  "eligible r c dm subject_type version net box d \<longleftrightarrow>
     (\<exists>v. verifier_get r (descriptor_key d) = Some v \<and> vp_descriptor v = d) \<and>
     verifier_permitted net box d \<and>
     (if str_truthy (ac_verifier_id c) then descriptor_key d = (the (ac_verifier_id c), version)
      else capable subject_type dm (ac_criterion_type c) d)"

lemma ranked_candidates_hd:
  assumes "sorted (map descriptor_key cs)"
  shows "ranked_candidates priority cs = d # ds \<Longrightarrow> d \<in> set cs \<and>
      (\<exists>i < length priority. vd_verifier_id d = priority ! i \<and>
        (\<forall>j < i. \<forall>d' \<in> set cs. vd_verifier_id d' \<noteq> priority ! j)) \<and>
      (\<forall>d' \<in> set cs. vd_verifier_id d' = vd_verifier_id d \<longrightarrow> vd_version d \<le> vd_version d')"
proof (induction priority)
  case (Cons p priority)
  let ?here = "filter (\<lambda>d. vd_verifier_id d = p) cs"
  have split: "ranked_candidates (p # priority) cs = ?here @ ranked_candidates priority cs"
    by (simp add: ranked_candidates_def)
  show ?case
  proof (cases ?here)
    case Nil
    then have none: "\<forall>d' \<in> set cs. vd_verifier_id d' \<noteq> p" by (simp add: filter_empty_conv)
    from Cons Nil split obtain i where i: "d \<in> set cs" "i < length priority" "vd_verifier_id d = priority ! i"
      "\<forall>j < i. \<forall>d' \<in> set cs. vd_verifier_id d' \<noteq> priority ! j"
      "\<forall>d' \<in> set cs. vd_verifier_id d' = vd_verifier_id d \<longrightarrow> vd_version d \<le> vd_version d'" by auto
    have "\<forall>j < Suc i. \<forall>d' \<in> set cs. vd_verifier_id d' \<noteq> (p # priority) ! j"
      using i(4) none by (auto simp: nth_Cons split: nat.split)
    with i show ?thesis by (intro conjI exI [of _ "Suc i"]) auto
  next
    case (Cons d0 rest)
    then have d: "d = d0" "d \<in> set cs" "vd_verifier_id d = p"
      using Cons.prems split by (auto simp: filter_eq_Cons_iff)
    have "sorted (map descriptor_key ?here)" using assms by (rule sorted_filter)
    then have "\<forall>d' \<in> set ?here. descriptor_key d \<le> descriptor_key d'" by (auto simp: Cons d(1))
    then have "\<forall>d' \<in> set cs. vd_verifier_id d' = vd_verifier_id d \<longrightarrow> vd_version d \<le> vd_version d'"
      by (auto simp: descriptor_key_def d(3))
    with d show ?thesis by (intro conjI exI [of _ 0]) auto
  qed
qed (simp add: ranked_candidates_def)

lemma ranked_candidates_Nil:
  "ranked_candidates priority cs = [] \<longleftrightarrow> (\<forall>d \<in> set cs. vd_verifier_id d \<notin> set priority)"
  by (induction priority) (auto simp: ranked_candidates_def filter_empty_conv)

text \<open>The choice the priority makes among a set of candidates.\<close>

definition first_choice :: "string list \<Rightarrow> VerifierDescriptor set \<Rightarrow> VerifierDescriptor \<Rightarrow> bool" where
  "first_choice priority S d \<longleftrightarrow>
     (\<exists>i < length priority. vd_verifier_id d = priority ! i \<and>
        (\<forall>j < i. \<forall>d' \<in> S. vd_verifier_id d' \<noteq> priority ! j)) \<and>
     (\<forall>d' \<in> S. vd_verifier_id d' = vd_verifier_id d \<longrightarrow> vd_version d \<le> vd_version d')"

lemma first_choice_unique:
  assumes "first_choice priority S d" "first_choice priority S e" "d \<in> S" "e \<in> S" "inj_on descriptor_key S"
  shows "d = e"
proof -
  from assms(1) obtain i where i: "vd_verifier_id d = priority ! i"
    "\<forall>j < i. \<forall>d' \<in> S. vd_verifier_id d' \<noteq> priority ! j" by (auto simp: first_choice_def)
  from assms(2) obtain j where j: "vd_verifier_id e = priority ! j"
    "\<forall>i < j. \<forall>d' \<in> S. vd_verifier_id d' \<noteq> priority ! i" by (auto simp: first_choice_def)
  have "i = j" using i j assms(3,4) by (meson linorder_neqE_nat)
  then have "vd_verifier_id d = vd_verifier_id e" using i(1) j(1) by simp
  moreover from this have "vd_version d = vd_version e"
    using assms(1-4) by (simp add: first_choice_def order_antisym)
  ultimately show ?thesis using assms(3-5) by (auto simp: inj_on_def descriptor_key_def)
qed

lemma pick_exact:
  assumes "sorted (map descriptor_key cs)" "distinct cs" "inj_on descriptor_key (set cs)"
  shows "(case cs of [] \<Rightarrow> Inl NoCapableVerifier | [d] \<Rightarrow> Inr d
      | candidates \<Rightarrow> (case ranked_candidates priority candidates of
           [] \<Rightarrow> Inl AmbiguousVerifier | d # _ \<Rightarrow> Inr d)) = Inr d \<longleftrightarrow>
    d \<in> set cs \<and> (set cs = {d} \<or> first_choice priority (set cs) d)" (is "?picked = _ \<longleftrightarrow> _")
proof -
  consider "cs = []" | x where "cs = [x]" | x y zs where "cs = x # y # zs" by (metis list.exhaust)
  then show ?thesis
  proof cases
    case 3
    then have many: "set cs \<noteq> {d}" using assms(2) by auto
    show ?thesis
    proof (cases "ranked_candidates priority cs")
      case Nil
      then have "\<forall>d \<in> set cs. vd_verifier_id d \<notin> set priority" by (simp add: ranked_candidates_Nil)
      then have "\<not> (d \<in> set cs \<and> first_choice priority (set cs) d)"
        by (auto simp: first_choice_def)
      moreover have "?picked = Inl AmbiguousVerifier" using Nil by (simp add: 3)
      ultimately show ?thesis using many by simp
    next
      case (Cons e es)
      from ranked_candidates_hd [OF assms(1) this]
      have e: "e \<in> set cs" "first_choice priority (set cs) e" by (simp_all add: first_choice_def)
      with first_choice_unique [OF _ e(2) _ e(1) assms(3), of d]
      have "d \<in> set cs \<and> first_choice priority (set cs) d \<longleftrightarrow> e = d" by blast
      moreover have "?picked = Inr e" using Cons by (simp add: 3)
      ultimately show ?thesis using many by simp
    qed
  qed auto
qed

lemma selection_found:
  assumes "verifiers_ok digest r"
  shows "(case selection_candidates r c dm subject_type version of Inl _ \<Rightarrow> {}
      | Inr found \<Rightarrow> set (filter (verifier_permitted net box) found)) =
    Collect (eligible r c dm subject_type version net box)"
proof -
  have key: "verifier_get r k = Some v \<Longrightarrow> k = descriptor_key (vp_descriptor v)" for k v
    using assms by (auto simp: verifiers_ok_def verifier_get_def verifier_key_def dest: map_of_SomeD)
  have missing: "k \<in> fst ` set (vg_unavailable r) \<Longrightarrow> verifier_get r k = None" for k
    using assms by (auto simp: verifiers_ok_def verifier_get_def map_of_eq_None_iff)
  show ?thesis
  proof (cases "str_truthy (ac_verifier_id c)")
    case True
    let ?k = "(the (ac_verifier_id c), version)"
    show ?thesis
    proof (cases "verifier_get r ?k")
      case None
      then have "\<not> eligible r c dm subject_type version net box d" for d
        using True by (auto simp: eligible_def)
      with None True show ?thesis by (simp add: selection_candidates_def verifier_require_def)
    next
      case (Some v)
      then have "?k \<notin> fst ` set (vg_unavailable r)" using missing by fastforce
      moreover have "eligible r c dm subject_type version net box d \<longleftrightarrow>
          d = vp_descriptor v \<and> verifier_permitted net box d" for d
        using True Some key [OF Some, symmetric] by (auto simp: eligible_def)
      ultimately show ?thesis using True Some
        by (auto simp: selection_candidates_def verifier_require_def)
    qed
  next
    case False
    then show ?thesis
      by (auto simp: selection_candidates_def list_capable_def set_list_available [OF assms] eligible_def)
  qed
qed

lemma selection_sorted:
  assumes "verifiers_ok digest r" "selection_candidates r c dm subject_type version = Inr found"
  shows "sorted (map descriptor_key found)" "distinct (map descriptor_key found)"
proof -
  have "distinct (map descriptor_key (list_available r))"
    unfolding list_available_def distinct_map_sort_key by (rule distinct_available_keys [OF assms(1)])
  then show "sorted (map descriptor_key found)" "distinct (map descriptor_key found)"
    using assms(2)
    by (auto simp: selection_candidates_def list_capable_def list_available_def sorted_filter
        distinct_map_filter split: if_splits sum.splits)
qed

text \<open>C36. Selection is exact: the verifier chosen is registered, permitted and either the one the criterion
  names or capable of it; it is chosen because it is the only such verifier or because it comes first
  in the priority, in its smallest version.\<close>

theorem selected_verifier_exact:
  assumes "verifiers_ok digest r"
  shows "select_verifier r c dm subject_type version priority net box = Inr d \<longleftrightarrow>
    eligible r c dm subject_type version net box d \<and>
    ((\<forall>d'. eligible r c dm subject_type version net box d' \<longrightarrow> d' = d) \<or>
     first_choice priority (Collect (eligible r c dm subject_type version net box)) d)"
proof (cases "selection_candidates r c dm subject_type version")
  case (Inl e)
  with selection_found [OF assms, where c = c and dm = dm and subject_type = subject_type
      and version = version and net = net and box = box]
  show ?thesis by (simp add: select_verifier_def)
next
  case (Inr found)
  let ?cs = "filter (verifier_permitted net box) found"
  have S: "set ?cs = Collect (eligible r c dm subject_type version net box)"
    using selection_found [OF assms, where c = c and dm = dm and subject_type = subject_type
      and version = version and net = net and box = box] by (simp add: Inr)
  note sorted = selection_sorted [OF assms Inr]
  have "sorted (map descriptor_key ?cs)" "distinct (map descriptor_key ?cs)"
    using sorted by (auto simp: sorted_filter distinct_map_filter)
  then have "sorted (map descriptor_key ?cs)" "distinct ?cs" "inj_on descriptor_key (set ?cs)"
    by (simp_all only: distinct_map)
  from pick_exact [OF this, of priority d]
  have "select_verifier r c dm subject_type version priority net box = Inr d \<longleftrightarrow>
      d \<in> set ?cs \<and> (set ?cs = {d} \<or> first_choice priority (set ?cs) d)"
    by (simp add: select_verifier_def Inr)
  then show ?thesis unfolding S by auto
qed

section \<open>The lifecycle of a verification\<close>

datatype verify_status = VfNew | VfRunning | VfDone VerifierResult | VfBroken ErrorInfo

fun verify_step :: "verify_status \<Rightarrow> verifier_payload \<Rightarrow> verify_status option" where
  "verify_step VfNew (VfStarted _ _ _ _ _ _) = Some VfRunning"
| "verify_step VfRunning (VfCompleted r) = Some (VfDone r)"
| "verify_step VfRunning (VfFailed _ _ e) = Some (VfBroken e)"
| "verify_step _ _ = None"

text \<open>The statuses in which an exception may leave the stream.\<close>

fun refused_status :: "verifier_error \<Rightarrow> verify_status set" where
  "refused_status (VfRegistryFault _) = {VfNew}"
| "refused_status VfInputTooLarge = {VfNew}"
| "refused_status VfConfigurationInvalid = {VfNew}"
| "refused_status VfPersistence = {VfNew, VfRunning}"
| "refused_status VfCancelled = {VfRunning}"
| "refused_status (VfContract _) = {VfRunning}"
| "refused_status (VfExecutionFault _) = {}"

text \<open>What an execution says is what the stream records.\<close>

definition recorded :: "VerificationRequest \<Rightarrow> VerificationExecution \<Rightarrow> verify_status \<Rightarrow> bool" where
  "recorded q x st \<longleftrightarrow>
     vx_verification_id x = vq_verification_id q \<and> vx_verifier_id x = vq_verifier_id q \<and>
     vx_verifier_version x = vq_verifier_version q \<and> execution_error x = None \<and>
     (case st of
        VfDone r \<Rightarrow> vx_status x = VxCompleted \<and> vx_result x = Some r \<and>
          vr_verifier_id r = vq_verifier_id q \<and> vr_verifier_version r = vq_verifier_version q \<and>
          vs_subject_type (vr_subject r) = vsub_subject_type (vq_subject q)
      | VfBroken e \<Rightarrow> vx_status x \<in> {VxTimedOut, VxFailed} \<and> vx_error x = Some e \<and>
          (\<forall>r. vx_result x = Some r \<longrightarrow> vr_status r = VError)
      | _ \<Rightarrow> False)"

lemma lower_not_space: "lower_char c \<Longrightarrow> \<not> py_space c"
  by (auto simp: lower_char_def py_space_def Let_def)

lemma sealed_identity:
  assumes "sealed_verifier digest v"
  shows "non_empty_str (vd_verifier_id (vp_descriptor v))" "non_empty_str (vd_version (vp_descriptor v))"
proof -
  have ok: "tool_id_ok (vd_verifier_id (vp_descriptor v))" "non_empty_str (vd_version (vp_descriptor v))"
    using assms by (auto simp: sealed_verifier_def seal_verifier_def first_error_None_iff
        split: option.splits if_splits)
  show "non_empty_str (vd_version (vp_descriptor v))" by (rule ok)
  show "non_empty_str (vd_verifier_id (vp_descriptor v))"
    using ok(1) by (auto simp: tool_id_ok_def lower_not_space non_empty_str_Cons split: list.splits)
qed

end
