(* ===== verification/Verifier_Lifecycle.thy ===== *)
theory Verifier_Lifecycle
  imports Verifier_Props
begin

text \<open>
  The refinement of the verification lifecycle: whatever the registry, the verifier, the clocks and the
  store answer, the events \<open>VerificationService.execute\<close> writes are a run of the lifecycle, and the
  execution it returns says what the stream records.
\<close>

locale verifier_runs = versioned_log append_events history wf_store version_of
  for append_events :: "'s \<Rightarrow> verifier_payload EventEnvelope list \<Rightarrow> int \<Rightarrow> 's \<times> (store_error + AppendResult)"
    and history :: "'s \<Rightarrow> uuid \<Rightarrow> verifier_payload EventEnvelope list"
    and wf_store :: "'s \<Rightarrow> bool" and version_of :: "'s \<Rightarrow> uuid \<Rightarrow> int option" +
  fixes env :: "'s verifier_env"
  assumes env_append: "lg_append env = append_events" and env_version: "lg_version env = version_of"
begin

definition in_status ::
  "VerificationRequest \<Rightarrow> (uuid \<Rightarrow> verifier_payload EventEnvelope list) \<Rightarrow> verify_status \<Rightarrow> 's log_state \<Rightarrow> bool" where
  "in_status q others st s \<longleftrightarrow> in_log verify_step VfNew (vq_verification_id q) others st s"

definition refused_in ::
  "VerificationRequest \<Rightarrow> (uuid \<Rightarrow> verifier_payload EventEnvelope list) \<Rightarrow> verifier_error \<Rightarrow> 's log_state \<Rightarrow> bool" where
  "refused_in q others e s \<longleftrightarrow> (\<exists>st \<in> refused_status e. in_status q others st s)"

definition recorded_in ::
  "VerificationRequest \<Rightarrow> (uuid \<Rightarrow> verifier_payload EventEnvelope list) \<Rightarrow> VerificationExecution \<Rightarrow> 's log_state \<Rightarrow> bool" where
  "recorded_in q others x s \<longleftrightarrow> (\<exists>st. in_status q others st s \<and> recorded q x st)"

lemma ask_in: "triple (in_status q others st) (ask_env f) (\<lambda>_. in_status q others st) E"
  unfolding in_status_def by (rule ask_env_in)

text \<open>The value asked for is one of the environment's answers.\<close>

lemma ask_from: "triple (in_status q others st) (ask_env f) (\<lambda>x s. in_status q others st s \<and> (\<exists>t. x = f t)) E"
  by (rule tripleI) (auto simp: ask_env_def in_status_def in_log_def log_of_def)

lemma emit_in:
  assumes "verify_step st p = Some st'" "st \<in> refused_status VfPersistence"
  shows "triple (in_status q others st) (verifier_emit env q cause p) (\<lambda>_. in_status q others st') (refused_in q others)"
  unfolding verifier_emit_def
proof (rule triple_conseq [OF log_emit_in])
  show "lg_append env = append_events" "lg_version env = version_of" by (rule env_append env_version)+
  show "verify_step st p = Some st'" by (rule assms)
qed (use assms(2) in \<open>auto simp: refused_in_def in_status_def\<close>)

lemma announce_in:
  "triple (in_status q others VfNew) (announce_start env q started)
     (\<lambda>_ s. in_status q others VfRunning s \<and> sha256_hex (vf_configuration_hash env (vq_configuration q)))
     (refused_in q others)"
proof -
  have "triple (in_status q others VfNew) (verifier_emit env q (vq_causation_event_id q)
      (VfStarted (vq_verification_id q) (vq_verifier_id q) (vq_verifier_version q) (request_subject_ref q) started
        (vf_configuration_hash env (vq_configuration q)))) (\<lambda>_. in_status q others VfRunning) (refused_in q others)"
    by (rule emit_in) simp_all
  then show ?thesis
    unfolding announce_start_def Let_def
    by (intro triple_if) (auto intro: triple_throw triple_post simp: refused_in_def)
qed

lemma persist_failed_in:
  "triple (in_status q others VfRunning) (persist_failed env q r e cause) (\<lambda>_. in_status q others (VfBroken e))
     (refused_in q others)"
  unfolding persist_failed_def by (rule triple_bnd [OF ask_in], rule emit_in) simp_all

text \<open>An execution of a terminal status that fits its evidence is always well formed.\<close>

definition sound_port :: "VerificationRequest \<Rightarrow> verifier_port \<Rightarrow> bool" where
  "sound_port q v \<longleftrightarrow> verifier_key v = (vq_verifier_id q, vq_verifier_version q) \<and>
     non_empty_str (vq_verifier_id q) \<and> non_empty_str (vq_verifier_version q)"

lemma execution_recorded:
  assumes "sound_port q v" "sha256_hex (vf_configuration_hash env (vq_configuration q))"
    and "\<And>x. \<lbrakk>vx_verification_id x = vq_verification_id q; vx_verifier_id x = vq_verifier_id q;
        vx_verifier_version x = vq_verifier_version q; vx_status x = status; vx_result x = result;
        vx_error x = err; vx_finished_at x = Some finished;
        sha256_hex (vx_configuration_hash x)\<rbrakk> \<Longrightarrow> recorded q x st"
  shows "triple (in_status q others st) (lift_res VfExecutionFault
    (verification_execution env q (vp_descriptor v) status started finished result evidence err))
    (recorded_in q others) (refused_in q others)"
proof -
  let ?x = "\<lparr>vx_verification_id = vq_verification_id q, vx_verifier_id = vd_verifier_id (vp_descriptor v),
     vx_verifier_version = vd_version (vp_descriptor v), vx_status = status, vx_started_at = Some started,
     vx_finished_at = Some finished, vx_result = result, vx_evidence_artifacts = evidence,
     vx_configuration_hash = vf_configuration_hash env (vq_configuration q), vx_error = err\<rparr>"
  have rec: "recorded q ?x st"
    using assms(1,2) by (intro assms(3)) (simp_all add: sound_port_def verifier_key_def descriptor_key_def)
  then have "execution_error ?x = None" unfolding recorded_def by blast
  then have "verification_execution env q (vp_descriptor v) status started finished result evidence err = Inr ?x"
    by (simp add: verification_execution_def construct_def)
  with rec show ?thesis by (auto intro!: triple_lift_res simp: recorded_in_def)
qed

lemma report_timeout_in:
  assumes "sound_port q v" "sha256_hex (vf_configuration_hash env (vq_configuration q))"
  shows "triple (in_status q others VfRunning) (report_timeout env q (vp_descriptor v) started cause)
    (recorded_in q others) (refused_in q others)"
proof -
  have "recorded q x (VfBroken timeout_info)"
    if "vx_verification_id x = vq_verification_id q" "vx_verifier_id x = vq_verifier_id q"
      "vx_verifier_version x = vq_verifier_version q" "vx_status x = VxTimedOut" "vx_result x = Some r"
      "vx_error x = Some timeout_info" "vx_finished_at x = Some now" "sha256_hex (vx_configuration_hash x)"
      "vr_status r = VError" for x r now
    using that assms(1) by (simp add: recorded_def execution_error_def first_error_None_iff execution_terminal_def
        sound_port_def)
  note ended = execution_recorded [OF assms this]
  have "triple (in_status q others VfRunning) (lift_res VfContract r)
      (\<lambda>x s. in_status q others VfRunning s \<and> r = Inr x) (refused_in q others)" for r
    by (rule triple_lift_res) (auto simp: refused_in_def)
  note lifted = this
  show ?thesis
    unfolding report_timeout_def
  proof (rule triple_bnd [OF ask_in])
    fix nr :: "timestamp \<times> uuid"
    obtain now result_id where nr: "nr = (now, result_id)" by fastforce
    have "triple (\<lambda>s. in_status q others VfRunning s \<and> timeout_result q (vp_descriptor v) result_id started now = Inr r)
        (andthen (persist_failed env q (Some r) timeout_info cause) (lift_res VfExecutionFault
          (verification_execution env q (vp_descriptor v) VxTimedOut started now (Some r) [] (Some timeout_info))))
        (recorded_in q others) (refused_in q others)" for r
    proof (rule triple_pure, rule triple_andthen [OF persist_failed_in], rule ended)
      assume "timeout_result q (vp_descriptor v) result_id started now = Inr r"
      then show "vr_status r = VError" by (auto simp: timeout_result_def construct_Inr)
    qed
    then show "triple (in_status q others VfRunning) (case nr of (now, result_id) \<Rightarrow>
        bnd (lift_res VfContract (timeout_result q (vp_descriptor v) result_id started now)) (\<lambda>r.
        andthen (persist_failed env q (Some r) timeout_info cause)
        (lift_res VfExecutionFault (verification_execution env q (vp_descriptor v) VxTimedOut started now (Some r) []
           (Some timeout_info))))) (recorded_in q others) (refused_in q others)"
      unfolding nr prod.case by (rule triple_bnd [OF lifted])
  qed
qed

lemma report_broken_in:
  assumes "sound_port q v" "sha256_hex (vf_configuration_hash env (vq_configuration q))"
  shows "triple (in_status q others VfRunning) (report_broken env q (vp_descriptor v) started cause name)
    (recorded_in q others) (refused_in q others)"
proof -
  have "recorded q x (VfBroken (broken_info name))"
    if "vx_verification_id x = vq_verification_id q" "vx_verifier_id x = vq_verifier_id q"
      "vx_verifier_version x = vq_verifier_version q" "vx_status x = VxFailed" "vx_result x = None"
      "vx_error x = Some (broken_info name)" "vx_finished_at x = Some now" "sha256_hex (vx_configuration_hash x)" for x now
    using that assms(1) by (simp add: recorded_def execution_error_def first_error_None_iff execution_terminal_def
        sound_port_def)
  note ended = execution_recorded [OF assms this]
  show ?thesis
    unfolding report_broken_def
    by (rule triple_bnd [OF ask_in], rule triple_andthen [OF persist_failed_in], rule ended)
qed

lemma report_completed_in:
  assumes "sound_port q v" "sha256_hex (vf_configuration_hash env (vq_configuration q))"
    and "judge_reply (vp_descriptor v) q reply = AttemptPassed r"
  shows "triple (in_status q others VfRunning) (report_completed env q (vp_descriptor v) started cause r)
    (recorded_in q others) (refused_in q others)"
proof -
  have r: "vr_verifier_id r = vq_verifier_id q" "vr_verifier_version r = vq_verifier_version q"
    "vs_subject_type (vr_subject r) = vsub_subject_type (vq_subject q)"
    using assms(1,3) by (cases reply; auto simp: sound_port_def verifier_key_def descriptor_key_def split: if_splits)+
  have "recorded q x (VfDone r)"
    if "vx_verification_id x = vq_verification_id q" "vx_verifier_id x = vq_verifier_id q"
      "vx_verifier_version x = vq_verifier_version q" "vx_status x = VxCompleted" "vx_result x = Some r"
      "vx_error x = None" "vx_finished_at x = Some now" "sha256_hex (vx_configuration_hash x)" for x now
    using that assms(1) r by (simp add: recorded_def execution_error_def first_error_None_iff execution_terminal_def
        sound_port_def)
  note ended = execution_recorded [OF assms(1,2) this]
  show ?thesis
    unfolding report_completed_def
    by (rule triple_andthen [OF emit_in], simp, simp, rule ended)
qed

lemma run_verifier_in:
  assumes "sound_port q v"
  shows "triple (in_status q others VfNew) (run_verifier env q v) (recorded_in q others) (refused_in q others)"
proof -
  let ?hash = "sha256_hex (vf_configuration_hash env (vq_configuration q))"
  have attempt: "triple (\<lambda>s. in_status q others VfRunning s \<and> (\<exists>t. a = judge_reply (vp_descriptor v) q (vp_verify v t q)))
      (case a of AttemptPassed r \<Rightarrow> report_completed env q (vp_descriptor v) started cause r
       | AttemptTimedOut \<Rightarrow> report_timeout env q (vp_descriptor v) started cause
       | AttemptFailed name \<Rightarrow> report_broken env q (vp_descriptor v) started cause name
       | AttemptCancelled \<Rightarrow> throw VfCancelled) (recorded_in q others) (refused_in q others)"
    if ?hash for a started cause
  proof (rule triple_pure, elim exE)
    fix t assume a: "a = judge_reply (vp_descriptor v) q (vp_verify v t q)"
    show "triple (in_status q others VfRunning)
      (case a of AttemptPassed r \<Rightarrow> report_completed env q (vp_descriptor v) started cause r
       | AttemptTimedOut \<Rightarrow> report_timeout env q (vp_descriptor v) started cause
       | AttemptFailed name \<Rightarrow> report_broken env q (vp_descriptor v) started cause name
       | AttemptCancelled \<Rightarrow> throw VfCancelled) (recorded_in q others) (refused_in q others)"
    proof (cases a)
      case (AttemptPassed r)
      show ?thesis
        unfolding AttemptPassed verify_attempt.case
        by (rule report_completed_in [OF assms that]) (use a AttemptPassed in simp)
    next
      case AttemptCancelled
      then show ?thesis by (auto intro!: triple_throw simp: refused_in_def)
    qed (use report_timeout_in [OF assms that] report_broken_in [OF assms that] in simp_all)
  qed
  show ?thesis
    unfolding run_verifier_def Let_def
    by (rule triple_bnd [OF ask_in], rule triple_bnd [OF announce_in], rule triple_pure,
        rule triple_bnd [OF ask_from], rule attempt)
qed

text \<open>The verifiers of the registry are sealed and stand under their own keys.\<close>

definition sound_registry :: "(VerifierDescriptor \<Rightarrow> string) \<Rightarrow> bool" where
  "sound_registry digest \<longleftrightarrow> (\<forall>k v. verifier_get (vf_registry env) k = Some v \<longrightarrow>
     verifier_key v = k \<and> sealed_verifier digest v)"

lemma execute_verification_in:
  assumes "sound_registry digest"
  shows "triple (in_status q others VfNew) (execute_verification env q) (recorded_in q others) (refused_in q others)"
proof -
  have port: "sound_port q v"
    if "verifier_require (vf_registry env) (vq_verifier_id q) (vq_verifier_version q) = Inr v" for v
  proof -
    from that have "verifier_get (vf_registry env) (vq_verifier_id q, vq_verifier_version q) = Some v"
      by (auto simp: verifier_require_def split: if_splits option.splits)
    with assms have "verifier_key v = (vq_verifier_id q, vq_verifier_version q)" "sealed_verifier digest v"
      by (auto simp: sound_registry_def)
    with sealed_identity [of digest v] show ?thesis by (simp add: sound_port_def verifier_key_def descriptor_key_def)
  qed
  have refused: "refused_in q others e s"
    if "verification_refused env q d = Some e" "in_status q others VfNew s" for d e s
    using that by (auto simp: verification_refused_def refused_in_def first_error_Some split: if_splits)
  show ?thesis
    unfolding execute_verification_def
  proof (rule triple_bnd [where R = "\<lambda>v s. in_status q others VfNew s \<and>
      verifier_require (vf_registry env) (vq_verifier_id q) (vq_verifier_version q) = Inr v"])
    show "triple (in_status q others VfNew) (lift_res VfRegistryFault
        (verifier_require (vf_registry env) (vq_verifier_id q) (vq_verifier_version q)))
        (\<lambda>v s. in_status q others VfNew s \<and>
          verifier_require (vf_registry env) (vq_verifier_id q) (vq_verifier_version q) = Inr v) (refused_in q others)"
      by (rule triple_lift_res) (auto simp: refused_in_def)
  next
    fix v
    show "triple (\<lambda>s. in_status q others VfNew s \<and>
        verifier_require (vf_registry env) (vq_verifier_id q) (vq_verifier_version q) = Inr v)
      (case verification_refused env q (vp_descriptor v) of Some e \<Rightarrow> throw e | None \<Rightarrow> run_verifier env q v)
      (recorded_in q others) (refused_in q others)"
      by (rule triple_pure)
        (auto intro!: triple_throw run_verifier_in port refused split: option.split)
  qed
qed

end

definition memory_verifier_env ::
  "(int \<Rightarrow> timestamp) \<Rightarrow> verifier_payload store verifier_env \<Rightarrow> verifier_payload store verifier_env" where
  "memory_verifier_env clock env = env\<lparr>lg_append := store_append clock, lg_version := store_get_stream_version\<rparr>"

interpretation memory_verifiers: verifier_runs "store_append clock" stream_history store_ok store_get_stream_version
  "memory_verifier_env clock env"
  by (rule verifier_runs.intro [OF memory_log.versioned_log_axioms], rule verifier_runs_axioms.intro)
    (simp_all add: memory_verifier_env_def)

definition verification_history :: "VerificationRequest \<Rightarrow> verifier_payload store log_state \<Rightarrow> verifier_payload list" where
  "verification_history q s = map ev_payload (stream_history (sv_store s) (vq_verification_id q))"

text \<open>C35. Refinement of the verification lifecycle. Whatever the verifier, the clocks and the store answer,
  the events of a new verification are a run of the lifecycle (started, then completed or failed once)
  and every other stream is untouched. An execution returned is well formed, carries the identity of
  the request, and says exactly what the stream records: the completed result of the verifier asked
  about the subject given, or the recorded error and no passing result. An exception leaves the stream
  empty or running.\<close>

theorem verification_refines_lifecycle:
  assumes "store_ok (sv_store s)" "verification_history q s = []"
    and "\<forall>k v. verifier_get (vf_registry env) k = Some v \<longrightarrow> verifier_key v = k \<and> sealed_verifier digest v"
    and "execute_verification (memory_verifier_env clock env) q s = (s', r)"
  shows "\<exists>st. follow verify_step VfNew (verification_history q s') = Some st \<and>
    (\<forall>i. i \<noteq> vq_verification_id q \<longrightarrow> stream_history (sv_store s') i = stream_history (sv_store s) i) \<and>
    (case r of Inr x \<Rightarrow> recorded q x st | Inl e \<Rightarrow> st \<in> refused_status e)"
proof -
  let ?others = "stream_history (sv_store s)"
  have new: "memory_verifiers.in_status q ?others VfNew s"
    using assms(1,2) by (simp add: memory_verifiers.in_status_def memory_log.in_log_def memory_log.log_of_def
        verification_history_def)
  have "memory_verifiers.sound_registry clock env digest"
    unfolding memory_verifiers.sound_registry_def using assms(3) by (simp add: memory_verifier_env_def)
  note t = memory_verifiers.execute_verification_in [OF this, of q ?others]
  show ?thesis
  proof (cases r)
    case (Inl e)
    with triple_Inl [OF t new] assms(4) show ?thesis
      by (auto simp: memory_verifiers.refused_in_def memory_verifiers.in_status_def memory_log.in_log_def
          memory_log.log_of_def verification_history_def)
  next
    case (Inr x)
    with triple_Inr [OF t new] assms(4) show ?thesis
      by (auto simp: memory_verifiers.recorded_in_def memory_verifiers.in_status_def memory_log.in_log_def
          memory_log.log_of_def verification_history_def)
  qed
qed

section \<open>A sample verification\<close>

definition sample_verifier :: "string \<Rightarrow> verify_reply \<Rightarrow> verifier_port" where
  "sample_verifier version reply = \<lparr>vp_descriptor = \<lparr>vd_verifier_id = ''a.b'', vd_version = version,
     vd_display_name = ''A'', vd_description = ''B'', vd_kind = KindGeneric,
     vd_capabilities = [\<lparr>vcap_capability_id = ''c'', vcap_subject_type = ''structured_value'',
       vcap_problem_domains = [DomGeneric], vcap_criterion_types = [CritManual], vcap_supported_media_types = [],
       vcap_requires_sandbox = False, vcap_requires_network = False, vcap_supports_batch = False\<rparr>],
     vd_determinism = DetDeterministic, vd_requires_sandbox = False, vd_requires_network = False,
     vd_risk_level = RiskLow, vd_default_timeout_seconds = 10, vd_maximum_input_bytes = 100,
     vd_configuration_schema = [], vd_descriptor_hash = sample_hash\<rparr>, vp_verify = (\<lambda>_ _. reply)\<rparr>"

definition sample_verifiers :: "verifier_port list \<Rightarrow> VerifierRegistry" where
  "sample_verifiers vs = \<lparr>vg_verifiers = map (\<lambda>v. (verifier_key v, v)) vs, vg_unavailable = [], vg_frozen = True\<rparr>"

lemma sample_verifier_sealed: "sealed_verifier (\<lambda>_. sample_hash) (sample_verifier ''1'' VerifierTimesOut)"
  "sealed_verifier (\<lambda>_. sample_hash) (sample_verifier ''2'' VerifierTimesOut)"
  by code_simp+

definition two_versions :: VerifierRegistry where
  "two_versions = sample_verifiers [sample_verifier ''2'' VerifierTimesOut, sample_verifier ''1'' VerifierTimesOut]"

definition sample_criterion :: AcceptanceCriterion where
  "sample_criterion = \<lparr>ac_criterion_id = 1, ac_description = ''c'', ac_criterion_type = CritManual,
     ac_required = True, ac_weight = 1, ac_verifier_id = None, ac_configuration = []\<rparr>"

lemma sample_verifiers_ok: "verifiers_ok (\<lambda>_. sample_hash) (sample_verifiers [sample_verifier ''1'' VerifierTimesOut])"
  "verifiers_ok (\<lambda>_. sample_hash) two_versions"
  "verifiers_ok (\<lambda>_. sample_hash) (sample_verifiers [sample_verifier ''1'' VerifierTimesOut, sample_verifier ''2'' VerifierTimesOut])"
  using sample_verifier_sealed
  by (simp_all add: verifiers_ok_def sample_verifiers_def two_versions_def verifier_key_def descriptor_key_def
      sample_verifier_def)

lemma selection_ignores_registration_order_witness:
  "verifier_list_all two_versions = verifier_list_all (sample_verifiers
     [sample_verifier ''1'' VerifierTimesOut, sample_verifier ''2'' VerifierTimesOut])"
proof -
  have "same_verifiers two_versions (sample_verifiers
      [sample_verifier ''1'' VerifierTimesOut, sample_verifier ''2'' VerifierTimesOut])"
    by (auto simp: same_verifiers_def two_versions_def sample_verifiers_def verifier_get_def fun_eq_iff
        verifier_key_def descriptor_key_def sample_verifier_def)
  from selection_ignores_registration_order [OF sample_verifiers_ok(2,3) this] show ?thesis by blast
qed

lemma sample_selection:
  "select_verifier two_versions sample_criterion DomGeneric ''structured_value'' ''1'' [''x.y'', ''a.b''] False True =
     Inr (vp_descriptor (sample_verifier ''1'' VerifierTimesOut))"
  by code_simp

lemma selected_verifier_exact_witness:
  "first_choice [''x.y'', ''a.b''] (Collect (eligible two_versions sample_criterion DomGeneric ''structured_value''
     ''1'' False True)) (vp_descriptor (sample_verifier ''1'' VerifierTimesOut))"
proof -
  have two: "eligible two_versions sample_criterion DomGeneric ''structured_value'' ''1'' False True
      (vp_descriptor (sample_verifier ''2'' VerifierTimesOut))"
    by (auto simp: eligible_def two_versions_def sample_verifiers_def verifier_get_def verifier_key_def
        descriptor_key_def sample_verifier_def verifier_permitted_def sample_criterion_def str_truthy_def capable_def)
  have "vp_descriptor (sample_verifier ''2'' VerifierTimesOut) \<noteq> vp_descriptor (sample_verifier ''1'' VerifierTimesOut)"
    by (simp add: sample_verifier_def)
  with two selected_verifier_exact [OF sample_verifiers_ok(2), THEN iffD1, OF sample_selection]
  show ?thesis by blast
qed

definition sample_verification :: VerificationRequest where
  "sample_verification = \<lparr>vq_verification_id = 5, vq_task_run_id = 9, vq_step_id = None, vq_criterion_id = 1,
     vq_verifier_id = ''a.b'', vq_verifier_version = ''1'',
     vq_subject = \<lparr>vsub_subject_type = ''structured_value'', vsub_inline_value = JBool True,
       vsub_artifact_refs = [], vsub_workspace_path = None, vsub_source_event_ids = []\<rparr>,
     vq_configuration = [], vq_requested_at = 0, vq_correlation_id = 3, vq_causation_event_id = None\<rparr>"

definition sample_verifier_env :: "verifier_payload store verifier_env" where
  "sample_verifier_env = \<lparr>lg_append = store_append (\<lambda>n. n), lg_version = store_get_stream_version,
     lg_now = int, lg_new_id = of_nat, lg_digest = (\<lambda>_. sample_hash),
     vf_registry = sample_verifiers [sample_verifier ''1'' VerifierTimesOut],
     vf_checker = \<lparr>sc_schema_ok = (\<lambda>_. True), sc_instance_ok = (\<lambda>_ _. True)\<rparr>,
     vf_float_length = (\<lambda>_. 3), vf_subject_json = vsub_inline_value,
     vf_configuration_hash = (\<lambda>_. sample_hash)\<rparr>"

definition idle_verifications :: "verifier_payload store log_state" where
  "idle_verifications = \<lparr>sv_store = [], sv_tick = 0\<rparr>"

lemma sample_verification_times_out:
  "case snd (execute_verification sample_verifier_env sample_verification idle_verifications) of
     Inl _ \<Rightarrow> False | Inr x \<Rightarrow> vx_status x = VxTimedOut"
  by code_simp

lemma memory_sample_verifier_env: "memory_verifier_env (\<lambda>n. n) sample_verifier_env = sample_verifier_env"
  by (simp add: memory_verifier_env_def sample_verifier_env_def)

lemma verification_refines_lifecycle_witness:
  "\<exists>e. follow verify_step VfNew (verification_history sample_verification (fst (execute_verification
     sample_verifier_env sample_verification idle_verifications))) = Some (VfBroken e)"
proof -
  obtain s' r where run: "execute_verification sample_verifier_env sample_verification idle_verifications = (s', r)"
    by fastforce
  with sample_verification_times_out obtain x where x: "r = Inr x" "vx_status x = VxTimedOut"
    by (auto split: sum.splits)
  have "store_ok (sv_store idle_verifications)" "verification_history sample_verification idle_verifications = []"
    by (simp_all add: idle_verifications_def verification_history_def stream_history_def stream_events_def)
  moreover have "\<forall>k v. verifier_get (vf_registry sample_verifier_env) k = Some v \<longrightarrow>
      verifier_key v = k \<and> sealed_verifier (\<lambda>_. sample_hash) v"
    using sample_verifier_sealed(1) by (auto simp: sample_verifier_env_def sample_verifiers_def verifier_get_def)
  ultimately obtain st where "follow verify_step VfNew (verification_history sample_verification s') = Some st"
    "recorded sample_verification x st"
    using verification_refines_lifecycle [of idle_verifications sample_verification sample_verifier_env
        "\<lambda>_. sample_hash" "\<lambda>n. n" s' r, unfolded memory_sample_verifier_env] run x(1) by auto
  with run x(2) show ?thesis by (auto simp: recorded_def split: verify_status.splits)
qed

end
