(* ===== verification/Generic_Verifiers.thy ===== *)
theory Generic_Verifiers
  imports Verifier_Plane
begin

text \<open>
  The built-in generic verifiers (\<open>verification/base.py\<close>, \<open>verification/generic/\<close>) as entries of the
  registry, and how they relate to the structural check of \<open>minimal_acceptance.py\<close>: on the same
  evidence of a run the two agree about steps and tool calls, and never about artifacts.

  Parameters: the clock and the identifiers (by position), Python's \<open>str\<close> of a JSON value,
  \<open>jsonschema\<close>, and the contents of the artifact store.
\<close>

section \<open>Results and descriptors\<close>

record verifier_clock =
  vk_now :: "nat \<Rightarrow> timestamp"
  vk_new_id :: "nat \<Rightarrow> uuid"

definition base_findings :: "VerifierStatus \<Rightarrow> string \<Rightarrow> string \<Rightarrow> VerifierFinding list" where
  "base_findings status code message = (if status \<in> {VFailed, VPartial}
     then [\<lparr>vf_code = code, vf_severity = SevError, vf_message = message, vf_location = None,
       vf_evidence_artifacts = []\<rparr>] else [])"

definition base_result ::
  "verifier_clock \<Rightarrow> VerifierDescriptor \<Rightarrow> nat \<Rightarrow> VerificationRequest \<Rightarrow> VerifierStatus \<Rightarrow> string \<Rightarrow> string \<Rightarrow>
   pyfloat option \<Rightarrow> ErrorInfo option \<Rightarrow> verify_reply" where
  "base_result clock d t q status code message score err =
     (case construct verifier_result_error
        \<lparr>vr_verifier_result_id = vk_new_id clock t, vr_verifier_id = vd_verifier_id d,
         vr_verifier_version = vd_version d, vr_subject = request_subject_ref q, vr_status = status,
         vr_score = score, vr_confidence = None, vr_findings = base_findings status code message,
         vr_evidence_artifacts = [], vr_started_at = vk_now clock t, vr_finished_at = vk_now clock t,
         vr_error = err\<rparr> of
        Inl _ \<Rightarrow> VerifierRaises ''ValidationError''
      | Inr r \<Rightarrow> VerifierReturns r)"

definition default_code :: string where "default_code = ''verification.result''"
definition default_message :: string where "default_message = ''verification completed''"

text \<open>A verdict with its score: 1 for a pass, 0 for a failure.\<close>

definition base_verdict ::
  "verifier_clock \<Rightarrow> VerifierDescriptor \<Rightarrow> nat \<Rightarrow> VerificationRequest \<Rightarrow> bool \<Rightarrow> string \<Rightarrow> string \<Rightarrow> verify_reply" where
  "base_verdict clock d t q passed code message =
     base_result clock d t q (if passed then VPassed else VFailed) code message
       (Some (if passed then 1 else 0)) None"

definition base_error ::
  "verifier_clock \<Rightarrow> VerifierDescriptor \<Rightarrow> nat \<Rightarrow> VerificationRequest \<Rightarrow> string \<Rightarrow> string \<Rightarrow> verify_reply" where
  "base_error clock d t q code message =
     base_result clock d t q VError default_code default_message None (Some (mk_error_info code message))"

text \<open>\<open>str.title\<close> and \<open>str.replace\<close> on ASCII text.\<close>

definition ascii_upper :: "char \<Rightarrow> char" where
  "ascii_upper c = (if lower_char c then char_of (of_char c - 32 :: nat) else c)"

definition upper_char :: "char \<Rightarrow> bool" where
  "upper_char c \<longleftrightarrow> (let n = (of_char c :: nat) in 65 \<le> n \<and> n \<le> 90)"

fun py_title :: "bool \<Rightarrow> string \<Rightarrow> string" where
  "py_title inside [] = []"
| "py_title inside (c # cs) =
     (if lower_char c \<or> upper_char c
      then (if inside then hd (ascii_casefold [c]) else ascii_upper c) # py_title True cs
      else c # py_title False cs)"

definition dots_to_blanks :: "string \<Rightarrow> string" where
  "dots_to_blanks s = map (\<lambda>c. if c = CHR ''.'' then CHR '' '' else c) s"

fun criterion_value :: "CriterionType \<Rightarrow> string" where
  "criterion_value CritSchema = ''schema''"
| "criterion_value CritArtifactExists = ''artifact_exists''"
| "criterion_value CritStepCompleted = ''step_completed''"
| "criterion_value CritToolSucceeded = ''tool_succeeded''"
| "criterion_value CritExactMatch = ''exact_match''"
| "criterion_value CritManual = ''manual''"
| "criterion_value CritDomainVerifier = ''domain_verifier''"

definition all_domains :: "ProblemDomain list" where
  "all_domains = [DomGeneric, DomCoding, DomMathematics, DomPhysics, DomLogic, DomSemantic]"

definition generic_descriptor ::
  "(VerifierDescriptor \<Rightarrow> string) \<Rightarrow> string \<Rightarrow> string \<Rightarrow> CriterionType \<Rightarrow> VerifierDescriptor" where
  "generic_descriptor digest verifier_id subject_type crit =
     (let d = \<lparr>vd_verifier_id = verifier_id, vd_version = ''1'',
        vd_display_name = py_title False (dots_to_blanks verifier_id),
        vd_description = ''Deterministically evaluate '' @ criterion_value crit @ '' evidence.'',
        vd_kind = KindGeneric,
        vd_capabilities = [\<lparr>vcap_capability_id = verifier_id @ ''.v1'', vcap_subject_type = subject_type,
          vcap_problem_domains = all_domains, vcap_criterion_types = [crit],
          vcap_supported_media_types = [], vcap_requires_sandbox = False,
          vcap_requires_network = False, vcap_supports_batch = False\<rparr>],
        vd_determinism = DetDeterministic, vd_requires_sandbox = False, vd_requires_network = False,
        vd_risk_level = RiskLow, vd_default_timeout_seconds = 10, vd_maximum_input_bytes = 1048576,
        vd_configuration_schema = [(''type'', JStr ''object''), (''additionalProperties'', JBool True)],
        vd_descriptor_hash = []\<rparr>
      in d\<lparr>vd_descriptor_hash := verifier_hash digest d\<rparr>)"

text \<open>The truth of a JSON value in Python.\<close>

fun json_truthy :: "json \<Rightarrow> bool" where
  "json_truthy JNull = False"
| "json_truthy (JBool b) = b"
| "json_truthy (JInt i) = (i \<noteq> 0)"
| "json_truthy (JFloat x) = (x \<noteq> 0)"
| "json_truthy (JStr s) = (s \<noteq> [])"
| "json_truthy (JList vs) = (vs \<noteq> [])"
| "json_truthy (JObj kvs) = (kvs \<noteq> [])"

section \<open>Exact values\<close>

text \<open>\<open>json.dumps\<close> with sorted keys tells two values apart exactly if these forms differ.\<close>

fun canonical_json :: "json \<Rightarrow> json" where
  "canonical_json (JObj kvs) = JObj (sort_key fst (map (\<lambda>(k, v). (k, canonical_json v)) kvs))"
| "canonical_json (JList vs) = JList (map canonical_json vs)"
| "canonical_json v = v"

definition truthy_setting :: "(string, json) dict \<Rightarrow> string \<Rightarrow> bool" where
  "truthy_setting configuration k = (case dict_get configuration k of None \<Rightarrow> False | Some v \<Rightarrow> json_truthy v)"

definition normalize_value :: "(string, json) dict \<Rightarrow> json \<Rightarrow> json" where
  "normalize_value configuration v = (case v of
     JStr s \<Rightarrow>
       (let stripped = (if truthy_setting configuration ''strip_whitespace'' then py_strip s else s) in
        JStr (if dict_get configuration ''case_sensitive'' = Some (JBool False)
          then ascii_casefold stripped else stripped))
   | _ \<Rightarrow> v)"

definition exact_descriptor :: "(VerifierDescriptor \<Rightarrow> string) \<Rightarrow> VerifierDescriptor" where
  "exact_descriptor digest = generic_descriptor digest ''generic.exact'' ''structured_value'' CritExactMatch"

definition exact_verify ::
  "verifier_clock \<Rightarrow> VerifierDescriptor \<Rightarrow> nat \<Rightarrow> VerificationRequest \<Rightarrow> verify_reply" where
  "exact_verify clock d t q =
     (let configuration = vq_configuration q;
          actual = normalize_value configuration (vsub_inline_value (vq_subject q));
          expected = normalize_value configuration (dict_get_or configuration ''expected'' JNull)
      in base_verdict clock d t q (canonical_json actual = canonical_json expected)
           ''generic.exact.mismatch'' ''actual value does not exactly match the expected value'')"

section \<open>Schemas\<close>

definition schema_descriptor :: "(VerifierDescriptor \<Rightarrow> string) \<Rightarrow> VerifierDescriptor" where
  "schema_descriptor digest = generic_descriptor digest ''generic.json_schema'' ''structured_value'' CritSchema"

definition schema_verify ::
  "schema_checker \<Rightarrow> verifier_clock \<Rightarrow> VerifierDescriptor \<Rightarrow> nat \<Rightarrow> VerificationRequest \<Rightarrow> verify_reply" where
  "schema_verify sc clock d t q = (case dict_get_or (vq_configuration q) ''schema'' JNull of
     JObj schema \<Rightarrow>
       if \<not> sc_schema_ok sc (JObj schema)
       then base_error clock d t q ''invalid_schema'' ''configured JSON Schema is invalid''
       else if \<not> sc_instance_ok sc (JObj schema) (vsub_inline_value (vq_subject q))
       then base_result clock d t q VFailed ''generic.json_schema.invalid''
         ''subject does not satisfy the configured JSON Schema'' (Some 0) None
       else base_result clock d t q VPassed default_code default_message (Some 1) None
   | _ \<Rightarrow> base_error clock d t q ''invalid_schema'' ''JSON Schema configuration is missing'')"

section \<open>Presence, plans and artifacts\<close>

definition presence_message :: "string \<Rightarrow> string" where
  "presence_message k = ''required '' @ map (\<lambda>c. if c = CHR ''_'' then CHR '' '' else c) k @ '' evidence is missing''"

definition presence_verify ::
  "string \<Rightarrow> verifier_clock \<Rightarrow> VerifierDescriptor \<Rightarrow> nat \<Rightarrow> VerificationRequest \<Rightarrow> verify_reply" where
  "presence_verify k clock d t q = base_verdict clock d t q
     (case vsub_inline_value (vq_subject q) of JObj kvs \<Rightarrow> truthy_setting kvs k | _ \<Rightarrow> False)
     (vd_verifier_id d @ ''.missing'') (presence_message k)"

definition step_completed_descriptor :: "(VerifierDescriptor \<Rightarrow> string) \<Rightarrow> VerifierDescriptor" where
  "step_completed_descriptor digest =
     generic_descriptor digest ''generic.step_completed'' ''execution_step'' CritStepCompleted"

definition tool_succeeded_descriptor :: "(VerifierDescriptor \<Rightarrow> string) \<Rightarrow> VerifierDescriptor" where
  "tool_succeeded_descriptor digest =
     generic_descriptor digest ''generic.tool_succeeded'' ''tool_result'' CritToolSucceeded"

definition plan_consistency_descriptor :: "(VerifierDescriptor \<Rightarrow> string) \<Rightarrow> VerifierDescriptor" where
  "plan_consistency_descriptor digest =
     generic_descriptor digest ''generic.plan_consistency'' ''execution_plan'' CritStepCompleted"

definition plan_collections :: "(string, json) dict \<Rightarrow> (json list \<times> json list \<times> json list \<times> json list) option" where
  "plan_collections v =
     (case (dict_get_or v ''required_steps'' (JList []), dict_get_or v ''completed_steps'' (JList []),
            dict_get_or v ''failed_steps'' (JList []), dict_get_or v ''running_steps'' (JList [])) of
        (JList required, JList completed, JList failed, JList running) \<Rightarrow> Some (required, completed, failed, running)
      | _ \<Rightarrow> None)"

definition plan_consistent :: "string list \<Rightarrow> string list \<Rightarrow> string list \<Rightarrow> string list \<Rightarrow> bool" where
  "plan_consistent required completed failed running \<longleftrightarrow>
     running = [] \<and> distinct completed \<and> set required \<subseteq> set completed \<and> set completed \<inter> set failed = {}"

definition plan_consistency_verify ::
  "(json \<Rightarrow> string) \<Rightarrow> verifier_clock \<Rightarrow> VerifierDescriptor \<Rightarrow> nat \<Rightarrow> VerificationRequest \<Rightarrow> verify_reply" where
  "plan_consistency_verify py_str clock d t q =
     (let verdict = (\<lambda>ok. base_verdict clock d t q ok ''generic.plan_consistency.failed''
            ''execution plan has incomplete or contradictory terminal state'') in
      case vsub_inline_value (vq_subject q) of
        JObj v \<Rightarrow>
          (case plan_collections v of
             None \<Rightarrow> base_error clock d t q ''invalid_plan_evidence'' ''plan state collections must be lists''
           | Some (required, completed, failed, running) \<Rightarrow>
               verdict (plan_consistent (map py_str required) (map py_str completed) (map py_str failed)
                 (map py_str running)))
      | _ \<Rightarrow> verdict False)"

definition artifact_descriptor :: "(VerifierDescriptor \<Rightarrow> string) \<Rightarrow> VerifierDescriptor" where
  "artifact_descriptor digest =
     generic_descriptor digest ''generic.artifact_integrity'' ''artifact'' CritArtifactExists"

record artifact_contents =
  an_exists :: "uuid \<Rightarrow> bool"
  an_intact :: "uuid \<Rightarrow> bool"

definition artifact_verify ::
  "artifact_contents \<Rightarrow> verifier_clock \<Rightarrow> VerifierDescriptor \<Rightarrow> nat \<Rightarrow> VerificationRequest \<Rightarrow> verify_reply" where
  "artifact_verify store clock d t q =
     (let references = vsub_artifact_refs (vq_subject q);
          media_type = dict_get_or (vq_configuration q) ''media_type'' JNull;
          check = (\<lambda>passed a. passed \<and> an_exists store (af_artifact_id a) \<and> an_intact store (af_artifact_id a) \<and>
            (json_truthy media_type \<longrightarrow> JStr (af_media_type a) = media_type))
      in base_verdict clock d t q (foldl check (references \<noteq> []) references)
           ''generic.artifact_integrity.failed''
           ''artifact is missing, corrupt, or has an unexpected media type'')"

section \<open>The registered verifiers\<close>

record verifier_world =
  vw_clock :: verifier_clock
  vw_digest :: "VerifierDescriptor \<Rightarrow> string"
  vw_checker :: schema_checker
  vw_py_str :: "json \<Rightarrow> string"
  vw_artifacts :: artifact_contents

definition generic_port ::
  "verifier_world \<Rightarrow> ((VerifierDescriptor \<Rightarrow> string) \<Rightarrow> VerifierDescriptor) \<Rightarrow>
   (verifier_clock \<Rightarrow> VerifierDescriptor \<Rightarrow> nat \<Rightarrow> VerificationRequest \<Rightarrow> verify_reply) \<Rightarrow> verifier_port" where
  "generic_port w descriptor verify = \<lparr>vp_descriptor = descriptor (vw_digest w),
     vp_verify = verify (vw_clock w) (descriptor (vw_digest w))\<rparr>"

definition generic_verifiers :: "verifier_world \<Rightarrow> verifier_port list" where
  "generic_verifiers w =
     [generic_port w schema_descriptor (schema_verify (vw_checker w)),
      generic_port w exact_descriptor exact_verify,
      generic_port w step_completed_descriptor (presence_verify ''completed''),
      generic_port w tool_succeeded_descriptor (presence_verify ''succeeded''),
      generic_port w plan_consistency_descriptor (plan_consistency_verify (vw_py_str w)),
      generic_port w artifact_descriptor (artifact_verify (vw_artifacts w))]"

end
