(* ===== verification/Generic_Props.thy ===== *)
theory Generic_Props
  imports Generic_Verifiers Verifier_Props
begin

text \<open>
  Properties of the built-in verifiers: they register, the controller's defaults are among them, and how
  the verification through the registry relates to the structural check of the same criteria.
\<close>

section \<open>Results are always well formed\<close>

lemma base_verdict_returns:
  assumes "non_empty_str (vd_verifier_id d)" "non_empty_str (vd_version d)"
  shows "\<exists>r. base_verdict clock d t q passed code message = VerifierReturns r \<and>
    vr_status r = (if passed then VPassed else VFailed) \<and> verifier_result_error r = None \<and>
    vr_verifier_id r = vd_verifier_id d \<and> vr_verifier_version r = vd_version d \<and>
    vs_subject_type (vr_subject r) = vsub_subject_type (vq_subject q)"
proof -
  let ?r = "\<lparr>vr_verifier_result_id = vk_new_id clock t, vr_verifier_id = vd_verifier_id d,
     vr_verifier_version = vd_version d, vr_subject = request_subject_ref q,
     vr_status = if passed then VPassed else VFailed, vr_score = Some (if passed then 1 else 0),
     vr_confidence = None, vr_findings = base_findings (if passed then VPassed else VFailed) code message,
     vr_evidence_artifacts = [], vr_started_at = vk_now clock t, vr_finished_at = vk_now clock t,
     vr_error = None\<rparr>"
  have ok: "verifier_result_error ?r = None"
    using assms by (simp add: verifier_result_error_def subject_ref_error_def request_subject_ref_def
        first_error_None_iff opt_unit_interval_def unit_interval_def base_findings_def)
  then have "base_verdict clock d t q passed code message = VerifierReturns ?r"
    unfolding base_verdict_def base_result_def construct_def by simp
  with ok show ?thesis by (simp add: request_subject_ref_def)
qed

lemma descriptor_identity:
  "vd_verifier_id (generic_descriptor digest i st crit) = i" "vd_version (generic_descriptor digest i st crit) = ''1''"
  by (simp_all add: generic_descriptor_def Let_def)

lemma literal_ids:
  "non_empty_str ''generic.step_completed''" "non_empty_str ''generic.tool_succeeded''"
  "non_empty_str ''generic.artifact_integrity''" "non_empty_str ''1''"
  by code_simp+

section \<open>Registration\<close>

text \<open>The descriptors are sealed contracts whatever the digest.\<close>

definition generic_base :: "string \<Rightarrow> bool" where
  "generic_base i \<longleftrightarrow> tool_id_ok i \<and> non_empty_str (py_title False (dots_to_blanks i)) \<and> non_empty_str (i @ ''.v1'')"

lemma generic_descriptor_sealed:
  assumes "generic_base i" "st \<in> set verification_subject_types"
  shows "seal_verifier digest (generic_descriptor digest i st crit) = Inr (generic_descriptor digest i st crit)"
proof -
  let ?d = "generic_descriptor digest i st crit"
  have fields: "non_empty_str (vd_description ?d)" "non_empty_str ''1''"
    by (cases crit; simp add: generic_descriptor_def Let_def; code_simp) (rule literal_ids)
  have "first_some (map capability_error (vd_capabilities ?d)) = None"
    using assms by (simp add: generic_descriptor_def Let_def first_some_None_iff capability_error_def
        first_error_None_iff generic_base_def all_domains_def)
  moreover have "vd_descriptor_hash ?d = verifier_hash digest ?d"
    by (simp add: generic_descriptor_def Let_def verifier_hash_def)
  moreover from this have "?d\<lparr>vd_descriptor_hash := verifier_hash digest ?d\<rparr> = ?d" by simp
  ultimately show ?thesis
    using assms(1) fields
    by (auto simp: seal_verifier_def generic_base_def first_error_None_iff descriptor_identity)
      (simp_all add: generic_descriptor_def Let_def generic_base_def)
qed

text \<open>A list of verifiers registers if none of its keys is taken and every hash and schema is right.\<close>

lemma verifier_register_many_total:
  assumes "\<not> vg_frozen r" "distinct (map verifier_key vs)"
    and "\<forall>v \<in> set vs. \<not> verifier_taken r (verifier_key v) \<and>
      vd_descriptor_hash (vp_descriptor v) = verifier_hash digest (vp_descriptor v) \<and>
      schema_ok (JObj (vd_configuration_schema (vp_descriptor v)))"
  shows "\<exists>r'. verifier_register_many digest schema_ok r vs = Inr r'"
  using assms
proof (induction vs arbitrary: r)
  case (Cons v vs)
  let ?k = "verifier_key v"
  let ?r = "r\<lparr>vg_verifiers := dict_set (vg_verifiers r) ?k v\<rparr>"
  have free: "?k \<notin> fst ` set (vg_verifiers r)" using Cons.prems(3) by (simp add: verifier_taken_def)
  have step: "verifier_register digest schema_ok r v = Inr ?r"
    using Cons.prems by (simp add: verifier_register_def Let_def verifier_key_def)
  have "\<not> verifier_taken ?r (verifier_key w)" if "w \<in> set vs" for w
  proof -
    have "verifier_key w \<noteq> ?k" using Cons.prems(2) that by (metis distinct.simps(2) imageI list.set_map list.simps(9))
    then show ?thesis using Cons.prems that free by (auto simp: verifier_taken_def dict_set_new)
  qed
  with Cons.prems have "\<exists>r'. verifier_register_many digest schema_ok ?r vs = Inr r'"
    by (intro Cons.IH) auto
  with step show ?case by simp
qed simp

lemma verifier_register_many_eq:
  "verifier_register_many digest schema_ok r vs = verifiers.register_all digest schema_ok r vs"
  by (induction vs arbitrary: r) simp_all

lemma verifier_register_many_unavailable:
  "verifier_register_many digest schema_ok r vs = Inr r' \<Longrightarrow> vg_unavailable r' = vg_unavailable r"
  by (induction vs arbitrary: r)
    (auto simp: bind_res_Inr_iff verifier_register_def Let_def split: if_splits)

lemma registered_required:
  assumes "verifier_register_many digest schema_ok empty_verifiers vs = Inr reg" "v \<in> set vs"
  shows "verifier_require reg (vd_verifier_id (vp_descriptor v)) (vd_version (vp_descriptor v)) = Inr v"
proof -
  note found = verifiers.register_all_find [OF assms(1) [unfolded verifier_register_many_eq]]
  have "map_of (map (\<lambda>v. (verifier_key v, v)) vs) (verifier_key v) = Some v"
    using found(1) assms(2) by (auto simp: map_of_eq_Some_iff comp_def)
  moreover have "vg_unavailable reg = []"
    using verifier_register_many_unavailable [OF assms(1)] by (simp add: empty_verifiers_def)
  ultimately show ?thesis
    using found(3) by (simp add: verifier_require_def verifier_key_def descriptor_key_def)
qed

text \<open>The verifiers the controller falls back to.\<close>

lemmas generic_ids = schema_descriptor_def exact_descriptor_def step_completed_descriptor_def
  tool_succeeded_descriptor_def plan_consistency_descriptor_def artifact_descriptor_def

definition open_schema :: json where
  "open_schema = JObj [(''type'', JStr ''object''), (''additionalProperties'', JBool True)]"

lemma port_key: "verifier_key (generic_port w d verify) = (vd_verifier_id (d (vw_digest w)), vd_version (d (vw_digest w)))"
  by (simp add: generic_port_def verifier_key_def descriptor_key_def)

lemma generic_keys:
  "map verifier_key (generic_verifiers w) = map (\<lambda>i. (i, ''1''))
     [''generic.json_schema'', ''generic.exact'', ''generic.step_completed'', ''generic.tool_succeeded'',
      ''generic.plan_consistency'', ''generic.artifact_integrity'']"
  by (simp only: generic_verifiers_def list.map port_key generic_ids descriptor_identity prod.inject)

lemma generic_bases:
  "list_all generic_base [''generic.json_schema'', ''generic.exact'', ''generic.step_completed'',
     ''generic.tool_succeeded'', ''generic.plan_consistency'', ''generic.artifact_integrity'']"
  by code_simp

lemma generic_subjects:
  "set [''structured_value'', ''execution_step'', ''tool_result'', ''execution_plan'', ''artifact''] \<subseteq>
     set verification_subject_types"
  by (simp add: verification_subject_types_def)

lemma generic_verifiers_sealed:
  "v \<in> set (generic_verifiers w) \<Longrightarrow> sealed_verifier (vw_digest w) v \<and>
     JObj (vd_configuration_schema (vp_descriptor v)) = open_schema"
  using generic_bases generic_subjects
  by (auto simp: generic_verifiers_def generic_port_def sealed_verifier_def generic_ids
      intro!: generic_descriptor_sealed)
    (simp_all add: generic_descriptor_def Let_def open_schema_def)

lemma sealed_verifier_hash:
  "sealed_verifier digest v \<Longrightarrow> vd_descriptor_hash (vp_descriptor v) = verifier_hash digest (vp_descriptor v)"
  by (auto simp: sealed_verifier_def seal_verifier_def split: option.splits)
    (metis VerifierDescriptor.select_convs(14) VerifierDescriptor.surjective VerifierDescriptor.update_convs(14))

lemma empty_not_frozen: "\<not> vg_frozen empty_verifiers"
  by (simp add: empty_verifiers_def)

lemma verifier_register_many_ok:
  "verifiers_ok digest r \<Longrightarrow> \<forall>v \<in> set vs. sealed_verifier digest v \<Longrightarrow>
   verifier_register_many digest schema_ok r vs = Inr r' \<Longrightarrow> verifiers_ok digest r'"
proof (induction vs arbitrary: r)
  case (Cons v vs)
  from Cons.prems(3) obtain r1 where r1: "verifier_register digest schema_ok r v = Inr r1"
    "verifier_register_many digest schema_ok r1 vs = Inr r'" by (auto simp: bind_res_Inr_iff)
  have "verifiers_ok digest r1" by (rule verifier_register_ok [OF Cons.prems(1) _ r1(1)]) (simp add: Cons.prems(2))
  then show ?case by (rule Cons.IH [OF _ _ r1(2)]) (simp add: Cons.prems(2))
qed simp

lemma port_descriptor: "vp_descriptor (generic_port w d verify) = d (vw_digest w)"
  by (simp add: generic_port_def)

lemma capable_generic: "capable st dm crit (generic_descriptor digest i st crit)"
  by (cases dm) (simp_all add: capable_def generic_descriptor_def Let_def all_domains_def)

lemma port_serves:
  assumes "d = (\<lambda>digest. generic_descriptor digest i st ct)"
  shows "vd_verifier_id (vp_descriptor (generic_port w d verify)) = i \<and>
    vd_version (vp_descriptor (generic_port w d verify)) = ''1'' \<and>
    (\<exists>st. \<forall>dm. capable st dm ct (vp_descriptor (generic_port w d verify)))"
  unfolding port_descriptor assms using capable_generic descriptor_identity by blast

lemma generic_port_of:
  assumes "default_verifier ct = Some i"
  shows "\<exists>v \<in> set (generic_verifiers w). vd_verifier_id (vp_descriptor v) = i \<and>
    vd_version (vp_descriptor v) = ''1'' \<and> (\<exists>st. \<forall>dm. capable st dm ct (vp_descriptor v))"
proof -
  have "\<exists>d verify st. generic_port w d verify \<in> set (generic_verifiers w) \<and>
      d = (\<lambda>digest. generic_descriptor digest i st ct)"
    unfolding generic_verifiers_def list.set using assms
    by (cases ct) (simp_all only: default_verifier.simps option.inject option.distinct,
      (blast intro: ext generic_ids)+)
  then obtain d verify st where "generic_port w d verify \<in> set (generic_verifiers w)"
    and "d = (\<lambda>digest. generic_descriptor digest i st ct)" by blast
  then show ?thesis by (intro bexI [where x = "generic_port w d verify"] port_serves)
qed

text \<open>The built-in verifiers register without a conflict whatever the digest, into a well-formed registry,
  and the verifier the controller takes for a criterion that names none is one of them, capable of the
  criterion in every domain.\<close>

theorem default_verifiers_are_registered:
  assumes "schema_ok open_schema"
  shows "\<exists>reg. verifier_register_many (vw_digest w) schema_ok empty_verifiers (generic_verifiers w) = Inr reg \<and>
    verifiers_ok (vw_digest w) reg \<and>
    (\<forall>ct i. default_verifier ct = Some i \<longrightarrow> (\<exists>v st. verifier_require reg i ''1'' = Inr v \<and>
       (\<forall>dm. capable st dm ct (vp_descriptor v))))"
proof -
  let ?vs = "generic_verifiers w"
  have "distinct (map verifier_key ?vs)" unfolding generic_keys by simp
  moreover have "\<forall>v \<in> set ?vs. \<not> verifier_taken empty_verifiers (verifier_key v) \<and>
      vd_descriptor_hash (vp_descriptor v) = verifier_hash (vw_digest w) (vp_descriptor v) \<and>
      schema_ok (JObj (vd_configuration_schema (vp_descriptor v)))"
    using generic_verifiers_sealed [of _ w] assms
    by (auto simp: verifier_taken_def empty_verifiers_def sealed_verifier_hash)
  ultimately obtain reg where reg: "verifier_register_many (vw_digest w) schema_ok empty_verifiers ?vs = Inr reg"
    using verifier_register_many_total [of empty_verifiers ?vs "vw_digest w" schema_ok]
    by (meson empty_not_frozen)
  have "verifiers_ok (vw_digest w) reg"
    using verifier_register_many_ok [OF verifiers_ok_empty _ reg] generic_verifiers_sealed [of _ w] by blast
  moreover have "\<exists>v st. verifier_require reg i ''1'' = Inr v \<and> (\<forall>dm. capable st dm ct (vp_descriptor v))"
    if "default_verifier ct = Some i" for ct i
  proof -
    from that obtain v where v: "v \<in> set ?vs" "vd_verifier_id (vp_descriptor v) = i"
      "vd_version (vp_descriptor v) = ''1''" "\<exists>st. \<forall>dm. capable st dm ct (vp_descriptor v)"
      using generic_port_of [of ct i w] by blast
    with registered_required [OF reg v(1)] show ?thesis by auto
  qed
  ultimately show ?thesis using reg by blast
qed

section \<open>The structural check and the registry\<close>

lemma subject_value:
  assumes "inline_subject subject_type j = Inr s"
  shows "vsub_inline_value s = j" "vsub_artifact_refs s = []"
  using assms by (auto simp: inline_subject_def construct_Inr)

text \<open>The two ways of verifying a run agree about steps and tool calls: on the same evidence of the run, the
  registered verifier the controller falls back to returns a well-formed result, and its outcome is the
  one the structural check gives.\<close>

theorem registry_agrees_with_structural_check:
  assumes "verifier_register_many (vw_digest w) schema_ok empty_verifiers (generic_verifiers w) = Inr reg"
    and "ac_criterion_type c = CritStepCompleted \<or> ac_criterion_type c = CritToolSucceeded"
    and "\<not> str_truthy (ac_verifier_id c)"
    and "subject_for py_str ev c = Inr subject" "vq_subject q = subject"
  shows "\<exists>v r. verifier_require reg (criterion_verifier c) ''1'' = Inr v \<and> vp_verify v t q = VerifierReturns r \<and>
    verifier_result_error r = None \<and> minimal_outcome (vr_status r) = mr_outcome (evaluate_one sc py_str ev c)"
proof -
  let ?step = "generic_port w step_completed_descriptor (presence_verify ''completed'')"
  let ?tool = "generic_port w tool_succeeded_descriptor (presence_verify ''succeeded'')"
  have "?step \<in> set (generic_verifiers w)" "?tool \<in> set (generic_verifiers w)" by (simp_all add: generic_verifiers_def)
  from registered_required [OF assms(1) this(1)] registered_required [OF assms(1) this(2)]
  have found: "verifier_require reg ''generic.step_completed'' ''1'' = Inr ?step"
    "verifier_require reg ''generic.tool_succeeded'' ''1'' = Inr ?tool"
    by (simp_all add: generic_port_def generic_ids descriptor_identity)
  from assms(2) show ?thesis
  proof
    assume c: "ac_criterion_type c = CritStepCompleted"
    let ?b = "config_str py_str (ac_configuration c) ''step_id'' \<in> re_completed ev"
    have "vsub_inline_value (vq_subject q) = JObj [(''completed'', JBool ?b)]"
      using assms(4,5) c by (auto simp: subject_for_def Let_def dest: subject_value(1))
    then have "vp_verify ?step t q = base_verdict (vw_clock w) (step_completed_descriptor (vw_digest w)) t q ?b
        (''generic.step_completed'' @ ''.missing'') (presence_message ''completed'')"
      by (simp add: generic_port_def presence_verify_def truthy_setting_def generic_ids descriptor_identity)
    with base_verdict_returns [of "step_completed_descriptor (vw_digest w)"] literal_ids found(1) c assms(3)
    show ?thesis
      by (fastforce simp: generic_ids descriptor_identity criterion_verifier_def evaluate_one_def Let_def)
  next
    assume c: "ac_criterion_type c = CritToolSucceeded"
    let ?b = "config_str py_str (ac_configuration c) ''tool_call_id'' \<in> re_tools ev"
    have "vsub_inline_value (vq_subject q) = JObj [(''succeeded'', JBool ?b)]"
      using assms(4,5) c by (auto simp: subject_for_def Let_def dest: subject_value(1))
    then have "vp_verify ?tool t q = base_verdict (vw_clock w) (tool_succeeded_descriptor (vw_digest w)) t q ?b
        (''generic.tool_succeeded'' @ ''.missing'') (presence_message ''succeeded'')"
      by (simp add: generic_port_def presence_verify_def truthy_setting_def generic_ids descriptor_identity)
    with base_verdict_returns [of "tool_succeeded_descriptor (vw_digest w)"] literal_ids found(2) c assms(3)
    show ?thesis
      by (fastforce simp: generic_ids descriptor_identity criterion_verifier_def evaluate_one_def Let_def)
  qed
qed

text \<open>They disagree about artifacts: the controller gives the artifact verifier a subject without artifact
  references, so that the criterion fails whatever the store holds, even where the structural check
  passes.\<close>

theorem artifact_criterion_never_passes:
  assumes "verifier_register_many (vw_digest w) schema_ok empty_verifiers (generic_verifiers w) = Inr reg"
    and "ac_criterion_type c = CritArtifactExists" "\<not> str_truthy (ac_verifier_id c)"
    and "subject_for py_str ev c = Inr subject" "vq_subject q = subject"
  shows "\<exists>v r. verifier_require reg (criterion_verifier c) ''1'' = Inr v \<and> vp_verify v t q = VerifierReturns r \<and>
    vr_status r = VFailed"
proof -
  let ?port = "generic_port w artifact_descriptor (artifact_verify (vw_artifacts w))"
  have "?port \<in> set (generic_verifiers w)" by (simp add: generic_verifiers_def)
  from registered_required [OF assms(1) this]
  have found: "verifier_require reg ''generic.artifact_integrity'' ''1'' = Inr ?port"
    by (simp add: generic_port_def generic_ids descriptor_identity)
  have "vsub_artifact_refs (vq_subject q) = []"
    using assms(2,4,5) by (auto simp: subject_for_def Let_def dest: subject_value(2))
  then have "vp_verify ?port t q = base_verdict (vw_clock w) (artifact_descriptor (vw_digest w)) t q False
      ''generic.artifact_integrity.failed'' ''artifact is missing, corrupt, or has an unexpected media type''"
    by (simp add: generic_port_def artifact_verify_def)
  with base_verdict_returns [of "artifact_descriptor (vw_digest w)"] literal_ids found assms(2,3)
  show ?thesis by (fastforce simp: generic_ids descriptor_identity criterion_verifier_def)
qed

section \<open>A sample world\<close>

definition sample_world :: verifier_world where
  "sample_world = \<lparr>vw_clock = \<lparr>vk_now = int, vk_new_id = of_nat\<rparr>, vw_digest = (\<lambda>_. sample_hash),
     vw_checker = \<lparr>sc_schema_ok = (\<lambda>_. True), sc_instance_ok = (\<lambda>_ _. True)\<rparr>, vw_py_str = (\<lambda>_. ''s''),
     vw_artifacts = \<lparr>an_exists = (\<lambda>_. True), an_intact = (\<lambda>_. True)\<rparr>\<rparr>"

definition evidence_criterion :: "CriterionType \<Rightarrow> AcceptanceCriterion" where
  "evidence_criterion ct = \<lparr>ac_criterion_id = 1, ac_description = ''c'', ac_criterion_type = ct,
     ac_required = True, ac_weight = 1, ac_verifier_id = None,
     ac_configuration = [(''step_id'', JStr ''s''), (''artifact_id'', JStr ''s'')]\<rparr>"

definition full_evidence :: run_evidence where
  "full_evidence = \<lparr>re_completed = {''s''}, re_tools = {}, re_artifacts = [(''s'', True)], re_outputs = []\<rparr>"

definition evidence_request :: "CriterionType \<Rightarrow> VerificationRequest" where
  "evidence_request ct = \<lparr>vq_verification_id = 5, vq_task_run_id = 9, vq_step_id = None, vq_criterion_id = 1,
     vq_verifier_id = ''a.b'', vq_verifier_version = ''1'',
     vq_subject = (case subject_for (\<lambda>_. ''s'') full_evidence (evidence_criterion ct) of Inr s \<Rightarrow> s),
     vq_configuration = [], vq_requested_at = 0, vq_correlation_id = 3, vq_causation_event_id = None\<rparr>"

lemma default_verifiers_are_registered_witness:
  "\<exists>reg. verifier_register_many (\<lambda>_. sample_hash) (\<lambda>_. True) empty_verifiers (generic_verifiers sample_world) = Inr reg"
  using default_verifiers_are_registered [of "\<lambda>_. True" sample_world] by (auto simp: sample_world_def)

lemma sample_registered:
  "\<exists>reg. verifier_register_many (vw_digest sample_world) (\<lambda>_. True) empty_verifiers (generic_verifiers sample_world) = Inr reg"
proof (rule verifier_register_many_total)
  show "distinct (map verifier_key (generic_verifiers sample_world))" unfolding generic_keys by simp
qed (use generic_verifiers_sealed [of _ sample_world] in
    \<open>auto simp: verifier_taken_def empty_verifiers_def sealed_verifier_hash\<close>)

lemma evidence_subjects:
  "\<exists>s. subject_for (\<lambda>_. ''s'') full_evidence (evidence_criterion CritStepCompleted) = Inr s"
  "\<exists>s. subject_for (\<lambda>_. ''s'') full_evidence (evidence_criterion CritArtifactExists) = Inr s"
  by (simp_all add: subject_for_def evidence_criterion_def Let_def inline_subject_def construct_def
      subject_error_def first_error_None_iff verification_subject_types_def)

lemma registry_agrees_with_structural_check_witness:
  "\<exists>reg v r. verifier_require reg ''generic.step_completed'' ''1'' = Inr v \<and>
     vp_verify v 0 (evidence_request CritStepCompleted) = VerifierReturns r \<and> vr_status r = VPassed"
proof -
  obtain reg where reg: "verifier_register_many (vw_digest sample_world) (\<lambda>_. True) empty_verifiers
      (generic_verifiers sample_world) = Inr reg" using sample_registered by blast
  obtain s where s: "subject_for (\<lambda>_. ''s'') full_evidence (evidence_criterion CritStepCompleted) = Inr s"
    using evidence_subjects(1) by blast
  have "mr_outcome (evaluate_one (vw_checker sample_world) (\<lambda>_. ''s'') full_evidence
      (evidence_criterion CritStepCompleted)) = OutPassed"
    by (simp add: evaluate_one_def evidence_criterion_def full_evidence_def config_str_def Let_def)
  moreover have "minimal_outcome st = OutPassed \<longleftrightarrow> st = VPassed" for st by (cases st) simp_all
  ultimately show ?thesis
    using registry_agrees_with_structural_check [OF reg _ _ s, of "evidence_request CritStepCompleted" 0
        "vw_checker sample_world"] s
    by (auto simp: evidence_criterion_def evidence_request_def criterion_verifier_def str_truthy_def)
qed

lemma artifact_criterion_never_passes_witness:
  "\<exists>reg v r. verifier_require reg ''generic.artifact_integrity'' ''1'' = Inr v \<and>
     vp_verify v 0 (evidence_request CritArtifactExists) = VerifierReturns r \<and> vr_status r = VFailed \<and>
     mr_outcome (evaluate_one (vw_checker sample_world) (\<lambda>_. ''s'') full_evidence
       (evidence_criterion CritArtifactExists)) = OutPassed"
proof -
  obtain reg where reg: "verifier_register_many (vw_digest sample_world) (\<lambda>_. True) empty_verifiers
      (generic_verifiers sample_world) = Inr reg" using sample_registered by blast
  obtain s where s: "subject_for (\<lambda>_. ''s'') full_evidence (evidence_criterion CritArtifactExists) = Inr s"
    using evidence_subjects(2) by blast
  have "mr_outcome (evaluate_one (vw_checker sample_world) (\<lambda>_. ''s'') full_evidence
      (evidence_criterion CritArtifactExists)) = OutPassed"
    by (simp add: evaluate_one_def evidence_criterion_def full_evidence_def config_str_def dict_get_or_def Let_def)
  then show ?thesis
    using artifact_criterion_never_passes [OF reg _ _ s, of "evidence_request CritArtifactExists" 0] s
    by (auto simp: evidence_criterion_def evidence_request_def criterion_verifier_def str_truthy_def)
qed

end
