(* ===== verification/Memory_Contracts.thy ===== *)
theory Memory_Contracts
  imports Tool_Plane
begin

text \<open>
  The contracts of the memory plane (\<open>domain/memory.py\<close>): scopes, creators, sources and provenance, the
  typed contents with their search text, revisions with their content hash, records and requests.
  The hash of a revision (SHA-256 of its canonical JSON) is the parameter \<open>hash\<close>.
\<close>

section \<open>Vocabulary\<close>

datatype MemoryType = MemEpisode | MemObservation | MemDecision | MemCorrection | MemTaskSummary
  | MemCodeContext | MemVerificationSummary | MemFailurePattern | MemUserInstruction

fun memory_type_value :: "MemoryType \<Rightarrow> string" where
  "memory_type_value MemEpisode = ''episode''"
| "memory_type_value MemObservation = ''observation''"
| "memory_type_value MemDecision = ''decision''"
| "memory_type_value MemCorrection = ''correction''"
| "memory_type_value MemTaskSummary = ''task_summary''"
| "memory_type_value MemCodeContext = ''code_context''"
| "memory_type_value MemVerificationSummary = ''verification_summary''"
| "memory_type_value MemFailurePattern = ''failure_pattern''"
| "memory_type_value MemUserInstruction = ''user_instruction''"

datatype MemoryScopeType = ScopeGlobal | ScopeProject | ScopeRepository | ScopeTask | ScopeSession | ScopeDomain

datatype MemoryStatus = MemCandidate | MemVerified | MemSuperseded | MemRetracted | MemExpired

datatype MemorySensitivity = SensPublic | SensInternal | SensConfidential | SensRestricted

datatype MemoryCreatorType = ByUser | ByOperator | ByController | ByIngestionService
  | ByApprovedInternalService | ByProvider

datatype MemorySourceType = FromEvent | FromArtifact | FromTaskRun | FromAcceptanceDecision
  | FromVerifierResult | FromCodingTrajectory | FromUserCorrection | FromMemoryRevision
  | FromSelectedDecision

fun source_type_value :: "MemorySourceType \<Rightarrow> string" where
  "source_type_value FromEvent = ''event''"
| "source_type_value FromArtifact = ''artifact''"
| "source_type_value FromTaskRun = ''task_run''"
| "source_type_value FromAcceptanceDecision = ''acceptance_decision''"
| "source_type_value FromVerifierResult = ''verifier_result''"
| "source_type_value FromCodingTrajectory = ''coding_trajectory''"
| "source_type_value FromUserCorrection = ''user_correction''"
| "source_type_value FromMemoryRevision = ''memory_revision''"
| "source_type_value FromSelectedDecision = ''selected_decision''"

lemma source_type_value_inj: "source_type_value a = source_type_value b \<Longrightarrow> a = b"
  by (cases a; cases b; simp)

datatype MemoryTransitionReason = ReasonCreated | ReasonContentRevised | ReasonMetadataRevised
  | ReasonAuthoritativeEvidence | ReasonSuperseded | ReasonUserCorrection | ReasonSourceRetracted
  | ReasonPolicyRetraction | ReasonRetentionExpired | ReasonExplicitExpiry

datatype MemoryWriteOutcome = AllowCandidate | AllowVerified | RequireManualSelection | DenyWrite

text \<open>Sensitivities are compared by their rank.\<close>

fun sensitivity_rank :: "MemorySensitivity \<Rightarrow> nat" where
  "sensitivity_rank SensPublic = 0"
| "sensitivity_rank SensInternal = 1"
| "sensitivity_rank SensConfidential = 2"
| "sensitivity_rank SensRestricted = 3"

lemma sensitivity_rank_inj: "sensitivity_rank a = sensitivity_rank b \<Longrightarrow> a = b"
  by (cases a; cases b; simp)

instantiation MemorySensitivity :: linorder
begin

definition less_eq_MemorySensitivity :: "MemorySensitivity \<Rightarrow> MemorySensitivity \<Rightarrow> bool" where
  "less_eq_MemorySensitivity a b \<longleftrightarrow> sensitivity_rank a \<le> sensitivity_rank b"

definition less_MemorySensitivity :: "MemorySensitivity \<Rightarrow> MemorySensitivity \<Rightarrow> bool" where
  "less_MemorySensitivity a b \<longleftrightarrow> sensitivity_rank a < sensitivity_rank b"

instance
  by standard (auto simp: less_eq_MemorySensitivity_def less_MemorySensitivity_def sensitivity_rank_inj)

end

section \<open>Scopes, creators and sources\<close>

record MemoryScope =
  msc_scope_type :: MemoryScopeType
  msc_scope_id :: string

datatype memory_fault = BadMemoryField | HostPathScope | SourceIdentityMismatch | SourcesNotCanonical
  | RevisionChainBroken | MemorySupersedesItself | RevisionHashMismatch | TypeContentMismatch
  | ProviderSelfAuthorizes | ProvenanceCycle | SameSuccessor | ExcerptWithoutHash

text \<open>Whether a text occurs within another.\<close>

fun py_contains :: "string \<Rightarrow> string \<Rightarrow> bool" where
  "py_contains [] sub = (sub = [])"
| "py_contains (c # cs) sub = (py_startswith (c # cs) sub \<or> py_contains cs sub)"

definition drive_path :: "string \<Rightarrow> bool" where
  "drive_path s = (case s of a # b # c # _ \<Rightarrow>
     (lower_char a \<or> (let n = (of_char a :: nat) in 65 \<le> n \<and> n \<le> 90)) \<and> b = CHR '':'' \<and>
     c \<in> {CHR ''/'', CHR 0x5C} | _ \<Rightarrow> False)"

definition scope_error :: "MemoryScope \<Rightarrow> memory_fault option" where
  "scope_error s = (let v = msc_scope_id s in first_error
     [(v = [] \<or> 512 < length v, BadMemoryField),
      (msc_scope_type s = ScopeRepository \<and>
        (py_startswith v ''/'' \<or> py_startswith v [CHR 0x5C] \<or> drive_path v \<or> py_contains v ''/home/'' \<or>
         py_contains v ([CHR 0x5C] @ ''Users'' @ [CHR 0x5C])), HostPathScope)])"

record MemoryCreator =
  mcr_creator_type :: MemoryCreatorType
  mcr_creator_id :: string

record MemorySourceIdentity =
  mid_source_type :: MemorySourceType
  mid_source_id :: "uuid option"
  mid_memory_id :: "uuid option"
  mid_revision :: "int option"
  mid_content_hash :: "string option"

definition source_identity_error :: "MemorySourceIdentity \<Rightarrow> memory_fault option" where
  "source_identity_error i = first_error
     [((case mid_revision i of None \<Rightarrow> False | Some r \<Rightarrow> r < 1) \<or>
       (case mid_content_hash i of None \<Rightarrow> False | Some h \<Rightarrow> \<not> sha256_hex h), BadMemoryField),
      (if mid_source_type i = FromMemoryRevision
       then mid_memory_id i = None \<or> mid_revision i = None \<or> mid_source_id i \<noteq> None
       else mid_source_id i = None \<or> mid_memory_id i \<noteq> None \<or> mid_revision i \<noteq> None,
       SourceIdentityMismatch)]"

text \<open>\<open>str(None)\<close> is the text None; a valid identity has one of the two identifiers.\<close>

definition source_sort_key :: "MemorySourceIdentity \<Rightarrow> string \<times> string \<times> int" where
  "source_sort_key i = (source_type_value (mid_source_type i),
     (case mid_memory_id i of Some m \<Rightarrow> uuid_str m
      | None \<Rightarrow> (case mid_source_id i of Some s \<Rightarrow> uuid_str s | None \<Rightarrow> ''None'')),
     (case mid_revision i of None \<Rightarrow> 0 | Some r \<Rightarrow> r))"

record MemorySourceRef =
  mso_identity :: MemorySourceIdentity
  mso_source_hash :: string
  mso_relationship :: string

definition source_key :: "MemorySourceRef \<Rightarrow> string \<times> string \<times> int" where
  "source_key s = source_sort_key (mso_identity s)"

definition source_ref_error :: "MemorySourceRef \<Rightarrow> memory_fault option" where
  "source_ref_error s = (case source_identity_error (mso_identity s) of Some e \<Rightarrow> Some e
     | None \<Rightarrow> first_error [(\<not> sha256_hex (mso_source_hash s) \<or> (length (mso_relationship s) < 1 \<or> 128 < length (mso_relationship s)),
         BadMemoryField)])"

text \<open>A provenance bundle is the canonically ordered list of its sources.\<close>

definition provenance_error :: "MemorySourceRef list \<Rightarrow> memory_fault option" where
  "provenance_error sources =
     (case first_some (map source_ref_error sources) of Some e \<Rightarrow> Some e
      | None \<Rightarrow> (let keys = map source_key sources in first_error
          [((length sources < 1 \<or> 64 < length sources), BadMemoryField),
           (\<not> sorted keys \<or> \<not> distinct keys, SourcesNotCanonical)]))"

definition provenance_cycle :: "MemorySourceRef list \<Rightarrow> uuid \<Rightarrow> int \<Rightarrow> bool" where
  "provenance_cycle sources memory_id revision = list_ex (\<lambda>s.
     mid_memory_id (mso_identity s) = Some memory_id \<and> mid_revision (mso_identity s) = Some revision) sources"

section \<open>Contents\<close>

record EpisodeContent =
  ec_task_run_id :: uuid
  ec_title :: string
  ec_problem_summary :: string
  ec_repository_identity :: string
  ec_base_commit :: string
  ec_outcome :: string
  ec_patch_attempt_count :: int
  ec_repair_count :: int
  ec_verifier_summary :: string
  ec_artifact_ids :: "uuid list"
  ec_remaining_risks :: "string list"
  ec_trajectory_hash :: string

record TaskSummaryContent =
  ts_task_run_id :: uuid
  ts_goal :: string
  ts_constraints :: "string list"
  ts_result :: string
  ts_review_status :: string

record VerificationSummaryContent =
  vy_task_run_id :: uuid
  vy_required_passed :: "string list"
  vy_required_failed :: "string list"
  vy_optional_results :: "string list"
  vy_verifier_errors :: "string list"
  vy_acceptance_decision_id :: uuid
  vy_registry_snapshot_hash :: string

record CodeContextContent =
  cx_repository_identity :: string
  cx_base_commit :: string
  cx_repository_profile :: string
  cx_context_hash :: string
  cx_changed_paths :: "string list"
  cx_symbol_references :: "string list"
  cx_diff_artifact_id :: "uuid option"
  cx_bounded_excerpt :: "string option"
  cx_excerpt_hash :: "string option"

datatype MemoryContent =
    EpisodeMemory EpisodeContent
  | TaskSummaryMemory TaskSummaryContent
  | VerificationSummaryMemory VerificationSummaryContent
  | CodeContextMemory CodeContextContent
  | CorrectionMemory string "uuid option" "int option"
  | DecisionMemory string string string
  | ObservationMemory string string
  | FailurePatternMemory string string uuid
  | UserInstructionMemory string string

fun content_type :: "MemoryContent \<Rightarrow> MemoryType" where
  "content_type (EpisodeMemory _) = MemEpisode"
| "content_type (TaskSummaryMemory _) = MemTaskSummary"
| "content_type (VerificationSummaryMemory _) = MemVerificationSummary"
| "content_type (CodeContextMemory _) = MemCodeContext"
| "content_type (CorrectionMemory _ _ _) = MemCorrection"
| "content_type (DecisionMemory _ _ _) = MemDecision"
| "content_type (ObservationMemory _ _) = MemObservation"
| "content_type (FailurePatternMemory _ _ _) = MemFailurePattern"
| "content_type (UserInstructionMemory _ _) = MemUserInstruction"

definition commit_ok :: "string \<Rightarrow> bool" where
  "commit_ok s \<longleftrightarrow> hex_of_length 40 s"

fun content_error :: "MemoryContent \<Rightarrow> memory_fault option" where
  "content_error (EpisodeMemory c) = first_error
     [(\<not> non_empty_str (ec_title c) \<or> 8192 < length (ec_problem_summary c) \<or>
       \<not> sha256_hex (ec_repository_identity c) \<or> \<not> commit_ok (ec_base_commit c) \<or>
       \<not> non_empty_str (ec_outcome c) \<or> ec_patch_attempt_count c < 0 \<or> ec_repair_count c < 0 \<or>
       8192 < length (ec_verifier_summary c) \<or> (\<exists>r \<in> set (ec_remaining_risks c). 2048 < length r) \<or>
       \<not> sha256_hex (ec_trajectory_hash c), BadMemoryField)]"
| "content_error (TaskSummaryMemory c) = first_error
     [(8192 < length (ts_goal c) \<or> (\<exists>r \<in> set (ts_constraints c). 2048 < length r) \<or>
       8192 < length (ts_result c) \<or> \<not> non_empty_str (ts_review_status c), BadMemoryField)]"
| "content_error (VerificationSummaryMemory c) = first_error
     [(\<not> list_all non_empty_str (vy_required_passed c @ vy_required_failed c @ vy_optional_results c @
         vy_verifier_errors c) \<or> \<not> sha256_hex (vy_registry_snapshot_hash c), BadMemoryField)]"
| "content_error (CodeContextMemory c) = first_error
     [(\<not> sha256_hex (cx_repository_identity c) \<or> \<not> commit_ok (cx_base_commit c) \<or>
       4096 < length (cx_repository_profile c) \<or> \<not> sha256_hex (cx_context_hash c) \<or>
       (\<exists>p \<in> set (cx_changed_paths c @ cx_symbol_references c). 512 < length p) \<or>
       (case cx_bounded_excerpt c of None \<Rightarrow> False | Some x \<Rightarrow> 16384 < length x) \<or>
       (case cx_excerpt_hash c of None \<Rightarrow> False | Some h \<Rightarrow> \<not> sha256_hex h), BadMemoryField),
      ((cx_bounded_excerpt c = None) \<noteq> (cx_excerpt_hash c = None), ExcerptWithoutHash)]"
| "content_error (CorrectionMemory correction memory revision) = first_error
     [(16384 < length correction \<or> (case revision of None \<Rightarrow> False | Some r \<Rightarrow> r < 1), BadMemoryField)]"
| "content_error (DecisionMemory decision rationale by) = first_error
     [(16384 < length decision \<or> 16384 < length rationale \<or> \<not> non_empty_str by, BadMemoryField)]"
| "content_error (ObservationMemory observation evidence) = first_error
     [(16384 < length observation \<or> 8192 < length evidence, BadMemoryField)]"
| "content_error (FailurePatternMemory failed correction _) = first_error
     [(8192 < length failed \<or> 8192 < length correction, BadMemoryField)]"
| "content_error (UserInstructionMemory instruction scope) = first_error
     [(16384 < length instruction \<or> \<not> non_empty_str scope, BadMemoryField)]"

text \<open>The fields of a content in the order of its JSON dump.\<close>

definition jstrs :: "string list \<Rightarrow> json" where "jstrs ss = JList (map JStr ss)"

definition jopt :: "('a \<Rightarrow> json) \<Rightarrow> 'a option \<Rightarrow> json" where
  "jopt f x = (case x of None \<Rightarrow> JNull | Some v \<Rightarrow> f v)"

definition juuid :: "uuid \<Rightarrow> json" where "juuid u = JStr (uuid_str u)"

fun content_fields :: "MemoryContent \<Rightarrow> (string \<times> json) list" where
  "content_fields (EpisodeMemory c) =
     [(''memory_type'', JStr ''episode''), (''task_run_id'', juuid (ec_task_run_id c)),
      (''title'', JStr (ec_title c)), (''problem_summary'', JStr (ec_problem_summary c)),
      (''repository_identity'', JStr (ec_repository_identity c)), (''base_commit'', JStr (ec_base_commit c)),
      (''outcome'', JStr (ec_outcome c)), (''patch_attempt_count'', JInt (ec_patch_attempt_count c)),
      (''repair_count'', JInt (ec_repair_count c)), (''verifier_summary'', JStr (ec_verifier_summary c)),
      (''artifact_ids'', JList (map juuid (ec_artifact_ids c))),
      (''remaining_risks'', jstrs (ec_remaining_risks c)), (''trajectory_hash'', JStr (ec_trajectory_hash c))]"
| "content_fields (TaskSummaryMemory c) =
     [(''memory_type'', JStr ''task_summary''), (''task_run_id'', juuid (ts_task_run_id c)),
      (''goal'', JStr (ts_goal c)), (''constraints'', jstrs (ts_constraints c)),
      (''result'', JStr (ts_result c)), (''review_status'', JStr (ts_review_status c))]"
| "content_fields (VerificationSummaryMemory c) =
     [(''memory_type'', JStr ''verification_summary''), (''task_run_id'', juuid (vy_task_run_id c)),
      (''required_passed'', jstrs (vy_required_passed c)), (''required_failed'', jstrs (vy_required_failed c)),
      (''optional_results'', jstrs (vy_optional_results c)), (''verifier_errors'', jstrs (vy_verifier_errors c)),
      (''acceptance_decision_id'', juuid (vy_acceptance_decision_id c)),
      (''registry_snapshot_hash'', JStr (vy_registry_snapshot_hash c))]"
| "content_fields (CodeContextMemory c) =
     [(''memory_type'', JStr ''code_context''), (''repository_identity'', JStr (cx_repository_identity c)),
      (''base_commit'', JStr (cx_base_commit c)), (''repository_profile'', JStr (cx_repository_profile c)),
      (''context_hash'', JStr (cx_context_hash c)), (''changed_paths'', jstrs (cx_changed_paths c)),
      (''symbol_references'', jstrs (cx_symbol_references c)),
      (''diff_artifact_id'', jopt juuid (cx_diff_artifact_id c)),
      (''bounded_excerpt'', jopt JStr (cx_bounded_excerpt c)), (''excerpt_hash'', jopt JStr (cx_excerpt_hash c))]"
| "content_fields (CorrectionMemory correction memory revision) =
     [(''memory_type'', JStr ''correction''), (''correction'', JStr correction),
      (''corrected_memory_id'', jopt juuid memory), (''corrected_revision'', jopt JInt revision)]"
| "content_fields (DecisionMemory decision rationale by) =
     [(''memory_type'', JStr ''decision''), (''decision'', JStr decision), (''rationale'', JStr rationale),
      (''selected_by'', JStr by)]"
| "content_fields (ObservationMemory observation evidence) =
     [(''memory_type'', JStr ''observation''), (''observation'', JStr observation),
      (''evidence_summary'', JStr evidence)]"
| "content_fields (FailurePatternMemory failed correction run) =
     [(''memory_type'', JStr ''failure_pattern''), (''failed_evidence'', JStr failed),
      (''successful_correction'', JStr correction), (''task_run_id'', juuid run)]"
| "content_fields (UserInstructionMemory instruction scope) =
     [(''memory_type'', JStr ''user_instruction''), (''instruction'', JStr instruction),
      (''instruction_scope'', JStr scope)]"

text \<open>The search text: the texts of the dump and of its lists, one a line.\<close>

fun field_texts :: "json \<Rightarrow> string list" where
  "field_texts (JStr s) = [s]"
| "field_texts (JList vs) = concat (map (\<lambda>v. case v of JStr s \<Rightarrow> [s] | _ \<Rightarrow> []) vs)"
| "field_texts _ = []"

fun join_lines :: "string list \<Rightarrow> string" where
  "join_lines [] = []"
| "join_lines [s] = s"
| "join_lines (s # ss) = s @ [CHR 0x0A] @ join_lines ss"

definition render_search_text :: "MemoryContent \<Rightarrow> string" where
  "render_search_text c = join_lines (concat (map (field_texts \<circ> snd) (content_fields c)))"

section \<open>Revisions and records\<close>

record MemoryRecord =
  mrec_memory_id :: uuid
  mrec_memory_type :: MemoryType
  mrec_scope :: MemoryScope
  mrec_status :: MemoryStatus
  mrec_current_revision :: int
  mrec_title :: string
  mrec_created_at :: timestamp
  mrec_created_by :: MemoryCreator

record MemoryRevision =
  mrv_memory_id :: uuid
  mrv_revision :: int
  mrv_previous_revision :: "int option"
  mrv_content :: MemoryContent
  mrv_content_artifact :: "ArtifactRef option"
  mrv_content_hash :: string
  mrv_status :: MemoryStatus
  mrv_confidence :: pyfloat
  mrv_salience :: pyfloat
  mrv_sensitivity :: MemorySensitivity
  mrv_reason :: MemoryTransitionReason
  mrv_created_at :: timestamp
  mrv_created_by :: MemoryCreator
  mrv_expires_at :: "timestamp option"
  mrv_successor_memory_id :: "uuid option"

text \<open>What the hash of a revision covers.\<close>

record hashed_revision =
  hr_memory_id :: uuid
  hr_revision :: int
  hr_content :: MemoryContent
  hr_status :: MemoryStatus
  hr_confidence :: pyfloat
  hr_salience :: pyfloat
  hr_sensitivity :: MemorySensitivity

definition hashed_part :: "MemoryRevision \<Rightarrow> hashed_revision" where
  "hashed_part r = \<lparr>hr_memory_id = mrv_memory_id r, hr_revision = mrv_revision r, hr_content = mrv_content r,
     hr_status = mrv_status r, hr_confidence = mrv_confidence r, hr_salience = mrv_salience r,
     hr_sensitivity = mrv_sensitivity r\<rparr>"

definition revision_error :: "(hashed_revision \<Rightarrow> string) \<Rightarrow> MemoryRevision \<Rightarrow> memory_fault option" where
  "revision_error hash r = first_error
     [((mrv_revision r < 1 \<or> 1000 < mrv_revision r) \<or>
       (case mrv_previous_revision r of None \<Rightarrow> False | Some p \<Rightarrow> (p < 1 \<or> 999 < p)) \<or>
       \<not> sha256_hex (mrv_content_hash r) \<or> \<not> unit_interval (mrv_confidence r) \<or>
       \<not> unit_interval (mrv_salience r), BadMemoryField),
      (mrv_previous_revision r \<noteq> (if mrv_revision r = 1 then None else Some (mrv_revision r - 1)),
       RevisionChainBroken),
      (mrv_successor_memory_id r = Some (mrv_memory_id r), MemorySupersedesItself),
      (mrv_content_hash r \<noteq> hash (hashed_part r), RevisionHashMismatch)]"

definition record_error :: "MemoryRecord \<Rightarrow> memory_fault option" where
  "record_error r = first_error
     [((mrec_current_revision r < 1 \<or> 1000 < mrec_current_revision r) \<or> (length (mrec_title r) < 1 \<or> 1024 < length (mrec_title r)), BadMemoryField)]"

section \<open>Requests\<close>

record MemoryWriteRequest =
  mw_request_id :: uuid
  mw_idempotency_key :: string
  mw_memory_id :: uuid
  mw_memory_type :: MemoryType
  mw_scope :: MemoryScope
  mw_title :: string
  mw_content :: MemoryContent
  mw_status :: MemoryStatus
  mw_confidence :: pyfloat
  mw_salience :: pyfloat
  mw_sensitivity :: MemorySensitivity
  mw_provenance :: "MemorySourceRef list"
  mw_actor :: MemoryCreator
  mw_reason :: MemoryTransitionReason
  mw_automatic :: bool

definition write_request_error :: "MemoryWriteRequest \<Rightarrow> memory_fault option" where
  "write_request_error q =
     (case first_some [scope_error (mw_scope q), content_error (mw_content q), provenance_error (mw_provenance q)] of
        Some e \<Rightarrow> Some e
      | None \<Rightarrow> first_error
         [(\<not> sha256_hex (mw_idempotency_key q) \<or> (length (mw_title q) < 1 \<or> 1024 < length (mw_title q)) \<or>
           \<not> unit_interval (mw_confidence q) \<or> \<not> unit_interval (mw_salience q), BadMemoryField),
          (mw_memory_type q \<noteq> content_type (mw_content q), TypeContentMismatch),
          (mcr_creator_type (mw_actor q) = ByProvider \<and> mw_status q \<noteq> MemCandidate, ProviderSelfAuthorizes),
          (provenance_cycle (mw_provenance q) (mw_memory_id q) 1, ProvenanceCycle)])"

record MemoryTransitionRequest =
  mt_request_id :: uuid
  mt_memory_id :: uuid
  mt_expected_revision :: int
  mt_actor :: MemoryCreator
  mt_reason :: MemoryTransitionReason

text \<open>Promotion adds the evidence, supersession the successor; retraction and expiry are the plain request.\<close>

record MemoryPromotionRequest = MemoryTransitionRequest +
  mp_evidence :: "MemorySourceRef list"

record MemorySupersessionRequest = MemoryTransitionRequest +
  msu_successor_memory_id :: uuid

definition supersession_request_error :: "MemorySupersessionRequest \<Rightarrow> memory_fault option" where
  "supersession_request_error q = first_error
     [(mt_expected_revision q < 1, BadMemoryField), (mt_memory_id q = msu_successor_memory_id q, SameSuccessor)]"

end
