(* ===== verification/Memory_Governance.thy ===== *)
theory Memory_Governance
  imports Memory_Contracts
begin

text \<open>
  The rules of the memory plane: the fail-closed write policy with its secret detector
  (\<open>memory/governance.py\<close>), the lifecycle and the replay of a memory stream (\<open>memory/revisions.py\<close>,
  \<open>events/memory_events.py\<close>), and the in-memory repository (\<open>memory/repository.py\<close>).
\<close>

section \<open>Secrets\<close>

text \<open>The three patterns, without regard to case, as matchers on a text and the character before it.\<close>

definition alnum_char :: "char \<Rightarrow> bool" where
  "alnum_char c \<longleftrightarrow> (let n = (of_char c :: nat) in lower_char c \<or> digit_char c \<or> (65 \<le> n \<and> n \<le> 90) \<or>
     n \<in> {170, 178, 179, 181, 185, 186, 188, 189, 190} \<or> (192 \<le> n \<and> n \<noteq> 215 \<and> n \<noteq> 247))"

definition word_char :: "char \<Rightarrow> bool" where
  "word_char c \<longleftrightarrow> alnum_char c \<or> c = CHR ''_''"

definition ascii_alnum :: "char \<Rightarrow> bool" where
  "ascii_alnum c \<longleftrightarrow> (let n = (of_char c :: nat) in lower_char c \<or> digit_char c \<or> (65 \<le> n \<and> n \<le> 90))"

definition at_word_start :: "char option \<Rightarrow> bool" where
  "at_word_start prev \<longleftrightarrow> (case prev of None \<Rightarrow> True | Some c \<Rightarrow> \<not> word_char c)"

fun search_from :: "(char option \<Rightarrow> string \<Rightarrow> bool) \<Rightarrow> char option \<Rightarrow> string \<Rightarrow> bool" where
  "search_from p prev [] = p prev []"
| "search_from p prev (c # cs) = (p prev (c # cs) \<or> search_from p (Some c) cs)"

definition private_key :: "char option \<Rightarrow> string \<Rightarrow> bool" where
  "private_key prev s \<longleftrightarrow> list_ex (\<lambda>kind. py_startswith (ascii_casefold s)
     (''-----begin '' @ kind @ ''private key-----'')) ['''', ''rsa '', ''ec '', ''openssh '']"

text \<open>A credential word, blanks, a separator, blanks, and eight characters that end no field.\<close>

definition assigned_value :: "string \<Rightarrow> bool" where
  "assigned_value s = (case dropWhile py_space s of
     sep # v \<Rightarrow> sep \<in> {CHR '':'', CHR ''=''} \<and>
       (let rest = dropWhile py_space v in
        8 \<le> length (takeWhile (\<lambda>c. \<not> py_space c \<and> c \<noteq> CHR '','' \<and> c \<noteq> CHR '';'') rest))
   | [] \<Rightarrow> False)"

definition credential :: "char option \<Rightarrow> string \<Rightarrow> bool" where
  "credential prev s \<longleftrightarrow> at_word_start prev \<and>
     list_ex (\<lambda>w. py_startswith (ascii_casefold s) w \<and> assigned_value (drop (length w) s))
       [''api_key'', ''api-key'', ''apikey'', ''token'', ''password'', ''secret'']"

definition access_token :: "char option \<Rightarrow> string \<Rightarrow> bool" where
  "access_token prev s \<longleftrightarrow> at_word_start prev \<and>
     (case s of g # h # k # u # rest \<Rightarrow>
        ascii_casefold [g, h] = ''gh'' \<and> set (ascii_casefold [k]) \<subseteq> set ''opusr'' \<and> u = CHR ''_'' \<and>
        (let run = takeWhile ascii_alnum rest in 20 \<le> length run \<and>
          (case drop (length run) rest of [] \<Rightarrow> True | c # _ \<Rightarrow> \<not> word_char c))
      | _ \<Rightarrow> False)"

definition contains_secret :: "string \<Rightarrow> bool" where
  "contains_secret v \<longleftrightarrow> search_from private_key None v \<or> search_from credential None v \<or>
     search_from access_token None v"

section \<open>The write policy\<close>

record MemoryWritePolicy =
  mpol_allowed_types :: "MemoryType list"
  mpol_allowed_scopes :: "MemoryScopeType list"
  mpol_maximum_sensitivity :: MemorySensitivity
  mpol_allow_automatic_request :: bool
  mpol_allow_provider_creator :: bool
  mpol_allow_verified_creation :: bool

record MemoryWriteDecision =
  mwd_decision :: MemoryWriteOutcome
  mwd_reason_codes :: "string list"
  mwd_policy_hash :: string
  mwd_evaluated_at :: timestamp

definition sensitivity_allows :: "MemorySensitivity \<Rightarrow> MemorySensitivity \<Rightarrow> bool" where
  "sensitivity_allows actual bound \<longleftrightarrow> sensitivity_rank actual \<le> sensitivity_rank bound"

definition denial_reasons :: "MemoryWriteRequest \<Rightarrow> MemoryWritePolicy \<Rightarrow> string list" where
  "denial_reasons q p = map snd (filter fst
     [(mw_memory_type q \<notin> set (mpol_allowed_types p), ''memory_type_denied''),
      (msc_scope_type (mw_scope q) \<notin> set (mpol_allowed_scopes p), ''scope_denied''),
      (\<not> sensitivity_allows (mw_sensitivity q) (mpol_maximum_sensitivity p), ''sensitivity_denied''),
      (contains_secret (render_search_text (mw_content q)), ''secret_detected''),
      (mw_automatic q \<and> \<not> mpol_allow_automatic_request p, ''automatic_ingestion_denied''),
      (mcr_creator_type (mw_actor q) = ByProvider, ''provider_direct_write_denied''),
      (mw_status q = MemVerified \<and> \<not> mpol_allow_verified_creation p, ''verified_creation_denied'')])"

definition evaluate_write ::
  "(MemoryWritePolicy \<Rightarrow> string) \<Rightarrow> MemoryWriteRequest \<Rightarrow> MemoryWritePolicy \<Rightarrow> timestamp \<Rightarrow> MemoryWriteDecision" where
  "evaluate_write digest q p now =
     (let reasons = denial_reasons q p;
          (outcome, codes) =
            (if reasons \<noteq> [] then (DenyWrite, reasons)
             else if mw_status q = MemVerified then (AllowVerified, [''trusted_verified_write_allowed''])
             else (AllowCandidate, [''candidate_write_allowed'']))
      in \<lparr>mwd_decision = outcome, mwd_reason_codes = codes, mwd_policy_hash = digest p, mwd_evaluated_at = now\<rparr>)"

section \<open>Lifecycle and replay\<close>

fun can_transition_memory :: "MemoryStatus \<Rightarrow> MemoryStatus \<Rightarrow> bool" where
  "can_transition_memory MemCandidate t = (t \<in> {MemCandidate, MemVerified, MemRetracted, MemExpired})"
| "can_transition_memory MemVerified t = (t \<in> {MemVerified, MemSuperseded, MemRetracted, MemExpired})"
| "can_transition_memory _ t = False"

text \<open>A transition event: memory, expected revision, revision, reason and time.\<close>

datatype memory_payload =
    PItemCreated MemoryRecord MemoryRevision
  | PRevisionAppended uuid int MemoryRevision
  | PPromoted uuid int MemoryRevision MemoryTransitionReason timestamp
  | PSuperseded uuid int MemoryRevision MemoryTransitionReason timestamp uuid
  | PRetracted uuid int MemoryRevision MemoryTransitionReason timestamp
  | PExpired uuid int MemoryRevision MemoryTransitionReason timestamp

fun memory_event_type :: "memory_payload \<Rightarrow> string" where
  "memory_event_type (PItemCreated _ _) = ''memory.item_created''"
| "memory_event_type (PRevisionAppended _ _ _) = ''memory.revision_appended''"
| "memory_event_type (PPromoted _ _ _ _ _) = ''memory.promoted''"
| "memory_event_type (PSuperseded _ _ _ _ _ _) = ''memory.superseded''"
| "memory_event_type (PRetracted _ _ _ _ _) = ''memory.retracted''"
| "memory_event_type (PExpired _ _ _ _ _) = ''memory.expired''"

record MemoryReplayState =
  mrs_memory_id :: uuid
  mrs_status :: MemoryStatus
  mrs_current_revision :: int
  mrs_revision_hashes :: "string list"

datatype replay_fault = NoCreation | CreationNotRevisionOne | CreationIdentityMismatch
  | DuplicateCreation | ForeignEvent | ExpectedVersionMismatch | RevisionGap | IllegalMemoryTransition
  | TransitionRevisionMismatch

definition replay_next :: "MemoryReplayState \<Rightarrow> MemoryStatus \<Rightarrow> MemoryRevision \<Rightarrow> MemoryReplayState" where
  "replay_next st status r = \<lparr>mrs_memory_id = mrs_memory_id st, mrs_status = status,
     mrs_current_revision = mrv_revision r, mrs_revision_hashes = mrs_revision_hashes st @ [mrv_content_hash r]\<rparr>"

definition replay_transition ::
  "MemoryReplayState \<Rightarrow> MemoryStatus \<Rightarrow> uuid \<Rightarrow> int \<Rightarrow> MemoryRevision \<Rightarrow> replay_fault + MemoryReplayState" where
  "replay_transition st target memory_id expected r =
     (if memory_id \<noteq> mrs_memory_id st then Inl ForeignEvent
      else if expected \<noteq> mrs_current_revision st \<or> mrv_revision r \<noteq> mrs_current_revision st + 1 \<or>
        mrv_memory_id r \<noteq> mrs_memory_id st then Inl TransitionRevisionMismatch
      else if mrv_status r \<noteq> target \<or> \<not> can_transition_memory (mrs_status st) target
      then Inl IllegalMemoryTransition
      else Inr (replay_next st target r))"

fun replay_apply :: "MemoryReplayState \<Rightarrow> memory_payload \<Rightarrow> replay_fault + MemoryReplayState" where
  "replay_apply st (PItemCreated _ _) = Inl DuplicateCreation"
| "replay_apply st (PRevisionAppended memory_id expected r) =
     (if memory_id \<noteq> mrs_memory_id st then Inl ForeignEvent
      else if expected \<noteq> mrs_current_revision st then Inl ExpectedVersionMismatch
      else if mrv_revision r \<noteq> mrs_current_revision st + 1 then Inl RevisionGap
      else if \<not> can_transition_memory (mrs_status st) (mrv_status r) then Inl IllegalMemoryTransition
      else Inr (replay_next st (mrv_status r) r))"
| "replay_apply st (PPromoted i n r _ _) = replay_transition st MemVerified i n r"
| "replay_apply st (PSuperseded i n r _ _ _) = replay_transition st MemSuperseded i n r"
| "replay_apply st (PRetracted i n r _ _) = replay_transition st MemRetracted i n r"
| "replay_apply st (PExpired i n r _ _) = replay_transition st MemExpired i n r"

fun replay_all :: "MemoryReplayState \<Rightarrow> memory_payload list \<Rightarrow> replay_fault + MemoryReplayState" where
  "replay_all st [] = Inr st"
| "replay_all st (p # ps) = bind_res (replay_apply st p) (\<lambda>st'. replay_all st' ps)"

fun reduce_memory :: "memory_payload list \<Rightarrow> replay_fault + MemoryReplayState" where
  "reduce_memory (PItemCreated rec r # ps) =
     (if mrec_current_revision rec \<noteq> 1 \<or> mrv_revision r \<noteq> 1 then Inl CreationNotRevisionOne
      else if mrec_memory_id rec \<noteq> mrv_memory_id r then Inl CreationIdentityMismatch
      else replay_all \<lparr>mrs_memory_id = mrec_memory_id rec, mrs_status = mrv_status r,
        mrs_current_revision = 1, mrs_revision_hashes = [mrv_content_hash r]\<rparr> ps)"
| "reduce_memory _ = Inl NoCreation"

section \<open>The repository\<close>

record memory_repo =
  mm_records :: "(uuid, MemoryRecord) dict"
  mm_revisions :: "(uuid, MemoryRevision list) dict"
  mm_sources :: "(uuid \<times> int, MemorySourceRef list) dict"
  mm_idempotency :: "(string, uuid) dict"

datatype repo_fault = MemoryIdentityExists | StaleRevision | RevisionNotNext | ProvenanceRemoved
  | MemoryContract memory_fault | MissingRepoKey | BadLimit

definition empty_repo :: memory_repo where
  "empty_repo = \<lparr>mm_records = [], mm_revisions = [], mm_sources = [], mm_idempotency = []\<rparr>"

text \<open>The current revision is the last one; an empty list has none, as indexing it raises.\<close>

definition last_revision :: "MemoryRevision list \<Rightarrow> MemoryRevision option" where
  "last_revision rs = (if rs = [] then None else Some (last rs))"

definition repo_get_current :: "memory_repo \<Rightarrow> uuid \<Rightarrow> repo_fault + (MemoryRecord \<times> MemoryRevision) option" where
  "repo_get_current repo i = (case dict_get (mm_records repo) i of
     None \<Rightarrow> Inr None
   | Some rec \<Rightarrow> (case dict_get (mm_revisions repo) i of
        None \<Rightarrow> Inl MissingRepoKey
      | Some rs \<Rightarrow> (case last_revision rs of None \<Rightarrow> Inl MissingRepoKey | Some r \<Rightarrow> Inr (Some (rec, r)))))"

definition dict_get_or_nil :: "('k, 'v list) dict \<Rightarrow> 'k \<Rightarrow> 'v list" where
  "dict_get_or_nil d k = (case dict_get d k of None \<Rightarrow> [] | Some vs \<Rightarrow> vs)"

definition repo_get_revision :: "memory_repo \<Rightarrow> uuid \<Rightarrow> int \<Rightarrow> MemoryRevision option" where
  "repo_get_revision repo i n = find (\<lambda>r. mrv_revision r = n) (dict_get_or_nil (mm_revisions repo) i)"

definition repo_list_revisions :: "memory_repo \<Rightarrow> uuid \<Rightarrow> int \<Rightarrow> repo_fault + MemoryRevision list" where
  "repo_list_revisions repo i limit = (if limit < 1 \<or> 1000 < limit then Inl BadLimit
     else Inr (take (nat limit) (dict_get_or_nil (mm_revisions repo) i)))"

definition repo_list_sources :: "memory_repo \<Rightarrow> uuid \<Rightarrow> int \<Rightarrow> int \<Rightarrow> repo_fault + MemorySourceRef list" where
  "repo_list_sources repo i n limit = (if limit < 1 \<or> 64 < limit then Inl BadLimit
     else Inr (take (nat limit) (dict_get_or_nil (mm_sources repo) (i, n))))"

definition first_revision :: "(hashed_revision \<Rightarrow> string) \<Rightarrow> timestamp \<Rightarrow> MemoryWriteRequest \<Rightarrow> memory_fault + MemoryRevision" where
  "first_revision hash now q = construct (revision_error hash)
     \<lparr>mrv_memory_id = mw_memory_id q, mrv_revision = 1, mrv_previous_revision = None,
      mrv_content = mw_content q, mrv_content_artifact = None,
      mrv_content_hash = hash \<lparr>hr_memory_id = mw_memory_id q, hr_revision = 1, hr_content = mw_content q,
        hr_status = mw_status q, hr_confidence = mw_confidence q, hr_salience = mw_salience q,
        hr_sensitivity = mw_sensitivity q\<rparr>,
      mrv_status = mw_status q, mrv_confidence = mw_confidence q, mrv_salience = mw_salience q,
      mrv_sensitivity = mw_sensitivity q, mrv_reason = mw_reason q, mrv_created_at = now,
      mrv_created_by = mw_actor q, mrv_expires_at = None, mrv_successor_memory_id = None\<rparr>"

definition first_record :: "MemoryWriteRequest \<Rightarrow> MemoryRevision \<Rightarrow> memory_fault + MemoryRecord" where
  "first_record q r = construct record_error
     \<lparr>mrec_memory_id = mw_memory_id q, mrec_memory_type = mw_memory_type q, mrec_scope = mw_scope q,
      mrec_status = mw_status q, mrec_current_revision = 1, mrec_title = mw_title q,
      mrec_created_at = mrv_created_at r, mrec_created_by = mw_actor q\<rparr>"

definition lift_contract :: "memory_fault + 'a \<Rightarrow> repo_fault + 'a" where
  "lift_contract x = (case x of Inl e \<Rightarrow> Inl (MemoryContract e) | Inr v \<Rightarrow> Inr v)"

text \<open>A known idempotency key answers with the memory it was first used for.\<close>

definition repo_create ::
  "(hashed_revision \<Rightarrow> string) \<Rightarrow> timestamp \<Rightarrow> memory_repo \<Rightarrow> MemoryWriteRequest \<Rightarrow>
   repo_fault + (memory_repo \<times> (MemoryRecord \<times> MemoryRevision) option)" where
  "repo_create hash now repo q =
     (case dict_get (mm_idempotency repo) (mw_idempotency_key q) of
        Some i \<Rightarrow> bind_res (repo_get_current repo i) (\<lambda>found. Inr (repo, found))
      | None \<Rightarrow>
          if mw_memory_id q \<in> fst ` set (mm_records repo) then Inl MemoryIdentityExists
          else bind_res (lift_contract (first_revision hash now q)) (\<lambda>r.
            bind_res (lift_contract (first_record q r)) (\<lambda>rec.
              Inr (\<lparr>mm_records = dict_set (mm_records repo) (mw_memory_id q) rec,
                    mm_revisions = dict_set (mm_revisions repo) (mw_memory_id q) [r],
                    mm_sources = dict_set (mm_sources repo) (mw_memory_id q, 1) (mw_provenance q),
                    mm_idempotency = dict_set (mm_idempotency repo) (mw_idempotency_key q) (mw_memory_id q)\<rparr>,
                   Some (rec, r)))))"

text \<open>The update of the record copies it without validation.\<close>

definition repo_append ::
  "memory_repo \<Rightarrow> MemoryRevision \<Rightarrow> MemorySourceRef list \<Rightarrow> int \<Rightarrow> repo_fault + memory_repo" where
  "repo_append repo r sources expected =
     (let i = mrv_memory_id r in
      case dict_get (mm_records repo) i of
        None \<Rightarrow> Inl StaleRevision
      | Some rec \<Rightarrow>
          if mrec_current_revision rec \<noteq> expected then Inl StaleRevision
          else if mrv_revision r \<noteq> expected + 1 then Inl RevisionNotNext
          else (case (dict_get (mm_sources repo) (i, expected), dict_get (mm_revisions repo) i) of
              (Some before, Some rs) \<Rightarrow>
                if \<not> set (map source_key before) \<subseteq> set (map source_key sources) then Inl ProvenanceRemoved
                else Inr (repo
                  \<lparr>mm_revisions := dict_set (mm_revisions repo) i (rs @ [r]),
                   mm_sources := dict_set (mm_sources repo) (i, mrv_revision r) sources,
                   mm_records := dict_set (mm_records repo) i
                     (rec\<lparr>mrec_current_revision := mrv_revision r, mrec_status := mrv_status r\<rparr>)\<rparr>)
            | _ \<Rightarrow> Inl MissingRepoKey))"

end
