(* ===== verification/Memory_Service.thy ===== *)
theory Memory_Service
  imports Memory_Governance
begin

text \<open>
  The services of the memory plane: the event service (\<open>events/memory_event_service.py\<close>), the gateway for
  writes (\<open>application/services/memory_service.py\<close>) and the lifecycle operations
  (\<open>memory/lifecycle.py\<close>), over the in-memory repository and an event store that is a parameter.
\<close>

record 's memory_env = "('s, memory_payload) log_env" +
  mv_hash :: "hashed_revision \<Rightarrow> string"
  mv_policy :: MemoryWritePolicy
  mv_policy_digest :: "MemoryWritePolicy \<Rightarrow> string"
  mv_float_length :: "pyfloat \<Rightarrow> int"
  mv_maximum_inline :: int
  mv_events :: bool

record 's memory_state = "'s log_state" +
  ms_repo :: memory_repo

datatype memory_error = MemDenied "string list" | MemNotFound | MemIllegalTransition
  | MemRepo repo_fault | MemContractFault memory_fault | MemEnvelope envelope_fault
  | MemStore store_error | MemProviderPromotes | MemEvidenceMissing | MemEvidenceIncomplete
  | MemEvidenceConflict | MemOther

type_synonym ('s, 'a) memory_comp = "('s memory_state, memory_error, 'a) comp"

section \<open>Events\<close>

definition memory_actor :: ActorRef where
  "memory_actor = \<lparr>ar_actor_type = ActorSystem, ar_actor_id = ''governed-memory-service'', ar_display_name = None\<rparr>"

definition memory_append ::
  "'s memory_env \<Rightarrow> uuid \<Rightarrow> int \<Rightarrow> uuid \<Rightarrow> memory_payload \<Rightarrow> ('s, unit) memory_comp" where
  "memory_append env sid expected correlation p = (\<lambda>s.
     let t = sv_tick s; s' = s\<lparr>sv_tick := Suc t\<rparr> in
     case create_event_envelope (lg_digest env) memory_event_type (\<lambda>_. 1) (lg_new_id env t) (lg_now env t) p
        sid StreamMemory (expected + 1) correlation None memory_actor ''governed-memory-service''
        PrivacySensitive None None of
       Inl f \<Rightarrow> (s', Inl (MemEnvelope f))
     | Inr e \<Rightarrow> (case lg_append env (sv_store s) [e] expected of
          (st, Inl f) \<Rightarrow> (s'\<lparr>sv_store := st\<rparr>, Inl (MemStore f))
        | (st, Inr _) \<Rightarrow> (s'\<lparr>sv_store := st\<rparr>, Inr ())))"

definition lost_race :: "memory_error \<Rightarrow> bool" where
  "lost_race e \<longleftrightarrow> (case e of MemStore (StoreConflict _ _) \<Rightarrow> True | _ \<Rightarrow> False)"

definition ensure_item_created ::
  "'s memory_env \<Rightarrow> MemoryRecord \<Rightarrow> MemoryRevision \<Rightarrow> uuid \<Rightarrow> ('s, unit) memory_comp" where
  "ensure_item_created env rec r correlation =
     bnd (asks (\<lambda>s. lg_version env (sv_store s) (mrec_memory_id rec))) (\<lambda>version.
       if (case version of None \<Rightarrow> False | Some v \<Rightarrow> v \<noteq> 0) then ret ()
       else handle (memory_append env (mrec_memory_id rec) 0 correlation (PItemCreated rec r))
         (\<lambda>e. if lost_race e then ret () else throw e))"

section \<open>The repository as an effect\<close>

definition on_repo :: "(memory_repo \<Rightarrow> repo_fault + (memory_repo \<times> 'a)) \<Rightarrow> ('s, 'a) memory_comp" where
  "on_repo f = (\<lambda>s. case f (ms_repo s) of Inl e \<Rightarrow> (s, Inl (MemRepo e))
     | Inr (repo, x) \<Rightarrow> (s\<lparr>ms_repo := repo\<rparr>, Inr x))"

definition reads_repo :: "(memory_repo \<Rightarrow> repo_fault + 'a) \<Rightarrow> ('s, 'a) memory_comp" where
  "reads_repo f = on_repo (\<lambda>repo. bind_res (f repo) (\<lambda>x. Inr (repo, x)))"

section \<open>Writing\<close>

text \<open>The revision a creation event describes: the first one.\<close>

definition creation_revision :: "memory_repo \<Rightarrow> MemoryRecord \<Rightarrow> MemoryRevision \<Rightarrow> MemoryRevision" where
  "creation_revision repo rec r = (if mrv_revision r = 1 then r
     else case repo_get_revision repo (mrec_memory_id rec) 1 of None \<Rightarrow> r | Some first \<Rightarrow> first)"

definition announce_creation ::
  "'s memory_env \<Rightarrow> MemoryWriteRequest \<Rightarrow> MemoryRecord \<times> MemoryRevision \<Rightarrow> ('s, unit) memory_comp" where
  "announce_creation env q found = (case found of (rec, r) \<Rightarrow>
     if \<not> mv_events env then ret ()
     else bnd (asks (\<lambda>s. creation_revision (ms_repo s) rec r)) (\<lambda>first.
       ensure_item_created env rec first (mw_request_id q)))"

definition create_memory ::
  "'s memory_env \<Rightarrow> MemoryWriteRequest \<Rightarrow> bool \<Rightarrow>
   ('s, MemoryWriteDecision \<times> (MemoryRecord \<times> MemoryRevision) option) memory_comp" where
  "create_memory env q dry_run =
     (if mv_maximum_inline env < json_length (mv_float_length env) (JObj (content_fields (mw_content q)))
      then throw (MemDenied [''inline_content_limit_exceeded''])
      else bnd (ask_env (\<lambda>t. evaluate_write (mv_policy_digest env) q (mv_policy env) (lg_now env t))) (\<lambda>decision.
        if mwd_decision decision = DenyWrite then throw (MemDenied (mwd_reason_codes decision))
        else if dry_run then ret (decision, None)
        else bnd (ask_env (lg_now env)) (\<lambda>now.
          bnd (on_repo (\<lambda>repo. repo_create (mv_hash env) now repo q)) (\<lambda>found. case found of
              None \<Rightarrow> throw MemOther
            | Some f \<Rightarrow> andthen (announce_creation env q f) (ret (decision, Some f))))))"

section \<open>Lifecycle operations\<close>

text \<open>The sources by key, a later one replacing an earlier, in the order of the keys.\<close>

definition merge_sources :: "MemorySourceRef list \<Rightarrow> MemorySourceRef list" where
  "merge_sources sources =
     map snd (sort_key fst (foldl (\<lambda>d x. dict_set d (source_key x) x) [] sources))"

definition next_revision ::
  "(hashed_revision \<Rightarrow> string) \<Rightarrow> timestamp \<Rightarrow> MemoryRevision \<Rightarrow> int \<Rightarrow> MemoryStatus \<Rightarrow> MemoryCreator \<Rightarrow>
   MemoryTransitionReason \<Rightarrow> uuid option \<Rightarrow> memory_fault + MemoryRevision" where
  "next_revision hash now previous expected target actor reason successor =
     construct (revision_error hash)
      (previous\<lparr>mrv_revision := expected + 1, mrv_previous_revision := Some expected,
        mrv_content_hash := hash ((hashed_part previous)\<lparr>hr_revision := expected + 1, hr_status := target\<rparr>),
        mrv_status := target, mrv_reason := reason, mrv_created_at := now, mrv_created_by := actor,
        mrv_successor_memory_id := successor\<rparr>)"

definition memory_transition ::
  "'s memory_env \<Rightarrow> uuid \<Rightarrow> int \<Rightarrow> MemoryStatus \<Rightarrow> MemoryCreator \<Rightarrow> MemoryTransitionReason \<Rightarrow>
   MemorySourceRef list \<Rightarrow> uuid option \<Rightarrow> ('s, MemoryRevision) memory_comp" where
  "memory_transition env i expected target actor reason extra successor =
     bnd (reads_repo (\<lambda>repo. repo_get_current repo i)) (\<lambda>current. case current of
       None \<Rightarrow> throw MemNotFound
     | Some (_, previous) \<Rightarrow>
         if \<not> can_transition_memory (mrv_status previous) target then throw MemIllegalTransition
         else bnd (reads_repo (\<lambda>repo. repo_list_sources repo i (mrv_revision previous) 64)) (\<lambda>sources.
           let merged = merge_sources (sources @ extra) in
           case provenance_error merged of Some e \<Rightarrow> throw (MemContractFault e)
           | None \<Rightarrow>
             bnd (ask_env (lg_now env)) (\<lambda>now.
             bnd (lift_res MemContractFault
               (next_revision (mv_hash env) now previous expected target actor reason successor)) (\<lambda>r.
             on_repo (\<lambda>repo. bind_res (repo_append repo r merged expected) (\<lambda>repo'. Inr (repo', r)))))))"

definition audited ::
  "'s memory_env \<Rightarrow> ('x MemoryTransitionRequest_scheme) \<Rightarrow> (MemoryRevision \<Rightarrow> memory_payload) \<Rightarrow>
   ('s, MemoryRevision) memory_comp \<Rightarrow> ('s, MemoryRevision) memory_comp" where
  "audited env q event m = bnd m (\<lambda>r.
     if mv_events env
     then andthen (memory_append env (mt_memory_id q) (mt_expected_revision q) (mt_request_id q) (event r)) (ret r)
     else ret r)"

text \<open>Evidence that is itself a memory must still stand.\<close>

definition retired_memory :: "MemoryStatus \<Rightarrow> bool" where
  "retired_memory st \<longleftrightarrow> st \<in> {MemRetracted, MemSuperseded, MemExpired}"

fun check_evidence :: "MemorySourceRef list \<Rightarrow> ('s, unit) memory_comp" where
  "check_evidence [] = ret ()"
| "check_evidence (x # xs) =
     (if mid_source_type (mso_identity x) = FromMemoryRevision
      then (case mid_memory_id (mso_identity x) of
          None \<Rightarrow> throw MemEvidenceIncomplete
        | Some i \<Rightarrow> bnd (reads_repo (\<lambda>repo. repo_get_current repo i)) (\<lambda>found. case found of
            None \<Rightarrow> throw MemEvidenceConflict
          | Some (_, r) \<Rightarrow> if retired_memory (mrv_status r) then throw MemEvidenceConflict
              else check_evidence xs))
      else check_evidence xs)"

definition evidence_types :: "MemorySourceRef list \<Rightarrow> MemorySourceType set" where
  "evidence_types sources = (\<lambda>x. mid_source_type (mso_identity x)) ` set sources"

definition promote_memory :: "'s memory_env \<Rightarrow> MemoryPromotionRequest \<Rightarrow> ('s, MemoryRevision) memory_comp" where
  "promote_memory env q =
     (if mcr_creator_type (mt_actor q) = ByProvider then throw MemProviderPromotes
      else if \<not> {FromAcceptanceDecision, FromCodingTrajectory} \<subseteq> evidence_types (mp_evidence q)
      then throw MemEvidenceMissing
      else andthen (check_evidence (mp_evidence q))
        (audited env q (\<lambda>r. PPromoted (mt_memory_id q) (mt_expected_revision q) r (mt_reason q) (mrv_created_at r))
          (memory_transition env (mt_memory_id q) (mt_expected_revision q) MemVerified (mt_actor q) (mt_reason q)
            (mp_evidence q) None)))"

definition supersede_memory :: "'s memory_env \<Rightarrow> MemorySupersessionRequest \<Rightarrow> ('s, MemoryRevision) memory_comp" where
  "supersede_memory env q =
     bnd (reads_repo (\<lambda>repo. repo_get_current repo (msu_successor_memory_id q))) (\<lambda>successor. case successor of
       None \<Rightarrow> throw MemNotFound
     | Some _ \<Rightarrow>
         audited env q (\<lambda>r. PSuperseded (mt_memory_id q) (mt_expected_revision q) r (mt_reason q) (mrv_created_at r)
             (msu_successor_memory_id q))
           (memory_transition env (mt_memory_id q) (mt_expected_revision q) MemSuperseded (mt_actor q) (mt_reason q)
             [] (Some (msu_successor_memory_id q))))"

definition retract_memory :: "'s memory_env \<Rightarrow> MemoryTransitionRequest \<Rightarrow> ('s, MemoryRevision) memory_comp" where
  "retract_memory env q =
     audited env q (\<lambda>r. PRetracted (mt_memory_id q) (mt_expected_revision q) r (mt_reason q) (mrv_created_at r))
       (memory_transition env (mt_memory_id q) (mt_expected_revision q) MemRetracted (mt_actor q) (mt_reason q) [] None)"

definition expire_memory :: "'s memory_env \<Rightarrow> MemoryTransitionRequest \<Rightarrow> ('s, MemoryRevision) memory_comp" where
  "expire_memory env q =
     audited env q (\<lambda>r. PExpired (mt_memory_id q) (mt_expected_revision q) r (mt_reason q) (mrv_created_at r))
       (memory_transition env (mt_memory_id q) (mt_expected_revision q) MemExpired (mt_actor q) (mt_reason q) [] None)"

end
