(* ===== verification/Memory_Inv.thy ===== *)
theory Memory_Inv
  imports Memory_Service
begin

text \<open>
  The invariant of the memory plane: every memory of the repository is a legal chain of revisions with the
  evidence its statuses need, and its event stream replays to exactly what the repository holds.
\<close>

section \<open>Replay\<close>

lemma replay_all_append:
  "replay_all st (ps @ qs) = bind_res (replay_all st ps) (\<lambda>st'. replay_all st' qs)"
  by (induction ps arbitrary: st) (simp_all add: bind_res_assoc)

lemma reduce_memory_append:
  "ps \<noteq> [] \<Longrightarrow> reduce_memory (ps @ qs) = bind_res (reduce_memory ps) (\<lambda>st. replay_all st qs)"
  by (cases ps rule: reduce_memory.cases) (auto simp: replay_all_append)

lemma replay_apply_next:
  assumes "replay_apply st p = Inr st'"
  shows "mrs_current_revision st' = mrs_current_revision st + 1 \<and> mrs_memory_id st' = mrs_memory_id st \<and>
    (\<exists>h. mrs_revision_hashes st' = mrs_revision_hashes st @ [h]) \<and>
    can_transition_memory (mrs_status st) (mrs_status st')"
  using assms by (cases p) (auto simp: replay_transition_def replay_next_def split: if_splits)

lemma retired_stuck: "retired_memory st \<Longrightarrow> \<not> can_transition_memory st t"
  by (cases st) (auto simp: retired_memory_def)

lemma replay_all_steps:
  assumes "replay_all st ps = Inr st'"
  shows "mrs_current_revision st' = mrs_current_revision st + int (length ps) \<and>
    (\<exists>hs. mrs_revision_hashes st' = mrs_revision_hashes st @ hs \<and> length hs = length ps) \<and>
    (retired_memory (mrs_status st) \<longrightarrow> ps = [])"
  using assms
proof (induction ps arbitrary: st)
  case (Cons p ps)
  from Cons.prems obtain st1 where st1: "replay_apply st p = Inr st1" "replay_all st1 ps = Inr st'"
    by (auto simp: bind_res_Inr_iff)
  with Cons.IH [OF st1(2)] replay_apply_next [OF st1(1)] retired_stuck show ?case by auto
qed simp

lemma reduce_memory_length: "reduce_memory ps = Inr st \<Longrightarrow> mrs_current_revision st = int (length ps)"
  by (cases ps rule: reduce_memory.cases) (auto split: if_splits dest: replay_all_steps)

section \<open>The repository\<close>

definition revisions_of :: "memory_repo \<Rightarrow> uuid \<Rightarrow> MemoryRevision list" where
  "revisions_of repo i = dict_get_or_nil (mm_revisions repo) i"

definition chain_ok :: "(hashed_revision \<Rightarrow> string) \<Rightarrow> uuid \<Rightarrow> MemoryRevision list \<Rightarrow> bool" where
  "chain_ok hash i rs \<longleftrightarrow> rs \<noteq> [] \<and>
     (\<forall>k < length rs. mrv_memory_id (rs ! k) = i \<and> mrv_revision (rs ! k) = int k + 1 \<and>
        revision_error hash (rs ! k) = None) \<and>
     (\<forall>k. Suc k < length rs \<longrightarrow> can_transition_memory (mrv_status (rs ! k)) (mrv_status (rs ! Suc k)))"

text \<open>Why a revision may be verified: a policy that allows it at creation, the evidence afterwards.\<close>

definition justified :: "MemoryWritePolicy \<Rightarrow> MemorySourceRef list \<Rightarrow> MemoryRevision \<Rightarrow> nat \<Rightarrow> bool" where
  "justified policy sources r k \<longleftrightarrow> mrv_status r = MemVerified \<longrightarrow>
     mcr_creator_type (mrv_created_by r) \<noteq> ByProvider \<and>
     (if k = 0 then mpol_allow_verified_creation policy
      else {FromAcceptanceDecision, FromCodingTrajectory} \<subseteq> evidence_types sources)"

definition entry_ok ::
  "(hashed_revision \<Rightarrow> string) \<Rightarrow> MemoryWritePolicy \<Rightarrow> memory_repo \<Rightarrow> uuid \<Rightarrow> MemoryRecord \<Rightarrow> bool" where
  "entry_ok hash policy repo i rec \<longleftrightarrow> dict_get (mm_revisions repo) i = Some (revisions_of repo i) \<and>
     chain_ok hash i (revisions_of repo i) \<and> mrec_memory_id rec = i \<and>
     mrec_current_revision rec = int (length (revisions_of repo i)) \<and>
     mrec_status rec = mrv_status (last (revisions_of repo i)) \<and>
     (\<forall>k < length (revisions_of repo i). \<exists>src. dict_get (mm_sources repo) (i, int k + 1) = Some src \<and>
        justified policy src (revisions_of repo i ! k) k)"

definition repo_ok :: "(hashed_revision \<Rightarrow> string) \<Rightarrow> MemoryWritePolicy \<Rightarrow> memory_repo \<Rightarrow> bool" where
  "repo_ok hash policy repo \<longleftrightarrow>
     (\<forall>i rec. dict_get (mm_records repo) i = Some rec \<longrightarrow> entry_ok hash policy repo i rec) \<and>
     (\<forall>key i. dict_get (mm_idempotency repo) key = Some i \<longrightarrow> dict_get (mm_records repo) i \<noteq> None)"

text \<open>What the repository says of a memory, in the terms of the replay.\<close>

definition view :: "memory_repo \<Rightarrow> uuid \<Rightarrow> MemoryReplayState option" where
  "view repo i = map_option (\<lambda>rec. \<lparr>mrs_memory_id = i, mrs_status = mrec_status rec,
     mrs_current_revision = mrec_current_revision rec,
     mrs_revision_hashes = map mrv_content_hash (revisions_of repo i)\<rparr>) (dict_get (mm_records repo) i)"

lemma repo_okD: "repo_ok hash policy repo \<Longrightarrow> dict_get (mm_records repo) i = Some rec \<Longrightarrow> entry_ok hash policy repo i rec"
  by (simp add: repo_ok_def)

lemma chain_last:
  assumes "chain_ok hash i rs"
  shows "mrv_memory_id (last rs) = i" "mrv_revision (last rs) = int (length rs)"
proof -
  have "last rs = rs ! (length rs - 1)" "length rs - 1 < length rs"
    using assms by (simp_all add: chain_ok_def last_conv_nth)
  then show "mrv_memory_id (last rs) = i" "mrv_revision (last rs) = int (length rs)"
    using assms by (auto simp: chain_ok_def of_nat_diff Suc_le_eq)
qed

lemma get_current_ok:
  assumes "repo_ok hash policy repo" "dict_get (mm_records repo) i = Some rec"
  shows "repo_get_current repo i = Inr (Some (rec, last (revisions_of repo i)))"
  using repo_okD [OF assms] assms(2)
  by (auto simp: repo_get_current_def entry_ok_def last_revision_def chain_ok_def)

lemma get_current_Inr:
  assumes "repo_ok hash policy repo" "repo_get_current repo i = Inr found"
  shows "found = map_option (\<lambda>rec. (rec, last (revisions_of repo i))) (dict_get (mm_records repo) i)"
proof (cases "dict_get (mm_records repo) i")
  case None
  with assms(2) show ?thesis by (simp add: repo_get_current_def)
next
  case (Some rec)
  with get_current_ok [OF assms(1) this] assms(2) show ?thesis by simp
qed

lemma chain_snoc:
  assumes "chain_ok hash i rs" "mrv_memory_id r = i" "mrv_revision r = int (length rs) + 1"
    and "revision_error hash r = None" "can_transition_memory (mrv_status (last rs)) (mrv_status r)"
  shows "chain_ok hash i (rs @ [r])"
proof -
  have ne: "rs \<noteq> []" using assms(1) by (simp add: chain_ok_def)
  have steps: "can_transition_memory (mrv_status ((rs @ [r]) ! k)) (mrv_status ((rs @ [r]) ! Suc k))"
    if "Suc k < length (rs @ [r])" for k
  proof (cases "Suc k < length rs")
    case True
    then show ?thesis using assms(1) by (simp add: chain_ok_def nth_append)
  next
    case False
    with that have "Suc k = length rs" by simp
    then have "(rs @ [r]) ! k = last rs" "(rs @ [r]) ! Suc k = r"
      using ne by (simp_all add: nth_append last_conv_nth flip: \<open>Suc k = length rs\<close>)
    then show ?thesis using assms(5) by simp
  qed
  have "mrv_memory_id ((rs @ [r]) ! k) = i \<and> mrv_revision ((rs @ [r]) ! k) = int k + 1 \<and>
      revision_error hash ((rs @ [r]) ! k) = None" if "k < length (rs @ [r])" for k
    using that assms(1-4) by (cases "k < length rs") (auto simp: chain_ok_def nth_append less_Suc_eq)
  with steps show ?thesis unfolding chain_ok_def by blast
qed

text \<open>Appending a legal next revision.\<close>

lemma repo_append_ok:
  assumes ok: "repo_ok hash policy repo" and rec: "dict_get (mm_records repo) i = Some rec"
    and run: "repo_append repo r sources n = Inr repo'" and i: "mrv_memory_id r = i"
    and r: "revision_error hash r = None" "can_transition_memory (mrec_status rec) (mrv_status r)"
    and just: "justified policy sources r (length (revisions_of repo i))"
  shows "repo_ok hash policy repo' \<and> n = mrec_current_revision rec \<and> mrv_revision r = n + 1 \<and>
    view repo' = (view repo)(i \<mapsto> replay_next (the (view repo i)) (mrv_status r) r)"
proof -
  let ?rs = "revisions_of repo i"
  note entry = repo_okD [OF ok rec]
  from run rec i entry have n: "n = mrec_current_revision rec" "mrv_revision r = n + 1"
    by (auto simp: repo_append_def Let_def entry_ok_def split: if_splits option.splits)
  from entry have rs: "dict_get (mm_revisions repo) i = Some ?rs" "int (length ?rs) = n"
    "mrec_status rec = mrv_status (last ?rs)" "chain_ok hash i ?rs" "mrec_memory_id rec = i"
    using n(1) by (simp_all add: entry_ok_def)
  have repo': "repo' = repo\<lparr>mm_revisions := dict_set (mm_revisions repo) i (?rs @ [r]),
      mm_sources := dict_set (mm_sources repo) (i, mrv_revision r) sources,
      mm_records := dict_set (mm_records repo) i
        (rec\<lparr>mrec_current_revision := mrv_revision r, mrec_status := mrv_status r\<rparr>)\<rparr>"
    using run rec i rs(1) by (auto simp: repo_append_def Let_def split: if_splits option.splits)
  have of': "revisions_of repo' j = (if j = i then ?rs @ [r] else revisions_of repo j)" for j
    by (simp add: repo' revisions_of_def dict_get_or_nil_def)
  have "chain_ok hash i (?rs @ [r])"
    using rs(2-4) i r n(2) by (intro chain_snoc) simp_all
  moreover have "\<exists>src. dict_get (mm_sources repo') (i, int k + 1) = Some src \<and>
      justified policy src ((?rs @ [r]) ! k) k" if "k < length (?rs @ [r])" for k
  proof (cases "k = length ?rs")
    case True
    then have "int k + 1 = mrv_revision r" using rs(2) n(2) by simp
    then show ?thesis using True just by (simp add: repo')
  next
    case False
    with that have k: "k < length ?rs" by simp
    with entry obtain src where "dict_get (mm_sources repo) (i, int k + 1) = Some src" "justified policy src (?rs ! k) k"
      by (auto simp: entry_ok_def)
    moreover have "int k + 1 \<noteq> mrv_revision r" using k rs(2) n(2) by simp
    ultimately show ?thesis using k by (simp add: repo' nth_append)
  qed
  ultimately have here: "entry_ok hash policy repo' i
      (rec\<lparr>mrec_current_revision := mrv_revision r, mrec_status := mrv_status r\<rparr>)"
    unfolding entry_ok_def of' using rs(2,5) n(2) by (simp add: repo')
  have there: "entry_ok hash policy repo' j rec'" if "dict_get (mm_records repo) j = Some rec'" "j \<noteq> i" for j rec'
    using repo_okD [OF ok that(1)] that(2) unfolding entry_ok_def of' by (simp add: repo')
  have "repo_ok hash policy repo'"
    using here there ok unfolding repo_ok_def by (simp add: repo')
  moreover have "view repo' = (view repo)(i \<mapsto> replay_next (the (view repo i)) (mrv_status r) r)"
    unfolding view_def of' by (auto simp: fun_eq_iff repo' rec replay_next_def)
  ultimately show ?thesis using n by simp
qed

text \<open>Creating a memory: a new entry, or the one the idempotency key already stands for.\<close>

lemma repo_create_ok:
  assumes ok: "repo_ok hash policy repo" and run: "repo_create hash now repo q = Inr (repo', found)"
    and allowed: "mcr_creator_type (mw_actor q) \<noteq> ByProvider" "mw_status q = MemVerified \<longrightarrow> mpol_allow_verified_creation policy"
  shows "repo_ok hash policy repo' \<and> (\<exists>rec r. found = Some (rec, r) \<and>
    (repo' = repo \<and> dict_get (mm_records repo) (mrec_memory_id rec) = Some rec \<and>
       r = last (revisions_of repo (mrec_memory_id rec)) \<or>
     view repo (mrec_memory_id rec) = None \<and> mrec_current_revision rec = 1 \<and> mrv_revision r = 1 \<and>
       mrec_memory_id rec = mrv_memory_id r \<and>
       view repo' = (view repo)(mrec_memory_id rec \<mapsto> \<lparr>mrs_memory_id = mrec_memory_id rec, mrs_status = mrv_status r,
         mrs_current_revision = 1, mrs_revision_hashes = [mrv_content_hash r]\<rparr>)))"
proof (cases "dict_get (mm_idempotency repo) (mw_idempotency_key q)")
  case (Some i)
  with ok have "dict_get (mm_records repo) i \<noteq> None" unfolding repo_ok_def by blast
  then obtain rec where rec: "dict_get (mm_records repo) i = Some rec" by blast
  from get_current_ok [OF ok this] repo_okD [OF ok this] Some run ok rec show ?thesis
    by (auto simp: repo_create_def entry_ok_def)
next
  case None
  let ?i = "mw_memory_id q"
  from run None obtain r rec where r: "first_revision hash now q = Inr r" and rec: "first_record q r = Inr rec"
    and free: "dict_get (mm_records repo) ?i = None" and found: "found = Some (rec, r)"
    and repo': "repo' = \<lparr>mm_records = dict_set (mm_records repo) ?i rec,
        mm_revisions = dict_set (mm_revisions repo) ?i [r],
        mm_sources = dict_set (mm_sources repo) (?i, 1) (mw_provenance q),
        mm_idempotency = dict_set (mm_idempotency repo) (mw_idempotency_key q) ?i\<rparr>"
    by (auto simp: repo_create_def bind_res_Inr_iff lift_contract_def map_of_eq_None_iff split: if_splits sum.splits)
  from r have rf: "revision_error hash r = None" "mrv_memory_id r = ?i" "mrv_revision r = 1"
    "mrv_status r = mw_status q" "mrv_created_by r = mw_actor q" by (auto simp: first_revision_def)
  from rec have cf: "mrec_memory_id rec = ?i" "mrec_current_revision rec = 1" "mrec_status rec = mw_status q"
    by (auto simp: first_record_def)
  have of': "revisions_of repo' j = (if j = ?i then [r] else revisions_of repo j)" for j
    by (simp add: repo' revisions_of_def dict_get_or_nil_def)
  have "chain_ok hash ?i [r]" using rf by (simp add: chain_ok_def)
  then have here: "entry_ok hash policy repo' ?i rec"
    unfolding entry_ok_def of' using cf rf allowed by (simp add: repo' justified_def)
  have there: "entry_ok hash policy repo' j rec'" if "dict_get (mm_records repo) j = Some rec'" "j \<noteq> ?i" for j rec'
    using repo_okD [OF ok that(1)] that(2) unfolding entry_ok_def of' by (simp add: repo')
  have "repo_ok hash policy repo'"
    using here there ok unfolding repo_ok_def by (auto simp: repo')
  moreover have "view repo' = (view repo)(?i \<mapsto> \<lparr>mrs_memory_id = ?i, mrs_status = mrv_status r,
      mrs_current_revision = 1, mrs_revision_hashes = [mrv_content_hash r]\<rparr>)"
    unfolding view_def of' by (auto simp: fun_eq_iff repo' cf rf)
  moreover have "view repo ?i = None" by (simp add: view_def free)
  ultimately show ?thesis using found cf rf by auto
qed

section \<open>Merging sources\<close>

lemma merged_dict:
  "fst ` set (foldl (\<lambda>d x. dict_set d (source_key x) x) d xs) = fst ` set d \<union> source_key ` set xs"
  "\<forall>(k, x) \<in> set d. k = source_key x \<Longrightarrow>
   \<forall>(k, x) \<in> set (foldl (\<lambda>d x. dict_set d (source_key x) x) d xs). k = source_key x"
proof (induction xs arbitrary: d)
  case (Cons x xs)
  { case 1 show ?case using Cons.IH(1) by auto }
  { case 2
    have "\<forall>(k, y) \<in> set (dict_set d (source_key x) x). k = source_key y"
      using 2 by (induction d "source_key x" x rule: dict_set.induct) auto
    then show ?case using Cons.IH(2) by simp }
qed simp_all

lemma source_type_key: "t \<in> evidence_types xs \<longleftrightarrow> source_type_value t \<in> fst ` source_key ` set xs"
  using source_type_value_inj
  by (fastforce simp: evidence_types_def source_key_def source_sort_key_def image_iff)

lemma merge_sources_types: "evidence_types (merge_sources xs) = evidence_types xs"
proof -
  let ?d = "foldl (\<lambda>d x. dict_set d (source_key x) x) [] xs"
  have "source_key ` set (merge_sources xs) = source_key ` snd ` set ?d" by (simp add: merge_sources_def)
  also have "\<dots> = fst ` set ?d"
    using merged_dict(2) [of "[]" xs] by (force simp: image_iff)
  also have "\<dots> = source_key ` set xs" by (simp add: merged_dict(1))
  finally show ?thesis by (auto simp: source_type_key)
qed

end
