(* ===== verification/Memory_Runs.thy ===== *)
theory Memory_Runs
  imports Memory_Inv
begin

text \<open>
  The memory plane as a transition system: every operation, returning or raising, keeps the invariant, so
  that in every reachable state the event streams replay to the repository.
\<close>

section \<open>Operations\<close>

datatype memory_op =
    OpCreate MemoryWriteRequest bool
  | OpPromote MemoryPromotionRequest
  | OpSupersede MemorySupersessionRequest
  | OpRetract MemoryTransitionRequest
  | OpExpire MemoryTransitionRequest

fun run_memory_op :: "'s memory_env \<Rightarrow> memory_op \<Rightarrow> ('s, unit) memory_comp" where
  "run_memory_op env (OpCreate q dry_run) = andthen (create_memory env q dry_run) (ret ())"
| "run_memory_op env (OpPromote q) = andthen (promote_memory env q) (ret ())"
| "run_memory_op env (OpSupersede q) = andthen (supersede_memory env q) (ret ())"
| "run_memory_op env (OpRetract q) = andthen (retract_memory env q) (ret ())"
| "run_memory_op env (OpExpire q) = andthen (expire_memory env q) (ret ())"

lemma memory_event_type_ok: "event_type_ok (memory_event_type p)"
  by (cases p; simp only: memory_event_type.simps; code_simp)

definition replays :: "memory_repo \<Rightarrow> memory_payload list \<Rightarrow> uuid \<Rightarrow> bool" where
  "replays repo ps i \<longleftrightarrow> (case view repo i of None \<Rightarrow> ps = [] | Some st \<Rightarrow> reduce_memory ps = Inr st)"

section \<open>Every operation keeps the invariant\<close>

locale memory_runs = versioned_log append_events history wf_store version_of
  for append_events :: "'s \<Rightarrow> memory_payload EventEnvelope list \<Rightarrow> int \<Rightarrow> 's \<times> (store_error + AppendResult)"
    and history :: "'s \<Rightarrow> uuid \<Rightarrow> memory_payload EventEnvelope list"
    and wf_store :: "'s \<Rightarrow> bool" and version_of :: "'s \<Rightarrow> uuid \<Rightarrow> int option" +
  fixes env :: "'s memory_env"
  assumes env_append: "lg_append env = append_events" and env_version: "lg_version env = version_of"
begin

text \<open>The digests of payloads are SHA-256 digests, and the services are given the event service.\<close>

definition env_sound :: bool where
  "env_sound \<longleftrightarrow> (\<forall>p. sha256_hex (lg_digest env p)) \<and> mv_events env"


lemma memory_append_ok:
  assumes "wf_store (sv_store s)" "n = int (length (history (sv_store s) i))" env_sound
  shows "\<exists>st e. memory_append env i n cor p s = (s\<lparr>sv_tick := Suc (sv_tick s), sv_store := st\<rparr>, Inr ()) \<and>
    ev_payload e = p \<and> wf_store st \<and> history st = (history (sv_store s))(i := history (sv_store s) i @ [e])"
proof -
  have "component_ok ''governed-memory-service''" by code_simp
  then obtain e where e: "create_event_envelope (lg_digest env) memory_event_type (\<lambda>_. 1) (lg_new_id env (sv_tick s))
      (lg_now env (sv_tick s)) p i StreamMemory (n + 1) cor None memory_actor ''governed-memory-service''
      PrivacySensitive None None = Inr e"
    using assms(2,3) memory_event_type_ok [of p] unfolding env_sound_def
    by (simp add: create_event_envelope_def envelope_error_def Let_def construct_def)
  then have "ev_stream_id e = i" "ev_stream_version e = n + 1" "ev_payload e = p"
    by (auto simp: create_event_envelope_def Let_def)
  moreover from this have "batch_ok i n [e]" by (simp add: batch_ok_def)
  moreover from append_current [OF assms(1), of i "[e]"] this assms(2) obtain st res where
    "append_events (sv_store s) [e] n = (st, Inr res)" "wf_store st"
    "history st = (history (sv_store s))(i := history (sv_store s) i @ [e])" by auto
  ultimately show ?thesis using e by (auto simp: memory_append_def Let_def env_append)
qed

definition mem_inv :: "(uuid \<Rightarrow> memory_payload list) \<Rightarrow> 's memory_state \<Rightarrow> bool" where
  "mem_inv base s \<longleftrightarrow> env_sound \<and> wf_store (sv_store s) \<and> repo_ok (mv_hash env) (mv_policy env) (ms_repo s) \<and>
     (\<forall>i. replays (ms_repo s) (log_of i s) i) \<and> (\<forall>i. \<exists>new. log_of i s = base i @ new)"

definition holds :: "(uuid \<Rightarrow> memory_payload list) \<Rightarrow> memory_repo \<Rightarrow> 's memory_state \<Rightarrow> bool" where
  "holds base repo s \<longleftrightarrow> mem_inv base s \<and> ms_repo s = repo"

lemma triple_holds: "(\<And>repo. triple (holds base repo) m Q E) \<Longrightarrow> triple (mem_inv base) m Q E"
  by (auto simp: triple_def holds_def)

lemma holds_inv: "holds base repo s \<Longrightarrow> mem_inv base s"
  by (simp add: holds_def)

lemma reads_holds:
  "triple (holds base repo) (reads_repo f) (\<lambda>x s. holds base repo s \<and> f repo = Inr x) (\<lambda>_. mem_inv base)"
proof (rule tripleI)
  fix s :: "'s memory_state" assume "holds base repo s"
  then show "case reads_repo f s of (s', Inr x) \<Rightarrow> holds base repo s' \<and> f repo = Inr x | (s', Inl e) \<Rightarrow> mem_inv base s'"
    by (cases "f repo") (auto simp: reads_repo_def on_repo_def holds_def)
qed

lemma ask_holds: "triple (holds base repo) (ask_env f) (\<lambda>_. holds base repo) E"
  by (rule tripleI) (auto simp: ask_env_def holds_def mem_inv_def log_of_def)

lemma throw_holds: "triple (holds base repo) (throw e) Q (\<lambda>_. mem_inv base)"
  by (rule triple_throw) (simp add: holds_def)

text \<open>After a transition the repository is one revision ahead of the stream.\<close>

definition advanced ::
  "(uuid \<Rightarrow> memory_payload list) \<Rightarrow> uuid \<Rightarrow> int \<Rightarrow> MemoryStatus \<Rightarrow> MemoryRevision \<Rightarrow> 's memory_state \<Rightarrow> bool" where
  "advanced base i n target r s \<longleftrightarrow> (\<exists>repo st. mem_inv base (s\<lparr>ms_repo := repo\<rparr>) \<and>
     repo_ok (mv_hash env) (mv_policy env) (ms_repo s) \<and> view repo i = Some st \<and> n = mrs_current_revision st \<and>
     mrv_revision r = n + 1 \<and> mrv_memory_id r = i \<and> mrv_status r = target \<and>
     can_transition_memory (mrs_status st) target \<and>
     view (ms_repo s) = (view repo)(i \<mapsto> replay_next st target r))"

lemma append_revision_in:
  assumes repo: "repo_get_current repo i = Inr (Some (rec, previous))"
    and next_r: "next_revision (mv_hash env) now previous n target actor reason successor = Inr r"
    and legal: "can_transition_memory (mrv_status previous) target"
    and just: "target = MemVerified \<longrightarrow> mcr_creator_type actor \<noteq> ByProvider \<and>
      {FromAcceptanceDecision, FromCodingTrajectory} \<subseteq> evidence_types merged"
  shows "triple (holds base repo) (on_repo (\<lambda>repo. bind_res (repo_append repo r merged n) (\<lambda>repo'. Inr (repo', r))))
    (advanced base i n target) (\<lambda>_. mem_inv base)"
proof (rule tripleI)
  fix s assume here: "holds base repo s"
  then have ok: "repo_ok (mv_hash env) (mv_policy env) repo" unfolding holds_def mem_inv_def by blast
  from get_current_Inr [OF ok repo] have rec: "dict_get (mm_records repo) i = Some rec"
    and previous: "previous = last (revisions_of repo i)"
    by (cases "dict_get (mm_records repo) i"; simp)+
  note entry = repo_okD [OF ok rec]
  from next_r have r: "revision_error (mv_hash env) r = None" "mrv_status r = target" "mrv_created_by r = actor"
    "mrv_memory_id r = mrv_memory_id previous" by (auto simp: next_revision_def)
  have i: "mrv_memory_id r = i" using r(4) entry chain_last(1) by (auto simp: entry_ok_def previous)
  show "case on_repo (\<lambda>repo. bind_res (repo_append repo r merged n) (\<lambda>repo'. Inr (repo', r))) s of
      (s', Inr x) \<Rightarrow> advanced base i n target x s' | (s', Inl e) \<Rightarrow> mem_inv base s'"
  proof (cases "repo_append repo r merged n")
    case (Inl e)
    then show ?thesis using here by (simp add: on_repo_def holds_def)
  next
    case (Inr repo')
    have "justified (mv_policy env) merged r (length (revisions_of repo i))"
      using just r(2,3) entry by (auto simp: justified_def entry_ok_def chain_ok_def)
    from repo_append_ok [OF ok rec Inr i r(1) _ this] legal r(2) entry
    have app: "repo_ok (mv_hash env) (mv_policy env) repo'" "n = mrec_current_revision rec" "mrv_revision r = n + 1"
      "view repo' = (view repo)(i \<mapsto> replay_next (the (view repo i)) target r)"
      by (auto simp: entry_ok_def previous)
    have "advanced base i n target r (s\<lparr>ms_repo := repo'\<rparr>)"
      unfolding advanced_def
      using here app i r(2) legal entry
      by (intro exI [of _ repo] exI [of _ "the (view repo i)"])
        (auto simp: holds_def view_def rec entry_ok_def previous)
    with Inr here show ?thesis by (simp add: on_repo_def holds_def)
  qed
qed

lemma transition_in:
  assumes "target = MemVerified \<longrightarrow> mcr_creator_type actor \<noteq> ByProvider \<and>
      {FromAcceptanceDecision, FromCodingTrajectory} \<subseteq> evidence_types extra"
  shows "triple (mem_inv base) (memory_transition env i n target actor reason extra successor)
    (advanced base i n target) (\<lambda>_. mem_inv base)"
proof (rule triple_holds)
  fix repo
  have rest: "triple (holds base repo) (let merged = merge_sources (sources @ extra) in
      case provenance_error merged of Some e \<Rightarrow> throw (MemContractFault e)
      | None \<Rightarrow> bnd (ask_env (lg_now env)) (\<lambda>now.
          bnd (lift_res MemContractFault
            (next_revision (mv_hash env) now previous n target actor reason successor)) (\<lambda>r.
          on_repo (\<lambda>repo. bind_res (repo_append repo r merged n) (\<lambda>repo'. Inr (repo', r))))))
      (advanced base i n target) (\<lambda>_. mem_inv base)"
    if "repo_get_current repo i = Inr (Some (rec, previous))" "can_transition_memory (mrv_status previous) target"
    for rec previous sources
  proof -
    let ?merged = "merge_sources (sources @ extra)"
    have types: "evidence_types extra \<subseteq> evidence_types ?merged"
      unfolding merge_sources_types by (auto simp: evidence_types_def)
    have just: "target = MemVerified \<longrightarrow> mcr_creator_type actor \<noteq> ByProvider \<and>
        {FromAcceptanceDecision, FromCodingTrajectory} \<subseteq> evidence_types ?merged"
      using assms types by blast
    show ?thesis
    proof (cases "provenance_error ?merged")
      case (Some e)
      then show ?thesis using throw_holds by simp
    next
      case None
      have lifted: "triple (holds base repo) (lift_res MemContractFault r) (\<lambda>x s. holds base repo s \<and> r = Inr x)
          (\<lambda>_. mem_inv base)" for r :: "memory_fault + MemoryRevision"
        by (rule triple_lift_res) (auto simp: holds_def)
      show ?thesis
        unfolding Let_def None option.case
        by (rule triple_bnd [OF ask_holds], rule triple_bnd [OF lifted], rule triple_pure)
          (rule append_revision_in [OF that(1) _ that(2) just])
    qed
  qed
  show "triple (holds base repo) (memory_transition env i n target actor reason extra successor)
    (advanced base i n target) (\<lambda>_. mem_inv base)"
    unfolding memory_transition_def
  proof (rule triple_bnd [OF reads_holds], rule triple_pure)
    fix current assume current: "repo_get_current repo i = Inr current"
    show "triple (holds base repo) (case current of None \<Rightarrow> throw MemNotFound
       | Some (_, previous) \<Rightarrow>
         if \<not> can_transition_memory (mrv_status previous) target then throw MemIllegalTransition
         else bnd (reads_repo (\<lambda>repo. repo_list_sources repo i (mrv_revision previous) 64)) (\<lambda>sources.
           let merged = merge_sources (sources @ extra) in
           case provenance_error merged of Some e \<Rightarrow> throw (MemContractFault e)
           | None \<Rightarrow> bnd (ask_env (lg_now env)) (\<lambda>now.
             bnd (lift_res MemContractFault
               (next_revision (mv_hash env) now previous n target actor reason successor)) (\<lambda>r.
             on_repo (\<lambda>repo. bind_res (repo_append repo r merged n) (\<lambda>repo'. Inr (repo', r))))))) 
      (advanced base i n target) (\<lambda>_. mem_inv base)"
    proof (cases current)
      case (Some found)
      obtain rec previous where found: "found = (rec, previous)" by (cases found)
      show ?thesis
        unfolding Some found option.case prod.case
        by (rule triple_if [OF throw_holds], rule triple_bnd [OF reads_holds], rule triple_pure)
          (rule rest, use current Some found in simp_all)
    qed (use throw_holds in simp)
  qed
qed

text \<open>The audit event closes the gap.\<close>

definition announces :: "uuid \<Rightarrow> int \<Rightarrow> MemoryStatus \<Rightarrow> (MemoryRevision \<Rightarrow> memory_payload) \<Rightarrow> bool" where
  "announces i n target event \<longleftrightarrow> (\<forall>st r. replay_apply st (event r) = replay_transition st target i n r)"

lemma audit_in:
  assumes "announces i n target event"
  shows "triple (advanced base i n target r) (memory_append env i n cor (event r)) (\<lambda>_. mem_inv base) (\<lambda>_. mem_inv base)"
proof (rule tripleI)
  fix s assume "advanced base i n target r s"
  then obtain repo st where old: "mem_inv base (s\<lparr>ms_repo := repo\<rparr>)" and st: "view repo i = Some st"
    and ok: "repo_ok (mv_hash env) (mv_policy env) (ms_repo s)" and n: "n = mrs_current_revision st"
    and r: "mrv_revision r = n + 1" "mrv_memory_id r = i" "mrv_status r = target"
    and legal: "can_transition_memory (mrs_status st) target"
    and new: "view (ms_repo s) = (view repo)(i \<mapsto> replay_next st target r)"
    by (auto simp: advanced_def)
  from old have wf: "wf_store (sv_store s)" and log: "\<And>j. replays repo (log_of j s) j" and sound: env_sound
    and base: "\<And>j. \<exists>new. log_of j s = base j @ new"
    by (auto simp: mem_inv_def log_of_def)
  have red: "reduce_memory (log_of i s) = Inr st" using log [of i] by (simp add: replays_def st)
  have "n = int (length (history (sv_store s) i))"
    using reduce_memory_length [OF red] n by (simp add: log_of_def)
  from memory_append_ok [OF wf this sound, of cor "event r"] obtain store e where
    run: "memory_append env i n cor (event r) s = (s\<lparr>sv_tick := Suc (sv_tick s), sv_store := store\<rparr>, Inr ())"
    and e: "ev_payload e = event r" "wf_store store"
      "history store = (history (sv_store s))(i := history (sv_store s) i @ [e])" by blast
  let ?s' = "s\<lparr>sv_tick := Suc (sv_tick s), sv_store := store\<rparr>"
  have log': "log_of j ?s' = (if j = i then log_of i s @ [event r] else log_of j s)" for j
    by (simp add: log_of_def e)
  have "mrs_memory_id st = i" using st by (auto simp: view_def)
  then have "replay_apply st (event r) = Inr (replay_next st target r)"
    using assms r legal n by (simp add: announces_def replay_transition_def)
  moreover have "log_of i s \<noteq> []" using red by auto
  ultimately have "reduce_memory (log_of i s @ [event r]) = Inr (replay_next st target r)"
    by (simp add: reduce_memory_append red)
  then have "replays (ms_repo s) (log_of j ?s') j" for j
    using log [of j] unfolding log' by (auto simp: replays_def new)
  moreover have "\<exists>new. log_of j ?s' = base j @ new" for j
    using base [of j] unfolding log' by auto
  ultimately have "mem_inv base ?s'" using e(2) ok sound unfolding mem_inv_def by simp
  then show "case memory_append env i n cor (event r) s of (s', Inr x) \<Rightarrow> mem_inv base s' | (s', Inl e) \<Rightarrow> mem_inv base s'"
    by (simp add: run)
qed

lemma audited_in:
  assumes "announces (mt_memory_id q) (mt_expected_revision q) target event"
    and "triple (mem_inv base) m (advanced base (mt_memory_id q) (mt_expected_revision q) target) (\<lambda>_. mem_inv base)"
  shows "triple (mem_inv base) (audited env q event m) (\<lambda>_. mem_inv base) (\<lambda>_. mem_inv base)"
  unfolding audited_def
  by (rule triple_bnd [OF assms(2)])
    (rule triple_if, rule triple_andthen [OF audit_in [OF assms(1)]], rule triple_ret, assumption,
      rule triple_ret, simp add: advanced_def mem_inv_def env_sound_def)

lemma check_evidence_in: "triple (mem_inv base) (check_evidence xs) (\<lambda>_. mem_inv base) (\<lambda>_. mem_inv base)"
proof (induction xs)
  case (Cons x xs)
  have read: "triple (mem_inv base) (reads_repo f) (\<lambda>_. mem_inv base) (\<lambda>_. mem_inv base)" for f :: "memory_repo \<Rightarrow> repo_fault + 'b"
    by (rule triple_holds, rule triple_post [OF reads_holds]) (simp add: holds_def)
  have "triple (mem_inv base) (bnd (reads_repo (\<lambda>repo. repo_get_current repo i)) (\<lambda>found. case found of
      None \<Rightarrow> throw MemEvidenceConflict
    | Some (_, r) \<Rightarrow> if retired_memory (mrv_status r) then throw MemEvidenceConflict else check_evidence xs))
    (\<lambda>_. mem_inv base) (\<lambda>_. mem_inv base)" for i
    by (rule triple_bnd [OF read]) (auto intro!: triple_throw Cons.IH split: option.splits prod.splits)
  with Cons.IH show ?case by (auto intro!: triple_throw split: option.splits)
qed (auto intro: triple_ret)

lemma promote_in: "triple (mem_inv base) (promote_memory env q) (\<lambda>_. mem_inv base) (\<lambda>_. mem_inv base)"
proof -
  have "triple (mem_inv base) (andthen (check_evidence (mp_evidence q))
      (audited env q (\<lambda>r. PPromoted (mt_memory_id q) (mt_expected_revision q) r (mt_reason q) (mrv_created_at r))
        (memory_transition env (mt_memory_id q) (mt_expected_revision q) MemVerified (mt_actor q) (mt_reason q)
          (mp_evidence q) None))) (\<lambda>_. mem_inv base) (\<lambda>_. mem_inv base)"
    if "mcr_creator_type (mt_actor q) \<noteq> ByProvider"
      "{FromAcceptanceDecision, FromCodingTrajectory} \<subseteq> evidence_types (mp_evidence q)"
    by (rule triple_andthen [OF check_evidence_in], rule audited_in [OF _ transition_in])
      (use that in \<open>simp_all add: announces_def\<close>)
  then show ?thesis unfolding promote_memory_def by (auto intro: triple_throw)
qed

lemma retract_in: "triple (mem_inv base) (retract_memory env q) (\<lambda>_. mem_inv base) (\<lambda>_. mem_inv base)"
  unfolding retract_memory_def by (rule audited_in [OF _ transition_in]) (simp_all add: announces_def)

lemma expire_in: "triple (mem_inv base) (expire_memory env q) (\<lambda>_. mem_inv base) (\<lambda>_. mem_inv base)"
  unfolding expire_memory_def by (rule audited_in [OF _ transition_in]) (simp_all add: announces_def)

lemma supersede_in: "triple (mem_inv base) (supersede_memory env q) (\<lambda>_. mem_inv base) (\<lambda>_. mem_inv base)"
proof -
  have "triple (mem_inv base) (audited env q (\<lambda>r. PSuperseded (mt_memory_id q) (mt_expected_revision q) r (mt_reason q)
        (mrv_created_at r) (msu_successor_memory_id q))
      (memory_transition env (mt_memory_id q) (mt_expected_revision q) MemSuperseded (mt_actor q) (mt_reason q) []
        (Some (msu_successor_memory_id q)))) (\<lambda>_. mem_inv base) (\<lambda>_. mem_inv base)"
    by (rule audited_in [OF _ transition_in]) (simp_all add: announces_def)
  then have found: "triple (holds base repo) (case found of None \<Rightarrow> throw MemNotFound
      | Some _ \<Rightarrow> audited env q (\<lambda>r. PSuperseded (mt_memory_id q) (mt_expected_revision q) r (mt_reason q)
        (mrv_created_at r) (msu_successor_memory_id q))
      (memory_transition env (mt_memory_id q) (mt_expected_revision q) MemSuperseded (mt_actor q) (mt_reason q) []
        (Some (msu_successor_memory_id q)))) (\<lambda>_. mem_inv base) (\<lambda>_. mem_inv base)"
    for found :: "(MemoryRecord \<times> MemoryRevision) option" and repo
    by (cases found) (auto intro: throw_holds triple_pre holds_inv)
  show ?thesis
    unfolding supersede_memory_def
    by (rule triple_holds, rule triple_bnd [OF reads_holds], rule triple_pure, rule found)
qed

text \<open>A creation: the record is new and its stream empty, or both were there before.\<close>

definition creates :: "(uuid \<Rightarrow> memory_payload list) \<Rightarrow> (MemoryRecord \<times> MemoryRevision) option \<Rightarrow> 's memory_state \<Rightarrow> bool" where
  "creates base found s \<longleftrightarrow> (\<exists>rec r. found = Some (rec, r) \<and>
     (mem_inv base s \<and> view (ms_repo s) (mrec_memory_id rec) \<noteq> None \<or>
      (\<exists>repo. mem_inv base (s\<lparr>ms_repo := repo\<rparr>) \<and> repo_ok (mv_hash env) (mv_policy env) (ms_repo s) \<and>
        view repo (mrec_memory_id rec) = None \<and> mrec_current_revision rec = 1 \<and> mrv_revision r = 1 \<and>
        mrec_memory_id rec = mrv_memory_id r \<and>
        view (ms_repo s) = (view repo)(mrec_memory_id rec \<mapsto> \<lparr>mrs_memory_id = mrec_memory_id rec,
          mrs_status = mrv_status r, mrs_current_revision = 1, mrs_revision_hashes = [mrv_content_hash r]\<rparr>))))"

lemma create_repo_in:
  assumes "mcr_creator_type (mw_actor q) \<noteq> ByProvider" "mw_status q = MemVerified \<longrightarrow> mpol_allow_verified_creation (mv_policy env)"
  shows "triple (mem_inv base) (on_repo (\<lambda>repo. repo_create (mv_hash env) now repo q)) (creates base) (\<lambda>_. mem_inv base)"
proof (rule tripleI)
  fix s assume inv_s: "mem_inv base s"
  then have ok: "repo_ok (mv_hash env) (mv_policy env) (ms_repo s)" unfolding mem_inv_def by blast
  show "case on_repo (\<lambda>repo. repo_create (mv_hash env) now repo q) s of
      (s', Inr x) \<Rightarrow> creates base x s' | (s', Inl e) \<Rightarrow> mem_inv base s'"
  proof (cases "repo_create (mv_hash env) now (ms_repo s) q")
    case (Inl e)
    then show ?thesis using inv_s by (simp add: on_repo_def)
  next
    case (Inr x)
    obtain repo' found where x: "x = (repo', found)" by (cases x)
    from repo_create_ok [OF ok Inr [unfolded x] assms] obtain rec r where
      res: "repo_ok (mv_hash env) (mv_policy env) repo'" "found = Some (rec, r)" and
      cases: "repo' = ms_repo s \<and> dict_get (mm_records (ms_repo s)) (mrec_memory_id rec) = Some rec \<or>
        view (ms_repo s) (mrec_memory_id rec) = None \<and> mrec_current_revision rec = 1 \<and> mrv_revision r = 1 \<and>
        mrec_memory_id rec = mrv_memory_id r \<and>
        view repo' = (view (ms_repo s))(mrec_memory_id rec \<mapsto> \<lparr>mrs_memory_id = mrec_memory_id rec,
          mrs_status = mrv_status r, mrs_current_revision = 1, mrs_revision_hashes = [mrv_content_hash r]\<rparr>)" by blast
    have same: "s\<lparr>ms_repo := ms_repo s\<rparr> = s" by simp
    have "creates base found (s\<lparr>ms_repo := repo'\<rparr>)"
      using cases
    proof (elim disjE)
      assume "repo' = ms_repo s \<and> dict_get (mm_records (ms_repo s)) (mrec_memory_id rec) = Some rec"
      then show ?thesis unfolding creates_def using inv_s res(2) by (auto simp: view_def)
    next
      assume new: "view (ms_repo s) (mrec_memory_id rec) = None \<and> mrec_current_revision rec = 1 \<and> mrv_revision r = 1 \<and>
        mrec_memory_id rec = mrv_memory_id r \<and>
        view repo' = (view (ms_repo s))(mrec_memory_id rec \<mapsto> \<lparr>mrs_memory_id = mrec_memory_id rec,
          mrs_status = mrv_status r, mrs_current_revision = 1, mrs_revision_hashes = [mrv_content_hash r]\<rparr>)"
      have "mem_inv base (s\<lparr>ms_repo := repo', ms_repo := ms_repo s\<rparr>)" using inv_s by simp
      with new res show ?thesis
        unfolding creates_def by (elim conjE, intro exI [of _ rec] exI [of _ r] conjI disjI2 exI [of _ "ms_repo s"]) simp_all
    qed
    with Inr show ?thesis by (simp add: on_repo_def x)
  qed
qed

lemma announce_in: "triple (creates base (Some f)) (announce_creation env q f) (\<lambda>_. mem_inv base) (\<lambda>_. mem_inv base)"
proof (rule tripleI)
  fix s assume "creates base (Some f) s"
  then obtain rec r where f: "f = (rec, r)" and
    cases: "mem_inv base s \<and> view (ms_repo s) (mrec_memory_id rec) \<noteq> None \<or>
      (\<exists>repo. mem_inv base (s\<lparr>ms_repo := repo\<rparr>) \<and> repo_ok (mv_hash env) (mv_policy env) (ms_repo s) \<and>
        view repo (mrec_memory_id rec) = None \<and> mrec_current_revision rec = 1 \<and> mrv_revision r = 1 \<and>
        mrec_memory_id rec = mrv_memory_id r \<and>
        view (ms_repo s) = (view repo)(mrec_memory_id rec \<mapsto> \<lparr>mrs_memory_id = mrec_memory_id rec,
          mrs_status = mrv_status r, mrs_current_revision = 1, mrs_revision_hashes = [mrv_content_hash r]\<rparr>))"
    unfolding creates_def by blast
  let ?i = "mrec_memory_id rec"
  have version: "(case version_of (sv_store s) ?i of None \<Rightarrow> False | Some v \<Rightarrow> v \<noteq> 0) \<longleftrightarrow> log_of ?i s \<noteq> []"
    if "wf_store (sv_store s)"
    using version_history [OF that, of ?i] by (auto simp: log_of_def split: option.splits)
  let ?run = "announce_creation env q f s"
  show "case ?run of (s', Inr x) \<Rightarrow> mem_inv base s' | (s', Inl e) \<Rightarrow> mem_inv base s'"
    using cases
  proof (elim disjE exE conjE)
    assume here: "mem_inv base s" "view (ms_repo s) ?i \<noteq> None"
    then have "log_of ?i s \<noteq> []" "wf_store (sv_store s)" "mv_events env"
      unfolding mem_inv_def replays_def env_sound_def by (force split: option.splits)+
    with version here show ?thesis
      by (simp add: announce_creation_def f ensure_item_created_def bnd_def asks_def env_version ret_def)
  next
    fix repo assume old: "mem_inv base (s\<lparr>ms_repo := repo\<rparr>)" and ok: "repo_ok (mv_hash env) (mv_policy env) (ms_repo s)"
      and new: "view repo ?i = None" "mrec_current_revision rec = 1" "mrv_revision r = 1" "?i = mrv_memory_id r"
        "view (ms_repo s) = (view repo)(?i \<mapsto> \<lparr>mrs_memory_id = ?i,
          mrs_status = mrv_status r, mrs_current_revision = 1, mrs_revision_hashes = [mrv_content_hash r]\<rparr>)"
    from old have wf: "wf_store (sv_store s)" and log: "\<And>j. replays repo (log_of j s) j" and sound: env_sound
      and base: "\<And>j. \<exists>new. log_of j s = base j @ new"
      by (auto simp: mem_inv_def log_of_def)
    have fresh: "log_of ?i s = []" using log [of ?i] new(1) by (simp add: replays_def)
    then have "0 = int (length (history (sv_store s) ?i))" by (simp add: log_of_def)
    from memory_append_ok [OF wf this sound, of "mw_request_id q" "PItemCreated rec r"] obtain store e where
      run: "memory_append env ?i 0 (mw_request_id q) (PItemCreated rec r) s =
        (s\<lparr>sv_tick := Suc (sv_tick s), sv_store := store\<rparr>, Inr ())"
      and e: "ev_payload e = PItemCreated rec r" "wf_store store"
        "history store = (history (sv_store s))(?i := history (sv_store s) ?i @ [e])" by blast
    let ?s' = "s\<lparr>sv_tick := Suc (sv_tick s), sv_store := store\<rparr>"
    have log': "log_of j ?s' = (if j = ?i then [PItemCreated rec r] else log_of j s)" for j
      using fresh by (auto simp: log_of_def e)
    have "replays (ms_repo s) (log_of j ?s') j" for j
      using log [of j] new unfolding log' by (auto simp: replays_def)
    moreover have "\<exists>new. log_of j ?s' = base j @ new" for j
      using base [of j] fresh unfolding log' by auto
    ultimately have "mem_inv base ?s'" using e(2) ok sound unfolding mem_inv_def by simp
    then show ?thesis
      using version [OF wf] fresh run sound
      by (simp add: env_sound_def announce_creation_def f ensure_item_created_def bnd_def asks_def env_version
          creation_revision_def new(3) handle_def)
  qed
qed

lemma allowed_write:
  assumes "mwd_decision (evaluate_write digest q policy now) \<noteq> DenyWrite"
  shows "mcr_creator_type (mw_actor q) \<noteq> ByProvider" "mw_status q = MemVerified \<longrightarrow> mpol_allow_verified_creation policy"
  using assms by (auto simp: evaluate_write_def denial_reasons_def Let_def split: if_splits)

lemma create_in: "triple (mem_inv base) (create_memory env q dry_run) (\<lambda>_. mem_inv base) (\<lambda>_. mem_inv base)"
proof -
  have ask: "triple (mem_inv base) (ask_env f) (\<lambda>x s. mem_inv base s \<and> (\<exists>t. x = f t)) E" for f :: "nat \<Rightarrow> 'b" and E
    by (rule tripleI) (auto simp: ask_env_def mem_inv_def log_of_def)
  have stored: "triple (mem_inv base) (bnd (on_repo (\<lambda>repo. repo_create (mv_hash env) now repo q)) (\<lambda>found. case found of
      None \<Rightarrow> throw MemOther | Some f \<Rightarrow> andthen (announce_creation env q f) (ret (decision, Some f))))
      (\<lambda>_. mem_inv base) (\<lambda>_. mem_inv base)"
    if "mwd_decision decision \<noteq> DenyWrite" "\<exists>t. decision = evaluate_write (mv_policy_digest env) q (mv_policy env) (lg_now env t)"
    for decision now
  proof -
    from that allowed_write have allowed: "mcr_creator_type (mw_actor q) \<noteq> ByProvider"
      "mw_status q = MemVerified \<longrightarrow> mpol_allow_verified_creation (mv_policy env)" by blast+
    have "triple (creates base found) (case found of None \<Rightarrow> throw MemOther
        | Some f \<Rightarrow> andthen (announce_creation env q f) (ret (decision, Some f)))
        (\<lambda>_. mem_inv base) (\<lambda>_. mem_inv base)" for found
      by (cases found) (auto intro: triple_throw triple_andthen [OF announce_in] triple_ret simp: creates_def)
    then show ?thesis by (rule triple_bnd [OF create_repo_in [OF allowed]])
  qed
  show ?thesis
    unfolding create_memory_def
    apply (rule triple_if, rule triple_throw, assumption)
    apply (rule triple_bnd [OF ask], rule triple_pure)
    apply (rule triple_if, rule triple_throw, assumption)
    apply (rule triple_if, rule triple_ret, assumption)
    apply (rule triple_bnd [OF ask], rule triple_pure)
    apply (rule stored, assumption+)
    done
qed

theorem memory_op_keeps:
  "triple (mem_inv base) (run_memory_op env m) (\<lambda>_. mem_inv base) (\<lambda>_. mem_inv base)"
  by (cases m) (auto intro!: triple_andthen [OF create_in] triple_andthen [OF promote_in]
      triple_andthen [OF retract_in] triple_andthen [OF expire_in] triple_andthen [OF supersede_in] triple_ret)

end

end
