(* ===== verification/Memory_Props.thy ===== *)
theory Memory_Props
  imports Memory_Runs
begin

text \<open>
  The memory plane over the in-memory event store: its reachable states and the properties they have.
\<close>

definition memory_memory_env ::
  "(int \<Rightarrow> timestamp) \<Rightarrow> memory_payload store memory_env \<Rightarrow> memory_payload store memory_env" where
  "memory_memory_env clock env = env\<lparr>lg_append := store_append clock, lg_version := store_get_stream_version\<rparr>"

interpretation memory_plane: memory_runs "store_append clock" stream_history store_ok store_get_stream_version
  "memory_memory_env clock env"
  by (rule memory_runs.intro [OF memory_log.versioned_log_axioms], rule memory_runs_axioms.intro)
    (simp_all add: memory_memory_env_def)

definition idle_memory :: "memory_payload store memory_state" where
  "idle_memory = \<lparr>sv_store = [], sv_tick = 0, ms_repo = empty_repo\<rparr>"

definition memory_stream :: "memory_payload store memory_state \<Rightarrow> uuid \<Rightarrow> memory_payload list" where
  "memory_stream s i = map ev_payload (stream_history (sv_store s) i)"

text \<open>The states an operation, returning or raising, leads to from the empty repository and store.\<close>

inductive memory_reachable :: "memory_payload store memory_env \<Rightarrow> memory_payload store memory_state \<Rightarrow> bool"
  for env where
  memory_start: "memory_reachable env idle_memory"
| memory_op: "memory_reachable env s \<Longrightarrow> run_memory_op env m s = (s', r) \<Longrightarrow> memory_reachable env s'"

fun run_memory_ops ::
  "memory_payload store memory_env \<Rightarrow> memory_op list \<Rightarrow> memory_payload store memory_state \<Rightarrow>
   memory_payload store memory_state" where
  "run_memory_ops env [] s = s"
| "run_memory_ops env (m # ms) s = run_memory_ops env ms (fst (run_memory_op env m s))"

lemma run_memory_ops_reachable: "memory_reachable env s \<Longrightarrow> memory_reachable env (run_memory_ops env ms s)"
proof (induction ms arbitrary: s)
  case (Cons m ms)
  show ?case unfolding run_memory_ops.simps
    by (rule Cons.IH, rule memory_op [OF Cons.prems, of m _ "snd (run_memory_op env m s)"]) simp
qed simp

definition digests_ok :: "memory_payload store memory_env \<Rightarrow> bool" where
  "digests_ok env \<longleftrightarrow> (\<forall>p. sha256_hex (lg_digest env p)) \<and> mv_events env"

lemma env_sound: "digests_ok env \<Longrightarrow> memory_plane.env_sound clock env"
  unfolding memory_plane.env_sound_def by (simp add: digests_ok_def memory_memory_env_def)

lemma op_keeps:
  assumes "memory_plane.mem_inv clock env base s" "run_memory_op (memory_memory_env clock env) m s = (s', r)"
  shows "memory_plane.mem_inv clock env base s'"
  using triple_Inr [OF memory_plane.memory_op_keeps assms(1)] triple_Inl [OF memory_plane.memory_op_keeps assms(1)]
    assms(2) by (cases r) blast+

lemma reachable_inv:
  assumes "memory_reachable (memory_memory_env clock env) s" "digests_ok env"
  shows "memory_plane.mem_inv clock env (\<lambda>_. []) s"
  using assms(1)
proof induction
  case memory_start
  have "stream_history ([] :: memory_payload store) i = []" for i by (simp add: stream_history_def stream_events_def)
  with env_sound [OF assms(2)] show ?case
    by (simp add: memory_plane.mem_inv_def idle_memory_def repo_ok_def empty_repo_def replays_def view_def
        memory_log.log_of_def)
next
  case (memory_op s m s' r)
  from op_keeps [OF memory_op.IH memory_op.hyps(2)] show ?case .
qed

lemma log_stream: "memory_log.log_of i s = memory_stream s i"
  by (simp add: memory_log.log_of_def memory_stream_def)

lemma reachable_facts:
  assumes "memory_reachable (memory_memory_env clock env) s" "digests_ok env"
  shows "repo_ok (mv_hash env) (mv_policy env) (ms_repo s)" "replays (ms_repo s) (memory_stream s i) i"
  using reachable_inv [OF assms] unfolding memory_plane.mem_inv_def log_stream
  by (simp_all add: memory_memory_env_def)

lemma ops_extend:
  assumes "memory_reachable (memory_memory_env clock env) s" "digests_ok env"
  shows "\<exists>new. memory_stream (run_memory_ops (memory_memory_env clock env) ms s) i = memory_stream s i @ new"
proof -
  have "memory_plane.mem_inv clock env (\<lambda>i. memory_stream s i) (run_memory_ops (memory_memory_env clock env) ms s')"
    if "memory_plane.mem_inv clock env (\<lambda>i. memory_stream s i) s'" for s'
    using that
  proof (induction ms arbitrary: s')
    case (Cons m ms)
    show ?case unfolding run_memory_ops.simps
      by (rule Cons.IH, rule op_keeps [OF Cons.prems, of m _ "snd (run_memory_op (memory_memory_env clock env) m s')"]) simp
  qed simp
  moreover have "memory_plane.mem_inv clock env (\<lambda>i. memory_stream s i) s"
    using reachable_inv [OF assms] unfolding memory_plane.mem_inv_def log_stream by simp
  ultimately show ?thesis unfolding memory_plane.mem_inv_def log_stream by blast
qed

lemma replaysD: "replays repo ps i \<Longrightarrow> view repo i = Some st \<Longrightarrow> reduce_memory ps = Inr st"
  by (simp add: replays_def)

section \<open>The properties\<close>

text \<open>C37. Refinement of the repository by the event streams. In every state the operations reach, returning or
  raising, in any order, the stream of a memory replays, through the reducer that checks every step, to the
  status, the current revision and the revision hashes the repository holds; a memory the repository does not
  know has an empty stream.\<close>

theorem memory_streams_replay:
  assumes "memory_reachable (memory_memory_env clock env) s" "digests_ok env"
  shows "case dict_get (mm_records (ms_repo s)) i of
      None \<Rightarrow> memory_stream s i = []
    | Some rec \<Rightarrow> reduce_memory (memory_stream s i) = Inr \<lparr>mrs_memory_id = i, mrs_status = mrec_status rec,
        mrs_current_revision = mrec_current_revision rec,
        mrs_revision_hashes = map mrv_content_hash (dict_get_or_nil (mm_revisions (ms_repo s)) i)\<rparr>"
  using reachable_facts(2) [OF assms, of i]
  by (auto simp: replays_def view_def revisions_of_def split: option.splits)

text \<open>C38. A verified memory is justified. In every reachable state, the current revision of a memory that is verified
  was not made by a model provider, and either it is the first revision and the write policy allows memories to be
  created as verified, or its recorded sources include an acceptance decision and a coding trajectory.\<close>

theorem verified_memory_is_justified:
  assumes "memory_reachable (memory_memory_env clock env) s" "digests_ok env"
    and "repo_get_current (ms_repo s) i = Inr (Some (rec, r))" "mrv_status r = MemVerified"
  shows "mcr_creator_type (mrv_created_by r) \<noteq> ByProvider \<and>
    (mrv_revision r = 1 \<and> mpol_allow_verified_creation (mv_policy env) \<or>
     {FromAcceptanceDecision, FromCodingTrajectory} \<subseteq>
       evidence_types (dict_get_or_nil (mm_sources (ms_repo s)) (i, mrv_revision r)))"
proof -
  let ?rs = "revisions_of (ms_repo s) i"
  note ok = reachable_facts(1) [OF assms(1,2)]
  from get_current_Inr [OF ok assms(3)] have rec: "dict_get (mm_records (ms_repo s)) i = Some rec" and r: "r = last ?rs"
    by (cases "dict_get (mm_records (ms_repo s)) i"; simp)+
  note entry = repo_okD [OF ok rec]
  then have chain: "chain_ok (mv_hash env) i ?rs" by (simp add: entry_ok_def)
  then have rs: "?rs \<noteq> []" by (simp add: chain_ok_def)
  then have "length ?rs - 1 < length ?rs" by simp
  with entry obtain src where "dict_get (mm_sources (ms_repo s)) (i, int (length ?rs - 1) + 1) = Some src"
    "justified (mv_policy env) src (?rs ! (length ?rs - 1)) (length ?rs - 1)" unfolding entry_ok_def by blast
  moreover have "int (length ?rs - 1) + 1 = mrv_revision r" "?rs ! (length ?rs - 1) = r"
    using rs chain_last(2) [OF chain] r by (simp_all add: last_conv_nth of_nat_diff Suc_le_eq)
  ultimately show ?thesis
    using assms(4) by (auto simp: justified_def dict_get_or_nil_def split: if_splits)
qed

text \<open>C39. The history of a memory only grows. From a reachable state any sequence of operations keeps a memory,
  extends its stream and its list of revision hashes by one entry for every revision added, and a memory that is
  superseded, retracted or expired is never changed again.\<close>

theorem memory_history_only_grows:
  assumes "memory_reachable (memory_memory_env clock env) s" "digests_ok env"
    and "run_memory_ops (memory_memory_env clock env) ops s = s'" "dict_get (mm_records (ms_repo s)) i = Some rec"
  shows "\<exists>rec' new hashes. dict_get (mm_records (ms_repo s')) i = Some rec' \<and>
    memory_stream s' i = memory_stream s i @ new \<and>
    mrec_current_revision rec' = mrec_current_revision rec + int (length new) \<and>
    map mrv_content_hash (dict_get_or_nil (mm_revisions (ms_repo s')) i) =
      map mrv_content_hash (dict_get_or_nil (mm_revisions (ms_repo s)) i) @ hashes \<and> length hashes = length new \<and>
    (retired_memory (mrec_status rec) \<longrightarrow> new = [] \<and> mrec_status rec' = mrec_status rec)"
proof -
  let ?st = "the (view (ms_repo s) i)"
  from assms(4) have st: "view (ms_repo s) i = Some ?st" "mrs_status ?st = mrec_status rec"
    "mrs_current_revision ?st = mrec_current_revision rec"
    "mrs_revision_hashes ?st = map mrv_content_hash (dict_get_or_nil (mm_revisions (ms_repo s)) i)"
    by (simp_all add: view_def revisions_of_def)
  have reach': "memory_reachable (memory_memory_env clock env) s'"
    using run_memory_ops_reachable [OF assms(1), of ops] assms(3) by simp
  obtain new where new: "memory_stream s' i = memory_stream s i @ new"
    using ops_extend [OF assms(1,2), of ops i] assms(3) by blast
  have before: "reduce_memory (memory_stream s i) = Inr ?st"
    by (rule replaysD [OF reachable_facts(2) [OF assms(1,2)] st(1)])
  then have ne: "memory_stream s i \<noteq> []" by auto
  with reachable_facts(2) [OF reach' assms(2), of i] new obtain rec' where
    rec': "dict_get (mm_records (ms_repo s')) i = Some rec'" and
    after: "reduce_memory (memory_stream s' i) = Inr (the (view (ms_repo s') i))"
    by (auto simp: replays_def view_def split: option.splits)
  have "replay_all ?st new = Inr (the (view (ms_repo s') i))"
    using after before by (simp add: new reduce_memory_append [OF ne])
  from replay_all_steps [OF this] st(2-4) obtain hs where
    "mrs_current_revision (the (view (ms_repo s') i)) = mrec_current_revision rec + int (length new)"
    "mrs_revision_hashes (the (view (ms_repo s') i)) =
       map mrv_content_hash (dict_get_or_nil (mm_revisions (ms_repo s)) i) @ hs" "length hs = length new"
    "retired_memory (mrec_status rec) \<longrightarrow> new = []" by auto
  moreover have "new = [] \<longrightarrow> mrec_status rec' = mrec_status rec"
  proof
    assume "new = []"
    with \<open>replay_all ?st new = _\<close> have "the (view (ms_repo s') i) = ?st" by simp
    then have "mrs_status (the (view (ms_repo s') i)) = mrs_status ?st" by simp
    with st(2) rec' show "mrec_status rec' = mrec_status rec" by (simp add: view_def)
  qed
  ultimately show ?thesis
    using rec' new by (intro exI [of _ rec'] exI [of _ new] exI [of _ hs]) (auto simp: view_def revisions_of_def)
qed


section \<open>A sample memory\<close>

definition sample_write :: MemoryWriteRequest where
  "sample_write = \<lparr>mw_request_id = 1, mw_idempotency_key = sample_hash, mw_memory_id = 7,
     mw_memory_type = MemObservation, mw_scope = \<lparr>msc_scope_type = ScopeProject, msc_scope_id = ''p''\<rparr>,
     mw_title = ''t'', mw_content = ObservationMemory ''o'' ''e'', mw_status = MemVerified, mw_confidence = 1,
     mw_salience = 1, mw_sensitivity = SensInternal, mw_provenance = [],
     mw_actor = \<lparr>mcr_creator_type = ByOperator, mcr_creator_id = ''op''\<rparr>, mw_reason = ReasonCreated,
     mw_automatic = False\<rparr>"

definition sample_memory_env :: "memory_payload store memory_env" where
  "sample_memory_env = \<lparr>lg_append = store_append (\<lambda>n. n), lg_version = store_get_stream_version, lg_now = int,
     lg_new_id = of_nat, lg_digest = (\<lambda>_. sample_hash), mv_hash = (\<lambda>_. sample_hash),
     mv_policy = \<lparr>mpol_allowed_types = [MemObservation], mpol_allowed_scopes = [ScopeProject],
       mpol_maximum_sensitivity = SensConfidential, mpol_allow_automatic_request = False,
       mpol_allow_provider_creator = False, mpol_allow_verified_creation = True\<rparr>,
     mv_policy_digest = (\<lambda>_. sample_hash), mv_float_length = (\<lambda>_. 3), mv_maximum_inline = 65536,
     mv_events = True\<rparr>"

definition created_sample :: "memory_payload store memory_state" where
  "created_sample = run_memory_ops sample_memory_env [OpCreate sample_write False] idle_memory"

lemma sample_env_plane: "memory_memory_env (\<lambda>n. n) sample_memory_env = sample_memory_env"
  by (simp add: sample_memory_env_def memory_memory_env_def)

lemma sample_digests_ok: "digests_ok sample_memory_env"
proof -
  have "sha256_hex sample_hash" by code_simp
  then show ?thesis by (simp add: digests_ok_def sample_memory_env_def)
qed

lemma created_reachable: "memory_reachable (memory_memory_env (\<lambda>n. n) sample_memory_env) created_sample"
  unfolding sample_env_plane created_sample_def by (rule run_memory_ops_reachable, rule memory_start)

lemma created_sample_facts:
  "case repo_get_current (ms_repo created_sample) 7 of
     Inr (Some (rec, r)) \<Rightarrow> dict_get (mm_records (ms_repo created_sample)) 7 = Some rec \<and>
       mrv_status r = MemVerified \<and> mrec_current_revision rec = 1 | _ \<Rightarrow> False"
  by code_simp

lemma created_current:
  obtains rec r where "repo_get_current (ms_repo created_sample) 7 = Inr (Some (rec, r))"
    "dict_get (mm_records (ms_repo created_sample)) 7 = Some rec" "mrv_status r = MemVerified"
    "mrec_current_revision rec = 1"
  using created_sample_facts by (auto split: sum.splits option.splits)

lemma memory_streams_replay_witness:
  "\<exists>st. reduce_memory (memory_stream created_sample 7) = Inr st \<and> mrs_current_revision st = 1"
proof (rule created_current)
  fix rec r assume "dict_get (mm_records (ms_repo created_sample)) 7 = Some rec" "mrec_current_revision rec = 1"
  with memory_streams_replay [OF created_reachable sample_digests_ok, of 7] show ?thesis by simp
qed

lemma verified_memory_is_justified_witness:
  "\<exists>rec r. repo_get_current (ms_repo created_sample) 7 = Inr (Some (rec, r)) \<and>
     mcr_creator_type (mrv_created_by r) \<noteq> ByProvider"
proof (rule created_current)
  fix rec r assume here: "repo_get_current (ms_repo created_sample) 7 = Inr (Some (rec, r))" "mrv_status r = MemVerified"
  from verified_memory_is_justified [OF created_reachable sample_digests_ok this] here(1) show ?thesis by blast
qed

definition sample_expiry :: MemoryTransitionRequest where
  "sample_expiry = \<lparr>mt_request_id = 4, mt_memory_id = 7, mt_expected_revision = 1,
     mt_actor = mw_actor sample_write, mt_reason = ReasonExplicitExpiry\<rparr>"

lemma memory_history_only_grows_witness:
  "\<exists>new. memory_stream (run_memory_ops sample_memory_env [OpExpire sample_expiry, OpCreate sample_write False]
     created_sample) 7 = memory_stream created_sample 7 @ new"
proof (rule created_current)
  fix rec r assume "dict_get (mm_records (ms_repo created_sample)) 7 = Some rec"
  from memory_history_only_grows [OF created_reachable sample_digests_ok refl this,
      of "[OpExpire sample_expiry, OpCreate sample_write False]"]
  show ?thesis unfolding sample_env_plane by blast
qed

text \<open>A memory past its first revision whose creation event was lost.\<close>

definition orphan_revision :: "int \<Rightarrow> MemoryRevision" where
  "orphan_revision n = \<lparr>mrv_memory_id = 7, mrv_revision = n,
     mrv_previous_revision = (if n = 1 then None else Some (n - 1)), mrv_content = ObservationMemory ''o'' ''e'',
     mrv_content_artifact = None, mrv_content_hash = sample_hash, mrv_status = MemVerified, mrv_confidence = 1,
     mrv_salience = 1, mrv_sensitivity = SensInternal, mrv_reason = ReasonCreated, mrv_created_at = 0,
     mrv_created_by = mw_actor sample_write, mrv_expires_at = None, mrv_successor_memory_id = None\<rparr>"

definition orphan_record :: MemoryRecord where
  "orphan_record = \<lparr>mrec_memory_id = 7, mrec_memory_type = MemObservation, mrec_scope = mw_scope sample_write,
     mrec_status = MemVerified, mrec_current_revision = 2, mrec_title = ''t'', mrec_created_at = 0,
     mrec_created_by = mw_actor sample_write\<rparr>"

definition orphan_sample :: "memory_payload store memory_state" where
  "orphan_sample = \<lparr>sv_store = [], sv_tick = 0, ms_repo = \<lparr>mm_records = [(7, orphan_record)],
     mm_revisions = [(7, [orphan_revision 1, orphan_revision 2])], mm_sources = [((7, 1), []), ((7, 2), [])],
     mm_idempotency = [(sample_hash, 7)]\<rparr>\<rparr>"

lemma orphan_sample_created:
  "case create_memory sample_memory_env sample_write False orphan_sample of (_, Inr _) \<Rightarrow> True | _ \<Rightarrow> False"
  by code_simp


end
