(* ===== verification/Plan_Service.thy ===== *)
theory Plan_Service
  imports Model_Execution Tool_Calls Plan_Contracts Ctl_Budget
begin

text \<open>
  The planning of a run (\<open>application/services/plan_service.py\<close>, \<open>problem/plan_prompting.py\<close>): asking a
  model for a plan or for its revision, decoding the answer, and validating it against the budget, the
  registries and, for a revision, the plan it replaces.

  Parameters: the text \<open>json.dumps\<close> and \<open>model_dump_json\<close> give, the JSON schema of a plan, and the decoding
  of a JSON value to the fields of a plan (the contract's own validators are \<open>controller_plan_error\<close>).
\<close>

section \<open>Validation\<close>

record ('c, 'r) plan_validator =
  pvd_providers :: "('c, 'r) provider_registry"
  pvd_tools :: ToolRegistry
  pvd_verifier_ids :: "string list"

definition default_plan_verifiers :: "string list" where
  "default_plan_verifiers = [''minimal.schema'', ''minimal.artifact_exists'', ''minimal.step_completed'',
     ''minimal.tool_succeeded'']"

datatype plan_fault = PlanTooLong | PlanProviderFault ProviderError | PlanToolFault registry_fault
  | PlanUnknownVerifier | PlanningNotExecutable | PlanRequestFault request_fault | PlanModelFault model_error
  | PlanningToolCalls | PlanShape | PlanContract controller_plan_fault | RepairIdentity | RepairBroadens

definition or_empty :: "string option \<Rightarrow> string" where
  "or_empty x = (case x of None \<Rightarrow> '''' | Some v \<Rightarrow> v)"

definition action_fault_of :: "('c, 'r) plan_validator \<Rightarrow> ControllerStepAction \<Rightarrow> plan_fault option" where
  "action_fault_of v a =
     (if ca_action_type a = ActProvider \<and> str_truthy (ca_provider_id a)
      then (case provider_require (pvd_providers v) (or_empty (ca_provider_id a)) of
          Inl e \<Rightarrow> Some (PlanProviderFault e) | Inr _ \<Rightarrow> None)
      else if ca_action_type a = ActTool
      then (case tool_require (pvd_tools v) (or_empty (ca_tool_id a)) (or_empty (ca_tool_version a)) of
          Inl e \<Rightarrow> Some (PlanToolFault e) | Inr _ \<Rightarrow> None)
      else if ca_action_type a = ActVerification \<and> \<not> set (ca_verifier_ids a) \<subseteq> set (pvd_verifier_ids v)
      then Some PlanUnknownVerifier
      else None)"

definition validate_plan ::
  "('c, 'r) plan_validator \<Rightarrow> ControllerExecutionPlan \<Rightarrow> ControllerBudget \<Rightarrow> plan_fault + ControllerExecutionPlan" where
  "validate_plan v p budget =
     (if cb_maximum_plan_steps budget < int (length (ep_steps (cp_plan p))) then Inl PlanTooLong
      else case first_some (map (action_fault_of v) (cp_actions p)) of Some e \<Rightarrow> Inl e | None \<Rightarrow> Inr p)"

section \<open>Prompts\<close>

function decimal :: "nat \<Rightarrow> string" where
  "decimal n = (if n < 10 then [hex_char n] else decimal (n div 10) @ [hex_char (n mod 10)])"
  by pat_completeness auto
termination by (relation "measure id") auto

declare decimal.simps [simp del]

definition int_text :: "int \<Rightarrow> string" where
  "int_text i = (if i < 0 then CHR ''-'' # decimal (nat (- i)) else decimal (nat i))"

record plan_texts =
  pw_problem :: "ProblemRepresentation \<Rightarrow> string"
  pw_plan :: "ControllerExecutionPlan \<Rightarrow> string"
  pw_schema :: "(string, json) dict"
  pw_decode :: "json option \<Rightarrow> ControllerExecutionPlan option"
  pw_secret :: "string \<Rightarrow> bool"

definition plan_instructions :: "plan_texts \<Rightarrow> ProblemRepresentation \<Rightarrow> ControllerBudget \<Rightarrow> string" where
  "plan_instructions w p budget =
     ''Create a sequential ControllerExecutionPlan matching the supplied schema. '' @
     ''Do not invent providers, tools, verifiers, permissions, parallel actions, or subtasks. '' @
     ''Maximum steps: '' @ int_text (cb_maximum_plan_steps budget) @ ''. '' @
     ''Problem: '' @ pw_problem w p"

definition repair_instructions :: "plan_texts \<Rightarrow> ControllerExecutionPlan \<Rightarrow> string \<Rightarrow> string" where
  "repair_instructions w p reason =
     ''Revise the supplied plan to address the sanitized failure. Preserve '' @
     ''permissions and increment version. Failure: '' @ reason @ ''. '' @
     ''Plan: '' @ pw_plan w p"

section \<open>The service\<close>

record ('s, 'c, 'r) plan_env =
  pe_models :: "('s, 'c, 'r) model_env"
  pe_validator :: "('c, 'r) plan_validator"
  pe_texts :: plan_texts
  pe_budgets :: ControllerBudget
  pe_planning_provider_id :: string
  pe_requested_model :: string

type_synonym ('s, 'a) plan_comp = "('s log_state, plan_fault, 'a) comp"

definition user_message :: "string \<Rightarrow> ProviderMessage" where
  "user_message content = \<lparr>pm_role = RoleUser, pm_content = content, pm_name = None, pm_tool_call_id = None\<rparr>"

text \<open>Zero and no limit at all both mean the default: \<open>limit or 32768\<close>.\<close>

definition output_limit :: "ControllerBudget \<Rightarrow> int" where
  "output_limit b = (case cb_maximum_output_tokens b of None \<Rightarrow> 32768
     | Some n \<Rightarrow> if n = 0 then 32768 else min n 32768)"

definition planning_request ::
  "('s, 'c, 'r) plan_env \<Rightarrow> uuid \<Rightarrow> uuid \<Rightarrow> string \<Rightarrow> string \<Rightarrow> request_fault + ('c, 'r) ModelProviderRequest" where
  "planning_request env call run content operation = construct (request_error (pw_secret (pe_texts env)))
     \<lparr>mq_model_call_id = call, mq_task_run_id = run, mq_step_id = None, mq_correlation_id = call,
      mq_requested_model = pe_requested_model env, mq_messages = [user_message content],
      mq_system_instructions = None, mq_tools = [], mq_tool_choice = ChoiceNone, mq_selected_tool_name = None,
      mq_response_format = FormatJsonSchema, mq_response_schema = Some (pw_schema (pe_texts env)),
      mq_temperature = None, mq_max_output_tokens = Some (output_limit (pe_budgets env)),
      mq_context_budget = 32768, mq_timeout_seconds = 120, mq_context_bundle_reference = None,
      mq_routing_reference = None, mq_metadata = [(''operation'', JStr operation)]\<rparr>"

definition ask_planner ::
  "('s, 'c, 'r) plan_env \<Rightarrow> uuid \<Rightarrow> string \<Rightarrow> string \<Rightarrow> ('s, ModelProviderResponse) plan_comp" where
  "ask_planner env run content operation =
     bnd (ask_env (lg_new_id (pe_models env))) (\<lambda>call.
     bnd (lift_res PlanRequestFault (planning_request env call run content operation)) (\<lambda>q.
     handle (execute_model (pe_models env) q (Some (pe_planning_provider_id env)))
       (\<lambda>e. throw (PlanModelFault e))))"

definition decode_plan :: "plan_texts \<Rightarrow> json option \<Rightarrow> plan_fault + ControllerExecutionPlan" where
  "decode_plan w j = (case pw_decode w j of None \<Rightarrow> Inl PlanShape
     | Some p \<Rightarrow> (case controller_plan_error p of None \<Rightarrow> Inr p | Some e \<Rightarrow> Inl (PlanContract e)))"

definition create_plan ::
  "('s, 'c, 'r) plan_env \<Rightarrow> ProblemRepresentation \<Rightarrow> ControllerBudget \<Rightarrow> ('s, ControllerExecutionPlan) plan_comp" where
  "create_plan env problem budget =
     (if \<not> is_executable problem then throw PlanningNotExecutable
      else bnd (ask_planner env (pr_task_run_id problem) (plan_instructions (pe_texts env) problem budget)
          ''controller_plan'') (\<lambda>response.
        if mp_tool_calls response \<noteq> [] then throw PlanningToolCalls
        else bnd (lift_res id (decode_plan (pe_texts env) (mp_structured_output response))) (\<lambda>p.
          lift_res id (validate_plan (pe_validator env) p budget))))"

definition tool_pairs :: "ControllerExecutionPlan \<Rightarrow> (string option \<times> string option) list" where
  "tool_pairs p = map (\<lambda>a. (ca_tool_id a, ca_tool_version a)) (filter (\<lambda>a. str_truthy (ca_tool_id a)) (cp_actions p))"

definition accept_plan_revision ::
  "ControllerExecutionPlan \<Rightarrow> ControllerExecutionPlan \<Rightarrow> plan_fault + ControllerExecutionPlan" where
  "accept_plan_revision current revised =
     (if ep_plan_id (cp_plan revised) \<noteq> ep_plan_id (cp_plan current) \<or>
        ep_version (cp_plan revised) \<noteq> ep_version (cp_plan current) + 1 then Inl RepairIdentity
      else if \<not> set (tool_pairs revised) \<subseteq> set (tool_pairs current) then Inl RepairBroadens
      else Inr revised)"

definition revise_plan ::
  "('s, 'c, 'r) plan_env \<Rightarrow> ControllerExecutionPlan \<Rightarrow> string \<Rightarrow> ControllerBudget \<Rightarrow>
   ('s, ControllerExecutionPlan) plan_comp" where
  "revise_plan env current reason budget =
     bnd (ask_planner env (ep_task_run_id (cp_plan current)) (repair_instructions (pe_texts env) current reason)
       ''controller_plan_repair'') (\<lambda>response.
     bnd (lift_res id (decode_plan (pe_texts env) (mp_structured_output response))) (\<lambda>p.
     bnd (lift_res id (validate_plan (pe_validator env) p budget)) (\<lambda>revised.
     lift_res id (accept_plan_revision current revised))))"

end
