(* ===== verification/Plan_Props.thy ===== *)
theory Plan_Props
  imports Plan_Service Model_Props Verification_Run
begin

text \<open>
  Properties of planning: what a plan that is returned satisfies, what revisions keep however many there
  are, and that planning is one recorded and bounded model call.
\<close>

section \<open>Admissible plans\<close>

definition admissible_action :: "('c, 'r) plan_validator \<Rightarrow> ControllerStepAction \<Rightarrow> bool" where
  "admissible_action v a \<longleftrightarrow>
     (ca_action_type a = ActProvider \<and> str_truthy (ca_provider_id a) \<longrightarrow>
        or_empty (ca_provider_id a) \<in> fst ` set (pvd_providers v)) \<and>
     (ca_action_type a = ActTool \<longrightarrow>
        (\<exists>t. tool_require (pvd_tools v) (or_empty (ca_tool_id a)) (or_empty (ca_tool_version a)) = Inr t)) \<and>
     (ca_action_type a = ActVerification \<longrightarrow> set (ca_verifier_ids a) \<subseteq> set (pvd_verifier_ids v))"

definition admissible_plan :: "('c, 'r) plan_validator \<Rightarrow> ControllerBudget \<Rightarrow> ControllerExecutionPlan \<Rightarrow> bool" where
  "admissible_plan v budget p \<longleftrightarrow> valid_controller_plan p \<and>
     int (length (ep_steps (cp_plan p))) \<le> cb_maximum_plan_steps budget \<and> (\<forall>a \<in> set (cp_actions p). admissible_action v a)"

lemma action_fault_None: "action_fault_of v a = None \<longleftrightarrow> admissible_action v a"
  by (cases "ca_action_type a")
    (auto simp: action_fault_of_def admissible_action_def provider_require_def map_of_eq_None_iff
      dest: map_of_SomeD split: sum.splits option.splits intro: rev_image_eqI)

lemma validate_plan_exact:
  "validate_plan v p budget = Inr q \<and> valid_controller_plan p \<longleftrightarrow> q = p \<and> admissible_plan v budget p"
proof -
  have "first_some (map (action_fault_of v) (cp_actions p)) = None \<longleftrightarrow> (\<forall>a \<in> set (cp_actions p). admissible_action v a)"
    by (auto simp: first_some_None_iff action_fault_None)
  then show ?thesis
    by (cases "first_some (map (action_fault_of v) (cp_actions p))") (auto simp: validate_plan_def admissible_plan_def)
qed

lemma decode_plan_valid: "decode_plan w j = Inr p \<Longrightarrow> valid_controller_plan p"
  by (auto simp: decode_plan_def valid_controller_plan_def split: option.splits)

lemma create_plan_returns:
  assumes "create_plan env problem budget s = (s', Inr p)"
  shows "is_executable problem \<and> admissible_plan (pe_validator env) budget p"
  using assms validate_plan_exact [of "pe_validator env" _ budget p] decode_plan_valid [of "pe_texts env"]
  by (fastforce simp: create_plan_def bnd_def throw_def lift_res_def split: if_splits prod.splits sum.splits)

lemma revise_plan_returns:
  assumes "revise_plan env current reason budget s = (s', Inr p)"
  shows "admissible_plan (pe_validator env) budget p \<and> accept_plan_revision current p = Inr p"
proof -
  have "\<exists>j d revised. decode_plan (pe_texts env) j = Inr d \<and>
      validate_plan (pe_validator env) d budget = Inr revised \<and> accept_plan_revision current revised = Inr p"
    using assms by (auto simp: revise_plan_def bnd_def lift_res_def split: prod.splits sum.splits)
  then obtain j d revised where d: "decode_plan (pe_texts env) j = Inr d"
    "validate_plan (pe_validator env) d budget = Inr revised" "accept_plan_revision current revised = Inr p" by blast
  moreover from d(3) have "revised = p" by (auto simp: accept_plan_revision_def split: if_splits)
  ultimately show ?thesis
    using validate_plan_exact [of "pe_validator env" d budget p] decode_plan_valid [OF d(1)] by auto
qed

text \<open>C11. A plan that planning returns can be run: the problem was executable, the plan is well formed with one
  action per step, within the step budget, and every action names a registered provider, a registered tool
  and version, or verifiers the service knows.\<close>

theorem created_plan_is_admissible:
  assumes "create_plan env problem budget s = (s', Inr p)"
  shows "is_executable problem \<and> valid_controller_plan p \<and>
    int (length (ep_steps (cp_plan p))) \<le> cb_maximum_plan_steps budget \<and>
    (\<forall>a \<in> set (cp_actions p). admissible_action (pe_validator env) a)"
  using create_plan_returns [OF assms] by (simp add: admissible_plan_def)

section \<open>Revisions\<close>

text \<open>The plans a sequence of revisions, each of the last one, leads to.\<close>

inductive revised_plans ::
  "('s, 'c, 'r) plan_env \<Rightarrow> ControllerBudget \<Rightarrow> ControllerExecutionPlan \<Rightarrow> nat \<Rightarrow> ControllerExecutionPlan \<Rightarrow> bool"
  for env budget p where
  unrevised: "revised_plans env budget p 0 p"
| revised: "revised_plans env budget p n q \<Longrightarrow> revise_plan env q reason budget s = (s', Inr q') \<Longrightarrow>
    revised_plans env budget p (Suc n) q'"

text \<open>C12. Revisions never broaden a plan. After any number of revisions, whatever the models answer, the plan has the
  identifier it started with and a version that counts the revisions, uses only tools and versions the first
  plan used, and is admissible again.\<close>

theorem revisions_never_broaden:
  assumes "revised_plans env budget p n q"
  shows "ep_plan_id (cp_plan q) = ep_plan_id (cp_plan p) \<and>
    ep_version (cp_plan q) = ep_version (cp_plan p) + int n \<and>
    set (tool_pairs q) \<subseteq> set (tool_pairs p) \<and> (0 < n \<longrightarrow> admissible_plan (pe_validator env) budget q)"
  using assms
proof induction
  case (revised n q reason s s' q')
  from revise_plan_returns [OF revised.hyps(2)] revised.IH show ?case
    by (auto simp: accept_plan_revision_def split: if_splits)
qed simp

section \<open>Planning is a recorded model call\<close>

lemma planning_request_call: "planning_request env call run content operation = Inr q \<Longrightarrow> mq_model_call_id q = call"
  by (auto simp: planning_request_def construct_Inr)

definition call_stream :: "uuid \<Rightarrow> model_payload store log_state \<Rightarrow> model_payload list" where
  "call_stream i s = map ev_payload (stream_history (sv_store s) i)"

lemma ask_planner_recorded:
  fixes env :: "(model_payload store, 'c, 'r) plan_env"
  assumes "store_ok (sv_store s)" "valid_retry_policy (me_retry_policy (pe_models env))"
    and "pe_models env = memory_model_env clock models"
    and "call = lg_new_id (pe_models env) (sv_tick s)" "call_stream call s = []"
    and "ask_planner env run content operation s = (s', r)"
  shows "\<exists>st. follow model_step MsNew (call_stream call s') = Some st \<and>
    int (length (filter is_start (call_stream call s'))) \<le> ry_maximum_attempts (me_retry_policy (pe_models env)) \<and>
    (\<forall>i. i \<noteq> call \<longrightarrow> stream_history (sv_store s') i = stream_history (sv_store s) i) \<and>
    (\<forall>response. r = Inr response \<longrightarrow> (\<exists>k. st = MsCompleted k))"
proof (cases "planning_request env call run content operation")
  case (Inl e)
  then have "s' = s\<lparr>sv_tick := Suc (sv_tick s)\<rparr>" "\<forall>response. r \<noteq> Inr response"
    using assms(4,6) by (auto simp: ask_planner_def bnd_def ask_env_def lift_res_def)
  with assms(2,5) show ?thesis by (simp add: call_stream_def valid_retry_policy_def)
next
  case (Inr q)
  let ?s = "s\<lparr>sv_tick := Suc (sv_tick s)\<rparr>"
  have q: "mq_model_call_id q = call" by (rule planning_request_call [OF Inr])
  obtain t x where run: "execute_model (pe_models env) q (Some (pe_planning_provider_id env)) ?s = (t, x)" by fastforce
  have s': "s' = t" and r: "\<forall>response. r = Inr response \<longrightarrow> x = Inr response"
    using assms(4,6) Inr run
    by (auto simp: ask_planner_def bnd_def ask_env_def lift_res_def handle_def throw_def split: sum.splits)
  have "store_ok (sv_store ?s)" "model_history q ?s = []"
    using assms(1,5) by (simp_all add: model_history_def call_stream_def q)
  moreover have "me_retry_policy models = me_retry_policy (pe_models env)" by (simp add: assms(3) memory_model_env_def)
  ultimately obtain st where "follow model_step MsNew (model_history q t) = Some st"
    "int (length (filter is_start (model_history q t))) \<le> ry_maximum_attempts (me_retry_policy (pe_models env))"
    "\<forall>i. i \<noteq> mq_model_call_id q \<longrightarrow> stream_history (sv_store t) i = stream_history (sv_store ?s) i"
    "case x of Inr response \<Rightarrow> \<exists>k. st = MsCompleted k
     | Inl e \<Rightarrow> error_status (nat (ry_maximum_attempts (me_retry_policy models))) e st"
    using model_call_record [of ?s q models clock "Some (pe_planning_provider_id env)" t x] run assms(2,3)
    by auto
  then show ?thesis
    using r s' by (auto simp: model_history_def call_stream_def q split: sum.splits)
qed

text \<open>Planning is one model call. Whatever the provider answers, creating a plan touches no stream but that of
  the fresh call, whose events are a run of the call lifecycle with at most the policy's maximum of
  attempts, and a plan is only returned when that call completed.\<close>

theorem planning_is_one_recorded_call:
  fixes env :: "(model_payload store, 'c, 'r) plan_env"
  assumes "store_ok (sv_store s)" "valid_retry_policy (me_retry_policy (pe_models env))"
    and "pe_models env = memory_model_env clock models"
    and "call = lg_new_id (pe_models env) (sv_tick s)" "call_stream call s = []"
    and "create_plan env problem budget s = (s', r)"
  shows "\<exists>st. follow model_step MsNew (call_stream call s') = Some st \<and>
    int (length (filter is_start (call_stream call s'))) \<le> ry_maximum_attempts (me_retry_policy (pe_models env)) \<and>
    (\<forall>i. i \<noteq> call \<longrightarrow> stream_history (sv_store s') i = stream_history (sv_store s) i) \<and>
    (\<forall>p. r = Inr p \<longrightarrow> (\<exists>k. st = MsCompleted k))"
proof (cases "is_executable problem")
  case False
  with assms(2,5,6) show ?thesis
    by (auto simp: create_plan_def throw_def call_stream_def valid_retry_policy_def)
next
  case True
  obtain t x where run: "ask_planner env (pr_task_run_id problem) (plan_instructions (pe_texts env) problem budget)
      ''controller_plan'' s = (t, x)" by fastforce
  have s': "s' = t" and r: "\<forall>p. r = Inr p \<longrightarrow> (\<exists>response. x = Inr response)"
    using assms(6) run True
    by (auto simp: create_plan_def bnd_def lift_res_def throw_def split: sum.splits if_splits)
  from ask_planner_recorded [OF assms(1-5) run] s' r show ?thesis by blast
qed

section \<open>The default verifiers\<close>

text \<open>The validation's default list of verifiers does not hold the verifiers the controller verifies with: a plan
  with an action that names the default verifier of any criterion is refused as unknown.\<close>

theorem default_verifier_actions_are_refused:
  assumes "pvd_verifier_ids v = default_plan_verifiers" "default_verifier ct = Some i"
    and "a \<in> set (cp_actions p)" "ca_action_type a = ActVerification" "i \<in> set (ca_verifier_ids a)"
  shows "\<exists>e. validate_plan v p budget = Inl e"
proof -
  from assms(2) have "i \<notin> set default_plan_verifiers" by (cases ct) (auto simp: default_plan_verifiers_def)
  with assms have "\<not> admissible_action v a" by (auto simp: admissible_action_def)
  with assms(3) have "first_some (map (action_fault_of v) (cp_actions p)) \<noteq> None"
    by (auto simp: first_some_None_iff action_fault_None [symmetric])
  then show ?thesis by (auto simp: validate_plan_def split: option.splits)
qed

section \<open>A sample planning\<close>

definition sample_plan_response :: ModelProviderResponse where
  "sample_plan_response = \<lparr>mp_model_call_id = 0, mp_provider_id = ''p'', mp_requested_model = ''m'',
     mp_resolved_model = ''m'', mp_content = None, mp_structured_output = Some JNull, mp_tool_calls = [],
     mp_finish_reason = FinishCompleted, mp_usage = None, mp_latency_ms = 0, mp_provider_request_id = None,
     mp_warnings = []\<rparr>"

definition planning_budget :: ControllerBudget where
  "planning_budget = \<lparr>cb_maximum_provider_calls = 4, cb_maximum_tool_calls = 4, cb_maximum_plan_steps = 4,
     cb_maximum_repair_cycles = 2, cb_maximum_clarification_cycles = 1, cb_maximum_elapsed_seconds = 60,
     cb_maximum_input_tokens = None, cb_maximum_output_tokens = None, cb_maximum_cost_units = None,
     cb_maximum_verifier_calls = 4, cb_maximum_verification_seconds = 60\<rparr>"

definition sample_revision :: ControllerExecutionPlan where
  "sample_revision = sample_plan\<lparr>cp_plan := (cp_plan sample_plan)\<lparr>ep_version := 2\<rparr>\<rparr>"

definition sample_plan_env :: "ControllerExecutionPlan \<Rightarrow> (model_payload store, unit, unit) plan_env" where
  "sample_plan_env p = \<lparr>pe_models = sample_model_env (ProviderReturns sample_plan_response),
     pe_validator = \<lparr>pvd_providers = [(''p'', sample_provider (ProviderReturns sample_plan_response))],
       pvd_tools = \<lparr>rg_tools = [], rg_frozen = True\<rparr>, pvd_verifier_ids = default_plan_verifiers\<rparr>,
     pe_texts = \<lparr>pw_problem = (\<lambda>_. ''x''), pw_plan = (\<lambda>_. ''x''), pw_schema = [], pw_decode = (\<lambda>_. Some p),
       pw_secret = (\<lambda>_. False)\<rparr>,
     pe_budgets = planning_budget, pe_planning_provider_id = ''p'', pe_requested_model = ''m''\<rparr>"

lemma sample_plan_created:
  "case create_plan (sample_plan_env sample_plan) sample_problem planning_budget idle_models of
     (_, Inr p) \<Rightarrow> True | (_, Inl _) \<Rightarrow> False"
  by code_simp

lemma sample_revision_valid: "controller_plan_error sample_revision = None" "is_executable sample_problem"
  by code_simp+

lemma created_plan_is_admissible_witness:
  "\<exists>s' p. create_plan (sample_plan_env sample_plan) sample_problem planning_budget idle_models = (s', Inr p) \<and>
     valid_controller_plan p"
proof -
  obtain s' p where run: "create_plan (sample_plan_env sample_plan) sample_problem planning_budget idle_models = (s', Inr p)"
    using sample_plan_created by (auto split: prod.splits sum.splits)
  from created_plan_is_admissible [OF this] run show ?thesis by blast
qed

lemma sample_plan_revised:
  "case revise_plan (sample_plan_env sample_revision) sample_plan ''r'' planning_budget idle_models of
     (_, Inr p) \<Rightarrow> True | (_, Inl _) \<Rightarrow> False"
  by code_simp

lemma revisions_never_broaden_witness:
  "\<exists>q. revised_plans (sample_plan_env sample_revision) planning_budget sample_plan 1 q \<and> ep_version (cp_plan q) = 2"
proof -
  obtain s' q where run: "revise_plan (sample_plan_env sample_revision) sample_plan ''r'' planning_budget idle_models = (s', Inr q)"
    using sample_plan_revised by (auto split: prod.splits sum.splits)
  have "revised_plans (sample_plan_env sample_revision) planning_budget sample_plan 1 q"
    using revised [OF unrevised run] by simp
  with revisions_never_broaden [OF this] show ?thesis by (auto simp: sample_plan_def)
qed

lemma planning_is_one_recorded_call_witness:
  "\<exists>s' p k. create_plan (sample_plan_env sample_plan) sample_problem planning_budget idle_models = (s', Inr p) \<and>
     follow model_step MsNew (call_stream 0 s') = Some (MsCompleted k)"
proof -
  let ?env = "sample_plan_env sample_plan"
  obtain s' p where run: "create_plan ?env sample_problem planning_budget idle_models = (s', Inr p)"
    using sample_plan_created by (auto split: prod.splits sum.splits)
  have start: "store_ok (sv_store idle_models)" "call_stream 0 idle_models = []"
    by (simp_all add: idle_models_def call_stream_def stream_history_def stream_events_def)
  have models: "pe_models ?env = sample_model_env (ProviderReturns sample_plan_response)"
    by (simp add: sample_plan_env_def)
  then have "me_retry_policy (pe_models ?env) = default_retry_policy"
    and id: "0 = lg_new_id (pe_models ?env) (sv_tick idle_models)"
    by (simp_all add: sample_model_env_def idle_models_def)
  then have policy: "valid_retry_policy (me_retry_policy (pe_models ?env))" using default_retry_policy_valid by simp
  have memory: "pe_models ?env = memory_model_env (\<lambda>n. n) (sample_model_env (ProviderReturns sample_plan_response))"
    unfolding models memory_sample_model_env by (rule refl)
  show ?thesis
  proof (rule exE [OF planning_is_one_recorded_call [OF start(1) policy memory id start(2) run]], elim conjE)
    fix st assume "follow model_step MsNew (call_stream 0 s') = Some st" "\<forall>q. Inr p = Inr q \<longrightarrow> (\<exists>k. st = MsCompleted k)"
    with run show ?thesis by auto
  qed
qed

definition verifying_plan :: ControllerExecutionPlan where
  "verifying_plan = sample_plan\<lparr>cp_actions := [(sample_action 1)\<lparr>ca_action_type := ActVerification,
     ca_provider_instructions := None, ca_verifier_ids := [''generic.step_completed'']\<rparr>]\<rparr>"

lemma default_verifier_actions_are_refused_witness:
  "\<exists>e. validate_plan (pe_validator (sample_plan_env sample_plan)) verifying_plan planning_budget = Inl e"
  by (rule default_verifier_actions_are_refused [of _ CritStepCompleted "''generic.step_completed''"
        "hd (cp_actions verifying_plan)"])
    (simp_all add: sample_plan_env_def verifying_plan_def)

end
