(* ===== verification/Action_Execution.thy ===== *)
theory Action_Execution
  imports Plan_Service Ctl_Run
begin

text \<open>
  The execution of a planned action through the provider and the tool plane
  (\<open>application/services/controller_action_execution.py\<close>, \<open>context/rendering.py\<close>).

  The router and the context builder are optional ports, and so parameters: what they answer may be an
  exception. Requests, policies, decisions and references are theirs (type variables); of a decision the
  code reads the selected model and copies its fields into a reference, of a bundle the token estimate.
  The model plane and the tool plane keep their own events, and are two parts of the state.
\<close>

section \<open>The ports\<close>

record ('q, 'd, 'r) router_port =
  rt_factory :: "ControllerStepAction \<Rightarrow> 'q"
  rt_route_static :: "nat \<Rightarrow> 'q \<Rightarrow> string + 'd"
  rt_fits :: "nat \<Rightarrow> 'd \<Rightarrow> int \<Rightarrow> string + bool"
  rt_context_fallback :: "nat \<Rightarrow> 'q \<Rightarrow> 'd \<Rightarrow> int \<Rightarrow> string + 'd"
  rt_selected :: "'d \<Rightarrow> (string \<times> string) option"
  rt_reference :: "'d \<Rightarrow> 'r"

text \<open>The result of a build: whether it was created, the bundle with its estimate, its reference and text.\<close>

record 'c context_result =
  cr_created :: bool
  cr_bundle :: "int option"
  cr_reference :: "'c option"
  cr_rendered :: "string option"

record ('x, 'c) context_port =
  cp_factory :: "ControllerStepAction \<Rightarrow> 'x"
  cp_context_limit :: "'x \<Rightarrow> int"
  cp_reserved_output :: "'x \<Rightarrow> int"
  cp_build :: "nat \<Rightarrow> 'x \<Rightarrow> string + 'c context_result"
  cp_validate :: "nat \<Rightarrow> 'c context_result \<Rightarrow> string + bool"
  cp_attach :: "nat \<Rightarrow> 'x \<Rightarrow> 'c \<Rightarrow> uuid \<Rightarrow> string + unit"

record ('s, 't, 'q, 'd, 'r, 'x, 'c) action_env =
  ax_models :: "('s, 'c, 'r) model_env"
  ax_tools :: "'t tool_env"
  ax_router :: "('q, 'd, 'r) router_port option"
  ax_context :: "('x, 'c) context_port option"
  ax_secret :: "string \<Rightarrow> bool"
  ax_budgets :: ControllerBudget
  ax_maximum_inline :: int
  ax_workspace :: string
  ax_new_id :: "nat \<Rightarrow> uuid"
  ax_now :: "nat \<Rightarrow> timestamp"

record ('s, 't) action_state =
  as_models :: "'s log_state"
  as_tools :: "'t tool_state"
  as_tick :: nat

datatype action_exec_error = AxModel model_error | AxTool tool_error | AxRequest request_fault | AxPort string
  | AxNoBundle

type_synonym ('s, 't, 'a) action_comp = "(('s, 't) action_state, action_exec_error, 'a) comp"

section \<open>Lifting the planes\<close>

definition on_models :: "('s, 'a) model_comp \<Rightarrow> ('s, 't, 'a) action_comp" where
  "on_models m = (\<lambda>s. case m (as_models s) of (s', r) \<Rightarrow>
     (s\<lparr>as_models := s'\<rparr>, case r of Inl e \<Rightarrow> Inl (AxModel e) | Inr x \<Rightarrow> Inr x))"

definition on_tools :: "('t, 'a) tool_comp \<Rightarrow> ('s, 't, 'a) action_comp" where
  "on_tools m = (\<lambda>s. case m (as_tools s) of (s', r) \<Rightarrow>
     (s\<lparr>as_tools := s'\<rparr>, case r of Inl e \<Rightarrow> Inl (AxTool e) | Inr x \<Rightarrow> Inr x))"

definition ask_port :: "(nat \<Rightarrow> string + 'a) \<Rightarrow> ('s, 't, 'a) action_comp" where
  "ask_port f = (\<lambda>s. (s\<lparr>as_tick := Suc (as_tick s)\<rparr>,
     case f (as_tick s) of Inl e \<Rightarrow> Inl (AxPort e) | Inr x \<Rightarrow> Inr x))"

definition draw_value :: "(nat \<Rightarrow> 'a) \<Rightarrow> ('s, 't, 'a) action_comp" where
  "draw_value f = ask_port (\<lambda>t. Inr (f t))"

section \<open>Outcomes and messages\<close>

definition outcome :: "bool \<Rightarrow> json \<Rightarrow> ActionOutcome" where
  "outcome ok x = \<lparr>ao_succeeded = ok, ao_output = x, ao_tool_call_id = None, ao_warning = None\<rparr>"

definition failed_outcome :: "string \<Rightarrow> ActionOutcome" where
  "failed_outcome w = (outcome False JNull)\<lparr>ao_warning := Some w\<rparr>"

definition compose_context_messages :: "string \<Rightarrow> 'c context_result \<Rightarrow> action_exec_error + ProviderMessage list" where
  "compose_context_messages instruction r =
     (if \<not> cr_created r \<or> cr_bundle r = None \<or> cr_reference r = None then Inl AxNoBundle
      else case cr_rendered r of None \<Rightarrow> Inl AxNoBundle
      | Some text \<Rightarrow> Inr [user_message instruction,
          (user_message text)\<lparr>pm_name := Some ''retrieved_context_data''\<rparr>])"

section \<open>Provider actions\<close>

text \<open>What routing and context building have decided so far.\<close>

record ('d, 'r, 'x, 'c) call_choice =
  ch_model :: string
  ch_provider :: "string option"
  ch_decision :: "'d option"
  ch_routing_reference :: "'r option"
  ch_messages :: "ProviderMessage list"
  ch_context :: "('x \<times> 'c option) option"
  ch_context_budget :: int
  ch_reserved_output :: int

definition instruction_of :: "ControllerStepAction \<Rightarrow> string" where
  "instruction_of a = (if str_truthy (ca_provider_instructions a) then or_empty (ca_provider_instructions a)
     else ''Execute the bounded plan step.'')"

definition initial_choice :: "ControllerStepAction \<Rightarrow> ('d, 'r, 'x, 'c) call_choice" where
  "initial_choice a = \<lparr>ch_model = (if str_truthy (ca_requested_model a) then or_empty (ca_requested_model a)
       else ''default''),
     ch_provider = ca_provider_id a, ch_decision = None, ch_routing_reference = None,
     ch_messages = [user_message (instruction_of a)], ch_context = None, ch_context_budget = 32768,
     ch_reserved_output = 32768\<rparr>"

definition choose_model ::
  "('q, 'd, 'r) router_port \<Rightarrow> 'd \<Rightarrow> string \<times> string \<Rightarrow> ('d, 'r, 'x, 'c) call_choice \<Rightarrow> ('d, 'r, 'x, 'c) call_choice" where
  "choose_model rt d selected c = c\<lparr>ch_provider := Some (fst selected), ch_model := snd selected, ch_decision := Some d,
     ch_routing_reference := Some (rt_reference rt d)\<rparr>"

text \<open>Each stage gives the choice, or an outcome that ends the action.\<close>

definition route_action ::
  "('s, 't, 'q, 'd, 'r, 'x, 'c) action_env \<Rightarrow> ControllerStepAction \<Rightarrow> ('d, 'r, 'x, 'c) call_choice \<Rightarrow>
   ('s, 't, ActionOutcome + ('d, 'r, 'x, 'c) call_choice) action_comp" where
  "route_action env a c = (case ax_router env of None \<Rightarrow> ret (Inr c)
     | Some rt \<Rightarrow> bnd (ask_port (\<lambda>t. rt_route_static rt t (rt_factory rt a))) (\<lambda>d. case rt_selected rt d of
         None \<Rightarrow> ret (Inl (failed_outcome ''routing found no eligible model''))
       | Some selected \<Rightarrow> ret (Inr (choose_model rt d selected c))))"

text \<open>A bundle the routed model has no room for is routed again, once.\<close>

definition fit_context ::
  "('s, 't, 'q, 'd, 'r, 'x, 'c) action_env \<Rightarrow> ControllerStepAction \<Rightarrow> int \<Rightarrow> ('d, 'r, 'x, 'c) call_choice \<Rightarrow>
   ('s, 't, ActionOutcome + ('d, 'r, 'x, 'c) call_choice) action_comp" where
  "fit_context env a tokens c = (case (ax_router env, ch_decision c) of
     (Some rt, Some d) \<Rightarrow> bnd (ask_port (\<lambda>t. rt_fits rt t d tokens)) (\<lambda>fits.
       if fits then ret (Inr c)
       else bnd (ask_port (\<lambda>t. rt_context_fallback rt t (rt_factory rt a) d tokens)) (\<lambda>d'.
         let unfit = Inl (failed_outcome ''no routed model fits the built Context Bundle'') in
         case rt_selected rt d' of None \<Rightarrow> ret unfit
         | Some selected \<Rightarrow> bnd (ask_port (\<lambda>t. rt_fits rt t d' tokens)) (\<lambda>fits'.
             ret (if fits' then Inr (choose_model rt d' selected c) else unfit))))
   | _ \<Rightarrow> ret (Inr c))"

definition build_context ::
  "('s, 't, 'q, 'd, 'r, 'x, 'c) action_env \<Rightarrow> ControllerStepAction \<Rightarrow> ('d, 'r, 'x, 'c) call_choice \<Rightarrow>
   ('s, 't, ActionOutcome + ('d, 'r, 'x, 'c) call_choice) action_comp" where
  "build_context env a c = (case ax_context env of None \<Rightarrow> ret (Inr c)
     | Some cp \<Rightarrow> (let x = cp_factory cp a in
       bnd (ask_port (\<lambda>t. cp_build cp t x)) (\<lambda>built. case cr_bundle built of
         None \<Rightarrow> ret (Inl (failed_outcome ''Context Builder did not create a bundle''))
       | Some tokens \<Rightarrow>
           bnd (ask_port (\<lambda>t. cp_validate cp t built)) (\<lambda>_.
           bnd (lift_res id (compose_context_messages (instruction_of a) built)) (\<lambda>messages.
           bnd (fit_context env a tokens (c\<lparr>ch_messages := messages, ch_context := Some (x, cr_reference built)\<rparr>)) (\<lambda>fitted.
           ret (case fitted of Inl w \<Rightarrow> Inl w
             | Inr c' \<Rightarrow> Inr (c'\<lparr>ch_context_budget := cp_context_limit cp x,
                 ch_reserved_output := cp_reserved_output cp x\<rparr>))))))))"

definition action_request ::
  "('s, 't, 'q, 'd, 'r, 'x, 'c) action_env \<Rightarrow> ControllerStepAction \<Rightarrow> StartControllerRequest \<Rightarrow> uuid \<Rightarrow>
   ('d, 'r, 'x, 'c) call_choice \<Rightarrow> request_fault + ('c, 'r) ModelProviderRequest" where
  "action_request env a q call c = construct (request_error (ax_secret env))
     \<lparr>mq_model_call_id = call, mq_task_run_id = st_task_run_id q, mq_step_id = Some (ca_step_id a),
      mq_correlation_id = st_correlation_id q, mq_requested_model = ch_model c, mq_messages = ch_messages c,
      mq_system_instructions = None, mq_tools = [], mq_tool_choice = ChoiceNone, mq_selected_tool_name = None,
      mq_response_format = (if ca_response_schema a = None then FormatText else FormatJsonSchema),
      mq_response_schema = ca_response_schema a, mq_temperature = None,
      mq_max_output_tokens = Some (min (output_limit (ax_budgets env)) (ch_reserved_output c)),
      mq_context_budget = ch_context_budget c, mq_timeout_seconds = 120,
      mq_context_bundle_reference = (case ch_context c of None \<Rightarrow> None | Some (_, reference) \<Rightarrow> reference),
      mq_routing_reference = ch_routing_reference c,
      mq_metadata = [(''operation'', JStr ''controller_provider_step'')]\<rparr>"

definition attach_context ::
  "('s, 't, 'q, 'd, 'r, 'x, 'c) action_env \<Rightarrow> uuid \<Rightarrow> ('d, 'r, 'x, 'c) call_choice \<Rightarrow> ('s, 't, unit) action_comp" where
  "attach_context env call c = (case (ax_context env, ch_context c) of
     (Some cp, Some (x, Some reference)) \<Rightarrow> ask_port (\<lambda>t. cp_attach cp t x reference call)
   | _ \<Rightarrow> ret ())"

definition response_outcome :: "ControllerStepAction \<Rightarrow> ModelProviderResponse \<Rightarrow> ActionOutcome" where
  "response_outcome a r =
     (if mp_tool_calls r \<noteq> [] then failed_outcome ''unexpected provider tool call was not executed''
      else outcome True (if ca_response_schema a \<noteq> None
        then (case mp_structured_output r of None \<Rightarrow> JNull | Some v \<Rightarrow> v)
        else (case mp_content r of None \<Rightarrow> JNull | Some v \<Rightarrow> JStr v)))"

definition call_provider ::
  "('s, 't, 'q, 'd, 'r, 'x, 'c) action_env \<Rightarrow> ControllerStepAction \<Rightarrow> StartControllerRequest \<Rightarrow> uuid \<Rightarrow>
   ('d, 'r, 'x, 'c) call_choice \<Rightarrow> ('s, 't, ActionOutcome) action_comp" where
  "call_provider env a q call c =
     bnd (lift_res AxRequest (action_request env a q call c)) (\<lambda>request.
     andthen (attach_context env call c)
     (bnd (on_models (execute_model (ax_models env) request (ch_provider c))) (\<lambda>response.
     ret (response_outcome a response))))"

definition provider_action ::
  "('s, 't, 'q, 'd, 'r, 'x, 'c) action_env \<Rightarrow> ControllerStepAction \<Rightarrow> StartControllerRequest \<Rightarrow>
   ('s, 't, ActionOutcome) action_comp" where
  "provider_action env a q =
     bnd (draw_value (ax_new_id env)) (\<lambda>call.
     bnd (route_action env a (initial_choice a)) (\<lambda>routed. case routed of Inl w \<Rightarrow> ret w
     | Inr c \<Rightarrow> bnd (build_context env a c) (\<lambda>built. case built of Inl w \<Rightarrow> ret w
       | Inr c' \<Rightarrow> call_provider env a q call c')))"

section \<open>Tool actions\<close>

definition action_invocation :: "ControllerStepAction \<Rightarrow> StartControllerRequest \<Rightarrow> uuid \<Rightarrow> timestamp \<Rightarrow> ToolInvocation" where
  "action_invocation a q call now = \<lparr>ti_tool_call_id = call, ti_task_run_id = st_task_run_id q,
     ti_step_id = Some (ca_step_id a), ti_correlation_id = st_correlation_id q, ti_tool_id = or_empty (ca_tool_id a),
     ti_tool_version = or_empty (ca_tool_version a),
     ti_arguments = (case ca_tool_arguments a of None \<Rightarrow> [] | Some v \<Rightarrow> v), ti_requested_at = now,
     ti_requested_by = ''cognitive-controller''\<rparr>"

definition action_tool_context :: "('s, 't, 'q, 'd, 'r, 'x, 'c) action_env \<Rightarrow> ToolExecutionContext" where
  "action_tool_context env = \<lparr>tc_workspace = ax_workspace env, tc_timeout_seconds = 120,
     tc_maximum_stdout_bytes = 1048576, tc_maximum_stderr_bytes = 1048576,
     tc_maximum_artifact_bytes = ax_maximum_inline env\<rparr>"

definition result_outcome :: "uuid \<Rightarrow> ToolExecutionResult \<Rightarrow> ActionOutcome" where
  "result_outcome call r = \<lparr>ao_succeeded = (tr_status r = TxCompleted), ao_output = tr_result r,
     ao_tool_call_id = Some call, ao_warning = (case tr_warnings r of [] \<Rightarrow> None | w # _ \<Rightarrow> Some w)\<rparr>"

definition tool_action ::
  "('s, 't, 'q, 'd, 'r, 'x, 'c) action_env \<Rightarrow> ControllerStepAction \<Rightarrow> StartControllerRequest \<Rightarrow>
   ('s, 't, ActionOutcome) action_comp" where
  "tool_action env a q =
     bnd (draw_value (\<lambda>t. (ax_new_id env t, ax_now env t))) (\<lambda>(call, now).
     bnd (on_tools (execute_tool (ax_tools env) (action_invocation a q call now) (action_tool_context env))) (\<lambda>r.
     ret (result_outcome call r)))"

section \<open>The service\<close>

definition execute_action ::
  "('s, 't, 'q, 'd, 'r, 'x, 'c) action_env \<Rightarrow> ControllerStepAction \<Rightarrow> StartControllerRequest \<Rightarrow>
   ('s, 't, ActionOutcome) action_comp" where
  "execute_action env a q = (case ca_action_type a of
     ActProvider \<Rightarrow> provider_action env a q
   | ActTool \<Rightarrow> tool_action env a q
   | ActVerification \<Rightarrow> ret (outcome True JNull)
   | ActManual \<Rightarrow> ret (failed_outcome ''manual action requires a durable pause''))"

end
