(* ===== verification/Action_Props.thy ===== *)
theory Action_Props
  imports Action_Execution Tool_Lifecycle Model_Props
begin

text \<open>
  Properties of executing a planned action: the planes stay apart, and an action that is reported as
  succeeded is one whose call completed on its stream.
\<close>

section \<open>What the stages leave alone\<close>

definition same_planes :: "('s, 't) action_state \<Rightarrow> ('s, 't) action_state \<Rightarrow> bool" where
  "same_planes s s' \<longleftrightarrow> as_models s' = as_models s \<and> as_tools s' = as_tools s"

definition same_tools :: "('s, 't) action_state \<Rightarrow> ('s, 't) action_state \<Rightarrow> bool" where
  "same_tools s s' \<longleftrightarrow> as_tools s' = as_tools s"

definition quiet :: "('s, 't, 'a) action_comp \<Rightarrow> bool" where
  "quiet m \<longleftrightarrow> (\<forall>s. triple (same_planes s) m (\<lambda>_. same_planes s) (\<lambda>_. same_planes s))"

lemma quiet_ret: "quiet (ret x)"
  by (simp add: quiet_def triple_ret)

lemma quiet_ask: "quiet (ask_port f)"
  by (simp add: quiet_def triple_def ask_port_def same_planes_def split: sum.splits)

lemma quiet_lift: "quiet (lift_res k r)"
  by (simp add: quiet_def triple_lift_res)

lemma quiet_bnd: "quiet m \<Longrightarrow> (\<And>x. quiet (f x)) \<Longrightarrow> quiet (bnd m f)"
  unfolding quiet_def by (blast intro: triple_bnd)

lemma quiet_route: "quiet (route_action env a c)"
  by (auto simp: route_action_def intro!: quiet_ret quiet_bnd quiet_ask split: option.split)

lemma quiet_fit: "quiet (fit_context env a tokens c)"
  by (auto simp: fit_context_def Let_def intro!: quiet_ret quiet_bnd quiet_ask split: option.split)

lemma quiet_build: "quiet (build_context env a c)"
  by (auto simp: build_context_def Let_def intro!: quiet_ret quiet_bnd quiet_ask quiet_lift quiet_fit split: option.split)

lemma quiet_attach: "quiet (attach_context env call c)"
  by (auto simp: attach_context_def intro!: quiet_ret quiet_ask split: option.split)

lemma quiet_run:
  assumes "quiet m" "m s = (s', r)"
  shows "same_planes s s'"
proof -
  have t: "triple (same_planes s) m (\<lambda>_. same_planes s) (\<lambda>_. same_planes s)" using assms(1) by (simp add: quiet_def)
  have self: "same_planes s s" by (simp add: same_planes_def)
  show ?thesis
  proof (cases r)
    case (Inl e)
    show ?thesis by (rule triple_Inl [OF t self assms(2) [unfolded Inl]])
  next
    case (Inr x)
    show ?thesis by (rule triple_Inr [OF t self assms(2) [unfolded Inr]])
  qed
qed

section \<open>Provider actions\<close>

text \<open>A provider action is its stages and at most one model call, under the first identifier drawn.\<close>

lemma call_provider_cases:
  assumes "call_provider env a q call c s = (s', r)"
  shows "same_planes s s' \<and> (\<forall>out. r \<noteq> Inr out) \<or>
    (\<exists>request m x. mq_model_call_id request = call \<and>
       execute_model (ax_models env) request (ch_provider c) (as_models s) = (m, x) \<and>
       as_models s' = m \<and> as_tools s' = as_tools s \<and>
       r = (case x of Inl e \<Rightarrow> Inl (AxModel e) | Inr response \<Rightarrow> Inr (response_outcome a response)))"
proof (cases "action_request env a q call c")
  case (Inl e)
  with assms show ?thesis by (auto simp: call_provider_def bnd_def lift_res_def same_planes_def)
next
  case (Inr request)
  then have request: "mq_model_call_id request = call" by (auto simp: action_request_def construct_Inr)
  obtain t u where attach: "attach_context env call c s = (t, u)" by fastforce
  note same = quiet_run [OF quiet_attach attach]
  obtain m x where run: "execute_model (ax_models env) request (ch_provider c) (as_models t) = (m, x)" by fastforce
  show ?thesis
  proof (cases u)
    case (Inl e)
    with assms Inr attach same show ?thesis by (auto simp: call_provider_def bnd_def lift_res_def andthen_def)
  next
    case (Inr v)
    with assms attach same run \<open>action_request env a q call c = Inr request\<close> request show ?thesis
      by (cases x) (auto simp: call_provider_def bnd_def lift_res_def andthen_def on_models_def ret_def same_planes_def)
  qed
qed

lemma provider_action_cases:
  assumes "provider_action env a q s = (s', r)"
  shows "same_planes s s' \<and> (\<forall>out. r = Inr out \<longrightarrow> \<not> ao_succeeded out) \<or>
    (\<exists>request provider m x. mq_model_call_id request = ax_new_id env (as_tick s) \<and>
       execute_model (ax_models env) request provider (as_models s) = (m, x) \<and>
       as_models s' = m \<and> as_tools s' = as_tools s \<and>
       r = (case x of Inl e \<Rightarrow> Inl (AxModel e) | Inr response \<Rightarrow> Inr (response_outcome a response)))"
proof -
  let ?s = "s\<lparr>as_tick := Suc (as_tick s)\<rparr>" and ?call = "ax_new_id env (as_tick s)"
  obtain t u where route: "route_action env a (initial_choice a) ?s = (t, u)" by fastforce
  have st: "same_planes s t" using quiet_run [OF quiet_route route] by (simp add: same_planes_def)
  have failed: "\<not> ao_succeeded w" if "u = Inr (Inl w)" for w
    using route that by (auto simp: route_action_def ret_def bnd_def failed_outcome_def outcome_def
        split: option.splits prod.splits sum.splits)
  show ?thesis
  proof (cases u)
    case (Inl e)
    with assms route st show ?thesis
      by (auto simp: provider_action_def bnd_def draw_value_def ask_port_def)
  next
    case (Inr routed)
    show ?thesis
    proof (cases routed)
      case (Inl w)
      with assms route st \<open>u = Inr routed\<close> failed show ?thesis
        by (auto simp: provider_action_def bnd_def draw_value_def ask_port_def ret_def)
    next
      case chosen: (Inr c)
      obtain v b where build: "build_context env a c t = (v, b)" by fastforce
      have sv: "same_planes s v" using st quiet_run [OF quiet_build build] by (simp add: same_planes_def)
      show ?thesis
      proof (cases b)
        case (Inl e)
        with assms route build \<open>u = Inr routed\<close> chosen sv show ?thesis
          by (auto simp: provider_action_def bnd_def draw_value_def ask_port_def)
      next
        case built: (Inr x)
        show ?thesis
        proof (cases x)
          case (Inl w)
          with built build have "\<not> ao_succeeded w"
            by (auto simp: build_context_def fit_context_def Let_def ret_def bnd_def failed_outcome_def outcome_def
                split: option.splits prod.splits sum.splits if_splits)
          with assms route build \<open>u = Inr routed\<close> chosen built Inl sv show ?thesis
            by (auto simp: provider_action_def bnd_def draw_value_def ask_port_def ret_def)
        next
          case (Inr c')
          with assms route build \<open>u = Inr routed\<close> chosen built
          have "call_provider env a q ?call c' v = (s', r)"
            by (simp add: provider_action_def bnd_def draw_value_def ask_port_def)
          from call_provider_cases [OF this] sv show ?thesis by (auto simp: same_planes_def)
        qed
      qed
    qed
  qed
qed

section \<open>The properties\<close>

definition plane_stream :: "uuid \<Rightarrow> ('p store, 'm) log_state_scheme \<Rightarrow> 'p list" where
  "plane_stream i s = map ev_payload (stream_history (sv_store s) i)"

text \<open>C25. The planes stay apart. Whatever the router, the context builder, the provider and the tools answer, only a
  tool action changes the state of the tool plane and only a provider action that of the model plane, so a
  tool call a model asks for is never executed: such a response is a failed outcome.\<close>

theorem planes_stay_apart:
  assumes "execute_action env a q s = (s', r)"
  shows "(ca_action_type a \<noteq> ActTool \<longrightarrow> as_tools s' = as_tools s) \<and>
    (ca_action_type a \<noteq> ActProvider \<longrightarrow> as_models s' = as_models s) \<and>
    (mp_tool_calls response \<noteq> [] \<longrightarrow> \<not> ao_succeeded (response_outcome a response))"
proof (intro conjI impI)
  assume "mp_tool_calls response \<noteq> []"
  then show "\<not> ao_succeeded (response_outcome a response)"
    by (simp add: response_outcome_def failed_outcome_def outcome_def)
next
  assume "ca_action_type a \<noteq> ActTool"
  then show "as_tools s' = as_tools s"
    using assms provider_action_cases [of env a q s s' r]
    by (cases "ca_action_type a") (auto simp: execute_action_def ret_def same_planes_def)
next
  assume "ca_action_type a \<noteq> ActProvider"
  then show "as_models s' = as_models s"
    using assms
    by (cases "ca_action_type a")
      (auto simp: execute_action_def ret_def tool_action_def bnd_def draw_value_def ask_port_def on_tools_def
        split: prod.splits sum.splits)
qed

text \<open>C26. A success is recorded. With fresh identifiers, an action that is reported as succeeded has a call whose
  stream is a complete run of its lifecycle: a tool action names the tool call, which was permitted and
  completed, a provider action made a model call that completed within the policy's attempts. A manual
  action never succeeds.\<close>

theorem succeeded_action_is_recorded:
  fixes env :: "(model_payload store, tool_payload store, 'q, 'd, 'r, 'x, 'c) action_env"
  assumes "execute_action env a q s = (s', Inr out)" "ao_succeeded out"
    and "ax_models env = memory_model_env clock models" "valid_retry_policy (me_retry_policy models)"
    and "ax_tools env = memory_tool_env clock tools"
    and "store_ok (sv_store (as_models s))" "store_ok (sv_store (as_tools s))"
    and "call = ax_new_id env (as_tick s)" "plane_stream call (as_models s) = []" "plane_stream call (as_tools s) = []"
  shows "case ca_action_type a of
      ActTool \<Rightarrow> ao_tool_call_id out = Some call \<and>
        follow call_step PhNew (plane_stream call (as_tools s')) = Some PhCompleted
    | ActProvider \<Rightarrow> \<exists>k. follow model_step MsNew (plane_stream call (as_models s')) = Some (MsCompleted k) \<and>
        int k \<le> ry_maximum_attempts (me_retry_policy models)
    | ActVerification \<Rightarrow> s' = s
    | ActManual \<Rightarrow> False"
proof (cases "ca_action_type a")
  case ActProvider
  with assms(1) have "provider_action env a q s = (s', Inr out)" by (simp add: execute_action_def)
  then have "\<exists>request provider response. mq_model_call_id request = call \<and>
      execute_model (ax_models env) request provider (as_models s) = (as_models s', Inr response)"
  proof (rule provider_action_cases [THEN disjE])
    assume "same_planes s s' \<and> (\<forall>x. Inr out = Inr x \<longrightarrow> \<not> ao_succeeded x)"
    with assms(2) show ?thesis by simp
  next
    assume "\<exists>request provider m x. mq_model_call_id request = ax_new_id env (as_tick s) \<and>
       execute_model (ax_models env) request provider (as_models s) = (m, x) \<and>
       as_models s' = m \<and> as_tools s' = as_tools s \<and>
       Inr out = (case x of Inl e \<Rightarrow> Inl (AxModel e) | Inr response \<Rightarrow> Inr (response_outcome a response))"
    then obtain request provider m x where "mq_model_call_id request = call"
      "execute_model (ax_models env) request provider (as_models s) = (as_models s', x)"
      "Inr out = (case x of Inl e \<Rightarrow> Inl (AxModel e) | Inr response \<Rightarrow> Inr (response_outcome a response))"
      using assms(8) by blast
    then show ?thesis by (cases x) auto
  qed
  then obtain request provider response where run: "mq_model_call_id request = call"
    "execute_model (ax_models env) request provider (as_models s) = (as_models s', Inr response)" by blast
  have "model_history request (as_models s) = []" using assms(9) run(1) by (simp add: model_history_def plane_stream_def)
  from model_call_record [OF assms(6) this assms(4) run(2) [unfolded assms(3)]] obtain k where
    k: "follow model_step MsNew (model_history request (as_models s')) = Some (MsCompleted k)"
      "int (length (filter is_start (model_history request (as_models s')))) \<le> ry_maximum_attempts (me_retry_policy models)"
    by auto
  have "k = length (filter is_start (model_history request (as_models s')))" using follow_attempts [OF k(1)] by simp
  with k run(1) ActProvider show ?thesis by (auto simp: model_history_def plane_stream_def)
next
  case ActTool
  let ?call = "action_invocation a q call (ax_now env (as_tick s))"
  obtain t x where run: "execute_tool (ax_tools env) ?call (action_tool_context env) (as_tools s) = (t, x)" by fastforce
  with assms(1,8) ActTool obtain result where res: "x = Inr result" "out = result_outcome call result" "as_tools s' = t"
    by (auto simp: execute_action_def tool_action_def bnd_def draw_value_def ask_port_def on_tools_def ret_def
        split: sum.splits)
  have "call_history ?call (as_tools s) = []" using assms(10) by (simp add: call_history_def plane_stream_def action_invocation_def)
  from tool_call_record [OF assms(7) this run [unfolded assms(5)]] res assms(2)
  show ?thesis
    unfolding ActTool by (auto simp: result_outcome_def call_history_def plane_stream_def action_invocation_def)
next
  case ActVerification
  with assms(1) show ?thesis by (simp add: execute_action_def ret_def)
next
  case ActManual
  with assms(1,2) show ?thesis by (auto simp: execute_action_def ret_def failed_outcome_def outcome_def)
qed

section \<open>A sample action\<close>

definition sample_answer :: ModelProviderResponse where
  "sample_answer = \<lparr>mp_model_call_id = 4, mp_provider_id = ''p'', mp_requested_model = ''m'',
     mp_resolved_model = ''m'', mp_content = Some ''done'', mp_structured_output = None, mp_tool_calls = [],
     mp_finish_reason = FinishCompleted, mp_usage = None, mp_latency_ms = 0, mp_provider_request_id = None,
     mp_warnings = []\<rparr>"

definition sample_action_env ::
  "(model_payload store, tool_payload store, unit, unit, unit, unit, unit) action_env" where
  "sample_action_env = \<lparr>ax_models = sample_model_env (ProviderReturns sample_answer),
     ax_tools = sample_tool_env (sample_tool ToolR0 ToolTimesOut), ax_router = None, ax_context = None,
     ax_secret = (\<lambda>_. False),
     ax_budgets = \<lparr>cb_maximum_provider_calls = 4, cb_maximum_tool_calls = 4, cb_maximum_plan_steps = 4,
       cb_maximum_repair_cycles = 2, cb_maximum_clarification_cycles = 1, cb_maximum_elapsed_seconds = 60,
       cb_maximum_input_tokens = None, cb_maximum_output_tokens = None, cb_maximum_cost_units = None,
       cb_maximum_verifier_calls = 4, cb_maximum_verification_seconds = 60\<rparr>,
     ax_maximum_inline = 1, ax_workspace = ''w'', ax_new_id = (\<lambda>t. of_nat t + 4), ax_now = int\<rparr>"

definition action_start :: StartControllerRequest where
  "action_start = \<lparr>st_task_id = 2, st_task_run_id = 9, st_correlation_id = 3, st_title = ''t'', st_raw_request = ''r''\<rparr>"

definition idle_actions :: "(model_payload store, tool_payload store) action_state" where
  "idle_actions = \<lparr>as_models = idle_models, as_tools = idle_tools, as_tick = 0\<rparr>"

lemma sample_action_succeeds:
  "case execute_action sample_action_env (sample_action 1) action_start idle_actions of
     (_, Inr out) \<Rightarrow> ao_succeeded out | (_, Inl _) \<Rightarrow> False"
  by code_simp

lemma planes_stay_apart_witness:
  "as_tools (fst (execute_action sample_action_env (sample_action 1) action_start idle_actions)) = idle_tools"
proof -
  obtain s' r where run: "execute_action sample_action_env (sample_action 1) action_start idle_actions = (s', r)"
    by fastforce
  have "ca_action_type (sample_action 1) \<noteq> ActTool" by (simp add: sample_action_def)
  with planes_stay_apart [OF run] run show ?thesis by (simp add: idle_actions_def)
qed

lemma succeeded_action_is_recorded_witness:
  "\<exists>k. follow model_step MsNew (plane_stream 4
     (as_models (fst (execute_action sample_action_env (sample_action 1) action_start idle_actions)))) =
       Some (MsCompleted k) \<and> int k \<le> 3"
proof -
  obtain s' out where run: "execute_action sample_action_env (sample_action 1) action_start idle_actions = (s', Inr out)"
    and ok: "ao_succeeded out"
    using sample_action_succeeds by (auto split: prod.splits sum.splits)
  have models: "ax_models sample_action_env = memory_model_env (\<lambda>n. n) (sample_model_env (ProviderReturns sample_answer))"
    unfolding memory_sample_model_env by (simp add: sample_action_env_def)
  have tools: "ax_tools sample_action_env = memory_tool_env (\<lambda>n. n) (sample_tool_env (sample_tool ToolR0 ToolTimesOut))"
    by (simp add: sample_action_env_def memory_tool_env_def sample_tool_env_def)
  have policy: "me_retry_policy (sample_model_env (ProviderReturns sample_answer)) = default_retry_policy"
    by (simp add: sample_model_env_def)
  have valid: "valid_retry_policy (me_retry_policy (sample_model_env (ProviderReturns sample_answer)))"
    unfolding policy by (rule default_retry_policy_valid)
  have stores: "store_ok (sv_store (as_models idle_actions))" "store_ok (sv_store (as_tools idle_actions))"
    "4 = ax_new_id sample_action_env (as_tick idle_actions)" "plane_stream 4 (as_models idle_actions) = []"
    "plane_stream 4 (as_tools idle_actions) = []"
    by (simp_all add: idle_actions_def idle_models_def idle_tools_def plane_stream_def stream_history_def
        stream_events_def sample_action_env_def)
  have "ca_action_type (sample_action 1) = ActProvider" by (simp add: sample_action_def)
  with succeeded_action_is_recorded [OF run ok models valid tools stores] run policy show ?thesis
    by (simp add: default_retry_policy_def)
qed

end
