(* ===== verification/Py_Decimal.thy ===== *)
theory Py_Decimal
  imports Cog_Prelude
begin

text \<open>
  What the routing plane uses of Python's \<open>decimal\<close>: finite decimals as rationals, the arithmetic of the
  default context (28 significant digits, ties to even), \<open>quantize\<close> to six places, and reading a decimal
  from a text. The exponent limits of the context are not modelled.
\<close>

type_synonym decimal = rat

section \<open>Rounding\<close>

definition half_even :: "decimal \<Rightarrow> int" where
  "half_even x = (let f = \<lfloor>x\<rfloor>; r = x - of_int f in
     if r < 1 / 2 then f else if 1 / 2 < r then f + 1 else if even f then f else f + 1)"

text \<open>The exponent of the first significant digit.\<close>

fun extra_digits :: "nat \<Rightarrow> nat" where
  "extra_digits n = (if n < 10 then 0 else Suc (extra_digits (n div 10)))"

declare extra_digits.simps [simp del]

definition adjusted :: "decimal \<Rightarrow> int" where
  "adjusted x = (if 1 \<le> \<bar>x\<bar> then int (extra_digits (nat \<lfloor>\<bar>x\<bar>\<rfloor>))
     else - 1 - int (extra_digits (nat (\<lceil>1 / \<bar>x\<bar>\<rceil> - 1))))"

definition power_of_ten :: "int \<Rightarrow> decimal" where
  "power_of_ten e = (if 0 \<le> e then 10 ^ nat e else 1 / 10 ^ nat (- e))"

definition in_context :: "decimal \<Rightarrow> decimal" where
  "in_context x = (if x = 0 then 0
     else let u = power_of_ten (adjusted x - 27) in of_int (half_even (x / u)) * u)"

definition dec_add :: "decimal \<Rightarrow> decimal \<Rightarrow> decimal" where
  "dec_add a b = in_context (a + b)"

definition dec_sub :: "decimal \<Rightarrow> decimal \<Rightarrow> decimal" where
  "dec_sub a b = in_context (a - b)"

definition dec_mul :: "decimal \<Rightarrow> decimal \<Rightarrow> decimal" where
  "dec_mul a b = in_context (a * b)"

definition dec_sum :: "decimal list \<Rightarrow> decimal" where
  "dec_sum xs = foldl dec_add 0 xs"

text \<open>\<open>_quantize\<close>: a result of more than 28 digits is an \<open>InvalidOperation\<close>.\<close>

definition quantize6 :: "decimal \<Rightarrow> decimal option" where
  "quantize6 x = (let c = half_even (x * 1000000) in
     if 10 ^ 28 \<le> \<bar>c\<bar> then None else Some (of_int c / 1000000))"

section \<open>Reading a decimal\<close>

datatype dec_value = DecNumber decimal | DecInfinity bool | DecNaN

definition digit_val :: "char \<Rightarrow> int" where
  "digit_val c = int (of_char c) - 48"

definition is_digit :: "char \<Rightarrow> bool" where
  "is_digit c \<longleftrightarrow> (let n = (of_char c :: nat) in 48 \<le> n \<and> n \<le> 57)"

definition digits_val :: "string \<Rightarrow> int" where
  "digits_val s = foldl (\<lambda>a c. 10 * a + digit_val c) 0 s"

definition low :: "char \<Rightarrow> char" where
  "low c = (let n = (of_char c :: nat) in if 65 \<le> n \<and> n \<le> 90 then char_of (n + 32) else c)"

definition split_sign :: "string \<Rightarrow> int \<times> string" where
  "split_sign s = (case s of CHR ''-'' # r \<Rightarrow> (- 1, r) | CHR ''+'' # r \<Rightarrow> (1, r) | _ \<Rightarrow> (1, s))"

text \<open>The exponent, given the rest of the text behind the coefficient.\<close>

definition read_exponent :: "string \<Rightarrow> int option" where
  "read_exponent s = (case s of [] \<Rightarrow> Some 0
     | c # r \<Rightarrow> if low c \<noteq> CHR ''e'' then None
         else case split_sign r of (sg, ds) \<Rightarrow>
           if ds \<noteq> [] \<and> list_all is_digit ds then Some (sg * digits_val ds) else None)"

definition read_number :: "string \<Rightarrow> decimal option" where
  "read_number s =
     (let whole = takeWhile is_digit s; r = dropWhile is_digit s;
          dotted = (case r of CHR ''.'' # r' \<Rightarrow> (takeWhile is_digit r', dropWhile is_digit r') | _ \<Rightarrow> ([], r)) in
      if whole @ fst dotted = [] then None
      else map_option (\<lambda>e. of_int (digits_val (whole @ fst dotted)) * power_of_ten (e - int (length (fst dotted))))
        (read_exponent (snd dotted)))"

definition decimal_of_text :: "string \<Rightarrow> dec_value option" where
  "decimal_of_text t =
     (case split_sign (filter (\<lambda>c. c \<noteq> CHR ''_'') (py_strip t)) of (sg, s) \<Rightarrow>
       (let w = map low s in
        if w = ''inf'' \<or> w = ''infinity'' then Some (DecInfinity (sg = 1))
        else if (take 3 w = ''nan'' \<and> list_all is_digit (drop 3 w)) \<or>
          (take 4 w = ''snan'' \<and> list_all is_digit (drop 4 w)) then Some DecNaN
        else map_option (\<lambda>x. DecNumber (of_int sg * x)) (read_number s)))"

text \<open>\<open>Decimal(str(value))\<close> of a JSON value; \<open>float_str\<close> is Python's shortest text of a float.\<close>

fun decimal_of_json :: "(pyfloat \<Rightarrow> string) \<Rightarrow> json \<Rightarrow> dec_value option" where
  "decimal_of_json float_str (JInt n) = Some (DecNumber (of_int n))"
| "decimal_of_json float_str (JFloat x) = decimal_of_text (float_str x)"
| "decimal_of_json float_str (JStr s) = decimal_of_text s"
| "decimal_of_json float_str _ = None"

text \<open>\<open>value < bound\<close>: an ordering comparison with a NaN raises.\<close>

definition dec_below :: "dec_value \<Rightarrow> decimal \<Rightarrow> bool option" where
  "dec_below v bound = (case v of DecNumber x \<Rightarrow> Some (x < bound) | DecInfinity pos \<Rightarrow> Some (\<not> pos) | DecNaN \<Rightarrow> None)"

section \<open>Signs\<close>

lemma half_even_nonneg: "0 \<le> x \<Longrightarrow> 0 \<le> half_even x"
  by (auto simp: half_even_def Let_def)

lemma power_of_ten_pos: "0 < power_of_ten e"
  by (simp add: power_of_ten_def)

lemma in_context_nonneg: "0 \<le> x \<Longrightarrow> 0 \<le> in_context x"
  using half_even_nonneg [of "x / power_of_ten (adjusted x - 27)"] power_of_ten_pos [of "adjusted x - 27"]
  by (simp add: in_context_def Let_def)

lemma dec_add_nonneg: "0 \<le> a \<Longrightarrow> 0 \<le> b \<Longrightarrow> 0 \<le> dec_add a b"
  by (simp add: dec_add_def in_context_nonneg)

lemma dec_mul_nonneg: "0 \<le> a \<Longrightarrow> 0 \<le> b \<Longrightarrow> 0 \<le> dec_mul a b"
  by (simp add: dec_mul_def in_context_nonneg)

end
