(* ===== verification/Routing_Contracts.thy ===== *)
theory Routing_Contracts
  imports Py_Decimal Lifecycle
begin

text \<open>
  The contracts of the routing plane that a decision is made from (\<open>domain/routing.py\<close>,
  \<open>config/routing_config.py\<close>): model profiles, task signatures, policies and requests. The field
  \<open>content_hash\<close> of these contracts is always the digest of the other fields (\<open>seal_content\<close>), so the records
  leave it out and the digests are parameters.
\<close>

section \<open>Enumerations\<close>

datatype ModelProfileStatus = ProfileDraft | ProfileRegistered | ProfileVerified | ProfileDeprecated
  | ProfileRetracted

datatype CapabilityEvidenceType = ProviderSelfDescription | ProviderDocumentation | OperatorDeclaration
  | ReplayContractEvidence | DeterministicBenchmark | OptInLiveBenchmark | VerifiedTaskOutcome

datatype CapabilityDimension = AcceptedTaskRate | VerifierQuality | StructuredOutputValidity
  | ToolCallValidity | RepairCount | ProviderFailureRate | TimeoutRate | Latency | InputTokenUsage
  | OutputTokenUsage | CostUnits | ContextFit | PolicyDenialRate | SafetyFailureRate
  | CodingBenchmarkQuality | TaskSignatureCoverage

datatype CapabilitySupportStatus = Supported | Unsupported | SupportUnknown | Restricted

datatype TaskComplexityClass = ComplexTrivial | ComplexSmall | ComplexMedium | ComplexLarge
  | ComplexLongHorizon | ComplexUnknown

datatype ContextSizeClass = ContextSmall | ContextMedium | ContextLarge | ContextLong | ContextUnknown

datatype LatencyClass = LatencyLow | LatencyStandard | LatencyRelaxed | LatencyUnknown

datatype CostClass = CostLow | CostStandard | CostPremium | CostUnknown

datatype RoutingPolicyStatus = PolicyDraft | PolicyStaged | PolicyShadow | PolicyApproved | PolicyEnabled
  | PolicyDisabled | PolicyDeprecated | PolicyRetracted

datatype RoutingControlMode = ModeStatic | ModeShadow | ModeAdaptive | ModeExplicitOverride | ModeLegacyStatic

datatype MultiModelPatternType = SingleModel | PrimaryWithFallback | PlannerExecutor | GeneratorCritic
  | MultipleProposals

datatype ExecutionRole = RolePrimary | RoleFallback | RolePlanner | RoleExecutor | RoleGenerator | RoleCritic
  | RoleProposer

datatype ProviderStatus = ProviderAvailable | ProviderDegraded | ProviderDown | ProviderMisconfigured
  | ProviderUnauthenticated

definition mode_value :: "RoutingControlMode \<Rightarrow> string" where
  "mode_value m = (case m of ModeStatic \<Rightarrow> ''static'' | ModeShadow \<Rightarrow> ''shadow'' | ModeAdaptive \<Rightarrow> ''adaptive''
     | ModeExplicitOverride \<Rightarrow> ''explicit_override'' | ModeLegacyStatic \<Rightarrow> ''legacy_static'')"

definition dimension_value :: "CapabilityDimension \<Rightarrow> string" where
  "dimension_value d = (case d of AcceptedTaskRate \<Rightarrow> ''accepted_task_rate'' | VerifierQuality \<Rightarrow> ''verifier_quality''
     | StructuredOutputValidity \<Rightarrow> ''structured_output_validity'' | ToolCallValidity \<Rightarrow> ''tool_call_validity''
     | RepairCount \<Rightarrow> ''repair_count'' | ProviderFailureRate \<Rightarrow> ''provider_failure_rate''
     | TimeoutRate \<Rightarrow> ''timeout_rate'' | Latency \<Rightarrow> ''latency'' | InputTokenUsage \<Rightarrow> ''input_token_usage''
     | OutputTokenUsage \<Rightarrow> ''output_token_usage'' | CostUnits \<Rightarrow> ''cost_units'' | ContextFit \<Rightarrow> ''context_fit''
     | PolicyDenialRate \<Rightarrow> ''policy_denial_rate'' | SafetyFailureRate \<Rightarrow> ''safety_failure_rate''
     | CodingBenchmarkQuality \<Rightarrow> ''coding_benchmark_quality''
     | TaskSignatureCoverage \<Rightarrow> ''task_signature_coverage'')"

section \<open>Models and what is known of them\<close>

record ModelIdentity =
  mi_provider_id :: string
  mi_model_id :: string
  mi_model_revision :: string
  mi_endpoint_profile :: string
  mi_execution_mode :: string

record CapabilitySourceReference =
  cs_evidence_type :: CapabilityEvidenceType
  cs_source_id :: string
  cs_source_revision :: string
  cs_source_hash :: string
  cs_actor_id :: string

record DeclaredCapability =
  dc_dimension :: string
  dc_support :: CapabilitySupportStatus
  dc_value :: json
  dc_source :: CapabilitySourceReference

text \<open>\<open>DeclaredCapabilitySet\<close>: unique dimensions, kept in the order of their names.\<close>

definition declared_capability_set :: "DeclaredCapability list \<Rightarrow> DeclaredCapability list option" where
  "declared_capability_set cs =
     (if distinct (map dc_dimension cs) then Some (sort_key dc_dimension cs) else None)"

record CapabilityCohort =
  coh_task_signature_hash :: string
  coh_cohort_level :: string
  coh_parent_hash :: "string option"

record CapabilityEstimate =
  est_dimension :: CapabilityDimension
  est_sample_count :: int
  est_effective_sample_count :: int
  est_estimate :: "decimal option"
  est_lower_bound :: "decimal option"
  est_upper_bound :: "decimal option"
  est_uncertainty :: decimal
  est_missing_count :: int
  est_source_class_counts :: "(CapabilityEvidenceType, int) dict"

record CapabilityEstimateSet =
  ests_cohort :: CapabilityCohort
  ests_estimates :: "CapabilityEstimate list"
  ests_statistics_profile :: string
  ests_source_observation_ids :: "uuid list"

record TaskSignature =
  sg_problem_domain :: string
  sg_problem_class :: string
  sg_output_type :: string
  sg_repository_profile :: string
  sg_estimated_complexity :: TaskComplexityClass
  sg_required_tool_capabilities :: "string list"
  sg_required_structured_output :: bool
  sg_context_size_class :: ContextSizeClass
  sg_risk_level :: string
  sg_verifier_profile :: string
  sg_latency_class :: LatencyClass
  sg_cost_class :: CostClass
  sg_strategy_revisions :: "string list"
  sg_skill_revisions :: "string list"
  sg_execution_role :: ExecutionRole
  sg_profile_version :: string

definition canonical_tuple :: "string list \<Rightarrow> string list" where
  "canonical_tuple xs = sort (remdups xs)"

definition build_task_signature :: "TaskSignature \<Rightarrow> TaskSignature" where
  "build_task_signature s = s\<lparr>sg_required_tool_capabilities := canonical_tuple (sg_required_tool_capabilities s),
     sg_strategy_revisions := canonical_tuple (sg_strategy_revisions s),
     sg_skill_revisions := canonical_tuple (sg_skill_revisions s), sg_profile_version := ''task-signature-v1''\<rparr>"

record ModelCapabilityProfile =
  mcp_model_identity :: ModelIdentity
  mcp_profile_revision :: int
  mcp_previous_revision :: "int option"
  mcp_status :: ModelProfileStatus
  mcp_declared_capabilities :: "DeclaredCapability list"
  mcp_measured_capabilities :: "CapabilityEstimateSet option"
  mcp_supported_domains :: "string list"
  mcp_structured_output_support :: CapabilitySupportStatus
  mcp_tool_call_support :: CapabilitySupportStatus
  mcp_context_limit :: "int option"
  mcp_input_modalities :: "string list"
  mcp_output_modalities :: "string list"
  mcp_availability_reference :: "string option"
  mcp_source_refs :: "string list"
  mcp_created_at :: timestamp
  mcp_created_by :: string
  mcp_reason :: string

datatype routing_fault = BadRoutingField | InitialHasPredecessor | RevisionsNotContiguous | ApprovalMissing
  | ShadowCannotExecute | SelectionMismatch | EvidenceNotComplete | DeclarationIsNoMeasurement

definition revision_fault :: "int \<Rightarrow> int option \<Rightarrow> (bool \<times> routing_fault) list" where
  "revision_fault n previous =
     [(n \<le> 0 \<or> (case previous of None \<Rightarrow> False | Some p \<Rightarrow> p \<le> 0), BadRoutingField),
      (n = 1 \<and> previous \<noteq> None, InitialHasPredecessor),
      (1 < n \<and> previous \<noteq> Some (n - 1), RevisionsNotContiguous)]"

definition profile_error :: "ModelCapabilityProfile \<Rightarrow> routing_fault option" where
  "profile_error p = first_error
     ((\<not> list_all sha256_hex (mcp_source_refs p) \<or> mcp_source_refs p = [] \<or> \<not> non_empty_str (mcp_created_by p) \<or>
       \<not> non_empty_str (mcp_reason p) \<or> (case mcp_context_limit p of None \<Rightarrow> False | Some n \<Rightarrow> n \<le> 0) \<or>
       \<not> list_all non_empty_str (mcp_supported_domains p @ mcp_input_modalities p @ mcp_output_modalities p),
       BadRoutingField) # revision_fault (mcp_profile_revision p) (mcp_previous_revision p))"

section \<open>Requests\<close>

record ModelCapabilityRequirement =
  mcr_dimension :: string
  mcr_hard :: bool
  mcr_minimum_value :: "decimal option"
  mcr_required_support :: "CapabilitySupportStatus option"

record ProviderPolicyConstraint =
  pc_allowed_provider_ids :: "string list"
  pc_denied_provider_ids :: "string list"
  pc_require_healthy :: bool

record ContextRequirement =
  cx_estimated_tokens :: int
  cx_reserved_output_tokens :: int
  cx_required_modalities :: "string list"

record RoutingBudget =
  rb_maximum_calls :: int
  rb_maximum_tokens :: int
  rb_maximum_tool_calls :: int
  rb_maximum_seconds :: decimal
  rb_maximum_cost_units :: "decimal option"

definition routing_budget_ok :: "RoutingBudget \<Rightarrow> bool" where
  "routing_budget_ok b \<longleftrightarrow> 1 \<le> rb_maximum_calls b \<and> rb_maximum_calls b \<le> 8 \<and> 1 \<le> rb_maximum_tokens b \<and>
     0 \<le> rb_maximum_tool_calls b \<and> 0 < rb_maximum_seconds b \<and>
     (case rb_maximum_cost_units b of None \<Rightarrow> True | Some c \<Rightarrow> 0 \<le> c)"

record OperatorRoutingRestriction =
  orr_preferred_model_hashes :: "string list"
  orr_allowed_model_hashes :: "string list"
  orr_denied_model_hashes :: "string list"
  orr_actor_id :: string
  orr_reason :: string

record ProviderHealthSnapshot =
  ph_provider_id :: string
  ph_status :: ProviderStatus
  ph_checked_at :: timestamp

record RoutingRequest =
  rrq_routing_request_id :: uuid
  rrq_task_run_id :: uuid
  rrq_step_id :: string
  rrq_task_signature :: TaskSignature
  rrq_execution_role :: ExecutionRole
  rrq_capability_requirements :: "ModelCapabilityRequirement list"
  rrq_provider_constraints :: ProviderPolicyConstraint
  rrq_context_requirement :: ContextRequirement
  rrq_budget :: RoutingBudget
  rrq_policy_id :: string
  rrq_policy_revision :: int
  rrq_provider_registry_snapshot :: "ProviderHealthSnapshot list"
  rrq_operator_restriction :: "OperatorRoutingRestriction option"
  rrq_strategy_references :: "string list"
  rrq_skill_references :: "string list"
  rrq_requested_by :: string
  rrq_created_at :: timestamp

section \<open>Policies\<close>

record RoutingPolicyRevision =
  rp_policy_id :: string
  rp_revision :: int
  rp_previous_revision :: "int option"
  rp_status :: RoutingPolicyStatus
  rp_control_mode :: RoutingControlMode
  rp_candidate_filters :: "ModelCapabilityRequirement list"
  rp_minimum_samples :: int
  rp_score_weights :: "(string, decimal) dict"
  rp_uncertainty_penalty :: decimal
  rp_maximum_fallback_models :: int
  rp_role_patterns :: "MultiModelPatternType list"
  rp_risk_constraints :: "string list"
  rp_budget_constraints :: RoutingBudget
  rp_allowed_task_signature_hashes :: "string list"
  rp_operator_approval_reference :: "string option"
  rp_created_at :: timestamp
  rp_created_by :: string
  rp_reason :: string

definition routing_policy_error :: "RoutingPolicyRevision \<Rightarrow> routing_fault option" where
  "routing_policy_error p = first_error
     ((\<not> non_empty_str (rp_policy_id p) \<or> rp_minimum_samples p < 0 \<or> rp_uncertainty_penalty p < 0 \<or>
       rp_maximum_fallback_models p < 0 \<or> 8 < rp_maximum_fallback_models p \<or>
       \<not> list_all non_empty_str (map fst (rp_score_weights p)) \<or> \<not> list_all non_empty_str (rp_risk_constraints p) \<or>
       \<not> routing_budget_ok (rp_budget_constraints p) \<or>
       \<not> list_all sha256_hex (rp_allowed_task_signature_hashes p) \<or>
       \<not> opt_non_empty (rp_operator_approval_reference p) \<or> \<not> non_empty_str (rp_created_by p) \<or>
       \<not> non_empty_str (rp_reason p), BadRoutingField) #
      revision_fault (rp_revision p) (rp_previous_revision p) @
      [(rp_control_mode p = ModeAdaptive \<and> (rp_status p = PolicyApproved \<or> rp_status p = PolicyEnabled) \<and>
        \<not> str_truthy (rp_operator_approval_reference p), ApprovalMissing),
       (rp_status p = PolicyEnabled \<and> rp_control_mode p = ModeShadow, ShadowCannotExecute)])"

text \<open>A valid policy keeps its weights in the order of their names.\<close>

definition policy_ok :: "RoutingPolicyRevision \<Rightarrow> bool" where
  "policy_ok p \<longleftrightarrow> routing_policy_error p = None \<and> distinct (map fst (rp_score_weights p)) \<and>
     sorted (map fst (rp_score_weights p))"

section \<open>Configuration\<close>

text \<open>The fields the routing service reads; the three rates are the decimals of their texts.\<close>

record RoutingConfiguration =
  rk_maximum_models :: int
  rk_maximum_candidate_models :: int
  rk_maximum_observations_per_import :: int
  rk_maximum_fallback_depth :: int
  rk_minimum_measured_samples :: int
  rk_minimum_adaptive_samples :: int
  rk_minimum_shadow_cases :: int
  rk_minimum_required_quality_improvement :: decimal
  rk_maximum_allowed_safety_regression :: decimal
  rk_maximum_allowed_policy_regression :: decimal
  rk_adaptive_execution_enabled :: bool
  rk_shadow_execution_enabled :: bool
  rk_exploration_enabled :: bool
  rk_learned_routing_enabled :: bool
  rk_allow_provider_self_reported_measurements :: bool
  rk_allow_automatic_policy_promotion :: bool
  rk_allow_automatic_provider_enablement :: bool
  rk_allow_credential_storage :: bool
  rk_allow_external_routing_runtime :: bool
  rk_allow_unbounded_multi_model_patterns :: bool

text \<open>\<open>reject_forbidden_authority\<close>: no authority flag may be set, nor adaptive execution.\<close>

definition forbidden_authority :: "RoutingConfiguration \<Rightarrow> bool" where
  "forbidden_authority k \<longleftrightarrow> rk_shadow_execution_enabled k \<or> rk_exploration_enabled k \<or>
     rk_learned_routing_enabled k \<or> rk_allow_provider_self_reported_measurements k \<or>
     rk_allow_automatic_policy_promotion k \<or> rk_allow_automatic_provider_enablement k \<or>
     rk_allow_credential_storage k \<or> rk_allow_external_routing_runtime k \<or>
     rk_allow_unbounded_multi_model_patterns k"

definition routing_config_ok :: "RoutingConfiguration \<Rightarrow> bool" where
  "routing_config_ok k \<longleftrightarrow> 1 \<le> rk_maximum_models k \<and> rk_maximum_models k \<le> 256 \<and>
     1 \<le> rk_maximum_candidate_models k \<and> rk_maximum_candidate_models k \<le> 32 \<and>
     1 \<le> rk_maximum_observations_per_import k \<and> rk_maximum_observations_per_import k \<le> 10000 \<and>
     0 \<le> rk_maximum_fallback_depth k \<and> rk_maximum_fallback_depth k \<le> 4 \<and> 1 \<le> rk_minimum_measured_samples k \<and>
     1 \<le> rk_minimum_adaptive_samples k \<and> 1 \<le> rk_minimum_shadow_cases k \<and>
     (\<forall>x \<in> {rk_minimum_required_quality_improvement k, rk_maximum_allowed_safety_regression k,
       rk_maximum_allowed_policy_regression k}. 0 \<le> x \<and> x \<le> 1) \<and>
     \<not> forbidden_authority k \<and> \<not> rk_adaptive_execution_enabled k"

end
