(* ===== verification/Routing_Records.thy ===== *)
theory Routing_Records
  imports Routing_Contracts
begin

text \<open>
  The contracts the routing plane produces (\<open>domain/routing.py\<close>) and the append-only repository that keeps
  them (\<open>routing/repository.py\<close>).
\<close>

section \<open>Decisions\<close>

datatype RoutingDecisionStatus = DecisionSelected | DecisionNoEligibleModel | DecisionBlocked

datatype RoutingExclusionReason = ExProviderDisabled | ExProviderUnhealthy | ExModelNotConfigured
  | ExContextLimit | ExStructuredOutput | ExToolCalling | ExModality | ExRisk | ExProviderPolicy
  | ExExecutionMode | ExSafety | ExCost | ExPolicyStatus

definition exclusion_value :: "RoutingExclusionReason \<Rightarrow> string" where
  "exclusion_value r = (case r of ExProviderDisabled \<Rightarrow> ''provider_disabled''
     | ExProviderUnhealthy \<Rightarrow> ''provider_unhealthy'' | ExModelNotConfigured \<Rightarrow> ''model_not_configured''
     | ExContextLimit \<Rightarrow> ''context_limit'' | ExStructuredOutput \<Rightarrow> ''structured_output''
     | ExToolCalling \<Rightarrow> ''tool_calling'' | ExModality \<Rightarrow> ''modality'' | ExRisk \<Rightarrow> ''risk''
     | ExProviderPolicy \<Rightarrow> ''provider_policy'' | ExExecutionMode \<Rightarrow> ''execution_mode'' | ExSafety \<Rightarrow> ''safety''
     | ExCost \<Rightarrow> ''cost'' | ExPolicyStatus \<Rightarrow> ''policy_status'')"

datatype RoutingFallbackReason = FbProviderUnavailable | FbTimeoutBeforeSideEffect
  | FbTimeoutAfterUncertainSideEffect | FbRateLimited | FbInvalidResponse | FbStructuredOutputFailure
  | FbToolCallFailure | FbContextLimitFailure | FbPolicyDenial | FbSafetyDenial | FbUnknown

definition fallback_reasons :: "RoutingFallbackReason list" where
  "fallback_reasons = [FbProviderUnavailable, FbTimeoutBeforeSideEffect, FbTimeoutAfterUncertainSideEffect,
     FbRateLimited, FbInvalidResponse, FbStructuredOutputFailure, FbToolCallFailure, FbContextLimitFailure,
     FbPolicyDenial, FbSafetyDenial, FbUnknown]"

definition fallback_value :: "RoutingFallbackReason \<Rightarrow> string" where
  "fallback_value r = (case r of FbProviderUnavailable \<Rightarrow> ''provider_unavailable''
     | FbTimeoutBeforeSideEffect \<Rightarrow> ''timeout_before_side_effect''
     | FbTimeoutAfterUncertainSideEffect \<Rightarrow> ''timeout_after_uncertain_side_effect''
     | FbRateLimited \<Rightarrow> ''rate_limited'' | FbInvalidResponse \<Rightarrow> ''invalid_response''
     | FbStructuredOutputFailure \<Rightarrow> ''structured_output_failure'' | FbToolCallFailure \<Rightarrow> ''tool_call_failure''
     | FbContextLimitFailure \<Rightarrow> ''context_limit_failure'' | FbPolicyDenial \<Rightarrow> ''policy_denial''
     | FbSafetyDenial \<Rightarrow> ''safety_denial'' | FbUnknown \<Rightarrow> ''unknown'')"

definition classify_failure :: "string \<Rightarrow> RoutingFallbackReason" where
  "classify_failure code = (case dict_get (map (\<lambda>r. (fallback_value r, r)) fallback_reasons) code of
     None \<Rightarrow> FbUnknown | Some r \<Rightarrow> r)"

definition fallback_allowed :: "RoutingFallbackReason \<Rightarrow> bool" where
  "fallback_allowed r \<longleftrightarrow>
     r \<notin> {FbTimeoutAfterUncertainSideEffect, FbPolicyDenial, FbSafetyDenial, FbUnknown}"

record RoutingExclusion =
  rx_model_identity_hash :: string
  rx_reason :: RoutingExclusionReason
  rx_detail :: string

record RoutingCandidateScore =
  rcs_model_identity_hash :: string
  rcs_eligible :: bool
  rcs_static_priority :: int
  rcs_dimensions :: "(string, decimal) dict"
  rcs_uncertainty :: decimal
  rcs_total :: decimal
  rcs_source_statistics_hash :: "string option"
  rcs_source_cohort_level :: "string option"

record RoutingFallbackEntry =
  rfe_position :: int
  rfe_model_identity_hash :: string
  rfe_reason :: RoutingFallbackReason

record RoutingRoleAssignment =
  rra_role :: ExecutionRole
  rra_model_identity_hash :: string
  rra_routing_decision_id :: uuid

record RoutingStatisticsSnapshot =
  rss_statistic_hashes :: "string list"
  rss_profile_version :: string

record RoutingDecision =
  rd_decision_id :: uuid
  rd_previous_decision_id :: "uuid option"
  rd_routing_request_id :: uuid
  rd_task_run_id :: uuid
  rd_task_signature :: TaskSignature
  rd_policy_id :: string
  rd_policy_revision :: int
  rd_control_mode :: RoutingControlMode
  rd_status :: RoutingDecisionStatus
  rd_candidate_models :: "string list"
  rd_candidate_scores :: "RoutingCandidateScore list"
  rd_exclusions :: "RoutingExclusion list"
  rd_selected_model :: "ModelIdentity option"
  rd_selected_role_pattern :: MultiModelPatternType
  rd_role_assignments :: "RoutingRoleAssignment list"
  rd_fallback_order :: "RoutingFallbackEntry list"
  rd_static_decision_reference :: "uuid option"
  rd_shadow_decision_reference :: "uuid option"
  rd_reason :: string
  rd_provider_registry_snapshot :: "ProviderHealthSnapshot list"
  rd_capability_registry_snapshot :: "string list"
  rd_statistics_snapshot :: RoutingStatisticsSnapshot
  rd_created_at :: timestamp

text \<open>At most 256 profiles in the snapshot; a model is selected exactly in the status \<open>SELECTED\<close>.\<close>

definition decision_error :: "RoutingDecision \<Rightarrow> routing_fault option" where
  "decision_error d = first_error
     [(256 < length (rd_capability_registry_snapshot d), BadRoutingField),
      ((rd_status d = DecisionSelected) \<noteq> (rd_selected_model d \<noteq> None), SelectionMismatch)]"

section \<open>Outcomes, observations and statistics\<close>

datatype RoutingOutcomeStatus = OutcomeAccepted | OutcomeRejected | OutcomeFailed | OutcomeCancelled
  | OutcomeUnverifiable

datatype RoutingObservationStatus = ObservedAccepted | ObservedRejected | ObservedUnverifiable

record RoutingOutcome =
  ro_outcome_id :: uuid
  ro_decision_id :: uuid
  ro_task_run_id :: uuid
  ro_provider_request_reference :: string
  ro_provider_result_reference :: "string option"
  ro_context_bundle_reference :: string
  ro_tool_result_references :: "string list"
  ro_verifier_bundle_reference :: "string option"
  ro_acceptance_decision_reference :: "string option"
  ro_status :: RoutingOutcomeStatus
  ro_latency_ms :: "decimal option"
  ro_token_usage :: "TokenUsage option"
  ro_cost_units :: "decimal option"
  ro_repair_count :: int
  ro_fallback_used :: bool
  ro_safety_result :: string
  ro_created_at :: timestamp

definition outcome_error :: "RoutingOutcome \<Rightarrow> routing_fault option" where
  "outcome_error r = first_error
     [(\<not> non_empty_str (ro_provider_request_reference r) \<or> \<not> opt_non_empty (ro_provider_result_reference r) \<or>
       \<not> non_empty_str (ro_context_bundle_reference r) \<or> \<not> list_all non_empty_str (ro_tool_result_references r) \<or>
       \<not> opt_non_empty (ro_verifier_bundle_reference r) \<or> \<not> opt_non_empty (ro_acceptance_decision_reference r) \<or>
       (case ro_latency_ms r of None \<Rightarrow> False | Some x \<Rightarrow> x < 0) \<or>
       (case ro_cost_units r of None \<Rightarrow> False | Some x \<Rightarrow> x < 0) \<or> ro_repair_count r < 0 \<or>
       \<not> non_empty_str (ro_safety_result r), BadRoutingField),
      (ro_status r = OutcomeAccepted \<and> (\<not> str_truthy (ro_provider_result_reference r) \<or>
       \<not> str_truthy (ro_verifier_bundle_reference r) \<or> \<not> str_truthy (ro_acceptance_decision_reference r)),
       EvidenceNotComplete)]"

record RoutingObservation =
  rob_observation_id :: uuid
  rob_model_identity :: ModelIdentity
  rob_task_signature :: TaskSignature
  rob_routing_policy_reference :: string
  rob_execution_role :: ExecutionRole
  rob_provider_call_reference :: string
  rob_context_bundle_reference :: string
  rob_skill_revision :: "string option"
  rob_strategy_revision :: "string option"
  rob_verifier_bundle_reference :: string
  rob_acceptance_decision_reference :: string
  rob_status :: RoutingObservationStatus
  rob_latency_ms :: "decimal option"
  rob_token_usage :: "TokenUsage option"
  rob_cost_units :: "decimal option"
  rob_structured_output_valid :: "bool option"
  rob_tool_calls_valid :: "bool option"
  rob_safety_passed :: "bool option"
  rob_source_refs :: "string list"
  rob_evidence_type :: CapabilityEvidenceType
  rob_created_at :: timestamp

definition provider_declared :: "CapabilityEvidenceType \<Rightarrow> bool" where
  "provider_declared e \<longleftrightarrow> e \<in> {ProviderSelfDescription, ProviderDocumentation}"

definition observation_error :: "RoutingObservation \<Rightarrow> routing_fault option" where
  "observation_error r = first_error
     [(\<not> non_empty_str (rob_routing_policy_reference r) \<or> \<not> non_empty_str (rob_provider_call_reference r) \<or>
       \<not> non_empty_str (rob_context_bundle_reference r) \<or> \<not> opt_non_empty (rob_skill_revision r) \<or>
       \<not> opt_non_empty (rob_strategy_revision r) \<or> \<not> non_empty_str (rob_verifier_bundle_reference r) \<or>
       \<not> non_empty_str (rob_acceptance_decision_reference r) \<or>
       (case rob_latency_ms r of None \<Rightarrow> False | Some x \<Rightarrow> x < 0) \<or>
       (case rob_cost_units r of None \<Rightarrow> False | Some x \<Rightarrow> x < 0) \<or> rob_source_refs r = [] \<or>
       \<not> list_all sha256_hex (rob_source_refs r), BadRoutingField),
      (provider_declared (rob_evidence_type r) \<and> rob_status r = ObservedAccepted, DeclarationIsNoMeasurement)]"

record RoutingStatistics =
  rst_statistics_id :: uuid
  rst_model_identity_hash :: string
  rst_cohort :: CapabilityCohort
  rst_estimates :: CapabilityEstimateSet
  rst_source_observation_ids :: "uuid list"
  rst_rebuilt_at :: timestamp

section \<open>Experiments, promotion and access\<close>

datatype RoutingExperimentStatus = ExperimentDraft | ExperimentRunning | ExperimentCompleted
  | ExperimentFailed | ExperimentCancelled

record RoutingExperimentCase =
  rec_case_id :: string
  rec_routing_request :: RoutingRequest
  rec_expected_static_model_hash :: "string option"

record RoutingExperiment =
  rxp_experiment_id :: uuid
  rxp_static_policy_reference :: string
  rxp_shadow_policy_reference :: string
  rxp_cases :: "RoutingExperimentCase list"
  rxp_status :: RoutingExperimentStatus
  rxp_created_at :: timestamp

record ShadowRoutingResult =
  srr_static_decision_id :: uuid
  srr_shadow_decision_id :: uuid
  srr_static_model_hash :: "string option"
  srr_shadow_model_hash :: "string option"
  srr_expected_score_delta :: "decimal option"
  srr_executed_outcome_id :: "uuid option"

record RoutingExperimentResult =
  rer_experiment_id :: uuid
  rer_results :: "ShadowRoutingResult list"
  rer_agreement_rate :: decimal
  rer_completed_at :: timestamp

record RoutingPromotionAssessment =
  rpa_assessment_id :: uuid
  rpa_policy_id :: string
  rpa_policy_revision :: int
  rpa_eligible_for_approval :: bool
  rpa_reasons :: "string list"
  rpa_sample_count :: int
  rpa_shadow_case_count :: int
  rpa_quality_improvement :: decimal
  rpa_safety_regression :: decimal
  rpa_policy_regression :: decimal
  rpa_fallback_validated :: bool
  rpa_replay_validated :: bool
  rpa_operator_approval_reference :: "string option"
  rpa_assessed_at :: timestamp

datatype RoutingAccessType = AccessProfileLookup | AccessObservationIngestion | AccessStatisticsRead
  | AccessPolicyLookup | AccessRoutingDecision | AccessShadowDecision | AccessExperimentRead
  | AccessPromotionAssessment | AccessOutcomeRead

record RoutingAccessRecord =
  rac_access_id :: uuid
  rac_access_type :: RoutingAccessType
  rac_actor_id :: string
  rac_model_identity_hash :: "string option"
  rac_policy_id :: "string option"
  rac_policy_revision :: "int option"
  rac_decision_id :: "uuid option"
  rac_accessed_at :: timestamp
  rac_reason :: string

section \<open>The repository\<close>

record routing_repo =
  rr_profiles :: "(string \<times> int, ModelCapabilityProfile) dict"
  rr_policies :: "(string \<times> int, RoutingPolicyRevision) dict"
  rr_observations :: "(uuid, RoutingObservation) dict"
  rr_decisions :: "(uuid, RoutingDecision) dict"
  rr_outcomes :: "(uuid, RoutingOutcome) dict"
  rr_statistics :: "(uuid, RoutingStatistics) dict"
  rr_experiments :: "(uuid, RoutingExperiment) dict"
  rr_accesses :: "(uuid, RoutingAccessRecord) dict"

datatype routing_conflict = ProfileRevisionChanged | ProfilePredecessorUnavailable | PolicyRevisionChanged
  | PolicyPredecessorUnavailable | UnknownRoutingDecision | ImmutableRecordChanged

definition empty_routing :: routing_repo where
  "empty_routing = \<lparr>rr_profiles = [], rr_policies = [], rr_observations = [], rr_decisions = [],
     rr_outcomes = [], rr_statistics = [], rr_experiments = [], rr_accesses = []\<rparr>"

text \<open>\<open>_immutable\<close>: a key is written once; writing the same record again is no change.\<close>

definition immutable_set :: "('k, 'v) dict \<Rightarrow> 'k \<Rightarrow> 'v \<Rightarrow> routing_conflict + ('k, 'v) dict" where
  "immutable_set d k v = (case dict_get d k of
     Some w \<Rightarrow> if w \<noteq> v then Inl ImmutableRecordChanged else Inr (dict_set d k v)
   | None \<Rightarrow> Inr (dict_set d k v))"

text \<open>A revision of a named thing: unchanged if known, and its predecessor must be known.\<close>

definition revision_set ::
  "routing_conflict \<Rightarrow> routing_conflict \<Rightarrow> (string \<times> int, 'v) dict \<Rightarrow> string \<Rightarrow> int \<Rightarrow> 'v \<Rightarrow>
   routing_conflict + (string \<times> int, 'v) dict" where
  "revision_set changed missing d name n v =
     (if (case dict_get d (name, n) of None \<Rightarrow> False | Some w \<Rightarrow> w \<noteq> v) then Inl changed
      else if 1 < n \<and> dict_get d (name, n - 1) = None then Inl missing
      else Inr (dict_set d (name, n) v))"

definition repo_register_profile ::
  "(ModelIdentity \<Rightarrow> string) \<Rightarrow> ModelCapabilityProfile \<Rightarrow> routing_repo \<Rightarrow> routing_conflict + routing_repo" where
  "repo_register_profile ident p r =
     bind_res (revision_set ProfileRevisionChanged ProfilePredecessorUnavailable (rr_profiles r)
       (ident (mcp_model_identity p)) (mcp_profile_revision p) p) (\<lambda>d. Inr (r\<lparr>rr_profiles := d\<rparr>))"

definition repo_create_policy :: "RoutingPolicyRevision \<Rightarrow> routing_repo \<Rightarrow> routing_conflict + routing_repo" where
  "repo_create_policy p r =
     bind_res (revision_set PolicyRevisionChanged PolicyPredecessorUnavailable (rr_policies r)
       (rp_policy_id p) (rp_revision p) p) (\<lambda>d. Inr (r\<lparr>rr_policies := d\<rparr>))"

text \<open>\<open>max(..., key=revision, default=None)\<close>: the first of the greatest.\<close>

fun latest_of :: "('v \<Rightarrow> int) \<Rightarrow> 'v list \<Rightarrow> 'v option" where
  "latest_of rev_of [] = None"
| "latest_of rev_of (v # vs) = (case latest_of rev_of vs of None \<Rightarrow> Some v
     | Some w \<Rightarrow> if rev_of v < rev_of w then Some w else Some v)"

definition repo_get_profile :: "routing_repo \<Rightarrow> string \<Rightarrow> int option \<Rightarrow> ModelCapabilityProfile option" where
  "repo_get_profile r h revision = (case revision of Some n \<Rightarrow> dict_get (rr_profiles r) (h, n)
     | None \<Rightarrow> latest_of mcp_profile_revision (map snd (filter (\<lambda>((i, _), _). i = h) (rr_profiles r))))"

definition repo_get_policy :: "routing_repo \<Rightarrow> string \<Rightarrow> int option \<Rightarrow> RoutingPolicyRevision option" where
  "repo_get_policy r i revision = (case revision of Some n \<Rightarrow> dict_get (rr_policies r) (i, n)
     | None \<Rightarrow> latest_of rp_revision (map snd (filter (\<lambda>((j, _), _). j = i) (rr_policies r))))"

text \<open>The newest revision of every model, in the order of the identity hashes.\<close>

definition keep_newest ::
  "(string, ModelCapabilityProfile) dict \<Rightarrow> (string \<times> int) \<times> ModelCapabilityProfile \<Rightarrow>
   (string, ModelCapabilityProfile) dict" where
  "keep_newest d e = (case e of ((i, _), p) \<Rightarrow>
     (case dict_get d i of None \<Rightarrow> dict_set d i p
      | Some q \<Rightarrow> if mcp_profile_revision q < mcp_profile_revision p then dict_set d i p else d))"

definition repo_query_profiles ::
  "(ModelIdentity \<Rightarrow> string) \<Rightarrow> routing_repo \<Rightarrow> int \<Rightarrow> ModelCapabilityProfile list" where
  "repo_query_profiles ident r limit = py_take limit (sort_key (\<lambda>p. ident (mcp_model_identity p))
     (map snd (foldl keep_newest [] (rr_profiles r))))"

definition repo_record_observation :: "RoutingObservation \<Rightarrow> routing_repo \<Rightarrow> routing_conflict + routing_repo" where
  "repo_record_observation x r = bind_res (immutable_set (rr_observations r) (rob_observation_id x) x)
     (\<lambda>d. Inr (r\<lparr>rr_observations := d\<rparr>))"

definition repo_list_observations :: "routing_repo \<Rightarrow> int \<Rightarrow> RoutingObservation list" where
  "repo_list_observations r limit =
     py_take limit (sort_key (\<lambda>x. uuid_str (rob_observation_id x)) (map snd (rr_observations r)))"

definition repo_record_decision :: "RoutingDecision \<Rightarrow> routing_repo \<Rightarrow> routing_conflict + routing_repo" where
  "repo_record_decision x r = bind_res (immutable_set (rr_decisions r) (rd_decision_id x) x)
     (\<lambda>d. Inr (r\<lparr>rr_decisions := d\<rparr>))"

definition repo_record_outcome :: "RoutingOutcome \<Rightarrow> routing_repo \<Rightarrow> routing_conflict + routing_repo" where
  "repo_record_outcome x r = (if dict_get (rr_decisions r) (ro_decision_id x) = None then Inl UnknownRoutingDecision
     else bind_res (immutable_set (rr_outcomes r) (ro_outcome_id x) x) (\<lambda>d. Inr (r\<lparr>rr_outcomes := d\<rparr>)))"

definition repo_record_statistics :: "RoutingStatistics \<Rightarrow> routing_repo \<Rightarrow> routing_conflict + routing_repo" where
  "repo_record_statistics x r = bind_res (immutable_set (rr_statistics r) (rst_statistics_id x) x)
     (\<lambda>d. Inr (r\<lparr>rr_statistics := d\<rparr>))"

definition repo_list_statistics :: "routing_repo \<Rightarrow> int \<Rightarrow> RoutingStatistics list" where
  "repo_list_statistics r limit =
     py_take limit (sort_key (\<lambda>x. uuid_str (rst_statistics_id x)) (map snd (rr_statistics r)))"

definition repo_record_experiment :: "RoutingExperiment \<Rightarrow> routing_repo \<Rightarrow> routing_conflict + routing_repo" where
  "repo_record_experiment x r = bind_res (immutable_set (rr_experiments r) (rxp_experiment_id x) x)
     (\<lambda>d. Inr (r\<lparr>rr_experiments := d\<rparr>))"

definition repo_record_access :: "RoutingAccessRecord \<Rightarrow> routing_repo \<Rightarrow> routing_conflict + routing_repo" where
  "repo_record_access x r = bind_res (immutable_set (rr_accesses r) (rac_access_id x) x)
     (\<lambda>d. Inr (r\<lparr>rr_accesses := d\<rparr>))"

end
