(* ===== verification/Routing_Service.thy ===== *)
theory Routing_Service
  imports Routing_Records Run_Monad
begin

text \<open>
  The routing service (\<open>routing/service.py\<close>) over the in-memory repository: hard filters, static and adaptive
  scores, decisions, fallbacks, policies and budgets.

  Parameters: the digests of the hashed contracts, \<open>sha256\<close>, \<open>uuid5\<close> in the URL name space, and Python's
  text of a float.
\<close>

record routing_env =
  rt_identity_hash :: "ModelIdentity \<Rightarrow> string"
  rt_profile_hash :: "ModelCapabilityProfile \<Rightarrow> string"
  rt_signature_hash :: "TaskSignature \<Rightarrow> string"
  rt_unskilled_json :: "TaskSignature \<Rightarrow> string"
  rt_cohort_hash :: "CapabilityCohort \<Rightarrow> string"
  rt_statistics_hash :: "RoutingStatistics \<Rightarrow> string"
  rt_policy_hash :: "RoutingPolicyRevision \<Rightarrow> string"
  rt_request_hash :: "RoutingRequest \<Rightarrow> string"
  rt_decision_hash :: "RoutingDecision \<Rightarrow> string"
  rt_outcome_hash :: "RoutingOutcome \<Rightarrow> string"
  rt_experiment_hash :: "RoutingExperimentResult \<Rightarrow> string"
  rt_sha256 :: "string \<Rightarrow> string"
  rt_uuid5 :: "string \<Rightarrow> uuid"
  rt_float_str :: "pyfloat \<Rightarrow> string"
  rt_config :: RoutingConfiguration

datatype policy_refusal = InactiveProfile | NotExactPolicy | NotStaticPolicy | StaticNotEnabled
  | NotPersistedRevision | NotStaticRequest | NotShadowPolicy | NotInShadowState | OverrideNotTrusted
  | OverrideFiltered | NotEnabledAdaptive | OutsideAdaptiveScope | FallbackDepth | FallbackForbidden
  | NoFallback | NoFallbackEligible | ContextFits | DeclaredEvidence | NotExactDecision | GateNotPassed
  | NotAdaptive | RolesExceedBudget | RolesDoNotMatch | TooManyCohorts

datatype routing_error = RtConflict routing_conflict | RtPolicy policy_refusal | RtInvalid routing_fault
  | RtDecimal | RtKey

type_synonym 'a routing = "(routing_repo, routing_error, 'a) comp"

definition on_routing :: "(routing_repo \<Rightarrow> routing_conflict + routing_repo) \<Rightarrow> unit routing" where
  "on_routing f = (\<lambda>r. case f r of Inl e \<Rightarrow> (r, Inl (RtConflict e)) | Inr r' \<Rightarrow> (r', Inr ()))"

definition refuse_if :: "bool \<Rightarrow> policy_refusal \<Rightarrow> unit routing" where
  "refuse_if c e = (if c then throw (RtPolicy e) else ret ())"

definition identity_of :: "routing_env \<Rightarrow> ModelCapabilityProfile \<Rightarrow> string" where
  "identity_of env p = rt_identity_hash env (mcp_model_identity p)"

section \<open>Budgets\<close>

definition intersect_budgets :: "RoutingBudget list \<Rightarrow> RoutingBudget" where
  "intersect_budgets bs =
     (let costs = concat (map (\<lambda>b. case rb_maximum_cost_units b of None \<Rightarrow> [] | Some c \<Rightarrow> [c]) bs) in
      \<lparr>rb_maximum_calls = Min (set (map rb_maximum_calls bs)),
       rb_maximum_tokens = Min (set (map rb_maximum_tokens bs)),
       rb_maximum_tool_calls = Min (set (map rb_maximum_tool_calls bs)),
       rb_maximum_seconds = Min (set (map rb_maximum_seconds bs)),
       rb_maximum_cost_units = (if costs = [] then None else Some (Min (set costs)))\<rparr>)"

section \<open>Hard filters\<close>

type_synonym exclusion_pair = "RoutingExclusionReason \<times> string"

definition collect :: "(bool \<times> exclusion_pair) list \<Rightarrow> exclusion_pair list" where
  "collect cs = map snd (filter fst cs)"

definition provider_reasons ::
  "routing_env \<Rightarrow> ModelCapabilityProfile \<Rightarrow> RoutingRequest \<Rightarrow> ProviderHealthSnapshot option \<Rightarrow>
   (bool \<times> exclusion_pair) list" where
  "provider_reasons env p q health =
     (let h = identity_of env p; i = mi_provider_id (mcp_model_identity p); c = rrq_provider_constraints q in
      [(mcp_status p \<notin> {ProfileRegistered, ProfileVerified}, (ExModelNotConfigured, ''profile is inactive'')),
       (pc_allowed_provider_ids c \<noteq> [] \<and> i \<notin> set (pc_allowed_provider_ids c),
        (ExProviderPolicy, ''provider is outside allowlist'')),
       (i \<in> set (pc_denied_provider_ids c), (ExProviderPolicy, ''provider is denied''))] @
      (case rrq_operator_restriction q of None \<Rightarrow> []
       | Some x \<Rightarrow>
          [(orr_allowed_model_hashes x \<noteq> [] \<and> h \<notin> set (orr_allowed_model_hashes x),
            (ExProviderPolicy, ''model is outside allowlist'')),
           (h \<in> set (orr_denied_model_hashes x), (ExProviderPolicy, ''model is operator-denied''))]) @
      (case health of None \<Rightarrow> [(True, (ExProviderDisabled, ''provider is not registered''))]
       | Some s \<Rightarrow> [(pc_require_healthy c \<and> ph_status s \<noteq> ProviderAvailable,
            (ExProviderUnhealthy, ''provider is not healthy''))]))"

definition fit_reasons ::
  "ModelCapabilityProfile \<Rightarrow> RoutingRequest \<Rightarrow> RoutingPolicyRevision \<Rightarrow> (bool \<times> exclusion_pair) list" where
  "fit_reasons p q policy =
     (let x = rrq_context_requirement q; t = rrq_task_signature q;
          required = cx_estimated_tokens x + cx_reserved_output_tokens x in
      [(case mcp_context_limit p of None \<Rightarrow> True | Some n \<Rightarrow> n < required,
        (ExContextLimit, ''model Context limit is insufficient'')),
       (sg_required_structured_output t \<and> mcp_structured_output_support p \<noteq> Supported,
        (ExStructuredOutput, ''structured output is unsupported'')),
       (sg_required_tool_capabilities t \<noteq> [] \<and> mcp_tool_call_support p \<noteq> Supported,
        (ExToolCalling, ''tool calling is unsupported'')),
       (\<not> list_all (\<lambda>m. m \<in> set (mcp_input_modalities p)) (cx_required_modalities x),
        (ExModality, ''required input modality is unsupported'')),
       (mcp_supported_domains p \<noteq> [] \<and> sg_problem_domain t \<notin> set (mcp_supported_domains p),
        (ExRisk, ''task domain is unsupported'')),
       (rp_risk_constraints policy \<noteq> [] \<and> sg_risk_level t \<notin> set (rp_risk_constraints policy),
        (ExRisk, ''task risk is outside policy scope''))])"

definition declared_by :: "ModelCapabilityProfile \<Rightarrow> (string, DeclaredCapability) dict" where
  "declared_by p = foldl (\<lambda>d c. dict_set d (dc_dimension c) c) [] (mcp_declared_capabilities p)"

definition minimum_reasons ::
  "routing_env \<Rightarrow> string \<Rightarrow> json \<Rightarrow> decimal \<Rightarrow> routing_error + exclusion_pair list" where
  "minimum_reasons env dimension value bound = (case decimal_of_json (rt_float_str env) value of
     None \<Rightarrow> Inr [(ExModelNotConfigured, ''required capability '' @ dimension @ '' is not measurable'')]
   | Some v \<Rightarrow> (case dec_below v bound of None \<Rightarrow> Inl RtDecimal
       | Some below \<Rightarrow> Inr (if below
           then [(ExModelNotConfigured, ''required capability '' @ dimension @ '' is below minimum'')] else [])))"

definition requirement_reasons ::
  "routing_env \<Rightarrow> (string, DeclaredCapability) dict \<Rightarrow> ModelCapabilityRequirement \<Rightarrow>
   routing_error + exclusion_pair list" where
  "requirement_reasons env declared r =
     (let d = mcr_dimension r in
      if \<not> mcr_hard r then Inr []
      else case dict_get declared d of
        None \<Rightarrow> Inr [(ExModelNotConfigured, ''required capability '' @ d @ '' is unknown'')]
      | Some c \<Rightarrow> bind_res (case mcr_minimum_value r of None \<Rightarrow> Inr [] | Some m \<Rightarrow> minimum_reasons env d (dc_value c) m)
          (\<lambda>below. Inr ((case mcr_required_support r of None \<Rightarrow> []
             | Some s \<Rightarrow> if dc_support c \<noteq> s
                 then [(ExModelNotConfigured, ''required capability '' @ d @ '' is unsupported'')] else []) @ below)))"

fun all_requirement_reasons ::
  "routing_env \<Rightarrow> (string, DeclaredCapability) dict \<Rightarrow> ModelCapabilityRequirement list \<Rightarrow>
   routing_error + exclusion_pair list" where
  "all_requirement_reasons env declared [] = Inr []"
| "all_requirement_reasons env declared (r # rs) = bind_res (requirement_reasons env declared r) (\<lambda>xs.
     bind_res (all_requirement_reasons env declared rs) (\<lambda>ys. Inr (xs @ ys)))"

definition filter_model ::
  "routing_env \<Rightarrow> ModelCapabilityProfile \<Rightarrow> RoutingRequest \<Rightarrow> RoutingPolicyRevision \<Rightarrow>
   ProviderHealthSnapshot option \<Rightarrow> routing_error + RoutingExclusion list" where
  "filter_model env p q policy health =
     bind_res (all_requirement_reasons env (declared_by p)
         (rrq_capability_requirements q @ rp_candidate_filters policy)) (\<lambda>capability.
       Inr (map (\<lambda>(reason, detail). \<lparr>rx_model_identity_hash = identity_of env p, rx_reason = reason, rx_detail = detail\<rparr>)
         (collect (provider_reasons env p q health @ fit_reasons p q policy) @ capability)))"

section \<open>Static scores\<close>

fun index_of :: "'a \<Rightarrow> 'a list \<Rightarrow> int" where
  "index_of x [] = 0"
| "index_of x (y # ys) = (if x = y then 0 else 1 + index_of x ys)"

definition static_priority :: "string \<Rightarrow> RoutingRequest \<Rightarrow> int \<Rightarrow> int" where
  "static_priority h q canonical = (case rrq_operator_restriction q of None \<Rightarrow> canonical
     | Some x \<Rightarrow> (let preferred = orr_preferred_model_hashes x in
         if h \<in> set preferred then index_of h preferred else int (length preferred) + canonical))"

definition static_score :: "routing_env \<Rightarrow> ModelCapabilityProfile \<Rightarrow> RoutingRequest \<Rightarrow> int \<Rightarrow> RoutingCandidateScore" where
  "static_score env p q canonical =
     (let h = identity_of env p; n = static_priority h q canonical in
      \<lparr>rcs_model_identity_hash = h, rcs_eligible = True, rcs_static_priority = n,
       rcs_dimensions = [(''operator_priority'', of_int (- n))], rcs_uncertainty = 0, rcs_total = of_int (- n),
       rcs_source_statistics_hash = None, rcs_source_cohort_level = None\<rparr>)"

section \<open>Adaptive scores\<close>

definition cohort_levels :: "routing_env \<Rightarrow> TaskSignature \<Rightarrow> (string \<times> string) list" where
  "cohort_levels env t =
     [(''exact'', rt_signature_hash env t),
      (''without_skill_revisions'', rt_sha256 env (rt_unskilled_json env t)),
      (''problem_class_output_repository'', rt_sha256 env
         (sg_problem_class t @ '':'' @ sg_output_type t @ '':'' @ sg_repository_profile t)),
      (''domain_output_risk'', rt_sha256 env
         (sg_problem_domain t @ '':'' @ sg_output_type t @ '':'' @ sg_risk_level t)),
      (''domain'', rt_sha256 env (sg_problem_domain t)),
      (''global'', rt_sha256 env ''cognitive-os-routing-global'')]"

text \<open>From the global cohort up, each cohort names the hash of the one below it.\<close>

fun link_cohorts :: "routing_env \<Rightarrow> string option \<Rightarrow> (string \<times> string) list \<Rightarrow> CapabilityCohort list" where
  "link_cohorts env parent [] = []"
| "link_cohorts env parent ((level, value) # ls) =
     (let c = \<lparr>coh_task_signature_hash = value, coh_cohort_level = level, coh_parent_hash = parent\<rparr> in
      c # link_cohorts env (Some (rt_cohort_hash env c)) ls)"

definition cohort_chain :: "routing_env \<Rightarrow> TaskSignature \<Rightarrow> CapabilityCohort list" where
  "cohort_chain env t = rev (link_cohorts env None (rev (cohort_levels env t)))"

definition effective_samples :: "RoutingStatistics \<Rightarrow> int" where
  "effective_samples x = (case map est_effective_sample_count (ests_estimates (rst_estimates x)) of
     [] \<Rightarrow> 0 | n # ns \<Rightarrow> fold max ns n)"

definition matching_by_cohort :: "string \<Rightarrow> RoutingStatistics list \<Rightarrow> (string, RoutingStatistics) dict" where
  "matching_by_cohort h stats = foldl (\<lambda>d x. dict_set d (coh_task_signature_hash (rst_cohort x)) x) []
     (filter (\<lambda>x. rst_model_identity_hash x = h) stats)"

text \<open>The first level with statistics of enough samples.\<close>

fun select_statistics ::
  "(string, RoutingStatistics) dict \<Rightarrow> int \<Rightarrow> CapabilityCohort list \<Rightarrow> RoutingStatistics option" where
  "select_statistics d minimum [] = None"
| "select_statistics d minimum (c # cs) = (case dict_get d (coh_task_signature_hash c) of
     None \<Rightarrow> select_statistics d minimum cs
   | Some x \<Rightarrow> if minimum \<le> effective_samples x then Some x else select_statistics d minimum cs)"

definition estimates_of :: "RoutingStatistics option \<Rightarrow> (string, CapabilityEstimate) dict" where
  "estimates_of x = (case x of None \<Rightarrow> []
     | Some s \<Rightarrow> foldl (\<lambda>d e. dict_set d (dimension_value (est_dimension e)) e) [] (ests_estimates (rst_estimates s)))"

text \<open>What a weight contributes: an unknown value counts as 0, or as 1000000 under a negative weight.\<close>

definition weighted_value :: "(string, CapabilityEstimate) dict \<Rightarrow> string \<Rightarrow> decimal \<Rightarrow> decimal" where
  "weighted_value estimates name weight =
     dec_mul (case (case dict_get estimates name of None \<Rightarrow> None | Some e \<Rightarrow> est_estimate e) of
         None \<Rightarrow> if weight < 0 then 1000000 else 0 | Some v \<Rightarrow> v) weight"

fun score_dimensions ::
  "(string, CapabilityEstimate) dict \<Rightarrow> (string, decimal) dict \<Rightarrow> (string, decimal) dict option" where
  "score_dimensions estimates [] = Some []"
| "score_dimensions estimates ((name, weight) # ws) =
     (case quantize6 (weighted_value estimates name weight) of None \<Rightarrow> None
      | Some v \<Rightarrow> map_option (\<lambda>ds. (name, v) # ds) (score_dimensions estimates ws))"

definition score_uncertainty :: "(string, CapabilityEstimate) dict \<Rightarrow> (string, decimal) dict \<Rightarrow> decimal" where
  "score_uncertainty estimates ws = foldl (\<lambda>u (name, _). case dict_get estimates name of None \<Rightarrow> u
     | Some e \<Rightarrow> min u (est_uncertainty e)) 1 ws"

definition adaptive_levels :: "routing_env \<Rightarrow> TaskSignature \<Rightarrow> RoutingPolicyRevision \<Rightarrow> CapabilityCohort list" where
  "adaptive_levels env t policy =
     (let levels = cohort_chain env t in if rp_risk_constraints policy \<noteq> [] then take 4 levels else levels)"

definition score_statistics ::
  "routing_env \<Rightarrow> string \<Rightarrow> TaskSignature \<Rightarrow> RoutingPolicyRevision \<Rightarrow> RoutingStatistics list \<Rightarrow>
   RoutingStatistics option" where
  "score_statistics env h t policy stats = select_statistics (matching_by_cohort h stats)
     (max (rp_minimum_samples policy) (rk_minimum_measured_samples (rt_config env))) (adaptive_levels env t policy)"

text \<open>The position that counts is that of the first level with the selected cohort's hash.\<close>

definition cohort_generality :: "routing_env \<Rightarrow> TaskSignature \<Rightarrow> RoutingPolicyRevision \<Rightarrow> RoutingStatistics \<Rightarrow> int" where
  "cohort_generality env t policy x = index_of (coh_task_signature_hash (rst_cohort x))
     (map coh_task_signature_hash (adaptive_levels env t policy))"

definition adaptive_uncertainty ::
  "routing_env \<Rightarrow> TaskSignature \<Rightarrow> RoutingPolicyRevision \<Rightarrow> RoutingStatistics option \<Rightarrow> decimal" where
  "adaptive_uncertainty env t policy found =
     (let u = score_uncertainty (estimates_of found) (rp_score_weights policy) in
      case found of None \<Rightarrow> u
      | Some x \<Rightarrow> min 1 (dec_add u (dec_mul (of_int (cohort_generality env t policy x)) (5 / 100))))"

definition adaptive_score ::
  "routing_env \<Rightarrow> ModelCapabilityProfile \<Rightarrow> RoutingRequest \<Rightarrow> RoutingPolicyRevision \<Rightarrow> RoutingStatistics list \<Rightarrow>
   routing_error + RoutingCandidateScore" where
  "adaptive_score env p q policy stats =
     (let h = identity_of env p; t = rrq_task_signature q;
          found = score_statistics env h t policy stats;
          u = adaptive_uncertainty env t policy found in
      case score_dimensions (estimates_of found) (rp_score_weights policy) of None \<Rightarrow> Inl RtDecimal
      | Some ds \<Rightarrow>
         (case quantize6 (dec_sub (dec_sum (map snd ds)) (dec_mul (rp_uncertainty_penalty policy) u)) of
            None \<Rightarrow> Inl RtDecimal
          | Some amount \<Rightarrow> Inr \<lparr>rcs_model_identity_hash = h, rcs_eligible = True, rcs_static_priority = 0,
              rcs_dimensions = ds, rcs_uncertainty = u, rcs_total = amount,
              rcs_source_statistics_hash = map_option (rt_statistics_hash env) found,
              rcs_source_cohort_level = map_option (\<lambda>x. coh_cohort_level (rst_cohort x)) found\<rparr>))"

end
