(* ===== verification/Routing_Flow.thy ===== *)
theory Routing_Flow
  imports Routing_Service
begin

text \<open>
  The operations of the routing service that read and write the repository (\<open>routing/service.py\<close>): making a
  decision, the static, shadow, override, adaptive and fallback routes, outcomes and observations, promotion,
  enablement and disablement of policies, and multi-model plans.
\<close>

section \<open>Making a decision\<close>

definition health_by_provider :: "ProviderHealthSnapshot list \<Rightarrow> (string, ProviderHealthSnapshot) dict" where
  "health_by_provider hs = foldl (\<lambda>d h. dict_set d (ph_provider_id h) h) [] hs"

definition score_model ::
  "routing_env \<Rightarrow> RoutingRequest \<Rightarrow> RoutingPolicyRevision \<Rightarrow> RoutingStatistics list \<Rightarrow> bool \<Rightarrow> int \<Rightarrow>
   ModelCapabilityProfile \<Rightarrow> routing_error + RoutingCandidateScore" where
  "score_model env q policy stats adaptive i p =
     (if adaptive then adaptive_score env p q policy stats else Inr (static_score env p q i))"

text \<open>The loop over the candidates: what excludes the excluded ones, and the eligible ones with their scores.\<close>

fun rank_candidates ::
  "routing_env \<Rightarrow> RoutingRequest \<Rightarrow> RoutingPolicyRevision \<Rightarrow> RoutingStatistics list \<Rightarrow> bool \<Rightarrow> int \<Rightarrow>
   ModelCapabilityProfile list \<Rightarrow>
   routing_error + RoutingExclusion list \<times> (ModelCapabilityProfile \<times> RoutingCandidateScore) list" where
  "rank_candidates env q policy stats adaptive i [] = Inr ([], [])"
| "rank_candidates env q policy stats adaptive i (p # ps) =
     bind_res (filter_model env p q policy
         (dict_get (health_by_provider (rrq_provider_registry_snapshot q)) (mi_provider_id (mcp_model_identity p))))
       (\<lambda>reasons. if reasons \<noteq> []
          then bind_res (rank_candidates env q policy stats adaptive (i + 1) ps)
            (\<lambda>(xs, es). Inr (reasons @ xs, es))
          else bind_res (score_model env q policy stats adaptive i p) (\<lambda>score.
            bind_res (rank_candidates env q policy stats adaptive (i + 1) ps)
              (\<lambda>(xs, es). Inr (xs, (p, score) # es))))"

definition order_eligible ::
  "routing_env \<Rightarrow> (ModelCapabilityProfile \<times> RoutingCandidateScore) list \<Rightarrow>
   (ModelCapabilityProfile \<times> RoutingCandidateScore) list" where
  "order_eligible env es = sort_key (\<lambda>(p, score). (- rcs_total score, identity_of env p)) es"

definition order_exclusions :: "RoutingExclusion list \<Rightarrow> RoutingExclusion list" where
  "order_exclusions xs = sort_key (\<lambda>x. (rx_model_identity_hash x, exclusion_value (rx_reason x))) xs"

definition fallback_entries ::
  "routing_env \<Rightarrow> int \<Rightarrow> (ModelCapabilityProfile \<times> RoutingCandidateScore) list \<Rightarrow> RoutingFallbackEntry list" where
  "fallback_entries env maximum es = map (\<lambda>(i, p, _). \<lparr>rfe_position = int i, rfe_model_identity_hash = identity_of env p,
      rfe_reason = FbProviderUnavailable\<rparr>) (enumerate 1 (take (nat maximum) (drop 1 es)))"

definition opt_text :: "string option \<Rightarrow> string" where
  "opt_text x = (case x of None \<Rightarrow> ''None'' | Some s \<Rightarrow> s)"

definition decision_identifier ::
  "routing_env \<Rightarrow> RoutingRequest \<Rightarrow> RoutingPolicyRevision \<Rightarrow> RoutingControlMode \<Rightarrow> uuid option \<Rightarrow>
   RoutingFallbackReason option \<Rightarrow> uuid" where
  "decision_identifier env q policy mode previous fallback = rt_uuid5 env
     (''routing-decision:'' @ rt_request_hash env q @ '':'' @ rt_policy_hash env policy @ '':'' @ mode_value mode @
      '':'' @ opt_text (map_option uuid_str previous) @ '':'' @ opt_text (map_option fallback_value fallback))"

definition decision_reason :: "bool \<Rightarrow> bool \<Rightarrow> RoutingFallbackReason option \<Rightarrow> string" where
  "decision_reason selected adaptive fallback =
     (if \<not> selected then ''no eligible model''
      else case fallback of Some f \<Rightarrow> ''bounded fallback after '' @ fallback_value f
        | None \<Rightarrow> if adaptive then ''deterministic adaptive shadow score'' else ''deterministic static priority'')"

definition decision_mode :: "RoutingPolicyRevision \<Rightarrow> bool \<Rightarrow> uuid option \<Rightarrow> RoutingControlMode" where
  "decision_mode policy adaptive static =
     (if static \<noteq> None then ModeShadow else if adaptive then ModeAdaptive else rp_control_mode policy)"

definition make_decision ::
  "routing_env \<Rightarrow> RoutingRequest \<Rightarrow> RoutingPolicyRevision \<Rightarrow> ModelCapabilityProfile list \<Rightarrow> RoutingStatistics list \<Rightarrow>
   bool \<Rightarrow> uuid option \<Rightarrow> uuid option \<Rightarrow> RoutingFallbackReason option \<Rightarrow> routing_error + RoutingDecision" where
  "make_decision env q policy profiles stats adaptive static previous fallback =
     bind_res (rank_candidates env q policy stats adaptive 0 profiles) (\<lambda>(exclusions, eligible).
       let ranked = order_eligible env eligible;
           selected = (case ranked of [] \<Rightarrow> None | (p, _) # _ \<Rightarrow> Some (mcp_model_identity p));
           mode = decision_mode policy adaptive static;
           d = \<lparr>rd_decision_id = decision_identifier env q policy mode previous fallback,
             rd_previous_decision_id = previous, rd_routing_request_id = rrq_routing_request_id q,
             rd_task_run_id = rrq_task_run_id q, rd_task_signature = rrq_task_signature q,
             rd_policy_id = rp_policy_id policy, rd_policy_revision = rp_revision policy, rd_control_mode = mode,
             rd_status = (if selected \<noteq> None then DecisionSelected else DecisionNoEligibleModel),
             rd_candidate_models = map (identity_of env) profiles, rd_candidate_scores = map snd eligible,
             rd_exclusions = order_exclusions exclusions, rd_selected_model = selected,
             rd_selected_role_pattern = SingleModel, rd_role_assignments = [],
             rd_fallback_order = fallback_entries env (rp_maximum_fallback_models policy) ranked,
             rd_static_decision_reference = static, rd_shadow_decision_reference = None,
             rd_reason = decision_reason (selected \<noteq> None) adaptive fallback,
             rd_provider_registry_snapshot = rrq_provider_registry_snapshot q,
             rd_capability_registry_snapshot = map (rt_profile_hash env) profiles,
             rd_statistics_snapshot = \<lparr>rss_statistic_hashes = sort (map (rt_statistics_hash env) stats),
               rss_profile_version = ''routing-statistics-v1''\<rparr>,
             rd_created_at = rrq_created_at q\<rparr>
       in case decision_error d of Some f \<Rightarrow> Inl (RtInvalid f) | None \<Rightarrow> Inr d)"

definition access_of :: "routing_env \<Rightarrow> RoutingRequest \<Rightarrow> RoutingPolicyRevision \<Rightarrow> RoutingDecision \<Rightarrow> RoutingAccessRecord" where
  "access_of env q policy d =
     \<lparr>rac_access_id = rt_uuid5 env (''routing-access:'' @ rt_decision_hash env d),
      rac_access_type = (if rd_control_mode d = ModeShadow then AccessShadowDecision else AccessRoutingDecision),
      rac_actor_id = rrq_requested_by q, rac_model_identity_hash = None, rac_policy_id = Some (rp_policy_id policy),
      rac_policy_revision = Some (rp_revision policy), rac_decision_id = Some (rd_decision_id d),
      rac_accessed_at = rrq_created_at q, rac_reason = rd_reason d\<rparr>"

definition route_among ::
  "routing_env \<Rightarrow> RoutingRequest \<Rightarrow> RoutingPolicyRevision \<Rightarrow> ModelCapabilityProfile list \<Rightarrow> bool \<Rightarrow> uuid option \<Rightarrow>
   uuid option \<Rightarrow> RoutingFallbackReason option \<Rightarrow> RoutingDecision routing" where
  "route_among env q policy profiles adaptive static previous fallback =
     bnd (asks (\<lambda>r. repo_list_statistics r 100000)) (\<lambda>stats.
     bnd (lift_res id (make_decision env q policy profiles stats adaptive static previous fallback)) (\<lambda>d.
     andthen (on_routing (repo_record_decision d))
     (andthen (on_routing (repo_record_access (access_of env q policy d))) (ret d))))"

section \<open>The routes\<close>

definition routed_profiles :: "routing_env \<Rightarrow> ModelCapabilityProfile list routing" where
  "routed_profiles env = asks (\<lambda>r. repo_query_profiles (rt_identity_hash env) r
     (min (rk_maximum_models (rt_config env)) (rk_maximum_candidate_models (rt_config env))))"

definition require_persisted :: "RoutingPolicyRevision \<Rightarrow> unit routing" where
  "require_persisted policy = bnd (asks (\<lambda>r. repo_get_policy r (rp_policy_id policy) (Some (rp_revision policy))))
     (\<lambda>persisted. refuse_if (persisted \<noteq> Some policy) NotPersistedRevision)"

definition register_profile :: "routing_env \<Rightarrow> ModelCapabilityProfile \<Rightarrow> unit routing" where
  "register_profile env p = andthen (refuse_if (mcp_status p \<in> {ProfileDeprecated, ProfileRetracted}) InactiveProfile)
     (on_routing (repo_register_profile (rt_identity_hash env) p))"

definition create_policy :: "RoutingPolicyRevision \<Rightarrow> unit routing" where
  "create_policy p = on_routing (repo_create_policy p)"

definition route_static :: "routing_env \<Rightarrow> RoutingRequest \<Rightarrow> RoutingPolicyRevision \<Rightarrow> RoutingDecision routing" where
  "route_static env q policy =
     andthen (refuse_if (rp_policy_id policy \<noteq> rrq_policy_id q \<or> rp_revision policy \<noteq> rrq_policy_revision q) NotExactPolicy)
     (andthen (refuse_if (rp_control_mode policy \<notin> {ModeStatic, ModeExplicitOverride, ModeLegacyStatic}) NotStaticPolicy)
     (andthen (refuse_if (rp_status policy \<noteq> PolicyEnabled) StaticNotEnabled)
     (andthen (require_persisted policy)
     (bnd (routed_profiles env) (\<lambda>profiles. route_among env q policy profiles False None None None)))))"

definition route_shadow ::
  "routing_env \<Rightarrow> RoutingRequest \<Rightarrow> RoutingDecision \<Rightarrow> RoutingPolicyRevision \<Rightarrow> RoutingDecision routing" where
  "route_shadow env q static policy =
     andthen (refuse_if (rd_routing_request_id static \<noteq> rrq_routing_request_id q) NotStaticRequest)
     (andthen (refuse_if (rp_control_mode policy \<noteq> ModeShadow) NotShadowPolicy)
     (andthen (refuse_if (rp_status policy \<noteq> PolicyShadow) NotInShadowState)
     (andthen (require_persisted policy)
     (bnd (routed_profiles env) (\<lambda>profiles.
        route_among env q policy profiles True (Some (rd_decision_id static)) None None)))))"

definition route_explicit_override ::
  "routing_env \<Rightarrow> RoutingRequest \<Rightarrow> RoutingPolicyRevision \<Rightarrow> string \<Rightarrow> string list \<Rightarrow> RoutingDecision routing" where
  "route_explicit_override env q policy h trusted =
     (case rrq_operator_restriction q of
        None \<Rightarrow> throw (RtPolicy OverrideNotTrusted)
      | Some x \<Rightarrow>
          andthen (refuse_if (rp_control_mode policy \<noteq> ModeExplicitOverride \<or> orr_actor_id x \<noteq> rrq_requested_by q \<or>
            rrq_requested_by q \<notin> set trusted) OverrideNotTrusted)
          (andthen (if sha256_hex h then ret () else throw (RtInvalid BadRoutingField))
          (bnd (route_static env (q\<lparr>rrq_operator_restriction := Some (x\<lparr>orr_preferred_model_hashes := [h],
              orr_allowed_model_hashes := [h]\<rparr>)\<rparr>) policy) (\<lambda>d.
          andthen (refuse_if (map_option (rt_identity_hash env) (rd_selected_model d) \<noteq> Some h) OverrideFiltered)
            (ret d)))))"

definition route_adaptive :: "routing_env \<Rightarrow> RoutingRequest \<Rightarrow> RoutingPolicyRevision \<Rightarrow> RoutingDecision routing" where
  "route_adaptive env q policy =
     andthen (refuse_if (rp_policy_id policy \<noteq> rrq_policy_id q \<or> rp_revision policy \<noteq> rrq_policy_revision q) NotExactPolicy)
     (andthen (refuse_if (rp_control_mode policy \<noteq> ModeAdaptive \<or> rp_status policy \<noteq> PolicyEnabled \<or>
        \<not> str_truthy (rp_operator_approval_reference policy)) NotEnabledAdaptive)
     (andthen (refuse_if (rp_allowed_task_signature_hashes policy \<noteq> [] \<and>
        rt_signature_hash env (rrq_task_signature q) \<notin> set (rp_allowed_task_signature_hashes policy)) OutsideAdaptiveScope)
     (andthen (require_persisted policy)
     (bnd (routed_profiles env) (\<lambda>profiles. route_among env q policy profiles True None None None)))))"

definition validate_context_fit :: "routing_env \<Rightarrow> RoutingDecision \<Rightarrow> int \<Rightarrow> bool routing" where
  "validate_context_fit env d tokens = (case rd_selected_model d of None \<Rightarrow> ret False
     | Some m \<Rightarrow> asks (\<lambda>r. case repo_get_profile r (rt_identity_hash env m) None of None \<Rightarrow> False
         | Some p \<Rightarrow> (case mcp_context_limit p of None \<Rightarrow> False | Some n \<Rightarrow> n \<noteq> 0 \<and> tokens \<le> n)))"

definition fallback_profiles :: "RoutingDecision \<Rightarrow> routing_repo \<Rightarrow> ModelCapabilityProfile list" where
  "fallback_profiles d r = concat (map (\<lambda>e. case repo_get_profile r (rfe_model_identity_hash e) None of
     None \<Rightarrow> [] | Some p \<Rightarrow> [p]) (rd_fallback_order d))"

definition route_fallback ::
  "routing_env \<Rightarrow> RoutingRequest \<Rightarrow> RoutingPolicyRevision \<Rightarrow> RoutingDecision \<Rightarrow> RoutingFallbackReason \<Rightarrow> int \<Rightarrow>
   RoutingDecision routing" where
  "route_fallback env q policy previous failure depth =
     andthen (refuse_if (depth < 1 \<or> rk_maximum_fallback_depth (rt_config env) < depth) FallbackDepth)
     (andthen (refuse_if (\<not> fallback_allowed failure) FallbackForbidden)
     (andthen (refuse_if (rd_fallback_order previous = []) NoFallback)
     (bnd (asks (fallback_profiles previous)) (\<lambda>profiles.
      bnd (route_among env q policy profiles (rp_control_mode policy = ModeAdaptive) None
          (Some (rd_decision_id previous)) (Some failure)) (\<lambda>d.
      andthen (refuse_if (rd_selected_model d = None) NoFallbackEligible) (ret d))))))"

definition route_context_fallback ::
  "routing_env \<Rightarrow> RoutingRequest \<Rightarrow> RoutingPolicyRevision \<Rightarrow> RoutingDecision \<Rightarrow> int \<Rightarrow> int \<Rightarrow> RoutingDecision routing" where
  "route_context_fallback env q policy previous tokens depth =
     bnd (validate_context_fit env previous tokens) (\<lambda>fits.
     andthen (refuse_if fits ContextFits)
     (andthen (if tokens < 0 then throw (RtInvalid BadRoutingField) else ret ())
     (route_fallback env (q\<lparr>rrq_context_requirement := (rrq_context_requirement q)\<lparr>cx_estimated_tokens := tokens\<rparr>\<rparr>)
        policy previous FbContextLimitFailure depth)))"

section \<open>Outcomes and observations\<close>

definition record_outcome :: "RoutingOutcome \<Rightarrow> unit routing" where
  "record_outcome x = on_routing (repo_record_outcome x)"

definition ingest_observation :: "RoutingObservation \<Rightarrow> unit routing" where
  "ingest_observation x = andthen (refuse_if (provider_declared (rob_evidence_type x)) DeclaredEvidence)
     (on_routing (repo_record_observation x))"

definition observed_status :: "RoutingOutcomeStatus \<Rightarrow> RoutingObservationStatus" where
  "observed_status x = (case x of OutcomeAccepted \<Rightarrow> ObservedAccepted | OutcomeRejected \<Rightarrow> ObservedRejected
     | _ \<Rightarrow> ObservedUnverifiable)"

definition or_unverifiable :: "string option \<Rightarrow> string" where
  "or_unverifiable x = (case x of None \<Rightarrow> ''unverifiable'' | Some s \<Rightarrow> if s = [] then ''unverifiable'' else s)"

text \<open>\<open>int_str\<close> is the decimal text of an integer.\<close>

definition projected_observation ::
  "routing_env \<Rightarrow> (int \<Rightarrow> string) \<Rightarrow> RoutingOutcome \<Rightarrow> RoutingDecision \<Rightarrow> ModelIdentity \<Rightarrow> string \<Rightarrow> RoutingObservation" where
  "projected_observation env int_str x d m source =
     \<lparr>rob_observation_id = rt_uuid5 env (''routing-outcome-observation:'' @ rt_outcome_hash env x),
      rob_model_identity = m, rob_task_signature = rd_task_signature d,
      rob_routing_policy_reference = rd_policy_id d @ '':'' @ int_str (rd_policy_revision d),
      rob_execution_role = sg_execution_role (rd_task_signature d),
      rob_provider_call_reference = ro_provider_request_reference x,
      rob_context_bundle_reference = ro_context_bundle_reference x,
      rob_skill_revision = None, rob_strategy_revision = None,
      rob_verifier_bundle_reference = or_unverifiable (ro_verifier_bundle_reference x),
      rob_acceptance_decision_reference = or_unverifiable (ro_acceptance_decision_reference x),
      rob_status = observed_status (ro_status x), rob_latency_ms = ro_latency_ms x,
      rob_token_usage = ro_token_usage x, rob_cost_units = ro_cost_units x,
      rob_structured_output_valid = None, rob_tool_calls_valid = None,
      rob_safety_passed = Some (ro_safety_result x = ''passed''), rob_source_refs = [source],
      rob_evidence_type = VerifiedTaskOutcome, rob_created_at = ro_created_at x\<rparr>"

definition project_verified_outcome ::
  "routing_env \<Rightarrow> (int \<Rightarrow> string) \<Rightarrow> RoutingOutcome \<Rightarrow> RoutingDecision \<Rightarrow> string \<Rightarrow> RoutingObservation routing" where
  "project_verified_outcome env int_str x d source =
     (case rd_selected_model d of
        None \<Rightarrow> throw (RtPolicy NotExactDecision)
      | Some m \<Rightarrow>
          andthen (refuse_if (ro_decision_id x \<noteq> rd_decision_id d) NotExactDecision)
          (bnd (lift_res RtInvalid (construct observation_error (projected_observation env int_str x d m source)))
            (\<lambda>o'. andthen (on_routing (repo_record_observation o')) (ret o'))))"

section \<open>Promotion\<close>

definition gate_reasons ::
  "RoutingConfiguration \<Rightarrow> int \<Rightarrow> int \<Rightarrow> decimal \<Rightarrow> decimal \<Rightarrow> decimal \<Rightarrow> bool \<Rightarrow> bool \<Rightarrow> string list" where
  "gate_reasons k samples cases quality safety policy_regression fallback replay = map snd (filter fst
     [(samples < rk_minimum_adaptive_samples k, ''insufficient_samples''),
      (cases < rk_minimum_shadow_cases k, ''insufficient_shadow_cases''),
      (quality < rk_minimum_required_quality_improvement k, ''benchmark_regression''),
      (rk_maximum_allowed_safety_regression k < safety, ''safety_regression''),
      (rk_maximum_allowed_policy_regression k < policy_regression, ''policy_regression''),
      (\<not> fallback, ''fallback_not_validated''), (\<not> replay, ''replay_failure'')])"

definition assess_promotion ::
  "routing_env \<Rightarrow> RoutingPolicyRevision \<Rightarrow> RoutingExperimentResult \<Rightarrow> int \<Rightarrow> decimal \<Rightarrow> decimal \<Rightarrow> decimal \<Rightarrow> bool \<Rightarrow>
   bool \<Rightarrow> string option \<Rightarrow> RoutingPromotionAssessment" where
  "assess_promotion env policy x samples quality safety policy_regression fallback replay approval =
     (let cases = int (length (rer_results x));
          reasons = gate_reasons (rt_config env) samples cases quality safety policy_regression fallback replay in
      \<lparr>rpa_assessment_id = rt_uuid5 env (''routing-promotion:'' @ rt_policy_hash env policy @ '':'' @ rt_experiment_hash env x),
       rpa_policy_id = rp_policy_id policy, rpa_policy_revision = rp_revision policy,
       rpa_eligible_for_approval = (reasons = []),
       rpa_reasons = (if reasons = [] then [''eligible_for_approval''] else reasons),
       rpa_sample_count = samples, rpa_shadow_case_count = cases, rpa_quality_improvement = quality,
       rpa_safety_regression = safety, rpa_policy_regression = policy_regression,
       rpa_fallback_validated = fallback, rpa_replay_validated = replay,
       rpa_operator_approval_reference = approval, rpa_assessed_at = rer_completed_at x\<rparr>)"

text \<open>A policy that follows another: \<open>model_validate\<close> of its changed fields.\<close>

definition succeed_policy :: "RoutingPolicyRevision \<Rightarrow> RoutingPolicyRevision routing" where
  "succeed_policy p = bnd (lift_res RtInvalid (construct routing_policy_error p))
     (\<lambda>p'. andthen (create_policy p') (ret p'))"

definition next_policy :: "RoutingPolicyRevision \<Rightarrow> RoutingPolicyStatus \<Rightarrow> string \<Rightarrow> RoutingPolicyRevision" where
  "next_policy p status reason = p\<lparr>rp_revision := rp_revision p + 1, rp_previous_revision := Some (rp_revision p),
     rp_status := status, rp_reason := reason\<rparr>"

definition approved_policy :: "RoutingPolicyRevision \<Rightarrow> string \<Rightarrow> string list \<Rightarrow> RoutingPolicyRevision" where
  "approved_policy p approval signatures =
     (next_policy p PolicyApproved ''promotion gate passed with explicit operator approval'')
       \<lparr>rp_control_mode := ModeAdaptive, rp_operator_approval_reference := Some (py_strip approval),
        rp_allowed_task_signature_hashes := signatures\<rparr>"

definition approve_and_enable ::
  "RoutingPolicyRevision \<Rightarrow> RoutingPromotionAssessment \<Rightarrow> string \<Rightarrow> string list \<Rightarrow> RoutingPolicyRevision routing" where
  "approve_and_enable policy a approval signatures =
     andthen (refuse_if (\<not> rpa_eligible_for_approval a \<or> rpa_policy_id a \<noteq> rp_policy_id policy) GateNotPassed)
     (bnd (succeed_policy (approved_policy policy approval signatures)) (\<lambda>approved.
      succeed_policy (next_policy approved PolicyEnabled ''bounded adaptive policy explicitly enabled'')))"

definition disable_adaptive_policy :: "RoutingPolicyRevision \<Rightarrow> string \<Rightarrow> RoutingPolicyRevision routing" where
  "disable_adaptive_policy policy reason =
     andthen (refuse_if (rp_control_mode policy \<noteq> ModeAdaptive) NotAdaptive)
     (succeed_policy (next_policy policy PolicyDisabled (py_strip reason)))"

section \<open>Multi-model plans\<close>

record MultiModelRole =
  mmr_role :: ExecutionRole
  mmr_routing_request_id :: uuid
  mmr_routing_decision_id :: uuid
  mmr_context_bundle_reference :: string
  mmr_token_reservation :: int

record MultiModelPattern =
  mmp_pattern_type :: MultiModelPatternType
  mmp_roles :: "ExecutionRole list"

record MultiModelExecutionPlan =
  mme_plan_id :: uuid
  mme_pattern :: MultiModelPattern
  mme_roles :: "MultiModelRole list"
  mme_effective_budget :: RoutingBudget
  mme_verifier_reference :: string
  mme_controller_plan_reference :: string

definition build_multi_model_plan ::
  "uuid \<Rightarrow> MultiModelPattern \<Rightarrow> MultiModelRole list \<Rightarrow> RoutingBudget \<Rightarrow> RoutingBudget \<Rightarrow> RoutingBudget \<Rightarrow> RoutingBudget \<Rightarrow>
   string \<Rightarrow> string \<Rightarrow> routing_error + MultiModelExecutionPlan" where
  "build_multi_model_plan i pattern roles controller policy strategy bound verifier plan =
     (let effective = intersect_budgets [controller, policy, strategy, bound] in
      if length roles \<noteq> length (mmp_roles pattern) \<or> rb_maximum_calls effective < int (length roles)
      then Inl (RtPolicy RolesExceedBudget)
      else if map mmr_role roles \<noteq> mmp_roles pattern then Inl (RtPolicy RolesDoNotMatch)
      else if roles = [] \<or> 8 < length roles \<or> \<not> non_empty_str verifier \<or> \<not> non_empty_str plan
      then Inl (RtInvalid BadRoutingField)
      else Inr \<lparr>mme_plan_id = i, mme_pattern = pattern, mme_roles = roles, mme_effective_budget = effective,
        mme_verifier_reference = py_strip verifier, mme_controller_plan_reference = py_strip plan\<rparr>)"

end
