(* ===== verification/Routing_Stats.thy ===== *)
theory Routing_Stats
  imports Routing_Flow
begin

text \<open>
  The statistics of the routing plane (\<open>routing/service.py\<close>): the estimates of a series of observations and
  the rebuild of all of them from what was recorded.

  Parameter: the square root of a float, of which only the sign is used.
\<close>

section \<open>Estimates\<close>

text \<open>\<open>wilson_interval\<close>: the estimate and its interval at 95 percent, rounded to six places.\<close>

definition wilson_z :: pyfloat where
  "wilson_z = 1959963984540054 / 1000000000000000"

definition wilson_center :: "int \<Rightarrow> int \<Rightarrow> pyfloat" where
  "wilson_center successes n = (let p = of_int successes / of_int n; z = wilson_z; t = of_int n in
     (p + z * z / (2 * t)) / (1 + z * z / t))"

definition wilson_margin :: "(pyfloat \<Rightarrow> pyfloat) \<Rightarrow> int \<Rightarrow> int \<Rightarrow> pyfloat" where
  "wilson_margin sq successes n = (let p = of_int successes / of_int n; z = wilson_z; t = of_int n in
     z * sq ((p * (1 - p) + z * z / (4 * t)) / t) / (1 + z * z / t))"

definition wilson_interval ::
  "(pyfloat \<Rightarrow> pyfloat) \<Rightarrow> int \<Rightarrow> int \<Rightarrow> (decimal \<times> decimal \<times> decimal) option option" where
  "wilson_interval sq successes n =
     (if n = 0 then Some None
      else let c = wilson_center successes n; m = wilson_margin sq successes n in
        case (quantize6 (of_int successes / of_int n), quantize6 (max 0 (c - m)), quantize6 (min 1 (c + m))) of
          (Some e, Some lower, Some upper) \<Rightarrow> Some (Some (e, lower, upper))
        | _ \<Rightarrow> None)"

definition count_evidence :: "CapabilityEvidenceType list \<Rightarrow> (CapabilityEvidenceType, int) dict" where
  "count_evidence xs = foldl (\<lambda>d x. dict_set d x (case dict_get d x of None \<Rightarrow> 1 | Some n \<Rightarrow> n + 1)) [] xs"

definition present :: "'a option list \<Rightarrow> 'a list" where
  "present xs = concat (map (\<lambda>x. case x of None \<Rightarrow> [] | Some v \<Rightarrow> [v]) xs)"

definition share :: "int \<Rightarrow> decimal" where
  "share n = in_context (1 / of_int (max 1 n))"

definition binary_estimate ::
  "(pyfloat \<Rightarrow> pyfloat) \<Rightarrow> CapabilityDimension \<Rightarrow> bool option list \<Rightarrow> (CapabilityEvidenceType, int) dict \<Rightarrow>
   CapabilityEstimate option" where
  "binary_estimate sq dimension raw counts =
     (let values = present raw; n = int (length values) in
      case wilson_interval sq (int (length (filter id values))) n of None \<Rightarrow> None
      | Some interval \<Rightarrow>
         (let width = (case interval of None \<Rightarrow> 1 | Some (_, lower, upper) \<Rightarrow> dec_sub upper lower) in
          map_option (\<lambda>u. \<lparr>est_dimension = dimension, est_sample_count = n, est_effective_sample_count = n,
              est_estimate = map_option fst interval, est_lower_bound = map_option (fst \<circ> snd) interval,
              est_upper_bound = map_option (snd \<circ> snd) interval, est_uncertainty = u,
              est_missing_count = int (length raw) - n, est_source_class_counts = counts\<rparr>)
            (quantize6 (min 1 (dec_add width (share n))))))"

definition median_of :: "decimal list \<Rightarrow> decimal" where
  "median_of xs = (let k = length xs div 2 in
     if odd (length xs) then xs ! k else in_context (dec_add (xs ! (k - 1)) (xs ! k) / 2))"

text \<open>The quantized value of a list that has one: \<open>None\<close> is the \<open>InvalidOperation\<close>.\<close>

definition quantize_any :: "decimal list \<Rightarrow> (decimal list \<Rightarrow> decimal) \<Rightarrow> decimal option option" where
  "quantize_any xs f = (if xs = [] then Some None else map_option Some (quantize6 (f xs)))"

definition continuous_estimate ::
  "CapabilityDimension \<Rightarrow> decimal option list \<Rightarrow> (CapabilityEvidenceType, int) dict \<Rightarrow> CapabilityEstimate option" where
  "continuous_estimate dimension raw counts =
     (let values = sort (present raw); n = int (length values) in
      case (quantize_any values (\<lambda>xs. in_context (dec_sum xs / of_int (int (length xs)))),
        quantize_any values median_of, quantize6 (share n)) of
        (Some mean, Some center, Some u) \<Rightarrow>
          Some \<lparr>est_dimension = dimension, est_sample_count = n, est_effective_sample_count = n,
            est_estimate = mean, est_lower_bound = center, est_upper_bound = center, est_uncertainty = u,
            est_missing_count = int (length raw) - n, est_source_class_counts = counts\<rparr>
      | _ \<Rightarrow> None)"

fun all_some :: "'a option list \<Rightarrow> 'a list option" where
  "all_some [] = Some []"
| "all_some (None # xs) = None"
| "all_some (Some x # xs) = map_option (\<lambda>ys. x # ys) (all_some xs)"

text \<open>The estimates of the observations of a model in a cohort.\<close>

definition group_estimates ::
  "(pyfloat \<Rightarrow> pyfloat) \<Rightarrow> RoutingObservation list \<Rightarrow> CapabilityEstimate list option" where
  "group_estimates sq xs =
     (let counts = count_evidence (map rob_evidence_type xs) in
      all_some
        [binary_estimate sq AcceptedTaskRate (map (\<lambda>x. Some (rob_status x = ObservedAccepted)) xs) counts,
         binary_estimate sq StructuredOutputValidity (map rob_structured_output_valid xs) counts,
         binary_estimate sq ToolCallValidity (map rob_tool_calls_valid xs) counts,
         binary_estimate sq ContextFit (map (\<lambda>_. Some True) xs) counts,
         binary_estimate sq SafetyFailureRate (map (\<lambda>b. Some (\<not> b)) (present (map rob_safety_passed xs))) counts,
         continuous_estimate Latency (map rob_latency_ms xs) counts,
         continuous_estimate CostUnits (map rob_cost_units xs) counts])"

section \<open>Rebuilding\<close>

type_synonym observation_groups = "(string \<times> string, RoutingObservation list) dict"

text \<open>\<open>defaultdict(list)\<close>: appending to the list of a key, which starts empty.\<close>

definition group_add :: "observation_groups \<Rightarrow> string \<times> string \<Rightarrow> RoutingObservation \<Rightarrow> observation_groups" where
  "group_add g k x = dict_set g k ((case dict_get g k of None \<Rightarrow> [] | Some xs \<Rightarrow> xs) @ [x])"

definition group_observation ::
  "routing_env \<Rightarrow> observation_groups \<times> (string, CapabilityCohort) dict \<Rightarrow> RoutingObservation \<Rightarrow>
   observation_groups \<times> (string, CapabilityCohort) dict" where
  "group_observation env gc x = foldl (\<lambda>(g, d) c. let h = rt_cohort_hash env c in
       (group_add g (rt_identity_hash env (rob_model_identity x), h) x, dict_set d h c))
     gc (cohort_chain env (rob_task_signature x))"

definition group_all ::
  "routing_env \<Rightarrow> RoutingObservation list \<Rightarrow> observation_groups \<times> (string, CapabilityCohort) dict" where
  "group_all env xs = foldl (group_observation env) ([], []) xs"

text \<open>\<open>estimate_hash\<close> is the digest of an estimate set.\<close>

definition group_statistics ::
  "routing_env \<Rightarrow> (pyfloat \<Rightarrow> pyfloat) \<Rightarrow> (CapabilityEstimateSet \<Rightarrow> string) \<Rightarrow> (string, CapabilityCohort) dict \<Rightarrow>
   (string \<times> string) \<times> RoutingObservation list \<Rightarrow> routing_error + RoutingStatistics" where
  "group_statistics env sq estimate_hash cohorts g =
     (case g of ((h, k), items) \<Rightarrow>
       (let ordered = sort_key (\<lambda>x. uuid_str (rob_observation_id x)) items in
        case dict_get cohorts k of None \<Rightarrow> Inl RtKey
        | Some c \<Rightarrow> (case group_estimates sq ordered of None \<Rightarrow> Inl RtDecimal
           | Some es \<Rightarrow>
              (let s = \<lparr>ests_cohort = c, ests_estimates = es, ests_statistics_profile = ''routing-statistics-v1'',
                 ests_source_observation_ids = map rob_observation_id ordered\<rparr> in
               Inr \<lparr>rst_statistics_id = rt_uuid5 env (''routing-statistics:'' @ h @ '':'' @ estimate_hash s),
                 rst_model_identity_hash = h, rst_cohort = c, rst_estimates = s,
                 rst_source_observation_ids = map rob_observation_id ordered,
                 rst_rebuilt_at = Max (set (map rob_created_at ordered))\<rparr>))))"

fun record_groups ::
  "routing_env \<Rightarrow> (pyfloat \<Rightarrow> pyfloat) \<Rightarrow> (CapabilityEstimateSet \<Rightarrow> string) \<Rightarrow> (string, CapabilityCohort) dict \<Rightarrow>
   ((string \<times> string) \<times> RoutingObservation list) list \<Rightarrow> RoutingStatistics list routing" where
  "record_groups env sq estimate_hash cohorts [] = ret []"
| "record_groups env sq estimate_hash cohorts (g # gs) =
     bnd (lift_res id (group_statistics env sq estimate_hash cohorts g)) (\<lambda>x.
     andthen (on_routing (repo_record_statistics x))
     (bnd (record_groups env sq estimate_hash cohorts gs) (\<lambda>xs. ret (x # xs))))"

text \<open>\<open>maximum_cohorts\<close> is the configured bound.\<close>

definition rebuild_statistics ::
  "routing_env \<Rightarrow> (pyfloat \<Rightarrow> pyfloat) \<Rightarrow> (CapabilityEstimateSet \<Rightarrow> string) \<Rightarrow> int \<Rightarrow> RoutingStatistics list routing" where
  "rebuild_statistics env sq estimate_hash maximum_cohorts =
     bnd (asks (\<lambda>r. repo_list_observations r (rk_maximum_observations_per_import (rt_config env)))) (\<lambda>xs.
     case group_all env xs of (groups, cohorts) \<Rightarrow>
       andthen (refuse_if (maximum_cohorts < int (length groups)) TooManyCohorts)
       (record_groups env sq estimate_hash cohorts (sort_key fst groups)))"

end
