(* ===== verification/Routing_Inv.thy ===== *)
theory Routing_Inv
  imports Routing_Stats
begin

text \<open>
  What every operation of the routing service keeps of its repository: nothing that was recorded changes, keys
  are those of the records, revisions have their predecessors, and outcomes have their decisions.
\<close>

section \<open>Writing once\<close>

text \<open>The contract of the two ways the repository writes: a key is bound once and then never rebound.\<close>

locale write_once =
  fixes put :: "('k, 'v) dict \<Rightarrow> 'k \<Rightarrow> 'v \<Rightarrow> 'e + ('k, 'v) dict"
  assumes put_dict: "put d k v = Inr d' \<Longrightarrow> d' = dict_set d k v"
    and put_known: "put d k v = Inr d' \<Longrightarrow> dict_get d k = Some w \<Longrightarrow> w = v"
begin

lemma put_get: "put d k v = Inr d' \<Longrightarrow> dict_get d' k = Some v"
  using put_dict by fastforce

lemma put_grows: "put d k v = Inr d' \<Longrightarrow> dict_get d \<subseteq>\<^sub>m dict_get d'"
  using put_dict put_known by (fastforce simp: map_le_def)

lemma put_again: "put d k v = Inr d' \<Longrightarrow> put d' k w = Inr d'' \<Longrightarrow> w = v"
  using put_get put_known by blast

end

interpretation once: write_once immutable_set
  by unfold_locales (auto simp: immutable_set_def split: option.splits if_splits)

interpretation once_revision: write_once "\<lambda>d k v. revision_set changed missing d (fst k) (snd k) v"
  by unfold_locales (auto simp: revision_set_def split: option.splits if_splits)

section \<open>The invariant\<close>

definition keyed :: "('v \<Rightarrow> 'k) \<Rightarrow> ('k, 'v) dict \<Rightarrow> bool" where
  "keyed key d \<longleftrightarrow> dict_ok d \<and> (\<forall>(k, v) \<in> set d. k = key v)"

definition chained :: "(string \<times> int, 'v) dict \<Rightarrow> bool" where
  "chained d \<longleftrightarrow> (\<forall>i n. dict_get d (i, n) \<noteq> None \<longrightarrow> 1 < n \<longrightarrow> dict_get d (i, n - 1) \<noteq> None)"

definition profile_key :: "routing_env \<Rightarrow> ModelCapabilityProfile \<Rightarrow> string \<times> int" where
  "profile_key env p = (identity_of env p, mcp_profile_revision p)"

definition policy_key :: "RoutingPolicyRevision \<Rightarrow> string \<times> int" where
  "policy_key p = (rp_policy_id p, rp_revision p)"

definition routing_ok :: "routing_env \<Rightarrow> routing_repo \<Rightarrow> bool" where
  "routing_ok env r \<longleftrightarrow> keyed (profile_key env) (rr_profiles r) \<and> chained (rr_profiles r) \<and>
     keyed policy_key (rr_policies r) \<and> chained (rr_policies r) \<and>
     keyed rob_observation_id (rr_observations r) \<and> keyed rd_decision_id (rr_decisions r) \<and>
     keyed ro_outcome_id (rr_outcomes r) \<and> keyed rst_statistics_id (rr_statistics r) \<and>
     keyed rac_access_id (rr_accesses r) \<and>
     (\<forall>(i, x) \<in> set (rr_outcomes r). dict_get (rr_decisions r) (ro_decision_id x) \<noteq> None)"

definition routing_extends :: "routing_repo \<Rightarrow> routing_repo \<Rightarrow> bool" where
  "routing_extends r r' \<longleftrightarrow> dict_get (rr_profiles r) \<subseteq>\<^sub>m dict_get (rr_profiles r') \<and>
     dict_get (rr_policies r) \<subseteq>\<^sub>m dict_get (rr_policies r') \<and>
     dict_get (rr_observations r) \<subseteq>\<^sub>m dict_get (rr_observations r') \<and>
     dict_get (rr_decisions r) \<subseteq>\<^sub>m dict_get (rr_decisions r') \<and>
     dict_get (rr_outcomes r) \<subseteq>\<^sub>m dict_get (rr_outcomes r') \<and>
     dict_get (rr_statistics r) \<subseteq>\<^sub>m dict_get (rr_statistics r') \<and>
     dict_get (rr_accesses r) \<subseteq>\<^sub>m dict_get (rr_accesses r')"

definition routing_moves :: "routing_env \<Rightarrow> routing_repo \<Rightarrow> routing_repo \<Rightarrow> bool" where
  "routing_moves env r r' \<longleftrightarrow> routing_extends r r' \<and> (routing_ok env r \<longrightarrow> routing_ok env r')"

lemma dict_set_subset: "set (dict_set d k v) \<subseteq> insert (k, v) (set d)"
  by (induction d k v rule: dict_set.induct) auto

lemma keyed_set: "keyed key d \<Longrightarrow> k = key v \<Longrightarrow> keyed key (dict_set d k v)"
  using dict_set_subset [of d k v] by (auto simp: keyed_def)

lemma once_keyed: "immutable_set d (key v) v = Inr d' \<Longrightarrow> keyed key d \<Longrightarrow> keyed key d'"
  using once.put_dict by (metis keyed_set)

lemma keyed_get: "keyed key d \<Longrightarrow> dict_get d k = Some v \<Longrightarrow> k = key v"
  by (auto simp: keyed_def dest!: map_of_SomeD)

lemma keyed_mem: "keyed key d \<Longrightarrow> (k, v) \<in> set d \<longleftrightarrow> dict_get d k = Some v"
  by (auto simp: keyed_def dest: map_of_SomeD)

lemma chained_set:
  assumes "chained d" "revision_set changed missing d i n v = Inr d'"
  shows "chained d'"
  using assms by (auto simp: chained_def revision_set_def split: if_splits option.splits)

lemma routing_moves_refl [simp]: "routing_moves env r r"
  by (simp add: routing_moves_def routing_extends_def)

lemma routing_moves_trans: "routing_moves env r s \<Longrightarrow> routing_moves env s t \<Longrightarrow> routing_moves env r t"
  unfolding routing_moves_def routing_extends_def by (blast intro: map_le_trans)

section \<open>Operations that keep it\<close>

definition safe :: "routing_env \<Rightarrow> 'a routing \<Rightarrow> bool" where
  "safe env m \<longleftrightarrow> (\<forall>r. routing_moves env r (fst (m r)))"

lemma safe_pure:
  "safe env (ret x)" "safe env (throw e)" "safe env (asks f)" "safe env (lift_res k y)" "safe env (refuse_if c p)"
  by (simp_all add: safe_def ret_def throw_def asks_def lift_res_def refuse_if_def)

lemma safe_bnd: "safe env m \<Longrightarrow> (\<And>x. safe env (f x)) \<Longrightarrow> safe env (bnd m f)"
  by (fastforce simp: safe_def bnd_def split: prod.splits sum.splits intro: routing_moves_trans)

lemma safe_andthen: "safe env m \<Longrightarrow> safe env n \<Longrightarrow> safe env (andthen m n)"
  by (simp add: andthen_def safe_bnd)

lemma safe_on: "(\<And>r r'. f r = Inr r' \<Longrightarrow> routing_moves env r r') \<Longrightarrow> safe env (on_routing f)"
  by (auto simp: safe_def on_routing_def split: sum.splits)

lemma safe_if: "(c \<Longrightarrow> safe env m) \<Longrightarrow> (\<not> c \<Longrightarrow> safe env n) \<Longrightarrow> safe env (if c then m else n)"
  by simp

lemmas safe_steps = safe_pure safe_bnd safe_andthen safe_if

lemma register_moves:
  assumes "repo_register_profile (rt_identity_hash env) p r = Inr r'"
  shows "routing_moves env r r'"
proof -
  from assms obtain d where d: "revision_set ProfileRevisionChanged ProfilePredecessorUnavailable (rr_profiles r)
      (fst (profile_key env p)) (snd (profile_key env p)) p = Inr d" "r' = r\<lparr>rr_profiles := d\<rparr>"
    by (auto simp: repo_register_profile_def bind_res_Inr_iff profile_key_def identity_of_def)
  from once_revision.put_grows [OF d(1)] once_revision.put_dict [OF d(1)] d(2) show ?thesis
    using chained_set [OF _ d(1)]
    by (auto simp: routing_moves_def routing_extends_def routing_ok_def keyed_set)
qed

lemma policy_moves:
  assumes "repo_create_policy p r = Inr r'"
  shows "routing_moves env r r'"
proof -
  from assms obtain d where d: "revision_set PolicyRevisionChanged PolicyPredecessorUnavailable (rr_policies r)
      (fst (policy_key p)) (snd (policy_key p)) p = Inr d" "r' = r\<lparr>rr_policies := d\<rparr>"
    by (auto simp: repo_create_policy_def bind_res_Inr_iff policy_key_def)
  from once_revision.put_grows [OF d(1)] once_revision.put_dict [OF d(1)] d(2) show ?thesis
    using chained_set [OF _ d(1)]
    by (auto simp: routing_moves_def routing_extends_def routing_ok_def keyed_set)
qed

lemma observation_moves: "repo_record_observation x r = Inr r' \<Longrightarrow> routing_moves env r r'"
  by (auto simp: repo_record_observation_def bind_res_Inr_iff routing_moves_def routing_extends_def routing_ok_def
    intro: once.put_grows once_keyed)

lemma access_moves: "repo_record_access x r = Inr r' \<Longrightarrow> routing_moves env r r'"
  by (auto simp: repo_record_access_def bind_res_Inr_iff routing_moves_def routing_extends_def routing_ok_def
    intro: once.put_grows once_keyed)

lemma statistics_moves: "repo_record_statistics x r = Inr r' \<Longrightarrow> routing_moves env r r'"
  by (auto simp: repo_record_statistics_def bind_res_Inr_iff routing_moves_def routing_extends_def routing_ok_def
    intro: once.put_grows once_keyed)

lemma decision_moves: 
  assumes "repo_record_decision x r = Inr r'"
  shows "routing_moves env r r'"
proof -
  from assms obtain d where d: "immutable_set (rr_decisions r) (rd_decision_id x) x = Inr d" "r' = r\<lparr>rr_decisions := d\<rparr>"
    by (auto simp: repo_record_decision_def bind_res_Inr_iff)
  from once.put_grows [OF d(1)] once.put_dict [OF d(1)] d(2) show ?thesis
    by (auto simp: routing_moves_def routing_extends_def routing_ok_def keyed_set)
qed

lemma outcome_moves:
  assumes "repo_record_outcome x r = Inr r'"
  shows "routing_moves env r r'"
proof -
  from assms obtain d where d: "immutable_set (rr_outcomes r) (ro_outcome_id x) x = Inr d" "r' = r\<lparr>rr_outcomes := d\<rparr>"
      "dict_get (rr_decisions r) (ro_decision_id x) \<noteq> None"
    by (auto simp: repo_record_outcome_def bind_res_Inr_iff split: if_splits)
  have "set d \<subseteq> insert (ro_outcome_id x, x) (set (rr_outcomes r))"
    using dict_set_subset once.put_dict [OF d(1)] by metis
  with once.put_grows [OF d(1)] d show ?thesis
    by (auto simp: routing_moves_def routing_extends_def routing_ok_def intro: once_keyed)
qed

lemma safe_writes:
  "safe env (on_routing (repo_register_profile (rt_identity_hash env) p))"
  "safe env (on_routing (repo_create_policy policy))"
  "safe env (on_routing (repo_record_observation x))"
  "safe env (on_routing (repo_record_access a))"
  "safe env (on_routing (repo_record_decision d))"
  "safe env (on_routing (repo_record_outcome y))"
  "safe env (on_routing (repo_record_statistics z))"
  by (rule safe_on, erule register_moves policy_moves observation_moves access_moves decision_moves outcome_moves
    statistics_moves)+

lemma create_safe: "safe env (create_policy p)"
  by (simp add: create_policy_def safe_writes)

lemma register_safe: "safe env (register_profile env p)"
  by (auto simp: register_profile_def intro!: safe_steps safe_writes)

lemma route_among_safe: "safe env (route_among env q policy ps adaptive static previous fallback)"
  by (auto simp: route_among_def intro!: safe_steps safe_writes)

lemma routes_safe:
  "safe env (route_static env q policy)" "safe env (route_shadow env q d policy)" "safe env (route_adaptive env q policy)"
  "safe env (route_fallback env q policy d failure depth)"
  by (auto simp: route_static_def route_shadow_def route_adaptive_def route_fallback_def require_persisted_def
    routed_profiles_def intro!: safe_steps route_among_safe)

lemma override_safe: "safe env (route_explicit_override env q policy h trusted)"
  by (auto simp: route_explicit_override_def intro!: safe_steps routes_safe split: option.split)

lemma context_safe: "safe env (route_context_fallback env q policy d tokens depth)"
  by (auto simp: route_context_fallback_def validate_context_fit_def intro!: safe_steps routes_safe split: option.split)

lemma evidence_safe:
  "safe env (record_outcome x)" "safe env (ingest_observation y)" "safe env (project_verified_outcome env int_str x d h)"
  by (auto simp: record_outcome_def ingest_observation_def project_verified_outcome_def
    intro!: safe_steps safe_writes split: option.split)

lemma promotion_safe: "safe env (approve_and_enable policy a approval signatures)" "safe env (disable_adaptive_policy policy reason)"
  by (auto simp: approve_and_enable_def disable_adaptive_policy_def succeed_policy_def
    intro!: safe_steps create_safe)

lemma record_groups_safe: "safe env (record_groups env sq estimate_hash cohorts gs)"
  by (induction gs) (auto intro!: safe_steps safe_writes)

lemma rebuild_safe: "safe env (rebuild_statistics env sq estimate_hash k)"
  by (auto simp: rebuild_statistics_def intro!: safe_steps record_groups_safe split: prod.split)

section \<open>Histories\<close>

text \<open>The states the service's operations lead to, whatever they answer.\<close>

inductive routing_step :: "routing_env \<Rightarrow> routing_repo \<Rightarrow> routing_repo \<Rightarrow> bool" for env where
  "register_profile env p r = (r', a) \<Longrightarrow> routing_step env r r'"
| "create_policy policy r = (r', a) \<Longrightarrow> routing_step env r r'"
| "route_static env q policy r = (r', d) \<Longrightarrow> routing_step env r r'"
| "route_shadow env q static policy r = (r', d) \<Longrightarrow> routing_step env r r'"
| "route_explicit_override env q policy h trusted r = (r', d) \<Longrightarrow> routing_step env r r'"
| "route_adaptive env q policy r = (r', d) \<Longrightarrow> routing_step env r r'"
| "route_fallback env q policy previous failure depth r = (r', d) \<Longrightarrow> routing_step env r r'"
| "route_context_fallback env q policy previous tokens depth r = (r', d) \<Longrightarrow> routing_step env r r'"
| "record_outcome x r = (r', a) \<Longrightarrow> routing_step env r r'"
| "ingest_observation y r = (r', a) \<Longrightarrow> routing_step env r r'"
| "project_verified_outcome env int_str x d h r = (r', b) \<Longrightarrow> routing_step env r r'"
| "rebuild_statistics env sq estimate_hash k r = (r', c) \<Longrightarrow> routing_step env r r'"
| "approve_and_enable policy assessment approval signatures r = (r', e) \<Longrightarrow> routing_step env r r'"
| "disable_adaptive_policy policy reason r = (r', e) \<Longrightarrow> routing_step env r r'"

lemma safe_move: "safe env m \<Longrightarrow> m r = (r', x) \<Longrightarrow> routing_moves env r r'"
  by (metis fst_conv safe_def)

lemma routing_step_moves: "routing_step env r r' \<Longrightarrow> routing_moves env r r'"
  by (induction rule: routing_step.induct)
    (auto elim: safe_move [rotated] intro: register_safe create_safe routes_safe override_safe context_safe
      evidence_safe rebuild_safe promotion_safe)

lemma routing_steps_move: "(routing_step env)\<^sup>*\<^sup>* r r' \<Longrightarrow> routing_moves env r r'"
  by (induction rule: rtranclp_induct) (auto intro: routing_moves_trans routing_step_moves)

lemma empty_routing_ok: "routing_ok env empty_routing"
  by (simp add: routing_ok_def empty_routing_def keyed_def chained_def)

end
