(* ===== verification/Routing_Choice.thy ===== *)
theory Routing_Choice
  imports Routing_Inv "HOL-Library.Multiset"
begin

text \<open>
  What a routing decision is: the candidates it considers, the eligible ones, the one it selects and the line of
  fallbacks behind it.
\<close>

section \<open>Steps of the service\<close>

lemma refuse_andthen [simp]:
  "andthen (refuse_if c e) m r = (if c then (r, Inl (RtPolicy e)) else m r)"
  by (simp add: andthen_def bnd_def refuse_if_def throw_def ret_def)

lemma asks_bnd [simp]: "bnd (asks f) g r = g (f r) r"
  by (simp add: bnd_def asks_def)

lemma persisted_andthen [simp]:
  "andthen (require_persisted p) m r = (if repo_get_policy r (rp_policy_id p) (Some (rp_revision p)) \<noteq> Some p
     then (r, Inl (RtPolicy NotPersistedRevision)) else m r)"
  by (simp add: require_persisted_def andthen_def refuse_if_def bnd_def asks_def throw_def ret_def)

lemma profiles_bnd [simp]: "bnd (routed_profiles env) g r = g (repo_query_profiles (rt_identity_hash env) r
     (min (rk_maximum_models (rt_config env)) (rk_maximum_candidate_models (rt_config env)))) r"
  by (simp add: routed_profiles_def)

lemma on_routing_andthen: "andthen (on_routing f) m r = (case f r of Inl e \<Rightarrow> (r, Inl (RtConflict e)) | Inr r' \<Rightarrow> m r')"
  by (simp add: andthen_def bnd_def on_routing_def split: sum.split)

section \<open>Candidates\<close>

definition health_of :: "RoutingRequest \<Rightarrow> ModelCapabilityProfile \<Rightarrow> ProviderHealthSnapshot option" where
  "health_of q p = dict_get (health_by_provider (rrq_provider_registry_snapshot q)) (mi_provider_id (mcp_model_identity p))"

definition eligible_model :: "routing_env \<Rightarrow> RoutingRequest \<Rightarrow> RoutingPolicyRevision \<Rightarrow> ModelCapabilityProfile \<Rightarrow> bool" where
  "eligible_model env q policy p \<longleftrightarrow> filter_model env p q policy (health_of q p) = Inr []"

lemma rank_candidates_Cons:
  assumes "rank_candidates env q policy stats adaptive i (p # ps) = Inr (xs, es)"
  shows "(\<exists>reasons ys. filter_model env p q policy (health_of q p) = Inr reasons \<and> reasons \<noteq> [] \<and>
      xs = reasons @ ys \<and> rank_candidates env q policy stats adaptive (i + 1) ps = Inr (ys, es)) \<or>
    (\<exists>score fs. eligible_model env q policy p \<and> score_model env q policy stats adaptive i p = Inr score \<and>
      es = (p, score) # fs \<and> rank_candidates env q policy stats adaptive (i + 1) ps = Inr (xs, fs))"
  using assms by (auto simp: bind_res_Inr_iff health_of_def eligible_model_def split: if_splits)

text \<open>The eligible candidates, in their order, each with the score of its position.\<close>

lemma rank_candidates_eligible:
  "rank_candidates env q policy stats adaptive i ps = Inr (xs, es) \<Longrightarrow>
   map fst es = filter (eligible_model env q policy) ps"
proof (induction ps arbitrary: i xs es)
  case (Cons p ps)
  from rank_candidates_Cons [OF Cons.prems] Cons.IH show ?case
    by (auto simp: eligible_model_def)
qed simp

lemma rank_candidates_scores:
  "rank_candidates env q policy stats adaptive i ps = Inr (xs, es) \<Longrightarrow>
   (p, score) \<in> set es \<longleftrightarrow> (\<exists>k < length ps. ps ! k = p \<and> eligible_model env q policy p \<and>
     score_model env q policy stats adaptive (i + int k) p = Inr score)"
proof (induction ps arbitrary: i xs es)
  case (Cons p' ps)
  have shift: "(\<exists>k < length (p' # ps). (p' # ps) ! k = p \<and> eligible_model env q policy p \<and>
      score_model env q policy stats adaptive (i + int k) p = Inr score) \<longleftrightarrow>
    (p' = p \<and> eligible_model env q policy p \<and> score_model env q policy stats adaptive i p = Inr score) \<or>
    (\<exists>k < length ps. ps ! k = p \<and> eligible_model env q policy p \<and>
      score_model env q policy stats adaptive (i + 1 + int k) p = Inr score)"
    by (simp add: Ex_less_Suc2 ac_simps)
  from rank_candidates_Cons [OF Cons.prems] show ?case
    unfolding shift using Cons.IH by (auto simp: eligible_model_def)
qed simp

lemma rank_candidates_excluded:
  "rank_candidates env q policy stats adaptive i ps = Inr (xs, es) \<Longrightarrow>
   x \<in> set xs \<longleftrightarrow> (\<exists>p \<in> set ps. \<exists>reasons. filter_model env p q policy (health_of q p) = Inr reasons \<and> x \<in> set reasons)"
proof (induction ps arbitrary: i xs es)
  case (Cons p ps)
  from rank_candidates_Cons [OF Cons.prems] Cons.IH show ?case
    by (auto simp: eligible_model_def) blast+
qed simp

section \<open>The decision\<close>

lemma make_decision_Inr:
  assumes "make_decision env q policy ps stats adaptive static previous fallback = Inr d"
  obtains xs es where "rank_candidates env q policy stats adaptive 0 ps = Inr (xs, es)"
    "rd_selected_model d = (case order_eligible env es of [] \<Rightarrow> None | (p, _) # _ \<Rightarrow> Some (mcp_model_identity p))"
    "rd_fallback_order d = fallback_entries env (rp_maximum_fallback_models policy) (order_eligible env es)"
    "rd_exclusions d = order_exclusions xs" "decision_error d = None"
    "rd_candidate_models d = map (identity_of env) ps"
  using assms by (auto simp: make_decision_def bind_res_Inr_iff Let_def split: option.splits)

lemma route_among_Inr:
  assumes "route_among env q policy ps adaptive static previous fallback r = (r', Inr d)"
  shows "make_decision env q policy ps (repo_list_statistics r 100000) adaptive static previous fallback = Inr d"
    and "dict_get (rr_decisions r') (rd_decision_id d) = Some d"
proof -
  from assms obtain s where s: "repo_record_decision d r = Inr s" "repo_record_access (access_of env q policy d) s = Inr r'"
    and d: "make_decision env q policy ps (repo_list_statistics r 100000) adaptive static previous fallback = Inr d"
    by (auto simp: route_among_def on_routing_andthen bnd_def lift_res_def asks_def ret_def
      split: sum.splits prod.splits)
  from s have "dict_get (rr_decisions s) (rd_decision_id d) = Some d" "rr_decisions r' = rr_decisions s"
    by (auto simp: repo_record_decision_def repo_record_access_def bind_res_Inr_iff dest: once.put_get)
  with d show "make_decision env q policy ps (repo_list_statistics r 100000) adaptive static previous fallback = Inr d"
    "dict_get (rr_decisions r') (rd_decision_id d) = Some d" by simp_all
qed

lemma order_eligible_hd:
  assumes "order_eligible env es = (p, score) # rest"
  shows "(p, score) \<in> set es"
    and "(p', score') \<in> set es \<Longrightarrow> (- rcs_total score, identity_of env p) \<le> (- rcs_total score', identity_of env p')"
proof -
  let ?f = "\<lambda>(p, score). (- rcs_total score, identity_of env p)"
  have sorted: "sorted (map ?f ((p, score) # rest))" and set: "set ((p, score) # rest) = set es"
    using assms sorted_sort_key [of ?f es] set_sort [of ?f es] by (simp_all add: order_eligible_def)
  from set show "(p, score) \<in> set es" by auto
  show "(- rcs_total score, identity_of env p) \<le> (- rcs_total score', identity_of env p')" if "(p', score') \<in> set es"
    using that sorted set by (fastforce simp: sorted_simps)
qed

section \<open>The line of fallbacks\<close>

definition chosen :: "routing_env \<Rightarrow> RoutingDecision \<Rightarrow> string option" where
  "chosen env d = map_option (rt_identity_hash env) (rd_selected_model d)"

definition fallback_models :: "RoutingDecision \<Rightarrow> string list" where
  "fallback_models d = map rfe_model_identity_hash (rd_fallback_order d)"

definition decision_line :: "routing_env \<Rightarrow> RoutingDecision \<Rightarrow> string list" where
  "decision_line env d = (case chosen env d of None \<Rightarrow> [] | Some h \<Rightarrow> [h]) @ fallback_models d"

lemma fallback_entries_models:
  "map rfe_model_identity_hash (fallback_entries env n es) = take (nat n) (drop 1 (map (identity_of env \<circ> fst) es))"
proof -
  have "map rfe_model_identity_hash (map (\<lambda>(i, p, _). \<lparr>rfe_position = int i,
      rfe_model_identity_hash = identity_of env p, rfe_reason = FbProviderUnavailable\<rparr>) (enumerate k xs)) =
      map (identity_of env \<circ> fst) xs" for k and xs :: "(ModelCapabilityProfile \<times> RoutingCandidateScore) list"
    by (induction xs arbitrary: k) auto
  then show ?thesis by (simp only: fallback_entries_def take_map drop_map)
qed

lemma decision_line_eq:
  assumes "make_decision env q policy ps stats adaptive static previous fallback = Inr d"
  obtains ranked where "mset ranked = mset (map (identity_of env) (filter (eligible_model env q policy) ps))"
    "decision_line env d = take (Suc (nat (rp_maximum_fallback_models policy))) ranked"
    "fallback_models d = take (nat (rp_maximum_fallback_models policy)) (drop 1 ranked)"
    "chosen env d = (if ranked = [] then None else Some (hd ranked))"
proof (rule make_decision_Inr [OF assms])
  fix xs es
  let ?n = "nat (rp_maximum_fallback_models policy)" and ?ranked = "map (identity_of env \<circ> fst) (order_eligible env es)"
  assume es: "rank_candidates env q policy stats adaptive 0 ps = Inr (xs, es)"
    and sel: "rd_selected_model d = (case order_eligible env es of [] \<Rightarrow> None | (p, _) # _ \<Rightarrow> Some (mcp_model_identity p))"
    and fb: "rd_fallback_order d = fallback_entries env (rp_maximum_fallback_models policy) (order_eligible env es)"
  have "mset ?ranked = mset (map (identity_of env) (map fst es))"
    by (simp add: order_eligible_def image_mset.compositionality)
  then have m: "mset ?ranked = mset (map (identity_of env) (filter (eligible_model env q policy) ps))"
    by (simp only: rank_candidates_eligible [OF es])
  have f: "fallback_models d = take ?n (drop 1 ?ranked)"
    by (simp add: fallback_models_def fb fallback_entries_models)
  have c: "chosen env d = (if ?ranked = [] then None else Some (hd ?ranked))"
    by (cases "order_eligible env es") (auto simp: chosen_def sel identity_of_def)
  have l: "decision_line env d = take (Suc ?n) ?ranked"
    by (cases "order_eligible env es") (simp_all add: decision_line_def f c)
  from m l f c show thesis by (rule that)
qed

lemma decision_line_distinct:
  assumes "make_decision env q policy ps stats adaptive static previous fallback = Inr d"
    and "distinct (map (identity_of env) ps)"
  shows "distinct (decision_line env d)" "set (decision_line env d) \<subseteq> set (map (identity_of env) ps)"
    "length (decision_line env d) \<le> length ps" "chosen env d = None \<Longrightarrow> fallback_models d = []"
    "length (fallback_models d) \<le> nat (rp_maximum_fallback_models policy)"
proof -
  obtain ranked where m: "mset ranked = mset (map (identity_of env) (filter (eligible_model env q policy) ps))"
    and r: "decision_line env d = take (Suc (nat (rp_maximum_fallback_models policy))) ranked"
      "fallback_models d = take (nat (rp_maximum_fallback_models policy)) (drop 1 ranked)"
      "chosen env d = (if ranked = [] then None else Some (hd ranked))"
    by (rule decision_line_eq [OF assms(1)])
  from m have "set ranked \<subseteq> set (map (identity_of env) ps)" "length ranked \<le> length ps"
    using mset_eq_setD [OF m] mset_eq_length [OF m] length_filter_le by auto
  moreover have "distinct ranked"
    using assms(2) mset_eq_imp_distinct_iff [OF m] by (simp add: distinct_map_filter)
  ultimately show "distinct (decision_line env d)" "set (decision_line env d) \<subseteq> set (map (identity_of env) ps)"
    "length (decision_line env d) \<le> length ps" "chosen env d = None \<Longrightarrow> fallback_models d = []"
    "length (fallback_models d) \<le> nat (rp_maximum_fallback_models policy)"
    by (auto simp: r dest: in_set_takeD split: if_splits)
qed

section \<open>What the repository offers\<close>

lemma keep_newest_keyed:
  assumes "\<forall>(k, p) \<in> set es. fst k = identity_of env p" "keyed (identity_of env) d"
  shows "keyed (identity_of env) (foldl keep_newest d es)"
  using assms
proof (induction es arbitrary: d)
  case (Cons e es)
  then have "keyed (identity_of env) (keep_newest d e)"
    by (auto simp: keep_newest_def intro!: keyed_set split: prod.splits option.splits)
  with Cons show ?case by simp
qed simp

lemma routed_profiles_distinct:
  assumes "routing_ok env r"
  shows "distinct (map (identity_of env) (repo_query_profiles (rt_identity_hash env) r n))"
proof -
  let ?d = "foldl keep_newest [] (rr_profiles r)"
  have "\<forall>(k, p) \<in> set (rr_profiles r). fst k = identity_of env p"
    using assms by (auto simp: routing_ok_def keyed_def profile_key_def)
  then have k: "keyed (identity_of env) ?d"
    by (rule keep_newest_keyed) (simp add: keyed_def)
  then have "map (identity_of env) (map snd ?d) = map fst ?d"
    by (auto simp: keyed_def)
  with k have "distinct (map (identity_of env) (map snd ?d))"
    by (simp only: keyed_def)
  then have "distinct (map (identity_of env) (sort_key (identity_of env) (map snd ?d)))"
    by (metis mset_map mset_sort mset_eq_imp_distinct_iff)
  moreover have "repo_query_profiles (rt_identity_hash env) r n =
      py_take n (sort_key (identity_of env) (map snd ?d))"
    by (simp add: repo_query_profiles_def identity_of_def [abs_def])
  ultimately show ?thesis
    by (auto simp: py_take_def simp flip: take_map)
qed

lemma latest_of_mem: "latest_of f xs = Some x \<Longrightarrow> x \<in> set xs"
  by (induction xs arbitrary: x) (auto split: option.splits if_splits)

lemma get_profile_identity:
  assumes "routing_ok env r" "repo_get_profile r h None = Some p"
  shows "identity_of env p = h"
  using assms latest_of_mem [of mcp_profile_revision _ p]
  by (fastforce simp: repo_get_profile_def routing_ok_def keyed_def profile_key_def)

lemma fallback_profiles_line:
  assumes "routing_ok env r"
  shows "set (map (identity_of env) (fallback_profiles d r)) \<subseteq> set (fallback_models d)"
    "length (fallback_profiles d r) \<le> length (fallback_models d)"
    "distinct (fallback_models d) \<Longrightarrow> distinct (map (identity_of env) (fallback_profiles d r))"
proof -
  have *: "set (map (identity_of env) ps) \<subseteq> set (map rfe_model_identity_hash es) \<and> length ps \<le> length es \<and>
      (distinct (map rfe_model_identity_hash es) \<longrightarrow> distinct (map (identity_of env) ps))"
    if "ps = concat (map (\<lambda>e. case repo_get_profile r (rfe_model_identity_hash e) None of None \<Rightarrow> [] | Some p \<Rightarrow> [p]) es)"
    for ps es
    using that
  proof (induction es arbitrary: ps)
    case (Cons e es)
    note ih = Cons.IH [OF refl]
    show ?case
    proof (cases "repo_get_profile r (rfe_model_identity_hash e) None")
      case None
      with ih show ?thesis by (auto simp: Cons.prems simp del: set_concat)
    next
      case (Some p)
      from get_profile_identity [OF assms Some] ih show ?thesis
        by (auto simp: Cons.prems Some simp del: set_concat)
    qed
  qed simp
  from * [OF fallback_profiles_def [unfolded fallback_profiles_def]]
  show "set (map (identity_of env) (fallback_profiles d r)) \<subseteq> set (fallback_models d)"
    "length (fallback_profiles d r) \<le> length (fallback_models d)"
    "distinct (fallback_models d) \<Longrightarrow> distinct (map (identity_of env) (fallback_profiles d r))"
    by (simp_all add: fallback_profiles_def fallback_models_def)
qed

lemma route_fallback_Inr:
  assumes "route_fallback env q policy d failure depth r = (r', Inr d')"
  obtains stats where "make_decision env q policy (fallback_profiles d r) stats (rp_control_mode policy = ModeAdaptive)
      None (Some (rd_decision_id d)) (Some failure) = Inr d'"
    "chosen env d' \<noteq> None" "1 \<le> depth" "depth \<le> rk_maximum_fallback_depth (rt_config env)"
    "fallback_allowed failure"
proof -
  let ?m = "route_among env q policy (fallback_profiles d r) (rp_control_mode policy = ModeAdaptive) None
      (Some (rd_decision_id d)) (Some failure)"
  from assms have g: "1 \<le> depth" "depth \<le> rk_maximum_fallback_depth (rt_config env)" "fallback_allowed failure"
    and m: "bnd ?m (\<lambda>d. andthen (refuse_if (rd_selected_model d = None) NoFallbackEligible) (ret d)) r = (r', Inr d')"
    by (auto simp: route_fallback_def split: if_splits)
  from m obtain s where "?m r = (s, Inr d')" "chosen env d' \<noteq> None"
    by (auto simp: bnd_def ret_def chosen_def split: prod.splits sum.splits if_splits)
  with g show thesis by (blast intro: that route_among_Inr(1))
qed

end
