(* ===== verification/Routing_Props.thy ===== *)
theory Routing_Props
  imports Routing_Choice
begin

text \<open>
  Properties of the routing plane: the choice of a model, the line of fallbacks, the history the repository
  keeps, budgets, and the gate an adaptive policy has to pass.
\<close>

section \<open>The choice\<close>

definition routing_candidates :: "routing_env \<Rightarrow> routing_repo \<Rightarrow> ModelCapabilityProfile list" where
  "routing_candidates env r = repo_query_profiles (rt_identity_hash env) r
     (min (rk_maximum_models (rt_config env)) (rk_maximum_candidate_models (rt_config env)))"

definition static_rank :: "routing_env \<Rightarrow> RoutingRequest \<Rightarrow> ModelCapabilityProfile list \<Rightarrow> nat \<Rightarrow> int \<times> string" where
  "static_rank env q ps k = (static_priority (identity_of env (ps ! k)) q (int k), identity_of env (ps ! k))"

lemma candidates_distinct: "routing_ok env r \<Longrightarrow> distinct (map (identity_of env) (routing_candidates env r))"
  by (simp only: routing_candidates_def routed_profiles_distinct)

lemma route_static_Inr:
  assumes "route_static env q policy r = (r', Inr d)"
  shows "rp_status policy = PolicyEnabled"
    and "repo_get_policy r (rp_policy_id policy) (Some (rp_revision policy)) = Some policy"
    and "route_among env q policy (routing_candidates env r) False None None None r = (r', Inr d)"
  using assms by (auto simp: route_static_def routing_candidates_def split: if_splits)

lemma static_choice:
  assumes "make_decision env q policy ps stats False None None None = Inr d" "rd_selected_model d = Some m"
  shows "\<exists>k < length ps. mcp_model_identity (ps ! k) = m \<and> eligible_model env q policy (ps ! k) \<and>
    (\<forall>j < length ps. eligible_model env q policy (ps ! j) \<longrightarrow> static_rank env q ps k \<le> static_rank env q ps j)"
proof (rule make_decision_Inr [OF assms(1)])
  fix xs es
  assume es: "rank_candidates env q policy stats False 0 ps = Inr (xs, es)"
    and "rd_selected_model d = (case order_eligible env es of [] \<Rightarrow> None | (p, _) # _ \<Rightarrow> Some (mcp_model_identity p))"
  with assms(2) obtain p score rest where o: "order_eligible env es = (p, score) # rest" "mcp_model_identity p = m"
    by (cases "order_eligible env es") auto
  note mem = rank_candidates_scores [OF es]
  obtain k where k: "k < length ps" "ps ! k = p" "eligible_model env q policy p" "score = static_score env p q (int k)"
    using order_eligible_hd(1) [OF o(1)] by (auto simp: mem score_model_def)
  have "static_rank env q ps k \<le> static_rank env q ps j"
    if j: "j < length ps" "eligible_model env q policy (ps ! j)" for j
  proof -
    have "(ps ! j, static_score env (ps ! j) q (int j)) \<in> set es"
      using j by (auto simp: mem score_model_def)
    from order_eligible_hd(2) [OF o(1) this] show ?thesis
      using k by (auto simp: static_rank_def static_score_def Let_def less_eq_prod_def)
  qed
  with k o(2) show ?thesis by blast
qed

lemma no_choice:
  assumes "make_decision env q policy ps stats adaptive static previous fallback = Inr d"
  shows "rd_selected_model d = None \<longleftrightarrow> (\<forall>p \<in> set ps. \<not> eligible_model env q policy p)"
proof (rule decision_line_eq [OF assms])
  fix ranked
  assume m: "mset ranked = mset (map (identity_of env) (filter (eligible_model env q policy) ps))"
    and c: "chosen env d = (if ranked = [] then None else Some (hd ranked))"
  from m have "ranked = [] \<longleftrightarrow> filter (eligible_model env q policy) ps = []"
    by (metis mset_zero_iff Nil_is_map_conv)
  with c show ?thesis by (auto simp: chosen_def filter_empty_conv split: if_splits)
qed

text \<open>C27. Static routing chooses the best model there is. A decision is made under a policy that is enabled and
  exactly the one on record, and is itself on record. Among the newest profiles it selects one that passes
  every hard filter and has the least operator priority, ties broken by the identity; it selects none exactly
  when no candidate passes.\<close>

theorem static_route_selects_best:
  assumes "route_static env q policy r = (r', Inr d)"
  shows "rp_status policy = PolicyEnabled \<and>
    repo_get_policy r (rp_policy_id policy) (Some (rp_revision policy)) = Some policy \<and>
    dict_get (rr_decisions r') (rd_decision_id d) = Some d \<and>
    (rd_selected_model d = None \<longleftrightarrow> (\<forall>p \<in> set (routing_candidates env r). \<not> eligible_model env q policy p)) \<and>
    (\<forall>m. rd_selected_model d = Some m \<longrightarrow>
      (\<exists>k < length (routing_candidates env r). mcp_model_identity (routing_candidates env r ! k) = m \<and>
        eligible_model env q policy (routing_candidates env r ! k) \<and>
        (\<forall>j < length (routing_candidates env r). eligible_model env q policy (routing_candidates env r ! j) \<longrightarrow>
          static_rank env q (routing_candidates env r) k \<le> static_rank env q (routing_candidates env r) j)))"
proof -
  note s = route_static_Inr [OF assms]
  note d = route_among_Inr [OF s(3)]
  from s(1,2) d(2) no_choice [OF d(1)] static_choice [OF d(1)] show ?thesis by blast
qed

section \<open>Fallbacks\<close>

text \<open>The decisions a chain of fallbacks makes, each from the decision before it, under any requests, policies
  and failures, while the repository moves on.\<close>

inductive fallback_chain :: "routing_env \<Rightarrow> RoutingDecision \<Rightarrow> RoutingDecision list \<Rightarrow> bool" for env where
  chain_end: "fallback_chain env d []"
| chain_step: "route_fallback env q policy d failure depth r = (r', Inr d') \<Longrightarrow> routing_ok env r \<Longrightarrow>
    fallback_chain env d' ds \<Longrightarrow> fallback_chain env d (d' # ds)"

lemma fallback_step_line:
  assumes "route_fallback env q policy d failure depth r = (r', Inr d')" "routing_ok env r"
    and "distinct (fallback_models d)"
  shows "distinct (decision_line env d')" "set (decision_line env d') \<subseteq> set (fallback_models d)"
    "length (decision_line env d') \<le> length (fallback_models d)" "chosen env d' \<noteq> None"
proof -
  obtain stats where m: "make_decision env q policy (fallback_profiles d r) stats (rp_control_mode policy = ModeAdaptive)
      None (Some (rd_decision_id d)) (Some failure) = Inr d'" and c: "chosen env d' \<noteq> None"
    by (rule route_fallback_Inr [OF assms(1)])
  note l = decision_line_distinct [OF m fallback_profiles_line(3) [OF assms(2,3)]]
  from l c show "distinct (decision_line env d')" "set (decision_line env d') \<subseteq> set (fallback_models d)"
    "length (decision_line env d') \<le> length (fallback_models d)" "chosen env d' \<noteq> None"
    using fallback_profiles_line(1,2) [OF assms(2), of d] by (auto simp del: set_map)
qed

lemma fallback_chain_line:
  "fallback_chain env d ds \<Longrightarrow> distinct (fallback_models d) \<Longrightarrow>
   distinct (map (chosen env) ds) \<and> set (map (chosen env) ds) \<subseteq> Some ` set (fallback_models d) \<and>
   length ds \<le> length (fallback_models d)"
proof (induction rule: fallback_chain.induct)
  case (chain_step q policy d failure depth r r' d' ds)
  note l = fallback_step_line [OF chain_step.hyps(1,2) chain_step.prems]
  from l(4) obtain h where h: "chosen env d' = Some h" by blast
  then have line: "decision_line env d' = h # fallback_models d'" by (simp add: decision_line_def)
  with l(1) chain_step.IH have "distinct (map (chosen env) ds) \<and>
      set (map (chosen env) ds) \<subseteq> Some ` set (fallback_models d') \<and> length ds \<le> length (fallback_models d')" by simp
  with l(1-3) h show ?case by (fastforce simp: line)
qed simp

text \<open>C28. Fallbacks end. However a run falls back, with whatever requests, policies and failures, and whatever is
  registered meanwhile, no model is selected twice, every fallback selects a model that the first decision
  ranked behind its choice, and there are no more fallbacks than the policy of that decision allows.\<close>

theorem fallbacks_never_repeat:
  assumes "routing_ok env r" "route_static env q policy r = (r', Inr d)" "fallback_chain env d ds"
  shows "distinct (map (chosen env) (d # ds)) \<and> set (map (chosen env) ds) \<subseteq> Some ` set (fallback_models d) \<and>
    length ds \<le> nat (rp_maximum_fallback_models policy)"
proof -
  note m = route_among_Inr(1) [OF route_static_Inr(3) [OF assms(2)]]
  note l = decision_line_distinct [OF m candidates_distinct [OF assms(1)]]
  from l(1) have "distinct (fallback_models d)" by (simp add: decision_line_def)
  note c = fallback_chain_line [OF assms(3) this]
  show ?thesis
  proof (cases "chosen env d")
    case None
    with l(4) c show ?thesis by simp
  next
    case (Some h)
    with l(1) have "h \<notin> set (fallback_models d)" by (simp add: decision_line_def)
    with Some c l(5) show ?thesis by auto
  qed
qed

section \<open>History\<close>

text \<open>C29. The routing history is only added to. Whatever the operations of the service are called with and answer, in
  any order, no profile, policy, observation, decision, outcome, statistic or access that was recorded changes
  or disappears, every record stays under its own key, every revision of a profile or policy has its
  predecessor, and every outcome has its decision.\<close>

theorem routing_history_is_kept:
  assumes "(routing_step env)\<^sup>*\<^sup>* empty_routing r" "(routing_step env)\<^sup>*\<^sup>* r r'"
  shows "routing_ok env r' \<and> routing_extends r r'"
  using routing_steps_move [OF assms(1)] routing_steps_move [OF assms(2)] empty_routing_ok
  by (simp add: routing_moves_def)

section \<open>Deciding again\<close>

lemma make_decision_id:
  "make_decision env q policy ps stats adaptive static previous fallback = Inr d \<Longrightarrow>
   rd_decision_id d = decision_identifier env q policy (decision_mode policy adaptive static) previous fallback"
  by (auto simp: make_decision_def bind_res_Inr_iff Let_def split: option.splits)

lemma route_among_writes:
  assumes "route_among env q policy ps adaptive static previous fallback r = (r', Inr d)"
  shows "immutable_set (rr_decisions r) (rd_decision_id d) d = Inr (rr_decisions r')"
    "immutable_set (rr_accesses r) (rac_access_id (access_of env q policy d)) (access_of env q policy d) = Inr (rr_accesses r')"
    "rr_statistics r' = rr_statistics r" "rr_profiles r' = rr_profiles r" "rr_policies r' = rr_policies r"
proof -
  from assms obtain s where "repo_record_decision d r = Inr s" "repo_record_access (access_of env q policy d) s = Inr r'"
    by (auto simp: route_among_def on_routing_andthen bnd_def lift_res_def asks_def ret_def
      split: sum.splits prod.splits)
  then show "immutable_set (rr_decisions r) (rd_decision_id d) d = Inr (rr_decisions r')"
    "immutable_set (rr_accesses r) (rac_access_id (access_of env q policy d)) (access_of env q policy d) = Inr (rr_accesses r')"
    "rr_statistics r' = rr_statistics r" "rr_profiles r' = rr_profiles r" "rr_policies r' = rr_policies r"
    by (auto simp: repo_record_decision_def repo_record_access_def bind_res_Inr_iff)
qed

lemma immutable_set_again: "immutable_set d k v = Inr d' \<Longrightarrow> \<exists>d''. immutable_set d' k v = Inr d''"
  using once.put_get [of d k v d'] by (simp add: immutable_set_def)

lemma route_among_again:
  assumes "route_among env q policy ps adaptive static previous fallback r = (r', Inr d)"
  shows "\<exists>r''. route_among env q policy ps adaptive static previous fallback r' = (r'', Inr d)"
proof -
  note w = route_among_writes [OF assms]
  from immutable_set_again [OF w(1)] immutable_set_again [OF w(2)] obtain x y where
    "immutable_set (rr_decisions r') (rd_decision_id d) d = Inr x"
    "immutable_set (rr_accesses r') (rac_access_id (access_of env q policy d)) (access_of env q policy d) = Inr y" by blast
  with route_among_Inr(1) [OF assms] show ?thesis
    by (simp add: route_among_def on_routing_andthen lift_res_def bnd_def asks_def ret_def repo_list_statistics_def w(3)
      repo_record_decision_def repo_record_access_def)
qed

text \<open>C30. A request is decided once. Routing a request again under the same policy at once returns the same decision;
  and whatever is registered, recorded and rebuilt in between, it returns the same decision or raises, never
  another one.\<close>

theorem request_is_decided_once:
  assumes "route_static env q policy r = (r', Inr d)"
  shows "(\<exists>r''. route_static env q policy r' = (r'', Inr d)) \<and>
    (\<forall>s s' d'. (routing_step env)\<^sup>*\<^sup>* r' s \<longrightarrow> route_static env q policy s = (s', Inr d') \<longrightarrow> d' = d)"
proof (intro conjI allI impI)
  note s = route_static_Inr [OF assms]
  note w = route_among_writes [OF s(3)]
  have same: "routing_candidates env r' = routing_candidates env r"
    "repo_get_policy r' i n = repo_get_policy r i n" for i n
    by (simp_all add: routing_candidates_def repo_query_profiles_def repo_get_policy_def w(4,5) cong: option.case_cong)
  from route_among_again [OF s(3)] show "\<exists>r''. route_static env q policy r' = (r'', Inr d)"
    using assms s(2) by (auto simp: route_static_def same routing_candidates_def [symmetric] split: if_splits)
  fix t t' d'
  assume "(routing_step env)\<^sup>*\<^sup>* r' t" "route_static env q policy t = (t', Inr d')"
  note d' = route_static_Inr(3) [OF this(2)] and moved = routing_steps_move [OF this(1)]
  have "rd_decision_id d' = rd_decision_id d"
    using make_decision_id [OF route_among_Inr(1) [OF d']] make_decision_id [OF route_among_Inr(1) [OF s(3)]] by simp
  moreover have "dict_get (rr_decisions t) (rd_decision_id d) = Some d"
    using route_among_Inr(2) [OF s(3)] moved by (auto simp: routing_moves_def routing_extends_def map_le_def dom_def)
  ultimately show "d' = d" using once.put_known [OF route_among_writes(1) [OF d']] by simp
qed

text \<open>The third cohort of a signature does not name its risk: under a policy with risk constraints, statistics of
  any risk level count.\<close>

lemma risk_cohorts_mix:
  "map coh_task_signature_hash (cohort_chain env (t\<lparr>sg_risk_level := other\<rparr>)) ! 2 =
   map coh_task_signature_hash (cohort_chain env t) ! 2"
  by (simp add: cohort_chain_def cohort_levels_def Let_def numeral_2_eq_2)

section \<open>Budgets\<close>

definition budget_within :: "RoutingBudget \<Rightarrow> RoutingBudget \<Rightarrow> bool" where
  "budget_within a b \<longleftrightarrow> rb_maximum_calls a \<le> rb_maximum_calls b \<and> rb_maximum_tokens a \<le> rb_maximum_tokens b \<and>
     rb_maximum_tool_calls a \<le> rb_maximum_tool_calls b \<and> rb_maximum_seconds a \<le> rb_maximum_seconds b \<and>
     (case rb_maximum_cost_units b of None \<Rightarrow> True
      | Some c \<Rightarrow> (case rb_maximum_cost_units a of None \<Rightarrow> False | Some c' \<Rightarrow> c' \<le> c))"

lemma cost_intersection:
  assumes "set cs = {c. \<exists>b \<in> set bs. rb_maximum_cost_units b = Some c}"
  shows "(case (if cs = [] then None else Some (Min (set cs))) of None \<Rightarrow> True
      | Some c \<Rightarrow> (case y of None \<Rightarrow> False | Some c' \<Rightarrow> c' \<le> c)) \<longleftrightarrow>
    (\<forall>b \<in> set bs. case rb_maximum_cost_units b of None \<Rightarrow> True
      | Some c \<Rightarrow> (case y of None \<Rightarrow> False | Some c' \<Rightarrow> c' \<le> c))"
proof (cases "cs = []")
  case True
  with assms have "\<not> (\<exists>b \<in> set bs. rb_maximum_cost_units b = Some c)" for c by (simp add: set_eq_iff)
  then have "\<forall>b \<in> set bs. rb_maximum_cost_units b = None" by (meson not_Some_eq)
  with True show ?thesis by simp
next
  case False
  show ?thesis
  proof (cases y)
    case None
    from False have "hd cs \<in> set cs" by simp
    then obtain b where "b \<in> set bs" "rb_maximum_cost_units b = Some (hd cs)" unfolding assms by blast
    then have "\<not> (\<forall>b \<in> set bs. case rb_maximum_cost_units b of None \<Rightarrow> True
        | Some c \<Rightarrow> (case y of None \<Rightarrow> False | Some c' \<Rightarrow> c' \<le> c))" by (force simp: None)
    with False show ?thesis by (simp add: None cong: option.case_cong)
  next
    case (Some a)
    have "a \<le> Min (set cs) \<longleftrightarrow> (\<forall>c \<in> set cs. a \<le> c)" using False by simp
    with False Some show ?thesis by (auto simp: assms split: option.splits)
  qed
qed

lemma intersect_greatest:
  assumes "bs \<noteq> []"
  shows "budget_within x (intersect_budgets bs) \<longleftrightarrow> (\<forall>b \<in> set bs. budget_within x b)"
proof -
  let ?costs = "concat (map (\<lambda>b. case rb_maximum_cost_units b of None \<Rightarrow> [] | Some c \<Rightarrow> [c]) bs)"
  have m: "v \<le> Min (set (map f bs)) \<longleftrightarrow> (\<forall>b \<in> set bs. v \<le> f b)" for f :: "RoutingBudget \<Rightarrow> 'a::linorder" and v
    using assms by simp
  have "set ?costs = {c. \<exists>b \<in> set bs. rb_maximum_cost_units b = Some c}"
    by (auto split: option.splits)
  note c = cost_intersection [OF this, of "rb_maximum_cost_units x"]
  show ?thesis
    unfolding budget_within_def intersect_budgets_def Let_def RoutingBudget.simps m c by blast
qed

text \<open>C32. The effective budget is the greatest one within all of them. A budget is within the intersection exactly when
  it is within every budget that was intersected, so the intersection itself is within each, and a plan over
  several models is within the controller's, the policy's, the strategy's and the pattern's budgets, with no
  more roles than any of them allows calls.\<close>

theorem effective_budget_is_greatest:
  assumes "build_multi_model_plan i pattern roles controller policy strategy bound verifier plan = Inr p"
  shows "(\<forall>x. budget_within x (mme_effective_budget p) \<longleftrightarrow>
      (\<forall>b \<in> {controller, policy, strategy, bound}. budget_within x b)) \<and>
    (\<forall>b \<in> {controller, policy, strategy, bound}. budget_within (mme_effective_budget p) b \<and>
      int (length (mme_roles p)) \<le> rb_maximum_calls b) \<and> map mmr_role (mme_roles p) = mmp_roles pattern"
proof -
  let ?bs = "[controller, policy, strategy, bound]"
  from assms have e: "mme_effective_budget p = intersect_budgets ?bs" "map mmr_role (mme_roles p) = mmp_roles pattern"
    "int (length (mme_roles p)) \<le> rb_maximum_calls (intersect_budgets ?bs)"
    by (auto simp: build_multi_model_plan_def Let_def split: if_splits)
  have g: "budget_within x (intersect_budgets ?bs) \<longleftrightarrow> (\<forall>b \<in> set ?bs. budget_within x b)" for x
    by (rule intersect_greatest) simp
  have "budget_within (intersect_budgets ?bs) (intersect_budgets ?bs)"
    by (auto simp: budget_within_def split: option.split)
  with g have w: "\<forall>b \<in> set ?bs. budget_within (intersect_budgets ?bs) b" by blast
  then have "\<forall>b \<in> set ?bs. int (length (mme_roles p)) \<le> rb_maximum_calls b"
    using e(3) by (auto simp: budget_within_def)
  with g w e(2) show ?thesis by (simp add: e(1))
qed

section \<open>Adaptive policies\<close>

lemma succeed_policy_Inr:
  assumes "succeed_policy p r = (r', Inr p')"
  shows "p' = p" "routing_policy_error p = None" "repo_create_policy p r = Inr r'"
    "dict_get (rr_policies r') (rp_policy_id p, rp_revision p) = Some p"
proof -
  have "p' = p \<and> routing_policy_error p = None \<and> repo_create_policy p r = Inr r'"
    using assms by (auto simp: succeed_policy_def create_policy_def on_routing_andthen bnd_def lift_res_def ret_def construct_def
      split: sum.splits prod.splits option.splits)
  then show "p' = p" "routing_policy_error p = None" "repo_create_policy p r = Inr r'"
    "dict_get (rr_policies r') (rp_policy_id p, rp_revision p) = Some p"
    by (auto simp: repo_create_policy_def bind_res_Inr_iff revision_set_def split: if_splits)
qed

lemma gate_reasons_Nil:
  "gate_reasons k samples cases quality safety regression fallback replay = [] \<longleftrightarrow>
   rk_minimum_adaptive_samples k \<le> samples \<and> rk_minimum_shadow_cases k \<le> cases \<and>
   rk_minimum_required_quality_improvement k \<le> quality \<and> safety \<le> rk_maximum_allowed_safety_regression k \<and>
   regression \<le> rk_maximum_allowed_policy_regression k \<and> fallback \<and> replay"
  by (auto simp: gate_reasons_def filter_empty_conv)

text \<open>C33. No adaptive policy is enabled without passing the gate. When an assessed policy is approved and enabled, the
  assessment had the samples, the shadow cases and the improvement the configuration asks for, no regression
  beyond it, and validated fallback and replay; the approval is not empty; approval and enablement are two
  revisions on record, in sequence, limited to the approved task signatures.\<close>

theorem enablement_passes_the_gate:
  assumes "approve_and_enable policy (assess_promotion env assessed x samples quality safety regression fallback replay reference)
      approval signatures r = (r', Inr enabled)"
  shows "rk_minimum_adaptive_samples (rt_config env) \<le> samples \<and>
    rk_minimum_shadow_cases (rt_config env) \<le> int (length (rer_results x)) \<and>
    rk_minimum_required_quality_improvement (rt_config env) \<le> quality \<and>
    safety \<le> rk_maximum_allowed_safety_regression (rt_config env) \<and>
    regression \<le> rk_maximum_allowed_policy_regression (rt_config env) \<and> fallback \<and> replay \<and>
    rp_policy_id assessed = rp_policy_id policy \<and> py_strip approval \<noteq> [] \<and>
    enabled = next_policy (approved_policy policy approval signatures) PolicyEnabled
      ''bounded adaptive policy explicitly enabled'' \<and>
    repo_get_policy r' (rp_policy_id policy) (Some (rp_revision policy + 1)) = Some (approved_policy policy approval signatures) \<and>
    repo_get_policy r' (rp_policy_id policy) (Some (rp_revision policy + 2)) = Some enabled"
proof -
  let ?a = "assess_promotion env assessed x samples quality safety regression fallback replay reference"
  let ?p = "approved_policy policy approval signatures"
  let ?e = "next_policy ?p PolicyEnabled ''bounded adaptive policy explicitly enabled''"
  from assms have gate: "rpa_eligible_for_approval ?a" "rpa_policy_id ?a = rp_policy_id policy"
    by (auto simp: approve_and_enable_def split: if_splits)
  with assms obtain s where s: "succeed_policy ?p r = (s, Inr ?p)" "succeed_policy ?e s = (r', Inr enabled)"
    by (auto simp: approve_and_enable_def bnd_def dest: succeed_policy_Inr(1) split: prod.splits sum.splits)
  note p = succeed_policy_Inr [OF s(1)] and e = succeed_policy_Inr [OF s(2)]
  have keys: "rp_policy_id ?p = rp_policy_id policy" "rp_revision ?p = rp_revision policy + 1"
    "rp_policy_id ?e = rp_policy_id policy" "rp_revision ?e = rp_revision policy + 2"
    "rp_operator_approval_reference ?p = Some (py_strip approval)"
    by (simp_all add: approved_policy_def next_policy_def)
  from p(2) keys(5) have "py_strip approval \<noteq> []"
    by (auto simp: routing_policy_error_def first_error_append opt_non_empty_def non_empty_str_def split: if_splits)
  moreover have "dict_get (rr_policies r') (rp_policy_id policy, rp_revision policy + 1) = Some ?p"
    using p(4) e(3) keys
    by (auto simp: repo_create_policy_def bind_res_Inr_iff revision_set_def split: if_splits)
  ultimately show ?thesis
    using gate e(1,4) keys
    by (auto simp: repo_get_policy_def assess_promotion_def Let_def gate_reasons_Nil)
qed

text \<open>The result of a route does not depend on policies other than its own.\<close>

lemma route_among_policies:
  "snd (route_among env q policy ps adaptive static previous fallback (r\<lparr>rr_policies := d\<rparr>)) =
   snd (route_among env q policy ps adaptive static previous fallback r)"
  by (auto simp: route_among_def on_routing_andthen bnd_def asks_def lift_res_def ret_def repo_list_statistics_def
    repo_record_decision_def repo_record_access_def bind_res_def split: sum.splits)


end
