(* ===== verification/Routing_Bounds.thy ===== *)
theory Routing_Bounds
  imports Routing_Choice
begin

text \<open>
  Bounds on what the routing plane computes from observations: estimates of rates are intervals within 0 and 1,
  uncertainties are within 0 and 1, and so is the uncertainty of every adaptive score built from them.
\<close>

section \<open>Rounding\<close>

lemma half_even_bounds: "\<lfloor>x\<rfloor> \<le> half_even x \<and> half_even x \<le> \<lfloor>x\<rfloor> + 1"
  by (simp add: half_even_def Let_def)

lemma half_even_mono:
  assumes "x \<le> y"
  shows "half_even x \<le> half_even y"
proof (cases "\<lfloor>x\<rfloor> = \<lfloor>y\<rfloor>")
  case True
  with assms show ?thesis by (simp add: half_even_def Let_def)
next
  case False
  with floor_mono [OF assms] have "\<lfloor>x\<rfloor> + 1 \<le> \<lfloor>y\<rfloor>" by simp
  with half_even_bounds [of x] half_even_bounds [of y] show ?thesis by linarith
qed

lemma half_even_of_int [simp]: "half_even (of_int n) = n"
  by (simp add: half_even_def Let_def)

lemma half_even_near:
  assumes "of_int n - 1 / 2 < x" "x < of_int n + 1 / 2"
  shows "half_even x = n"
proof -
  have "\<lfloor>x\<rfloor> = n \<or> \<lfloor>x\<rfloor> = n - 1" using assms by linarith
  then show ?thesis using assms by (auto simp: half_even_def Let_def)
qed

lemma quantize6_near:
  assumes "of_int n - 1 / 2 < x * 1000000" "x * 1000000 < of_int n + 1 / 2" "\<bar>n\<bar> < 10 ^ 28"
  shows "quantize6 x = Some (of_int n / 1000000)"
  using assms by (simp add: quantize6_def half_even_near)

lemma in_context_le_1:
  assumes "0 \<le> x" "x \<le> 1"
  shows "in_context x \<le> 1"
proof (cases "x = 0")
  case False
  have a: "adjusted x \<le> 0"
  proof (cases "x = 1")
    case True
    then show ?thesis by (simp add: adjusted_def extra_digits.simps)
  next
    case False
    with assms show ?thesis by (simp add: adjusted_def)
  qed
  let ?u = "power_of_ten (adjusted x - 27)"
  define n :: int where "n = 10 ^ nat (27 - adjusted x)"
  have u: "?u = 1 / of_int n" and n: "0 < n" using a by (simp_all add: power_of_ten_def n_def)
  have "x / ?u \<le> of_int n" using assms(2) n by (simp add: u)
  then have "half_even (x / ?u) \<le> n" using half_even_mono by fastforce
  then have "of_int (half_even (x / ?u)) \<le> (of_int n :: rat)" by simp
  with n False show ?thesis by (simp add: in_context_def Let_def u)
qed (simp add: in_context_def)

lemma quantize6_mono:
  assumes "quantize6 x = Some a" "quantize6 y = Some b" "x \<le> y"
  shows "a \<le> b"
  using assms half_even_mono [of "x * 1000000" "y * 1000000"]
  by (auto simp: quantize6_def Let_def divide_right_mono split: if_splits)

lemma quantize6_unit:
  assumes "quantize6 x = Some a"
  shows "0 \<le> x \<Longrightarrow> 0 \<le> a" "x \<le> 1 \<Longrightarrow> a \<le> 1"
proof -
  have "quantize6 0 = Some 0" "quantize6 1 = Some 1"
    using half_even_of_int [of 0] half_even_of_int [of 1000000] by (simp_all add: quantize6_def)
  with assms show "0 \<le> x \<Longrightarrow> 0 \<le> a" "x \<le> 1 \<Longrightarrow> a \<le> 1" by (blast intro: quantize6_mono)+
qed

section \<open>Estimates\<close>

definition unit_interval :: "decimal \<Rightarrow> bool" where
  "unit_interval x \<longleftrightarrow> 0 \<le> x \<and> x \<le> 1"

definition rate_interval :: "CapabilityEstimate \<Rightarrow> bool" where
  "rate_interval e \<longleftrightarrow> (case (est_estimate e, est_lower_bound e, est_upper_bound e) of
     (Some x, Some l, Some u) \<Rightarrow> 0 < est_sample_count e \<and> unit_interval x \<and> 0 \<le> l \<and> l \<le> u \<and> u \<le> 1
   | (None, None, None) \<Rightarrow> est_sample_count e = 0
   | _ \<Rightarrow> False)"

definition estimate_bounded :: "CapabilityEstimate \<Rightarrow> bool" where
  "estimate_bounded e \<longleftrightarrow> unit_interval (est_uncertainty e) \<and> 0 \<le> est_sample_count e \<and> 0 \<le> est_missing_count e \<and>
     est_effective_sample_count e = est_sample_count e"

lemma wilson_parts:
  assumes sq: "\<forall>x \<ge> 0. 0 \<le> sq x" and "0 \<le> s" "s \<le> n" "0 < n"
  shows "0 \<le> wilson_margin sq s n" "0 \<le> wilson_center s n" "wilson_center s n \<le> 1"
proof -
  define p :: rat where "p = of_int s / of_int n"
  define w :: rat where "w = wilson_z * wilson_z"
  define t :: rat where "t = of_int n"
  have p: "0 \<le> p" "p \<le> 1" using assms(2-4) by (simp_all add: p_def)
  have w: "0 < w" "0 < wilson_z" by (simp_all add: w_def wilson_z_def)
  have t: "0 < t" using assms(4) by (simp add: t_def)
  have "0 \<le> sq ((p * (1 - p) + w / (4 * t)) / t)" using p w t sq by simp
  moreover have "wilson_margin sq s n = wilson_z * sq ((p * (1 - p) + w / (4 * t)) / t) / (1 + w / t)"
    by (simp add: wilson_margin_def Let_def p_def w_def t_def)
  ultimately show "0 \<le> wilson_margin sq s n" using w t by simp
  have c: "wilson_center s n = (p + w / (2 * t)) / (1 + w / t)"
    by (simp add: wilson_center_def Let_def p_def w_def t_def)
  from p w t show "0 \<le> wilson_center s n" by (simp add: c)
  have "w / (2 * t) \<le> w / t" using w t by (simp add: field_simps)
  with p w t have "p + w / (2 * t) \<le> 1 + w / t" "0 < 1 + w / t" by (simp_all add: add_mono add_pos_pos)
  then show "wilson_center s n \<le> 1" by (simp add: c)
qed

lemma wilson_interval_bounds:
  assumes "\<forall>x \<ge> 0. 0 \<le> sq x" "0 \<le> s" "s \<le> n" "wilson_interval sq s n = Some i"
  shows "case i of None \<Rightarrow> n = 0 | Some (x, l, u) \<Rightarrow> 0 < n \<and> unit_interval x \<and> 0 \<le> l \<and> l \<le> u \<and> u \<le> 1"
proof (cases "n = 0")
  case False
  with assms(2,3) have n: "0 < n" by simp
  note w = wilson_parts [OF assms(1-3) n]
  from assms(4) False obtain x l u where i: "i = Some (x, l, u)" "quantize6 (of_int s / of_int n) = Some x"
    "quantize6 (max 0 (wilson_center s n - wilson_margin sq s n)) = Some l"
    "quantize6 (min 1 (wilson_center s n + wilson_margin sq s n)) = Some u"
    by (auto simp: wilson_interval_def Let_def split: option.splits)
  have "unit_interval x" using quantize6_unit [OF i(2)] assms(2,3) n by (simp add: unit_interval_def)
  moreover have "0 \<le> l" "u \<le> 1" using quantize6_unit [OF i(3)] quantize6_unit [OF i(4)] by simp_all
  moreover have "l \<le> u" by (rule quantize6_mono [OF i(3,4)]) (use w in auto)
  ultimately show ?thesis using i(1) n by simp
qed (use assms(4) in \<open>auto simp: wilson_interval_def\<close>)

lemma share_bounds: "0 \<le> share n" "share n \<le> 1"
  by (auto simp: share_def intro!: in_context_nonneg in_context_le_1)

lemma length_present: "length (present xs) \<le> length xs"
  by (induction xs) (auto simp: present_def split: option.splits)

lemma binary_estimate_bounds:
  assumes "\<forall>x \<ge> 0. 0 \<le> sq x" "binary_estimate sq dimension raw counts = Some e"
  shows "estimate_bounded e \<and> rate_interval e"
proof -
  let ?n = "int (length (present raw))" and ?s = "int (length (filter id (present raw)))"
  from assms(2) obtain i where i: "wilson_interval sq ?s ?n = Some i"
    by (auto simp: binary_estimate_def Let_def split: option.splits)
  have "case i of None \<Rightarrow> ?n = 0 | Some (x, l, u) \<Rightarrow> 0 < ?n \<and> unit_interval x \<and> 0 \<le> l \<and> l \<le> u \<and> u \<le> 1"
    by (rule wilson_interval_bounds [OF assms(1) _ _ i]) simp_all
  moreover define width where "width = (case i of None \<Rightarrow> 1 | Some (_, lower, upper) \<Rightarrow> dec_sub upper lower)"
  ultimately have w: "0 \<le> width"
    by (auto simp: width_def dec_sub_def intro!: in_context_nonneg split: option.splits)
  from assms(2) i obtain u where u: "quantize6 (min 1 (dec_add width (share ?n))) = Some u" and
    e: "est_uncertainty e = u" "est_sample_count e = ?n" "est_effective_sample_count e = ?n"
      "est_missing_count e = int (length raw) - ?n" "est_estimate e = map_option fst i"
      "est_lower_bound e = map_option (fst \<circ> snd) i" "est_upper_bound e = map_option (snd \<circ> snd) i"
    by (auto simp: binary_estimate_def Let_def width_def)
  have "unit_interval u"
    using quantize6_unit [OF u] w share_bounds by (simp add: unit_interval_def dec_add_nonneg)
  then show ?thesis
    using \<open>case i of None \<Rightarrow> ?n = 0 | Some (x, l, u) \<Rightarrow> 0 < ?n \<and> unit_interval x \<and> 0 \<le> l \<and> l \<le> u \<and> u \<le> 1\<close> e
      length_present [of raw]
    by (cases i) (auto simp: estimate_bounded_def rate_interval_def)
qed

lemma continuous_estimate_bounds:
  assumes "continuous_estimate dimension raw counts = Some e"
  shows "estimate_bounded e"
proof -
  let ?n = "int (length (sort (present raw)))"
  from assms obtain u where "quantize6 (share ?n) = Some u" "est_uncertainty e = u" "est_sample_count e = ?n"
    "est_effective_sample_count e = ?n" "est_missing_count e = int (length raw) - ?n"
    by (auto simp: continuous_estimate_def Let_def split: option.splits)
  with quantize6_unit [of "share ?n" u] share_bounds length_present [of raw] show ?thesis
    by (simp add: estimate_bounded_def unit_interval_def)
qed

lemma dimension_kept:
  "binary_estimate sq dimension raw counts = Some e \<Longrightarrow> est_dimension e = dimension"
  "continuous_estimate dimension values counts = Some e \<Longrightarrow> est_dimension e = dimension"
  by (auto simp: binary_estimate_def continuous_estimate_def Let_def split: option.splits)

lemma all_some_mem: "all_some xs = Some ys \<Longrightarrow> y \<in> set ys \<Longrightarrow> Some y \<in> set xs"
  by (induction xs arbitrary: ys rule: all_some.induct) auto

lemma group_estimates_bounds:
  assumes "\<forall>x \<ge> 0. 0 \<le> sq x" "group_estimates sq xs = Some es" "e \<in> set es"
  shows "estimate_bounded e \<and> (est_dimension e \<notin> {Latency, CostUnits} \<longrightarrow> rate_interval e)"
  using all_some_mem [OF assms(2) [unfolded group_estimates_def Let_def] assms(3)]
    binary_estimate_bounds [OF assms(1)] continuous_estimate_bounds dimension_kept
  by (auto simp: eq_commute [of "Some e"])

section \<open>Statistics and scores\<close>

lemma record_groups_mem:
  "record_groups env sq estimate_hash cohorts gs r = (r', Inr xs) \<Longrightarrow> x \<in> set xs \<Longrightarrow>
   \<exists>g \<in> set gs. group_statistics env sq estimate_hash cohorts g = Inr x"
proof (induction gs arbitrary: r xs)
  case (Cons g gs)
  then show ?case
    by (fastforce simp: bnd_def andthen_def lift_res_def ret_def on_routing_def split: prod.splits sum.splits)
qed (simp add: ret_def)

definition statistics_bounded :: "RoutingStatistics \<Rightarrow> bool" where
  "statistics_bounded x \<longleftrightarrow> (\<forall>e \<in> set (ests_estimates (rst_estimates x)).
     estimate_bounded e \<and> (est_dimension e \<notin> {Latency, CostUnits} \<longrightarrow> rate_interval e))"

lemma rebuilt_bounded:
  assumes "\<forall>x \<ge> 0. 0 \<le> sq x" "rebuild_statistics env sq estimate_hash k r = (r', Inr xs)" "x \<in> set xs"
  shows "statistics_bounded x"
proof -
  obtain cohorts gs where g: "record_groups env sq estimate_hash cohorts gs r = (r', Inr xs)"
    using assms(2) by (auto simp: rebuild_statistics_def split: prod.splits if_splits)
  from record_groups_mem [OF g assms(3)] show ?thesis
    using group_estimates_bounds [OF assms(1)]
    by (auto simp: group_statistics_def statistics_bounded_def Let_def split: option.splits)
qed

lemma dict_of_values: "v \<in> ran (dict_get (foldl (\<lambda>d x. dict_set d (k x) x) d xs)) \<Longrightarrow> v \<in> ran (dict_get d) \<or> v \<in> set xs"
proof (induction xs arbitrary: d)
  case (Cons x xs)
  from Cons.prems have "v \<in> ran ((dict_get d)(k x \<mapsto> x)) \<or> v \<in> set xs"
    using Cons.IH [of "dict_set d (k x) x"] by (simp add: fun_upd_def)
  then show ?case by (auto simp: ran_def split: if_splits)
qed simp

lemma estimates_of_mem:
  "dict_get (estimates_of (Some s)) name = Some e \<Longrightarrow> e \<in> set (ests_estimates (rst_estimates s))"
  unfolding estimates_of_def option.case
  using dict_of_values [of e "\<lambda>e. dimension_value (est_dimension e)" "[]" "ests_estimates (rst_estimates s)"]
  by (auto simp: ran_def)

lemma score_uncertainty_unit:
  assumes "\<And>name e. dict_get d name = Some e \<Longrightarrow> unit_interval (est_uncertainty e)"
  shows "unit_interval (score_uncertainty d ws)"
proof -
  have "unit_interval u \<Longrightarrow> unit_interval (foldl (\<lambda>u (name, _). case dict_get d name of None \<Rightarrow> u
     | Some e \<Rightarrow> min u (est_uncertainty e)) u ws)" for u
    using assms by (induction ws arbitrary: u) (fastforce simp: unit_interval_def min_def split: option.splits)+
  then show ?thesis by (simp add: score_uncertainty_def unit_interval_def)
qed

lemma index_of_nonneg: "0 \<le> index_of x ys"
  by (induction ys) auto

lemma select_statistics_mem: "select_statistics d n cs = Some x \<Longrightarrow> x \<in> ran (dict_get d)"
  by (induction cs) (auto simp: ran_def split: option.splits if_splits)

lemma score_statistics_mem:
  assumes "score_statistics env h t policy stats = Some x"
  shows "x \<in> set stats"
  using select_statistics_mem [OF assms [unfolded score_statistics_def]]
    dict_of_values [of x "\<lambda>x. coh_task_signature_hash (rst_cohort x)" "[]"]
  by (fastforce simp: matching_by_cohort_def)

text \<open>C31. Estimates and uncertainties stay within their bounds. Given only that a square root is not negative, every
  statistic a rebuild records has rates that are intervals within 0 and 1 and uncertainties within 0 and 1,
  and an adaptive score from such statistics has an uncertainty within 0 and 1, so the contract of the score
  never refuses it.\<close>

theorem scores_are_bounded:
  assumes "\<forall>x \<ge> 0. 0 \<le> sq x" "rebuild_statistics env sq estimate_hash k r = (r', Inr xs)"
    and "set stats \<subseteq> set xs" "adaptive_score env p q policy stats = Inr score"
  shows "(\<forall>x \<in> set xs. statistics_bounded x) \<and> 0 \<le> rcs_uncertainty score \<and> rcs_uncertainty score \<le> 1"
proof -
  note b = rebuilt_bounded [OF assms(1,2)]
  let ?found = "score_statistics env (identity_of env p) (rrq_task_signature q) policy stats"
  have "unit_interval (score_uncertainty (estimates_of ?found) (rp_score_weights policy))"
  proof (rule score_uncertainty_unit)
    fix name e assume e: "dict_get (estimates_of ?found) name = Some e"
    then obtain s where s: "?found = Some s" by (cases ?found) (auto simp: estimates_of_def)
    from b score_statistics_mem [OF s] assms(3) have "statistics_bounded s" by blast
    with estimates_of_mem e s show "unit_interval (est_uncertainty e)"
      by (auto simp: statistics_bounded_def estimate_bounded_def)
  qed
  then have "unit_interval (adaptive_uncertainty env (rrq_task_signature q) policy ?found)"
    by (auto simp: adaptive_uncertainty_def Let_def unit_interval_def cohort_generality_def index_of_nonneg
      intro!: dec_add_nonneg dec_mul_nonneg split: option.splits)
  moreover have "rcs_uncertainty score = adaptive_uncertainty env (rrq_task_signature q) policy ?found"
    using assms(4) by (auto simp: adaptive_score_def Let_def split: option.splits)
  ultimately show ?thesis using b by (simp add: unit_interval_def)
qed

end
