(* ===== verification/Routing_Samples.thy ===== *)
theory Routing_Samples
  imports Routing_Props Routing_Bounds
begin

text \<open>The properties of the routing plane at concrete inputs: two models, a request and policies over them.\<close>

definition sample_router :: routing_env where
  "sample_router = \<lparr>rt_identity_hash = mi_model_id, rt_profile_hash = mcp_reason, rt_signature_hash = sg_risk_level,
     rt_unskilled_json = sg_problem_class, rt_cohort_hash = coh_cohort_level, rt_statistics_hash = rst_model_identity_hash,
     rt_policy_hash = rp_policy_id, rt_request_hash = rrq_step_id, rt_decision_hash = rd_reason,
     rt_outcome_hash = ro_safety_result, rt_experiment_hash = (\<lambda>_. ''x''), rt_sha256 = id,
     rt_uuid5 = (\<lambda>_. 7), rt_float_str = (\<lambda>_. ''0''),
     rt_config = \<lparr>rk_maximum_models = 256, rk_maximum_candidate_models = 32, rk_maximum_observations_per_import = 10000,
       rk_maximum_fallback_depth = 4, rk_minimum_measured_samples = 5, rk_minimum_adaptive_samples = 30,
       rk_minimum_shadow_cases = 1, rk_minimum_required_quality_improvement = 2 / 100,
       rk_maximum_allowed_safety_regression = 0, rk_maximum_allowed_policy_regression = 0,
       rk_adaptive_execution_enabled = False, rk_shadow_execution_enabled = False, rk_exploration_enabled = False,
       rk_learned_routing_enabled = False, rk_allow_provider_self_reported_measurements = False,
       rk_allow_automatic_policy_promotion = False, rk_allow_automatic_provider_enablement = False,
       rk_allow_credential_storage = False, rk_allow_external_routing_runtime = False,
       rk_allow_unbounded_multi_model_patterns = False\<rparr>\<rparr>"

definition sample_profile :: "string \<Rightarrow> ModelCapabilityProfile" where
  "sample_profile model = \<lparr>mcp_model_identity = \<lparr>mi_provider_id = ''p'', mi_model_id = model, mi_model_revision = ''1'',
       mi_endpoint_profile = ''e'', mi_execution_mode = ''m''\<rparr>,
     mcp_profile_revision = 1, mcp_previous_revision = None, mcp_status = ProfileVerified,
     mcp_declared_capabilities = [], mcp_measured_capabilities = None, mcp_supported_domains = [],
     mcp_structured_output_support = Supported, mcp_tool_call_support = Supported, mcp_context_limit = Some 1000,
     mcp_input_modalities = [''text''], mcp_output_modalities = [''text''], mcp_availability_reference = None,
     mcp_source_refs = [], mcp_created_at = 0, mcp_created_by = ''o'', mcp_reason = ''r''\<rparr>"

definition sample_routing_budget :: RoutingBudget where
  "sample_routing_budget = \<lparr>rb_maximum_calls = 1, rb_maximum_tokens = 100, rb_maximum_tool_calls = 0,
     rb_maximum_seconds = 10, rb_maximum_cost_units = None\<rparr>"

definition sample_routing_policy :: "RoutingControlMode \<Rightarrow> RoutingPolicyRevision" where
  "sample_routing_policy mode = \<lparr>rp_policy_id = ''s'', rp_revision = 1, rp_previous_revision = None,
     rp_status = PolicyEnabled, rp_control_mode = mode, rp_candidate_filters = [], rp_minimum_samples = 0,
     rp_score_weights = [], rp_uncertainty_penalty = 1 / 4, rp_maximum_fallback_models = 8,
     rp_role_patterns = [SingleModel], rp_risk_constraints = [], rp_budget_constraints = sample_routing_budget,
     rp_allowed_task_signature_hashes = [], rp_operator_approval_reference = Some ''a'', rp_created_at = 0,
     rp_created_by = ''o'', rp_reason = ''r''\<rparr>"

definition sample_routing_request :: RoutingRequest where
  "sample_routing_request = \<lparr>rrq_routing_request_id = 1, rrq_task_run_id = 2, rrq_step_id = ''q'',
     rrq_task_signature = \<lparr>sg_problem_domain = ''d'', sg_problem_class = ''c'', sg_output_type = ''t'',
       sg_repository_profile = ''u'', sg_estimated_complexity = ComplexUnknown, sg_required_tool_capabilities = [],
       sg_required_structured_output = False, sg_context_size_class = ContextUnknown, sg_risk_level = ''standard'',
       sg_verifier_profile = ''v'', sg_latency_class = LatencyUnknown, sg_cost_class = CostUnknown,
       sg_strategy_revisions = [], sg_skill_revisions = [], sg_execution_role = RolePrimary, sg_profile_version = ''1''\<rparr>,
     rrq_execution_role = RolePrimary, rrq_capability_requirements = [],
     rrq_provider_constraints = \<lparr>pc_allowed_provider_ids = [], pc_denied_provider_ids = [], pc_require_healthy = True\<rparr>,
     rrq_context_requirement = \<lparr>cx_estimated_tokens = 10, cx_reserved_output_tokens = 0, cx_required_modalities = [''text'']\<rparr>,
     rrq_budget = sample_routing_budget, rrq_policy_id = ''s'', rrq_policy_revision = 1,
     rrq_provider_registry_snapshot = [\<lparr>ph_provider_id = ''p'', ph_status = ProviderAvailable, ph_checked_at = 0\<rparr>],
     rrq_operator_restriction = None, rrq_strategy_references = [], rrq_skill_references = [],
     rrq_requested_by = ''o'', rrq_created_at = 0\<rparr>"

definition sample_repo :: "RoutingControlMode \<Rightarrow> routing_repo" where
  "sample_repo mode = empty_routing\<lparr>rr_profiles := [((''b'', 1), sample_profile ''b''), ((''a'', 1), sample_profile ''a'')],
     rr_policies := [((''s'', 1), sample_routing_policy mode)]\<rparr>"

lemmas sample_routing_defs = sample_router_def sample_profile_def sample_routing_budget_def sample_routing_policy_def
  sample_routing_request_def sample_repo_def empty_routing_def

lemmas route_defs = route_among_def make_decision_def filter_model_def provider_reasons_def fit_reasons_def collect_def
  identity_of_def health_by_provider_def score_model_def static_score_def static_priority_def order_eligible_def
  fallback_entries_def order_exclusions_def decision_error_def repo_get_policy_def repo_query_profiles_def
  keep_newest_def repo_list_statistics_def py_take_def repo_record_decision_def repo_record_access_def
  immutable_set_def declared_by_def on_routing_andthen

lemmas flow_defs = lift_res_def bnd_def asks_def ret_def Let_def decision_mode_def chosen_def fallback_models_def

lemma snd_Inr: "\<exists>d. snd x = Inr d \<and> P d \<Longrightarrow> \<exists>r d. x = (r, Inr d) \<and> P d"
  by (metis prod.collapse)

section \<open>The choice and its fallback\<close>

lemma sample_route:
  "\<exists>r d. route_static sample_router sample_routing_request (sample_routing_policy ModeStatic) (sample_repo ModeStatic) = (r, Inr d) \<and>
     chosen sample_router d = Some ''a'' \<and> rd_fallback_order d =
       [\<lparr>rfe_position = 1, rfe_model_identity_hash = ''b'', rfe_reason = FbProviderUnavailable\<rparr>]"
  by (rule snd_Inr, simp add: route_static_def sample_routing_defs, simp add: route_defs flow_defs)

lemma sample_fallback:
  assumes "rd_fallback_order d = [\<lparr>rfe_position = 1, rfe_model_identity_hash = ''b'', rfe_reason = FbProviderUnavailable\<rparr>]"
  shows "\<exists>r d'. route_fallback sample_router sample_routing_request (sample_routing_policy ModeStatic) d
    FbRateLimited 1 (sample_repo ModeStatic) = (r, Inr d') \<and> chosen sample_router d' = Some ''b''"
  by (rule snd_Inr, simp add: route_fallback_def assms fallback_allowed_def fallback_profiles_def repo_get_profile_def
    sample_routing_defs, simp add: route_defs flow_defs)

lemma sample_repo_ok: "routing_ok sample_router (sample_repo mode)"
  by (auto simp: routing_ok_def keyed_def chained_def profile_key_def policy_key_def identity_of_def sample_routing_defs
    split: if_splits)

lemma static_route_selects_best_witness:
  "\<exists>(r :: routing_repo) d. dict_get (rr_decisions r) (rd_decision_id d) = Some d \<and> chosen sample_router d = Some ''a'' \<and>
     rp_status (sample_routing_policy ModeStatic) = PolicyEnabled"
proof -
  obtain r d where "route_static sample_router sample_routing_request (sample_routing_policy ModeStatic)
      (sample_repo ModeStatic) = (r, Inr d)" and c: "chosen sample_router d = Some ''a''"
    using sample_route by blast
  from static_route_selects_best [OF this(1)] c show ?thesis
    by (intro exI [of _ r] exI [of _ d]) simp
qed

lemma fallbacks_never_repeat_witness:
  "\<exists>d d'. fallback_chain sample_router d [d'] \<and> distinct [chosen sample_router d, chosen sample_router d'] \<and>
     chosen sample_router d' = Some ''b''"
proof -
  obtain r d where d: "route_static sample_router sample_routing_request (sample_routing_policy ModeStatic)
      (sample_repo ModeStatic) = (r, Inr d)"
    and f: "rd_fallback_order d = [\<lparr>rfe_position = 1, rfe_model_identity_hash = ''b'', rfe_reason = FbProviderUnavailable\<rparr>]"
    using sample_route by blast
  obtain s d' where d': "route_fallback sample_router sample_routing_request (sample_routing_policy ModeStatic) d
      FbRateLimited 1 (sample_repo ModeStatic) = (s, Inr d')" "chosen sample_router d' = Some ''b''"
    using sample_fallback [OF f] by blast
  have "fallback_chain sample_router d [d']"
    by (rule chain_step [OF d'(1) sample_repo_ok chain_end])
  with fallbacks_never_repeat [OF sample_repo_ok d this] d'(2) show ?thesis
    by (intro exI [of _ d] exI [of _ d']) simp
qed

lemma request_is_decided_once_witness:
  "\<exists>r d s. route_static sample_router sample_routing_request (sample_routing_policy ModeStatic) (sample_repo ModeStatic) = (r, Inr d) \<and>
     route_static sample_router sample_routing_request (sample_routing_policy ModeStatic) r = (s, Inr d)"
  using sample_route request_is_decided_once by blast

section \<open>History and budgets\<close>

lemma routing_history_is_kept_witness:
  "dict_get (rr_profiles (fst (create_policy (sample_routing_policy ModeStatic)
     (fst (register_profile sample_router (sample_profile ''a'') empty_routing))))) (''a'', 1) = Some (sample_profile ''a'')"
proof -
  define r where "r = fst (register_profile sample_router (sample_profile ''a'') empty_routing)"
  define r' where "r' = fst (create_policy (sample_routing_policy ModeStatic) r)"
  have "routing_step sample_router empty_routing r" "routing_step sample_router r r'"
    unfolding r_def r'_def by (auto intro: routing_step.intros(1,2) prod.collapse [symmetric])
  then have "(routing_step sample_router)\<^sup>*\<^sup>* empty_routing r" "(routing_step sample_router)\<^sup>*\<^sup>* r r'" by auto
  from routing_history_is_kept [OF this] have "dict_get (rr_profiles r) \<subseteq>\<^sub>m dict_get (rr_profiles r')"
    by (simp add: routing_extends_def)
  moreover have "dict_get (rr_profiles r) (''a'', 1) = Some (sample_profile ''a'')"
    by (simp add: r_def register_profile_def on_routing_def repo_register_profile_def revision_set_def sample_routing_defs)
  ultimately show ?thesis unfolding r_def [symmetric] r'_def [symmetric] by (metis map_le_def domI)
qed

lemma effective_budget_is_greatest_witness:
  "\<exists>p. build_multi_model_plan 1 \<lparr>mmp_pattern_type = SingleModel, mmp_roles = [RolePrimary]\<rparr>
      [\<lparr>mmr_role = RolePrimary, mmr_routing_request_id = 1, mmr_routing_decision_id = 2,
        mmr_context_bundle_reference = ''c'', mmr_token_reservation = 10\<rparr>]
      sample_routing_budget (sample_routing_budget\<lparr>rb_maximum_tokens := 50\<rparr>)
      (sample_routing_budget\<lparr>rb_maximum_cost_units := Some 3\<rparr>) sample_routing_budget ''v'' ''c'' = Inr p \<and>
    budget_within (mme_effective_budget p) (sample_routing_budget\<lparr>rb_maximum_cost_units := Some 3\<rparr>)"
proof -
  let ?m = "build_multi_model_plan 1 \<lparr>mmp_pattern_type = SingleModel, mmp_roles = [RolePrimary]\<rparr>
      [\<lparr>mmr_role = RolePrimary, mmr_routing_request_id = 1, mmr_routing_decision_id = 2,
        mmr_context_bundle_reference = ''c'', mmr_token_reservation = 10\<rparr>]
      sample_routing_budget (sample_routing_budget\<lparr>rb_maximum_tokens := 50\<rparr>)
      (sample_routing_budget\<lparr>rb_maximum_cost_units := Some 3\<rparr>) sample_routing_budget ''v'' ''c''"
  have "non_empty_str ''v''" "non_empty_str ''c''" by code_simp+
  then obtain p where p: "?m = Inr p"
    by (simp add: build_multi_model_plan_def intersect_budgets_def sample_routing_budget_def)
  with effective_budget_is_greatest [OF p] show ?thesis by simp
qed

section \<open>Adaptive policies\<close>

definition sample_experiment :: RoutingExperimentResult where
  "sample_experiment = \<lparr>rer_experiment_id = 1, rer_results = [\<lparr>srr_static_decision_id = 1, srr_shadow_decision_id = 2,
     srr_static_model_hash = None, srr_shadow_model_hash = None, srr_expected_score_delta = None,
     srr_executed_outcome_id = None\<rparr>], rer_agreement_rate = 1, rer_completed_at = 0\<rparr>"

lemma sample_policies_valid:
  "routing_policy_error (approved_policy (sample_routing_policy ModeStatic) ''ok'' []) = None"
  "routing_policy_error (next_policy (approved_policy (sample_routing_policy ModeStatic) ''ok'' []) PolicyEnabled
     ''bounded adaptive policy explicitly enabled'') = None"
  "routing_policy_error (next_policy (sample_routing_policy ModeAdaptive) PolicyDisabled (py_strip ''off'')) = None"
  by code_simp+

lemma enablement_passes_the_gate_witness:
  "\<exists>r enabled. approve_and_enable (sample_routing_policy ModeStatic) (assess_promotion sample_router
      (sample_routing_policy ModeStatic) sample_experiment 40 (5 / 100) 0 0 True True None) ''ok'' []
      (sample_repo ModeStatic) = (r, Inr enabled) \<and> repo_get_policy r ''s'' (Some 3) = Some enabled"
proof -
  let ?m = "approve_and_enable (sample_routing_policy ModeStatic) (assess_promotion sample_router
      (sample_routing_policy ModeStatic) sample_experiment 40 (5 / 100) 0 0 True True None) ''ok'' []
      (sample_repo ModeStatic)"
  have "\<exists>e. snd ?m = Inr e"
    using sample_policies_valid(1,2)
    by (simp add: approve_and_enable_def assess_promotion_def gate_reasons_def succeed_policy_def construct_def
      create_policy_def on_routing_andthen repo_create_policy_def revision_set_def flow_defs sample_experiment_def)
      (simp add: sample_routing_defs next_policy_def approved_policy_def revision_set_def)
  then obtain r e where m: "?m = (r, Inr e)" by (metis prod.collapse)
  from enablement_passes_the_gate [OF m] have "repo_get_policy r ''s'' (Some 3) = Some e"
    by (simp add: sample_routing_policy_def)
  with m show ?thesis by blast
qed

lemma select_statistics_empty: "select_statistics [] n cs = None"
  by (induction cs) simp_all

lemma sample_router_config:
  "rk_maximum_models (rt_config sample_router) = 256" "rk_maximum_candidate_models (rt_config sample_router) = 32"
  by (simp_all add: sample_router_def)

lemma sample_routing_policy_fields:
  "rp_policy_id (sample_routing_policy mode) = ''s''" "rp_revision (sample_routing_policy mode) = 1"
  "rp_control_mode (sample_routing_policy mode) = mode" "rp_status (sample_routing_policy mode) = PolicyEnabled"
  "rp_operator_approval_reference (sample_routing_policy mode) = Some ''a''"
  "rp_allowed_task_signature_hashes (sample_routing_policy mode) = []"
  "rrq_policy_id sample_routing_request = ''s''" "rrq_policy_revision sample_routing_request = 1"
  by (simp_all add: sample_routing_policy_def sample_routing_request_def)

lemma sample_persisted: "repo_get_policy (sample_repo mode) ''s'' (Some 1) = Some (sample_routing_policy mode)"
  by (simp add: repo_get_policy_def sample_repo_def empty_routing_def)

lemma unmeasured_score:
  assumes "score_statistics env (identity_of env p) (rrq_task_signature q) (sample_routing_policy mode) stats = None"
  shows "adaptive_score env p q (sample_routing_policy mode) stats =
   Inr \<lparr>rcs_model_identity_hash = identity_of env p, rcs_eligible = True, rcs_static_priority = 0,
     rcs_dimensions = [], rcs_uncertainty = 1, rcs_total = - 1 / 4, rcs_source_statistics_hash = None,
     rcs_source_cohort_level = None\<rparr>"
proof -
  have "dec_mul (1 / 4) 1 = 1 / 4" "dec_sub 0 (1 / 4) = - 1 / 4" "quantize6 (- 1 / 4) = Some (- 1 / 4)" "dec_sum [] = 0"
    by code_simp+
  moreover have "rp_uncertainty_penalty (sample_routing_policy mode) = 1 / 4" "rp_score_weights (sample_routing_policy mode) = []"
    by (simp_all add: sample_routing_policy_def)
  ultimately show ?thesis
    by (simp only: adaptive_score_def adaptive_uncertainty_def assms foldl.simps score_uncertainty_def
      score_dimensions.simps Let_def option.case map_option_case list.map)
qed

lemma sample_adaptive_score:
  "adaptive_score sample_router p sample_routing_request (sample_routing_policy mode) [] =
   Inr \<lparr>rcs_model_identity_hash = identity_of sample_router p, rcs_eligible = True, rcs_static_priority = 0,
     rcs_dimensions = [], rcs_uncertainty = 1, rcs_total = - 1 / 4, rcs_source_statistics_hash = None,
     rcs_source_cohort_level = None\<rparr>"
  by (rule unmeasured_score) (simp add: score_statistics_def matching_by_cohort_def select_statistics_empty)

lemma sample_no_statistics: "repo_list_statistics (sample_repo mode) n = []"
  by (simp add: repo_list_statistics_def sample_repo_def empty_routing_def py_take_def)

lemma sample_candidates: "repo_query_profiles (rt_identity_hash sample_router) (sample_repo mode) 32 =
    [sample_profile ''a'', sample_profile ''b'']"
  by (simp add: route_defs sample_routing_defs)

lemma sample_eligible: "filter_model sample_router (sample_profile m) sample_routing_request (sample_routing_policy mode)
    (dict_get (health_by_provider (rrq_provider_registry_snapshot sample_routing_request))
      (mi_provider_id (mcp_model_identity (sample_profile m)))) = Inr []"
  by (simp add: route_defs sample_routing_defs Let_def)

lemma sample_adaptive_route:
  "\<exists>r d. route_adaptive sample_router sample_routing_request (sample_routing_policy ModeAdaptive) (sample_repo ModeAdaptive) = (r, Inr d) \<and>
     chosen sample_router d = Some ''a''"
proof (rule snd_Inr)
  have rank: "rank_candidates sample_router sample_routing_request (sample_routing_policy ModeAdaptive) [] True 0
      [sample_profile ''a'', sample_profile ''b''] = Inr ([], map (\<lambda>p. (p,
        \<lparr>rcs_model_identity_hash = identity_of sample_router p, rcs_eligible = True, rcs_static_priority = 0,
         rcs_dimensions = [], rcs_uncertainty = 1, rcs_total = - 1 / 4, rcs_source_statistics_hash = None,
         rcs_source_cohort_level = None\<rparr>)) [sample_profile ''a'', sample_profile ''b''])"
    by (simp add: sample_eligible score_model_def sample_adaptive_score)
  show "\<exists>d. snd (route_adaptive sample_router sample_routing_request (sample_routing_policy ModeAdaptive)
      (sample_repo ModeAdaptive)) = Inr d \<and> chosen sample_router d = Some ''a''"
    by (simp add: route_adaptive_def str_truthy_def sample_router_config sample_routing_policy_fields sample_candidates sample_persisted,
        simp add: route_among_def sample_no_statistics,
        simp add: make_decision_def rank flow_defs del: rank_candidates.simps)
      (simp add: route_defs flow_defs sample_routing_defs)
qed


section \<open>Statistics\<close>

definition sample_observation :: RoutingObservation where
  "sample_observation = \<lparr>rob_observation_id = 1, rob_model_identity = mcp_model_identity (sample_profile ''a''),
     rob_task_signature = rrq_task_signature sample_routing_request, rob_routing_policy_reference = ''s'',
     rob_execution_role = RolePrimary, rob_provider_call_reference = ''c'', rob_context_bundle_reference = ''b'',
     rob_skill_revision = None, rob_strategy_revision = None, rob_verifier_bundle_reference = ''v'',
     rob_acceptance_decision_reference = ''d'', rob_status = ObservedAccepted, rob_latency_ms = Some 12,
     rob_token_usage = None, rob_cost_units = None, rob_structured_output_valid = Some True,
     rob_tool_calls_valid = None, rob_safety_passed = Some True, rob_source_refs = [],
     rob_evidence_type = VerifiedTaskOutcome, rob_created_at = 5\<rparr>"

definition observed_repo :: routing_repo where
  "observed_repo = empty_routing\<lparr>rr_observations := [(1, sample_observation)]\<rparr>"

definition measuring_router :: routing_env where
  "measuring_router = sample_router\<lparr>rt_uuid5 := (\<lambda>t. of_nat (length t))\<rparr>"

definition sample_estimate_hash :: "CapabilityEstimateSet \<Rightarrow> string" where
  "sample_estimate_hash s = (let c = coh_cohort_level (ests_cohort s) in if c = ''global'' then ''x'' else c)"

lemma sample_intervals:
  "wilson_interval (\<lambda>_. 0) 1 1 = Some (Some (1, 603275 / 1000000, 603275 / 1000000))"
  "wilson_interval (\<lambda>_. 0) 0 1 = Some (Some (0, 396725 / 1000000, 396725 / 1000000))"
  "wilson_interval (\<lambda>_. 0) 0 0 = Some None"
proof -
  have c: "of_int 603275 - 1 / 2 < wilson_center 1 1 * 1000000" "wilson_center 1 1 * 1000000 < of_int 603275 + 1 / 2"
    and d: "of_int 396725 - 1 / 2 < wilson_center 0 1 * 1000000" "wilson_center 0 1 * 1000000 < of_int 396725 + 1 / 2"
    by (simp_all add: wilson_center_def wilson_z_def Let_def)
  then have "min 1 (wilson_center 1 1) = wilson_center 1 1" "max 0 (wilson_center 1 1) = wilson_center 1 1"
    "min 1 (wilson_center 0 1) = wilson_center 0 1" "max 0 (wilson_center 0 1) = wilson_center 0 1" by simp_all
  with quantize6_near [OF c] quantize6_near [OF d] quantize6_near [of 1000000 1] quantize6_near [of 0 0]
  show "wilson_interval (\<lambda>_. 0) 1 1 = Some (Some (1, 603275 / 1000000, 603275 / 1000000))"
    "wilson_interval (\<lambda>_. 0) 0 1 = Some (Some (0, 396725 / 1000000, 396725 / 1000000))"
    "wilson_interval (\<lambda>_. 0) 0 0 = Some None"
    by (simp_all add: wilson_interval_def wilson_margin_def Let_def)
qed

lemma sample_decimals: "in_context 0 = 0" "in_context 1 = 1" "in_context 2 = 2" "in_context 12 = 12"
  "quantize6 1 = Some 1" "quantize6 12 = Some 12"
  by code_simp+

lemma sample_estimates:
  "\<exists>es. group_estimates (\<lambda>_. 0) [sample_observation] = Some es \<and> map est_effective_sample_count es = [1, 1, 0, 1, 1, 1, 0]"
  by (simp add: group_estimates_def binary_estimate_def continuous_estimate_def sample_observation_def present_def
    share_def dec_sub_def dec_add_def dec_sum_def median_of_def quantize_any_def sample_intervals sample_decimals Let_def)

lemma measuring_router_fields:
  "rt_identity_hash measuring_router = mi_model_id" "rt_signature_hash measuring_router = sg_risk_level"
  "rt_unskilled_json measuring_router = sg_problem_class" "rt_cohort_hash measuring_router = coh_cohort_level"
  "rt_sha256 measuring_router = id" "rt_uuid5 measuring_router = (\<lambda>t. of_nat (length t))"
  "rk_maximum_observations_per_import (rt_config measuring_router) = 10000"
  "rk_minimum_measured_samples (rt_config measuring_router) = 5"
  by (simp_all add: measuring_router_def sample_router_def)

lemma sample_observation_fields:
  "rob_task_signature sample_observation = rrq_task_signature sample_routing_request"
  "mi_model_id (rob_model_identity sample_observation) = ''a''"
  by (simp_all add: sample_observation_def sample_profile_def)

lemmas sample_signature_fields = TaskSignature.simps RoutingRequest.simps sample_routing_request_def

lemma sample_chain: "map coh_cohort_level (cohort_chain measuring_router t) = map fst (cohort_levels measuring_router t)"
  by (simp add: cohort_chain_def cohort_levels_def Let_def)

text \<open>The statistics of the one observation in a cohort.\<close>

definition sample_statistics :: "CapabilityEstimate list \<Rightarrow> CapabilityCohort \<Rightarrow> string \<Rightarrow> RoutingStatistics" where
  "sample_statistics es c h = (let s = \<lparr>ests_cohort = c, ests_estimates = es,
       ests_statistics_profile = ''routing-statistics-v1'', ests_source_observation_ids = [rob_observation_id sample_observation]\<rparr> in
     \<lparr>rst_statistics_id = rt_uuid5 measuring_router (''routing-statistics:'' @ h @ '':'' @ sample_estimate_hash s),
      rst_model_identity_hash = h, rst_cohort = c, rst_estimates = s,
      rst_source_observation_ids = [rob_observation_id sample_observation],
      rst_rebuilt_at = rob_created_at sample_observation\<rparr>)"

lemma sample_group:
  assumes "group_estimates (\<lambda>_. 0) [sample_observation] = Some es"
  shows "group_statistics measuring_router (\<lambda>_. 0) sample_estimate_hash cohorts ((h, k), [sample_observation]) =
    (case dict_get cohorts k of None \<Rightarrow> Inl RtKey | Some c \<Rightarrow> Inr (sample_statistics es c h))"
  by (simp add: group_statistics_def assms sample_statistics_def Let_def split: option.split)

lemma sample_groups:
  "group_all measuring_router [sample_observation] =
   (map (\<lambda>c. ((''a'', coh_cohort_level c), [sample_observation])) (cohort_chain measuring_router (rrq_task_signature sample_routing_request)),
    map (\<lambda>c. (coh_cohort_level c, c)) (cohort_chain measuring_router (rrq_task_signature sample_routing_request)))"
  by (simp add: group_all_def group_observation_def sample_observation_fields measuring_router_fields group_add_def
    cohort_chain_def cohort_levels_def Let_def)

lemma sample_statistics_id: "rst_statistics_id (sample_statistics es c h) =
    of_nat (20 + length h + length (if coh_cohort_level c = ''global'' then ''x'' else coh_cohort_level c))"
  by (simp add: sample_statistics_def Let_def measuring_router_fields sample_estimate_hash_def)

lemma record_new_group:
  assumes "group_statistics env sq estimate_hash cohorts g = Inr x" "dict_get (rr_statistics r) (rst_statistics_id x) = None"
  shows "record_groups env sq estimate_hash cohorts (g # gs) r =
    (case record_groups env sq estimate_hash cohorts gs (r\<lparr>rr_statistics := dict_set (rr_statistics r) (rst_statistics_id x) x\<rparr>) of
       (r', Inl e) \<Rightarrow> (r', Inl e) | (r', Inr xs) \<Rightarrow> (r', Inr (x # xs)))"
  using assms by (simp add: bnd_def lift_res_def on_routing_andthen repo_record_statistics_def immutable_set_def ret_def
    split: prod.split sum.split)

lemma sample_rebuild:
  assumes "group_estimates (\<lambda>_. 0) [sample_observation] = Some es"
  shows "\<exists>r c xs. rebuild_statistics measuring_router (\<lambda>_. 0) sample_estimate_hash 100 observed_repo =
      (r, Inr (sample_statistics es c ''a'' # xs))"
proof -
  have obs: "repo_list_observations observed_repo n = py_take n [sample_observation]" for n
    by (simp add: repo_list_observations_def observed_repo_def)
  have "\<exists>c xs. snd (rebuild_statistics measuring_router (\<lambda>_. 0) sample_estimate_hash 100 observed_repo) =
      Inr (sample_statistics es c ''a'' # xs)"
    by (simp add: rebuild_statistics_def obs py_take_def sample_groups measuring_router_fields del: record_groups.simps(2),
        simp add: cohort_chain_def cohort_levels_def Let_def measuring_router_fields del: record_groups.simps(2))
      (simp add: record_new_group sample_group [OF assms] sample_statistics_id observed_repo_def empty_routing_def
        ret_def del: record_groups.simps(2), blast)
  then show ?thesis by (metis prod.collapse)
qed

lemma select_statistics_few:
  "\<forall>x \<in> ran (dict_get d). effective_samples x < n \<Longrightarrow> select_statistics d n cs = None"
  by (induction cs) (auto simp: ran_def split: option.split)

lemma scores_are_bounded_witness:
  "\<exists>r x xs score. rebuild_statistics measuring_router (\<lambda>_. 0) sample_estimate_hash 100 observed_repo = (r, Inr (x # xs)) \<and>
     statistics_bounded x \<and> ests_estimates (rst_estimates x) \<noteq> [] \<and>
     adaptive_score measuring_router (sample_profile ''a'') sample_routing_request
       (sample_routing_policy ModeAdaptive) [x] = Inr score \<and> rcs_uncertainty score \<le> 1"
proof -
  obtain es where es: "group_estimates (\<lambda>_. 0) [sample_observation] = Some es"
    and n: "map est_effective_sample_count es = [1, 1, 0, 1, 1, 1, 0]"
    by (rule exE [OF sample_estimates]) (elim conjE, rule that)
  obtain r c xs where r: "rebuild_statistics measuring_router (\<lambda>_. 0) sample_estimate_hash 100 observed_repo =
      (r, Inr (sample_statistics es c ''a'' # xs))"
    using sample_rebuild [OF es] by blast
  let ?x = "sample_statistics es c ''a''"
  have e: "ests_estimates (rst_estimates ?x) = es" by (simp add: sample_statistics_def Let_def)
  have "effective_samples ?x = 1" by (simp add: effective_samples_def e n)
  then have "\<forall>y \<in> ran (dict_get (matching_by_cohort h [?x])). effective_samples y < 5" for h
    by (simp add: matching_by_cohort_def ran_def)
  then have "score_statistics measuring_router h t (sample_routing_policy ModeAdaptive) [?x] = None" for h t
    by (simp add: score_statistics_def measuring_router_fields sample_routing_policy_def select_statistics_few)
  from unmeasured_score [OF this] obtain score where score: "adaptive_score measuring_router (sample_profile ''a'')
      sample_routing_request (sample_routing_policy ModeAdaptive) [?x] = Inr score" by blast
  have "\<forall>x \<ge> 0. 0 \<le> (0 :: pyfloat)" by simp
  from scores_are_bounded [OF this r _ score] have "statistics_bounded ?x" "rcs_uncertainty score \<le> 1" by simp_all
  moreover from n have "es \<noteq> []" by auto
  ultimately show ?thesis using r score e by metis
qed

end
