(* ===== verification/Spec2Isabelle.thy ===== *)
theory Spec2Isabelle
  imports Ctl_Run_Props Ctl_Continue_Props Tool_Lifecycle Model_Props Verifier_Lifecycle Generic_Props Memory_Props Plan_Props Action_Props Routing_Samples
begin

text \<open>The cognitive controller and the services it relies on.\<close>

end
